(* ===== verification/Prelude.thy ===== *)
theory Prelude
  imports Main "HOL-Library.Sublist"
begin

text \<open>
  Shared vocabulary of the development: the JavaScript string operations the front end uses,
  on the byte strings (UTF-8) that stand for its texts, and the generic facts about them.

  A text is a \<open>string\<close>, the list of its UTF-8 bytes. Equality, concatenation,
  \<open>includes\<close>, \<open>startsWith\<close>, \<open>endsWith\<close> and splitting or replacing at ASCII
  characters mean the same on bytes as on UTF-16 units. White space is the ASCII white space
  (tab, line feed, vertical tab, form feed, carriage return, blank) and the case mappings act on
  the ASCII letters; other characters are left as they are.
\<close>

named_theorems js_defs \<open>unfolding rules of the JavaScript string operations\<close>

section \<open>Predicates on strings\<close>

abbreviation starts_with :: "string \<Rightarrow> string \<Rightarrow> bool" where
  "starts_with s p \<equiv> prefix p s"

definition ends_with :: "string \<Rightarrow> string \<Rightarrow> bool" where
  "ends_with s p \<longleftrightarrow> prefix (rev p) (rev s)"

fun str_includes :: "string \<Rightarrow> string \<Rightarrow> bool" where
  "str_includes [] t \<longleftrightarrow> t = []"
| "str_includes (c # s) t \<longleftrightarrow> prefix t (c # s) \<or> str_includes s t"

definition is_ws :: "char \<Rightarrow> bool" where
  "is_ws c \<longleftrightarrow> c \<in> set [CHR '' '', CHR 0x09, CHR 0x0A, CHR 0x0B, CHR 0x0C, CHR 0x0D]"

declare ends_with_def [js_defs] is_ws_def [js_defs]

lemma ends_with_suffix: "ends_with s p \<longleftrightarrow> suffix p s"
  by (simp add: ends_with_def suffix_to_prefix)

lemma ends_with_append [simp]: "ends_with (s @ p) p"
  by (auto simp: ends_with_suffix suffix_def)

lemma str_includes_Nil [simp]: "str_includes s []"
  by (cases s) simp_all

lemma str_includes_iff: "str_includes s t \<longleftrightarrow> (\<exists>u v. s = u @ t @ v)"
proof (induction s)
  case Nil
  then show ?case by auto
next
  case (Cons c s)
  have "(\<exists>u v. c # s = u @ t @ v) \<longleftrightarrow> prefix t (c # s) \<or> (\<exists>u v. s = u @ t @ v)"
    by (auto simp: prefix_def Cons_eq_append_conv)
  with Cons show ?case by simp
qed

section \<open>Case mapping\<close>

primrec flip_case :: "bool \<Rightarrow> char \<Rightarrow> char" where
  "flip_case b (Char b0 b1 b2 b3 b4 b5 b6 b7) = Char b0 b1 b2 b3 b4 b b6 b7"

definition is_upper :: "char \<Rightarrow> bool" where
  "is_upper c \<longleftrightarrow> (65::nat) \<le> of_char c \<and> of_char c \<le> (90::nat)"

definition is_lower :: "char \<Rightarrow> bool" where
  "is_lower c \<longleftrightarrow> (97::nat) \<le> of_char c \<and> of_char c \<le> (122::nat)"

definition is_digit :: "char \<Rightarrow> bool" where
  "is_digit c \<longleftrightarrow> (48::nat) \<le> of_char c \<and> of_char c \<le> (57::nat)"

definition lower_char :: "char \<Rightarrow> char" where
  "lower_char c = (if is_upper c then flip_case True c else c)"

definition upper_char :: "char \<Rightarrow> char" where
  "upper_char c = (if is_lower c then flip_case False c else c)"

definition lower :: "string \<Rightarrow> string" where
  "lower s = map lower_char s"

definition upper :: "string \<Rightarrow> string" where
  "upper s = map upper_char s"

text \<open>The three character classes read off the bits of the character.\<close>

lemma is_upper_Char [simp, code]:
  "is_upper (Char b0 b1 b2 b3 b4 b5 b6 b7) \<longleftrightarrow>
     \<not> b7 \<and> b6 \<and> \<not> b5 \<and> (b4 \<or> b3 \<or> b2 \<or> b1 \<or> b0) \<and> \<not> (b4 \<and> b3 \<and> (b2 \<or> b1 \<and> b0))"
  by (simp add: is_upper_def of_char_def)

lemma is_lower_Char [simp, code]:
  "is_lower (Char b0 b1 b2 b3 b4 b5 b6 b7) \<longleftrightarrow>
     \<not> b7 \<and> b6 \<and> b5 \<and> (b4 \<or> b3 \<or> b2 \<or> b1 \<or> b0) \<and> \<not> (b4 \<and> b3 \<and> (b2 \<or> b1 \<and> b0))"
  by (simp add: is_lower_def of_char_def)

lemma is_digit_Char [simp, code]:
  "is_digit (Char b0 b1 b2 b3 b4 b5 b6 b7) \<longleftrightarrow>
     \<not> b7 \<and> \<not> b6 \<and> b5 \<and> b4 \<and> \<not> (b3 \<and> (b2 \<or> b1))"
  by (simp add: is_digit_def of_char_def)

declare lower_char_def [js_defs] upper_char_def [js_defs] lower_def [js_defs] upper_def [js_defs]

lemma not_upper_flip_True: "\<not> is_upper (flip_case True c)"
  by (cases c) simp

lemma lower_char_idem [simp]: "lower_char (lower_char c) = lower_char c"
  by (simp add: lower_char_def not_upper_flip_True)

lemma lower_idem [simp]: "lower (lower s) = lower s"
  by (simp add: lower_def)

lemma lower_append [simp]: "lower (s @ t) = lower s @ lower t"
  by (simp add: lower_def)

lemma lower_Nil_iff [simp]: "lower s = [] \<longleftrightarrow> s = []"
  by (simp add: lower_def)

lemma length_lower [simp]: "length (lower s) = length s"
  by (simp add: lower_def)

section \<open>Stripping characters at the ends\<close>

definition strip_left :: "(char \<Rightarrow> bool) \<Rightarrow> string \<Rightarrow> string" where
  "strip_left P s = dropWhile P s"

definition strip_right :: "(char \<Rightarrow> bool) \<Rightarrow> string \<Rightarrow> string" where
  "strip_right P s = rev (dropWhile P (rev s))"

definition trim :: "string \<Rightarrow> string" where
  "trim s = strip_right is_ws (strip_left is_ws s)"

declare strip_left_def [js_defs] strip_right_def [js_defs] trim_def [js_defs]

lemma strip_right_Nil [simp]: "strip_right P [] = []"
  by (simp add: strip_right_def)

lemma strip_left_Nil [simp]: "strip_left P [] = []"
  by (simp add: strip_left_def)

lemma strip_right_snoc: "strip_right P (s @ [c]) = (if P c then strip_right P s else s @ [c])"
  by (simp add: strip_right_def)

lemma strip_right_single [simp]: "strip_right P [c] = (if P c then [] else [c])"
  by (simp add: strip_right_def)

lemma strip_right_idem [simp]: "strip_right P (strip_right P s) = strip_right P s"
  by (simp add: strip_right_def dropWhile_idem)

lemma strip_right_id: "s = [] \<or> \<not> P (last s) \<Longrightarrow> strip_right P s = s"
  by (cases s rule: rev_cases) (simp_all add: strip_right_snoc)

lemma strip_right_last: "strip_right P s \<noteq> [] \<Longrightarrow> \<not> P (last (strip_right P s))"
  by (induction s rule: rev_induct) (auto simp: strip_right_snoc)

lemma strip_right_prefix: "\<exists>t. s = strip_right P s @ t \<and> (\<forall>c \<in> set t. P c)"
proof -
  have "rev s = takeWhile P (rev s) @ dropWhile P (rev s)" by simp
  then have "s = strip_right P s @ rev (takeWhile P (rev s))"
    unfolding strip_right_def by (metis rev_append rev_rev_ident)
  then show ?thesis by (metis set_rev set_takeWhileD)
qed

lemma strip_right_Nil_iff: "strip_right P s = [] \<longleftrightarrow> (\<forall>c \<in> set s. P c)"
  by (simp add: strip_right_def dropWhile_eq_Nil_conv)

lemma strip_right_subset: "set (strip_right P s) \<subseteq> set s"
  using strip_right_prefix [of s P] by (metis Un_upper1 set_append)

lemma strip_right_hd: "strip_right P s \<noteq> [] \<Longrightarrow> hd (strip_right P s) = hd s"
  using strip_right_prefix [of s P] by (metis hd_append2)

lemma strip_left_id: "s = [] \<or> \<not> P (hd s) \<Longrightarrow> strip_left P s = s"
  by (cases s) (simp_all add: strip_left_def)

lemma strip_left_hd: "strip_left P s \<noteq> [] \<Longrightarrow> \<not> P (hd (strip_left P s))"
  by (simp add: strip_left_def hd_dropWhile)

lemma strip_left_subset: "set (strip_left P s) \<subseteq> set s"
  by (auto simp: strip_left_def dest: set_dropWhileD)

lemma trim_Nil [simp]: "trim [] = []"
  by (simp add: trim_def)

lemma trim_hd: "trim s \<noteq> [] \<Longrightarrow> \<not> is_ws (hd (trim s))"
  unfolding trim_def by (metis strip_left_hd strip_right_Nil strip_right_hd)

lemma trim_last: "trim s \<noteq> [] \<Longrightarrow> \<not> is_ws (last (trim s))"
  unfolding trim_def by (rule strip_right_last)

lemma trim_id: "s = [] \<or> (\<not> is_ws (hd s) \<and> \<not> is_ws (last s)) \<Longrightarrow> trim s = s"
  unfolding trim_def by (metis strip_left_id strip_right_id)

lemma trim_idem [simp]: "trim (trim s) = trim s"
  by (rule trim_id) (use trim_hd trim_last in blast)

lemma trim_subset: "set (trim s) \<subseteq> set s"
  unfolding trim_def using strip_left_subset strip_right_subset by blast

section \<open>Splitting, joining and replacing\<close>

text \<open>\<open>split_on c s\<close> is \<open>s.split(c)\<close> for a one-character separator.\<close>

fun split_on :: "char \<Rightarrow> string \<Rightarrow> string list" where
  "split_on d [] = [[]]"
| "split_on d (c # s) =
     (if c = d then [] # split_on d s
      else (case split_on d s of [] \<Rightarrow> [[c]] | w # ws \<Rightarrow> (c # w) # ws))"

text \<open>\<open>split_runs P s\<close> is \<open>s.split(/[P]+/)\<close>: the pieces between the maximal runs.\<close>

function split_runs :: "(char \<Rightarrow> bool) \<Rightarrow> string \<Rightarrow> string list" where
  "split_runs P s =
     (case dropWhile (\<lambda>c. \<not> P c) s of
        [] \<Rightarrow> [s]
      | _ # r \<Rightarrow> takeWhile (\<lambda>c. \<not> P c) s # split_runs P (dropWhile P r))"
  by pat_completeness auto
termination
proof (relation "measure (\<lambda>(P, s). length s)", goal_cases)
  case 1
  show ?case by simp
next
  case (2 P s x r)
  have "length (dropWhile P r) \<le> length r" by (rule length_dropWhile_le)
  also have "length r < length (dropWhile (\<lambda>c. \<not> P c) s)" using 2 by simp
  also have "\<dots> \<le> length s" by (rule length_dropWhile_le)
  finally show ?case by simp
qed

declare split_runs.simps [simp del]

fun join :: "string \<Rightarrow> string list \<Rightarrow> string" where
  "join d [] = []"
| "join d [w] = w"
| "join d (w # v # ws) = w @ d @ join d (v # ws)"

text \<open>\<open>collapse P d s\<close> is \<open>s.replace(/[P]+/g, d)\<close>; \<open>replace_char\<close> is
  \<open>replaceAll\<close> of one character by another.\<close>

function collapse :: "(char \<Rightarrow> bool) \<Rightarrow> char \<Rightarrow> string \<Rightarrow> string" where
  "collapse P d [] = []"
| "collapse P d (c # s) =
     (if P c then d # collapse P d (dropWhile P s) else c # collapse P d s)"
  by pat_completeness auto
termination
  by (relation "measure (\<lambda>(P, d, s). length s)") (auto simp: length_dropWhile_le le_imp_less_Suc)

definition replace_char :: "char \<Rightarrow> char \<Rightarrow> string \<Rightarrow> string" where
  "replace_char a b s = map (\<lambda>c. if c = a then b else c) s"

declare replace_char_def [js_defs]

text \<open>\<open>x || y\<close> on strings: the empty string is the falsy one.\<close>

definition or_str :: "string \<Rightarrow> string \<Rightarrow> string" where
  "or_str s t = (if s = [] then t else s)"

definition opt_str :: "string option \<Rightarrow> string" where
  "opt_str x = (case x of None \<Rightarrow> [] | Some s \<Rightarrow> s)"

declare or_str_def [js_defs] opt_str_def [js_defs]

lemma split_on_not_Nil [simp]: "split_on d s \<noteq> []"
  by (induction s) (auto split: list.splits)

lemma join_Cons: "ws \<noteq> [] \<Longrightarrow> join d (w # ws) = w @ d @ join d ws"
  by (cases ws) simp_all

lemma join_split_on: "join [d] (split_on d s) = s"
proof (induction s)
  case Nil
  then show ?case by simp
next
  case (Cons c s)
  obtain w ws where ws: "split_on d s = w # ws" by (metis split_on_not_Nil list.exhaust)
  with Cons show ?case by (cases ws) (simp_all add: join_Cons)
qed

lemma split_on_no_sep: "w \<in> set (split_on d s) \<Longrightarrow> d \<notin> set w"
proof (induction s arbitrary: w)
  case Nil
  then show ?case by simp
next
  case (Cons c s)
  then show ?case by (fastforce split: if_splits list.splits)
qed

lemma split_on_id: "d \<notin> set s \<Longrightarrow> split_on d s = [s]"
  by (induction s) auto

lemma split_on_append: "d \<notin> set s \<Longrightarrow> split_on d (s @ d # t) = s # split_on d t"
  by (induction s) auto

lemma length_replace_char [simp]: "length (replace_char a b s) = length s"
  by (simp add: replace_char_def)

lemma replace_char_id: "a \<notin> set s \<Longrightarrow> replace_char a b s = s"
  by (induction s) (auto simp: replace_char_def)

section \<open>Codecs\<close>

text \<open>The contract of an encoder and its decoder on the values it covers.\<close>

locale codec =
  fixes enc :: "'a \<Rightarrow> 'b"
    and dec :: "'b \<Rightarrow> 'a option"
    and covers :: "'a \<Rightarrow> bool"
  assumes dec_enc: "covers a \<Longrightarrow> dec (enc a) = Some a"
begin

lemma enc_injective: "covers a \<Longrightarrow> covers b \<Longrightarrow> enc a = enc b \<Longrightarrow> a = b"
  by (metis dec_enc option.inject)

lemma dec_each: "list_all covers xs \<Longrightarrow> those (map dec (map enc xs)) = Some xs"
  by (induction xs) (simp_all add: dec_enc)

end

end
