(* ===== verification/JsValue.thy ===== *)
theory JsValue
  imports Prelude Complex_Main
begin

text \<open>
  JavaScript values as the front end handles them: numbers, JSON-like values with ordered
  object properties, truthiness, the conversions \<open>Number(\<dots>)\<close> and \<open>String(\<dots>)\<close>, and the
  accessors of \<open>platform-page.tsx\<close> that read loosely typed metadata.

  A finite number is an exact rational. Every double is one, so comparison, division by powers
  of two and \<open>toFixed\<close> are exact; the rounding of decimal literals and of other quotients to
  the nearest double is not modelled. \<open>String(n)\<close> is the plain decimal notation, which is
  what JavaScript prints between 1e-6 and 1e21.
\<close>

section \<open>Numbers\<close>

datatype jsnum = NaN | Infty bool | Fin rat

fun digit_char :: "nat \<Rightarrow> char" where
  "digit_char n = ''0123456789'' ! (n mod 10)"

fun digit_val :: "char \<Rightarrow> nat" where
  "digit_val c = of_char c - 48"

fun show_nat :: "nat \<Rightarrow> string" where
  "show_nat n = (if n < 10 then [digit_char n] else show_nat (n div 10) @ [digit_char n])"

declare show_nat.simps [simp del]

definition nat_of_digits :: "string \<Rightarrow> nat" where
  "nat_of_digits s = foldl (\<lambda>a c. 10 * a + digit_val c) 0 s"

definition show_int :: "int \<Rightarrow> string" where
  "show_int i = (if i < 0 then CHR ''-'' # show_nat (nat (- i)) else show_nat (nat i))"

text \<open>The decimal digits of a fraction, at most \<open>n\<close> of them, without trailing zeros.\<close>

fun frac_digits :: "nat \<Rightarrow> rat \<Rightarrow> string" where
  "frac_digits 0 r = []"
| "frac_digits (Suc n) r =
     (if r = 0 then []
      else digit_char (nat \<lfloor>r * 10\<rfloor>) # frac_digits n (r * 10 - of_int \<lfloor>r * 10\<rfloor>))"

definition show_rat :: "rat \<Rightarrow> string" where
  "show_rat r =
     (let a = \<bar>r\<bar>; i = \<lfloor>a\<rfloor>; f = a - of_int i
      in (if r < 0 then ''-'' else '''') @ show_int i @
         (if f = 0 then '''' else ''.'' @ frac_digits 20 f))"

definition num_text :: "jsnum \<Rightarrow> string" where
  "num_text n = (case n of NaN \<Rightarrow> ''NaN'' | Infty True \<Rightarrow> ''Infinity'' | Infty False \<Rightarrow> ''-Infinity''
     | Fin r \<Rightarrow> show_rat r)"

text \<open>\<open>toFixed(d)\<close>: round half up on the absolute value, exactly \<open>d\<close> digits.\<close>

definition pad_left :: "nat \<Rightarrow> char \<Rightarrow> string \<Rightarrow> string" where
  "pad_left n c s = replicate (n - length s) c @ s"

definition to_fixed :: "nat \<Rightarrow> rat \<Rightarrow> string" where
  "to_fixed d r =
     (let m = nat \<lfloor>\<bar>r\<bar> * 10 ^ d + 1/2\<rfloor>
      in (if r < 0 then ''-'' else '''') @ show_nat (m div 10 ^ d) @
         (if d = 0 then '''' else ''.'' @ pad_left d CHR ''0'' (show_nat (m mod 10 ^ d))))"

text \<open>The decimal literals of \<open>Number(s)\<close>: digits, an optional fraction, an optional exponent.\<close>

definition all_digits :: "string \<Rightarrow> bool" where
  "all_digits s \<longleftrightarrow> list_all is_digit s"

definition split_first :: "char \<Rightarrow> string \<Rightarrow> string \<times> string option" where
  "split_first c s =
     (case dropWhile (\<lambda>x. x \<noteq> c) s of [] \<Rightarrow> (s, None) | _ # t \<Rightarrow> (takeWhile (\<lambda>x. x \<noteq> c) s, Some t))"

definition parse_mantissa :: "string \<Rightarrow> rat option" where
  "parse_mantissa s =
     (case split_first CHR ''.'' s of
        (a, None) \<Rightarrow> if a \<noteq> [] \<and> all_digits a then Some (of_nat (nat_of_digits a)) else None
      | (a, Some b) \<Rightarrow>
          if all_digits a \<and> all_digits b \<and> a @ b \<noteq> []
          then Some (of_nat (nat_of_digits (a @ b)) / 10 ^ length b) else None)"

definition parse_sint :: "string \<Rightarrow> int option" where
  "parse_sint s =
     (let (neg, t) = (case s of c # t' \<Rightarrow> if c = CHR ''-'' then (True, t')
                                else if c = CHR ''+'' then (False, t') else (False, s) | [] \<Rightarrow> (False, s))
      in if t \<noteq> [] \<and> all_digits t
           then Some (if neg then - int (nat_of_digits t) else int (nat_of_digits t)) else None)"

definition parse_unsigned :: "string \<Rightarrow> rat option" where
  "parse_unsigned s =
     (case split_first CHR ''e'' (lower s) of
        (m, None) \<Rightarrow> parse_mantissa m
      | (m, Some e) \<Rightarrow>
          (case (parse_mantissa m, parse_sint e) of
             (Some r, Some k) \<Rightarrow> Some (if k < 0 then r / 10 ^ nat (- k) else r * 10 ^ nat k)
           | _ \<Rightarrow> None))"

definition hex_val :: "char \<Rightarrow> nat option" where
  "hex_val c =
     (if is_digit c then Some (of_char c - 48)
      else let d = lower_char c
           in if d \<in> set ''abcdef'' then Some (of_char d - 87) else None)"

text \<open>\<open>0x\<close>, \<open>0o\<close> and \<open>0b\<close> literals, without a sign.\<close>

definition parse_radix :: "nat \<Rightarrow> string \<Rightarrow> rat option" where
  "parse_radix b s =
     (if s = [] then None
      else foldl (\<lambda>a c. case (a, hex_val c) of (Some r, Some d) \<Rightarrow>
                    if d < b then Some (of_nat b * r + of_nat d) else None | _ \<Rightarrow> None) (Some 0) s)"

definition to_number :: "string \<Rightarrow> jsnum" where
  "to_number str =
     (let s = trim str;
          fin = (\<lambda>x. case x of Some r \<Rightarrow> Fin r | None \<Rightarrow> NaN)
      in if s = [] then Fin 0
         else if s = ''Infinity'' \<or> s = ''+Infinity'' then Infty True
         else if s = ''-Infinity'' then Infty False
         else if starts_with (lower s) ''0x'' then fin (parse_radix 16 (drop 2 s))
         else if starts_with (lower s) ''0o'' then fin (parse_radix 8 (drop 2 s))
         else if starts_with (lower s) ''0b'' then fin (parse_radix 2 (drop 2 s))
         else if hd s = CHR ''-'' then fin (map_option uminus (parse_unsigned (tl s)))
         else if hd s = CHR ''+'' then fin (parse_unsigned (tl s))
         else fin (parse_unsigned s))"

text \<open>\<open>Number(s) || d\<close>: zero and \<open>NaN\<close> fall back to the default.\<close>

definition num_or :: "jsnum \<Rightarrow> jsnum \<Rightarrow> jsnum" where
  "num_or n d = (if n = NaN \<or> n = Fin 0 then d else n)"

section \<open>Values\<close>

datatype jsval =
    JUndefined | JNull | JBool bool | JNum jsnum | JStr string
  | JArr "jsval list" | JObj "(string \<times> jsval) list"

type_synonym js_object = "(string \<times> jsval) list"

definition truthy :: "jsval \<Rightarrow> bool" where
  "truthy v = (case v of JUndefined \<Rightarrow> False | JNull \<Rightarrow> False | JBool b \<Rightarrow> b
     | JNum n \<Rightarrow> n \<noteq> NaN \<and> n \<noteq> Fin 0 | JStr s \<Rightarrow> s \<noteq> [] | JArr _ \<Rightarrow> True | JObj _ \<Rightarrow> True)"

text \<open>Reading, writing and deleting an own property; objects keep their insertion order.\<close>

definition obj_get :: "js_object \<Rightarrow> string \<Rightarrow> jsval" where
  "obj_get ob k = (case map_of ob k of Some v \<Rightarrow> v | None \<Rightarrow> JUndefined)"

fun obj_set :: "js_object \<Rightarrow> string \<Rightarrow> jsval \<Rightarrow> js_object" where
  "obj_set [] k v = [(k, v)]"
| "obj_set ((k', v') # ob) k v = (if k' = k then (k, v) # ob else (k', v') # obj_set ob k v)"

definition obj_delete :: "js_object \<Rightarrow> string \<Rightarrow> js_object" where
  "obj_delete ob k = filter (\<lambda>(k', _). k' \<noteq> k) ob"

definition obj_set_all :: "js_object \<Rightarrow> js_object \<Rightarrow> js_object" where
  "obj_set_all ob upd = foldl (\<lambda>o' (k, v). obj_set o' k v) ob upd"

definition obj_delete_all :: "js_object \<Rightarrow> string list \<Rightarrow> js_object" where
  "obj_delete_all ob ks = filter (\<lambda>(k', _). k' \<notin> set ks) ob"

definition js_wf_object :: "js_object \<Rightarrow> bool" where
  "js_wf_object ob \<longleftrightarrow> distinct (map fst ob)"

lemma obj_get_set [simp]: "obj_get (obj_set ob k v) k' = (if k' = k then v else obj_get ob k')"
  by (induction ob k v rule: obj_set.induct) (auto simp: obj_get_def)

lemma map_of_filter_key: "map_of (filter (\<lambda>(k', _). P k') ob) k = (if P k then map_of ob k else None)"
  by (induction ob) auto

lemma obj_get_delete [simp]: "obj_get (obj_delete ob k) k' = (if k' = k then JUndefined else obj_get ob k')"
  by (simp add: obj_get_def obj_delete_def map_of_filter_key)

lemma obj_get_delete_all [simp]:
  "obj_get (obj_delete_all ob ks) k = (if k \<in> set ks then JUndefined else obj_get ob k)"
  by (simp add: obj_get_def obj_delete_all_def map_of_filter_key)

lemma set_fst_obj_set: "set (map fst (obj_set ob k v)) = insert k (set (map fst ob))"
  by (induction ob k v rule: obj_set.induct) auto

lemma obj_set_wf [intro]: "js_wf_object ob \<Longrightarrow> js_wf_object (obj_set ob k v)"
proof (induction ob k v rule: obj_set.induct)
  case (1 k v)
  then show ?case by (simp add: js_wf_object_def)
next
  case (2 k' v' ob k v)
  then show ?case using set_fst_obj_set [of ob k v] by (auto simp: js_wf_object_def)
qed

lemma obj_delete_wf [intro]: "js_wf_object ob \<Longrightarrow> js_wf_object (obj_delete ob k)"
  by (auto simp: js_wf_object_def obj_delete_def distinct_map intro: inj_on_subset)

lemma obj_get_set_all:
  "distinct (map fst upd) \<Longrightarrow>
     obj_get (obj_set_all ob upd) k = (case map_of upd k of Some v \<Rightarrow> v | None \<Rightarrow> obj_get ob k)"
proof (induction upd arbitrary: ob)
  case Nil
  then show ?case by (simp add: obj_set_all_def)
next
  case (Cons kv upd)
  then have "obj_get (obj_set_all (obj_set ob (fst kv) (snd kv)) upd) k =
      (case map_of upd k of Some v \<Rightarrow> v | None \<Rightarrow> obj_get (obj_set ob (fst kv) (snd kv)) k)" by simp
  moreover have "map_of upd (fst kv) = None" using Cons.prems by (simp add: map_of_eq_None_iff)
  ultimately show ?case by (cases kv; cases "map_of upd k") (auto simp: obj_set_all_def)
qed

section \<open>Accessors for loosely typed metadata\<close>

definition stringValue :: "jsval \<Rightarrow> string" where
  "stringValue v = (case v of JStr s \<Rightarrow> s | _ \<Rightarrow> [])"

definition metadataText :: "jsval \<Rightarrow> string" where
  "metadataText v =
     (case v of JStr s \<Rightarrow> s
      | JNum (Fin r) \<Rightarrow> num_text (Fin r)
      | JBool b \<Rightarrow> (if b then ''true'' else ''false'')
      | _ \<Rightarrow> [])"

definition numberValue :: "jsval \<Rightarrow> rat" where
  "numberValue v =
     (case v of JNum (Fin r) \<Rightarrow> r
      | JStr s \<Rightarrow> (case to_number s of Fin r \<Rightarrow> r | _ \<Rightarrow> 0)
      | _ \<Rightarrow> 0)"

definition metadataNumber :: "jsval \<Rightarrow> rat" where
  "metadataNumber v = numberValue v"

definition metadataBool :: "jsval \<Rightarrow> bool" where
  "metadataBool v =
     (case v of JBool b \<Rightarrow> b
      | JNum n \<Rightarrow> n \<noteq> Fin 0
      | JStr s \<Rightarrow> lower (trim s) \<in> set [''true'', ''1'', ''yes'', ''enabled'', ''online'']
      | _ \<Rightarrow> False)"

definition stringArrayValue :: "jsval \<Rightarrow> string list" where
  "stringArrayValue v =
     (case v of JArr xs \<Rightarrow> concat (map (\<lambda>x. case x of JStr s \<Rightarrow> [s] | _ \<Rightarrow> []) xs) | _ \<Rightarrow> [])"

definition recordValue :: "jsval \<Rightarrow> js_object" where
  "recordValue v = (case v of JObj ob \<Rightarrow> ob | _ \<Rightarrow> [])"

definition objectArrayValue :: "jsval \<Rightarrow> js_object list" where
  "objectArrayValue v =
     (case v of JArr xs \<Rightarrow> concat (map (\<lambda>x. case x of JObj ob \<Rightarrow> [ob] | _ \<Rightarrow> []) xs) | _ \<Rightarrow> [])"

definition toggleString :: "string list \<Rightarrow> string \<Rightarrow> string list" where
  "toggleString items value =
     (if value \<in> set items then filter (\<lambda>x. x \<noteq> value) items else items @ [value])"

lemma metadataText_simps [simp]:
  "metadataText (JStr s) = s" "metadataText JUndefined = []" "metadataText JNull = []"
  "metadataText (JBool b) = (if b then ''true'' else ''false'')"
  by (simp_all add: metadataText_def)

lemma metadataBool_simps [simp]:
  "metadataBool (JBool b) = b" "metadataBool JUndefined = False" "metadataBool JNull = False"
  by (simp_all add: metadataBool_def)

lemma numberValue_simps [simp]:
  "numberValue (JNum (Fin r)) = r" "numberValue JUndefined = 0" "numberValue JNull = 0"
  by (simp_all add: numberValue_def)

end
