(* ===== verification/Json.thy ===== *)
theory Json
  imports JsValue
begin

text \<open>
  \<open>JSON.stringify(v, null, 2)\<close> and \<open>JSON.parse\<close>, which the forms of
  \<open>platform-page.tsx\<close> use to keep free-form metadata as editable text, and the round trip
  between them. Texts are UTF-8 bytes, so only the ASCII controls, the quote and the backslash are
  escaped; a lone surrogate written as an escape is kept as its three-byte encoding. The parser
  carries fuel, and \<open>parse_value_fuel\<close> shows that the fuel \<open>json_parse\<close> starts with is never
  what stops it. Objects keep their insertion order (integer-like keys are not moved first).
\<close>

section \<open>Writing\<close>

definition hex_digit :: "nat \<Rightarrow> char" where
  "hex_digit n = ''0123456789abcdef'' ! n"

definition json_escape :: "char \<Rightarrow> string" where
  "json_escape c =
     (if c = CHR 0x22 then [CHR 0x5C, CHR 0x22]
      else if c = CHR 0x5C then [CHR 0x5C, CHR 0x5C]
      else if c = CHR 0x08 then [CHR 0x5C, CHR ''b'']
      else if c = CHR 0x0C then [CHR 0x5C, CHR ''f'']
      else if c = CHR 0x0A then [CHR 0x5C, CHR ''n'']
      else if c = CHR 0x0D then [CHR 0x5C, CHR ''r'']
      else if c = CHR 0x09 then [CHR 0x5C, CHR ''t'']
      else if of_char c < (32::nat)
        then [CHR 0x5C, CHR ''u'', CHR ''0'', CHR ''0'', hex_digit (of_char c div 16), hex_digit (of_char c mod 16)]
      else [c])"

definition json_string :: "string \<Rightarrow> string" where
  "json_string s = CHR 0x22 # concat (map json_escape s) @ [CHR 0x22]"

definition newline_indent :: "nat \<Rightarrow> string" where
  "newline_indent n = CHR 0x0A # replicate n CHR '' ''"

definition present :: "js_object \<Rightarrow> js_object" where
  "present ob = filter (\<lambda>(k, v). v \<noteq> JUndefined) ob"

lemma size_member: "(k, v) \<in> set ob \<Longrightarrow> size v < size (JObj ob)"
  by (induction ob) auto

lemma size_element: "v \<in> set xs \<Longrightarrow> size v < size (JArr xs)"
  by (induction xs) auto

function json_pretty :: "nat \<Rightarrow> jsval \<Rightarrow> string" where
  "json_pretty i JUndefined = ''null''"
| "json_pretty i JNull = ''null''"
| "json_pretty i (JBool b) = (if b then ''true'' else ''false'')"
| "json_pretty i (JNum n) = (case n of Fin r \<Rightarrow> num_text n | _ \<Rightarrow> ''null'')"
| "json_pretty i (JStr s) = json_string s"
| "json_pretty i (JArr xs) =
     (if xs = [] then ''[]''
      else ''['' @ join '','' (map (\<lambda>x. newline_indent (i + 2) @ json_pretty (i + 2) x) xs)
           @ newline_indent i @ '']'')"
| "json_pretty i (JObj ob) =
     (if present ob = [] then ''{}''
      else ''{'' @ join '','' (map (\<lambda>kv. newline_indent (i + 2) @ json_string (fst kv) @ '': ''
             @ json_pretty (i + 2) (snd kv)) (present ob))
           @ newline_indent i @ ''}'')"
  by pat_completeness auto
termination
  by (relation "measure (\<lambda>(i, v). size v)")
    (auto simp: present_def simp del: jsval.size dest: size_member size_element)

text \<open>\<open>JSON.stringify(v, null, 2)\<close> of a value that is not \<open>undefined\<close>.\<close>

definition json_stringify :: "jsval \<Rightarrow> string" where
  "json_stringify v = json_pretty 0 v"

section \<open>Reading\<close>

definition json_ws :: "char \<Rightarrow> bool" where
  "json_ws c \<longleftrightarrow> c = CHR '' '' \<or> c = CHR 0x09 \<or> c = CHR 0x0A \<or> c = CHR 0x0D"

definition skip_ws :: "string \<Rightarrow> string" where
  "skip_ws s = dropWhile json_ws s"

text \<open>The UTF-8 bytes of a code point (surrogates included).\<close>

definition utf8 :: "nat \<Rightarrow> string" where
  "utf8 n =
     (if n < 128 then [char_of n]
      else if n < 2048 then [char_of (192 + n div 64), char_of (128 + n mod 64)]
      else if n < 65536
        then [char_of (224 + n div 4096), char_of (128 + n div 64 mod 64), char_of (128 + n mod 64)]
      else [char_of (240 + n div 262144), char_of (128 + n div 4096 mod 64),
            char_of (128 + n div 64 mod 64), char_of (128 + n mod 64)])"

definition hex4 :: "char \<Rightarrow> char \<Rightarrow> char \<Rightarrow> char \<Rightarrow> nat option" where
  "hex4 a b c d =
     (case (hex_val a, hex_val b, hex_val c, hex_val d) of
        (Some w, Some x, Some y, Some z) \<Rightarrow> Some (4096 * w + 256 * x + 16 * y + z)
      | _ \<Rightarrow> None)"

definition simple_escape :: "char \<Rightarrow> char option" where
  "simple_escape e =
     map_of [(CHR 0x22, CHR 0x22), (CHR 0x5C, CHR 0x5C), (CHR ''/'', CHR ''/''), (CHR ''b'', CHR 0x08),
       (CHR ''f'', CHR 0x0C), (CHR ''n'', CHR 0x0A), (CHR ''r'', CHR 0x0D), (CHR ''t'', CHR 0x09)] e"

text \<open>A code unit read from an escape, combined with a following low surrogate.\<close>

definition take_unit :: "string \<Rightarrow> (nat \<times> string) option" where
  "take_unit s =
     (case s of a # b # c # d # u \<Rightarrow> (case hex4 a b c d of Some n \<Rightarrow> Some (n, u) | None \<Rightarrow> None) | _ \<Rightarrow> None)"

definition take_code_point :: "string \<Rightarrow> (string \<times> string) option" where
  "take_code_point s =
     (case take_unit s of
        None \<Rightarrow> None
      | Some (hi, u) \<Rightarrow>
          (case u of
             x # y # v \<Rightarrow>
               if 55296 \<le> hi \<and> hi < 56320 \<and> x = CHR 0x5C \<and> y = CHR ''u''
               then (case take_unit v of
                       Some (lo, w) \<Rightarrow>
                         if 56320 \<le> lo \<and> lo < 57344
                         then Some (utf8 (65536 + 1024 * (hi - 55296) + (lo - 56320)), w)
                         else Some (utf8 hi, u)
                     | None \<Rightarrow> None)
               else Some (utf8 hi, u)
           | _ \<Rightarrow> Some (utf8 hi, u)))"

lemma take_unit_length: "take_unit s = Some (n, u) \<Longrightarrow> length u < length s"
  by (auto simp: take_unit_def split: list.splits option.splits)

lemma take_code_point_length: "take_code_point s = Some (p, u) \<Longrightarrow> length u < length s"
  by (auto simp: take_code_point_def split: list.splits option.splits if_splits dest!: take_unit_length)

text \<open>The rest of a string literal, after its opening quote.\<close>

function json_chars :: "string \<Rightarrow> (string \<times> string) option" where
  "json_chars [] = None"
| "json_chars (c # s) =
     (if c = CHR 0x22 then Some ([], s)
      else if c = CHR 0x5C then
        (case s of
           [] \<Rightarrow> None
         | e # t \<Rightarrow>
             if e = CHR ''u''
             then (case take_code_point t of
                     Some (p, u) \<Rightarrow> map_option (\<lambda>(r, v). (p @ r, v)) (json_chars u)
                   | None \<Rightarrow> None)
             else (case simple_escape e of
                     Some d \<Rightarrow> map_option (\<lambda>(r, v). (d # r, v)) (json_chars t)
                   | None \<Rightarrow> None))
      else if of_char c < (32::nat) then None
      else map_option (\<lambda>(r, v). (c # r, v)) (json_chars s))"
  by pat_completeness auto
termination
  by (relation "measure length") (auto dest!: take_code_point_length)

definition number_char :: "char \<Rightarrow> bool" where
  "number_char c \<longleftrightarrow> is_digit c \<or> c \<in> set ''+-.eE''"

definition json_int_ok :: "string \<Rightarrow> bool" where
  "json_int_ok s \<longleftrightarrow> s \<noteq> [] \<and> all_digits s \<and> (hd s = CHR ''0'' \<longrightarrow> length s = 1)"

definition json_number_ok :: "string \<Rightarrow> bool" where
  "json_number_ok tok =
     (let t = (case tok of c # t' \<Rightarrow> if c = CHR ''-'' then t' else tok | [] \<Rightarrow> tok);
          (m, e) = split_first CHR ''e'' (lower t);
          (i, f) = split_first CHR ''.'' m
      in json_int_ok i
         \<and> (case f of None \<Rightarrow> True | Some d \<Rightarrow> d \<noteq> [] \<and> all_digits d)
         \<and> (case e of None \<Rightarrow> True | Some x \<Rightarrow> parse_sint x \<noteq> None))"

definition json_number :: "string \<Rightarrow> (jsval \<times> string) option" where
  "json_number s =
     (let tok = takeWhile number_char s
      in if json_number_ok tok then Some (JNum (to_number tok), dropWhile number_char s) else None)"

fun parse_value :: "nat \<Rightarrow> string \<Rightarrow> (jsval \<times> string) option"
  and parse_elems :: "nat \<Rightarrow> jsval list \<Rightarrow> string \<Rightarrow> (jsval \<times> string) option"
  and parse_members :: "nat \<Rightarrow> js_object \<Rightarrow> string \<Rightarrow> (jsval \<times> string) option" where
  "parse_value 0 s = None"
| "parse_value (Suc n) s =
     (case skip_ws s of
        [] \<Rightarrow> None
      | c # t \<Rightarrow>
          if c = CHR ''{'' then
            (if starts_with (skip_ws t) ''}'' then Some (JObj [], drop 1 (skip_ws t)) else parse_members n [] t)
          else if c = CHR ''['' then
            (if starts_with (skip_ws t) '']'' then Some (JArr [], drop 1 (skip_ws t)) else parse_elems n [] t)
          else if c = CHR 0x22 then map_option (\<lambda>(x, u). (JStr x, u)) (json_chars t)
          else if starts_with (c # t) ''true'' then Some (JBool True, drop 4 (c # t))
          else if starts_with (c # t) ''false'' then Some (JBool False, drop 5 (c # t))
          else if starts_with (c # t) ''null'' then Some (JNull, drop 4 (c # t))
          else json_number (c # t))"
| "parse_elems 0 acc s = None"
| "parse_elems (Suc n) acc s =
     (case parse_value n s of
        None \<Rightarrow> None
      | Some (v, t) \<Rightarrow>
          (case skip_ws t of
             [] \<Rightarrow> None
           | c # u \<Rightarrow>
               if c = CHR '','' then parse_elems n (acc @ [v]) u
               else if c = CHR '']'' then Some (JArr (acc @ [v]), u) else None))"
| "parse_members 0 acc s = None"
| "parse_members (Suc n) acc s =
     (case skip_ws s of
        [] \<Rightarrow> None
      | q # s1 \<Rightarrow>
          if q \<noteq> CHR 0x22 then None
          else (case json_chars s1 of
             None \<Rightarrow> None
           | Some (k, s2) \<Rightarrow>
               (case skip_ws s2 of
                  [] \<Rightarrow> None
                | d # s3 \<Rightarrow>
                    if d \<noteq> CHR '':'' then None
                    else (case parse_value n s3 of
                       None \<Rightarrow> None
                     | Some (v, t) \<Rightarrow>
                         (case skip_ws t of
                            [] \<Rightarrow> None
                          | c # u \<Rightarrow>
                              if c = CHR '','' then parse_members n (obj_set acc k v) u
                              else if c = CHR ''}'' then Some (JObj (obj_set acc k v), u) else None)))))"

definition json_parse :: "string \<Rightarrow> jsval option" where
  "json_parse s =
     (case parse_value (2 * length s + 2) s of
        Some (v, t) \<Rightarrow> if skip_ws t = [] then Some v else None
      | None \<Rightarrow> None)"


section \<open>The fuel is never what stops the parser\<close>

lemma skip_ws_length: "length (skip_ws s) \<le> length s"
  by (simp add: skip_ws_def length_dropWhile_le)

lemma skip_ws_Cons_length: "skip_ws s = c # t \<Longrightarrow> length t < length s"
  using skip_ws_length [of s] by simp

lemma json_chars_length: "json_chars s = Some (r, t) \<Longrightarrow> length t < length s"
proof (induction s arbitrary: r t rule: length_induct)
  case (1 s)
  have IH: "json_chars u = Some (r', t) \<Longrightarrow> length u < length s \<Longrightarrow> length t < length u" for u r'
    using 1(1) by blast
  show ?case
  proof (cases s)
    case Nil
    then show ?thesis using 1(2) by simp
  next
    case (Cons c s')
    show ?thesis using 1(2) Cons IH
      by (fastforce split: if_splits list.splits option.splits dest: take_code_point_length)
  qed
qed

lemma json_number_length: "json_number s = Some (v, t) \<Longrightarrow> length t < length s"
proof -
  assume a: "json_number s = Some (v, t)"
  then have t: "t = dropWhile number_char s" and ok: "json_number_ok (takeWhile number_char s)"
    by (auto simp: json_number_def Let_def split: if_splits)
  have "takeWhile number_char s \<noteq> []"
    using ok by (auto simp: json_number_ok_def json_int_ok_def split_first_def lower_def)
  moreover have "length s = length (takeWhile number_char s) + length t"
    unfolding t by (metis length_append takeWhile_dropWhile_id)
  ultimately show ?thesis by simp
qed

text \<open>What a successful step of the parser did.\<close>

lemma value_step_length:
  assumes parsed: "parse_value (Suc n) s = Some (v, t)" and cu: "skip_ws s = c # u"
    and members: "c = CHR ''{'' \<Longrightarrow> parse_members n [] u = Some (v, t) \<Longrightarrow> \<not> starts_with (skip_ws u) ''}'' \<Longrightarrow> length t < length u"
    and elems: "c = CHR ''['' \<Longrightarrow> parse_elems n [] u = Some (v, t) \<Longrightarrow> \<not> starts_with (skip_ws u) '']'' \<Longrightarrow> length t < length u"
  shows "length t < length s"
proof -
  have ls: "length (skip_ws u) \<le> length u" by (rule skip_ws_length)
  have dl: "0 < k \<Longrightarrow> length (drop k (c # u)) < length (c # u)" for k by simp
  note a = parsed [unfolded parse_value.simps cu list.case]
  consider "c = CHR ''{''" | "c = CHR ''[''" | "c = CHR 0x22" | "c \<noteq> CHR ''{''" "c \<noteq> CHR ''[''" "c \<noteq> CHR 0x22" by blast
  then have "length t < length (c # u)"
  proof cases
    case 1
    then show ?thesis using a members ls by (cases "starts_with (skip_ws u) ''}''") (force, simp)
  next
    case 2
    then show ?thesis using a elems ls by (cases "starts_with (skip_ws u) '']''") (force, simp)
  next
    case 3
    then show ?thesis using a json_chars_length by fastforce
  next
    case 4
    have "(if starts_with (c # u) ''true'' then Some (JBool True, drop 4 (c # u))
      else if starts_with (c # u) ''false'' then Some (JBool False, drop 5 (c # u))
      else if starts_with (c # u) ''null'' then Some (JNull, drop 4 (c # u))
      else json_number (c # u)) = Some (v, t)"
      using a 4 by (simp only: if_False)
    then consider "t = drop 4 (c # u)" | "t = drop 5 (c # u)" | "json_number (c # u) = Some (v, t)"
      by (simp only: option.inject prod.inject split: if_splits)
    then show ?thesis using dl by cases (auto dest: json_number_length)
  qed
  then show ?thesis using skip_ws_length [of s] cu by simp
qed

lemma elems_step:
  assumes "parse_elems (Suc n) acc s = Some (w, r)"
  obtains v t c u where "parse_value n s = Some (v, t)" "skip_ws t = c # u"
    "c = CHR '','' \<and> parse_elems n (acc @ [v]) u = Some (w, r) \<or> c \<noteq> CHR '','' \<and> r = u"
  using assms by (auto split: option.splits list.splits if_splits)

lemma members_step:
  assumes "parse_members (Suc n) acc s = Some (w, r)"
  obtains s1 k s2 s3 v t c u where "skip_ws s = CHR 0x22 # s1" "json_chars s1 = Some (k, s2)" "skip_ws s2 = CHR '':'' # s3"
    "parse_value n s3 = Some (v, t)" "skip_ws t = c # u"
    "c = CHR '','' \<and> parse_members n (obj_set acc k v) u = Some (w, r) \<or> c \<noteq> CHR '','' \<and> r = u"
  using assms by (auto split: option.splits list.splits if_splits)

lemma parse_lengths:
  "parse_value n s = Some (v, t) \<Longrightarrow> length t < length s"
  "parse_elems n acc s = Some (v, t) \<Longrightarrow> length t < length s"
  "parse_members n ob s = Some (v, t) \<Longrightarrow> length t < length s"
proof (induction n s and n acc s and n ob s arbitrary: v t and v t and v t
    rule: parse_value_parse_elems_parse_members.induct)
  case (2 n s)
  obtain c u where cu: "skip_ws s = c # u" using 2(3) by (auto split: list.splits)
  show ?case by (rule value_step_length [OF 2(3) cu]) (use 2(1,2) [OF cu] in auto)
next
  case (4 n acc s)
  from 4(3) obtain v' t' c u where step: "parse_value n s = Some (v', t')" "skip_ws t' = c # u"
    "c = CHR '','' \<and> parse_elems n (acc @ [v']) u = Some (v, t) \<or> c \<noteq> CHR '','' \<and> t = u" by (rule elems_step)
  then have "length t' < length s" "length u < length t'" using 4(1) skip_ws_Cons_length by blast+
  moreover have "c = CHR '','' \<Longrightarrow> parse_elems n (acc @ [v']) u = Some (v, t) \<Longrightarrow> length t < length u"
    using 4(2) [OF step(1) refl step(2)] by simp
  ultimately show ?case using step(3) by auto
next
  case (6 n acc s)
  from 6(3) obtain s1 k s2 s3 v' t' c u where step: "skip_ws s = CHR 0x22 # s1" "json_chars s1 = Some (k, s2)" "skip_ws s2 = CHR '':'' # s3"
    "parse_value n s3 = Some (v', t')" "skip_ws t' = c # u"
    "c = CHR '','' \<and> parse_members n (obj_set acc k v') u = Some (v, t) \<or> c \<noteq> CHR '','' \<and> t = u" by (rule members_step)
  have "length s1 < length s" "length s2 < length s1" "length s3 < length s2" "length u < length t'"
    using step by (simp_all add: skip_ws_Cons_length json_chars_length)
  moreover have "length t' < length s3" using 6(1) [OF step(1) _ step(2) refl step(3)] step(4) by simp
  moreover have "c = CHR '','' \<Longrightarrow> parse_members n (obj_set acc k v') u = Some (v, t) \<Longrightarrow> length t < length u"
    using 6(2) [OF step(1) _ step(2) refl step(3) _ step(4) refl step(5)] by simp
  ultimately show ?case using step(6) by auto
qed simp_all

text \<open>One more unit of fuel changes nothing once there are two per character: the steps first.\<close>

lemma elems_step_fuel:
  assumes "parse_value (Suc n) s = parse_value n s"
    and "\<And>v t u. parse_value n s = Some (v, t) \<Longrightarrow> skip_ws t = CHR '','' # u \<Longrightarrow>
      parse_elems (Suc n) (acc @ [v]) u = parse_elems n (acc @ [v]) u"
  shows "parse_elems (Suc (Suc n)) acc s = parse_elems (Suc n) acc s"
proof (cases "parse_value n s")
  case None
  with assms(1) show ?thesis by (subst (1 2) parse_elems.simps(2)) (simp del: parse_elems.simps parse_value.simps)
next
  case (Some vt)
  with assms show ?thesis
    by (subst (1 2) parse_elems.simps(2)) (cases vt, auto simp del: parse_elems.simps parse_value.simps split: list.splits)
qed

lemma members_step_fuel:
  assumes "\<And>s1 k s2 s3. skip_ws s = CHR 0x22 # s1 \<Longrightarrow> json_chars s1 = Some (k, s2) \<Longrightarrow> skip_ws s2 = CHR '':'' # s3 \<Longrightarrow>
      parse_value (Suc n) s3 = parse_value n s3"
    and "\<And>s1 k s2 s3 v t u. skip_ws s = CHR 0x22 # s1 \<Longrightarrow> json_chars s1 = Some (k, s2) \<Longrightarrow> skip_ws s2 = CHR '':'' # s3 \<Longrightarrow>
      parse_value n s3 = Some (v, t) \<Longrightarrow> skip_ws t = CHR '','' # u \<Longrightarrow>
      parse_members (Suc n) (obj_set acc k v) u = parse_members n (obj_set acc k v) u"
  shows "parse_members (Suc (Suc n)) acc s = parse_members (Suc n) acc s"
proof (cases "\<exists>s1 k s2 s3. skip_ws s = CHR 0x22 # s1 \<and> json_chars s1 = Some (k, s2) \<and> skip_ws s2 = CHR '':'' # s3")
  case True
  then obtain s1 k s2 s3 where step: "skip_ws s = CHR 0x22 # s1" "json_chars s1 = Some (k, s2)" "skip_ws s2 = CHR '':'' # s3" by blast
  from step assms show ?thesis
    by (subst (1 2) parse_members.simps(2))
      (auto simp del: parse_value.simps parse_members.simps split: option.splits list.splits)
next
  case False
  then show ?thesis
    by (subst (1 2) parse_members.simps(2))
      (auto simp del: parse_value.simps parse_members.simps split: option.splits list.splits)
qed

lemma parse_more_fuel:
  "2 * length s + 2 \<le> n \<Longrightarrow> parse_value (Suc n) s = parse_value n s"
  "2 * length s + 3 \<le> n \<Longrightarrow> parse_elems (Suc n) acc s = parse_elems n acc s"
  "2 * length s + 3 \<le> n \<Longrightarrow> parse_members (Suc n) ob s = parse_members n ob s"
proof (induction n s and n acc s and n ob s rule: parse_value_parse_elems_parse_members.induct)
  case (2 n s)
  show ?case
  proof (cases "skip_ws s")
    case Nil
    then show ?thesis by simp
  next
    case (Cons c t)
    have "2 * length t + 3 \<le> n" using 2(3) skip_ws_Cons_length [OF Cons] by simp
    then have "c = CHR ''{'' \<Longrightarrow> \<not> starts_with (skip_ws t) ''}'' \<Longrightarrow>
          parse_members (Suc n) [] t = parse_members n [] t"
      and "c = CHR ''['' \<Longrightarrow> \<not> starts_with (skip_ws t) '']'' \<Longrightarrow>
          parse_elems (Suc n) [] t = parse_elems n [] t"
      using 2(1,2) Cons by auto
    then show ?thesis
      by (subst (1 2) parse_value.simps(2)) (simp add: Cons del: parse_value.simps)
  qed
next
  case (4 n acc s)
  show ?case
  proof (rule elems_step_fuel)
    show "parse_value (Suc n) s = parse_value n s" using 4(1,3) by simp
    fix v t u assume step: "parse_value n s = Some (v, t)" "skip_ws t = CHR '','' # u"
    have "2 * length u + 3 \<le> n" using parse_lengths(1) [OF step(1)] skip_ws_Cons_length [OF step(2)] 4(3) by simp
    then show "parse_elems (Suc n) (acc @ [v]) u = parse_elems n (acc @ [v]) u"
      using 4(2) [OF step(1) refl step(2)] by simp
  qed
next
  case (6 n acc s)
  show ?case
  proof (rule members_step_fuel)
    fix s1 k s2 s3 assume step: "skip_ws s = CHR 0x22 # s1" "json_chars s1 = Some (k, s2)" "skip_ws s2 = CHR '':'' # s3"
    have less: "length s3 + 3 \<le> length s"
      using skip_ws_Cons_length [OF step(1)] json_chars_length [OF step(2)] skip_ws_Cons_length [OF step(3)] by simp
    then show "parse_value (Suc n) s3 = parse_value n s3"
      using 6(1) [OF step(1) _ step(2) refl step(3)] 6(3) by simp
    fix v t u assume step': "parse_value n s3 = Some (v, t)" "skip_ws t = CHR '','' # u"
    have "2 * length u + 3 \<le> n" using parse_lengths(1) [OF step'(1)] skip_ws_Cons_length [OF step'(2)] less 6(3) by simp
    then show "parse_members (Suc n) (obj_set acc k v) u = parse_members n (obj_set acc k v) u"
      using 6(2) [OF step(1) _ step(2) refl step(3) _ step'(1) refl step'(2)] by simp
  qed
qed simp_all

lemma parse_value_fuel: "2 * length s + 2 \<le> n \<Longrightarrow> parse_value n s = parse_value (2 * length s + 2) s"
  by (induction n rule: dec_induct) (simp_all add: parse_more_fuel del: parse_value.simps)


section \<open>The round trip\<close>

text \<open>The values the round trip covers: no \<open>undefined\<close>, integer numbers, distinct keys.\<close>

function json_ok :: "jsval \<Rightarrow> bool" where
  "json_ok JUndefined = False"
| "json_ok JNull = True"
| "json_ok (JBool b) = True"
| "json_ok (JNum n) = (case n of Fin r \<Rightarrow> r = of_int \<lfloor>r\<rfloor> | _ \<Rightarrow> False)"
| "json_ok (JStr s) = True"
| "json_ok (JArr xs) = list_all json_ok xs"
| "json_ok (JObj ob) = (distinct (map fst ob) \<and> list_all (\<lambda>kv. json_ok (snd kv)) ob)"
  by pat_completeness auto
termination
  by (relation "measure size") (auto simp del: jsval.size dest: size_member size_element)

lemma skip_ws_indent [simp]: "skip_ws (newline_indent n @ s) = skip_ws s"
proof -
  have "dropWhile json_ws (replicate n CHR '' '' @ s) = dropWhile json_ws s"
    by (induction n) (simp_all add: json_ws_def)
  then show ?thesis by (simp add: skip_ws_def newline_indent_def json_ws_def)
qed

lemma skip_ws_non [simp]: "\<not> json_ws c \<Longrightarrow> skip_ws (c # s) = c # s"
  by (simp add: skip_ws_def)

lemma parse_value_indent [simp]: "parse_value n (newline_indent k @ s) = parse_value n s"
  by (cases n) (simp_all del: parse_value.simps add: parse_value.simps)

lemma parse_members_indent [simp]: "parse_members n ob (newline_indent k @ s) = parse_members n ob s"
  by (cases n) (simp_all del: parse_members.simps add: parse_members.simps)

lemma utf8_ascii: "of_char c < (128::nat) \<Longrightarrow> utf8 (of_char c) = [c]"
  by (simp add: utf8_def)

lemma control_hex:
  "list_all (\<lambda>n. hex4 CHR ''0'' CHR ''0'' (hex_digit (n div 16)) (hex_digit (n mod 16)) = Some n) [0..<32]"
  by code_simp

lemma take_unit_control:
  assumes "of_char c < (32::nat)"
  shows "take_code_point (CHR ''0'' # CHR ''0'' # hex_digit (of_char c div 16) # hex_digit (of_char c mod 16) # u)
    = Some ([c], u)"
proof -
  have "hex4 CHR ''0'' CHR ''0'' (hex_digit (of_char c div 16)) (hex_digit (of_char c mod 16)) = Some (of_char c)"
    using control_hex assms by (simp add: list_all_iff)
  then show ?thesis using assms
    by (simp add: take_code_point_def take_unit_def utf8_ascii split: list.split)
qed

lemma json_chars_escape:
  "json_chars (json_escape c @ u) = map_option (\<lambda>(r, v). (c # r, v)) (json_chars u)"
proof -
  consider "c \<in> set [CHR 0x22, CHR 0x5C, CHR 0x08, CHR 0x0C, CHR 0x0A, CHR 0x0D, CHR 0x09]"
    | "c \<notin> set [CHR 0x22, CHR 0x5C, CHR 0x08, CHR 0x0C, CHR 0x0A, CHR 0x0D, CHR 0x09]" by blast
  then show ?thesis
  proof cases
    case 1
    then show ?thesis by (auto simp: json_escape_def simple_escape_def)
  next
    case 2
    then show ?thesis by (auto simp: json_escape_def take_unit_control)
  qed
qed

lemma json_chars_string:
  "json_chars (concat (map json_escape s) @ CHR 0x22 # u) = Some (s, u)"
  by (induction s) (simp_all add: json_chars_escape del: json_chars.simps(2), simp)

section \<open>Decimal numerals\<close>

lemma digit_char_props:
  "n < 10 \<Longrightarrow> is_digit (digit_char n)" "n < 10 \<Longrightarrow> digit_val (digit_char n) = n"
  "n < 10 \<Longrightarrow> digit_char n = CHR ''0'' \<longleftrightarrow> n = 0"
proof -
  have "list_all (\<lambda>n. is_digit (digit_char n) \<and> digit_val (digit_char n) = n \<and>
          (digit_char n = CHR ''0'' \<longleftrightarrow> n = 0)) [0..<10]" by code_simp
  then show "n < 10 \<Longrightarrow> is_digit (digit_char n)" "n < 10 \<Longrightarrow> digit_val (digit_char n) = n"
    "n < 10 \<Longrightarrow> digit_char n = CHR ''0'' \<longleftrightarrow> n = 0"
    by (simp_all add: list_all_iff del: digit_char.simps digit_val.simps)
qed

lemma digit_char_mod: "digit_char (n mod 10) = digit_char n"
  by simp

lemma show_nat_digits: "all_digits (show_nat n) \<and> show_nat n \<noteq> [] \<and> nat_of_digits (show_nat n) = n"
proof (induction n rule: show_nat.induct)
  case (1 n)
  have d: "is_digit (digit_char n)" "digit_val (digit_char n) = n mod 10"
    using digit_char_props(1,2) [of "n mod 10"] digit_char_mod [of n] by (simp_all del: digit_char.simps digit_val.simps)
  show ?case
  proof (cases "n < 10")
    case True
    then show ?thesis using d
      by (subst (1 2 3) show_nat.simps) (simp add: all_digits_def nat_of_digits_def del: digit_char.simps digit_val.simps)
  next
    case False
    then show ?thesis using 1 d
      by (subst (1 2 3) show_nat.simps) (simp add: all_digits_def nat_of_digits_def del: digit_char.simps digit_val.simps)
  qed
qed

lemma show_nat_no_zero: "hd (show_nat n) = CHR ''0'' \<Longrightarrow> n = 0"
proof (induction n rule: show_nat.induct)
  case (1 n)
  show ?case
  proof (cases "n < 10")
    case True
    then show ?thesis using 1(2) digit_char_props(3) [of n]
      by (subst (asm) show_nat.simps) (simp del: digit_char.simps)
  next
    case False
    have "hd (show_nat n) = hd (show_nat (n div 10))"
      using False show_nat_digits [of "n div 10"] by (subst show_nat.simps) (simp del: digit_char.simps)
    then show ?thesis using 1 False by simp
  qed
qed

lemma show_nat_int_ok: "json_int_ok (show_nat n)"
proof (cases "hd (show_nat n) = CHR ''0''")
  case True
  then have n: "n = 0" by (rule show_nat_no_zero)
  have "json_int_ok (show_nat 0)" by code_simp
  then show ?thesis using n by simp
next
  case False
  then show ?thesis using show_nat_digits [of n] by (simp add: json_int_ok_def)
qed

lemma digits_only:
  assumes "all_digits s"
  shows "lower s = s" "CHR ''e'' \<notin> set s" "CHR ''.'' \<notin> set s" "CHR ''x'' \<notin> set s"
    "CHR ''o'' \<notin> set s" "CHR ''b'' \<notin> set s" "CHR ''-'' \<notin> set s" "CHR ''+'' \<notin> set s" "CHR ''I'' \<notin> set s"
    "c \<in> set s \<Longrightarrow> number_char c" "c \<in> set s \<Longrightarrow> \<not> is_ws c"
proof -
  have d: "\<And>c. c \<in> set s \<Longrightarrow> is_digit c" using assms by (simp add: all_digits_def list_all_iff)
  have "\<not> is_upper c" if "is_digit c" for c using that by (auto simp: is_digit_def is_upper_def)
  then show "lower s = s" using d by (simp add: lower_def lower_char_def map_idI)
  show "CHR ''e'' \<notin> set s" "CHR ''.'' \<notin> set s" "CHR ''x'' \<notin> set s"
    "CHR ''o'' \<notin> set s" "CHR ''b'' \<notin> set s" "CHR ''-'' \<notin> set s" "CHR ''+'' \<notin> set s" "CHR ''I'' \<notin> set s"
    using d by fastforce+
  show "c \<in> set s \<Longrightarrow> number_char c" using d by (simp add: number_char_def)
  show "c \<in> set s \<Longrightarrow> \<not> is_ws c" using d by (fastforce simp: is_ws_def)
qed

lemma split_first_none: "c \<notin> set s \<Longrightarrow> split_first c s = (s, None)"
  by (simp add: split_first_def) (metis (mono_tags, lifting) dropWhile_eq_Nil_conv list.simps(4))

lemma parse_unsigned_nat: "parse_unsigned (show_nat n) = Some (of_nat n)"
proof -
  have d: "all_digits (show_nat n)" "show_nat n \<noteq> []" "nat_of_digits (show_nat n) = n"
    using show_nat_digits by simp_all
  then show ?thesis using digits_only [OF d(1)]
    by (simp add: parse_unsigned_def parse_mantissa_def split_first_none)
qed

lemma to_number_nat: "to_number (show_nat n) = Fin (of_nat n)"
proof -
  have d: "all_digits (show_nat n)" "show_nat n \<noteq> []" using show_nat_digits by simp_all
  note o = digits_only [OF d(1)]
  have t: "trim (show_nat n) = show_nat n"
    by (rule trim_id) (use o(11) d(2) in \<open>simp add: hd_in_set last_in_set\<close>)
  have p: "\<not> starts_with (show_nat n) [CHR ''0'', c]" if "c \<notin> set (show_nat n)" for c
    using that by (auto simp: prefix_def)
  have h: "hd (show_nat n) \<in> set (show_nat n)" using d(2) by simp
  have h': "hd (show_nat n) \<noteq> CHR ''+''" "hd (show_nat n) \<noteq> CHR ''-''" using h o(7,8) by metis+
  have i: "show_nat n \<noteq> ''Infinity''" "show_nat n \<noteq> ''+Infinity''" "show_nat n \<noteq> ''-Infinity''"
    using o(9) by (metis list.set_intros(1,2))+
  show ?thesis
    using d(2) o(1) p [OF o(4)] p [OF o(5)] p [OF o(6)] h' i t parse_unsigned_nat [of n]
    by (simp add: to_number_def Let_def)
qed

lemma to_number_neg: "to_number (CHR ''-'' # show_nat n) = Fin (- of_nat n)"
proof -
  have d: "all_digits (show_nat n)" "show_nat n \<noteq> []" using show_nat_digits by simp_all
  note o = digits_only [OF d(1)]
  have t: "trim (CHR ''-'' # show_nat n) = CHR ''-'' # show_nat n"
    by (rule trim_id) (use o(11) d(2) in \<open>simp add: is_ws_def last_in_set\<close>)
  have "CHR ''I'' \<in> set ''Infinity''" by simp
  then have "show_nat n \<noteq> ''Infinity''" using o(9) by metis
  then show ?thesis
    using t parse_unsigned_nat [of n]
    by (simp add: to_number_def Let_def lower_def lower_char_def)
qed

lemma to_number_int: "to_number (show_int i) = Fin (of_int i)"
  using to_number_nat [of "nat i"] to_number_neg [of "nat (- i)"] by (simp add: show_int_def)

lemma num_text_int: "num_text (Fin (of_int i)) = show_int i"
proof -
  have "\<bar>of_int i :: rat\<bar> = of_int \<bar>i\<bar>" by simp
  then show ?thesis
    by (simp add: num_text_def show_rat_def Let_def show_int_def)
qed

lemma show_int_number_chars: "c \<in> set (show_int i) \<Longrightarrow> number_char c"
  using digits_only(10) show_nat_digits
  by (auto simp: show_int_def number_char_def split: if_splits)

lemma show_int_number_ok: "json_number_ok (show_int i)"
proof -
  have d: "all_digits (show_nat n)" "show_nat n \<noteq> []" for n using show_nat_digits by simp_all
  have "json_number_ok (show_nat n)" "json_number_ok (CHR ''-'' # show_nat n)" for n
    using d [of n] digits_only [OF d(1) [of n]] show_nat_int_ok [of n]
    by (cases "show_nat n"; auto simp: json_number_ok_def split_first_none Let_def)+
  then show ?thesis by (simp add: show_int_def)
qed

text \<open>What may follow a value: a number must not be continued.\<close>

definition value_end :: "string \<Rightarrow> bool" where
  "value_end s \<longleftrightarrow> s = [] \<or> \<not> number_char (hd s)"

lemma json_number_int:
  "value_end u \<Longrightarrow> json_number (show_int i @ u) = Some (JNum (Fin (of_int i)), u)"
proof -
  assume u: "value_end u"
  have c: "\<forall>c \<in> set (show_int i). number_char c" using show_int_number_chars by blast
  have "takeWhile number_char u = []" "dropWhile number_char u = u"
    using u by (cases u; simp add: value_end_def)+
  then have "takeWhile number_char (show_int i @ u) = show_int i"
    "dropWhile number_char (show_int i @ u) = u"
    using c by (simp_all add: takeWhile_append2 dropWhile_append2)
  then show ?thesis using show_int_number_ok to_number_int by (simp add: json_number_def)
qed

section \<open>Reading back what was written\<close>

lemma value_end_simps [simp]: "value_end []" "value_end (CHR '','' # s)" "value_end (newline_indent n @ s)"
  by (simp_all add: value_end_def number_char_def newline_indent_def)

lemma int_number:
  assumes "v = JNum n" "json_ok v" obtains k where "n = Fin (of_int k)"
  using assms by (cases n) auto

lemma first_char: "\<exists>c t. json_pretty i v = c # t \<and> \<not> json_ws c \<and> c \<noteq> CHR '']'' \<and> c \<noteq> CHR ''}''"
  if "json_ok v"
proof -
  have digit: "\<exists>c t. show_int k = c # t \<and> \<not> json_ws c \<and> c \<noteq> CHR '']'' \<and> c \<noteq> CHR ''}''" for k
  proof -
    have "show_int k \<noteq> []" using show_nat_digits by (simp add: show_int_def)
    then obtain c t where ct: "show_int k = c # t" by (cases "show_int k") auto
    then have "number_char c" using show_int_number_chars [of c k] by simp
    then show ?thesis using ct by (auto simp: number_char_def json_ws_def)
  qed
  show ?thesis
  proof (cases v)
    case (JNum n)
    then have "json_ok (JNum n)" using that by simp
    then obtain k where "n = Fin (of_int k)" by (rule int_number [OF refl])
    then have "json_pretty i v = show_int k" using JNum num_text_int by simp
    then show ?thesis using digit by simp
  qed (use that in \<open>auto simp: json_ws_def json_string_def\<close>)
qed

definition reads_back :: "nat \<Rightarrow> jsval \<Rightarrow> bool" where
  "reads_back i v \<longleftrightarrow>
     (\<forall>u. value_end u \<longrightarrow> (\<exists>N. \<forall>n\<ge>N. parse_value n (json_pretty i v @ u) = Some (v, u)))"

lemma reads_backI:
  "(\<And>u n. value_end u \<Longrightarrow> parse_value (Suc n) (json_pretty i v @ u) = Some (v, u)) \<Longrightarrow> reads_back i v"
  unfolding reads_back_def by (metis Suc_le_D)

lemma elems_read_back:
  assumes "xs \<noteq> []" "\<And>x. x \<in> set xs \<Longrightarrow> reads_back j x"
  shows "\<exists>N. \<forall>n\<ge>N. \<forall>acc. parse_elems n acc
      (join '','' (map (\<lambda>x. newline_indent j @ json_pretty j x) xs) @ newline_indent i @ CHR '']'' # u)
      = Some (JArr (acc @ xs), u)"
  using assms
proof (induction xs)
  case Nil
  then show ?case by simp
next
  case (Cons x xs)
  have x: "reads_back j x" using Cons.prems by simp
  have ws: "\<not> json_ws CHR '']''" "\<not> json_ws CHR '',''" by (simp_all add: json_ws_def)
  show ?case
  proof (cases "xs = []")
    case True
    obtain N where N: "\<forall>n\<ge>N. parse_value n (json_pretty j x @ newline_indent i @ CHR '']'' # u)
        = Some (x, newline_indent i @ CHR '']'' # u)"
      using x unfolding reads_back_def by (meson value_end_simps(3))
    have "parse_elems n acc (newline_indent j @ json_pretty j x @ newline_indent i @ CHR '']'' # u)
        = Some (JArr (acc @ [x]), u)" if "Suc N \<le> n" for n acc
      using N that ws by (cases n) simp_all
    then show ?thesis using True by (intro exI [of _ "Suc N"]) simp
  next
    case False
    define r where "r = join '','' (map (\<lambda>x. newline_indent j @ json_pretty j x) xs) @ newline_indent i @ CHR '']'' # u"
    obtain M where M: "\<forall>n\<ge>M. \<forall>acc. parse_elems n acc r = Some (JArr (acc @ xs), u)"
      using Cons.IH [OF False] Cons.prems(2) unfolding r_def by auto
    obtain N where N: "\<forall>n\<ge>N. parse_value n (json_pretty j x @ CHR '','' # r) = Some (x, CHR '','' # r)"
      using x unfolding reads_back_def by (meson value_end_simps(2))
    have "parse_elems n acc (newline_indent j @ json_pretty j x @ CHR '','' # r) = Some (JArr (acc @ x # xs), u)"
      if "Suc (max M N) \<le> n" for n acc
      using M N that ws by (cases n) simp_all
    then show ?thesis using False
      by (intro exI [of _ "Suc (max M N)"]) (simp add: join_Cons r_def)
  qed
qed

lemma obj_set_new: "k \<notin> set (map fst acc) \<Longrightarrow> obj_set acc k v = acc @ [(k, v)]"
  by (induction acc k v rule: obj_set.induct) auto

text \<open>A member as it is written is read and put into the object, up to what follows it.\<close>

lemma written_member:
  assumes "parse_value n (json_pretty j v @ t) = Some (v, t)"
  shows "parse_members (Suc n) acc (newline_indent j @ json_string k @ '': '' @ json_pretty j v @ t) =
    (case skip_ws t of [] \<Rightarrow> None
     | c # u \<Rightarrow> if c = CHR '','' then parse_members n (obj_set acc k v) u
                else if c = CHR ''}'' then Some (JObj (obj_set acc k v), u) else None)"
proof -
  have "\<not> json_ws CHR 0x22" "\<not> json_ws CHR '':''" by (simp_all add: json_ws_def)
  moreover have "parse_value n (CHR '' '' # s) = parse_value n s" for n s
    by (cases n) (simp_all add: skip_ws_def json_ws_def)
  ultimately show ?thesis using assms by (simp add: json_string_def json_chars_string)
qed

lemma member_then:
  assumes "\<forall>n\<ge>N. parse_value n (json_pretty j v @ t) = Some (v, t)" "Suc N \<le> n" "k \<notin> set (map fst acc)"
  shows "parse_members n acc (newline_indent j @ json_string k @ '': '' @ json_pretty j v @ t) =
    (case skip_ws t of [] \<Rightarrow> None
     | c # u \<Rightarrow> if c = CHR '','' then parse_members (n - 1) (acc @ [(k, v)]) u
                else if c = CHR ''}'' then Some (JObj (acc @ [(k, v)]), u) else None)"
  using written_member [of "n - 1" j v t acc k, unfolded obj_set_new [OF assms(3)]] assms(1,2)
  by (cases n) (simp_all del: parse_members.simps)

lemma members_read_back:
  assumes "xs \<noteq> []" "\<And>x. x \<in> set xs \<Longrightarrow> reads_back j (snd x)" "distinct (map fst xs)"
  shows "\<exists>N. \<forall>n\<ge>N. \<forall>acc. set (map fst acc) \<inter> set (map fst xs) = {} \<longrightarrow> parse_members n acc
      (join '','' (map (\<lambda>kv. newline_indent j @ json_string (fst kv) @ '': '' @ json_pretty j (snd kv)) xs)
       @ newline_indent i @ CHR ''}'' # u) = Some (JObj (acc @ xs), u)"
  using assms
proof (induction xs)
  case Nil
  then show ?case by simp
next
  case (Cons kv xs)
  obtain k v where kv: "kv = (k, v)" by (cases kv)
  have v: "reads_back j v" using Cons.prems kv by force
  have ws: "\<not> json_ws CHR ''}''" "\<not> json_ws CHR '',''" by (simp_all add: json_ws_def)
  show ?case
  proof (cases "xs = []")
    case True
    obtain N where "\<forall>n\<ge>N. parse_value n (json_pretty j v @ newline_indent i @ CHR ''}'' # u) = Some (v, newline_indent i @ CHR ''}'' # u)"
      using v unfolding reads_back_def by (meson value_end_simps(3))
    from member_then [OF this] show ?thesis using True kv ws
      by (intro exI [of _ "Suc N"]) (auto simp del: parse_members.simps)
  next
    case False
    define r where "r = join '','' (map (\<lambda>kv. newline_indent j @ json_string (fst kv) @ '': '' @ json_pretty j (snd kv)) xs)
       @ newline_indent i @ CHR ''}'' # u"
    obtain M where M: "\<forall>n\<ge>M. \<forall>acc. set (map fst acc) \<inter> set (map fst xs) = {} \<longrightarrow>
        parse_members n acc r = Some (JObj (acc @ xs), u)"
      using Cons.IH [OF False] Cons.prems(2,3) unfolding r_def by auto
    obtain N where N: "\<forall>n\<ge>N. parse_value n (json_pretty j v @ CHR '','' # r) = Some (v, CHR '','' # r)"
      using v unfolding reads_back_def by (meson value_end_simps(2))
    have "parse_members n acc (newline_indent j @ json_string k @ '': '' @ json_pretty j v @ CHR '','' # r)
        = Some (JObj (acc @ kv # xs), u)"
      if "Suc (max M N) \<le> n" "set (map fst acc) \<inter> set (map fst (kv # xs)) = {}" for n acc
    proof -
      have "set (map fst (acc @ [kv])) \<inter> set (map fst xs) = {}" "k \<notin> set (map fst acc)" "M \<le> n - 1" "Suc N \<le> n"
        using that Cons.prems(3) kv by auto
      then show ?thesis using member_then [OF N] M ws kv by (simp del: parse_members.simps)
    qed
    then show ?thesis using False kv
      by (intro exI [of _ "Suc (max M N)"]) (simp add: join_Cons r_def del: parse_members.simps)
  qed
qed

lemma number_reads_back:
  assumes "json_ok (JNum n)"
  shows "reads_back i (JNum n)"
proof (rule reads_backI)
  fix u m
  assume u: "value_end u"
  obtain k where r: "n = Fin (of_int k)" by (rule int_number [OF refl assms])
  have p: "json_pretty i (JNum n) = show_int k" using r num_text_int by simp
  obtain c t where ct: "show_int k = c # t" "\<not> json_ws c" using first_char [OF assms] p by metis
  have c: "number_char c" using show_int_number_chars [of c k] ct by simp
  have "c \<notin> set [CHR ''{'', CHR ''['', CHR 0x22, CHR ''t'', CHR ''f'', CHR ''n'']"
    using c by (auto simp: number_char_def)
  then have ne: "c \<noteq> CHR ''{''" "c \<noteq> CHR ''[''" "c \<noteq> CHR 0x22" "CHR ''t'' \<noteq> c" "CHR ''f'' \<noteq> c" "CHR ''n'' \<noteq> c"
    by auto
  have "parse_value (Suc m) (show_int k @ u) = json_number (show_int k @ u)"
    using ne ct by simp
  then show "parse_value (Suc m) (json_pretty i (JNum n) @ u) = Some (JNum n, u)"
    using json_number_int [OF u, of k] p r by simp
qed

lemma array_reads_back:
  assumes "xs \<noteq> []" "\<And>x. x \<in> set xs \<Longrightarrow> json_ok x" "\<And>x. x \<in> set xs \<Longrightarrow> reads_back (i + 2) x"
  shows "reads_back i (JArr xs)"
proof -
  define body where "body u = join '','' (map (\<lambda>x. newline_indent (i + 2) @ json_pretty (i + 2) x) xs)
      @ newline_indent i @ CHR '']'' # u" for u
  have hd: "\<not> starts_with (skip_ws (body u)) '']''" for u
  proof -
    obtain x xs' where xs: "xs = x # xs'" using assms(1) by (cases xs) auto
    then have "json_ok x" using assms(2) by simp
    then obtain c t where "json_pretty (i + 2) x = c # t" "\<not> json_ws c" "c \<noteq> CHR '']''"
      using first_char by metis
    then show ?thesis using xs by (cases xs') (simp_all add: body_def)
  qed
  have "\<exists>N. \<forall>n\<ge>N. parse_value n (json_pretty i (JArr xs) @ u) = Some (JArr xs, u)" for u
  proof -
    obtain N where N: "\<forall>n\<ge>N. \<forall>acc. parse_elems n acc (body u) = Some (JArr (acc @ xs), u)"
      using elems_read_back [OF assms(1,3)] unfolding body_def by blast
    have "parse_value n (CHR ''['' # body u) = Some (JArr xs, u)" if "Suc N \<le> n" for n
      using N that hd [of u] by (cases n) (simp_all add: json_ws_def)
    then show ?thesis using assms(1) by (intro exI [of _ "Suc N"]) (simp add: body_def)
  qed
  then show ?thesis by (simp add: reads_back_def)
qed

lemma object_reads_back:
  assumes "ob \<noteq> []" "distinct (map fst ob)" "present ob = ob" "\<And>kv. kv \<in> set ob \<Longrightarrow> reads_back (i + 2) (snd kv)"
  shows "reads_back i (JObj ob)"
proof -
  define body where "body u = join '','' (map (\<lambda>kv. newline_indent (i + 2) @ json_string (fst kv) @ '': ''
      @ json_pretty (i + 2) (snd kv)) ob) @ newline_indent i @ CHR ''}'' # u" for u
  have hd: "\<not> starts_with (skip_ws (body u)) ''}''" for u
  proof -
    obtain kv ob' where ob: "ob = kv # ob'" using assms(1) by (cases ob) auto
    then show ?thesis by (cases ob') (simp_all add: body_def json_string_def json_ws_def)
  qed
  have "\<exists>N. \<forall>n\<ge>N. parse_value n (json_pretty i (JObj ob) @ u) = Some (JObj ob, u)" for u
  proof -
    obtain N where N: "\<forall>n\<ge>N. \<forall>acc. set (map fst acc) \<inter> set (map fst ob) = {} \<longrightarrow>
        parse_members n acc (body u) = Some (JObj (acc @ ob), u)"
      using members_read_back [OF assms(1,4,2)] unfolding body_def by blast
    have "parse_value n (CHR ''{'' # body u) = Some (JObj ob, u)" if "Suc N \<le> n" for n
      using N that hd [of u] by (cases n) (simp_all add: json_ws_def)
    then show ?thesis using assms(1,3) by (intro exI [of _ "Suc N"]) (simp add: body_def)
  qed
  then show ?thesis by (simp add: reads_back_def)
qed

lemma all_read_back: "json_ok v \<Longrightarrow> reads_back i v"
proof (induction i v rule: json_pretty.induct)
  case (4 i n)
  then show ?case by (rule number_reads_back)
next
  case (6 i xs)
  have ok: "\<And>x. x \<in> set xs \<Longrightarrow> json_ok x" using 6(2) by (simp add: list_all_iff)
  show ?case
  proof (cases "xs = []")
    case True
    then show ?thesis by (auto intro!: reads_backI simp: json_ws_def)
  next
    case False
    then show ?thesis using 6(1) ok by (intro array_reads_back) simp_all
  qed
next
  case (7 i ob)
  have ok: "distinct (map fst ob)" "\<And>kv. kv \<in> set ob \<Longrightarrow> json_ok (snd kv)"
    using 7(2) by (simp_all add: list_all_iff)
  have "snd kv \<noteq> JUndefined" if "kv \<in> set ob" for kv using ok(2) [OF that] by auto
  then have pr: "present ob = ob" by (fastforce simp: present_def filter_id_conv)
  show ?case
  proof (cases "ob = []")
    case True
    then show ?thesis by (auto intro!: reads_backI simp: json_ws_def present_def)
  next
    case False
    then show ?thesis using 7(1) ok pr by (intro object_reads_back) simp_all
  qed
qed (auto intro!: reads_backI simp: json_ws_def json_string_def json_chars_string)

lemma json_parse_stringify:
  assumes "json_ok v"
  shows "json_parse (json_stringify v) = Some v"
proof -
  let ?s = "json_pretty 0 v"
  obtain N where "\<forall>n\<ge>N. parse_value n (?s @ []) = Some (v, [])"
    using all_read_back [OF assms, of 0] unfolding reads_back_def by (meson value_end_simps(1))
  then have "parse_value (max N (2 * length ?s + 2)) ?s = Some (v, [])" by simp
  then have "parse_value (2 * length ?s + 2) ?s = Some (v, [])"
    using parse_value_fuel [of ?s "max N (2 * length ?s + 2)"] by simp
  then show ?thesis by (simp add: json_parse_def json_stringify_def skip_ws_def del: parse_value.simps)
qed

text \<open>Metadata survives the editor: what \<open>JSON.stringify(v, null, 2)\<close> writes for a value without
  \<open>undefined\<close> and with integer numbers, \<open>JSON.parse\<close> reads back as the same value.\<close>

theorem json_roundtrip: "json_ok v \<Longrightarrow> json_parse (json_stringify v) = Some v"
  by (rule json_parse_stringify)

lemma json_roundtrip_witness:
  "json_parse (json_stringify (JObj [(''gateway_ids'', JArr [JStr [CHR 0x22, CHR 0x5C], JNull]),
     (''sort'', JNum (Fin (- 12)))])) =
   Some (JObj [(''gateway_ids'', JArr [JStr [CHR 0x22, CHR 0x5C], JNull]), (''sort'', JNum (Fin (- 12)))])"
  by (rule json_roundtrip) simp


end
