(* ===== verification/Effects.thy ===== *)
theory Effects
  imports JsValue
begin

text \<open>
  How handlers act on the world. A handler is a function from the log of what happened so far to
  a result and a longer log; the log records, in order, every request, refresh, toast, dialog and
  navigation. What the outside answers (the server behind \<open>fetch\<close>, the person in front of a
  confirmation or a code prompt) is an arbitrary function of the log, so a theorem about a handler
  holds for every server and every user.

  The request function itself is \<open>frontend/src/lib/api.ts\<close>; the retry with a second factor is
  \<open>ensureAccessMFA\<close> of \<open>platform-page.tsx\<close> and its copies in the dialogs.
\<close>

section \<open>Requests, responses, errors\<close>

record request =
  rq_method :: string
  rq_path :: string
  rq_body :: "jsval option"
  rq_json_header :: bool

record http_response =
  rs_ok :: bool
  rs_status :: int
  rs_status_text :: string
  rs_json :: "jsval option"

record api_error =
  ae_message :: string
  ae_status :: int
  ae_setup_required :: bool
  ae_data :: jsval

datatype exn = ApiError api_error | OtherError string

datatype effect =
    Call request
  | Refresh bool
  | Toast string
  | ReportError exn
  | PromptMFA
  | Confirm string
  | CloseDialog
  | Download string
  | Navigate string
  | AssignUrl string
  | OpenWindow string
  | SetUser jsval
  | SetWorkspace "jsval option"
  | CopyText string
  | Emit string jsval

type_synonym log = "effect list"

record env =
  ev_fetch :: "log \<Rightarrow> string + http_response"
  ev_mfa :: "log \<Rightarrow> string"
  ev_confirm :: "log \<Rightarrow> bool"

fun calls :: "log \<Rightarrow> request list" where
  "calls [] = []"
| "calls (Call r # es) = r # calls es"
| "calls (_ # es) = calls es"

lemma calls_append [simp]: "calls (xs @ ys) = calls xs @ calls ys"
  by (induction xs rule: calls.induct) auto

section \<open>apiRequest\<close>

text \<open>Property access throws on \<open>undefined\<close> and \<open>null\<close> and finds nothing on the other
  values that are not objects.\<close>

definition js_prop :: "jsval \<Rightarrow> string \<Rightarrow> exn + jsval" where
  "js_prop v k =
     (case v of JUndefined \<Rightarrow> Inl (OtherError ''TypeError'') | JNull \<Rightarrow> Inl (OtherError ''TypeError'')
      | JObj ob \<Rightarrow> Inr (obj_get ob k) | _ \<Rightarrow> Inr JUndefined)"

fun js_to_string :: "jsval \<Rightarrow> string" where
  "js_to_string JUndefined = ''undefined''"
| "js_to_string JNull = ''null''"
| "js_to_string (JBool b) = (if b then ''true'' else ''false'')"
| "js_to_string (JNum n) = num_text n"
| "js_to_string (JStr s) = s"
| "js_to_string (JArr xs) =
     join '','' (map (\<lambda>x. if x = JUndefined \<or> x = JNull then '''' else js_to_string x) xs)"
| "js_to_string (JObj _) = ''[object Object]''"

definition api_result :: "http_response \<Rightarrow> exn + jsval" where
  "api_result resp =
     (let payload = (case rs_json resp of Some v \<Rightarrow> v | None \<Rightarrow> JObj [])
      in if rs_ok resp then Inr payload
         else case (js_prop payload ''error'', js_prop payload ''setup_required'') of
                (Inr err, Inr setup) \<Rightarrow>
                  Inl (ApiError \<lparr>ae_message = (if truthy err then js_to_string err else rs_status_text resp),
                     ae_status = rs_status resp, ae_setup_required = truthy setup, ae_data = payload\<rparr>)
              | (Inl e, _) \<Rightarrow> Inl e
              | (_, Inl e) \<Rightarrow> Inl e)"

definition mk_request :: "string \<Rightarrow> string \<Rightarrow> jsval option \<Rightarrow> request" where
  "mk_request m p b = \<lparr>rq_method = m, rq_path = p, rq_body = b, rq_json_header = (b \<noteq> None)\<rparr>"

definition apiRequest :: "env \<Rightarrow> request \<Rightarrow> log \<Rightarrow> (exn + jsval) \<times> log" where
  "apiRequest ev rq l =
     (let l' = l @ [Call rq]
      in (case ev_fetch ev l' of Inl msg \<Rightarrow> Inl (OtherError msg) | Inr resp \<Rightarrow> api_result resp, l'))"

abbreviation get_request :: "string \<Rightarrow> request" where
  "get_request p \<equiv> mk_request ''GET'' p None"

abbreviation post_request :: "string \<Rightarrow> jsval \<Rightarrow> request" where
  "post_request p b \<equiv> mk_request ''POST'' p (Some b)"

definition toast :: "string \<Rightarrow> log \<Rightarrow> log" where
  "toast msg l = l @ [Toast msg]"

definition refresh :: "bool \<Rightarrow> log \<Rightarrow> log" where
  "refresh silent l = l @ [Refresh silent]"

definition report :: "exn \<Rightarrow> log \<Rightarrow> log" where
  "report e l = l @ [ReportError e]"

lemmas effect_defs = apiRequest_def toast_def refresh_def report_def mk_request_def Let_def

lemma apiRequest_log [simp]: "snd (apiRequest ev rq l) = l @ [Call rq]"
  by (simp add: effect_defs)

lemma calls_toast [simp]: "calls (toast m l) = calls l"
  by (simp add: toast_def)

lemma calls_refresh [simp]: "calls (refresh b l) = calls l"
  by (simp add: refresh_def)

lemma calls_report [simp]: "calls (report e l) = calls l"
  by (simp add: report_def)

lemma mk_request_sel [simp]:
  "rq_method (mk_request m p b) = m" "rq_path (mk_request m p b) = p" "rq_body (mk_request m p b) = b"
  by (simp_all add: mk_request_def)

lemma api_result_ok: "rs_ok resp \<Longrightarrow> \<exists>v. api_result resp = Inr v"
  by (simp add: api_result_def Let_def)

lemma api_result_error: "\<not> rs_ok resp \<Longrightarrow> \<exists>e. api_result resp = Inl e"
  by (auto simp: api_result_def Let_def split: sum.splits)

section \<open>Calls that may need a second factor\<close>

text \<open>\<open>isAccessMFARequiredError\<close> of \<open>frontend/src/features/access/access-mfa.tsx\<close>.\<close>

definition isAccessMFARequiredError :: "exn \<Rightarrow> bool" where
  "isAccessMFARequiredError e =
     (case e of
        OtherError _ \<Rightarrow> False
      | ApiError err \<Rightarrow>
          if ae_status err \<noteq> 428 then False
          else let data = recordValue (ae_data err);
                   scope = (case obj_get data ''mfa_scope'' of JStr s \<Rightarrow> trim s | _ \<Rightarrow> '''')
               in obj_get data ''mfa_required'' = JBool True
                  \<and> obj_get data ''mfa_setup_required'' \<noteq> JBool True
                  \<and> (scope = '''' \<or> scope = ''access''))"

text \<open>
  The retry all callers share: try without a code; if the server asks for one, prompt; an empty
  answer gives up quietly (\<open>None\<close>), otherwise the call is repeated once with the code.
\<close>

definition with_access_mfa :: "env \<Rightarrow> (string \<Rightarrow> request) \<Rightarrow> log \<Rightarrow> (exn + jsval option) \<times> log" where
  "with_access_mfa ev run l =
     (case apiRequest ev (run '''') l of
        (Inr v, l1) \<Rightarrow> (Inr (Some v), l1)
      | (Inl e, l1) \<Rightarrow>
          if \<not> isAccessMFARequiredError e then (Inl e, l1)
          else let l2 = l1 @ [PromptMFA]; code = ev_mfa ev l2
               in if code = '''' then (Inr None, l2)
                  else case apiRequest ev (run code) l2 of
                         (Inr v, l3) \<Rightarrow> (Inr (Some v), l3)
                       | (Inl e', l3) \<Rightarrow> (Inl e', l3))"

text \<open>\<open>ensureAccessMFA\<close>: the same retry on a verification path; \<open>Inr False\<close> when the
  prompt was dismissed.\<close>

definition mfa_body :: "string \<Rightarrow> jsval" where
  "mfa_body mfaCode = JObj (if mfaCode \<noteq> '''' then [(''mfa_code'', JStr mfaCode)] else [])"

definition ensureAccessMFA :: "env \<Rightarrow> string \<Rightarrow> log \<Rightarrow> (exn + bool) \<times> log" where
  "ensureAccessMFA ev path l =
     (case with_access_mfa ev (\<lambda>code. post_request path (mfa_body code)) l of
        (Inl e, l') \<Rightarrow> (Inl e, l')
      | (Inr None, l') \<Rightarrow> (Inr False, l')
      | (Inr (Some _), l') \<Rightarrow> (Inr True, l'))"

lemma apiRequest_eq:
  "apiRequest ev rq l = (fst (apiRequest ev rq l), l @ [Call rq])"
  by (metis apiRequest_log prod.collapse)

text \<open>The four ways the retry can end, with the exact calls each makes.\<close>

lemma with_access_mfa_cases:
  obtains (ok) v where "with_access_mfa ev run l = (Inr (Some v), l @ [Call (run '''')])"
      "fst (apiRequest ev (run '''') l) = Inr v"
    | (failed) e where "with_access_mfa ev run l = (Inl e, l @ [Call (run '''')])"
      "fst (apiRequest ev (run '''') l) = Inl e" "\<not> isAccessMFARequiredError e"
    | (dismissed) e where "with_access_mfa ev run l = (Inr None, l @ [Call (run ''''), PromptMFA])"
      "fst (apiRequest ev (run '''') l) = Inl e" "isAccessMFARequiredError e"
      "ev_mfa ev (l @ [Call (run ''''), PromptMFA]) = ''''"
    | (retried) e code where
      "snd (with_access_mfa ev run l) = l @ [Call (run ''''), PromptMFA, Call (run code)]"
      "fst (apiRequest ev (run '''') l) = Inl e" "isAccessMFARequiredError e"
      "code = ev_mfa ev (l @ [Call (run ''''), PromptMFA])" "code \<noteq> ''''"
proof -
  let ?l2 = "l @ [Call (run ''''), PromptMFA]"
  show ?thesis
  proof (cases "fst (apiRequest ev (run '''') l)")
    case (Inr v)
    then show ?thesis
      using ok apiRequest_eq [of ev "run ''''" l] by (simp add: with_access_mfa_def)
  next
    case (Inl e)
    then have eq: "apiRequest ev (run '''') l = (Inl e, l @ [Call (run '''')])"
      using apiRequest_eq [of ev "run ''''" l] by simp
    show ?thesis
    proof (cases "isAccessMFARequiredError e")
      case False
      then show ?thesis using failed Inl eq by (simp add: with_access_mfa_def)
    next
      case True
      show ?thesis
      proof (cases "ev_mfa ev ?l2 = ''''")
        case True': True
        then show ?thesis using dismissed Inl eq True by (simp add: with_access_mfa_def Let_def)
      next
        case False
        let ?code = "ev_mfa ev ?l2"
        have "snd (with_access_mfa ev run l) = l @ [Call (run ''''), PromptMFA, Call (run ?code)]"
          using eq True False apiRequest_eq [of ev "run ?code" ?l2]
          by (auto simp: with_access_mfa_def Let_def split: sum.splits prod.splits)
        then show ?thesis using retried Inl True False by simp
      qed
    qed
  qed
qed

section \<open>Properties\<close>

text \<open>The retry makes one or two calls: first the plain one, and a second one only when the
  server refused the first with a second-factor demand, carrying a non-empty code.\<close>

theorem with_access_mfa_calls:
  "calls (snd (with_access_mfa ev run l)) = calls l @ [run ''''] \<or>
   (\<exists>e code. fst (apiRequest ev (run '''') l) = Inl e \<and> isAccessMFARequiredError e \<and> code \<noteq> '''' \<and>
      calls (snd (with_access_mfa ev run l)) = calls l @ [run '''', run code])"
  by (cases rule: with_access_mfa_cases [of ev run l]) auto

end
