(* ===== verification/Pages.thy ===== *)
theory Pages
  imports Prelude
begin

text \<open>
  The page registry of the console (\<open>frontend/src/lib/platform.ts\<close>): every managed
  collection with its route, its REST collection path and the kind of page that shows it.
  Display texts in other languages, descriptions and icons are not modelled.
\<close>

section \<open>Page configurations\<close>

datatype page_kind = KTable | KSettings | KMonitor | KTools | KAccess | KBackups

fun kind_name :: "page_kind \<Rightarrow> string" where
  "kind_name KTable = ''table''"
| "kind_name KSettings = ''settings''"
| "kind_name KMonitor = ''monitor''"
| "kind_name KTools = ''tools''"
| "kind_name KAccess = ''access''"
| "kind_name KBackups = ''backups''"

record page_config =
  pg_route :: string
  pg_collection :: string
  pg_label_en :: string
  pg_api_path :: "string option"
  pg_kind :: "page_kind option"

definition page :: "string \<Rightarrow> string \<Rightarrow> string \<Rightarrow> string \<Rightarrow> page_config" where
  "page route collection label api =
     \<lparr>pg_route = route, pg_collection = collection, pg_label_en = label,
      pg_api_path = Some api, pg_kind = None\<rparr>"

definition resourceItems :: "page_config list" where
  "resourceItems =
    [page ''/app/assets'' ''assets'' ''Assets'' ''/api/admin/assets'',
     page ''/app/asset-groups'' ''asset_groups'' ''Asset groups'' ''/api/admin/asset-groups'',
     page ''/app/database-assets'' ''database_assets'' ''Database assets'' ''/api/admin/database-assets'',
     page ''/app/credentials'' ''credentials'' ''Credentials'' ''/api/admin/credentials'',
     page ''/app/command-snippets'' ''command_snippets'' ''Command snippets'' ''/api/admin/command-snippets'',
     page ''/app/storages'' ''storages'' ''Storage'' ''/api/admin/storages'',
     page ''/app/web-assets'' ''web_assets'' ''Web assets'' ''/api/admin/websites'',
     page ''/app/certificates'' ''certificates'' ''Certificates'' ''/api/admin/certificates'',
     page ''/app/sql-work-orders'' ''sql_work_orders'' ''SQL work orders'' ''/api/admin/sql-work-orders'']"

definition gatewayItems :: "page_config list" where
  "gatewayItems =
    [page ''/app/ssh-gateways'' ''ssh_gateways'' ''SSH gateways'' ''/api/admin/ssh-gateways'',
     page ''/app/agent-gateways'' ''agent_gateways'' ''Secure gateways'' ''/api/admin/agent-gateways'',
     page ''/app/gateway-groups'' ''gateway_groups'' ''Gateway groups'' ''/api/admin/gateway-groups'']"

definition auditItems :: "page_config list" where
  "auditItems =
    [page ''/app/online-sessions'' ''online_sessions'' ''Online sessions'' ''/api/admin/audit/online-sessions'',
     page ''/app/offline-sessions'' ''offline_sessions'' ''Offline sessions'' ''/api/admin/audit/offline-sessions'',
     page ''/app/exec-command-logs'' ''exec_command_logs'' ''Remote command logs'' ''/api/admin/audit/exec-command-logs'',
     page ''/app/file-logs'' ''file_logs'' ''File logs'' ''/api/admin/audit/file-logs'',
     page ''/app/access-logs'' ''access_logs'' ''Access logs'' ''/api/admin/audit/access-logs'',
     page ''/app/access-stats'' ''access_stats'' ''Access stats'' ''/api/admin/audit/access-stats'',
     page ''/app/login-logs'' ''login_logs'' ''Login logs'' ''/api/admin/audit/login-logs'',
     page ''/app/operation-logs'' ''operation_logs'' ''Operation logs'' ''/api/admin/audit/operation-logs'',
     page ''/app/sql-logs'' ''sql_logs'' ''SQL logs'' ''/api/admin/audit/sql-logs'']"

definition opsItems :: "page_config list" where
  "opsItems =
    [page ''/app/scheduled-tasks'' ''scheduled_tasks'' ''Scheduled tasks'' ''/api/admin/scheduled-tasks'',
     (page ''/app/backups'' ''backups'' ''Backup and restore'' ''/api/admin/backups'')\<lparr>pg_kind := Some KBackups\<rparr>,
     (page ''/app/tools'' ''tools'' ''Tools'' ''/api/tools/ping'')\<lparr>pg_kind := Some KTools\<rparr>,
     (page ''/app/monitoring'' ''system_monitoring'' ''Monitoring'' ''/api/system/monitoring'')\<lparr>pg_kind := Some KMonitor\<rparr>]"

definition identityItems :: "page_config list" where
  "identityItems =
    [page ''/app/users'' ''users'' ''Users'' ''/api/admin/users'',
     page ''/app/roles'' ''roles'' ''Roles'' ''/api/admin/roles'',
     page ''/app/departments'' ''departments'' ''Departments'' ''/api/admin/departments'',
     page ''/app/login-policies'' ''login_policies'' ''Login policies'' ''/api/admin/login-policies'',
     page ''/app/login-locked'' ''login_locks'' ''Login locks'' ''/api/admin/login-locked'',
     page ''/app/oidc-clients'' ''oidc_clients'' ''OIDC clients'' ''/api/admin/oidc-clients'']"

definition authzItems :: "page_config list" where
  "authzItems =
    [page ''/app/command-filters'' ''command_filters'' ''Command filters'' ''/api/admin/command-filters'',
     page ''/app/command-approvals'' ''command_approvals'' ''Command approvals'' ''/api/admin/command-approvals'',
     page ''/app/authorization-strategies'' ''authorization_strategies'' ''Authorization strategies'' ''/api/admin/strategies'',
     page ''/app/authorized-assets'' ''authorized_assets'' ''Authorized assets'' ''/api/admin/authorizations/assets'',
     page ''/app/authorized-web-assets'' ''authorized_web_assets'' ''Authorized Web assets'' ''/api/admin/authorizations/websites'',
     page ''/app/authorized-database-assets'' ''authorized_database_assets'' ''Authorized database assets'' ''/api/admin/authorizations/databases'']"

definition settingsItems :: "page_config list" where
  "settingsItems =
    [(page ''/app/system-settings'' ''system_settings'' ''System settings'' ''/api/admin/system-settings'')\<lparr>pg_kind := Some KSettings\<rparr>]"

text \<open>The navigation groups, with their English labels, in the order of the side bar.\<close>

definition platformNavGroups :: "(string \<times> page_config list) list" where
  "platformNavGroups =
    [(''Resources'', resourceItems), (''Gateways'', gatewayItems), (''Audit'', auditItems),
     (''Operations'', opsItems), (''Identity'', identityItems), (''Authorization'', authzItems),
     (''Settings'', settingsItems)]"

definition platformPages :: "page_config list" where
  "platformPages = concat (map snd platformNavGroups)"

definition platformPageByRoute :: "string \<Rightarrow> page_config option" where
  "platformPageByRoute route = find (\<lambda>p. pg_route p = route) platformPages"

lemmas page_tables = page_def resourceItems_def gatewayItems_def auditItems_def opsItems_def
  identityItems_def authzItems_def settingsItems_def platformNavGroups_def platformPages_def

section \<open>The registry has no clashes\<close>

lemma distinct_routes: "distinct (map pg_route platformPages)"
  by (simp add: page_tables)

lemma distinct_collections: "distinct (map pg_collection platformPages)"
  by (simp add: page_tables)

lemma platformPageByRoute_complete:
  "p \<in> set platformPages \<Longrightarrow> platformPageByRoute (pg_route p) = Some p"
proof -
  assume p: "p \<in> set platformPages"
  have "find (\<lambda>q. pg_route q = pg_route p) ps = Some p"
    if "distinct (map pg_route ps)" "p \<in> set ps" for ps
    using that by (induction ps) (auto simp: rev_image_eqI)
  with p distinct_routes show ?thesis by (simp add: platformPageByRoute_def)
qed

lemma platformPageByRoute_sound:
  "platformPageByRoute r = Some p \<Longrightarrow> p \<in> set platformPages \<and> pg_route p = r"
  by (auto simp: platformPageByRoute_def find_Some_iff)

end
