(* ===== verification/Rbac.thy ===== *)
theory Rbac
  imports Pages
begin

text \<open>
  Role-based access control of the front end (\<open>frontend/src/lib/rbac.ts\<close>): role names,
  the permission patterns of custom roles, the pages a role may open and the API calls it may
  make. The second half gives an abstract meaning to permission patterns (a set of paths each)
  and shows that the string matching of the code decides it.
\<close>

section \<open>Roles\<close>

datatype role_kind = SuperAdmin | Admin | Auditor | User | Custom

definition role_super_zh :: string where
  "role_super_zh = [CHR 0xE8, CHR 0xB6, CHR 0x85, CHR 0xE7, CHR 0xBA, CHR 0xA7, CHR 0xE7,
     CHR 0xAE, CHR 0xA1, CHR 0xE7, CHR 0x90, CHR 0x86, CHR 0xE5, CHR 0x91, CHR 0x98]"

definition role_admin_zh :: string where
  "role_admin_zh = [CHR 0xE7, CHR 0xAE, CHR 0xA1, CHR 0xE7, CHR 0x90, CHR 0x86, CHR 0xE5,
     CHR 0x91, CHR 0x98]"

definition role_auditor_zh :: string where
  "role_auditor_zh = [CHR 0xE5, CHR 0xAE, CHR 0xA1, CHR 0xE8, CHR 0xAE, CHR 0xA1, CHR 0xE5,
     CHR 0x91, CHR 0x98]"

definition role_user_zh :: string where
  "role_user_zh = [CHR 0xE6, CHR 0x99, CHR 0xAE, CHR 0xE9, CHR 0x80, CHR 0x9A, CHR 0xE7,
     CHR 0x94, CHR 0xA8, CHR 0xE6, CHR 0x88, CHR 0xB7]"

definition normalizeRole :: "string option \<Rightarrow> role_kind" where
  "normalizeRole role =
     (let value = collapse (\<lambda>c. c = CHR ''-'' \<or> is_ws c) CHR ''_'' (lower (trim (opt_str role)))
      in if value \<in> set [''super_admin'', ''superadmin'', ''root'', ''owner'', role_super_zh]
           then SuperAdmin
         else if value \<in> set [''admin'', ''administrator'', role_admin_zh] then Admin
         else if value \<in> set [''auditor'', ''audit'', role_auditor_zh] then Auditor
         else if value = [] \<or> value \<in> set [''user'', ''member'', role_user_zh] then User
         else Custom)"

definition isAdminRole :: "string option \<Rightarrow> bool" where
  "isAdminRole role \<longleftrightarrow>
     (let kind = normalizeRole role in kind = SuperAdmin \<or> kind = Admin)"

definition isAuditorRole :: "string option \<Rightarrow> bool" where
  "isAuditorRole role \<longleftrightarrow> normalizeRole role = Auditor"

section \<open>Permission patterns\<close>

definition trimRightSlash :: "string \<Rightarrow> string" where
  "trimRightSlash value = or_str (strip_right (\<lambda>c. c = CHR ''/'') value) ''/''"

definition pathMatches :: "string \<Rightarrow> string \<Rightarrow> bool" where
  "pathMatches pattern path =
     (let normalizedPattern = trimRightSlash pattern; normalizedPath = trimRightSlash path
      in if normalizedPattern = normalizedPath then True
         else if ends_with normalizedPattern ''/*''
           then starts_with normalizedPath
                  (take (length normalizedPattern - 2) normalizedPattern @ ''/'')
         else if ends_with normalizedPattern ''*''
           then starts_with normalizedPath (butlast normalizedPattern)
         else False)"

definition collectionDetailPathMatches :: "string \<Rightarrow> string \<Rightarrow> bool" where
  "collectionDetailPathMatches pattern path =
     (let normalizedPattern = trimRightSlash pattern; normalizedPath = trimRightSlash path
      in if normalizedPattern = [] \<or> str_includes normalizedPattern ''*''
            \<or> normalizedPattern = normalizedPath then False
         else let pre = normalizedPattern @ ''/''
              in if \<not> starts_with normalizedPath pre then False
                 else let tail = drop (length pre) normalizedPath
                      in tail \<noteq> [] \<and> \<not> str_includes tail ''/'')"

definition permissionMatchesAPI :: "string \<Rightarrow> string \<Rightarrow> string \<Rightarrow> bool" where
  "permissionMatchesAPI permission method path =
     (let value = trim permission
      in if value = [] then False
         else if value = ''admin:*'' \<or> value = ''* /api/*'' \<or> value = ''*'' then True
         else if value = ''audit:read'' \<and> method = ''GET''
                 \<and> starts_with path ''/api/admin/audit/'' then True
         else case split_runs is_ws value of
                [p] \<Rightarrow> pathMatches p path
                        \<or> (method = ''GET'' \<and> collectionDetailPathMatches p path)
              | m # p # _ \<Rightarrow>
                  if m \<noteq> ''*'' \<and> upper m \<noteq> method then False
                  else pathMatches p path
                        \<or> (method = ''GET'' \<and> collectionDetailPathMatches p path)
              | [] \<Rightarrow> False)"

definition auditorCanUseAPI :: "string \<Rightarrow> string \<Rightarrow> bool" where
  "auditorCanUseAPI method path =
     (if method \<noteq> ''GET'' then False
      else path = ''/api/system/monitoring'' \<or> path = ''/api/bootstrap'' \<or> path = ''/api/audit''
           \<or> starts_with path ''/api/admin/audit/'')"

definition canUseAPI :: "string option \<Rightarrow> string list \<Rightarrow> string \<Rightarrow> string \<Rightarrow> bool" where
  "canUseAPI role apiPermissions method path =
     (let normalizedMethod = upper (trim method); normalizedPath = trimRightSlash path
      in if isAdminRole role then True
         else if isAuditorRole role then auditorCanUseAPI normalizedMethod normalizedPath
         else if normalizeRole role \<noteq> Custom then False
         else \<exists>p \<in> set apiPermissions. permissionMatchesAPI p normalizedMethod normalizedPath)"

section \<open>Pages\<close>

definition menuPermissionAllows :: "string list \<Rightarrow> page_config \<Rightarrow> bool" where
  "menuPermissionAllows menuPermissions pg =
     (if menuPermissions = [] then False
      else let candidates = filter (\<lambda>c. c \<noteq> [])
             [''*'', ''admin:*'', pg_collection pg, pg_route pg,
              pg_collection pg @ '':read'', pg_collection pg @ '':*'',
              (case pg_kind pg of Some k \<Rightarrow> kind_name k @ '':read'' | None \<Rightarrow> ''''),
              (case pg_kind pg of Some k \<Rightarrow> kind_name k @ '':*'' | None \<Rightarrow> '''')]
           in \<exists>permission \<in> set menuPermissions.
                (let value = trim permission
                 in if value \<in> set candidates then True
                    else if ends_with value ''*''
                      then starts_with (pg_collection pg) (butlast value)
                           \<or> starts_with (pg_route pg) (butlast value)
                    else False))"

definition canViewPlatformPage :: "string option \<Rightarrow> page_config \<Rightarrow> string list \<Rightarrow> bool" where
  "canViewPlatformPage role pg menuPermissions =
     (if isAdminRole role then True
      else if isAuditorRole role
        then ends_with (pg_collection pg) ''_logs'' \<or> pg_collection pg = ''access_stats''
             \<or> pg_collection pg = ''online_sessions'' \<or> pg_collection pg = ''offline_sessions''
             \<or> pg_collection pg = ''system_monitoring''
      else if normalizeRole role = Custom then menuPermissionAllows menuPermissions pg
      else False)"

lemmas role_defs = normalizeRole_def isAdminRole_def isAuditorRole_def role_super_zh_def
  role_admin_zh_def role_auditor_zh_def role_user_zh_def

section \<open>Role kinds decide the checks\<close>

lemma isAdminRole_iff: "isAdminRole r \<longleftrightarrow> normalizeRole r \<in> {SuperAdmin, Admin}"
  by (simp add: isAdminRole_def Let_def)

lemma normalizeRole_None: "normalizeRole None = User"
  by (simp add: role_defs js_defs)

lemma normalizeRole_samples:
  "normalizeRole (Some ''admin'') = Admin" "normalizeRole (Some ''auditor'') = Auditor"
  "normalizeRole (Some ''user'') = User" "normalizeRole (Some ''custom'') = Custom"
  "normalizeRole (Some '' Super-Admin '') = SuperAdmin"
  "normalizeRole (Some role_admin_zh) = Admin"
  by (simp_all add: role_defs js_defs)

lemma canUseAPI_admin: "isAdminRole r \<Longrightarrow> canUseAPI r ps m p"
  by (simp add: canUseAPI_def)

lemma canUseAPI_user: "normalizeRole r = User \<Longrightarrow> \<not> canUseAPI r ps m p"
  by (simp add: canUseAPI_def isAdminRole_iff isAuditorRole_def)

lemma canUseAPI_auditor:
  "normalizeRole r = Auditor \<Longrightarrow>
     canUseAPI r ps m p \<longleftrightarrow> auditorCanUseAPI (upper (trim m)) (trimRightSlash p)"
  by (simp add: canUseAPI_def isAdminRole_iff isAuditorRole_def)

lemma canUseAPI_custom:
  "normalizeRole r = Custom \<Longrightarrow>
     canUseAPI r ps m p \<longleftrightarrow>
       (\<exists>q \<in> set ps. permissionMatchesAPI q (upper (trim m)) (trimRightSlash p))"
  by (simp add: canUseAPI_def isAdminRole_iff isAuditorRole_def)

section \<open>Trailing slashes\<close>

lemma trimRightSlash_not_Nil [simp]: "trimRightSlash p \<noteq> []"
  by (simp add: trimRightSlash_def or_str_def)

lemma trimRightSlash_idem [simp]: "trimRightSlash (trimRightSlash p) = trimRightSlash p"
  by (simp add: trimRightSlash_def or_str_def)

lemma trimRightSlash_snoc [simp]: "trimRightSlash (p @ ''/'') = trimRightSlash p"
  by (simp add: trimRightSlash_def strip_right_snoc)

lemma trimRightSlash_id: "p \<noteq> [] \<Longrightarrow> last p \<noteq> CHR ''/'' \<Longrightarrow> trimRightSlash p = p"
  by (simp add: trimRightSlash_def strip_right_id or_str_def)

lemma trimRightSlash_cases:
  "trimRightSlash p = ''/'' \<or> last (trimRightSlash p) \<noteq> CHR ''/''"
  using strip_right_last [of "\<lambda>c. c = CHR ''/''" p] by (auto simp: trimRightSlash_def or_str_def)

section \<open>What a path pattern means\<close>

text \<open>
  A pattern is an exact path, everything strictly below a directory (\<open>d/*\<close>), or everything
  with a given beginning (\<open>b*\<close>).
\<close>

datatype path_pattern = Exact string | Below string | Beginning string

definition parse_pattern :: "string \<Rightarrow> path_pattern" where
  "parse_pattern s =
     (let n = trimRightSlash s
      in if ends_with n ''/*'' then Below (take (length n - 2) n)
         else if ends_with n ''*'' then Beginning (butlast n)
         else Exact n)"

fun pattern_paths :: "path_pattern \<Rightarrow> string set" where
  "pattern_paths (Exact n) = {n}"
| "pattern_paths (Below d) = {p. \<exists>t. p = d @ ''/'' @ t}"
| "pattern_paths (Beginning b) = {p. \<exists>t. p = b @ t}"

definition detail_paths :: "string \<Rightarrow> string set" where
  "detail_paths n = {p. CHR ''*'' \<notin> set n \<and> (\<exists>t. p = n @ ''/'' @ t \<and> t \<noteq> [] \<and> CHR ''/'' \<notin> set t)}"

lemma str_includes_single: "str_includes s [c] \<longleftrightarrow> c \<in> set s"
  by (induction s) auto

lemma ends_with_split: "ends_with s p \<Longrightarrow> s = take (length s - length p) s @ p"
  by (auto simp: ends_with_suffix suffix_def)

lemma pathMatches_refines:
  "pathMatches s p \<longleftrightarrow> trimRightSlash p \<in> pattern_paths (parse_pattern s)"
proof -
  define n where "n = trimRightSlash s"
  define q where "q = trimRightSlash p"
  have n: "n \<noteq> []" by (simp add: n_def)
  consider (below) "ends_with n ''/*''" | (star) "\<not> ends_with n ''/*''" "ends_with n ''*''"
    | (exact) "\<not> ends_with n ''/*''" "\<not> ends_with n ''*''" by blast
  then show ?thesis
  proof cases
    case below
    then have e: "n = take (length n - 2) n @ ''/*''" using ends_with_split [of n "''/*''"] by (simp add: numeral_2_eq_2)
    have "n = q \<Longrightarrow> \<exists>t. q = take (length n - 2) n @ ''/'' @ t" using e by (metis append_Cons append_Nil)
    with below show ?thesis
      by (auto simp: pathMatches_def parse_pattern_def Let_def prefix_def simp flip: n_def q_def)
  next
    case star
    then have e: "n = butlast n @ ''*''"
      using n by (metis append_butlast_last_id ends_with_suffix last_snoc suffix_def)
    have "n = q \<Longrightarrow> \<exists>t. q = butlast n @ t" using e by metis
    with star show ?thesis
      by (auto simp: pathMatches_def parse_pattern_def Let_def prefix_def simp flip: n_def q_def)
  next
    case exact
    then show ?thesis
      by (auto simp: pathMatches_def parse_pattern_def Let_def simp flip: n_def q_def)
  qed
qed

lemma collectionDetail_refines:
  "collectionDetailPathMatches s p \<longleftrightarrow> trimRightSlash p \<in> detail_paths (trimRightSlash s)"
  by (auto simp: collectionDetailPathMatches_def detail_paths_def Let_def str_includes_single prefix_def)

section \<open>Splitting a permission into method and path\<close>

lemma split_runs_none: "(\<And>c. c \<in> set s \<Longrightarrow> \<not> P c) \<Longrightarrow> split_runs P s = [s]"
  by (subst split_runs.simps) (simp add: dropWhile_eq_Nil_conv [THEN iffD2])

lemma split_runs_two:
  assumes "\<And>c. c \<in> set s \<Longrightarrow> \<not> P c" "P d" "\<And>c. c \<in> set t \<Longrightarrow> \<not> P c"
  shows "split_runs P (s @ d # t) = [s, t]"
proof -
  have dr: "dropWhile (\<lambda>c. \<not> P c) (s @ d # t) = d # t"
    and ta: "takeWhile (\<lambda>c. \<not> P c) (s @ d # t) = s"
    using assms(1,2) by (simp_all add: dropWhile_append2 takeWhile_append2)
  have "dropWhile P t = t" using assms(3) by (cases t) simp_all
  with dr ta assms(3) show ?thesis
    by (subst split_runs.simps) (simp add: split_runs_none)
qed

lemma no_ws_hd_last:
  assumes "s \<noteq> []" "\<And>c. c \<in> set s \<Longrightarrow> \<not> is_ws c"
  shows "\<not> is_ws (hd s) \<and> \<not> is_ws (last s)"
  using assms by (metis hd_in_set last_in_set)

lemma permission_method_path:
  assumes m: "m \<noteq> []" "\<And>c. c \<in> set m \<Longrightarrow> \<not> is_ws c" "m \<noteq> ''*''"
    and p: "p \<noteq> []" "\<And>c. c \<in> set p \<Longrightarrow> \<not> is_ws c"
  shows "permissionMatchesAPI (m @ '' '' @ p) method path \<longleftrightarrow>
     upper m = method \<and>
       (pathMatches p path \<or> method = ''GET'' \<and> collectionDetailPathMatches p path)"
proof -
  let ?v = "m @ '' '' @ p"
  have sp: "is_ws CHR '' ''" by (simp add: is_ws_def)
  have tr: "trim ?v = ?v"
    by (rule trim_id) (use no_ws_hd_last [of m] no_ws_hd_last [of p] m p in simp)
  have spl: "split_runs is_ws ?v = [m, p]"
    using split_runs_two [of m is_ws "CHR '' ''" p] m p sp by simp
  have ne: "?v \<noteq> ''admin:*'' \<and> ?v \<noteq> ''*'' \<and> ?v \<noteq> ''audit:read''"
  proof -
    have "CHR '' '' \<in> set ?v" by simp
    moreover have "CHR '' '' \<notin> set ''admin:*''" "CHR '' '' \<notin> set ''*''" "CHR '' '' \<notin> set ''audit:read''"
      by simp_all
    ultimately show ?thesis by metis
  qed
  have spl': "split_runs is_ws ''* /api/*'' = [''*'', ''/api/*'']"
    by code_simp
  have "?v \<noteq> ''* /api/*''" using spl spl' m(3) by fastforce
  with tr spl ne m(3) show ?thesis
    by (auto simp: permissionMatchesAPI_def Let_def)
qed

section \<open>Properties\<close>

text \<open>C24 The string matching of path patterns decides the set of paths each pattern denotes.\<close>

theorem pathMatches_meaning:
  "pathMatches s p \<longleftrightarrow> trimRightSlash p \<in> pattern_paths (parse_pattern s)"
  by (rule pathMatches_refines)

text \<open>An auditor never gets past reads: every call it may make is a GET on monitoring,
  bootstrap or the audit area, whatever permission strings it carries.\<close>

theorem auditor_read_only:
  assumes "normalizeRole r = Auditor" "canUseAPI r ps m p"
  shows "upper (trim m) = ''GET'' \<and>
    (trimRightSlash p \<in> {''/api/system/monitoring'', ''/api/bootstrap'', ''/api/audit''} \<or>
     starts_with (trimRightSlash p) ''/api/admin/audit/'')"
  using assms by (simp add: canUseAPI_auditor auditorCanUseAPI_def split: if_splits)

lemma auditor_read_only_witness:
  "upper (trim ''get'') = ''GET'' \<and>
    (trimRightSlash ''/api/admin/audit/sql-logs/'' \<in>
       {''/api/system/monitoring'', ''/api/bootstrap'', ''/api/audit''} \<or>
     starts_with (trimRightSlash ''/api/admin/audit/sql-logs/'') ''/api/admin/audit/'')"
  by (rule auditor_read_only [where r = "Some ''audit''" and ps = "[]"]) code_simp+

text \<open>A permission \<open>METHOD path\<close> without wildcards grants a custom role exactly that path
  and, for GET, the direct children of it; nothing deeper and no other method.\<close>

theorem custom_permission_exact:
  assumes "normalizeRole r = Custom"
    and "m \<noteq> []" "\<And>c. c \<in> set m \<Longrightarrow> \<not> is_ws c" "m \<noteq> ''*''"
    and "p \<noteq> []" "\<And>c. c \<in> set p \<Longrightarrow> \<not> is_ws c" "CHR ''*'' \<notin> set p" "last p \<noteq> CHR ''/''"
  shows "canUseAPI r [m @ '' '' @ p] m' q \<longleftrightarrow>
    upper m = upper (trim m') \<and>
    (trimRightSlash q = p \<or>
     upper (trim m') = ''GET'' \<and>
       (\<exists>t. trimRightSlash q = p @ ''/'' @ t \<and> t \<noteq> [] \<and> CHR ''/'' \<notin> set t))"
proof -
  have tp: "trimRightSlash p = p" using assms(5,8) by (rule trimRightSlash_id)
  have "\<not> ends_with p ''*''" using assms(7) by (auto simp: ends_with_suffix suffix_def)
  moreover have "\<not> ends_with p ''/*''" using assms(7) by (auto simp: ends_with_suffix suffix_def)
  ultimately have "parse_pattern p = Exact p" by (simp add: parse_pattern_def tp)
  then show ?thesis
    using assms(7) tp permission_method_path [OF assms(2-6)]
    by (simp add: canUseAPI_custom [OF assms(1)] pathMatches_refines
        collectionDetail_refines detail_paths_def)
qed

lemma custom_permission_exact_witness:
  "canUseAPI (Some ''ops'') [''GET'' @ '' '' @ ''/api/admin/storages''] ''get'' ''/api/admin/storages/s1/'' \<longleftrightarrow>
    upper ''GET'' = upper (trim ''get'') \<and>
    (trimRightSlash ''/api/admin/storages/s1/'' = ''/api/admin/storages'' \<or>
     upper (trim ''get'') = ''GET'' \<and>
       (\<exists>t. trimRightSlash ''/api/admin/storages/s1/'' = ''/api/admin/storages'' @ ''/'' @ t \<and> t \<noteq> [] \<and>
            CHR ''/'' \<notin> set t))"
  by (rule custom_permission_exact) (auto simp: role_defs js_defs)

text \<open>Extending the permission list of a role never takes a call away from it.\<close>

theorem canUseAPI_monotone:
  assumes "canUseAPI r ps m p" "set ps \<subseteq> set qs"
  shows "canUseAPI r qs m p"
  using assms by (auto simp: canUseAPI_def Let_def split: if_splits)

lemma canUseAPI_monotone_witness:
  "canUseAPI (Some ''ops'') [''audit:read'', ''GET /api/x''] ''GET'' ''/api/x''"
  by (rule canUseAPI_monotone [of _ "[''GET /api/x'']"]) (code_simp, simp)

section \<open>The repository's own table of cases\<close>

text \<open>
  \<open>frontend/scripts/check-rbac-permissions.mjs\<close> lists calls with the answer expected
  of \<open>canUseAPI\<close> and fails when one differs.
\<close>

definition rbac_cases :: "(string \<times> bool \<times> string \<times> string list \<times> string \<times> string) list" where
  "rbac_cases =
    [(''admin can run storage writes'', True, ''admin'', [], ''POST'', ''/api/admin/storages/s1/files-write''),
     (''auditor can read audit recordings'', True, ''auditor'', [], ''GET'', ''/api/admin/audit/offline-sessions/s1/recording''),
     (''auditor cannot disconnect online sessions'', False, ''auditor'', [], ''POST'', ''/api/admin/audit/online-sessions/s1/disconnect''),
     (''user cannot use admin APIs'', False, ''user'', [], ''GET'', ''/api/admin/storages''),
     (''collection read allows one item detail'', True, ''custom'', [''GET /api/admin/storages''], ''GET'', ''/api/admin/storages/s1''),
     (''collection read does not allow storage file actions'', False, ''custom'', [''GET /api/admin/storages''], ''GET'', ''/api/admin/storages/s1/files''),
     (''storage wildcard read allows file download'', True, ''custom'', [''GET /api/admin/storages/*''], ''GET'', ''/api/admin/storages/s1/files-download''),
     (''storage wildcard read does not allow upload'', False, ''custom'', [''GET /api/admin/storages/*''], ''POST'', ''/api/admin/storages/s1/files-upload''),
     (''storage wildcard write allows upload'', True, ''custom'', [''POST /api/admin/storages/*''], ''POST'', ''/api/admin/storages/s1/files-upload''),
     (''method wildcard allows storage delete'', True, ''custom'', [''* /api/admin/storages/*''], ''DELETE'', ''/api/admin/storages/s1/files''),
     (''backup list permission allows list only'', True, ''custom'', [''GET /api/admin/backups''], ''GET'', ''/api/admin/backups''),
     (''backup list permission does not allow download'', False, ''custom'', [''GET /api/admin/backups''], ''GET'', ''/api/admin/backups/openweb.zip/download''),
     (''backup wildcard read allows download'', True, ''custom'', [''GET /api/admin/backups/*''], ''GET'', ''/api/admin/backups/openweb.zip/download''),
     (''backup create permission does not allow restore'', False, ''custom'', [''POST /api/admin/backups''], ''POST'', ''/api/admin/backups/restore''),
     (''backup restore permission allows restore'', True, ''custom'', [''POST /api/admin/backups/restore''], ''POST'', ''/api/admin/backups/restore''),
     (''backup delete wildcard allows delete'', True, ''custom'', [''DELETE /api/admin/backups/*''], ''DELETE'', ''/api/admin/backups/openweb.zip''),
     (''tool runner requires POST permission'', True, ''custom'', [''POST /api/tools/ping''], ''POST'', ''/api/tools/ping''),
     (''tool runner rejects GET permission'', False, ''custom'', [''GET /api/tools/ping''], ''POST'', ''/api/tools/ping''),
     (''monitoring read allows auditor'', True, ''auditor'', [], ''GET'', ''/api/system/monitoring''),
     (''monitoring read allows custom GET permission'', True, ''custom'', [''GET /api/system/monitoring''], ''GET'', ''/api/system/monitoring''),
     (''access stats allows audit read'', True, ''custom'', [''audit:read''], ''GET'', ''/api/admin/audit/access-stats''),
     (''access stats rejects non-audit collection read'', False, ''custom'', [''GET /api/admin/access-stats''], ''GET'', ''/api/admin/audit/access-stats''),
     (''system settings read allows setting detail'', True, ''custom'', [''GET /api/admin/system-settings''], ''GET'', ''/api/admin/system-settings/s1''),
     (''system settings read does not allow OIDC test'', False, ''custom'', [''GET /api/admin/system-settings''], ''POST'', ''/api/admin/system-settings/oidc/test''),
     (''system settings create does not allow existing setting patch'', False, ''custom'', [''POST /api/admin/system-settings''], ''PATCH'', ''/api/admin/system-settings/s1''),
     (''system settings wildcard patch allows existing setting update'', True, ''custom'', [''PATCH /api/admin/system-settings/*''], ''PATCH'', ''/api/admin/system-settings/s1''),
     (''SMTP test requires its explicit API permission'', True, ''custom'', [''POST /api/admin/system-settings/smtp/test''], ''POST'', ''/api/admin/system-settings/smtp/test''),
     (''login policies read allows detail only'', True, ''custom'', [''GET /api/admin/login-policies''], ''GET'', ''/api/admin/login-policies/p1''),
     (''login policies read rejects toggle'', False, ''custom'', [''GET /api/admin/login-policies''], ''PATCH'', ''/api/admin/login-policies/p1''),
     (''login lock read rejects unlock'', False, ''custom'', [''GET /api/admin/login-locked''], ''DELETE'', ''/api/admin/login-locked/l1''),
     (''login lock wildcard delete allows unlock'', True, ''custom'', [''DELETE /api/admin/login-locked/*''], ''DELETE'', ''/api/admin/login-locked/l1''),
     (''license read does not allow update'', False, ''custom'', [''GET /api/admin/license''], ''PUT'', ''/api/admin/license''),
     (''license put allows local license save'', True, ''custom'', [''PUT /api/admin/license''], ''PUT'', ''/api/admin/license''),
     (''proxy services read does not allow save'', False, ''custom'', [''GET /api/admin/proxy-services''], ''POST'', ''/api/admin/proxy-services''),
     (''proxy services post allows save'', True, ''custom'', [''POST /api/admin/proxy-services''], ''POST'', ''/api/admin/proxy-services''),
     (''certificate ACME permission does not imply DNS provider read'', False, ''custom'', [''POST /api/admin/certificates/acme''], ''GET'', ''/api/admin/certificates/dns-providers''),
     (''certificate DNS provider read allows provider list'', True, ''custom'', [''GET /api/admin/certificates/dns-providers''], ''GET'', ''/api/admin/certificates/dns-providers''),
     (''certificate collection read does not allow certificate logs'', False, ''custom'', [''GET /api/admin/certificates''], ''GET'', ''/api/admin/certificates/c1/logs''),
     (''certificate wildcard read allows certificate logs'', True, ''custom'', [''GET /api/admin/certificates/*''], ''GET'', ''/api/admin/certificates/c1/logs''),
     (''certificate upload permission does not allow self signed create'', False, ''custom'', [''POST /api/admin/certificates/upload''], ''POST'', ''/api/admin/certificates/self-signed''),
     (''certificate wildcard write allows mTLS update'', True, ''custom'', [''POST /api/admin/certificates/*''], ''POST'', ''/api/admin/certificates/c1/mtls''),
     (''agent gateway read does not issue token'', False, ''custom'', [''GET /api/admin/agent-gateways''], ''POST'', ''/api/admin/agent-gateways/g1/token''),
     (''agent gateway read allows runtime status'', True, ''custom'', [''GET /api/admin/agent-gateways''], ''GET'', ''/api/admin/agent-gateways/status''),
     (''agent gateway token permission allows token issue'', True, ''custom'', [''POST /api/admin/agent-gateways/*''], ''POST'', ''/api/admin/agent-gateways/g1/token''),
     (''gateway group read allows runtime status'', True, ''custom'', [''GET /api/admin/gateway-groups''], ''GET'', ''/api/admin/gateway-groups/status''),
     (''scheduled task read does not allow run'', False, ''custom'', [''GET /api/admin/scheduled-tasks''], ''POST'', ''/api/admin/scheduled-tasks/t1/run''),
     (''scheduled task wildcard read allows logs'', True, ''custom'', [''GET /api/admin/scheduled-tasks/*''], ''GET'', ''/api/admin/scheduled-tasks/t1/logs''),
     (''scheduled task wildcard write allows run'', True, ''custom'', [''POST /api/admin/scheduled-tasks/*''], ''POST'', ''/api/admin/scheduled-tasks/t1/run''),
     (''SQL work order wildcard write allows approve'', True, ''custom'', [''POST /api/admin/sql-work-orders/*''], ''POST'', ''/api/admin/sql-work-orders/w1/approve''),
     (''command approval wildcard write allows execute'', True, ''custom'', [''POST /api/admin/command-approvals/*''], ''POST'', ''/api/admin/command-approvals/a1/execute'')]"

definition rbac_failed :: "(string \<times> bool \<times> string \<times> string list \<times> string \<times> string) list \<Rightarrow> string list" where
  "rbac_failed cases =
     map fst (filter (\<lambda>(_, expected, role, perms, m, p).
       canUseAPI (Some role) perms m p \<noteq> expected) cases)"

lemma canUseAPI_samples:
  "canUseAPI (Some ''admin'') ps m p = True" "canUseAPI (Some ''user'') ps m p = False"
  "canUseAPI (Some ''auditor'') ps m p = auditorCanUseAPI (upper (trim m)) (trimRightSlash p)"
  "canUseAPI (Some ''custom'') ps m p =
     (\<exists>q \<in> set ps. permissionMatchesAPI q (upper (trim m)) (trimRightSlash p))"
  by (simp_all add: canUseAPI_admin isAdminRole_iff normalizeRole_samples canUseAPI_user
      canUseAPI_auditor canUseAPI_custom)

lemma rbac_failed_Nil_iff:
  "rbac_failed cs = [] \<longleftrightarrow>
     list_all (\<lambda>(_, expected, role, perms, m, p). canUseAPI (Some role) perms m p = expected) cs"
  by (auto simp: rbac_failed_def filter_empty_conv list_all_iff)

text \<open>Every case of the repository's RBAC check passes.\<close>

theorem rbac_cases_pass: "rbac_failed rbac_cases = []"
  unfolding rbac_failed_Nil_iff rbac_cases_def list.pred_inject prod.case canUseAPI_samples
  by code_simp

end
