(* ===== verification/Platform.thy ===== *)
theory Platform
  imports Json Effects Rbac
begin

text \<open>
  The records the console works on: \<open>PlatformItem\<close> (\<open>frontend/src/types.ts\<close>), the form of
  \<open>platform-page.tsx\<close> with its conversions to and from an item, and the metadata editors that
  rewrite the JSON text of the form. An optional text field that is missing is the empty string
  where the code only ever tests it for truth.
\<close>

section \<open>Items\<close>

record platform_item =
  it_id :: string
  it_module :: string
  it_name :: string
  it_type :: string
  it_status :: string
  it_protocol :: string
  it_host :: string
  it_port :: "rat option"
  it_username :: string
  it_group :: string
  it_owner_id :: string
  it_parent_id :: string
  it_target_id :: string
  it_tags :: "string list option"
  it_permissions :: "(string \<times> bool) list option"
  it_description :: string
  it_metadata :: "js_object option"
  it_created_at :: string
  it_updated_at :: string

text \<open>\<open>item.metadata?.key\<close>\<close>

definition meta :: "platform_item \<Rightarrow> string \<Rightarrow> jsval" where
  "meta item k = (case it_metadata item of Some ob \<Rightarrow> obj_get ob k | None \<Rightarrow> JUndefined)"

definition blank_item :: platform_item where
  "blank_item = \<lparr>it_id = '''', it_module = '''', it_name = '''', it_type = '''', it_status = '''',
     it_protocol = '''', it_host = '''', it_port = None, it_username = '''', it_group = '''',
     it_owner_id = '''', it_parent_id = '''', it_target_id = '''', it_tags = None,
     it_permissions = None, it_description = '''', it_metadata = None, it_created_at = '''',
     it_updated_at = ''''\<rparr>"

datatype tone = Success | Warning | Danger | Neutral

definition statusTone :: "string \<Rightarrow> tone" where
  "statusTone status =
     (let value = lower status
      in if value \<in> set [''active'', ''enabled'', ''success'', ''normal'', ''encrypted'', ''approved'', ''executed'']
           then Success
         else if value \<in> set [''pending'', ''disabled'', ''offline''] then Warning
         else if value \<in> set [''failed'', ''locked'', ''denied''] then Danger
         else Neutral)"

definition riskTone :: "string \<Rightarrow> tone" where
  "riskTone risk =
     (let value = lower risk
      in if value \<in> set [''critical'', ''high''] then Danger
         else if value \<in> set [''medium'', ''warning''] then Warning
         else if value \<in> set [''low'', ''normal''] then Success
         else Neutral)"

definition itemHasRecording :: "platform_item \<Rightarrow> bool" where
  "itemHasRecording item \<longleftrightarrow> stringValue (meta item ''recording_path'') \<noteq> ''''"

definition userOnline :: "platform_item \<Rightarrow> bool" where
  "userOnline item = metadataBool (meta item ''online'')"

definition departmentLevel :: "platform_item \<Rightarrow> rat" where
  "departmentLevel item = max 0 (metadataNumber (meta item ''level''))"

definition authorizationBulkRoute :: "string \<Rightarrow> string" where
  "authorizationBulkRoute collection =
     (if collection = ''web_assets'' then ''websites''
      else if collection = ''database_assets'' then ''databases''
      else ''assets'')"

section \<open>Splitting typed lists\<close>

text \<open>\<open>xs.map(trim).filter(Boolean)\<close>\<close>

definition trimmed :: "string list \<Rightarrow> string list" where
  "trimmed xs = filter (\<lambda>x. x \<noteq> []) (map trim xs)"

definition splitCSV :: "string \<Rightarrow> string list" where
  "splitCSV value = trimmed (split_on CHR '','' value)"

text \<open>A carriage return before a line feed belongs to the separator; trimming removes it anyway, so the pieces are those of a split at line feeds and commas.\<close>

definition splitLines :: "string \<Rightarrow> string list" where
  "splitLines value = trimmed (concat (map (split_on CHR '','') (split_on CHR 0x0A value)))"

definition splitTextLines :: "string \<Rightarrow> string list" where
  "splitTextLines value = trimmed (split_on CHR 0x0A value)"

definition splitWords :: "string \<Rightarrow> string list" where
  "splitWords value = trimmed (split_runs (\<lambda>c. is_ws c \<or> c = CHR '','') value)"

lemma trimmed_member: "x \<in> set (trimmed xs) \<Longrightarrow> x \<noteq> [] \<and> trim x = x"
  by (auto simp: trimmed_def)

lemma trimmed_append: "trimmed (xs @ ys) = trimmed xs @ trimmed ys"
  by (simp add: trimmed_def)

definition appendUniqueLine :: "string \<Rightarrow> string \<Rightarrow> string" where
  "appendUniqueLine current value =
     (let lines = splitLines current; key = lower (trim value)
      in if key = [] \<or> key \<in> set (map lower lines) then current
         else join [CHR 0x0A] (lines @ [trim value]))"

section \<open>The form\<close>

record platform_form =
  fm_name :: string
  fm_type :: string
  fm_status :: string
  fm_protocol :: string
  fm_host :: string
  fm_port :: string
  fm_username :: string
  fm_password :: string
  fm_oidcClientSecretSet :: bool
  fm_oidcClientSecretClear :: bool
  fm_databaseDSNSet :: bool
  fm_databaseDSNClear :: bool
  fm_private_key :: string
  fm_passphrase :: string
  fm_group :: string
  fm_owner_id :: string
  fm_parent_id :: string
  fm_target_id :: string
  fm_tags :: string
  fm_permissions :: "(string \<times> bool) list"
  fm_metadata :: string
  fm_description :: string

definition initialForm :: platform_form where
  "initialForm = \<lparr>fm_name = '''', fm_type = '''', fm_status = ''enabled'', fm_protocol = '''',
     fm_host = '''', fm_port = '''', fm_username = '''', fm_password = '''',
     fm_oidcClientSecretSet = False, fm_oidcClientSecretClear = False, fm_databaseDSNSet = False,
     fm_databaseDSNClear = False, fm_private_key = '''', fm_passphrase = '''', fm_group = '''',
     fm_owner_id = '''', fm_parent_id = '''', fm_target_id = '''', fm_tags = '''',
     fm_permissions = [], fm_metadata = '''', fm_description = ''''\<rparr>"

definition filePermissionActions :: "string list" where
  "filePermissionActions = [''upload'', ''download'', ''edit'', ''delete'', ''rename'', ''copy'', ''paste'']"

text \<open>\<open>String(item.port)\<close> of a nonzero port.\<close>

definition port_text :: "rat option \<Rightarrow> string" where
  "port_text p = (case p of Some r \<Rightarrow> if r = 0 then '''' else num_text (Fin r) | None \<Rightarrow> '''')"

definition formFromPlatformItem :: "platform_item \<Rightarrow> platform_form" where
  "formFromPlatformItem item = \<lparr>
     fm_name = it_name item,
     fm_type = it_type item,
     fm_status = or_str (it_status item) ''enabled'',
     fm_protocol = it_protocol item,
     fm_host = it_host item,
     fm_port = port_text (it_port item),
     fm_username = it_username item,
     fm_password = '''',
     fm_oidcClientSecretSet = metadataBool (meta item ''client_secret_set''),
     fm_oidcClientSecretClear = False,
     fm_databaseDSNSet = metadataBool (meta item ''database_dsn_set''),
     fm_databaseDSNClear = False,
     fm_private_key = '''',
     fm_passphrase = '''',
     fm_group = it_group item,
     fm_owner_id = it_owner_id item,
     fm_parent_id = it_parent_id item,
     fm_target_id = it_target_id item,
     fm_tags = (case it_tags item of Some ts \<Rightarrow> join '','' ts | None \<Rightarrow> ''''),
     fm_permissions = (case it_permissions item of Some ps \<Rightarrow> ps | None \<Rightarrow> []),
     fm_metadata = (case it_metadata item of Some ob \<Rightarrow> json_stringify (JObj ob) | None \<Rightarrow> ''''),
     fm_description = it_description item\<rparr>"

text \<open>
  The request a form is sent as. \<open>JSON.parse\<close> may throw (\<open>None\<close>), and it may yield any JSON value;
  spreading one that is not an object gives the indexed characters of a string, the elements of an
  array, and nothing for the others.
\<close>

record platform_request =
  pr_name :: string
  pr_type :: string
  pr_status :: string
  pr_protocol :: "string option"
  pr_host :: string
  pr_port :: jsnum
  pr_username :: string
  pr_password :: "string option"
  pr_private_key :: "string option"
  pr_passphrase :: "string option"
  pr_group :: string
  pr_owner_id :: string
  pr_parent_id :: string
  pr_target_id :: string
  pr_tags :: "string list"
  pr_permissions :: "(string \<times> bool) list"
  pr_metadata :: "jsval option"
  pr_description :: string

definition spread :: "jsval \<Rightarrow> js_object" where
  "spread v =
     (case v of JObj ob \<Rightarrow> ob
      | JArr xs \<Rightarrow> zip (map show_nat [0..<length xs]) xs
      | JStr s \<Rightarrow> zip (map show_nat [0..<length s]) (map (\<lambda>c. JStr [c]) s)
      | _ \<Rightarrow> [])"

definition non_empty :: "string \<Rightarrow> string option" where
  "non_empty s = (if s = [] then None else Some s)"

definition set_clear_flag :: "bool \<Rightarrow> string \<Rightarrow> jsval option \<Rightarrow> jsval option" where
  "set_clear_flag b k m =
     (if b then Some (JObj (obj_set (case m of Some v \<Rightarrow> spread v | None \<Rightarrow> []) k (JBool True))) else m)"

definition platformRequestFromForm :: "platform_form \<Rightarrow> platform_request option" where
  "platformRequestFromForm form =
     (case (if trim (fm_metadata form) = '''' then Some None
            else map_option Some (json_parse (fm_metadata form))) of
        None \<Rightarrow> None
      | Some m0 \<Rightarrow>
          let m1 = set_clear_flag (fm_oidcClientSecretClear form) ''client_secret_clear'' m0;
              m2 = set_clear_flag (fm_databaseDSNClear form) ''database_dsn_clear'' m1
          in Some \<lparr>
            pr_name = fm_name form,
            pr_type = fm_type form,
            pr_status = fm_status form,
            pr_protocol = non_empty (fm_protocol form),
            pr_host = fm_host form,
            pr_port = (if fm_port form = '''' then Fin 0 else to_number (fm_port form)),
            pr_username = fm_username form,
            pr_password = (if fm_oidcClientSecretClear form then None else non_empty (fm_password form)),
            pr_private_key = non_empty (fm_private_key form),
            pr_passphrase = non_empty (fm_passphrase form),
            pr_group = fm_group form,
            pr_owner_id = fm_owner_id form,
            pr_parent_id = fm_parent_id form,
            pr_target_id = fm_target_id form,
            pr_tags = trimmed (split_on CHR '','' (fm_tags form)),
            pr_permissions = fm_permissions form,
            pr_metadata = m2,
            pr_description = fm_description form\<rparr>)"

text \<open>The JSON body of the request: \<open>undefined\<close> members are left out by \<open>JSON.stringify\<close>.\<close>

definition opt_member :: "string \<Rightarrow> string option \<Rightarrow> js_object" where
  "opt_member k x = (case x of Some s \<Rightarrow> [(k, JStr s)] | None \<Rightarrow> [])"

definition request_json :: "platform_request \<Rightarrow> jsval" where
  "request_json r = JObj (
     [(''name'', JStr (pr_name r)), (''type'', JStr (pr_type r)), (''status'', JStr (pr_status r))]
     @ opt_member ''protocol'' (pr_protocol r)
     @ [(''host'', JStr (pr_host r)),
        (''port'', case pr_port r of Fin x \<Rightarrow> JNum (Fin x) | _ \<Rightarrow> JNull),
        (''username'', JStr (pr_username r))]
     @ opt_member ''password'' (pr_password r) @ opt_member ''private_key'' (pr_private_key r)
     @ opt_member ''passphrase'' (pr_passphrase r)
     @ [(''group'', JStr (pr_group r)), (''owner_id'', JStr (pr_owner_id r)),
        (''parent_id'', JStr (pr_parent_id r)), (''target_id'', JStr (pr_target_id r)),
        (''tags'', JArr (map JStr (pr_tags r))),
        (''permissions'', JObj (map (\<lambda>(k, b). (k, JBool b)) (pr_permissions r)))]
     @ (case pr_metadata r of Some v \<Rightarrow> [(''metadata'', v)] | None \<Rightarrow> [])
     @ [(''description'', JStr (pr_description r))])"

section \<open>Properties\<close>

lemma split_on_join:
  "ws \<noteq> [] \<Longrightarrow> (\<And>w. w \<in> set ws \<Longrightarrow> d \<notin> set w) \<Longrightarrow> split_on d (join [d] ws) = ws"
proof (induction ws)
  case Nil
  then show ?case by simp
next
  case (Cons w ws)
  then show ?case by (cases "ws = []") (simp_all add: join_Cons split_on_append split_on_id)
qed

lemma trimmed_id: "(\<And>t. t \<in> set ts \<Longrightarrow> t \<noteq> [] \<and> trim t = t) \<Longrightarrow> trimmed ts = ts"
proof -
  assume a: "\<And>t. t \<in> set ts \<Longrightarrow> t \<noteq> [] \<and> trim t = t"
  then have "map trim ts = ts" by (simp add: map_idI)
  then show ?thesis using a by (simp add: trimmed_def filter_id_conv)
qed

text \<open>What tags become on their way through one line of text: each is cut at its commas, trimmed, and dropped when blank.\<close>

abbreviation tags_of_text :: "string list \<Rightarrow> string list" where
  "tags_of_text ts \<equiv> concat (map (\<lambda>t. trimmed (split_on CHR '','' t)) ts)"

lemma split_on_join_cut: "ts \<noteq> [] \<Longrightarrow> split_on d (join [d] ts) = concat (map (split_on d) ts)"
proof (induction ts)
  case (Cons t ts)
  have cut: "split_on d (t @ d # rest) = split_on d t @ split_on d rest" for rest
  proof (induction t)
    case (Cons c t)
    then show ?case by (auto split: list.splits)
  qed simp
  show ?case using Cons by (cases "ts = []") (simp_all add: join_Cons cut)
qed simp

lemma trimmed_concat: "trimmed (concat xss) = concat (map trimmed xss)"
  by (induction xss) (simp_all add: trimmed_def)

lemma tags_through_text: "trimmed (split_on CHR '','' (join '','' ts)) = tags_of_text ts"
proof (cases "ts = []")
  case False
  then show ?thesis by (simp add: split_on_join_cut trimmed_concat comp_def)
qed (simp add: trimmed_def)

lemma tags_roundtrip:
  assumes "\<And>t. t \<in> set ts \<Longrightarrow> t \<noteq> [] \<and> trim t = t \<and> CHR '','' \<notin> set t"
  shows "tags_of_text ts = ts"
proof -
  have "trimmed (split_on CHR '','' t) = [t]" if "t \<in> set ts" for t
    using assms [OF that] by (simp add: split_on_id trimmed_def)
  then have "tags_of_text ts = concat (map (\<lambda>t. [t]) ts)" by (metis (no_types, lifting) map_eq_conv)
  then show ?thesis by simp
qed

lemma json_object_not_blank: "trim (json_stringify (JObj ob)) \<noteq> []"
proof -
  have "\<exists>t. json_stringify (JObj ob) = CHR ''{'' # t" by (simp add: json_stringify_def)
  then obtain t where "json_stringify (JObj ob) = CHR ''{'' # t" ..
  then show ?thesis
    by (simp add: trim_def strip_left_def is_ws_def strip_right_Nil_iff)
qed

lemma port_text_roundtrip: "to_number (port_text (Some (of_int p))) = Fin (of_int p)"
  if "p \<noteq> 0"
  using that by (simp add: port_text_def num_text_int to_number_int)

lemma port_text_not_empty: "p \<noteq> 0 \<Longrightarrow> port_text (Some (of_int p)) \<noteq> []"
  using show_nat_digits by (simp add: port_text_def num_text_int show_int_def)

lemma port_through_text:
  assumes "r = of_int \<lfloor>r\<rfloor>"
  shows "(if port_text (Some r) = '''' then Fin 0 else to_number (port_text (Some r))) = Fin r"
proof (cases "r = 0")
  case False
  then have "\<lfloor>r\<rfloor> \<noteq> 0" using assms by linarith
  then show ?thesis using port_text_roundtrip [of "\<lfloor>r\<rfloor>"] port_text_not_empty [of "\<lfloor>r\<rfloor>"] assms by simp
qed (simp add: port_text_def)

text \<open>C5 What saving an item from the editor without a change sends, for every item whose port, if it has one, is a whole number and
  whose metadata, if it has any, is a JSON object with whole numbers and no key twice: the port (0 when there is none),
  the metadata and the other fields as they were, with two exceptions, which the theorem gives exactly. An empty status is sent as
  \<open>enabled\<close>; tags pass through one line of text, so that a tag is cut at its commas, trimmed, and lost when it is blank, and
  comes back unchanged when it is trimmed, not blank and without a comma. No password, key or passphrase is sent.
\<close>

theorem edit_form_roundtrip:
  assumes "\<And>ob. it_metadata item = Some ob \<Longrightarrow> json_ok (JObj ob)"
    and "\<And>r. it_port item = Some r \<Longrightarrow> r = of_int \<lfloor>r\<rfloor>"
    and "ts = (case it_tags item of Some ts \<Rightarrow> ts | None \<Rightarrow> [])"
  shows "platformRequestFromForm (formFromPlatformItem item) = Some \<lparr>
     pr_name = it_name item, pr_type = it_type item, pr_status = or_str (it_status item) ''enabled'',
     pr_protocol = non_empty (it_protocol item), pr_host = it_host item,
     pr_port = Fin (case it_port item of Some r \<Rightarrow> r | None \<Rightarrow> 0),
     pr_username = it_username item, pr_password = None, pr_private_key = None, pr_passphrase = None,
     pr_group = it_group item, pr_owner_id = it_owner_id item, pr_parent_id = it_parent_id item,
     pr_target_id = it_target_id item, pr_tags = tags_of_text ts,
     pr_permissions = (case it_permissions item of Some ps \<Rightarrow> ps | None \<Rightarrow> []),
     pr_metadata = map_option JObj (it_metadata item), pr_description = it_description item\<rparr>
   \<and> ((\<forall>t \<in> set ts. t \<noteq> [] \<and> trim t = t \<and> CHR '','' \<notin> set t) \<longrightarrow> tags_of_text ts = ts)"
proof -
  have parsed: "(if trim (fm_metadata (formFromPlatformItem item)) = '''' then Some None
      else map_option Some (json_parse (fm_metadata (formFromPlatformItem item)))) = Some (map_option JObj (it_metadata item))"
  proof (cases "it_metadata item")
    case None
    then show ?thesis by (simp add: formFromPlatformItem_def trim_def strip_left_def)
  next
    case (Some ob)
    then show ?thesis using json_parse_stringify [OF assms(1) [OF Some]] json_object_not_blank [of ob]
      by (simp add: formFromPlatformItem_def)
  qed
  have text_of: "fm_port (formFromPlatformItem item) = port_text (it_port item)" by (simp add: formFromPlatformItem_def)
  have port: "(if fm_port (formFromPlatformItem item) = '''' then Fin 0 else to_number (fm_port (formFromPlatformItem item))) =
      Fin (case it_port item of Some r \<Rightarrow> r | None \<Rightarrow> 0)"
  proof (cases "it_port item")
    case (Some r)
    from port_through_text [OF assms(2) [OF Some]] show ?thesis unfolding text_of Some by (simp only: option.case)
  qed (simp add: text_of port_text_def)
  have tags: "trimmed (split_on CHR '','' (fm_tags (formFromPlatformItem item))) = tags_of_text ts"
    using tags_through_text assms(3) by (simp add: formFromPlatformItem_def trimmed_def split: option.split)
  have "platformRequestFromForm (formFromPlatformItem item) = Some \<lparr>
     pr_name = it_name item, pr_type = it_type item, pr_status = or_str (it_status item) ''enabled'',
     pr_protocol = non_empty (it_protocol item), pr_host = it_host item,
     pr_port = Fin (case it_port item of Some r \<Rightarrow> r | None \<Rightarrow> 0),
     pr_username = it_username item, pr_password = None, pr_private_key = None, pr_passphrase = None,
     pr_group = it_group item, pr_owner_id = it_owner_id item, pr_parent_id = it_parent_id item,
     pr_target_id = it_target_id item, pr_tags = tags_of_text ts,
     pr_permissions = (case it_permissions item of Some ps \<Rightarrow> ps | None \<Rightarrow> []),
     pr_metadata = map_option JObj (it_metadata item), pr_description = it_description item\<rparr>"
    unfolding platformRequestFromForm_def parsed tags port
    by (simp add: formFromPlatformItem_def set_clear_flag_def non_empty_def Let_def)
  then show ?thesis using tags_roundtrip [of ts] by blast
qed

lemma edit_form_roundtrip_witness:
  "platformRequestFromForm (formFromPlatformItem (blank_item\<lparr>it_name := ''web'', it_port := Some (of_int 22),
      it_tags := Some [''prod'', '' a,b '', '' ''], it_metadata := Some [(''sort'', JNum (Fin 3))]\<rparr>)) = Some \<lparr>
     pr_name = ''web'', pr_type = '''', pr_status = ''enabled'', pr_protocol = None, pr_host = '''',
     pr_port = Fin (of_int 22), pr_username = '''', pr_password = None, pr_private_key = None,
     pr_passphrase = None, pr_group = '''', pr_owner_id = '''', pr_parent_id = '''', pr_target_id = '''',
     pr_tags = [''prod'', ''a'', ''b''], pr_permissions = [], pr_metadata = Some (JObj [(''sort'', JNum (Fin 3))]),
     pr_description = ''''\<rparr>"
proof -
  have tags: "tags_of_text [''prod'', '' a,b '', '' ''] = [''prod'', ''a'', ''b'']" by code_simp
  show ?thesis
    using edit_form_roundtrip [THEN conjunct1, of "blank_item\<lparr>it_name := ''web'', it_port := Some (of_int 22),
      it_tags := Some [''prod'', '' a,b '', '' ''], it_metadata := Some [(''sort'', JNum (Fin 3))]\<rparr>" "[''prod'', '' a,b '', '' '']"]
    unfolding tags by (simp add: blank_item_def js_defs non_empty_def)
qed

end
