(* ===== verification/Metadata.thy ===== *)
theory Metadata
  imports Platform
begin

text \<open>
  The editors of \<open>platform-page.tsx\<close> that read and rewrite the JSON metadata text of a form:
  defaults of a new record, single keys and lists, the schedule of a task, the selection mode of a
  gateway group, certificates and credentials of web assets, and role fields. Parsing a text that
  is not a JSON object yields the empty object, as in the code.
\<close>

section \<open>Defaults of a new record\<close>

definition defaultPlatformType :: "string \<Rightarrow> string" where
  "defaultPlatformType collection =
     (if collection = ''credentials'' then ''ssh_password''
      else if collection = ''users'' then ''local''
      else if collection = ''departments'' then ''department''
      else if collection = ''asset_groups'' then ''ssh''
      else if collection = ''gateway_groups'' then ''manual''
      else if collection = ''storages'' then ''local''
      else if collection = ''roles'' then ''custom''
      else if collection = ''command_filters'' then ''deny''
      else if collection = ''command_snippets'' then ''public''
      else if collection = ''authorization_strategies'' then ''file''
      else if collection = ''oidc_clients'' then ''confidential''
      else if collection = ''web_assets'' then ''http''
      else if collection = ''database_assets'' then ''sqlite''
      else if collection = ''scheduled_tasks'' then ''asset-status''
      else '''')"

definition defaultPlatformPermissions :: "string \<Rightarrow> (string \<times> bool) list" where
  "defaultPlatformPermissions collection =
     (if collection \<noteq> ''authorization_strategies'' then []
      else [(''upload'', True), (''download'', True), (''edit'', True), (''delete'', False),
            (''rename'', True), (''copy'', True), (''paste'', True)])"

abbreviation jint :: "int \<Rightarrow> jsval" where
  "jint i \<equiv> JNum (Fin (of_int i))"

definition default_metadata_object :: "string \<Rightarrow> js_object option" where
  "default_metadata_object collection =
     (if collection = ''command_filters'' then Some [(''risk'', JStr ''high'')]
      else if collection = ''asset_groups'' then Some [(''sort'', jint 0), (''collapsed'', JBool False)]
      else if collection = ''gateway_groups'' then Some
        [(''selection_mode'', JStr ''manual''), (''gateway_ids'', JArr []),
         (''attempt_timeout_seconds'', jint 5), (''failure_cooldown_seconds'', jint 30)]
      else if collection = ''storages'' then Some
        [(''shared'', JBool False), (''shared_users'', JArr []), (''limit_bytes'', JStr '''')]
      else if collection = ''command_snippets'' then Some
        [(''command'', JStr ''''), (''append_newline'', JBool False)]
      else if collection = ''authorization_strategies'' then Some
        [(''resource_type'', JStr ''storage''), (''path_prefix'', JStr '''')]
      else if collection = ''oidc_clients'' then Some
        [(''client_id'', JStr ''''), (''redirect_uris'', JArr []),
         (''scopes'', JArr [JStr ''openid'', JStr ''profile'', JStr ''email'']),
         (''token_endpoint_auth_method'', JStr ''client_secret_basic'')]
      else if collection = ''web_assets'' then Some [(''target_url'', JStr '''')]
      else if collection = ''database_assets'' then Some
        [(''sqlite_path'', JStr ''''), (''row_limit'', jint 100), (''query_timeout_ms'', jint 30000)]
      else if collection = ''scheduled_tasks'' then Some
        [(''interval_seconds'', jint 600), (''timeout_ms'', jint 2000)]
      else None)"

definition defaultPlatformMetadata :: "string \<Rightarrow> string" where
  "defaultPlatformMetadata collection =
     (case default_metadata_object collection of Some ob \<Rightarrow> json_stringify (JObj ob) | None \<Rightarrow> '''')"

definition permissionSummary :: "(string \<times> bool) list option \<Rightarrow> string" where
  "permissionSummary permissions =
     (let source = (case permissions of Some ps \<Rightarrow> ps | None \<Rightarrow> []);
          enabled = filter (\<lambda>a. map_of source a = Some True) filePermissionActions;
          disabled = map (\<lambda>a. CHR ''-'' # a) (filter (\<lambda>a. map_of source a = Some False) filePermissionActions)
      in or_str (join '' '' (enabled @ disabled)) ''-'')"

section \<open>Reading and writing single keys\<close>

definition metadataObject :: "string \<Rightarrow> js_object" where
  "metadataObject value =
     (if trim value = '''' then []
      else case json_parse value of Some (JObj ob) \<Rightarrow> ob | _ \<Rightarrow> [])"

definition metadataFormText :: "string \<Rightarrow> string \<Rightarrow> string" where
  "metadataFormText metadata key =
     (case obj_get (metadataObject metadata) key of
        JArr xs \<Rightarrow> join [CHR 0x0A] (filter (\<lambda>t. t \<noteq> '''') (map metadataText xs))
      | v \<Rightarrow> metadataText v)"

definition metadataListInputText :: "string \<Rightarrow> string \<Rightarrow> string" where
  "metadataListInputText metadata key =
     (let value = obj_get (metadataObject metadata) key; array = stringArrayValue value
      in if array \<noteq> [] then join '' '' array else metadataText value)"

definition metadataInlineListText :: "jsval \<Rightarrow> string" where
  "metadataInlineListText value =
     (let array = stringArrayValue value; txt = metadataText value
      in if array \<noteq> [] then join '', '' array
         else if txt \<noteq> '''' then join '', '' (splitWords txt) else '''')"

definition metadataBoolFromForm :: "string \<Rightarrow> string \<Rightarrow> bool" where
  "metadataBoolFromForm metadata key = metadataBool (obj_get (metadataObject metadata) key)"

definition metadataWithValue :: "string \<Rightarrow> string \<Rightarrow> jsval \<Rightarrow> string" where
  "metadataWithValue metadata key value =
     (let nxt = metadataObject metadata
      in json_stringify (JObj
           (if value = JStr '''' \<or> value = JUndefined \<or> value = JNull
            then obj_delete nxt key else obj_set nxt key value)))"

definition metadataWithList :: "string \<Rightarrow> string \<Rightarrow> string list \<Rightarrow> string" where
  "metadataWithList metadata key value = metadataWithValue metadata key (JArr (map JStr value))"

definition metadataStringListFromForm :: "string \<Rightarrow> string \<Rightarrow> string list" where
  "metadataStringListFromForm metadata key =
     (case obj_get (metadataObject metadata) key of
        JArr xs \<Rightarrow> stringArrayValue (JArr xs) | JStr s \<Rightarrow> splitLines s | _ \<Rightarrow> [])"

definition metadataWithWebAssetCertificate :: "string \<Rightarrow> string \<Rightarrow> string" where
  "metadataWithWebAssetCertificate metadata value =
     (let nxt = obj_delete_all (metadataObject metadata)
            [''certificate_id'', ''mtls_certificate_id'', ''client_certificate_id'', ''cert_id'']
      in json_stringify (JObj
           (if trim value \<noteq> '''' then obj_set nxt ''certificate_id'' (JStr (trim value)) else nxt)))"

definition metadataWithWebAssetCredentialClear :: "string \<Rightarrow> bool \<Rightarrow> string" where
  "metadataWithWebAssetCredentialClear metadata clear =
     (let nxt = metadataObject metadata
      in json_stringify (JObj
           (if clear then obj_set nxt ''web_upstream_credentials_clear'' (JBool True)
            else obj_delete (obj_delete nxt ''web_upstream_credentials_clear'') ''clear_upstream_credentials'')))"

definition roleValue :: "string \<Rightarrow> string" where
  "roleValue metadata =
     (case obj_get (metadataObject metadata) ''role'' of
        JStr v \<Rightarrow> if trim v \<noteq> '''' then trim v else ''user'' | _ \<Rightarrow> ''user'')"

definition roleAPIText :: "string \<Rightarrow> string" where
  "roleAPIText metadata = join [CHR 0x0A] (metadataStringListFromForm metadata ''api_permissions'')"

definition roleMenuPermissions :: "string \<Rightarrow> string list" where
  "roleMenuPermissions metadata = metadataStringListFromForm metadata ''menu_permissions''"

section \<open>The schedule of a task\<close>

definition intervalKeys :: "string list" where
  "intervalKeys = [''interval_ms'', ''run_every_ms'', ''every_ms'', ''interval_seconds'',
     ''run_every_seconds'', ''every_seconds'', ''interval_minutes'', ''run_every_minutes'',
     ''every_minutes'', ''interval'', ''run_every'', ''every'']"

definition cronKeys :: "string list" where
  "cronKeys = [''cron'', ''cron_expression'', ''cronExpression'']"

definition scheduledTaskScheduleText :: "platform_item \<Rightarrow> string" where
  "scheduledTaskScheduleText item =
     (let text = (\<lambda>k. metadataText (meta item k));
          interval = or_str (text ''interval'') (text ''run_every'');
          cron = or_str (text ''cron'') (text ''cron_expression'')
      in if text ''interval_ms'' \<noteq> '''' then ''every '' @ text ''interval_ms'' @ '' ms''
         else if text ''interval_seconds'' \<noteq> '''' then ''every '' @ text ''interval_seconds'' @ '' s''
         else if text ''interval_minutes'' \<noteq> '''' then ''every '' @ text ''interval_minutes'' @ '' min''
         else if interval \<noteq> '''' then ''every '' @ interval
         else if cron \<noteq> '''' then ''cron '' @ cron
         else if text ''next_run_at'' \<noteq> '''' then ''once '' @ text ''next_run_at''
         else if metadataBool (meta item ''run_on_start'') then ''run on start''
         else if metadataBool (meta item ''manual_only'') then ''manual only'' else ''-'')"

definition scheduledTaskScheduleModeFromForm :: "string \<Rightarrow> string" where
  "scheduledTaskScheduleModeFromForm metadata =
     (let source = metadataObject metadata; has = (\<lambda>k. metadataText (obj_get source k) \<noteq> '''')
      in if metadataBool (obj_get source ''manual_only'') then ''manual''
         else if list_ex has intervalKeys then ''interval''
         else if list_ex has cronKeys then ''cron''
         else if has ''next_run_at'' then ''once''
         else if metadataBool (obj_get source ''run_on_start'') then ''startup''
         else ''manual'')"

text \<open>\<open>soon\<close> is \<open>new Date(Date.now() + 5 * 60 * 1000).toISOString()\<close>.\<close>

definition metadataWithScheduledTaskMode :: "string \<Rightarrow> string \<Rightarrow> string \<Rightarrow> string" where
  "metadataWithScheduledTaskMode soon metadata mode =
     (let cleared = obj_delete_all (metadataObject metadata)
            (intervalKeys @ cronKeys @ [''next_run_at'', ''manual_only'']);
          nxt = obj_set cleared ''run_on_start'' (JBool False)
      in json_stringify (JObj
           (if mode = ''interval'' then obj_set nxt ''interval_seconds'' (jint 600)
            else if mode = ''cron'' then obj_set nxt ''cron'' (JStr ''0 */10 * * * *'')
            else if mode = ''startup'' then obj_set nxt ''run_on_start'' (JBool True)
            else if mode = ''once'' then obj_set nxt ''next_run_at'' (JStr soon)
            else obj_set nxt ''manual_only'' (JBool True))))"

section \<open>The selection mode of a gateway group\<close>

definition gatewayGroupSelectionModeFromForm :: "platform_form \<Rightarrow> string" where
  "gatewayGroupSelectionModeFromForm form =
     (let value = replace_char CHR ''-'' CHR ''_'' (lower (trim
            (or_str (or_str (metadataFormText (fm_metadata form) ''selection_mode'') (fm_type form)) ''manual'')))
      in if value = ''roundrobin'' then ''round_robin''
         else if value \<in> set [''auto'', ''least_latency'', ''least_sessions'', ''round_robin''] then value
         else ''manual'')"

definition gatewayMemberKeys :: "string list" where
  "gatewayMemberKeys = [''gateway_id'', ''gateway_ids'', ''member_id'', ''member_ids'', ''members'',
     ''agent_gateway_ids'', ''ssh_gateway_ids'']"

definition metadataWithGatewaySelectionMode :: "string \<Rightarrow> string \<Rightarrow> string" where
  "metadataWithGatewaySelectionMode metadata mode =
     (let nxt = obj_set (metadataObject metadata) ''selection_mode'' (JStr mode)
      in json_stringify (JObj (if mode \<noteq> ''manual'' then obj_delete_all nxt gatewayMemberKeys else nxt)))"

section \<open>Properties\<close>

lemma metadataObject_stringify:
  "json_ok (JObj ob) \<Longrightarrow> metadataObject (json_stringify (JObj ob)) = ob"
  by (simp add: metadataObject_def json_object_not_blank json_parse_stringify)

lemma json_ok_obj_set: "json_ok (JObj ob) \<Longrightarrow> json_ok v \<Longrightarrow> json_ok (JObj (obj_set ob k v))"
proof -
  assume a: "json_ok (JObj ob)" "json_ok v"
  have "list_all (\<lambda>kv. json_ok (snd kv)) (obj_set ob k v)"
    using a by (induction ob k v rule: obj_set.induct) (auto)
  moreover have "distinct (map fst (obj_set ob k v))"
    using a(1) obj_set_wf [of ob k v] by (simp add: js_wf_object_def)
  ultimately show ?thesis by simp
qed

lemma json_ok_filter: "json_ok (JObj ob) \<Longrightarrow> json_ok (JObj (filter P ob))"
  by (auto simp: list_all_iff distinct_map_filter)

lemma json_ok_delete: "json_ok (JObj ob) \<Longrightarrow> json_ok (JObj (obj_delete ob k))"
  unfolding obj_delete_def by (rule json_ok_filter)

lemma json_ok_delete_all: "json_ok (JObj ob) \<Longrightarrow> json_ok (JObj (obj_delete_all ob ks))"
  unfolding obj_delete_all_def by (rule json_ok_filter)

lemmas json_ok_edits = json_ok_obj_set json_ok_delete json_ok_delete_all

lemma json_ok_flat: "json_ok (JStr s)" "json_ok (JBool b)" "json_ok (jint i)"
  by simp_all


text \<open>Editing one metadata key changes that key alone: reading any key back gives the new value for
  the edited one (nothing when it was cleared) and the old value for every other.\<close>

theorem metadata_edit_frame:
  assumes "json_ok (JObj (metadataObject m))" "json_ok v"
  shows "obj_get (metadataObject (metadataWithValue m k v)) k' =
    (if k' = k then (if v = JStr '''' \<or> v = JNull then JUndefined else v)
     else obj_get (metadataObject m) k')"
proof -
  have "v \<noteq> JUndefined" using assms(2) by auto
  then show ?thesis
    using metadataObject_stringify [OF json_ok_delete [OF assms(1), of k]]
      metadataObject_stringify [OF json_ok_obj_set [OF assms, of k]]
    by (auto simp: metadataWithValue_def Let_def simp del: json_ok.simps)
qed

lemma metadata_edit_frame_witness:
  "obj_get (metadataObject (metadataWithValue (defaultPlatformMetadata ''web_assets'') ''target_url'' (JStr ''http://x''))) ''target_url''
     = JStr ''http://x''"
proof -
  have "metadataObject (defaultPlatformMetadata ''web_assets'') = [(''target_url'', JStr '''')]"
    by (simp add: defaultPlatformMetadata_def default_metadata_object_def metadataObject_stringify)
  then show ?thesis
    using metadata_edit_frame [of "defaultPlatformMetadata ''web_assets''" "JStr ''http://x''" "''target_url''" "''target_url''"]
    by simp
qed

lemma schedule_keys_distinct:
  "list_all (\<lambda>k. k \<notin> set [''run_on_start'', ''next_run_at'', ''manual_only'']) (intervalKeys @ cronKeys)"
  by code_simp

text \<open>The metadata after the keys of the old schedule are gone and one key of the new one is set.\<close>

definition one_schedule_key :: "js_object \<Rightarrow> string \<Rightarrow> jsval \<Rightarrow> js_object" where
  "one_schedule_key ob k v =
     obj_set (obj_set (obj_delete_all ob (intervalKeys @ cronKeys @ [''next_run_at'', ''manual_only''])) ''run_on_start'' (JBool False)) k v"

lemma schedule_keys_gone:
  assumes "x \<in> set (intervalKeys @ cronKeys @ [''next_run_at'', ''manual_only''])"
  shows "obj_get (one_schedule_key ob k v) x = (if x = k then v else JUndefined)"
proof -
  have "x \<noteq> ''run_on_start''" using assms schedule_keys_distinct by (auto simp: list_all_iff)
  then show ?thesis using assms by (auto simp: one_schedule_key_def)
qed

lemma schedule_keys_text:
  assumes "set ks \<subseteq> set (intervalKeys @ cronKeys)"
  shows "list_ex (\<lambda>x. metadataText (obj_get (one_schedule_key ob k v) x) \<noteq> '''') ks \<longleftrightarrow> k \<in> set ks \<and> metadataText v \<noteq> ''''"
proof -
  have "x \<in> set ks \<Longrightarrow> metadataText (obj_get (one_schedule_key ob k v) x) = (if x = k then metadataText v else '''')" for x
    using schedule_keys_gone [of x ob k v] assms by auto
  then have "(\<exists>x\<in>set ks. metadataText (obj_get (one_schedule_key ob k v) x) \<noteq> '''') \<longleftrightarrow> (\<exists>x\<in>set ks. x = k \<and> metadataText v \<noteq> '''')"
    by (metis (full_types))
  then show ?thesis by (simp add: list_ex_iff)
qed

lemma schedule_mode_read:
  assumes "json_ok (JObj ob)" "json_ok v"
  shows "scheduledTaskScheduleModeFromForm (json_stringify (JObj (one_schedule_key ob k v))) =
    (if k = ''manual_only'' \<and> metadataBool v then ''manual''
     else if k \<in> set intervalKeys \<and> metadataText v \<noteq> '''' then ''interval''
     else if k \<in> set cronKeys \<and> metadataText v \<noteq> '''' then ''cron''
     else if k = ''next_run_at'' \<and> metadataText v \<noteq> '''' then ''once''
     else if k = ''run_on_start'' \<and> metadataBool v then ''startup'' else ''manual'')"
proof -
  have rd: "metadataObject (json_stringify (JObj (one_schedule_key ob k v))) = one_schedule_key ob k v"
    unfolding one_schedule_key_def by (intro metadataObject_stringify json_ok_edits json_ok_flat assms)
  have f: "metadataBool (obj_get (one_schedule_key ob k v) ''manual_only'') \<longleftrightarrow> k = ''manual_only'' \<and> metadataBool v"
    "metadataText (obj_get (one_schedule_key ob k v) ''next_run_at'') \<noteq> '''' \<longleftrightarrow> k = ''next_run_at'' \<and> metadataText v \<noteq> ''''"
    by (simp_all add: schedule_keys_gone)
  have g: "metadataBool (obj_get (one_schedule_key ob k v) ''run_on_start'') \<longleftrightarrow> k = ''run_on_start'' \<and> metadataBool v"
    by (simp add: one_schedule_key_def)
  have e: "list_ex (\<lambda>x. metadataText (obj_get (one_schedule_key ob k v) x) \<noteq> '''') intervalKeys \<longleftrightarrow>
      k \<in> set intervalKeys \<and> metadataText v \<noteq> ''''"
    "list_ex (\<lambda>x. metadataText (obj_get (one_schedule_key ob k v) x) \<noteq> '''') cronKeys \<longleftrightarrow>
      k \<in> set cronKeys \<and> metadataText v \<noteq> ''''"
    by (rule schedule_keys_text; simp)+
  show ?thesis
    unfolding scheduledTaskScheduleModeFromForm_def Let_def rd f g e by (rule refl)
qed

text \<open>Choosing a schedule mode and reading the mode back agree, whatever schedule the metadata held
  before: no leftover key of the previous schedule decides.\<close>

theorem schedule_mode_roundtrip:
  assumes "json_ok (JObj (metadataObject m))" "soon \<noteq> ''''"
    and "mode \<in> set [''interval'', ''cron'', ''startup'', ''once'', ''manual'']"
  shows "scheduledTaskScheduleModeFromForm (metadataWithScheduledTaskMode soon m mode) = mode"
proof -
  note mode = schedule_mode_read [OF assms(1), unfolded one_schedule_key_def]
  have "metadataText (jint 600) = show_int 600" by (simp only: metadataText_def jsval.case jsnum.case num_text_int)
  then have m1: "''interval_seconds'' \<in> set intervalKeys" "metadataText (jint 600) \<noteq> ''''"
    using show_nat_digits by (code_simp, simp only: show_int_def, auto)
  have m2: "''cron'' \<in> set cronKeys" "''cron'' \<notin> set intervalKeys" "''next_run_at'' \<notin> set intervalKeys"
    "''next_run_at'' \<notin> set cronKeys" "''run_on_start'' \<notin> set intervalKeys" "''run_on_start'' \<notin> set cronKeys"
    by code_simp+
  consider "mode = ''interval''" | "mode = ''cron''" | "mode = ''startup''" | "mode = ''once''" | "mode = ''manual''"
    using assms(3) unfolding list.set insert_iff empty_iff by blast
  then show ?thesis
  proof cases
    case 1
    then show ?thesis using m1 mode [OF json_ok_flat(3), of "''interval_seconds''" 600]
      by (simp add: metadataWithScheduledTaskMode_def Let_def)
  qed (use assms(2) m2 in \<open>simp_all add: metadataWithScheduledTaskMode_def Let_def mode [OF json_ok_flat(1)]
      mode [OF json_ok_flat(2)]\<close>)
qed

lemma schedule_mode_roundtrip_witness:
  "scheduledTaskScheduleModeFromForm
     (metadataWithScheduledTaskMode ''2026-01-01T00:00:00.000Z'' (defaultPlatformMetadata ''scheduled_tasks'') ''once'') = ''once''"
proof (rule schedule_mode_roundtrip)
  show "json_ok (JObj (metadataObject (defaultPlatformMetadata ''scheduled_tasks'')))"
    by (simp add: defaultPlatformMetadata_def default_metadata_object_def metadataObject_stringify)
qed simp_all

text \<open>Choosing a gateway selection mode and reading it back agree, and an automatic mode leaves no
  hand-picked member behind.\<close>

theorem gateway_mode_roundtrip:
  assumes "json_ok (JObj (metadataObject m))"
    and "mode \<in> set [''manual'', ''auto'', ''least_latency'', ''least_sessions'', ''round_robin'']"
  shows "gatewayGroupSelectionModeFromForm (f\<lparr>fm_metadata := metadataWithGatewaySelectionMode m mode\<rparr>) = mode \<and>
    (mode = ''manual'' \<or>
     list_all (\<lambda>k. obj_get (metadataObject (metadataWithGatewaySelectionMode m mode)) k = JUndefined) gatewayMemberKeys)"
proof
  let ?n = "obj_set (metadataObject m) ''selection_mode'' (JStr mode)"
  have ok: "json_ok (JObj ?n)" using assms(1) by (intro json_ok_edits json_ok_flat)
  have rd: "metadataObject (json_stringify (JObj ?n)) = ?n"
    "metadataObject (json_stringify (JObj (obj_delete_all ?n gatewayMemberKeys))) = obj_delete_all ?n gatewayMemberKeys"
    by (intro metadataObject_stringify json_ok_edits ok)+
  have sm: "''selection_mode'' \<notin> set gatewayMemberKeys" by code_simp
  have md: "metadataFormText (metadataWithGatewaySelectionMode m mode) ''selection_mode'' = mode"
    using rd sm
    by (cases "mode = ''manual''")
      (simp_all add: metadataFormText_def metadataWithGatewaySelectionMode_def Let_def del: json_ok.simps)
  have norm: "list_all (\<lambda>mode. replace_char CHR ''-'' CHR ''_'' (lower (trim mode)) = mode)
      [''manual'', ''auto'', ''least_latency'', ''least_sessions'', ''round_robin'']" by code_simp
  have "replace_char CHR ''-'' CHR ''_'' (lower (trim mode)) = mode"
    using norm assms(2) by (simp add: list_all_iff del: list.set)
  then show "gatewayGroupSelectionModeFromForm (f\<lparr>fm_metadata := metadataWithGatewaySelectionMode m mode\<rparr>) = mode"
    using assms(2) md by (auto simp: gatewayGroupSelectionModeFromForm_def Let_def or_str_def)
  show "mode = ''manual'' \<or>
     list_all (\<lambda>k. obj_get (metadataObject (metadataWithGatewaySelectionMode m mode)) k = JUndefined) gatewayMemberKeys"
    using rd by (simp add: metadataWithGatewaySelectionMode_def Let_def list_all_iff del: json_ok.simps)
qed

lemma gateway_mode_roundtrip_witness:
  "gatewayGroupSelectionModeFromForm
     (initialForm\<lparr>fm_metadata := metadataWithGatewaySelectionMode (defaultPlatformMetadata ''gateway_groups'') ''auto''\<rparr>) = ''auto''"
proof -
  have "json_ok (JObj (metadataObject (defaultPlatformMetadata ''gateway_groups'')))"
    by (simp add: defaultPlatformMetadata_def default_metadata_object_def metadataObject_stringify)
  then show ?thesis by (rule gateway_mode_roundtrip [THEN conjunct1]) simp
qed

end
