(* ===== verification/Trees.thy ===== *)
theory Trees
  imports Platform "HOL-Library.Multiset"
begin

text \<open>
  The department and asset-group trees of \<open>platform-page.tsx\<close>: both are built by the same
  recursion over a parent index with a shared set of visited ids, so that broken and cyclic parent
  links still show every record once. The recursion is generic here (\<open>build\<close>), with the
  siblings of a parent and the node constructor as parameters; the locale \<open>tree_builder\<close> states
  what they have to satisfy and proves what the recursion guarantees, and both trees interpret it.
  \<open>localeCompare\<close> is a parameter.
\<close>

section \<open>Stable sorting by a comparator\<close>

fun insert_by :: "('a \<Rightarrow> 'a \<Rightarrow> rat) \<Rightarrow> 'a \<Rightarrow> 'a list \<Rightarrow> 'a list" where
  "insert_by cmp x [] = [x]"
| "insert_by cmp x (y # ys) = (if cmp x y \<le> 0 then x # y # ys else y # insert_by cmp x ys)"

definition js_sort :: "('a \<Rightarrow> 'a \<Rightarrow> rat) \<Rightarrow> 'a list \<Rightarrow> 'a list" where
  "js_sort cmp xs = foldr (insert_by cmp) xs []"

lemma mset_insert_by [simp]: "mset (insert_by cmp x ys) = add_mset x (mset ys)"
  by (induction ys) auto

lemma mset_js_sort [simp]: "mset (js_sort cmp xs) = mset xs"
  by (induction xs) (simp_all add: js_sort_def)

lemma set_js_sort [simp]: "set (js_sort cmp xs) = set xs"
  by (metis mset_js_sort set_mset_mset)

section \<open>Keys, parents and siblings\<close>

type_synonym locale_compare = "string \<Rightarrow> string \<Rightarrow> rat"

definition departmentTreeKey :: "string \<Rightarrow> string" where
  "departmentTreeKey value = lower (trim value)"

definition assetGroupKey :: "string \<Rightarrow> string" where
  "assetGroupKey value = lower (trim value)"

definition departmentTreeSort :: "locale_compare \<Rightarrow> platform_item \<Rightarrow> platform_item \<Rightarrow> rat" where
  "departmentTreeSort lc left right =
     (let leftSort = metadataNumber (meta left ''sort''); rightSort = metadataNumber (meta right ''sort'')
      in if leftSort \<noteq> rightSort then leftSort - rightSort else lc (it_name left) (it_name right))"

definition assetGroupTreeSort :: "locale_compare \<Rightarrow> platform_item \<Rightarrow> platform_item \<Rightarrow> rat" where
  "assetGroupTreeSort lc left right =
     (let leftSort = metadataNumber (meta left ''sort''); rightSort = metadataNumber (meta right ''sort'');
          leftType = or_str (it_type left) (it_protocol left); rightType = or_str (it_type right) (it_protocol right)
      in if leftSort \<noteq> rightSort then leftSort - rightSort
         else if leftType \<noteq> rightType then lc leftType rightType
         else lc (it_name left) (it_name right))"

text \<open>The id a key stands for: the first item whose id or name has that key.\<close>

definition id_by_key :: "(string \<Rightarrow> string) \<Rightarrow> platform_item list \<Rightarrow> string \<Rightarrow> string option" where
  "id_by_key key items =
     map_of (concat (map (\<lambda>it. map (\<lambda>v. (key v, it_id it))
       (filter (\<lambda>v. key v \<noteq> '''') [it_id it, it_name it])) items))"

definition safe_parent :: "(string \<Rightarrow> string) \<Rightarrow> platform_item list \<Rightarrow> platform_item \<Rightarrow> string" where
  "safe_parent key items it =
     (let parentKey = key (it_parent_id it);
          parentID = (if parentKey \<noteq> ''''
                      then or_str (opt_str (id_by_key key items parentKey)) (it_parent_id it) else '''')
      in if parentID \<noteq> '''' \<and> parentID \<noteq> it_id it then parentID else '''')"

definition siblings_of ::
  "(string \<Rightarrow> string) \<Rightarrow> (platform_item \<Rightarrow> platform_item \<Rightarrow> rat) \<Rightarrow> platform_item list \<Rightarrow> string \<Rightarrow> platform_item list" where
  "siblings_of key cmp items p = js_sort cmp (filter (\<lambda>it. safe_parent key items it = p) items)"

section \<open>The recursion\<close>

text \<open>Marking the unvisited siblings, in order.\<close>

fun take_new :: "string list \<Rightarrow> platform_item list \<Rightarrow> platform_item list \<times> string list" where
  "take_new V [] = ([], V)"
| "take_new V (x # xs) =
     (if it_id x \<in> set V then take_new V xs
      else (case take_new (it_id x # V) xs of (r, V') \<Rightarrow> (x # r, V')))"

function build :: "(string \<Rightarrow> platform_item list) \<Rightarrow> (platform_item \<Rightarrow> 'n list \<Rightarrow> 'n) \<Rightarrow> nat \<Rightarrow>
    string list \<Rightarrow> string \<Rightarrow> ('n list \<times> string list) option"
  and build_each :: "(string \<Rightarrow> platform_item list) \<Rightarrow> (platform_item \<Rightarrow> 'n list \<Rightarrow> 'n) \<Rightarrow> nat \<Rightarrow>
    string list \<Rightarrow> platform_item list \<Rightarrow> ('n list \<times> string list) option" where
  "build sib mk 0 V p = None"
| "build sib mk (Suc n) V p = (case take_new V (sib p) of (fresh, V1) \<Rightarrow> build_each sib mk n V1 fresh)"
| "build_each sib mk n V [] = Some ([], V)"
| "build_each sib mk n V (x # xs) =
     (case build sib mk n V (it_id x) of
        None \<Rightarrow> None
      | Some (cs, V1) \<Rightarrow>
          (case build_each sib mk n V1 xs of None \<Rightarrow> None | Some (r, V2) \<Rightarrow> Some (mk x cs # r, V2)))"
  by pat_completeness auto
termination
  by (relation "measures [
        \<lambda>x. case x of Inl (_, _, n, _, _) \<Rightarrow> n | Inr (_, _, n, _, _) \<Rightarrow> n,
        \<lambda>x. case x of Inl _ \<Rightarrow> 0 | Inr (_, _, _, _, xs) \<Rightarrow> Suc (length xs)]") auto

text \<open>The records the roots did not reach become roots of their own.\<close>

fun add_rest :: "(string \<Rightarrow> platform_item list) \<Rightarrow> (platform_item \<Rightarrow> 'n list \<Rightarrow> 'n) \<Rightarrow> nat \<Rightarrow>
    platform_item list \<Rightarrow> string list \<Rightarrow> 'n list option" where
  "add_rest sib mk n [] V = Some []"
| "add_rest sib mk n (x # xs) V =
     (if it_id x \<in> set V then add_rest sib mk n xs V
      else (case build sib mk n (it_id x # V) (it_id x) of
              None \<Rightarrow> None
            | Some (cs, V1) \<Rightarrow> map_option (\<lambda>r. mk x cs # r) (add_rest sib mk n xs V1)))"

definition build_tree :: "(string \<Rightarrow> platform_item list) \<Rightarrow> (platform_item \<Rightarrow> 'n list \<Rightarrow> 'n) \<Rightarrow>
    platform_item list \<Rightarrow> 'n list option" where
  "build_tree sib mk sorted_items =
     (let n = Suc (length sorted_items)
      in case build sib mk n [] '''' of
           None \<Rightarrow> None
         | Some (roots, V) \<Rightarrow> map_option (\<lambda>r. roots @ r) (add_rest sib mk n sorted_items V))"

section \<open>Departments\<close>

datatype department_node = DepartmentNode (dn_item: platform_item) (dn_children: "department_node list")

fun dept_flat :: "department_node \<Rightarrow> platform_item list" where
  "dept_flat (DepartmentNode x cs) = x # concat (map dept_flat cs)"

definition buildDepartmentTree :: "locale_compare \<Rightarrow> platform_item list \<Rightarrow> department_node list option" where
  "buildDepartmentTree lc items =
     build_tree (siblings_of departmentTreeKey (departmentTreeSort lc) items) DepartmentNode
       (js_sort (departmentTreeSort lc) items)"

section \<open>Asset groups\<close>

definition assetMatchesGroupKey :: "platform_item \<Rightarrow> string list \<Rightarrow> bool" where
  "assetMatchesGroupKey asset keys =
     (let candidates = filter (\<lambda>c. c \<noteq> '''')
            [it_group asset, it_parent_id asset, metadataText (meta asset ''group_id''),
             metadataText (meta asset ''asset_group_id'')];
          hit = (\<lambda>c. assetGroupKey c \<in> set keys)
      in list_ex hit candidates
         \<or> list_ex hit (stringArrayValue (meta asset ''group_ids'') @ stringArrayValue (meta asset ''asset_group_ids'')))"

text \<open>Sets of ids keep their insertion order.\<close>

definition set_add :: "'a \<Rightarrow> 'a list \<Rightarrow> 'a list" where
  "set_add x xs = (if x \<in> set xs then xs else xs @ [x])"

definition set_add_all :: "'a list \<Rightarrow> 'a list \<Rightarrow> 'a list" where
  "set_add_all xs ys = fold set_add ys xs"

definition assetGroupAssetIDs :: "platform_item \<Rightarrow> platform_item list \<Rightarrow> string list" where
  "assetGroupAssetIDs gr assets =
     (let keys = filter (\<lambda>k. k \<noteq> '''') [assetGroupKey (it_id gr), assetGroupKey (it_name gr)]
      in set_add_all [] (map it_id (filter (\<lambda>a. assetMatchesGroupKey a keys) assets)))"

definition assetGroupAssetCount :: "platform_item \<Rightarrow> platform_item list \<Rightarrow> nat" where
  "assetGroupAssetCount gr assets = length (assetGroupAssetIDs gr assets)"

definition assetGroupParentName :: "platform_item \<Rightarrow> platform_item list \<Rightarrow> string" where
  "assetGroupParentName item groups =
     (if it_parent_id item = '''' then ''-''
      else let parentKey = assetGroupKey (it_parent_id item)
           in or_str (case find (\<lambda>g. assetGroupKey (it_id g) = parentKey \<or> assetGroupKey (it_name g) = parentKey) groups of
                        Some g \<Rightarrow> it_name g | None \<Rightarrow> '''') (it_parent_id item))"

definition assetGroupPathText :: "platform_item \<Rightarrow> string" where
  "assetGroupPathText item = or_str (metadataText (meta item ''path'')) (metadataText (meta item ''full_path''))"

datatype asset_group_node =
  AssetGroupNode (an_item: platform_item) (an_children: "asset_group_node list")
    (an_direct: nat) (an_total: nat) (an_ids: "string list")

definition buildAssetGroupNode ::
  "platform_item list \<Rightarrow> platform_item \<Rightarrow> asset_group_node list \<Rightarrow> asset_group_node" where
  "buildAssetGroupNode assets gr children =
     (let directAssetIDs = assetGroupAssetIDs gr assets;
          assetIDs = fold (\<lambda>child ids. set_add_all ids (an_ids child)) children directAssetIDs
      in AssetGroupNode gr children (length directAssetIDs) (length assetIDs) assetIDs)"

fun group_flat :: "asset_group_node \<Rightarrow> platform_item list" where
  "group_flat (AssetGroupNode x cs d t ids) = x # concat (map group_flat cs)"

definition buildAssetGroupTree ::
  "locale_compare \<Rightarrow> platform_item list \<Rightarrow> platform_item list \<Rightarrow> asset_group_node list option" where
  "buildAssetGroupTree lc groups assets =
     build_tree (siblings_of assetGroupKey (assetGroupTreeSort lc) groups) (buildAssetGroupNode assets)
       (js_sort (assetGroupTreeSort lc) groups)"

section \<open>What the recursion guarantees\<close>

lemma take_new_spec:
  "take_new V xs = (r, V') \<Longrightarrow>
     distinct (map it_id r) \<and> set r \<subseteq> set xs \<and> set (map it_id r) \<inter> set V = {} \<and>
     set V' = set V \<union> set (map it_id r) \<and> set (map it_id xs) \<subseteq> set V'"
proof (induction V xs arbitrary: r V' rule: take_new.induct)
  case (1 V)
  then show ?case by simp
next
  case (2 V x xs)
  show ?case
  proof (cases "it_id x \<in> set V")
    case True
    then have "take_new V xs = (r, V')" using 2(3) by simp
    from 2(1) [OF True this] have d: "distinct (map it_id r)" "set r \<subseteq> set xs"
      "set (map it_id r) \<inter> set V = {}" "set V' = set V \<union> set (map it_id r)" "set (map it_id xs) \<subseteq> set V'"
      by blast+
    have "it_id x \<in> set V'" using d(4) True by simp
    then show ?thesis using d by (simp add: subset_insertI2)
  next
    case False
    obtain r' where r': "take_new (it_id x # V) xs = (r', V')" "r = x # r'"
      using 2(3) False by (auto split: prod.splits)
    from 2(2) [OF False r'(1)] have d: "distinct (map it_id r')" "set r' \<subseteq> set xs"
      "it_id x \<notin> set (map it_id r')" "set (map it_id r') \<inter> set V = {}"
      "set V' = insert (it_id x) (set V) \<union> set (map it_id r')" "set (map it_id xs) \<subseteq> set V'"
      unfolding list.set by blast+
    then show ?thesis using False unfolding r'(2) by (intro conjI) auto
  qed
qed

locale tree_builder =
  fixes items :: "platform_item list"
    and sib :: "string \<Rightarrow> platform_item list"
    and mk :: "platform_item \<Rightarrow> 'n list \<Rightarrow> 'n"
    and flat :: "'n \<Rightarrow> platform_item list"
  assumes sib_items: "set (sib p) \<subseteq> set items"
    and flat_mk: "flat (mk x cs) = x # concat (map flat cs)"
begin

definition flats :: "'n list \<Rightarrow> platform_item list" where
  "flats ns = concat (map flat ns)"

definition unvisited :: "string list \<Rightarrow> nat" where
  "unvisited V = card (set (map it_id items) - set V)"

lemma flats_simps [simp]:
  "flats [] = []" "flats (mk x cs # ns) = x # flats cs @ flats ns" "flats (ms @ ns) = flats ms @ flats ns"
  by (simp_all add: flats_def flat_mk)

lemma unvisited_mono: "set V \<subseteq> set V' \<Longrightarrow> unvisited V' \<le> unvisited V"
  unfolding unvisited_def by (intro card_mono) auto

lemma unvisited_less: "set V \<subseteq> set V' \<Longrightarrow> i \<in> set (map it_id items) \<Longrightarrow> i \<in> set V' \<Longrightarrow> i \<notin> set V \<Longrightarrow>
    unvisited V' < unvisited V"
  unfolding unvisited_def by (intro psubset_card_mono) auto

definition extends :: "string list \<Rightarrow> string list \<Rightarrow> platform_item list \<Rightarrow> bool" where
  "extends V V' fs \<longleftrightarrow> distinct (map it_id fs) \<and> set (map it_id fs) \<inter> set V = {} \<and>
     set V' = set V \<union> set (map it_id fs) \<and> set fs \<subseteq> set items"

lemma extends_append:
  "extends V V1 as \<Longrightarrow> extends V1 V2 bs \<Longrightarrow> extends V V2 (as @ bs)"
  by (auto simp: extends_def)

text \<open>The same for a run over siblings that are already marked.\<close>

definition runs :: "string list \<Rightarrow> string list \<Rightarrow> platform_item list \<Rightarrow> 'n list \<Rightarrow> bool" where
  "runs V V' xs ns \<longleftrightarrow> distinct (map it_id (flats ns)) \<and> set (map it_id xs) \<subseteq> set (map it_id (flats ns)) \<and>
     set (map it_id (flats ns)) \<inter> (set V - set (map it_id xs)) = {} \<and>
     set V' = set V \<union> set (map it_id (flats ns)) \<and> set (flats ns) \<subseteq> set items"

lemma runs_Cons:
  assumes cs: "extends V V1 (flats cs)" and r: "runs V1 V2 xs r"
    and x: "x \<in> set items" "it_id x \<in> set V" "set (map it_id xs) \<subseteq> set V" "it_id x \<notin> set (map it_id xs)"
  shows "runs V V2 (x # xs) (mk x cs # r)"
proof -
  have "it_id x \<notin> set (map it_id (flats cs))" "set (map it_id (flats cs)) \<inter> set (map it_id xs) = {}"
    using cs x(2,3) unfolding extends_def by blast+
  moreover have "set (map it_id (flats cs)) \<subseteq> set V1" "it_id x \<in> set V1"
    using cs x(2) unfolding extends_def by blast+
  ultimately have "it_id x \<notin> set (map it_id (flats r))" "set (map it_id (flats cs)) \<inter> set (map it_id (flats r)) = {}"
    using r x(4) unfolding runs_def by blast+
  then show ?thesis
    using cs r x unfolding runs_def extends_def by auto
qed

definition returns :: "nat \<Rightarrow> bool" where
  "returns n \<longleftrightarrow> (\<forall>V p. unvisited V < n \<longrightarrow>
     (\<exists>ns V'. build sib mk n V p = Some (ns, V') \<and> extends V V' (flats ns)))"

lemma returns_each:
  assumes "returns n" "xs = [] \<or> unvisited V < n" "set xs \<subseteq> set items" "distinct (map it_id xs)"
    "set (map it_id xs) \<subseteq> set V"
  shows "\<exists>ns V'. build_each sib mk n V xs = Some (ns, V') \<and> runs V V' xs ns"
  using assms(2-)
proof (induction xs arbitrary: V)
  case Nil
  then show ?case by (simp add: runs_def)
next
  case (Cons x xs)
  obtain cs V1 where cs: "build sib mk n V (it_id x) = Some (cs, V1)" "extends V V1 (flats cs)"
    using assms(1) Cons.prems(1) unfolding returns_def by fastforce
  have "set V \<subseteq> set V1" using cs(2) by (auto simp: extends_def)
  then have "unvisited V1 < n" "set (map it_id xs) \<subseteq> set V1"
    using unvisited_mono [of V V1] Cons.prems by auto
  then obtain r V2 where r: "build_each sib mk n V1 xs = Some (r, V2)" "runs V1 V2 xs r"
    using Cons.IH [of V1] Cons.prems(2,3) by auto
  have "runs V V2 (x # xs) (mk x cs # r)" using cs(2) r(2) Cons.prems by (intro runs_Cons) auto
  then show ?case using cs(1) r(1) by simp
qed

text \<open>With fuel above the number of unvisited ids the recursion returns, and the ids of the
  nodes it returns are exactly the ones it marked, each once.\<close>

lemma build_returns: "returns n"
proof (induction n)
  case 0
  then show ?case by (simp add: returns_def)
next
  case (Suc n)
  show ?case unfolding returns_def
  proof (intro allI impI)
    fix V p
    assume u: "unvisited V < Suc n"
    obtain fr V1 where fr: "take_new V (sib p) = (fr, V1)" by (cases "take_new V (sib p)")
    note sp = take_new_spec [OF fr]
    have it: "set fr \<subseteq> set items" using sp sib_items [of p] by blast
    have less: "fr = [] \<or> unvisited V1 < n"
    proof (cases fr)
      case (Cons y ys)
      have "unvisited V1 < unvisited V"
        by (rule unvisited_less [of _ _ "it_id y"]) (use sp it Cons in auto)
      then show ?thesis using u by simp
    qed simp
    have m: "set (map it_id fr) \<subseteq> set V1" using sp by blast
    have d: "distinct (map it_id fr)" using sp by blast
    obtain ns V' where ns: "build_each sib mk n V1 fr = Some (ns, V')" "runs V1 V' fr ns"
      using returns_each [OF Suc less it d m] by blast
    have "set V1 - set (map it_id fr) = set V" using sp by blast
    then have "extends V V' (flats ns)"
      using ns(2) sp unfolding runs_def extends_def by (metis Un_assoc Un_absorb1)
    then show "\<exists>ns V'. build sib mk (Suc n) V p = Some (ns, V') \<and> extends V V' (flats ns)"
      using fr ns(1) by simp
  qed
qed

lemma rest_returns:
  assumes "length items < n" "set xs \<subseteq> set items"
  shows "\<exists>ns. add_rest sib mk n xs V = Some ns \<and> distinct (map it_id (flats ns)) \<and>
    set (map it_id (flats ns)) \<inter> set V = {} \<and> set (flats ns) \<subseteq> set items \<and>
    set (map it_id xs) \<subseteq> set V \<union> set (map it_id (flats ns))"
  using assms(2)
proof (induction xs arbitrary: V)
  case Nil
  then show ?case by simp
next
  case (Cons x xs)
  show ?case
  proof (cases "it_id x \<in> set V")
    case True
    then show ?thesis using Cons.IH [of V] Cons.prems by auto
  next
    case False
    have u: "unvisited (it_id x # V) < n"
    proof -
      have "unvisited (it_id x # V) \<le> card (set (map it_id items))"
        unfolding unvisited_def by (rule card_mono) auto
      also have "\<dots> \<le> length items" using card_length [of "map it_id items"] by simp
      finally show ?thesis using assms(1) by simp
    qed
    then obtain cs V1 where cs: "build sib mk n (it_id x # V) (it_id x) = Some (cs, V1)"
      "extends (it_id x # V) V1 (flats cs)"
      using build_returns [of n] unfolding returns_def by blast
    obtain r where r: "add_rest sib mk n xs V1 = Some r" "distinct (map it_id (flats r))"
      "set (map it_id (flats r)) \<inter> set V1 = {}" "set (flats r) \<subseteq> set items"
      "set (map it_id xs) \<subseteq> set V1 \<union> set (map it_id (flats r))"
      using Cons.IH [of V1] Cons.prems by auto
    have e: "distinct (map it_id (flats cs))" "it_id x \<notin> set (map it_id (flats cs))"
      "set (map it_id (flats cs)) \<inter> set V = {}" "set (flats cs) \<subseteq> set items"
      "set V1 = insert (it_id x) (set V) \<union> set (map it_id (flats cs))"
      using cs(2) unfolding extends_def by auto
    show ?thesis
    proof (intro exI conjI)
      show "add_rest sib mk n (x # xs) V = Some (mk x cs # r)" using False cs(1) r(1) by simp
      show "distinct (map it_id (flats (mk x cs # r)))" using e r(2,3) by auto
      show "set (map it_id (flats (mk x cs # r))) \<inter> set V = {}" using e(3,5) r(3) False by auto
      show "set (flats (mk x cs # r)) \<subseteq> set items" using e(4) r(4) Cons.prems by auto
      show "set (map it_id (x # xs)) \<subseteq> set V \<union> set (map it_id (flats (mk x cs # r)))"
        using r(5) e(5) by auto
    qed
  qed
qed

text \<open>Every id of the collection is the id of exactly one node, and every node is a record of it.\<close>

theorem build_tree_complete:
  assumes "mset sorted_items = mset items"
  shows "\<exists>ns. build_tree sib mk sorted_items = Some ns \<and> distinct (map it_id (flats ns)) \<and>
    set (map it_id (flats ns)) = set (map it_id items) \<and> set (flats ns) \<subseteq> set items"
proof -
  have si: "set sorted_items = set items" "length sorted_items = length items"
    using assms by (metis set_mset_mset, metis size_mset)
  let ?n = "Suc (length sorted_items)"
  have "unvisited [] < ?n"
    using card_length [of "map it_id items"] by (simp add: unvisited_def si less_Suc_eq_le)
  then obtain ro V where ro: "build sib mk ?n [] '''' = Some (ro, V)" "extends [] V (flats ro)"
    using build_returns [of ?n] unfolding returns_def by blast
  obtain r where r: "add_rest sib mk ?n sorted_items V = Some r" "distinct (map it_id (flats r))"
    "set (map it_id (flats r)) \<inter> set V = {}" "set (flats r) \<subseteq> set items"
    "set (map it_id sorted_items) \<subseteq> set V \<union> set (map it_id (flats r))"
    using rest_returns [of ?n sorted_items V] si by auto
  have e: "distinct (map it_id (flats ro))" "set (flats ro) \<subseteq> set items"
    "set V = set (map it_id (flats ro))"
    using ro(2) unfolding extends_def by auto
  have b: "build_tree sib mk sorted_items = Some (ro @ r)"
    using ro(1) r(1) by (simp add: build_tree_def Let_def del: build.simps)
  show ?thesis
  proof (intro exI conjI)
    show "build_tree sib mk sorted_items = Some (ro @ r)" by (rule b)
    show "distinct (map it_id (flats (ro @ r)))" using e r(2,3) by auto
    show "set (map it_id (flats (ro @ r))) = set (map it_id items)"
      using e(2,3) r(4,5) si(1) by auto
    show "set (flats (ro @ r)) \<subseteq> set items" using e(2) r(4) by simp
  qed
qed

lemma build_tree_permutation:
  assumes "mset sorted_items = mset items" "distinct (map it_id items)"
  shows "\<exists>ns. build_tree sib mk sorted_items = Some ns \<and> mset (flats ns) = mset items"
proof -
  obtain ns where ns: "build_tree sib mk sorted_items = Some ns" "distinct (map it_id (flats ns))"
    "set (map it_id (flats ns)) = set (map it_id items)" "set (flats ns) \<subseteq> set items"
    using build_tree_complete [OF assms(1)] by blast
  have "set items \<subseteq> set (flats ns)"
  proof
    fix x assume x: "x \<in> set items"
    then have "it_id x \<in> set (map it_id (flats ns))" using ns(3) by auto
    then obtain y where y: "y \<in> set (flats ns)" "it_id y = it_id x" by auto
    then have "y = x" using ns(4) x assms(2) by (auto simp: distinct_map inj_on_def)
    then show "x \<in> set (flats ns)" using y by simp
  qed
  then have "set (flats ns) = set items" using ns(4) by blast
  moreover have "distinct (flats ns)" "distinct items" using ns(2) assms(2) by (simp_all add: distinct_map)
  ultimately show ?thesis using ns(1) by (metis set_eq_iff_mset_eq_distinct)
qed

end

context tree_builder
begin

text \<open>A property of nodes that the constructor establishes, given it holds of the children and the
  children are siblings under the node's id, holds of every node built.\<close>

lemma build_all:
  assumes "\<And>x cs. list_all Q cs \<Longrightarrow> list_all (\<lambda>c. hd (flat c) \<in> set (sib (it_id x))) cs \<Longrightarrow> Q (mk x cs)"
  shows "build sib mk n V p = Some (ns, V') \<Longrightarrow> list_all Q ns \<and> list_all (\<lambda>c. hd (flat c) \<in> set (sib p)) ns"
proof (induction n arbitrary: V p ns V')
  case 0
  then show ?case by simp
next
  case (Suc n)
  have each: "build_each sib mk n V xs = Some (ns, V') \<Longrightarrow> list_all Q ns \<and> map (\<lambda>c. hd (flat c)) ns = xs" for V xs ns V'
  proof (induction xs arbitrary: V ns V')
    case Nil
    then show ?case by simp
  next
    case (Cons x xs)
    from Cons.prems obtain cs V1 where cs: "build sib mk n V (it_id x) = Some (cs, V1)"
      by (auto split: option.splits)
    from Cons.prems cs obtain r V2 where r: "build_each sib mk n V1 xs = Some (r, V2)" "ns = mk x cs # r"
      by (auto split: option.splits)
    have "Q (mk x cs)" using Suc.IH [OF cs] assms by blast
    then show ?case using Cons.IH [OF r(1)] r(2) by (simp add: flat_mk)
  qed
  obtain fr V1 where fr: "take_new V (sib p) = (fr, V1)" by (cases "take_new V (sib p)")
  then have "build_each sib mk n V1 fr = Some (ns, V')" using Suc.prems by simp
  then have "list_all Q ns" "map (\<lambda>c. hd (flat c)) ns = fr" using each by blast+
  moreover have "set fr \<subseteq> set (sib p)" using take_new_spec [OF fr] by blast
  ultimately show ?case by (auto simp: list_all_iff)
qed

lemma rest_all:
  assumes "\<And>x cs. list_all Q cs \<Longrightarrow> list_all (\<lambda>c. hd (flat c) \<in> set (sib (it_id x))) cs \<Longrightarrow> Q (mk x cs)"
  shows "add_rest sib mk n xs V = Some ns \<Longrightarrow> list_all Q ns"
proof (induction xs arbitrary: V ns)
  case Nil
  then show ?case by simp
next
  case (Cons x xs)
  show ?case
  proof (cases "it_id x \<in> set V")
    case True
    then show ?thesis using Cons by simp
  next
    case False
    from Cons.prems False obtain cs V1 where cs: "build sib mk n (it_id x # V) (it_id x) = Some (cs, V1)"
      by (auto split: option.splits)
    from Cons.prems False cs obtain r where r: "add_rest sib mk n xs V1 = Some r" "ns = mk x cs # r"
      by auto
    have "Q (mk x cs)" using build_all [of Q, OF assms cs] assms by blast
    then show ?thesis using Cons.IH [OF r(1)] r(2) by simp
  qed
qed

lemma build_tree_all:
  assumes "\<And>x cs. list_all Q cs \<Longrightarrow> list_all (\<lambda>c. hd (flat c) \<in> set (sib (it_id x))) cs \<Longrightarrow> Q (mk x cs)"
    and "build_tree sib mk xs = Some ns"
  shows "list_all Q ns"
proof -
  obtain ro V where ro: "build sib mk (Suc (length xs)) [] '''' = Some (ro, V)"
    using assms(2) by (auto simp: build_tree_def Let_def simp del: build.simps split: option.splits)
  then obtain r where r: "add_rest sib mk (Suc (length xs)) xs V = Some r" "ns = ro @ r"
    using assms(2) by (auto simp: build_tree_def Let_def simp del: build.simps)
  show ?thesis using build_all [of Q, OF assms(1) ro] rest_all [of Q, OF assms(1) r(1)] r(2) by simp
qed

end

section \<open>The two trees\<close>

lemma siblings_items: "set (siblings_of key cmp items p) \<subseteq> set items"
  by (auto simp: siblings_of_def)

interpretation dept: tree_builder items "siblings_of departmentTreeKey (departmentTreeSort lc) items"
    DepartmentNode dept_flat for items lc
  by unfold_locales (simp_all add: siblings_items)

interpretation grp: tree_builder items "siblings_of assetGroupKey (assetGroupTreeSort lc) items"
    "buildAssetGroupNode assets" group_flat for items lc assets
  by unfold_locales (simp_all add: siblings_items buildAssetGroupNode_def Let_def)

text \<open>The sub-nodes of a node, itself included.\<close>

fun group_nodes :: "asset_group_node \<Rightarrow> asset_group_node list" where
  "group_nodes (AssetGroupNode x cs d t ids) = AssetGroupNode x cs d t ids # concat (map group_nodes cs)"

lemma set_set_add_all: "set (set_add_all xs ys) = set xs \<union> set ys \<and> (distinct xs \<longrightarrow> distinct (set_add_all xs ys))"
  unfolding set_add_all_def by (induction ys arbitrary: xs) (auto simp: set_add_def)

definition node_counts :: "platform_item list \<Rightarrow> asset_group_node \<Rightarrow> bool" where
  "node_counts assets n \<longleftrightarrow>
     distinct (an_ids n) \<and>
     set (an_ids n) = (\<Union>g \<in> set (group_flat n). set (assetGroupAssetIDs g assets)) \<and>
     an_total n = card (\<Union>g \<in> set (group_flat n). set (assetGroupAssetIDs g assets))"

lemma fold_ids:
  "distinct ids \<Longrightarrow> distinct (fold (\<lambda>child ids. set_add_all ids (an_ids child)) cs ids) \<and>
     set (fold (\<lambda>child ids. set_add_all ids (an_ids child)) cs ids) = set ids \<union> (\<Union>c \<in> set cs. set (an_ids c))"
  by (induction cs arbitrary: ids) (auto simp: set_set_add_all)

lemma node_counts_step:
  assumes "list_all (node_counts assets) cs"
  shows "node_counts assets (buildAssetGroupNode assets g cs)"
proof -
  let ?ids = "fold (\<lambda>child ids. set_add_all ids (an_ids child)) cs (assetGroupAssetIDs g assets)"
  have "distinct (set_add_all [] ys)" for ys :: "string list" using set_set_add_all [of "[]" ys] by simp
  then have d: "distinct (assetGroupAssetIDs g assets)" by (simp only: assetGroupAssetIDs_def Let_def)
  have "(\<Union>c \<in> set cs. set (an_ids c)) = (\<Union>c \<in> set cs. \<Union>h \<in> set (group_flat c). set (assetGroupAssetIDs h assets))"
    using assms by (auto simp: list_all_iff node_counts_def)
  then have "set ?ids = (\<Union>h \<in> set (group_flat (buildAssetGroupNode assets g cs)). set (assetGroupAssetIDs h assets))"
    using fold_ids [OF d] by (simp add: buildAssetGroupNode_def Let_def)
  moreover have "distinct ?ids" using fold_ids [OF d] by simp
  ultimately show ?thesis
    using distinct_card [of ?ids] by (simp add: node_counts_def buildAssetGroupNode_def Let_def)
qed

lemma nodes_count:
  "list_all (\<lambda>n. list_all (node_counts assets) (group_nodes n)) cs \<Longrightarrow>
     list_all (node_counts assets) (group_nodes (buildAssetGroupNode assets g cs))"
proof -
  assume a: "list_all (\<lambda>n. list_all (node_counts assets) (group_nodes n)) cs"
  have "n \<in> set (group_nodes n)" for n by (cases n) simp
  then have "list_all (node_counts assets) cs" using a by (auto simp: list_all_iff)
  then have "node_counts assets (buildAssetGroupNode assets g cs)" by (rule node_counts_step)
  then show ?thesis using a
    by (auto simp: list_all_iff buildAssetGroupNode_def Let_def)
qed

section \<open>Properties\<close>

text \<open>C11 The department tree is built for every collection with distinct ids, however broken or
  cyclic its parent links, and shows every department exactly once.\<close>

theorem department_tree_complete:
  "distinct (map it_id items) \<Longrightarrow>
     \<exists>ns. buildDepartmentTree lc items = Some ns \<and> mset (concat (map dept_flat ns)) = mset items"
  unfolding buildDepartmentTree_def
  using dept.build_tree_permutation [of "js_sort (departmentTreeSort lc) items" items lc]
  by (simp add: dept.flats_def)

lemma department_tree_complete_witness:
  "\<exists>ns. buildDepartmentTree (\<lambda>_ _. 0)
      [blank_item\<lparr>it_id := ''a'', it_parent_id := ''b''\<rparr>, blank_item\<lparr>it_id := ''b'', it_parent_id := ''a''\<rparr>] = Some ns \<and>
     mset (concat (map dept_flat ns)) =
       mset [blank_item\<lparr>it_id := ''a'', it_parent_id := ''b''\<rparr>, blank_item\<lparr>it_id := ''b'', it_parent_id := ''a''\<rparr>]"
  by (rule department_tree_complete) simp

text \<open>In the asset-group tree every group appears once, and the total a node shows is the number of
  different assets in its group and all groups below it: an asset in several of them counts once.\<close>

theorem asset_group_tree_counts:
  "distinct (map it_id groups) \<Longrightarrow>
     \<exists>ns. buildAssetGroupTree lc groups assets = Some ns \<and> mset (concat (map group_flat ns)) = mset groups \<and>
       list_all (\<lambda>n. an_total n = card (\<Union>g \<in> set (group_flat n). set (assetGroupAssetIDs g assets)))
         (concat (map group_nodes ns))"
proof -
  assume d: "distinct (map it_id groups)"
  obtain ns where ns: "buildAssetGroupTree lc groups assets = Some ns" "mset (concat (map group_flat ns)) = mset groups"
    using grp.build_tree_permutation [OF _ d, of "js_sort (assetGroupTreeSort lc) groups" lc assets]
    by (auto simp: buildAssetGroupTree_def grp.flats_def)
  have "list_all (\<lambda>n. list_all (node_counts assets) (group_nodes n)) ns"
    by (rule grp.build_tree_all [where Q = "\<lambda>n. list_all (node_counts assets) (group_nodes n)" and items = groups
          and lc = lc and assets = assets, OF _ ns(1) [unfolded buildAssetGroupTree_def]]) (rule nodes_count)
  then show ?thesis using ns by (auto simp: list_all_iff node_counts_def)
qed

lemma asset_group_tree_counts_witness:
  "\<exists>ns. buildAssetGroupTree (\<lambda>_ _. 0) [blank_item\<lparr>it_id := ''g''\<rparr>, blank_item\<lparr>it_id := ''h'', it_parent_id := ''g''\<rparr>]
        [blank_item\<lparr>it_id := ''x'', it_group := ''H''\<rparr>] = Some ns \<and>
     mset (concat (map group_flat ns)) = mset [blank_item\<lparr>it_id := ''g''\<rparr>, blank_item\<lparr>it_id := ''h'', it_parent_id := ''g''\<rparr>] \<and>
       list_all (\<lambda>n. an_total n = card (\<Union>g \<in> set (group_flat n). set (assetGroupAssetIDs g [blank_item\<lparr>it_id := ''x'', it_group := ''H''\<rparr>])))
         (concat (map group_nodes ns))"
  by (rule asset_group_tree_counts) simp

end
