(* ===== verification/Paths.thy ===== *)
theory Paths
  imports JsValue
begin

text \<open>
  Paths, names and formatted numbers: the storage paths and sizes of \<open>platform-page.tsx\<close>, the remote
  paths, watermarks and sizes of \<open>workspace-view.tsx\<close>, and the shell quoting of the agent install
  commands, with specifications of how a shell reads a quoted word.
\<close>

section \<open>Storage paths\<close>

definition slash :: "char \<Rightarrow> bool" where
  "slash c \<longleftrightarrow> c = CHR ''/''"

definition clean_join :: "string list \<Rightarrow> string" where
  "clean_join parts = or_str (join ''/'' (filter (\<lambda>p. p \<noteq> []) parts)) ''.''"

definition joinStoragePath :: "string \<Rightarrow> string \<Rightarrow> string" where
  "joinStoragePath base name =
     (let cleanBase = (if base = ''.'' then '''' else strip_right slash (strip_left slash base));
          cleanName = strip_left slash name
      in clean_join [cleanBase, cleanName])"

definition unix_slashes :: "string \<Rightarrow> string" where
  "unix_slashes s = replace_char CHR 0x5C CHR ''/'' s"

definition resolveStoragePath :: "string \<Rightarrow> string \<Rightarrow> string" where
  "resolveStoragePath base value =
     (let input = unix_slashes (trim value)
      in if input = '''' \<or> input = ''.'' then joinStoragePath base ''''
         else if input = ''/'' then ''.''
         else if starts_with input ''/'' then or_str (strip_left slash input) ''.''
         else joinStoragePath base input)"

definition rootStoragePath :: "string \<Rightarrow> string" where
  "rootStoragePath value =
     (let clean = strip_left slash (unix_slashes (trim value))
      in if clean \<noteq> '''' \<and> clean \<noteq> ''.'' then ''/'' @ clean else ''/'')"

definition parentStoragePath :: "string \<Rightarrow> string" where
  "parentStoragePath value =
     (let parts = filter (\<lambda>p. p \<noteq> []) (split_on CHR ''/'' value)
      in if length parts \<le> 1 then ''.'' else join ''/'' (butlast parts))"

definition siblingStoragePath :: "string \<Rightarrow> string \<Rightarrow> string" where
  "siblingStoragePath path nextName = joinStoragePath (parentStoragePath path) nextName"

text \<open>The index of the last dot, when there is one.\<close>

definition last_index :: "char \<Rightarrow> string \<Rightarrow> nat option" where
  "last_index c s =
     (if c \<in> set s then Some (length s - Suc (length (takeWhile (\<lambda>x. x \<noteq> c) (rev s)))) else None)"

definition suffixed_name :: "string \<Rightarrow> string \<Rightarrow> bool \<Rightarrow> string" where
  "suffixed_name suff name isDirectory =
     (if isDirectory then name @ ''-'' @ suff
      else case last_index CHR ''.'' name of
             Some (Suc i) \<Rightarrow> take (Suc i) name @ ''-'' @ suff @ drop (Suc i) name
           | _ \<Rightarrow> name @ ''-'' @ suff)"

definition copiedStorageName :: "string \<Rightarrow> bool \<Rightarrow> string" where
  "copiedStorageName name isDirectory = suffixed_name ''copy'' name isDirectory"

definition renamedStorageName :: "string \<Rightarrow> bool \<Rightarrow> string" where
  "renamedStorageName name isDirectory = suffixed_name ''renamed'' name isDirectory"

section \<open>Remote paths\<close>

definition parentRemotePath :: "string \<Rightarrow> string" where
  "parentRemotePath value =
     (let normalized = strip_right slash (unix_slashes (trim value))
      in if normalized = '''' \<or> normalized = ''.'' then ''''
         else case last_index CHR ''/'' normalized of
                None \<Rightarrow> ''''
              | Some 0 \<Rightarrow> ''/''
              | Some i \<Rightarrow> take i normalized)"

definition joinRemotePath :: "string \<Rightarrow> string \<Rightarrow> string" where
  "joinRemotePath parent child =
     (let normalizedParent = strip_right slash (unix_slashes (trim parent));
          normalizedChild = strip_left slash (unix_slashes (trim child))
      in if normalizedParent = '''' \<or> normalizedParent = ''.'' then normalizedChild
         else if normalizedParent = ''/'' then ''/'' @ normalizedChild
         else normalizedParent @ ''/'' @ normalizedChild)"

definition suggestedRemoteName :: "string \<Rightarrow> bool \<Rightarrow> string \<Rightarrow> string" where
  "suggestedRemoteName name isDirectory mode =
     suffixed_name (if mode = ''copy'' then ''copy'' else ''renamed'') name isDirectory"

section \<open>Watermarks\<close>

text \<open>
  \<open>s.replaceAll(pat, rep)\<close> with a text \<open>rep\<close>: in it \<open>$$\<close> stands for a dollar sign, \<open>$&\<close> for
  the match, \<open>$`\<close> and \<open>$'\<close> for the text before and after it.
\<close>

fun expand_replacement :: "string \<Rightarrow> string \<Rightarrow> string \<Rightarrow> string \<Rightarrow> string" where
  "expand_replacement pre m post (a # b # r) =
     (if a = CHR ''$'' \<and> b = CHR ''$'' then CHR ''$'' # expand_replacement pre m post r
      else if a = CHR ''$'' \<and> b = CHR ''&'' then m @ expand_replacement pre m post r
      else if a = CHR ''$'' \<and> b = CHR 0x60 then pre @ expand_replacement pre m post r
      else if a = CHR ''$'' \<and> b = CHR 0x27 then post @ expand_replacement pre m post r
      else a # expand_replacement pre m post (b # r))"
| "expand_replacement pre m post r = r"

function replace_from :: "string \<Rightarrow> string \<Rightarrow> string \<Rightarrow> string \<Rightarrow> string" where
  "replace_from pat rep pre [] = []"
| "replace_from pat rep pre (c # s) =
     (if pat \<noteq> [] \<and> starts_with (c # s) pat
      then let post = drop (length pat) (c # s)
           in expand_replacement pre pat post rep @ replace_from pat rep (pre @ pat) post
      else c # replace_from pat rep (pre @ [c]) s)"
  by pat_completeness auto
termination
  by (relation "measure (\<lambda>(pat, rep, pre, s). length s)") auto

definition js_replace_all :: "string \<Rightarrow> string \<Rightarrow> string \<Rightarrow> string" where
  "js_replace_all pat rep s = replace_from pat rep [] s"

definition resolveWorkspaceWatermark :: "string \<Rightarrow> string \<Rightarrow> string \<Rightarrow> string" where
  "resolveWorkspaceWatermark template user asset =
     js_replace_all ''${asset}'' asset (js_replace_all ''${user}'' user
       (js_replace_all ''{{asset}}'' asset (js_replace_all ''{{user}}'' user (trim template))))"

section \<open>Sizes, percentages and times\<close>

definition formatBytesValue :: "jsval \<Rightarrow> string" where
  "formatBytesValue value =
     (let bytes = numberValue value;
          k = bytes / 1024; m = k / 1024; g = m / 1024; t = g / 1024;
          show = (\<lambda>r u. to_fixed (if r \<ge> 10 then 1 else 2) r @ '' '' @ u)
      in if bytes < 1024 then num_text (Fin bytes) @ '' B''
         else if k < 1024 then show k ''KB''
         else if m < 1024 then show m ''MB''
         else if g < 1024 then show g ''GB''
         else show t ''TB'')"

definition formatPercentValue :: "jsval \<Rightarrow> string" where
  "formatPercentValue value = to_fixed 1 (numberValue value * 100) @ ''%''"

definition formatPercentValueFromWhole :: "jsval \<Rightarrow> string" where
  "formatPercentValueFromWhole value = to_fixed 1 (numberValue value) @ ''%''"

definition formatBytes :: "jsnum \<Rightarrow> string" where
  "formatBytes value =
     (case value of
        Fin v \<Rightarrow>
          if v \<le> 0 then ''0 B''
          else if v < 1024 then num_text (Fin v) @ '' B''
          else let k = v / 1024; m = k / 1024; g = m / 1024; t = g / 1024;
                   show = (\<lambda>r u. to_fixed (if r \<ge> 10 then 0 else 1) r @ '' '' @ u)
               in if k < 1024 then show k ''KB''
                  else if m < 1024 then show m ''MB''
                  else if g < 1024 then show g ''GB''
                  else if t < 1024 then show t ''TB''
                  else to_fixed 0 (t / 1024) @ '' PB''
      | _ \<Rightarrow> ''0 B'')"

definition formatPlaybackTime :: "rat \<Rightarrow> string" where
  "formatPlaybackTime milliseconds =
     (let totalSeconds = nat (max 0 \<lfloor>milliseconds / 1000\<rfloor>);
          hours = totalSeconds div 3600;
          minutes = totalSeconds mod 3600 div 60;
          seconds = totalSeconds mod 60;
          two = (\<lambda>n. pad_left 2 CHR ''0'' (show_nat n))
      in if hours > 0 then show_nat hours @ '':'' @ two minutes @ '':'' @ two seconds
         else show_nat minutes @ '':'' @ two seconds)"

section \<open>Shell quoting\<close>

definition quotePOSIXShell :: "string \<Rightarrow> string" where
  "quotePOSIXShell value =
     [CHR 0x27] @ js_replace_all [CHR 0x27] [CHR 0x27, CHR 0x22, CHR 0x27, CHR 0x22, CHR 0x27] value @ [CHR 0x27]"

definition quotePowerShell :: "string \<Rightarrow> string" where
  "quotePowerShell value = [CHR 0x27] @ js_replace_all [CHR 0x27] [CHR 0x27, CHR 0x27] value @ [CHR 0x27]"

text \<open>
  How a POSIX shell reads a word made of quoted parts: between single quotes every character
  stands for itself; between double quotes too, except dollar sign, backquote and backslash, which
  are refused here; an unquoted character is refused.
\<close>

datatype quote_state = Unquoted | InSingle | InDouble

fun posix_word :: "quote_state \<Rightarrow> string \<Rightarrow> string option" where
  "posix_word Unquoted [] = Some []"
| "posix_word _ [] = None"
| "posix_word Unquoted (c # s) =
     (if c = CHR 0x27 then posix_word InSingle s else if c = CHR 0x22 then posix_word InDouble s else None)"
| "posix_word InSingle (c # s) =
     (if c = CHR 0x27 then posix_word Unquoted s else map_option (Cons c) (posix_word InSingle s))"
| "posix_word InDouble (c # s) =
     (if c = CHR 0x22 then posix_word Unquoted s
      else if c \<in> set [CHR ''$'', CHR 0x60, CHR 0x5C] then None
      else map_option (Cons c) (posix_word InDouble s))"

text \<open>
  A PowerShell single-quoted literal ends at a single quote and reads two of them as one. Its
  lexer takes the four typographic single quotes (U+2018 to U+201B) for single quotes as well.
\<close>

definition smart_quote :: "char \<Rightarrow> char \<Rightarrow> char \<Rightarrow> bool" where
  "smart_quote a b c \<longleftrightarrow> a = CHR 0xE2 \<and> b = CHR 0x80 \<and> c \<in> set [CHR 0x98, CHR 0x99, CHR 0x9A, CHR 0x9B]"

fun ps_literal :: "string \<Rightarrow> string option" where
  "ps_literal (a # s) =
     (if a = CHR 0x27 then
        (case s of [] \<Rightarrow> Some [] | b # r \<Rightarrow> if b = CHR 0x27 then map_option (Cons CHR 0x27) (ps_literal r) else None)
      else case s of
             b # c # r \<Rightarrow> if smart_quote a b c then None else map_option (Cons a) (ps_literal s)
           | _ \<Rightarrow> map_option (Cons a) (ps_literal s))"
| "ps_literal [] = None"

fun no_smart_quote :: "string \<Rightarrow> bool" where
  "no_smart_quote (a # s) =
     ((case s of b # c # r \<Rightarrow> \<not> smart_quote a b c | _ \<Rightarrow> True) \<and> no_smart_quote s)"
| "no_smart_quote [] = True"

section \<open>Properties\<close>

lemma replace_single:
  "\<lbrakk>CHR ''$'' \<notin> set rep\<rbrakk> \<Longrightarrow> replace_from [q] rep pre s = concat (map (\<lambda>c. if c = q then rep else [c]) s)"
proof (induction s arbitrary: pre)
  case Nil
  then show ?case by simp
next
  case (Cons c s)
  have e: "expand_replacement pre m post rep = rep" for pre m post
    using Cons.prems by (induction pre m post rep rule: expand_replacement.induct) auto
  show ?case using Cons e by (cases "c = q") (simp_all add: Let_def)
qed

lemma posix_word_single:
  "posix_word InSingle (concat (map (\<lambda>c. if c = CHR 0x27 then [CHR 0x27, CHR 0x22, CHR 0x27, CHR 0x22, CHR 0x27] else [c]) v)
     @ [CHR 0x27]) = Some v"
  by (induction v) auto

text \<open>A POSIX shell reads a quoted value as one word that is the value, whatever characters it holds.\<close>

theorem posix_quote_roundtrip: "posix_word Unquoted (quotePOSIXShell v) = Some v"
  using posix_word_single by (simp add: quotePOSIXShell_def js_replace_all_def replace_single)

lemma ps_literal_quoted:
  "no_smart_quote v \<Longrightarrow>
   ps_literal (concat (map (\<lambda>c. if c = CHR 0x27 then [CHR 0x27, CHR 0x27] else [c]) v) @ [CHR 0x27]) = Some v"
proof (induction v)
  case Nil
  then show ?case by simp
next
  case (Cons a v)
  let ?q = "\<lambda>v. concat (map (\<lambda>c. if c = CHR 0x27 then [CHR 0x27, CHR 0x27] else [c]) v) @ [CHR 0x27]"
  have IH: "ps_literal (?q v) = Some v" using Cons by simp
  show ?case
  proof (cases "a = CHR 0x27")
    case True
    then show ?thesis using IH by simp
  next
    case False
    have ns: "\<not> smart_quote a b c" if q: "?q v = b # c # r" for b c r
    proof
      assume s: "smart_quote a b c"
      then have b: "b \<noteq> CHR 0x27" "c \<noteq> CHR 0x27" by (auto simp: smart_quote_def)
      obtain v' where v: "v = b # v'" using q b by (cases v) (auto split: if_splits)
      obtain v'' where "v' = c # v''" using q b v by (cases v') (auto split: if_splits)
      then show False using Cons.prems s v by simp
    qed
    have "ps_literal (a # u) = map_option (Cons a) (ps_literal u)"
      if "\<And>b c r. u = b # c # r \<Longrightarrow> \<not> smart_quote a b c" for u
      using False that by (auto split: list.splits)
    from this [OF ns] show ?thesis using False IH by simp
  qed
qed

text \<open>PowerShell reads a quoted value without typographic quotes as the value.\<close>

theorem powershell_quote_roundtrip:
  assumes "no_smart_quote v"
  shows "\<exists>r. quotePowerShell v = CHR 0x27 # r \<and> ps_literal r = Some v"
  using ps_literal_quoted [OF assms] by (simp add: quotePowerShell_def js_replace_all_def replace_single)

lemma powershell_quote_roundtrip_witness:
  "\<exists>r. quotePowerShell [CHR ''a'', CHR 0x27, CHR ''b''] = CHR 0x27 # r \<and> ps_literal r = Some [CHR ''a'', CHR 0x27, CHR ''b'']"
  by (rule powershell_quote_roundtrip) (simp add: smart_quote_def)

lemma unix_slashes_ws: "is_ws c \<longleftrightarrow> is_ws (if c = CHR 0x5C then CHR ''/'' else c)"
  by (cases "c = CHR 0x5C") (simp_all add: is_ws_def)

lemma strip_left_last: "strip_left P s \<noteq> [] \<Longrightarrow> last (strip_left P s) = last s"
proof -
  assume "strip_left P s \<noteq> []"
  then have "last (takeWhile P s @ dropWhile P s) = last (dropWhile P s)"
    by (metis last_appendR strip_left_def)
  then show ?thesis by (simp only: takeWhile_dropWhile_id strip_left_def)
qed

text \<open>The path shown for an entry (rooted at the storage) resolves, from whatever folder is open,
  to the entry's path: leading slashes and backslashes are normalised and nothing else changes.\<close>

theorem storage_root_roundtrip:
  "resolveStoragePath base (rootStoragePath p) =
     (let c = strip_left slash (unix_slashes (trim p)) in if c = '''' \<or> c = ''.'' then ''.'' else c)"
proof -
  let ?c = "strip_left slash (unix_slashes (trim p))"
  show ?thesis
  proof (cases "?c = '''' \<or> ?c = ''.''")
    case True
    have "unix_slashes (trim ''/'') = ''/''" by code_simp
    then show ?thesis using True by (auto simp: rootStoragePath_def resolveStoragePath_def Let_def)
  next
    case False
    have ne: "unix_slashes (trim p) \<noteq> []" using False by (auto simp: strip_left_def)
    then have tp: "trim p \<noteq> []" by (auto simp: unix_slashes_def replace_char_def)
    have "last (unix_slashes (trim p)) = (if last (trim p) = CHR 0x5C then CHR ''/'' else last (trim p))"
      using tp by (simp add: unix_slashes_def replace_char_def last_map)
    then have "\<not> is_ws (last ?c)"
      using strip_left_last [of slash "unix_slashes (trim p)"] False trim_last [OF tp] unix_slashes_ws by metis
    then have t: "trim (''/'' @ ?c) = ''/'' @ ?c"
      using False by (intro trim_id) (simp add: is_ws_def)
    have "CHR 0x5C \<notin> set (unix_slashes s)" for s by (auto simp: unix_slashes_def replace_char_def)
    then have "CHR 0x5C \<notin> set ?c" using strip_left_subset by blast
    then have u: "unix_slashes (''/'' @ ?c) = ''/'' @ ?c"
      by (simp add: unix_slashes_def replace_char_id)
    have "\<not> slash (hd ?c)" using strip_left_hd False by blast
    then have "strip_left slash (''/'' @ ?c) = ?c"
      using False strip_left_id [of ?c slash] by (simp add: strip_left_def slash_def)
    then show ?thesis
      using False t u by (simp add: rootStoragePath_def resolveStoragePath_def Let_def or_str_def)
  qed
qed

text \<open>The path of a folder given by its components.\<close>

definition storage_dir :: "string list \<Rightarrow> string" where
  "storage_dir ws = (if ws = [] then ''.'' else join ''/'' ws)"

definition plain_name :: "string \<Rightarrow> bool" where
  "plain_name n \<longleftrightarrow> n \<noteq> '''' \<and> CHR ''/'' \<notin> set n"

lemma join_plain_ends:
  assumes "ws \<noteq> []" "\<And>w. w \<in> set ws \<Longrightarrow> plain_name w"
  shows "join ''/'' ws \<noteq> [] \<and> \<not> slash (hd (join ''/'' ws)) \<and> \<not> slash (last (join ''/'' ws))"
  using assms
proof (induction ws)
  case Nil
  then show ?case by simp
next
  case (Cons w ws)
  have w: "w \<noteq> []" "CHR ''/'' \<notin> set w" using Cons.prems by (auto simp: plain_name_def)
  then have "hd w \<noteq> CHR ''/''" "last w \<noteq> CHR ''/''" using hd_in_set last_in_set by metis+
  then show ?case using Cons w by (cases "ws = []") (auto simp: join_Cons slash_def)
qed

lemma split_join_plain:
  assumes "ws \<noteq> []" "\<And>w. w \<in> set ws \<Longrightarrow> plain_name w"
  shows "filter (\<lambda>p. p \<noteq> []) (split_on CHR ''/'' (join ''/'' ws)) = ws"
proof -
  have "split_on CHR ''/'' (join ''/'' ws) = ws"
    using assms
  proof (induction ws)
    case Nil
    then show ?case by simp
  next
    case (Cons w ws)
    then show ?case by (cases "ws = []") (simp_all add: join_Cons split_on_append split_on_id plain_name_def)
  qed
  then show ?thesis using assms(2) by (simp add: filter_id_conv plain_name_def)
qed

text \<open>Going into an entry and back up returns to the same folder: the parent of a joined path is the
  folder it was joined to.\<close>

theorem storage_parent_join:
  assumes "list_all plain_name ws" "plain_name n" "storage_dir ws \<noteq> ''.'' \<or> ws = []"
  shows "joinStoragePath (storage_dir ws) n = join ''/'' (ws @ [n]) \<and>
    parentStoragePath (joinStoragePath (storage_dir ws) n) = storage_dir ws"
proof -
  have pl: "\<And>w. w \<in> set (ws @ [n]) \<Longrightarrow> plain_name w" using assms by (auto simp: list_all_iff)
  have n0: "n \<noteq> []" "\<not> slash (hd n)" using assms(2) hd_in_set [of n] by (metis plain_name_def slash_def)+
  have n: "strip_left slash n = n" "n \<noteq> []" using n0 by (simp_all add: strip_left_id)
  have j: "joinStoragePath (storage_dir ws) n = join ''/'' (ws @ [n])"
  proof (cases "ws = []")
    case True
    then show ?thesis using n by (simp add: joinStoragePath_def storage_dir_def clean_join_def or_str_def)
  next
    case False
    have e: "join ''/'' ws \<noteq> [] \<and> \<not> slash (hd (join ''/'' ws)) \<and> \<not> slash (last (join ''/'' ws))"
      by (rule join_plain_ends [OF False]) (use pl in simp)
    then have s: "strip_right slash (strip_left slash (join ''/'' ws)) = join ''/'' ws"
      by (simp add: strip_left_id strip_right_id)
    have app: "ws \<noteq> [] \<Longrightarrow> join ''/'' (ws @ [n]) = join ''/'' ws @ ''/'' @ n" for ws
    proof (induction ws)
      case (Cons w ws)
      then show ?case by (cases "ws = []") (simp_all add: join_Cons)
    qed simp
    have "storage_dir ws = join ''/'' ws" "storage_dir ws \<noteq> ''.''" using False assms(3) by (auto simp: storage_dir_def)
    then show ?thesis using e n s app [OF False]
      by (simp add: joinStoragePath_def clean_join_def or_str_def Let_def)
  qed
  have "filter (\<lambda>p. p \<noteq> []) (split_on CHR ''/'' (join ''/'' (ws @ [n]))) = ws @ [n]"
    by (rule split_join_plain) (use pl in auto)
  then have "parentStoragePath (join ''/'' (ws @ [n])) = storage_dir ws"
    by (simp add: parentStoragePath_def storage_dir_def Let_def)
  then show ?thesis using j by simp
qed

lemma storage_parent_join_witness:
  "joinStoragePath (storage_dir [''docs'', ''2024'']) ''report.txt'' = join ''/'' ([''docs'', ''2024''] @ [''report.txt'']) \<and>
    parentStoragePath (joinStoragePath (storage_dir [''docs'', ''2024'']) ''report.txt'') = storage_dir [''docs'', ''2024'']"
  by (rule storage_parent_join) (simp_all add: plain_name_def storage_dir_def)

text \<open>Joining a name to the root of a remote file system loses the root: the result is a relative
  path, although the parent of \<open>/name\<close> is given as \<open>/\<close>.\<close>

theorem remote_root_join_relative:
  "joinRemotePath ''/'' child = strip_left slash (unix_slashes (trim child)) \<and> parentRemotePath (''/'' @ ''etc'') = ''/''"
proof
  have "strip_right slash (unix_slashes (trim ''/'')) = ''''" by code_simp
  then show "joinRemotePath ''/'' child = strip_left slash (unix_slashes (trim child))"
    by (simp add: joinRemotePath_def Let_def)
  show "parentRemotePath (''/'' @ ''etc'') = ''/''" by code_simp
qed

end
