(* ===== verification/Columns.thy ===== *)
theory Columns
  imports Metadata Trees Paths
begin

text \<open>
  What a platform table shows of a record (\<open>PlatformTablePage\<close> and its summary components in
  \<open>platform-page.tsx\<close>): the columns of each collection with their cells, the text a row is searched
  by, and the rows of the department and asset-group tree views. Labels are given by their
  translation keys. The two formatters that depend on the browser's locale data (dates and
  numbers) are parameters.
\<close>

record formats =
  fmt_date :: "string \<Rightarrow> string"
  fmt_number :: "rat \<Rightarrow> string"

datatype cell = Txt string | Tag tone string | Lines "cell list" | Indent rat cell

type_synonym column = "string \<times> (platform_item \<Rightarrow> cell)"

definition mtext :: "platform_item \<Rightarrow> string \<Rightarrow> string" where
  "mtext item k = metadataText (meta item k)"

definition formatNumberValue :: "formats \<Rightarrow> jsval \<Rightarrow> string" where
  "formatNumberValue fm v = fmt_number fm (numberValue v)"

section \<open>Approval and execution summaries\<close>

definition decision_lines :: "formats \<Rightarrow> platform_item \<Rightarrow> cell" where
  "decision_lines fm item =
     (let note = (\<lambda>k. if mtext item k \<noteq> '''' then [Txt (mtext item k)] else [])
      in if mtext item ''approved_by'' \<noteq> ''''
           then Lines ([Txt (''approved: '' @ mtext item ''approved_by''), Txt (fmt_date fm (mtext item ''approved_at''))]
                  @ note ''approval_note'')
         else if mtext item ''rejected_by'' \<noteq> ''''
           then Lines ([Txt (''rejected: '' @ mtext item ''rejected_by''), Txt (fmt_date fm (mtext item ''rejected_at''))]
                  @ note ''rejection_note'')
         else Txt ''pending approval'')"

definition SQLWorkOrderDecisionSummary :: "formats \<Rightarrow> platform_item \<Rightarrow> cell" where
  "SQLWorkOrderDecisionSummary fm item = decision_lines fm item"

definition CommandApprovalDecisionSummary :: "formats \<Rightarrow> platform_item \<Rightarrow> cell" where
  "CommandApprovalDecisionSummary fm item = decision_lines fm item"

definition SQLWorkOrderExecutionSummary :: "formats \<Rightarrow> platform_item \<Rightarrow> cell" where
  "SQLWorkOrderExecutionSummary fm item =
     (let executedBy = mtext item ''executed_by''; err = mtext item ''execution_error''; logID = mtext item ''sql_log_id''
      in if err \<noteq> '''' then Txt err
         else if executedBy \<noteq> '''' \<or> logID \<noteq> ''''
           then Lines [Txt (''executed: '' @ or_str executedBy ''-''), Txt (fmt_date fm (mtext item ''executed_at'')),
                  Txt (formatNumberValue fm (meta item ''rows_affected'') @ '' rows / '' @
                       formatNumberValue fm (meta item ''duration_ms'') @ '' ms'')]
         else Txt ''not executed'')"

definition CommandApprovalExecutionSummary :: "formats \<Rightarrow> platform_item \<Rightarrow> cell" where
  "CommandApprovalExecutionSummary fm item =
     (let executedBy = mtext item ''executed_by'';
          err = or_str (mtext item ''execution_error'') (mtext item ''error'')
      in if err \<noteq> '''' then Txt err
         else if executedBy \<noteq> ''''
           then Lines [Txt (''executed: '' @ executedBy), Txt (fmt_date fm (mtext item ''executed_at'')),
                  Txt (''exit code '' @ formatNumberValue fm (meta item ''exit_code'') @ '' / '' @
                       formatNumberValue fm (meta item ''duration_ms'') @ '' ms'')]
         else Txt ''not executed'')"

section \<open>Columns\<close>

definition name_column :: "string \<Rightarrow> column" where
  "name_column collection =
     (''name'', \<lambda>item.
        let level = departmentLevel item; dept = (collection = ''departments'')
        in (if dept then Indent (level * 18) else id)
             (Lines [Txt ((if dept \<and> level > 0 then ''child: '' else '''') @ it_name item),
                Txt (if dept then or_str (or_str (mtext item ''path'') (it_description item)) (it_id item)
                     else or_str (it_description item) (it_id item))]))"

definition workflow_columns :: "formats \<Rightarrow> string \<Rightarrow> column list" where
  "workflow_columns fm collection =
     (if collection = ''sql_work_orders'' then
        [(''SQL / Reason'', \<lambda>item. Lines
            [Txt (or_str (or_str (mtext item ''sql'') (it_description item)) ''-''),
             Txt (or_str (or_str (mtext item ''reason'') (it_description item)) ''-'')]),
         (''Decision'', SQLWorkOrderDecisionSummary fm),
         (''Execution'', SQLWorkOrderExecutionSummary fm)] else [])
     @ (if collection = ''command_approvals'' then
        [(''command / rule'', \<lambda>item. Lines
            [Txt (or_str (or_str (mtext item ''command'') (it_name item)) ''-''),
             Txt (or_str (or_str (mtext item ''rule_name'') (it_description item)) ''-'')]),
         (''approval'', CommandApprovalDecisionSummary fm),
         (''execution'', CommandApprovalExecutionSummary fm)] else [])"

definition lifecycle_columns :: "formats \<Rightarrow> string \<Rightarrow> column list" where
  "lifecycle_columns fm collection =
     (if collection = ''certificates'' then
        [(''expiresAt'', \<lambda>item. Txt (fmt_date fm (mtext item ''expires_at''))),
         (''certificateFlags'', \<lambda>item. Lines
            ((if metadataBool (meta item ''default'') then [Tag Success ''default''] else [])
             @ (if metadataBool (meta item ''mtls_enabled'') then [Tag Warning ''mTLS''] else [])
             @ (if mtext item ''acme_order_status'' \<noteq> '''' then [Tag Neutral (mtext item ''acme_order_status'')] else [])))]
      else [])
     @ (if collection = ''scheduled_tasks'' then
        [(''schedule'', \<lambda>item. Txt (scheduledTaskScheduleText item)),
         (''lastRun'', \<lambda>item. Lines [Txt (fmt_date fm (mtext item ''last_run_at'')),
            Txt (or_str (mtext item ''last_run_status'') ''-'')]),
         (''nextRun'', \<lambda>item. Txt (fmt_date fm (mtext item ''next_run_at'')))] else [])
     @ (if collection = ''users'' then
        [(''onlineStatus'', \<lambda>item. if userOnline item then Tag Success ''online'' else Tag Neutral ''offline''),
         (''lastLogin'', \<lambda>item. Lines [Txt (fmt_date fm (mtext item ''last_login_at'')),
            Txt (or_str (mtext item ''last_login_ip'') ''-'')])] else [])
     @ (if collection = ''departments'' then
        [(''members'', \<lambda>item. Txt (num_text (Fin (metadataNumber (meta item ''member_count''))) @ '' / '' @
            num_text (Fin (metadataNumber (meta item ''total_member_count''))))),
         (''sort'', \<lambda>item. Txt (num_text (Fin (metadataNumber (meta item ''sort'')))))] else [])"

definition group_columns :: "platform_item list \<Rightarrow> platform_item list \<Rightarrow> string \<Rightarrow> column list" where
  "group_columns groups assets collection =
     (if collection = ''asset_groups'' then
        [(''protocol'', \<lambda>item. Tag Neutral (or_str (or_str (it_protocol item) (it_type item)) ''custom'')),
         (''parent'', \<lambda>item. Txt (assetGroupParentName item groups)),
         (''assets'', \<lambda>item. Txt (show_nat (assetGroupAssetCount item assets))),
         (''sort'', \<lambda>item. Txt (num_text (Fin (metadataNumber (meta item ''sort'')))))] else [])
     @ (if collection = ''command_filters'' then
        [(''commandPattern'', \<lambda>item. Txt (or_str (mtext item ''pattern'') ''-'')),
         (''riskLevel'', \<lambda>item. Tag (riskTone (mtext item ''risk'')) (or_str (mtext item ''risk'') ''normal''))] else [])
     @ (if collection = ''command_snippets'' then
        [(''commandContent'', \<lambda>item. Txt (or_str (or_str (mtext item ''command'') (it_description item)) ''-'')),
         (''appendNewline'', \<lambda>item. if metadataBool (meta item ''append_newline'') then Tag Success ''enabled''
            else Tag Neutral ''disabled'')] else [])
     @ (if collection = ''oidc_clients'' then
        [(''oidcClientID'', \<lambda>item. Txt (or_str (mtext item ''client_id'') (it_name item))),
         (''oidcRedirectURIs'', \<lambda>item. Txt (or_str (metadataInlineListText (meta item ''redirect_uris'')) ''-'')),
         (''oidcScopes'', \<lambda>item. Txt (or_str (metadataInlineListText (meta item ''scopes'')) ''openid profile email'')),
         (''oidcAuthMethod'', \<lambda>item. Tag Neutral (or_str (mtext item ''token_endpoint_auth_method'')
            (if it_type item = ''public'' then ''none'' else ''client_secret_basic''))),
         (''secretStatus'', \<lambda>item. if metadataBool (meta item ''client_secret_set'') then Tag Success ''passwordSaved''
            else Tag Neutral ''passwordNotSet'')] else [])"

definition strategy_columns :: "platform_item list \<Rightarrow> platform_item list \<Rightarrow> string \<Rightarrow> column list" where
  "strategy_columns assets storages collection =
     (if collection = ''authorization_strategies'' then
        let kind = (\<lambda>item. or_str (mtext item ''resource_type'') ''storage'')
        in [(''targetResourceType'', \<lambda>item. Tag Neutral (if kind item = ''asset'' then ''assetResource'' else ''storageResource'')),
            (''target'', \<lambda>item.
               let target = find (\<lambda>c. it_id c = it_target_id item) (if kind item = ''asset'' then assets else storages)
               in Txt (or_str (or_str (case target of Some t \<Rightarrow> it_name t | None \<Rightarrow> '''') (it_target_id item))
                    (if kind item = ''asset'' then ''allAssets'' else ''allStorages''))),
            (''permissionMatrix'', \<lambda>item. Txt (permissionSummary (it_permissions item))),
            (''pathPrefix'', \<lambda>item. Txt (or_str (mtext item ''path_prefix'') ''*''))]
      else [])"

definition truthy_port :: "platform_item \<Rightarrow> string" where
  "truthy_port item = (let p = port_text (it_port item) in if p \<noteq> '''' then '':'' @ p else '''')"

definition address_columns :: "string \<Rightarrow> column list" where
  "address_columns collection =
     (if collection \<notin> set [''asset_groups'', ''command_filters'', ''command_snippets'', ''oidc_clients'',
          ''authorization_strategies'', ''storages'']
      then [(''address'', \<lambda>item.
             let targetURL = (if collection = ''web_assets'' then mtext item ''target_url'' else '''');
                 address = or_str targetURL (if it_host item \<noteq> '''' then it_host item @ truthy_port item else '''')
             in Txt (or_str address ''-''))]
      else [])
     @ (if collection = ''web_assets'' then
        [(''mTLS'', \<lambda>item.
            let cert = or_str (mtext item ''certificate_id'') (mtext item ''mtls_certificate_id'')
            in if cert \<noteq> '''' then Tag Warning cert else Tag Neutral ''disabled'')] else [])
     @ (if collection \<in> set [''assets'', ''web_assets'', ''database_assets''] then
        [(''gatewayGroup'', \<lambda>item. if mtext item ''gateway_group_id'' \<noteq> '''' then Tag Neutral (mtext item ''gateway_group_id'')
            else Txt ''directAccess'')] else [])"

definition gateway_columns :: "formats \<Rightarrow> string \<Rightarrow> column list" where
  "gateway_columns fm collection =
     (if collection = ''agent_gateways'' then
        [(''latency'', \<lambda>item. Txt (formatNumberValue fm (meta item ''latency_ms'') @ '' ms'')),
         (''resources'', \<lambda>item. Txt (''CPU '' @ formatPercentValueFromWhole (meta item ''cpu_percent'') @ '' / MEM '' @
            formatPercentValueFromWhole (meta item ''memory_percent'')))] else [])
     @ (if collection = ''gateway_groups'' then
        [(''members'', \<lambda>item. Txt (formatNumberValue fm (meta item ''member_count''))),
         (''online'', \<lambda>item. Txt (formatNumberValue fm (meta item ''online_count'') @ '' / '' @
            formatNumberValue fm (meta item ''offline_count''))),
         (''selectedGateway'', \<lambda>item. if mtext item ''selected_gateway_id'' \<noteq> '''' then Tag Success (mtext item ''selected_gateway_id'')
            else Tag Warning ''none'')] else [])
     @ (if collection = ''storages'' then
        [(''usage'', \<lambda>item. Txt (formatBytesValue (meta item ''used_bytes'') @
            (if truthy (meta item ''limit_bytes'') then '' / '' @ formatBytesValue (meta item ''limit_bytes'') else ''''))),
         (''sharing'', \<lambda>item. if metadataBool (meta item ''shared'') then Tag Success ''shared'' else Tag Neutral ''private'')] else [])"

text \<open>All columns before the actions, in the order of the table.\<close>

definition platform_columns ::
  "formats \<Rightarrow> platform_item list \<Rightarrow> platform_item list \<Rightarrow> platform_item list \<Rightarrow> string \<Rightarrow> column list" where
  "platform_columns fm groups assets storages collection =
     [name_column collection,
      (''type'', \<lambda>item. Tag Neutral (or_str (or_str (it_type item) (it_protocol item)) ''-'')),
      (''status'', \<lambda>item. Tag (statusTone (it_status item)) (or_str (it_status item) ''-''))]
     @ workflow_columns fm collection @ lifecycle_columns fm collection
     @ group_columns groups assets collection @ strategy_columns assets storages collection
     @ address_columns collection @ gateway_columns fm collection
     @ [(''group'', \<lambda>item. Txt (or_str (or_str (or_str (it_group item) (it_owner_id item)) (it_target_id item)) ''-'')),
        (''createdAt'', \<lambda>item. Txt (fmt_date fm (it_created_at item)))]"

text \<open>The text the quick filter searches.\<close>

definition platform_search_text :: "platform_item \<Rightarrow> string" where
  "platform_search_text item =
     join '' '' (filter (\<lambda>t. t \<noteq> '''')
       ([it_name item, it_type item, it_status item, it_protocol item, it_host item, it_group item,
         it_username item, it_description item]
        @ map (mtext item) [''target_url'', ''certificate_id'', ''mtls_certificate_id'', ''tls_server_name'',
            ''database'', ''sqlite_path'', ''credential_id'', ''gateway_group_id'', ''gateway_id'', ''pattern'',
            ''command'', ''risk'', ''path_prefix'']
        @ [permissionSummary (it_permissions item)]
        @ map (mtext item) [''last_login_at'', ''last_login_ip'']
        @ [case it_tags item of Some ts \<Rightarrow> join '' '' ts | None \<Rightarrow> '''']))"

section \<open>Tree views\<close>

datatype tree_action = EditItem | DeleteItem | ToggleBranch

record tree_row =
  tr_id :: string
  tr_depth :: nat
  tr_cells :: "cell list"
  tr_actions :: "tree_action list"

definition edit_actions :: "(platform_item \<Rightarrow> bool) \<Rightarrow> (platform_item \<Rightarrow> bool) \<Rightarrow> platform_item \<Rightarrow> tree_action list" where
  "edit_actions canEdit canDelete item =
     (if canEdit item then [EditItem] else []) @ (if canDelete item then [DeleteItem] else [])"

fun DepartmentTreeBranch ::
  "formats \<Rightarrow> (platform_item \<Rightarrow> bool) \<Rightarrow> (platform_item \<Rightarrow> bool) \<Rightarrow> nat \<Rightarrow> department_node \<Rightarrow> tree_row list" where
  "DepartmentTreeBranch fm canEdit canDelete depth (DepartmentNode item cs) =
     (let directMembers = metadataNumber (meta item ''member_count'');
          totalMembers = metadataNumber (meta item ''total_member_count'');
          declared = metadataNumber (meta item ''direct_child_count'');
          childCount = (if declared \<noteq> 0 then declared else of_nat (length cs))
      in \<lparr>tr_id = it_id item, tr_depth = depth,
           tr_cells = [Txt (it_name item), Tag (statusTone (it_status item)) (or_str (it_status item) ''-''),
             Tag Neutral (or_str (it_type item) ''department''),
             Txt (or_str (or_str (mtext item ''path'') (it_description item)) (it_id item)),
             Tag Neutral (''members: '' @ fmt_number fm directMembers @ '' / '' @ fmt_number fm totalMembers),
             Tag Neutral (''children: '' @ fmt_number fm childCount),
             Tag Neutral (''sort: '' @ fmt_number fm (metadataNumber (meta item ''sort'')))],
           tr_actions = edit_actions canEdit canDelete item\<rparr>
         # concat (map (DepartmentTreeBranch fm canEdit canDelete (Suc depth)) cs))"

definition DepartmentTreeView ::
  "locale_compare \<Rightarrow> formats \<Rightarrow> (platform_item \<Rightarrow> bool) \<Rightarrow> (platform_item \<Rightarrow> bool) \<Rightarrow> platform_item list \<Rightarrow> tree_row list option" where
  "DepartmentTreeView lc fm canEdit canDelete items =
     (if items = [] then Some []
      else map_option (\<lambda>ns. concat (map (DepartmentTreeBranch fm canEdit canDelete 0) ns)) (buildDepartmentTree lc items))"

text \<open>A group branch is open unless the record says \<open>collapsed\<close>; \<open>toggled\<close> holds the ids whose branch was
  switched since.\<close>

fun AssetGroupTreeBranch ::
  "formats \<Rightarrow> string list \<Rightarrow> (platform_item \<Rightarrow> bool) \<Rightarrow> (platform_item \<Rightarrow> bool) \<Rightarrow> nat \<Rightarrow> asset_group_node \<Rightarrow> tree_row list" where
  "AssetGroupTreeBranch fm toggled canEdit canDelete depth (AssetGroupNode item cs direct tot ids) =
     (let expanded = ((\<not> metadataBool (meta item ''collapsed'')) \<noteq> (it_id item \<in> set toggled))
      in \<lparr>tr_id = it_id item, tr_depth = depth,
           tr_cells = [Txt (it_name item), Tag (statusTone (it_status item)) (or_str (it_status item) ''-''),
             Tag Neutral (or_str (or_str (it_protocol item) (it_type item)) ''custom'')]
             @ (if metadataBool (meta item ''collapsed'') then [Tag Warning ''collapsedByDefault''] else [])
             @ [Txt (or_str (or_str (assetGroupPathText item) (it_description item)) (it_id item)),
                Tag Neutral (''directAssets: '' @ fmt_number fm (of_nat direct)),
                Tag Neutral (''totalAssets: '' @ fmt_number fm (of_nat tot)),
                Tag Neutral (''children: '' @ fmt_number fm (of_nat (length cs))),
                Tag Neutral (''sort: '' @ fmt_number fm (metadataNumber (meta item ''sort'')))],
           tr_actions = (if cs \<noteq> [] then [ToggleBranch] else []) @ edit_actions canEdit canDelete item\<rparr>
         # (if cs \<noteq> [] \<and> expanded
            then concat (map (AssetGroupTreeBranch fm toggled canEdit canDelete (Suc depth)) cs) else []))"

definition AssetGroupTreeView ::
  "locale_compare \<Rightarrow> formats \<Rightarrow> string list \<Rightarrow> (platform_item \<Rightarrow> bool) \<Rightarrow> (platform_item \<Rightarrow> bool) \<Rightarrow>
     platform_item list \<Rightarrow> platform_item list \<Rightarrow> tree_row list option" where
  "AssetGroupTreeView lc fm toggled canEdit canDelete groups assets =
     (if groups = [] then Some []
      else map_option (\<lambda>ns. concat (map (AssetGroupTreeBranch fm toggled canEdit canDelete 0) ns))
             (buildAssetGroupTree lc groups assets))"

section \<open>Properties\<close>

lemma branch_ids:
  "map tr_id (DepartmentTreeBranch fm ce cd d n) = map it_id (dept_flat n)"
proof (induction n arbitrary: d)
  case (DepartmentNode x cs)
  then have "map tr_id (concat (map (DepartmentTreeBranch fm ce cd (Suc d)) cs)) = map it_id (concat (map dept_flat cs))"
    by (induction cs) auto
  then show ?case by (simp add: Let_def)
qed

text \<open>The same counting on identifiers: the tree has one row per record.\<close>

lemma tree_view_ids:
  "buildDepartmentTree lc items = Some ns \<Longrightarrow> items \<noteq> [] \<Longrightarrow>
     DepartmentTreeView lc fm ce cd items = Some rows \<Longrightarrow> map tr_id rows = map it_id (concat (map dept_flat ns))"
proof -
  assume a: "buildDepartmentTree lc items = Some ns" "items \<noteq> []" "DepartmentTreeView lc fm ce cd items = Some rows"
  have "map tr_id (concat (map (DepartmentTreeBranch fm ce cd 0) ns)) = map it_id (concat (map dept_flat ns))"
    by (induction ns) (auto simp: branch_ids)
  then show ?thesis using a by (auto simp: DepartmentTreeView_def)
qed

end
