(* ===== verification/Navigation.thy ===== *)
theory Navigation
  imports Rbac
begin

text \<open>
  Which screen a path shows to whom: the gates and the route table of
  \<open>frontend/src/routes/router.tsx\<close>, the page dispatch of \<open>PlatformPage\<close>, and the
  links the side bar, the header and the command palette offer.
\<close>

section \<open>The signed-in user and the session\<close>

record auth_user =
  au_id :: string
  au_username :: string
  au_role :: string
  au_expires_at :: string
  au_api_permissions :: "string list option"
  au_menu_permissions :: "string list option"

record session =
  ss_booted :: bool
  ss_auth :: "auth_user option"

definition session_role :: "session \<Rightarrow> string option" where
  "session_role s = map_option au_role (ss_auth s)"

text \<open>An absent list of permissions is the default parameter \<open>[]\<close> of the checks.\<close>

definition list_or_empty :: "'a list option \<Rightarrow> 'a list" where
  "list_or_empty xs = (case xs of None \<Rightarrow> [] | Some ys \<Rightarrow> ys)"

definition session_menu :: "session \<Rightarrow> string list" where
  "session_menu s = (case ss_auth s of None \<Rightarrow> [] | Some u \<Rightarrow> list_or_empty (au_menu_permissions u))"

definition session_api :: "session \<Rightarrow> string list" where
  "session_api s = (case ss_auth s of None \<Rightarrow> [] | Some u \<Rightarrow> list_or_empty (au_api_permissions u))"

section \<open>Screens and gates\<close>

datatype settings_section = SecProfile | SecLoginSecurity | SecSystem | SecAbout

datatype platform_view =
    ToolsPage page_config | MonitoringPage page_config | BackupsPage page_config
  | PlatformSettings page_config | AccessStatsPage page_config | PlatformTable page_config

datatype page_view =
    HomePage | PublicAbout | AuthForm | Overview | ServersPage | AccessPortal | SessionsPage
  | AuditPage | UnifiedSettings settings_section | PlatformPage platform_view

datatype screen = LoadingScreen | NavigateTo string | AssignLocation string | Show page_view

definition platform_dispatch :: "page_config \<Rightarrow> platform_view" where
  "platform_dispatch config =
     (if pg_kind config = Some KTools then ToolsPage config
      else if pg_kind config = Some KMonitor then MonitoringPage config
      else if pg_kind config = Some KBackups then BackupsPage config
      else if pg_kind config = Some KSettings then PlatformSettings config
      else if pg_collection config = ''access_stats'' then AccessStatsPage config
      else PlatformTable config)"

definition ConsoleGate :: "session \<Rightarrow> screen \<Rightarrow> screen" where
  "ConsoleGate s children =
     (if \<not> ss_booted s then LoadingScreen
      else if ss_auth s = None then NavigateTo ''/login''
      else children)"

definition RoleGate :: "session \<Rightarrow> bool \<Rightarrow> page_config option \<Rightarrow> screen \<Rightarrow> screen" where
  "RoleGate s adminOnly pg children =
     (let role = session_role s
      in if adminOnly \<and> \<not> isAdminRole role then NavigateTo ''/access''
         else case pg of
                Some p \<Rightarrow> if \<not> canViewPlatformPage role p (session_menu s)
                            then NavigateTo ''/access'' else children
              | None \<Rightarrow> children)"

definition AuditGate :: "session \<Rightarrow> screen \<Rightarrow> screen" where
  "AuditGate s children =
     (let role = session_role s
      in if \<not> isAdminRole role \<and> \<not> isAuditorRole role then NavigateTo ''/access'' else children)"

text \<open>The query parameters of the sign-in page; an absent parameter is \<open>null\<close>.\<close>

record login_query =
  lq_reauth :: "string option"
  lq_next :: "string option"

definition safe_next :: "string \<Rightarrow> bool" where
  "safe_next nxt \<longleftrightarrow> nxt \<noteq> [] \<and> starts_with nxt ''/'' \<and> \<not> starts_with nxt ''//''"

definition LoginGate :: "session \<Rightarrow> login_query \<Rightarrow> screen" where
  "LoginGate s params =
     (if \<not> ss_booted s then LoadingScreen
      else let reauthenticate = (lq_reauth params = Some ''1'')
           in if ss_auth s \<noteq> None \<and> \<not> reauthenticate
                then (case lq_next params of
                        Some nxt \<Rightarrow> if safe_next nxt then AssignLocation nxt else NavigateTo ''/app''
                      | None \<Rightarrow> NavigateTo ''/app'')
              else Show AuthForm)"

section \<open>The route table\<close>

definition settingsSectionForPage :: "page_config \<Rightarrow> settings_section option" where
  "settingsSectionForPage pg =
     (if pg_collection pg = ''system_settings'' then Some SecSystem
      else if pg_collection pg = ''login_policies'' \<or> pg_collection pg = ''login_locks''
        then Some SecLoginSecurity
      else None)"

definition platform_component :: "page_config \<Rightarrow> session \<Rightarrow> screen" where
  "platform_component pg s =
     ConsoleGate s (RoleGate s False (Some pg)
       (case settingsSectionForPage pg of
          Some sec \<Rightarrow> Show (UnifiedSettings sec)
        | None \<Rightarrow> Show (PlatformPage (platform_dispatch pg))))"

definition static_routes :: "login_query \<Rightarrow> (string \<times> (session \<Rightarrow> screen)) list" where
  "static_routes params =
    [(''/'', \<lambda>s. Show HomePage),
     (''/about'', \<lambda>s. Show PublicAbout),
     (''/login'', \<lambda>s. LoginGate s params),
     (''/sign-in'', \<lambda>s. LoginGate s params),
     (''/app'', \<lambda>s. ConsoleGate s (Show Overview)),
     (''/access'', \<lambda>s. ConsoleGate s (Show AccessPortal)),
     (''/app/access'', \<lambda>s. ConsoleGate s (Show AccessPortal)),
     (''/app/servers'', \<lambda>s. ConsoleGate s (RoleGate s True None (Show ServersPage))),
     (''/app/sessions'', \<lambda>s. ConsoleGate s (RoleGate s True None (Show SessionsPage))),
     (''/app/audit'', \<lambda>s. ConsoleGate s (AuditGate s (Show AuditPage))),
     (''/app/settings'', \<lambda>s. ConsoleGate s (Show (UnifiedSettings SecProfile))),
     (''/app/about'', \<lambda>s. ConsoleGate s (Show (UnifiedSettings SecAbout))),
     (''/dashboard'', \<lambda>s. NavigateTo ''/app'')]"

definition route_tree :: "login_query \<Rightarrow> (string \<times> (session \<Rightarrow> screen)) list" where
  "route_tree params =
     static_routes params @ map (\<lambda>pg. (pg_route pg, platform_component pg)) platformPages"

text \<open>Every route is a literal path, so the router's match is the entry with that path.\<close>

definition route_view :: "login_query \<Rightarrow> string \<Rightarrow> session \<Rightarrow> screen option" where
  "route_view params path s = map_option (\<lambda>c. c s) (map_of (route_tree params) path)"

definition public_paths :: "string list" where
  "public_paths = [''/'', ''/about'', ''/login'', ''/sign-in'']"

section \<open>The settings page\<close>

definition shows_system_settings :: "session \<Rightarrow> bool" where
  "shows_system_settings s \<longleftrightarrow>
     find (\<lambda>p. pg_collection p = ''system_settings'') platformPages \<noteq> None \<and>
     canUseAPI (session_role s) (session_api s) ''GET'' ''/api/admin/system-settings''"

section \<open>Links offered by the side bar, the header and the command palette\<close>

definition consoleNavItems :: "string list" where
  "consoleNavItems = [''/app'', ''/access'', ''/app/servers'']"

definition visibleConsoleNav :: "session \<Rightarrow> string list" where
  "visibleConsoleNav s =
     filter (\<lambda>to. to \<noteq> ''/app/servers'' \<or> isAdminRole (session_role s)) consoleNavItems"

definition visiblePlatformGroups :: "session \<Rightarrow> (string \<times> page_config list) list" where
  "visiblePlatformGroups s =
     filter (\<lambda>(label, items). items \<noteq> [])
       (map (\<lambda>(label, items).
          (label, filter (\<lambda>it. canViewPlatformPage (session_role s) it (session_menu s)) items))
        platformNavGroups)"

definition sidebar_links :: "session \<Rightarrow> string list" where
  "sidebar_links s =
     visibleConsoleNav s @ concat (map (\<lambda>(label, items). map pg_route items) (visiblePlatformGroups s))"

definition link_active :: "string \<Rightarrow> string \<Rightarrow> bool" where
  "link_active pathname to =
     (if to = ''/app'' then pathname = ''/app'' else starts_with pathname to)"

definition activeSection :: "session \<Rightarrow> string \<Rightarrow> string" where
  "activeSection s pathname =
     (case find (link_active pathname) (sidebar_links s) of Some to \<Rightarrow> to | None \<Rightarrow> ''/app'')"

text \<open>The header's link to the assets page.\<close>

definition canOpenAssets :: "session \<Rightarrow> bool" where
  "canOpenAssets s =
     (case platformPageByRoute ''/app/assets'' of
        Some pg \<Rightarrow> canViewPlatformPage (session_role s) pg (session_menu s)
      | None \<Rightarrow> isAdminRole (session_role s))"

text \<open>Commands of the palette: navigation, the server dialog, or a connection dialog.\<close>

datatype command_run = GoTo string | OpenServerDialog | OpenConnect string

definition palette_commands :: "session \<Rightarrow> string list \<Rightarrow> (string \<times> command_run) list" where
  "palette_commands s server_ids =
     (let admin = isAdminRole (session_role s); auditor = isAuditorRole (session_role s);
          visible = filter (\<lambda>pg. canViewPlatformPage (session_role s) pg (session_menu s)) platformPages
      in [(''overview'', GoTo ''/app''), (''access'', GoTo ''/access'')]
         @ map (\<lambda>pg. (''platform:'' @ pg_route pg, GoTo (pg_route pg))) visible
         @ (if admin
              then [(''servers'', GoTo ''/app/servers''), (''sessions'', GoTo ''/app/sessions''),
                    (''new-server'', OpenServerDialog)]
                   @ map (\<lambda>sid. (''server:'' @ sid, OpenConnect sid)) server_ids
              else [])
         @ (if admin \<or> auditor then [(''audit'', GoTo ''/app/audit'')] else []))"

text \<open>The palette shows the commands that contain the query, or the first ten.\<close>

definition visibleCommands :: "('a \<Rightarrow> string) \<Rightarrow> string \<Rightarrow> 'a list \<Rightarrow> 'a list" where
  "visibleCommands text_of query commands =
     (let normalizedQuery = lower (trim query)
      in if normalizedQuery \<noteq> []
           then filter (\<lambda>c. str_includes (lower (text_of c)) normalizedQuery) commands
         else take 10 commands)"

section \<open>Facts about the route table\<close>

lemma map_fst_route_tree:
  "map fst (route_tree q) = map fst (static_routes q) @ map pg_route platformPages"
  by (simp add: route_tree_def comp_def)

lemma route_paths_distinct: "distinct (map fst (route_tree q))"
  unfolding map_fst_route_tree by (simp add: static_routes_def page_tables)

lemma route_view_platform:
  assumes "pg \<in> set platformPages"
  shows "route_view q (pg_route pg) s = Some (platform_component pg s)"
proof -
  have "(pg_route pg, platform_component pg) \<in> set (route_tree q)"
    using assms by (auto simp: route_tree_def)
  then show ?thesis
    using route_paths_distinct [of q] by (simp add: route_view_def)
qed

lemma route_view_static:
  "(p, c) \<in> set (static_routes q) \<Longrightarrow> route_view q p s = Some (c s)"
  using route_paths_distinct [of q] by (simp add: route_view_def route_tree_def)

lemma route_tree_cases:
  assumes "route_view q p s = Some v"
  obtains (static) c where "(p, c) \<in> set (static_routes q)" "v = c s"
    | (platform) pg where "pg \<in> set platformPages" "p = pg_route pg" "v = platform_component pg s"
  using assms by (auto simp: route_view_def route_tree_def dest!: map_of_SomeD)

lemma sidebar_link_cases:
  assumes "to \<in> set (sidebar_links s)"
  shows "to \<in> set (visibleConsoleNav s) \<or>
    (\<exists>pg \<in> set platformPages. to = pg_route pg \<and>
       canViewPlatformPage (session_role s) pg (session_menu s))"
  using assms
  by (fastforce simp: sidebar_links_def visiblePlatformGroups_def platformPages_def)

lemma platform_component_open:
  assumes "ss_booted s" "ss_auth s \<noteq> None"
    and "canViewPlatformPage (session_role s) pg (session_menu s)"
  shows "\<exists>v. platform_component pg s = Show v"
  using assms by (auto simp: platform_component_def ConsoleGate_def RoleGate_def split: option.splits)

lemma console_locked:
  assumes "ss_auth s = None" "route_view q p s = Some v" "p \<notin> set public_paths"
  shows "v = LoadingScreen \<or> v = NavigateTo ''/login'' \<or> v = NavigateTo ''/app''"
  using assms(2)
proof (cases rule: route_tree_cases)
  case (static c)
  have "list_all (\<lambda>(p', c'). p' \<in> set public_paths \<or>
      c' s = LoadingScreen \<or> c' s = NavigateTo ''/login'' \<or> c' s = NavigateTo ''/app'')
      (static_routes q)"
    using assms(1) by (simp add: static_routes_def public_paths_def ConsoleGate_def)
  with static assms(3) show ?thesis by (fastforce simp: list_all_iff)
next
  case (platform pg)
  with assms(1) show ?thesis by (auto simp: platform_component_def ConsoleGate_def)
qed

section \<open>Properties\<close>

text \<open>The route table has no two entries with the same path, so every path has one screen.\<close>

theorem routes_unambiguous:
  "distinct (map fst (route_tree q))"
  by (rule route_paths_distinct)

text \<open>C8 Without a signed-in user no console screen is ever shown: outside the public paths
  every route answers with the loading screen or a redirect.\<close>

theorem console_requires_login:
  assumes "ss_auth s = None" "route_view q p s = Some v" "p \<notin> set public_paths"
  shows "v = LoadingScreen \<or> v = NavigateTo ''/login'' \<or> v = NavigateTo ''/app''"
  by (rule console_locked [OF assms])

lemma console_requires_login_witness:
  "let v = ConsoleGate \<lparr>ss_booted = True, ss_auth = None\<rparr> (Show Overview)
   in v = LoadingScreen \<or> v = NavigateTo ''/login'' \<or> v = NavigateTo ''/app''"
proof -
  have "(''/app'', \<lambda>s. ConsoleGate s (Show Overview)) \<in>
      set (static_routes \<lparr>lq_reauth = None, lq_next = None\<rparr>)"
    by (simp add: static_routes_def)
  note route = route_view_static [OF this, of "\<lparr>ss_booted = True, ss_auth = None\<rparr>"]
  show ?thesis
    unfolding Let_def by (rule console_requires_login [OF _ route]) (simp_all add: public_paths_def)
qed

text \<open>C15 A managed page is shown exactly to a signed-in user whose role may view it; anyone else
  signed in is sent to the access portal.\<close>

theorem platform_page_gate:
  assumes "pg \<in> set platformPages" "ss_booted s" "ss_auth s \<noteq> None"
  shows "route_view q (pg_route pg) s =
    Some (if canViewPlatformPage (session_role s) pg (session_menu s)
          then (case settingsSectionForPage pg of
                  Some sec \<Rightarrow> Show (UnifiedSettings sec)
                | None \<Rightarrow> Show (PlatformPage (platform_dispatch pg)))
          else NavigateTo ''/access'')"
  using assms
  by (auto simp: route_view_platform platform_component_def ConsoleGate_def RoleGate_def)

lemma platform_page_gate_witness:
  "let s = \<lparr>ss_booted = True, ss_auth = Some \<lparr>au_id = ''u'', au_username = ''u'', au_role = ''user'',
              au_expires_at = '''', au_api_permissions = None, au_menu_permissions = None\<rparr>\<rparr>
   in route_view \<lparr>lq_reauth = None, lq_next = None\<rparr> (pg_route (hd platformPages)) s =
        Some (if canViewPlatformPage (session_role s) (hd platformPages) (session_menu s)
          then (case settingsSectionForPage (hd platformPages) of
                  Some sec \<Rightarrow> Show (UnifiedSettings sec)
                | None \<Rightarrow> Show (PlatformPage (platform_dispatch (hd platformPages))))
          else NavigateTo ''/access'')"
  unfolding Let_def by (rule platform_page_gate) (simp_all add: page_tables)

text \<open>No dead links: whatever the side bar offers a signed-in user opens for that user.\<close>

theorem sidebar_links_open:
  assumes "ss_booted s" "ss_auth s \<noteq> None" "to \<in> set (sidebar_links s)"
  shows "\<exists>v. route_view q to s = Some (Show v)"
  using sidebar_link_cases [OF assms(3)]
proof
  assume "to \<in> set (visibleConsoleNav s)"
  then consider "to = ''/app''" | "to = ''/access''"
    | "to = ''/app/servers''" "isAdminRole (session_role s)"
    by (auto simp: visibleConsoleNav_def consoleNavItems_def split: if_splits)
  then show ?thesis
  proof cases
    case 1
    then show ?thesis
      using assms route_view_static [of to "\<lambda>s. ConsoleGate s (Show Overview)" q s]
      by (simp add: static_routes_def ConsoleGate_def)
  next
    case 2
    then show ?thesis
      using assms route_view_static [of to "\<lambda>s. ConsoleGate s (Show AccessPortal)" q s]
      by (simp add: static_routes_def ConsoleGate_def)
  next
    case 3
    then show ?thesis
      using assms
        route_view_static [of to "\<lambda>s. ConsoleGate s (RoleGate s True None (Show ServersPage))" q s]
      by (simp add: static_routes_def ConsoleGate_def RoleGate_def)
  qed
next
  assume "\<exists>pg \<in> set platformPages. to = pg_route pg \<and>
       canViewPlatformPage (session_role s) pg (session_menu s)"
  then obtain pg where "pg \<in> set platformPages" "to = pg_route pg"
      "canViewPlatformPage (session_role s) pg (session_menu s)" by blast
  then show ?thesis
    using platform_component_open [OF assms(1,2)] by (simp add: route_view_platform)
qed

lemma sidebar_links_open_witness:
  "\<exists>v. route_view \<lparr>lq_reauth = None, lq_next = None\<rparr> ''/app/servers''
     \<lparr>ss_booted = True, ss_auth = Some \<lparr>au_id = ''u'', au_username = ''root'', au_role = ''admin'',
       au_expires_at = '''', au_api_permissions = None, au_menu_permissions = None\<rparr>\<rparr> = Some (Show v)"
  by (rule sidebar_links_open)
    (simp_all add: sidebar_links_def visibleConsoleNav_def consoleNavItems_def session_role_def
      isAdminRole_iff normalizeRole_samples)

text \<open>An auditor may read the data of every page it may view: each page visible to the role
  has a REST collection that the role may GET.\<close>

theorem auditor_pages_readable:
  assumes "normalizeRole r = Auditor" "pg \<in> set platformPages" "canViewPlatformPage r pg ms"
  shows "\<exists>api. pg_api_path pg = Some api \<and> canUseAPI r ps ''GET'' api"
proof -
  have "list_all (\<lambda>pg.
      (ends_with (pg_collection pg) ''_logs'' \<or> pg_collection pg = ''access_stats''
       \<or> pg_collection pg = ''online_sessions'' \<or> pg_collection pg = ''offline_sessions''
       \<or> pg_collection pg = ''system_monitoring'') \<longrightarrow>
      (case pg_api_path pg of None \<Rightarrow> False
       | Some api \<Rightarrow> auditorCanUseAPI ''GET'' (trimRightSlash api))) platformPages"
    by code_simp
  moreover have "\<not> isAdminRole r" "isAuditorRole r"
    using assms(1) by (simp_all add: isAdminRole_iff isAuditorRole_def)
  moreover have "upper (trim ''GET'') = ''GET''" by (simp add: js_defs)
  ultimately show ?thesis
    using assms
    by (auto simp: canViewPlatformPage_def canUseAPI_auditor list_all_iff split: option.splits)
qed

lemma auditor_pages_readable_witness:
  "\<exists>api. pg_api_path (page ''/app/sql-logs'' ''sql_logs'' ''SQL logs'' ''/api/admin/audit/sql-logs'') = Some api
     \<and> canUseAPI (Some ''auditor'') [] ''GET'' api"
  by (rule auditor_pages_readable [where ms = "[]"])
    (simp_all add: page_tables normalizeRole_samples canViewPlatformPage_def isAdminRole_iff
      isAuditorRole_def ends_with_def)

section \<open>Where a redirect target leads\<close>

text \<open>
  A browser resolves a URL reference by the URL standard: it first drops ASCII tabs and line
  breaks, and on an \<open>http(s)\<close> page it reads a backslash like a slash, so a reference whose
  first two remaining characters are slashes or backslashes names another host.
\<close>

definition names_other_host :: "string \<Rightarrow> bool" where
  "names_other_host ref \<longleftrightarrow>
     (case filter (\<lambda>c. c \<notin> set [CHR 0x09, CHR 0x0A, CHR 0x0D]) ref of
        a # b # _ \<Rightarrow> a \<in> set [CHR ''/'', CHR 0x5C] \<and> b \<in> set [CHR ''/'', CHR 0x5C]
      | _ \<Rightarrow> False)"

text \<open>A \<open>next\<close> target accepted by the sign-in page stays on the console's host when it has no
  backslash, tab or line break.\<close>

theorem safe_next_same_host:
  assumes "safe_next nxt" "set nxt \<inter> set [CHR 0x09, CHR 0x0A, CHR 0x0D, CHR 0x5C] = {}"
  shows "\<not> names_other_host nxt"
proof -
  have "filter (\<lambda>c. c \<notin> set [CHR 0x09, CHR 0x0A, CHR 0x0D]) nxt = nxt"
    using assms(2) by (auto simp: filter_id_conv)
  then show ?thesis
    using assms by (auto simp: names_other_host_def safe_next_def split: list.splits)
qed

lemma safe_next_same_host_witness: "\<not> names_other_host ''/app/users?tab=1''"
  by (rule safe_next_same_host) (simp_all add: safe_next_def)

text \<open>The restriction is needed: the check accepts targets that lead to another host, one
  with a backslash and one with a tab after the first slash.\<close>

theorem safe_next_open_redirect:
  "safe_next ([CHR ''/'', CHR 0x5C] @ ''evil.example'') \<and>
   names_other_host ([CHR ''/'', CHR 0x5C] @ ''evil.example'') \<and>
   safe_next ([CHR ''/'', CHR 0x09] @ ''/evil.example'') \<and>
   names_other_host ([CHR ''/'', CHR 0x09] @ ''/evil.example'')"
  by (simp add: safe_next_def names_other_host_def)

end
