(* ===== verification/Table.thy ===== *)
theory Table
  imports Columns Navigation
begin

text \<open>
  The platform table (\<open>PlatformTablePage\<close> of \<open>platform-page.tsx\<close>): what the current role may do, the
  state of the page (form, selection, running operation) and its handlers, the buttons above the
  table and in each row with the handlers behind them, and the dialogs they open. A handler takes
  the outside world and the log and returns the new state and the longer log; labels are given by
  their translation keys.
\<close>

section \<open>What the role may do\<close>

type_synonym can_use = "string \<Rightarrow> string \<Rightarrow> bool"

definition can_use_path :: "session \<Rightarrow> can_use" where
  "can_use_path s m p = canUseAPI (session_role s) (session_api s) m p"

definition managedWorkflowCollections :: "string list" where
  "managedWorkflowCollections = [''command_approvals'', ''sql_work_orders'']"

definition api_path :: "page_config \<Rightarrow> string" where
  "api_path config = or_str (opt_str (pg_api_path config)) (''/api/admin/'' @ pg_collection config)"

definition bulkAuthorizePath :: "string \<Rightarrow> string" where
  "bulkAuthorizePath collection = ''/api/admin/authorizations/'' @ authorizationBulkRoute collection @ ''/bulk''"

record table_permissions =
  rt_canCreate :: bool
  rt_canEditItem :: "platform_item \<Rightarrow> bool"
  rt_canDeleteItem :: "platform_item \<Rightarrow> bool"
  rt_canBulkAuthorize :: bool
  rt_canBulkDelete :: bool

definition table_rights :: "page_config \<Rightarrow> can_use \<Rightarrow> table_permissions" where
  "table_rights config can =
     (let apiPath = api_path config;
          auditReadOnly = starts_with apiPath ''/api/admin/audit/'';
          workflowReadOnly = pg_collection config \<in> set managedWorkflowCollections;
          collectionReadOnly = (auditReadOnly \<or> workflowReadOnly)
      in \<lparr>rt_canCreate = (\<not> collectionReadOnly \<and> can ''POST'' apiPath),
          rt_canEditItem = (\<lambda>item. \<not> collectionReadOnly \<and> can ''PATCH'' (apiPath @ ''/'' @ it_id item)),
          rt_canDeleteItem = (\<lambda>item. \<not> collectionReadOnly \<and> can ''DELETE'' (apiPath @ ''/'' @ it_id item)),
          rt_canBulkAuthorize = (pg_collection config \<in> set [''assets'', ''web_assets'', ''database_assets'']
            \<and> can ''POST'' (bulkAuthorizePath (pg_collection config))),
          rt_canBulkDelete = (opt_str (pg_api_path config) \<noteq> '''' \<and> \<not> collectionReadOnly
            \<and> can ''DELETE'' (apiPath @ ''/__selected__''))\<rparr>)"

section \<open>The state of the page\<close>

datatype decision = Approve | Reject

fun decision_name :: "decision \<Rightarrow> string" where
  "decision_name Approve = ''approve''"
| "decision_name Reject = ''reject''"

datatype resource_operation =
    AssetImport
  | UserImport
  | BulkAuthorize string "platform_item list"
  | AgentToken platform_item
  | GatewayStatus string platform_item
  | CertificateCreate
  | CertificateUpload
  | CertificateACME
  | CertificateDNSProvider
  | CertificateLogs platform_item
  | CertificateMTLS platform_item
  | RecordingPlayback platform_item
  | StorageFiles platform_item
  | TaskLogs platform_item
  | SQLExecute platform_item
  | SQLDecision platform_item decision
  | CommandExecute platform_item
  | CommandDecision platform_item decision

record table_state =
  ts_formOpen :: bool
  ts_saving :: bool
  ts_editing :: "platform_item option"
  ts_form :: platform_form
  ts_operation :: "resource_operation option"
  ts_selected :: "string list"

definition initial_table :: table_state where
  "initial_table = \<lparr>ts_formOpen = False, ts_saving = False, ts_editing = None, ts_form = initialForm,
     ts_operation = None, ts_selected = []\<rparr>"

definition selectedRows :: "platform_item list \<Rightarrow> table_state \<Rightarrow> platform_item list" where
  "selectedRows rows st = filter (\<lambda>item. it_id item \<in> set (ts_selected st)) rows"

text \<open>The two effects on the selection: another collection clears it, new rows prune it.\<close>

definition collection_changed :: "table_state \<Rightarrow> table_state" where
  "collection_changed st = st\<lparr>ts_selected := []\<rparr>"

definition rows_changed :: "platform_item list \<Rightarrow> table_state \<Rightarrow> table_state" where
  "rows_changed rows st = st\<lparr>ts_selected := filter (\<lambda>i. i \<in> set (map it_id rows)) (ts_selected st)\<rparr>"

section \<open>Handlers of the page\<close>

definition startCreate :: "page_config \<Rightarrow> table_state \<Rightarrow> table_state" where
  "startCreate config st =
     (let collection = pg_collection config
      in st\<lparr>ts_editing := None,
            ts_form := initialForm
              \<lparr>fm_type := defaultPlatformType collection,
               fm_protocol := (if collection = ''command_filters'' \<or> collection = ''asset_groups'' then ''ssh''
                 else if collection = ''database_assets'' then ''database''
                 else if collection = ''web_assets'' then ''http'' else ''''),
               fm_permissions := defaultPlatformPermissions collection,
               fm_metadata := defaultPlatformMetadata collection\<rparr>,
            ts_formOpen := True\<rparr>)"

definition startEdit :: "platform_item \<Rightarrow> table_state \<Rightarrow> table_state" where
  "startEdit item st = st\<lparr>ts_editing := Some item, ts_form := formFromPlatformItem item, ts_formOpen := True\<rparr>"

definition form_open_changed :: "bool \<Rightarrow> table_state \<Rightarrow> table_state" where
  "form_open_changed is_open st =
     (let st' = st\<lparr>ts_formOpen := is_open\<rparr> in if is_open then st' else st'\<lparr>ts_editing := None\<rparr>)"

text \<open>\<open>JSON.parse\<close> of the metadata text throws inside the \<open>try\<close>, before any request.\<close>

definition save :: "page_config \<Rightarrow> env \<Rightarrow> table_state \<Rightarrow> log \<Rightarrow> table_state \<times> log" where
  "save config ev st l =
     (let (verb, endpoint) = (case ts_editing st of
            Some item \<Rightarrow> (''PATCH'', api_path config @ ''/'' @ it_id item) | None \<Rightarrow> (''POST'', api_path config))
      in case platformRequestFromForm (ts_form st) of
           None \<Rightarrow> (st\<lparr>ts_saving := False\<rparr>, report (OtherError ''SyntaxError'') l)
         | Some r \<Rightarrow>
             (case apiRequest ev (mk_request verb endpoint (Some (request_json r))) l of
                (Inl e, l') \<Rightarrow> (st\<lparr>ts_saving := False\<rparr>, report e l')
              | (Inr v, l') \<Rightarrow>
                  (st\<lparr>ts_form := initialForm, ts_editing := None, ts_formOpen := False, ts_saving := False\<rparr>,
                   toast ''saved'' (refresh True l'))))"

definition confirm :: "env \<Rightarrow> string \<Rightarrow> log \<Rightarrow> bool \<times> log" where
  "confirm ev title l = (let l' = l @ [Confirm title] in (ev_confirm ev l', l'))"

definition delete_request :: "page_config \<Rightarrow> platform_item \<Rightarrow> request" where
  "delete_request config item = mk_request ''DELETE'' (api_path config @ ''/'' @ it_id item) None"

definition remove :: "page_config \<Rightarrow> env \<Rightarrow> platform_item \<Rightarrow> log \<Rightarrow> log" where
  "remove config ev item l =
     (case confirm ev (''delete '' @ it_name item @ ''?'') l of
        (False, l1) \<Rightarrow> l1
      | (True, l1) \<Rightarrow>
          (case apiRequest ev (delete_request config item) l1 of
             (Inl e, l2) \<Rightarrow> report e l2
           | (Inr _, l2) \<Rightarrow> toast ''deleted'' (refresh True l2)))"

text \<open>The requests of a bulk deletion run one after the other and stop at the first failure.\<close>

fun delete_each :: "page_config \<Rightarrow> env \<Rightarrow> platform_item list \<Rightarrow> log \<Rightarrow> exn option \<times> log" where
  "delete_each config ev [] l = (None, l)"
| "delete_each config ev (item # items) l =
     (case apiRequest ev (delete_request config item) l of
        (Inl e, l') \<Rightarrow> (Some e, l')
      | (Inr _, l') \<Rightarrow> delete_each config ev items l')"

definition bulkDelete :: "page_config \<Rightarrow> can_use \<Rightarrow> platform_item list \<Rightarrow> env \<Rightarrow> table_state \<Rightarrow> log \<Rightarrow> table_state \<times> log" where
  "bulkDelete config can rows ev st l =
     (let targets = selectedRows rows st
      in if targets = [] \<or> \<not> rt_canBulkDelete (table_rights config can) then (st, l)
         else case confirm ev (''bulkDeleteConfirmTitle '' @ show_nat (length targets)) l of
                (False, l1) \<Rightarrow> (st, l1)
              | (True, l1) \<Rightarrow>
                  (case delete_each config ev targets l1 of
                     (Some e, l2) \<Rightarrow> (st, report e l2)
                   | (None, l2) \<Rightarrow>
                       (st\<lparr>ts_selected := []\<rparr>,
                        toast (''bulkDeleteCompleted '' @ show_nat (length targets)) (refresh True l2))))"

definition selectionActions :: "page_config \<Rightarrow> can_use \<Rightarrow> platform_item list \<Rightarrow> table_state \<Rightarrow> string list" where
  "selectionActions config can rows st =
     (let rights = table_rights config can
      in if selectedRows rows st = [] then []
         else (if rt_canBulkAuthorize rights then [''bulkAuthorizeSelected''] else [])
              @ (if rt_canBulkDelete rights then [''bulkDelete''] else []))"

section \<open>Buttons and their handlers\<close>

datatype action =
    OpenOperation resource_operation
  | ExportTable string
  | RefreshAll
  | NewRecord
  | EditRecord platform_item
  | RemoveRecord platform_item
  | DisconnectSession platform_item
  | TranscodeRecording platform_item
  | DownloadRecording platform_item
  | DeleteRecording platform_item
  | DownloadCertificate platform_item
  | DownloadCertificateBundle platform_item
  | SetDefaultCertificate platform_item
  | RunTask platform_item

definition shown :: "bool \<Rightarrow> 'a \<Rightarrow> 'a list" where
  "shown b x = (if b then [x] else [])"

lemma set_shown: "set (shown b x) = (if b then {x} else {})"
  by (cases b) (simp_all add: shown_def)

lemma in_shown [simp]: "y \<in> set (shown b x) \<longleftrightarrow> b \<and> y = x"
  by (cases b) (simp_all add: shown_def)

definition ResourceHeaderActions :: "page_config \<Rightarrow> can_use \<Rightarrow> platform_item list \<Rightarrow> action list" where
  "ResourceHeaderActions config can rows =
     (let collection = pg_collection config; path = opt_str (pg_api_path config);
          canExport = (path \<noteq> '''' \<and> can ''GET'' (path @ ''/export''));
          canBulkAuthorize = (collection \<in> set [''assets'', ''web_assets'', ''database_assets'']
            \<and> can ''POST'' (bulkAuthorizePath collection));
          exportButtons = (if canExport then [ExportTable ''json'', ExportTable ''csv''] else []);
          bulk = shown canBulkAuthorize (OpenOperation (BulkAuthorize collection rows))
      in if starts_with path ''/api/admin/audit/'' then exportButtons
         else if collection = ''assets''
           then bulk @ exportButtons @ shown (can ''POST'' ''/api/admin/assets/import'') (OpenOperation AssetImport)
         else if collection = ''web_assets'' \<or> collection = ''database_assets'' then bulk @ exportButtons
         else if collection = ''users''
           then exportButtons @ shown (can ''POST'' ''/api/admin/users/import'') (OpenOperation UserImport)
         else if collection = ''certificates''
           then exportButtons
             @ shown (can ''POST'' ''/api/admin/certificates/acme'') (OpenOperation CertificateACME)
             @ shown (can ''POST'' ''/api/admin/certificates/dns-providers'') (OpenOperation CertificateDNSProvider)
             @ shown (can ''POST'' ''/api/admin/certificates/upload'') (OpenOperation CertificateUpload)
             @ shown (can ''POST'' ''/api/admin/certificates/self-signed'') (OpenOperation CertificateCreate)
         else exportButtons)"

definition recording_path :: "platform_item \<Rightarrow> string" where
  "recording_path item = ''/api/admin/audit/offline-sessions/'' @ it_id item @ ''/recording''"

definition disconnect_path :: "platform_item \<Rightarrow> string" where
  "disconnect_path item = ''/api/admin/audit/online-sessions/'' @ it_id item @ ''/disconnect''"

definition certificate_path :: "platform_item \<Rightarrow> string" where
  "certificate_path item = ''/api/admin/certificates/'' @ it_id item"

definition task_path :: "platform_item \<Rightarrow> string" where
  "task_path item = ''/api/admin/scheduled-tasks/'' @ it_id item"

definition storage_path :: "platform_item \<Rightarrow> string" where
  "storage_path item = ''/api/admin/storages/'' @ it_id item"

definition token_path :: "platform_item \<Rightarrow> string" where
  "token_path item = ''/api/admin/agent-gateways/'' @ it_id item @ ''/token''"

definition order_path :: "platform_item \<Rightarrow> string" where
  "order_path item = ''/api/admin/sql-work-orders/'' @ it_id item"

definition approval_path :: "platform_item \<Rightarrow> string" where
  "approval_path item = ''/api/admin/command-approvals/'' @ it_id item"

text \<open>The buttons of an approval: both decisions while it waits, execution once approved.\<close>

definition waiting :: "platform_item \<Rightarrow> bool" where
  "waiting item \<longleftrightarrow> lower (it_status item) \<in> set [''pending'', ''submitted'', ''requested'']"

definition workflow_actions ::
  "can_use \<Rightarrow> string \<Rightarrow> (decision \<Rightarrow> resource_operation) \<Rightarrow> resource_operation \<Rightarrow> platform_item \<Rightarrow> action list" where
  "workflow_actions can path decide execute item =
     (if waiting item
        then shown (can ''POST'' (path @ ''/approve'')) (OpenOperation (decide Approve))
           @ shown (can ''POST'' (path @ ''/reject'')) (OpenOperation (decide Reject))
      else if lower (it_status item) = ''approved'' \<and> can ''POST'' (path @ ''/execute'')
        then [OpenOperation execute] else [])"

definition session_row_actions :: "can_use \<Rightarrow> page_config \<Rightarrow> platform_item \<Rightarrow> action list option" where
  "session_row_actions can config item =
     (if pg_collection config = ''online_sessions''
        then Some (shown (can ''POST'' (disconnect_path item)) (DisconnectSession item))
      else if pg_collection config = ''offline_sessions'' \<and> itemHasRecording item
        then Some (shown (can ''GET'' (recording_path item @ ''/playback'')) (OpenOperation (RecordingPlayback item))
           @ shown (can ''POST'' (recording_path item @ ''/transcode'')) (TranscodeRecording item)
           @ shown (can ''GET'' (recording_path item)) (DownloadRecording item)
           @ shown (can ''DELETE'' (recording_path item)) (DeleteRecording item))
      else None)"

definition resource_row_actions :: "can_use \<Rightarrow> page_config \<Rightarrow> platform_item \<Rightarrow> action list" where
  "resource_row_actions can config item =
     (let collection = pg_collection config
      in if collection = ''storages''
           then shown (can ''GET'' (storage_path item @ ''/files'')) (OpenOperation (StorageFiles item))
         else if collection = ''certificates''
           then shown (can ''GET'' (certificate_path item @ ''/download'')) (DownloadCertificate item)
             @ shown (can ''GET'' (certificate_path item @ ''/bundle'')) (DownloadCertificateBundle item)
             @ shown (can ''POST'' (certificate_path item @ ''/default'')) (SetDefaultCertificate item)
             @ shown (can ''POST'' (certificate_path item @ ''/mtls'')) (OpenOperation (CertificateMTLS item))
             @ shown (can ''GET'' (certificate_path item @ ''/logs'')) (OpenOperation (CertificateLogs item))
         else if collection = ''agent_gateways''
           then shown (can ''GET'' ''/api/admin/agent-gateways/status'') (OpenOperation (GatewayStatus ''agent_gateways'' item))
             @ shown (can ''POST'' (token_path item)) (OpenOperation (AgentToken item))
         else if collection = ''gateway_groups''
           then shown (can ''GET'' ''/api/admin/gateway-groups/status'') (OpenOperation (GatewayStatus ''gateway_groups'' item))
         else if collection = ''scheduled_tasks''
           then shown (can ''POST'' (task_path item @ ''/run'')) (RunTask item)
             @ shown (can ''GET'' (task_path item @ ''/logs'')) (OpenOperation (TaskLogs item))
         else if collection = ''sql_work_orders''
           then workflow_actions can (order_path item) (SQLDecision item) (SQLExecute item) item
         else if collection = ''command_approvals''
           then workflow_actions can (approval_path item) (CommandDecision item) (CommandExecute item) item
         else [])"

definition ResourceRowActions :: "can_use \<Rightarrow> page_config \<Rightarrow> platform_item \<Rightarrow> action list" where
  "ResourceRowActions can config item =
     (case session_row_actions can config item of Some as \<Rightarrow> as | None \<Rightarrow> resource_row_actions can config item)"

text \<open>The last column: the row actions, then edit and delete.\<close>

definition row_buttons :: "can_use \<Rightarrow> page_config \<Rightarrow> platform_item \<Rightarrow> action list" where
  "row_buttons can config item =
     (let rights = table_rights config can
      in ResourceRowActions can config item @ shown (rt_canEditItem rights item) (EditRecord item)
         @ shown (rt_canDeleteItem rights item) (RemoveRecord item))"

definition header_buttons :: "can_use \<Rightarrow> page_config \<Rightarrow> platform_item list \<Rightarrow> action list" where
  "header_buttons can config rows =
     ResourceHeaderActions config can rows @ [RefreshAll] @ shown (rt_canCreate (table_rights config can)) NewRecord"

section \<open>Handlers of the buttons\<close>

text \<open>\<open>downloadResponse\<close>: a plain GET whose failure is the same \<open>ApiError\<close> as that of \<open>apiRequest\<close>.\<close>

definition downloadResponse :: "env \<Rightarrow> string \<Rightarrow> string \<Rightarrow> log \<Rightarrow> (exn + unit) \<times> log" where
  "downloadResponse ev path filename l =
     (case apiRequest ev (get_request path) l of
        (Inl e, l') \<Rightarrow> (Inl e, l')
      | (Inr _, l') \<Rightarrow> (Inr (), l' @ [Download filename]))"

definition download_and_toast :: "env \<Rightarrow> string \<Rightarrow> string \<Rightarrow> string \<Rightarrow> log \<Rightarrow> log" where
  "download_and_toast ev path filename msg l =
     (case downloadResponse ev path filename l of (Inl e, l') \<Rightarrow> report e l' | (Inr _, l') \<Rightarrow> toast msg l')"

definition post_and_refresh :: "env \<Rightarrow> string \<Rightarrow> string \<Rightarrow> log \<Rightarrow> log" where
  "post_and_refresh ev path msg l =
     (case apiRequest ev (post_request path (JObj [])) l of
        (Inl e, l') \<Rightarrow> report e l' | (Inr _, l') \<Rightarrow> toast msg (refresh True l'))"

definition exportTable :: "page_config \<Rightarrow> env \<Rightarrow> string \<Rightarrow> log \<Rightarrow> log" where
  "exportTable config ev format l =
     (let path = opt_str (pg_api_path config)
      in if path = '''' then l
         else download_and_toast ev (path @ ''/export?format='' @ format)
                (''openwebservermanager-'' @ pg_collection config @ ''.'' @ format) ''tableExported'' l)"

definition runTask :: "env \<Rightarrow> platform_item \<Rightarrow> log \<Rightarrow> log" where
  "runTask ev item l =
     (case apiRequest ev (post_request (task_path item @ ''/run'') (JObj [])) l of
        (Inl e, l') \<Rightarrow> report e (refresh True l')
      | (Inr _, l') \<Rightarrow> toast ''task triggered'' (refresh True l'))"

definition name_or_id :: "platform_item \<Rightarrow> string" where
  "name_or_id item = or_str (it_name item) (it_id item)"

definition downloadCertificate :: "env \<Rightarrow> platform_item \<Rightarrow> log \<Rightarrow> log" where
  "downloadCertificate ev item l =
     download_and_toast ev (certificate_path item @ ''/download'') (name_or_id item @ ''.crt'') ''certificate downloaded'' l"

definition downloadCertificateBundle :: "env \<Rightarrow> platform_item \<Rightarrow> log \<Rightarrow> log" where
  "downloadCertificateBundle ev item l =
     download_and_toast ev (certificate_path item @ ''/bundle'') (name_or_id item @ ''.zip'') ''certificateBundleDownloaded'' l"

definition setDefaultCertificate :: "env \<Rightarrow> platform_item \<Rightarrow> log \<Rightarrow> log" where
  "setDefaultCertificate ev item l = post_and_refresh ev (certificate_path item @ ''/default'') ''defaultCertificateUpdated'' l"

definition disconnectSession :: "env \<Rightarrow> platform_item \<Rightarrow> log \<Rightarrow> log" where
  "disconnectSession ev item l =
     (case confirm ev (''disconnect '' @ name_or_id item @ ''?'') l of
        (False, l1) \<Rightarrow> l1
      | (True, l1) \<Rightarrow> post_and_refresh ev (disconnect_path item) ''session disconnected'' l1)"

definition downloadRecording :: "env \<Rightarrow> platform_item \<Rightarrow> log \<Rightarrow> log" where
  "downloadRecording ev item l =
     download_and_toast ev (recording_path item) (name_or_id item @ ''.zip'') ''recording downloaded'' l"

definition deleteRecording :: "env \<Rightarrow> platform_item \<Rightarrow> log \<Rightarrow> log" where
  "deleteRecording ev item l =
     (case confirm ev (''delete recording of '' @ name_or_id item @ ''?'') l of
        (False, l1) \<Rightarrow> l1
      | (True, l1) \<Rightarrow>
          (case apiRequest ev (mk_request ''DELETE'' (recording_path item) None) l1 of
             (Inl e, l2) \<Rightarrow> report e l2
           | (Inr _, l2) \<Rightarrow> toast ''recording deleted'' (refresh True l2)))"

text \<open>The transcoding status of a row: taken from the record, replaced by the answers of the server.\<close>

record transcode_state =
  tc_transcoding :: bool
  tc_status :: string

definition status_field :: "jsval \<Rightarrow> exn + string" where
  "status_field v = (case js_prop v ''status'' of Inl e \<Rightarrow> Inl e | Inr x \<Rightarrow> Inr (if truthy x then js_to_string x else ''''))"

definition transcodeRecording :: "env \<Rightarrow> platform_item \<Rightarrow> transcode_state \<Rightarrow> log \<Rightarrow> transcode_state \<times> log" where
  "transcodeRecording ev item st l =
     (let done = st\<lparr>tc_transcoding := False\<rparr>
      in case apiRequest ev (post_request (recording_path item @ ''/transcode'') (JObj [])) l of
           (Inl e, l') \<Rightarrow> (done, report e l')
         | (Inr v, l') \<Rightarrow>
             (case status_field v of
                Inl e \<Rightarrow> (done, report e l')
              | Inr s \<Rightarrow> (done\<lparr>tc_status := or_str s ''queued''\<rparr>, toast ''recordingTranscodeQueued'' (refresh True l'))))"

definition transcode_polls :: "page_config \<Rightarrow> transcode_state \<Rightarrow> bool" where
  "transcode_polls config st \<longleftrightarrow>
     pg_collection config = ''offline_sessions'' \<and> tc_status st \<in> set [''queued'', ''processing'']"

text \<open>One tick of the poll while the row is mounted.\<close>

definition transcode_poll :: "page_config \<Rightarrow> env \<Rightarrow> platform_item \<Rightarrow> transcode_state \<Rightarrow> log \<Rightarrow> transcode_state \<times> log" where
  "transcode_poll config ev item st l =
     (if \<not> transcode_polls config st then (st, l)
      else case apiRequest ev (get_request (recording_path item @ ''/transcode'')) l of
             (Inl e, l') \<Rightarrow> (st, report e l')
           | (Inr v, l') \<Rightarrow>
               (case status_field v of
                  Inl e \<Rightarrow> (st, report e l')
                | Inr s \<Rightarrow>
                    (st\<lparr>tc_status := s\<rparr>,
                     if s = ''completed'' then toast ''recordingTranscodeCompleted'' (refresh True l')
                     else if s = ''failed'' then toast (case js_prop v ''error'' of
                         Inr x \<Rightarrow> if truthy x then js_to_string x else ''recordingTranscodeFailed''
                       | Inl _ \<Rightarrow> ''recordingTranscodeFailed'') (refresh True l')
                     else l')))"

text \<open>What pressing a button does, apart from opening dialogs and forms.\<close>

definition run_action :: "page_config \<Rightarrow> env \<Rightarrow> action \<Rightarrow> log \<Rightarrow> log" where
  "run_action config ev a l =
     (case a of
        ExportTable format \<Rightarrow> exportTable config ev format l
      | RefreshAll \<Rightarrow> refresh False l
      | RemoveRecord item \<Rightarrow> remove config ev item l
      | DisconnectSession item \<Rightarrow> disconnectSession ev item l
      | TranscodeRecording item \<Rightarrow> snd (transcodeRecording ev item \<lparr>tc_transcoding = True, tc_status = ''''\<rparr> l)
      | DownloadRecording item \<Rightarrow> downloadRecording ev item l
      | DeleteRecording item \<Rightarrow> deleteRecording ev item l
      | DownloadCertificate item \<Rightarrow> downloadCertificate ev item l
      | DownloadCertificateBundle item \<Rightarrow> downloadCertificateBundle ev item l
      | SetDefaultCertificate item \<Rightarrow> setDefaultCertificate ev item l
      | RunTask item \<Rightarrow> runTask ev item l
      | _ \<Rightarrow> l)"

text \<open>The permission a dialog is given when it opens (\<open>ResourceOperationDialog\<close>); the dialogs that get the
  whole check (\<open>None\<close>) decide per request.\<close>

definition ResourceOperationDialog :: "resource_operation \<Rightarrow> (string \<times> string) option" where
  "ResourceOperationDialog op =
     (case op of
        AssetImport \<Rightarrow> Some (''POST'', ''/api/admin/assets/import'')
      | UserImport \<Rightarrow> Some (''POST'', ''/api/admin/users/import'')
      | BulkAuthorize collection items \<Rightarrow> Some (''POST'', bulkAuthorizePath collection)
      | AgentToken item \<Rightarrow> Some (''POST'', token_path item)
      | GatewayStatus collection item \<Rightarrow> Some (''GET'',
          if collection = ''agent_gateways'' then ''/api/admin/agent-gateways/status'' else ''/api/admin/gateway-groups/status'')
      | CertificateCreate \<Rightarrow> Some (''POST'', ''/api/admin/certificates/self-signed'')
      | CertificateUpload \<Rightarrow> Some (''POST'', ''/api/admin/certificates/upload'')
      | CertificateACME \<Rightarrow> None
      | CertificateDNSProvider \<Rightarrow> None
      | CertificateLogs item \<Rightarrow> Some (''GET'', certificate_path item @ ''/logs'')
      | CertificateMTLS item \<Rightarrow> Some (''POST'', certificate_path item @ ''/mtls'')
      | RecordingPlayback item \<Rightarrow> Some (''GET'', recording_path item @ ''/playback'')
      | StorageFiles item \<Rightarrow> None
      | TaskLogs item \<Rightarrow> Some (''GET'', task_path item @ ''/logs'')
      | SQLDecision item d \<Rightarrow> Some (''POST'', order_path item @ ''/'' @ decision_name d)
      | SQLExecute item \<Rightarrow> Some (''POST'', order_path item @ ''/execute'')
      | CommandDecision item d \<Rightarrow> Some (''POST'', approval_path item @ ''/'' @ decision_name d)
      | CommandExecute item \<Rightarrow> Some (''POST'', approval_path item @ ''/execute''))"

section \<open>Properties\<close>

text \<open>The path a permission is checked for, without the query of an export.\<close>

definition without_query :: "string \<Rightarrow> string" where
  "without_query p = takeWhile (\<lambda>c. c \<noteq> CHR ''?'') p"

definition permitted :: "can_use \<Rightarrow> request \<Rightarrow> bool" where
  "permitted can rq \<longleftrightarrow> can (rq_method rq) (rq_path rq) \<or> can (rq_method rq) (without_query (rq_path rq))"

lemma apiRequest_cases:
  obtains (error) e where "apiRequest ev rq l = (Inl e, l @ [Call rq])"
    | (ok) v where "apiRequest ev rq l = (Inr v, l @ [Call rq])"
  by (metis apiRequest_eq sum.exhaust)

lemma confirm_eq: "confirm ev t l = (ev_confirm ev (l @ [Confirm t]), l @ [Confirm t])"
  by (simp add: confirm_def Let_def)

lemma calls_download_and_toast: "calls (download_and_toast ev p f m l) = calls l @ [get_request p]"
  by (cases rule: apiRequest_cases [of ev "get_request p" l])
    (simp_all add: download_and_toast_def downloadResponse_def)

lemma calls_post_and_refresh: "calls (post_and_refresh ev p m l) = calls l @ [post_request p (JObj [])]"
  by (cases rule: apiRequest_cases [of ev "post_request p (JObj [])" l]) (simp_all add: post_and_refresh_def)

lemma calls_runTask: "calls (runTask ev item l) = calls l @ [post_request (task_path item @ ''/run'') (JObj [])]"
  by (cases rule: apiRequest_cases [of ev "post_request (task_path item @ ''/run'') (JObj [])" l])
    (simp_all add: runTask_def)

lemma calls_transcode:
  "calls (snd (transcodeRecording ev item st l)) = calls l @ [post_request (recording_path item @ ''/transcode'') (JObj [])]"
  by (cases rule: apiRequest_cases [of ev "post_request (recording_path item @ ''/transcode'') (JObj [])" l])
    (simp_all add: transcodeRecording_def Let_def split: sum.split)

lemma calls_remove:
  "calls (remove config ev item l) = calls l @
     (if ev_confirm ev (l @ [Confirm (''delete '' @ it_name item @ ''?'')]) then [delete_request config item] else [])"
  by (cases rule: apiRequest_cases [of ev "delete_request config item" "l @ [Confirm (''delete '' @ it_name item @ ''?'')]"])
    (auto simp: remove_def confirm_eq split: bool.split)

lemma calls_disconnect:
  "\<exists>b. calls (disconnectSession ev item l) = calls l @ (if b then [post_request (disconnect_path item) (JObj [])] else [])"
  by (auto simp: disconnectSession_def confirm_eq calls_post_and_refresh split: bool.split)

lemma calls_deleteRecording:
  "\<exists>b. calls (deleteRecording ev item l) = calls l @ (if b then [mk_request ''DELETE'' (recording_path item) None] else [])"
  by (cases rule: apiRequest_cases [of ev "mk_request ''DELETE'' (recording_path item) None"
        "l @ [Confirm (''delete recording of '' @ name_or_id item @ ''?'')]"])
    (auto simp: deleteRecording_def confirm_eq split: bool.split)

lemmas action_calls = calls_download_and_toast calls_post_and_refresh calls_runTask calls_transcode calls_remove
  exportTable_def downloadCertificate_def downloadCertificateBundle_def setDefaultCertificate_def downloadRecording_def

text \<open>The requests an action may send.\<close>

fun action_requests :: "page_config \<Rightarrow> action \<Rightarrow> request list" where
  "action_requests config (ExportTable format) =
     (if opt_str (pg_api_path config) = '''' then [] else [get_request (opt_str (pg_api_path config) @ ''/export?format='' @ format)])"
| "action_requests config (RemoveRecord item) = [delete_request config item]"
| "action_requests config (DisconnectSession item) = [post_request (disconnect_path item) (JObj [])]"
| "action_requests config (TranscodeRecording item) = [post_request (recording_path item @ ''/transcode'') (JObj [])]"
| "action_requests config (DownloadRecording item) = [get_request (recording_path item)]"
| "action_requests config (DeleteRecording item) = [mk_request ''DELETE'' (recording_path item) None]"
| "action_requests config (DownloadCertificate item) = [get_request (certificate_path item @ ''/download'')]"
| "action_requests config (DownloadCertificateBundle item) = [get_request (certificate_path item @ ''/bundle'')]"
| "action_requests config (SetDefaultCertificate item) = [post_request (certificate_path item @ ''/default'') (JObj [])]"
| "action_requests config (RunTask item) = [post_request (task_path item @ ''/run'') (JObj [])]"
| "action_requests config _ = []"

lemma run_action_calls:
  "\<exists>rqs. calls (run_action config ev a l) = calls l @ rqs \<and> set rqs \<subseteq> set (action_requests config a)"
proof -
  have opt: "\<exists>rqs. c = d @ rqs \<and> set rqs \<subseteq> set [r]" if "\<exists>b. c = d @ (if b then [r] else [])" for c d :: "request list" and r
    using that by (metis empty_set empty_subsetI order_refl)
  have one: "\<exists>rqs. c = d @ rqs \<and> set rqs \<subseteq> set [r]" if "c = d @ [r]" for c d :: "request list" and r
    using that by blast
  have none: "\<exists>rqs. c = c @ rqs \<and> set rqs \<subseteq> set []" for c :: "request list"
    by simp
  show ?thesis
  proof (cases a)
    case (ExportTable f)
    then show ?thesis
      by (cases "opt_str (pg_api_path config) = ''''")
        (simp_all add: run_action_def exportTable_def Let_def calls_download_and_toast)
  next
    case (RemoveRecord item)
    show ?thesis unfolding RemoveRecord action_requests.simps
      by (rule opt) (simp only: run_action_def action.case calls_remove, blast)
  next
    case (DisconnectSession item)
    show ?thesis unfolding DisconnectSession action_requests.simps
      by (rule opt) (simp only: run_action_def action.case calls_disconnect)
  next
    case (DeleteRecording item)
    show ?thesis unfolding DeleteRecording action_requests.simps
      by (rule opt) (simp only: run_action_def action.case calls_deleteRecording)
  qed (simp_all add: run_action_def action_calls)
qed

text \<open>Every request of a button in sight is one the role may make.\<close>

lemma takeWhile_query:
  "CHR ''?'' \<notin> set p \<Longrightarrow> without_query (p @ ''/export?format='' @ f) = p @ ''/export''"
proof -
  assume "CHR ''?'' \<notin> set p"
  then have "takeWhile (\<lambda>c. c \<noteq> CHR ''?'') (p @ ''/export?format='' @ f) = p @ takeWhile (\<lambda>c. c \<noteq> CHR ''?'') (''/export?format='' @ f)"
    by (intro takeWhile_append2) auto
  then show ?thesis by (simp add: without_query_def)
qed

lemma row_requests_permitted:
  "a \<in> set (row_buttons can config item) \<Longrightarrow> list_all (permitted can) (action_requests config a)"
  unfolding row_buttons_def Let_def ResourceRowActions_def session_row_actions_def resource_row_actions_def workflow_actions_def
  by (auto simp: permitted_def table_rights_def Let_def delete_request_def split: if_splits)

lemma header_requests_permitted:
  assumes "CHR ''?'' \<notin> set (opt_str (pg_api_path config))"
  shows "a \<in> set (header_buttons can config rows) \<Longrightarrow> list_all (permitted can) (action_requests config a)"
  using takeWhile_query [OF assms]
  unfolding header_buttons_def ResourceHeaderActions_def Let_def
  by (auto simp: permitted_def table_rights_def Let_def split: if_splits)

text \<open>A server that answers the first request and is out of reach afterwards.\<close>

definition second_call_fails :: env where
  "second_call_fails = \<lparr>ev_fetch = (\<lambda>l. if length (calls l) = 1
       then Inr \<lparr>rs_ok = True, rs_status = 200, rs_status_text = ''OK'', rs_json = None\<rparr> else Inl ''offline''),
     ev_mfa = (\<lambda>_. ''''), ev_confirm = (\<lambda>_. True)\<rparr>"

text \<open>C1 Every button the table page draws in its header and in a row sends only requests the role may send: whatever the server and the
  user answer, each call its handler makes is one that \<open>canUseAPI\<close> grants, on a page whose API path has no query string.
  Not meant are the reload of the console's data that follows an operation, which belongs to the provider, and the
  buttons for the selected rows: the bulk deletion asks for the permission on a placeholder path.
\<close>

theorem buttons_send_permitted_requests:
  assumes "CHR ''?'' \<notin> set (opt_str (pg_api_path config))"
    and "a \<in> set (header_buttons can config rows) \<union> set (row_buttons can config item)"
  shows "\<exists>rqs. calls (run_action config ev a l) = calls l @ rqs \<and> list_all (permitted can) rqs"
proof -
  obtain rqs where r: "calls (run_action config ev a l) = calls l @ rqs" "set rqs \<subseteq> set (action_requests config a)"
    using run_action_calls by blast
  have "list_all (permitted can) (action_requests config a)"
    using assms header_requests_permitted row_requests_permitted by blast
  then show ?thesis using r by (auto simp: list_all_iff)
qed

lemma buttons_send_permitted_requests_witness:
  "\<exists>rqs. calls (run_action (page ''/app/scheduled-tasks'' ''scheduled_tasks'' ''Tasks'' ''/api/admin/scheduled-tasks'') second_call_fails
      (RunTask (blank_item\<lparr>it_id := ''t1''\<rparr>)) []) = calls [] @ rqs \<and> list_all (permitted (\<lambda>_ _. True)) rqs"
  by (rule buttons_send_permitted_requests [where rows = "[]" and item = "blank_item\<lparr>it_id := ''t1''\<rparr>"])
    (simp_all add: page_def row_buttons_def ResourceRowActions_def session_row_actions_def resource_row_actions_def
      Let_def opt_str_def)

text \<open>A dialog that a button opens is opened with its permission granted: no operation on offer ends in
  a dialog whose submit is refused.\<close>

theorem offered_dialogs_are_enabled:
  assumes "OpenOperation op \<in> set (header_buttons can config rows) \<union> set (row_buttons can config item)"
    and "ResourceOperationDialog op = Some (m, p)"
  shows "can m p"
  using assms
  unfolding header_buttons_def row_buttons_def ResourceHeaderActions_def ResourceRowActions_def
    session_row_actions_def resource_row_actions_def workflow_actions_def Let_def Un_iff
  by (auto simp: ResourceOperationDialog_def split: if_splits)

lemma offered_dialogs_are_enabled_witness:
  "(\<lambda>m p. p = ''/api/admin/certificates/c1/logs'') ''GET'' (certificate_path (blank_item\<lparr>it_id := ''c1''\<rparr>) @ ''/logs'')"
  by (rule offered_dialogs_are_enabled [where op = "CertificateLogs (blank_item\<lparr>it_id := ''c1''\<rparr>)" and rows = "[]"
        and config = "page ''/app/certificates'' ''certificates'' ''Certificates'' ''/api/admin/certificates''"
        and item = "blank_item\<lparr>it_id := ''c1''\<rparr>"])
    (simp_all add: page_def row_buttons_def ResourceRowActions_def session_row_actions_def resource_row_actions_def
      Let_def certificate_path_def ResourceOperationDialog_def)

lemma auditor_can_get: "normalizeRole r = Auditor \<Longrightarrow> canUseAPI r ps m p \<Longrightarrow> upper (trim m) = ''GET''"
  by (simp add: canUseAPI_auditor auditorCanUseAPI_def split: if_splits)

lemma action_request_methods:
  "rq \<in> set (action_requests config a) \<Longrightarrow> rq_method rq \<in> set [''GET'', ''POST'', ''DELETE'']"
  by (cases a) (auto simp: delete_request_def split: if_splits)

text \<open>Auditors only ever read: on every page, no button in sight sends anything but GET requests.\<close>

theorem auditor_buttons_read_only:
  assumes "normalizeRole (session_role s) = Auditor" "CHR ''?'' \<notin> set (opt_str (pg_api_path config))"
    and "a \<in> set (header_buttons (can_use_path s) config rows) \<union> set (row_buttons (can_use_path s) config item)"
  shows "list_all (\<lambda>rq. rq_method rq = ''GET'') (action_requests config a)"
proof -
  have "list_all (permitted (can_use_path s)) (action_requests config a)"
    using assms header_requests_permitted row_requests_permitted by blast
  then show ?thesis unfolding list_all_iff
  proof (intro ballI)
    fix rq
    assume p: "\<forall>rq \<in> set (action_requests config a). permitted (can_use_path s) rq" and rq: "rq \<in> set (action_requests config a)"
    then have "upper (trim (rq_method rq)) = ''GET''"
      using auditor_can_get [OF assms(1)] by (auto simp: permitted_def can_use_path_def)
    moreover have "upper (trim ''POST'') \<noteq> ''GET''" "upper (trim ''DELETE'') \<noteq> ''GET''" by code_simp+
    ultimately show "rq_method rq = ''GET''" using action_request_methods [OF rq] by auto
  qed
qed

lemma auditor_buttons_read_only_witness:
  "list_all (\<lambda>rq. rq_method rq = ''GET'') (action_requests
     (page ''/app/offline-sessions'' ''offline_sessions'' ''Offline sessions'' ''/api/admin/audit/offline-sessions'')
     (DownloadRecording (blank_item\<lparr>it_id := ''s1'', it_metadata := Some [(''recording_path'', JStr ''x'')]\<rparr>)))"
  by (rule auditor_buttons_read_only [where rows = "[]"
        and item = "blank_item\<lparr>it_id := ''s1'', it_metadata := Some [(''recording_path'', JStr ''x'')]\<rparr>"
        and s = "\<lparr>ss_booted = True, ss_auth = Some \<lparr>au_id = ''u'', au_username = ''u'', au_role = ''auditor'', au_expires_at = '''', au_api_permissions = None, au_menu_permissions = None\<rparr>\<rparr>"])
    (code_simp, simp add: page_def opt_str_def, code_simp)

section \<open>Bulk deletion\<close>

lemma delete_each_cases:
  obtains (failed) k e where "k < length items"
      "delete_each config ev items l = (Some e, l @ map (Call \<circ> delete_request config) (take (Suc k) items))"
    | (complete) "delete_each config ev items l = (None, l @ map (Call \<circ> delete_request config) items)"
proof (induction items arbitrary: l thesis)
  case Nil
  then show ?case by simp
next
  case (Cons item items)
  let ?l = "l @ [Call (delete_request config item)]"
  show ?case
  proof (cases rule: apiRequest_cases [of ev "delete_request config item" l])
    case (error e)
    then show ?thesis using Cons.prems(1) [of 0 e] by simp
  next
    case (ok v)
    show ?thesis
    proof (rule Cons.IH [of ?l])
      fix k e
      assume "k < length items" "delete_each config ev items ?l = (Some e, ?l @ map (Call \<circ> delete_request config) (take (Suc k) items))"
      then show thesis using ok Cons.prems(1) [of "Suc k" e] by simp
    next
      assume "delete_each config ev items ?l = (None, ?l @ map (Call \<circ> delete_request config) items)"
      then show thesis using ok Cons.prems(2) by simp
    qed
  qed
qed

text \<open>A bulk deletion deletes the selected rows, in table order, only after the user confirmed: it ends
  untouched, declined, at the first refused request with the selection kept, or complete with the
  selection cleared and the data refreshed.\<close>

theorem bulk_delete_outcomes:
  "(let targets = selectedRows rows st; prompt = Confirm (''bulkDeleteConfirmTitle '' @ show_nat (length targets));
        sent = (\<lambda>items. map (Call \<circ> delete_request config) items)
    in bulkDelete config can rows ev st l = (st, l) \<or>
       bulkDelete config can rows ev st l = (st, l @ [prompt]) \<or>
       (\<exists>k e. k < length targets \<and>
          bulkDelete config can rows ev st l = (st, l @ [prompt] @ sent (take (Suc k) targets) @ [ReportError e])) \<or>
       bulkDelete config can rows ev st l = (st\<lparr>ts_selected := []\<rparr>, l @ [prompt] @ sent targets
         @ [Refresh True, Toast (''bulkDeleteCompleted '' @ show_nat (length targets))]))"
proof -
  let ?t = "selectedRows rows st"
  let ?p = "Confirm (''bulkDeleteConfirmTitle '' @ show_nat (length ?t))"
  show ?thesis
  proof (cases "?t = [] \<or> \<not> rt_canBulkDelete (table_rights config can)")
    case True
    then show ?thesis by (auto simp: bulkDelete_def Let_def)
  next
    case on: False
    show ?thesis
    proof (cases "ev_confirm ev (l @ [?p])")
      case False
      then show ?thesis using on by (simp add: bulkDelete_def confirm_eq Let_def)
    next
      case True
      show ?thesis
      proof (cases rule: delete_each_cases [of ?t config ev "l @ [?p]"])
        case (failed k e)
        then have "bulkDelete config can rows ev st l
            = (st, l @ [?p] @ map (Call \<circ> delete_request config) (take (Suc k) ?t) @ [ReportError e])"
          using on True by (simp add: bulkDelete_def confirm_eq Let_def report_def)
        then show ?thesis using failed(1) unfolding Let_def by blast
      next
        case complete
        then show ?thesis using on True
          by (simp add: bulkDelete_def confirm_eq Let_def toast_def refresh_def)
      qed
    qed
  qed
qed

definition two_rows :: "platform_item list" where
  "two_rows = [blank_item\<lparr>it_id := ''a''\<rparr>, blank_item\<lparr>it_id := ''b''\<rparr>]"

text \<open>When a later request of a bulk deletion fails, the rows already deleted stay on the screen and in
  the selection: nothing is refreshed, unlike the single actions that refresh on failure.\<close>

theorem bulk_delete_partial_not_refreshed:
  "(let config = page ''/app/storages'' ''storages'' ''Storages'' ''/api/admin/storages'';
        (st, l) = bulkDelete config (\<lambda>_ _. True) two_rows second_call_fails (initial_table\<lparr>ts_selected := [''a'', ''b'']\<rparr>) []
    in map rq_path (calls l) = [''/api/admin/storages/a'', ''/api/admin/storages/b'']
       \<and> list_all (\<lambda>e. case e of Refresh _ \<Rightarrow> False | _ \<Rightarrow> True) l \<and> ts_selected st = [''a'', ''b''])"
  by code_simp

section \<open>The transcoding poll\<close>

text \<open>The poll for a running transcode asks the server whether or not the role may: a role that may only
  list sessions keeps sending the status request it is not permitted.\<close>

theorem transcode_poll_not_gated:
  "(let item = blank_item\<lparr>it_id := ''s1''\<rparr>; path = recording_path item @ ''/transcode'';
        config = page ''/app/offline-sessions'' ''offline_sessions'' ''Offline sessions'' ''/api/admin/audit/offline-sessions''
    in canUseAPI (Some ''ops'') [''GET /api/admin/audit/offline-sessions''] ''GET'' path = False \<and>
       calls (snd (transcode_poll config ev item \<lparr>tc_transcoding = False, tc_status = ''queued''\<rparr> [])) = [get_request path])"
proof -
  let ?i = "blank_item\<lparr>it_id := ''s1''\<rparr>"
  let ?rq = "get_request (recording_path ?i @ ''/transcode'')"
  have "canUseAPI (Some ''ops'') [''GET /api/admin/audit/offline-sessions''] ''GET'' (recording_path ?i @ ''/transcode'') = False"
    by code_simp
  moreover have "calls (snd (transcode_poll (page ''/app/offline-sessions'' ''offline_sessions'' ''Offline sessions''
      ''/api/admin/audit/offline-sessions'') ev ?i \<lparr>tc_transcoding = False, tc_status = ''queued''\<rparr> [])) = [?rq]"
    by (cases rule: apiRequest_cases [of ev ?rq "[]"])
      (simp_all add: transcode_poll_def transcode_polls_def page_def split: sum.split)
  ultimately show ?thesis by (simp add: Let_def)
qed

section \<open>Saving and the life of the form\<close>

text \<open>Saving keeps the form as it was typed unless the server accepted it: on any failure only the busy
  flag is cleared and the error is reported; success closes the form, refreshes, and says so.\<close>

theorem save_outcomes:
  "(\<exists>e sent. save config ev st l = (st\<lparr>ts_saving := False\<rparr>, l @ sent @ [ReportError e])) \<or>
   (\<exists>rq. rq_method rq = (if ts_editing st = None then ''POST'' else ''PATCH'') \<and>
      save config ev st l = (st\<lparr>ts_form := initialForm, ts_editing := None, ts_formOpen := False, ts_saving := False\<rparr>,
        l @ [Call rq, Refresh True, Toast ''saved'']))"
proof (cases "platformRequestFromForm (ts_form st)")
  case None
  then have "save config ev st l = (st\<lparr>ts_saving := False\<rparr>, l @ [] @ [ReportError (OtherError ''SyntaxError'')])"
    by (simp add: save_def report_def split: option.split)
  then show ?thesis by blast
next
  case (Some r)
  define verb endpoint where "verb = (case ts_editing st of Some item \<Rightarrow> ''PATCH'' | None \<Rightarrow> ''POST'')"
    and "endpoint = (case ts_editing st of Some item \<Rightarrow> api_path config @ ''/'' @ it_id item | None \<Rightarrow> api_path config)"
  let ?rq = "mk_request verb endpoint (Some (request_json r))"
  have e: "save config ev st l = (case apiRequest ev ?rq l of
                (Inl e, l') \<Rightarrow> (st\<lparr>ts_saving := False\<rparr>, report e l')
              | (Inr v, l') \<Rightarrow>
                  (st\<lparr>ts_form := initialForm, ts_editing := None, ts_formOpen := False, ts_saving := False\<rparr>,
                   toast ''saved'' (refresh True l')))"
    using Some by (simp add: save_def verb_def endpoint_def split: option.split)
  show ?thesis
  proof (cases rule: apiRequest_cases [of ev ?rq l])
    case (error e)
    then have "save config ev st l = (st\<lparr>ts_saving := False\<rparr>, l @ [Call ?rq] @ [ReportError e])"
      by (simp add: e report_def)
    then show ?thesis by blast
  next
    case (ok v)
    have "rq_method ?rq = (if ts_editing st = None then ''POST'' else ''PATCH'')"
      by (simp add: verb_def split: option.split)
    then show ?thesis using ok by (fastforce simp: e toast_def refresh_def)
  qed
qed

text \<open>The steps of the page.\<close>

inductive table_step :: "page_config \<Rightarrow> env \<Rightarrow> table_state \<Rightarrow> table_state \<Rightarrow> bool" for config ev where
  create: "table_step config ev st (startCreate config st)"
| edit: "table_step config ev st (startEdit item st)"
| open_changed: "table_step config ev st (form_open_changed b st)"
| typed: "ts_formOpen st \<Longrightarrow> table_step config ev st (st\<lparr>ts_form := f\<rparr>)"
| saved: "ts_formOpen st \<Longrightarrow> table_step config ev st (fst (save config ev st l))"
| selected: "table_step config ev st (st\<lparr>ts_selected := ids\<rparr>)"
| rows: "table_step config ev st (rows_changed rs st)"
| collection: "table_step config ev st (collection_changed st)"
| deleted: "table_step config ev st (fst (bulkDelete config can rs ev st l))"
| operation: "table_step config ev st (st\<lparr>ts_operation := oper\<rparr>)"

inductive table_reachable :: "page_config \<Rightarrow> env \<Rightarrow> table_state \<Rightarrow> bool" for config ev where
  start: "table_reachable config ev initial_table"
| step: "table_reachable config ev st \<Longrightarrow> table_step config ev st st' \<Longrightarrow> table_reachable config ev st'"

lemma bulkDelete_form:
  "ts_editing (fst (bulkDelete config can rs ev st l)) = ts_editing st \<and>
   ts_formOpen (fst (bulkDelete config can rs ev st l)) = ts_formOpen st"
  by (auto simp: bulkDelete_def Let_def split: prod.split bool.split option.split)

lemma save_form:
  "ts_editing (fst (save config ev st l)) \<noteq> None \<longrightarrow>
     ts_editing st \<noteq> None \<and> ts_formOpen (fst (save config ev st l)) = ts_formOpen st"
  by (auto simp: save_def split: option.split prod.split sum.split)

text \<open>A record is being edited only while the form is open: once the form is closed, by saving or by
  dismissing it, the next new record is created with POST and never overwrites the one edited before.\<close>

theorem edited_record_only_while_open:
  "table_reachable config ev st \<Longrightarrow> ts_formOpen st \<or> ts_editing st = None"
proof (induction rule: table_reachable.induct)
  case start
  then show ?case by (simp add: initial_table_def)
next
  case (step st st')
  from step(2) show ?case
  proof (cases rule: table_step.cases)
    case (saved l)
    then show ?thesis using save_form [of config ev st l] by auto
  next
    case (deleted can rs l)
    then show ?thesis using bulkDelete_form [of config can rs ev st l] step.IH by auto
  qed (use step.IH in \<open>auto simp: startCreate_def startEdit_def form_open_changed_def rows_changed_def
      collection_changed_def Let_def\<close>)
qed

lemma edited_record_only_while_open_witness:
  "ts_formOpen (startEdit blank_item initial_table) \<or> ts_editing (startEdit blank_item initial_table) = None"
  by (rule edited_record_only_while_open [where config = "page '''' '''' '''' ''''" and ev = second_call_fails])
    (rule table_reachable.step [OF table_reachable.start table_step.edit])

end
