(* ===== verification/Dialogs.thy ===== *)
theory Dialogs
  imports Table Json
begin

text \<open>
  The dialogs behind the buttons of a platform table (\<open>platform-page.tsx\<close>): imports, bulk authorisation,
  approval decisions, execution of SQL and commands, and the log dialogs. A submit takes the permission its
  dialog was opened with, the outside world, the state of the dialog and the log. The locale \<open>submit_dialog\<close>
  is what the page relies on: a dialog without permission sends nothing, and one with it sends only its own
  requests.
\<close>

locale submit_dialog =
  fixes submit :: "bool \<Rightarrow> env \<Rightarrow> 'st \<Rightarrow> log \<Rightarrow> 'st \<times> log"
    and sends :: "'st \<Rightarrow> request \<Rightarrow> bool"
  assumes refused: "calls (snd (submit False ev st l)) = calls l"
    and granted: "\<exists>new. calls (snd (submit True ev st l)) = calls l @ new \<and> list_all (sends st) new"
begin

lemma submit_permitted:
  assumes "\<And>rq. sends st rq \<Longrightarrow> p \<Longrightarrow> permitted can rq"
  shows "\<exists>new. calls (snd (submit p ev st l)) = calls l @ new \<and> list_all (permitted can) new"
proof (cases p)
  case True
  then show ?thesis using granted [of ev st l] assms by (auto simp: list_all_iff)
next
  case False
  then show ?thesis using refused by auto
qed

end

definition permission_denied :: "log \<Rightarrow> log" where
  "permission_denied l = toast ''permissionDenied'' l"

lemma calls_permission_denied [simp]: "calls (permission_denied l) = calls l"
  by (simp add: permission_denied_def)

lemma calls_snoc_other [simp]: "calls (l @ [CloseDialog]) = calls l" "calls (l @ [PromptMFA]) = calls l"
  by simp_all

text \<open>A request retried with a second factor makes one or two calls, each with the same path and method.\<close>

lemma calls_with_access_mfa:
  obtains "calls (snd (with_access_mfa ev run l)) = calls l @ [run '''']"
    | code where "calls (snd (with_access_mfa ev run l)) = calls l @ [run '''', run code]"
  by (cases rule: with_access_mfa_cases [of ev run l]) auto

section \<open>Imports\<close>

datatype import_kind = AssetsImport | UsersImport

record import_dialog =
  im_format :: string
  im_content :: string
  im_update :: bool
  im_saving :: bool
  im_summary :: "js_object option"

definition assetImportJSONSample :: string where
  "assetImportJSONSample = json_stringify (JObj [(''update_existing'', JBool False),
     (''items'', JArr [JObj [(''name'', JStr ''linux-prod-01''), (''type'', JStr ''linux''), (''status'', JStr ''active''),
        (''protocol'', JStr ''ssh''), (''host'', JStr ''192.0.2.10''), (''port'', JNum (Fin 22)), (''group'', JStr ''production''),
        (''tags'', JArr [JStr ''linux'', JStr ''ssh'']), (''metadata'', JObj [(''credential_id'', JStr ''credential-id'')])]])])"

definition assetImportCSVSample :: string where
  "assetImportCSVSample = join [CHR 0x0A]
     [''name,type,status,protocol,host,port,group,tags,credential_id,gateway_group_id,metadata_json'',
      ''linux-prod-01,linux,active,ssh,192.0.2.10,22,production,'' @ [CHR 0x22] @ ''linux,ssh'' @ [CHR 0x22]
        @ '',credential-id,,'' @ [CHR 0x22] @ ''{'' @ [CHR 0x22, CHR 0x22] @ ''import_note'' @ [CHR 0x22, CHR 0x22] @ '':''
        @ [CHR 0x22, CHR 0x22] @ ''csv'' @ [CHR 0x22, CHR 0x22] @ ''}'' @ [CHR 0x22]]"

definition userImportJSONSample :: string where
  "userImportJSONSample = json_stringify (JObj [(''update_existing'', JBool False),
     (''items'', JArr [JObj [(''name'', JStr ''operator''), (''type'', JStr ''local''), (''status'', JStr ''enabled''),
        (''password'', JStr ''change-me-123''), (''metadata'', JObj [(''role'', JStr ''user'')])]])])"

definition userImportCSVSample :: string where
  "userImportCSVSample = join [CHR 0x0A]
     [''name,type,status,password,role,group,tags'',
      ''operator,local,enabled,change-me-123,user,ops,'' @ [CHR 0x22] @ ''operator,import'' @ [CHR 0x22]]"

definition import_sample :: "import_kind \<Rightarrow> string \<Rightarrow> string" where
  "import_sample kind format =
     (case kind of
        AssetsImport \<Rightarrow> (if format = ''csv'' then assetImportCSVSample else assetImportJSONSample)
      | UsersImport \<Rightarrow> (if format = ''csv'' then userImportCSVSample else userImportJSONSample))"

definition open_import :: "import_kind \<Rightarrow> import_dialog" where
  "open_import kind = \<lparr>im_format = ''json'', im_content = import_sample kind ''json'', im_update = False, im_saving = False, im_summary = None\<rparr>"

definition changeFormat :: "import_kind \<Rightarrow> string \<Rightarrow> import_dialog \<Rightarrow> import_dialog" where
  "changeFormat kind next st = st\<lparr>im_format := next, im_content := import_sample kind next, im_summary := None\<rparr>"

text \<open>The body: CSV is sent as text, JSON is parsed first, and the switch of the dialog wins over the text.\<close>

definition import_payload :: "string \<Rightarrow> string \<Rightarrow> bool \<Rightarrow> exn + jsval" where
  "import_payload format content updateExisting =
     (if format = ''csv''
      then Inr (JObj [(''format'', JStr ''csv''), (''content'', JStr content), (''update_existing'', JBool updateExisting)])
      else case json_parse content of
             None \<Rightarrow> Inl (OtherError ''SyntaxError'')
           | Some (JArr xs) \<Rightarrow> Inr (JObj [(''update_existing'', JBool updateExisting), (''items'', JArr xs)])
           | Some (JObj ob) \<Rightarrow> Inr (JObj (obj_set ob ''update_existing'' (JBool updateExisting)))
           | Some v \<Rightarrow> Inr v)"

definition import_endpoint :: "import_kind \<Rightarrow> string" where
  "import_endpoint kind = (case kind of AssetsImport \<Rightarrow> ''/api/admin/assets/import'' | UsersImport \<Rightarrow> ''/api/admin/users/import'')"

definition item_count :: "jsval \<Rightarrow> jsval" where
  "item_count v = JNum (Fin (case v of JArr xs \<Rightarrow> of_nat (length xs) | _ \<Rightarrow> 0))"

text \<open>What the answer says: its summary, or for assets the number of its items.\<close>

definition import_summary :: "import_kind \<Rightarrow> jsval \<Rightarrow> exn + js_object option" where
  "import_summary kind data =
     (case js_prop data ''summary'' of
        Inl e \<Rightarrow> Inl e
      | Inr s \<Rightarrow>
          if truthy s then Inr (Some (recordValue s))
          else case kind of
                 UsersImport \<Rightarrow> Inr None
               | AssetsImport \<Rightarrow>
                   (let n = item_count (case js_prop data ''items'' of Inr v \<Rightarrow> v | Inl _ \<Rightarrow> JUndefined)
                    in Inr (Some [(''created'', n), (''total'', n)])))"

definition import_submit :: "import_kind \<Rightarrow> bool \<Rightarrow> env \<Rightarrow> import_dialog \<Rightarrow> log \<Rightarrow> import_dialog \<times> log" where
  "import_submit kind canSubmit ev st l =
     (if \<not> canSubmit then (st, permission_denied l)
      else let st0 = st\<lparr>im_summary := None, im_saving := False\<rparr>
           in case import_payload (im_format st) (im_content st) (im_update st) of
                Inl e \<Rightarrow> (st0, report e l)
              | Inr payload \<Rightarrow>
                  (case apiRequest ev (post_request (import_endpoint kind) payload) l of
                     (Inl e, l') \<Rightarrow> (st0, report e l')
                   | (Inr data, l') \<Rightarrow>
                       (case import_summary kind data of
                          Inl e \<Rightarrow> (st0, report e l')
                        | Inr s \<Rightarrow> (st0\<lparr>im_summary := s\<rparr>, toast ''imported'' (refresh True l')))))"

text \<open>The summary panel: the known counters in their order, then the other numbers of the answer.\<close>

definition summary_order :: "string list" where
  "summary_order = [''created'', ''updated'', ''skipped'', ''failed'', ''total'']"

definition is_number :: "jsval \<Rightarrow> bool" where
  "is_number v = (case v of JNum _ \<Rightarrow> True | _ \<Rightarrow> False)"

definition ImportSummaryPanel :: "js_object \<Rightarrow> (string \<times> jsval) list" where
  "ImportSummaryPanel summary =
     (let numeric = (\<lambda>k. is_number (obj_get summary k));
          keys = filter numeric summary_order @ filter (\<lambda>k. k \<notin> set summary_order \<and> numeric k) (map fst summary)
      in map (\<lambda>k. (k, obj_get summary k)) keys)"

interpretation import_dialog: submit_dialog "import_submit kind" "\<lambda>st rq. rq_method rq = ''POST'' \<and> rq_path rq = import_endpoint kind"
proof
  fix ev :: env and st :: import_dialog and l :: log
  show "calls (snd (import_submit kind False ev st l)) = calls l" by (simp add: import_submit_def)
  show "\<exists>new. calls (snd (import_submit kind True ev st l)) = calls l @ new \<and>
      list_all (\<lambda>rq. rq_method rq = ''POST'' \<and> rq_path rq = import_endpoint kind) new"
  proof (cases "import_payload (im_format st) (im_content st) (im_update st)")
    case (Inr payload)
    then show ?thesis
      by (cases rule: apiRequest_cases [of ev "post_request (import_endpoint kind) payload" l])
        (auto simp: import_submit_def Let_def split: sum.split)
  qed (simp add: import_submit_def Let_def)
qed

section \<open>Bulk authorisation\<close>

record bulk_dialog =
  bk_subjects :: string
  bk_targets :: string
  bk_group :: string
  bk_expires :: string
  bk_saving :: bool
  bk_summary :: jsval

definition open_bulk :: "platform_item list \<Rightarrow> bulk_dialog" where
  "open_bulk items = \<lparr>bk_subjects = '''', bk_targets = join [CHR 0x0A] (map it_id items), bk_group = '''', bk_expires = '''',
     bk_saving = False, bk_summary = JNull\<rparr>"

definition bulk_request :: "string \<Rightarrow> bulk_dialog \<Rightarrow> request" where
  "bulk_request collection st =
     post_request (bulkAuthorizePath collection)
       (JObj ([(''subject_ids'', JArr (map JStr (splitLines (bk_subjects st)))), (''target_ids'', JArr (map JStr (splitLines (bk_targets st))))]
              @ (if bk_expires st = '''' then [] else [(''expires_at'', JStr (bk_expires st))])
              @ [(''type'', JStr ''bulk''), (''status'', JStr ''enabled'')]))"

definition bulk_submit :: "string \<Rightarrow> bool \<Rightarrow> env \<Rightarrow> bulk_dialog \<Rightarrow> log \<Rightarrow> bulk_dialog \<times> log" where
  "bulk_submit collection canSubmit ev st l =
     (if \<not> canSubmit then (st, permission_denied l)
      else case apiRequest ev (bulk_request collection st) l of
             (Inl e, l') \<Rightarrow> (st\<lparr>bk_saving := False\<rparr>, report e l')
           | (Inr data, l') \<Rightarrow>
               (case js_prop data ''summary'' of
                  Inl e \<Rightarrow> (st\<lparr>bk_saving := False\<rparr>, report e l')
                | Inr s \<Rightarrow> (st\<lparr>bk_summary := (if truthy s then s else JNull), bk_saving := False\<rparr>,
                            toast ''bulk authorized'' (refresh True l'))))"

definition appendGroupTarget :: "bulk_dialog \<Rightarrow> bulk_dialog" where
  "appendGroupTarget st =
     (if bk_group st = '''' then st else st\<lparr>bk_targets := appendUniqueLine (bk_targets st) (bk_group st)\<rparr>)"

definition bulk_enabled :: "bool \<Rightarrow> bulk_dialog \<Rightarrow> bool" where
  "bulk_enabled canSubmit st \<longleftrightarrow>
     \<not> bk_saving st \<and> canSubmit \<and> splitLines (bk_subjects st) \<noteq> [] \<and> splitLines (bk_targets st) \<noteq> []"

definition group_score :: "string \<Rightarrow> platform_item \<Rightarrow> rat" where
  "group_score collection grp =
     (let kind = lower (it_type grp @ '' '' @ it_protocol grp); has = (\<lambda>w. str_includes kind w)
      in if collection = ''web_assets'' then (if has ''web'' \<or> has ''http'' then 0 else 1)
         else if collection = ''database_assets'' then (if has ''database'' \<or> has ''db'' \<or> has ''sql'' then 0 else 1)
         else if has ''ssh'' \<or> has ''rdp'' \<or> has ''vnc'' \<or> has ''desktop'' \<or> has ''text'' then 0 else 1)"

definition authorizationGroupOptions :: "locale_compare \<Rightarrow> string \<Rightarrow> platform_item list \<Rightarrow> platform_item list" where
  "authorizationGroupOptions lc collection groups =
     js_sort (\<lambda>left right. let d = group_score collection left - group_score collection right
                           in if d \<noteq> 0 then d else assetGroupTreeSort lc left right) groups"

interpretation bulk_dialog: submit_dialog "bulk_submit collection" "\<lambda>st rq. rq = bulk_request collection st"
proof
  fix ev :: env and st :: bulk_dialog and l :: log
  show "calls (snd (bulk_submit collection False ev st l)) = calls l" by (simp add: bulk_submit_def)
  show "\<exists>new. calls (snd (bulk_submit collection True ev st l)) = calls l @ new \<and> list_all (\<lambda>rq. rq = bulk_request collection st) new"
    by (cases rule: apiRequest_cases [of ev "bulk_request collection st" l]) (auto simp: bulk_submit_def split: sum.split)
qed

section \<open>Decisions\<close>

record decision_dialog =
  dc_note :: string
  dc_saving :: bool

definition decide ::
  "string \<Rightarrow> string \<Rightarrow> bool \<Rightarrow> env \<Rightarrow> decision_dialog \<Rightarrow> log \<Rightarrow> decision_dialog \<times> log" where
  "decide path msg canSubmit ev st l =
     (if \<not> canSubmit then (st, permission_denied l)
      else case apiRequest ev (post_request path (JObj [(''note'', JStr (dc_note st))])) l of
             (Inl e, l') \<Rightarrow> (st\<lparr>dc_saving := False\<rparr>, report e l')
           | (Inr _, l') \<Rightarrow> (st\<lparr>dc_saving := False\<rparr>, toast msg (refresh True l') @ [CloseDialog]))"

definition SQLWorkOrderDecisionDialog ::
  "platform_item \<Rightarrow> decision \<Rightarrow> bool \<Rightarrow> env \<Rightarrow> decision_dialog \<Rightarrow> log \<Rightarrow> decision_dialog \<times> log" where
  "SQLWorkOrderDecisionDialog item d =
     decide (order_path item @ ''/'' @ decision_name d) (if d = Approve then ''SQL work order approved'' else ''SQL work order rejected'')"

definition CommandApprovalDecisionDialog ::
  "platform_item \<Rightarrow> decision \<Rightarrow> bool \<Rightarrow> env \<Rightarrow> decision_dialog \<Rightarrow> log \<Rightarrow> decision_dialog \<times> log" where
  "CommandApprovalDecisionDialog item d =
     decide (approval_path item @ ''/'' @ decision_name d) (if d = Approve then ''command approved'' else ''command rejected'')"

interpretation decision_dialog: submit_dialog "decide path msg" "\<lambda>st rq. rq_method rq = ''POST'' \<and> rq_path rq = path"
proof
  fix ev :: env and st :: decision_dialog and l :: log
  show "calls (snd (decide path msg False ev st l)) = calls l" by (simp add: decide_def)
  show "\<exists>new. calls (snd (decide path msg True ev st l)) = calls l @ new \<and>
      list_all (\<lambda>rq. rq_method rq = ''POST'' \<and> rq_path rq = path) new"
    by (cases rule: apiRequest_cases [of ev "post_request path (JObj [(''note'', JStr (dc_note st))])" l])
      (auto simp: decide_def)
qed

section \<open>Execution\<close>

definition timeout_value :: "string \<Rightarrow> jsval" where
  "timeout_value s = JNum (num_or (to_number s) (Fin 30))"

text \<open>The body with the second factor's code after the other fields, when there is one.\<close>

definition with_code :: "js_object \<Rightarrow> string \<Rightarrow> jsval" where
  "with_code payload mfaCode = JObj (if mfaCode \<noteq> '''' then payload @ [(''mfa_code'', JStr mfaCode)] else payload)"

record exec_dialog =
  ex_command :: string
  ex_timeout :: string
  ex_result :: "jsval option"
  ex_running :: bool

definition open_ssh_exec :: "platform_item \<Rightarrow> exec_dialog" where
  "open_ssh_exec item = \<lparr>ex_command = or_str (stringValue (meta item ''command'')) ''uptime'', ex_timeout = ''30'',
     ex_result = None, ex_running = False\<rparr>"

definition ssh_exec_request :: "platform_item \<Rightarrow> exec_dialog \<Rightarrow> string \<Rightarrow> request" where
  "ssh_exec_request item st mfaCode =
     post_request (''/api/access/ssh/'' @ it_id item @ ''/exec'')
       (with_code [(''command'', JStr (ex_command st)), (''timeout_seconds'', timeout_value (ex_timeout st))] mfaCode)"

text \<open>A refusal (403) that comes with a payload is shown as the result, without an error message.\<close>

definition refused_with_data :: "exn \<Rightarrow> jsval option" where
  "refused_with_data e =
     (case e of ApiError err \<Rightarrow> if ae_status err = 403 \<and> truthy (ae_data err) then Some (ae_data err) else None
      | OtherError _ \<Rightarrow> None)"

definition SSHExecDialog :: "platform_item \<Rightarrow> env \<Rightarrow> exec_dialog \<Rightarrow> log \<Rightarrow> exec_dialog \<times> log" where
  "SSHExecDialog item ev st l =
     (let st0 = st\<lparr>ex_running := False\<rparr>
      in case with_access_mfa ev (ssh_exec_request item st) l of
           (Inr None, l') \<Rightarrow> (st0, l')
         | (Inr (Some data), l') \<Rightarrow> (st0\<lparr>ex_result := Some data\<rparr>, toast ''sshExecDialog.executed'' (refresh True l'))
         | (Inl e, l') \<Rightarrow>
             (case refused_with_data e of
                Some data \<Rightarrow> (st0\<lparr>ex_result := Some data\<rparr>, refresh True l')
              | None \<Rightarrow> (st0, report e l')))"

definition ssh_exec_enabled :: "exec_dialog \<Rightarrow> bool" where
  "ssh_exec_enabled st \<longleftrightarrow> \<not> ex_running st \<and> trim (ex_command st) \<noteq> ''''"

definition command_execute_request :: "platform_item \<Rightarrow> exec_dialog \<Rightarrow> string \<Rightarrow> request" where
  "command_execute_request item st mfaCode =
     post_request (approval_path item @ ''/execute'') (with_code [(''timeout_seconds'', timeout_value (ex_timeout st))] mfaCode)"

definition CommandApprovalExecuteDialog :: "platform_item \<Rightarrow> bool \<Rightarrow> env \<Rightarrow> exec_dialog \<Rightarrow> log \<Rightarrow> exec_dialog \<times> log" where
  "CommandApprovalExecuteDialog item canExecute ev st l =
     (if \<not> canExecute then (st, permission_denied l)
      else let st0 = st\<lparr>ex_running := False\<rparr>
           in case with_access_mfa ev (command_execute_request item st) l of
                (Inr None, l') \<Rightarrow> (st0, l')
              | (Inr (Some data), l') \<Rightarrow> (st0\<lparr>ex_result := Some data\<rparr>, toast ''approved command executed'' (refresh True l'))
              | (Inl e, l') \<Rightarrow> (st0, report e l'))"

definition CommandApprovalResultPanel :: "formats \<Rightarrow> js_object \<Rightarrow> cell list" where
  "CommandApprovalResultPanel fm result =
     (let txt = (\<lambda>k. metadataText (obj_get result k)); out = txt ''stdout''; err = or_str (txt ''stderr'') (txt ''error'')
      in [Txt (or_str (txt ''command'') ''command result''), Txt (or_str (txt ''status'') ''-''),
          Txt (''exit code: '' @ formatNumberValue fm (obj_get result ''exit_code'')),
          Txt (''duration: '' @ formatNumberValue fm (obj_get result ''duration_ms'') @ '' ms'')]
         @ (if out \<noteq> '''' then [Txt out] else []) @ (if err \<noteq> '''' then [Txt err] else []))"

record sql_dialog =
  sq_sql :: string
  sq_reason :: string
  sq_result :: "jsval option"
  sq_running :: bool
  sq_submitting :: bool

definition open_sql :: "string option \<Rightarrow> platform_item \<Rightarrow> sql_dialog" where
  "open_sql initialSQL item = \<lparr>sq_sql = (case initialSQL of Some s \<Rightarrow> s | None \<Rightarrow> stringValue (meta item ''sql'')),
     sq_reason = '''', sq_result = None, sq_running = False, sq_submitting = False\<rparr>"

definition sql_execute_request :: "string \<Rightarrow> sql_dialog \<Rightarrow> string \<Rightarrow> request" where
  "sql_execute_request path st mfaCode = post_request path (with_code [(''sql'', JStr (sq_sql st))] mfaCode)"

definition sql_endpoint :: "string option \<Rightarrow> platform_item \<Rightarrow> string" where
  "sql_endpoint endpoint item = or_str (opt_str endpoint) (order_path item @ ''/execute'')"

definition sql_execute :: "string \<Rightarrow> bool \<Rightarrow> env \<Rightarrow> sql_dialog \<Rightarrow> log \<Rightarrow> sql_dialog \<times> log" where
  "sql_execute path canExecute ev st l =
     (if \<not> canExecute then (st, permission_denied l)
      else let st0 = st\<lparr>sq_running := False\<rparr>
           in case with_access_mfa ev (sql_execute_request path st) l of
                (Inr None, l') \<Rightarrow> (st0, l')
              | (Inr (Some data), l') \<Rightarrow> (st0\<lparr>sq_result := Some data\<rparr>, toast ''sqlDialog.executed'' (refresh True l'))
              | (Inl e, l') \<Rightarrow> (st0, report e l'))"

definition work_order_request :: "string \<Rightarrow> sql_dialog \<Rightarrow> string \<Rightarrow> request" where
  "work_order_request path st mfaCode =
     post_request path (with_code [(''sql'', JStr (sq_sql st)), (''reason'', JStr (sq_reason st))] mfaCode)"

definition submitWorkOrder :: "string option \<Rightarrow> env \<Rightarrow> sql_dialog \<Rightarrow> log \<Rightarrow> sql_dialog \<times> log" where
  "submitWorkOrder workOrderEndpoint ev st l =
     (if opt_str workOrderEndpoint = '''' then (st, l)
      else let st0 = st\<lparr>sq_submitting := False\<rparr>
           in case with_access_mfa ev (work_order_request (opt_str workOrderEndpoint) st) l of
                (Inr None, l') \<Rightarrow> (st0, l')
              | (Inr (Some data), l') \<Rightarrow>
                  (st0\<lparr>sq_result := Some data, sq_reason := ''''\<rparr>, toast ''sqlDialog.workOrderSubmitted'' (refresh True l'))
              | (Inl e, l') \<Rightarrow> (st0, report e l'))"

definition SQLResultPanel :: "platform_item \<Rightarrow> (string list \<times> string list list) option" where
  "SQLResultPanel result =
     (let columns = stringArrayValue (meta result ''columns''); rows = objectArrayValue (meta result ''rows'')
      in if columns \<noteq> [] \<and> rows \<noteq> []
         then Some (columns, map (\<lambda>row. map (\<lambda>c. case obj_get row c of JUndefined \<Rightarrow> '''' | JNull \<Rightarrow> '''' | v \<Rightarrow> js_to_string v) columns) rows)
         else None)"

text \<open>The three dialogs that execute with a second factor send to one path each.\<close>

lemma execute_sends:
  assumes "calls (snd r) = calls (snd (with_access_mfa ev run l))"
    and "\<And>code. rq_method (run code) = ''POST'' \<and> rq_path (run code) = p"
  shows "\<exists>new. calls (snd r) = calls l @ new \<and> list_all (\<lambda>rq. rq_method rq = ''POST'' \<and> rq_path rq = p) new"
  using assms by (cases rule: calls_with_access_mfa [of ev run l]) auto

interpretation command_execute: submit_dialog "CommandApprovalExecuteDialog item"
  "\<lambda>st rq. rq_method rq = ''POST'' \<and> rq_path rq = approval_path item @ ''/execute''"
proof
  fix ev :: env and st :: exec_dialog and l :: log
  show "calls (snd (CommandApprovalExecuteDialog item False ev st l)) = calls l" by (simp add: CommandApprovalExecuteDialog_def)
  show "\<exists>new. calls (snd (CommandApprovalExecuteDialog item True ev st l)) = calls l @ new \<and>
      list_all (\<lambda>rq. rq_method rq = ''POST'' \<and> rq_path rq = approval_path item @ ''/execute'') new"
    by (rule execute_sends [of _ ev "command_execute_request item st"])
      (simp_all add: CommandApprovalExecuteDialog_def command_execute_request_def Let_def split: prod.split sum.split option.split)
qed

interpretation sql_execute: submit_dialog "sql_execute path" "\<lambda>st rq. rq_method rq = ''POST'' \<and> rq_path rq = path"
proof
  fix ev :: env and st :: sql_dialog and l :: log
  show "calls (snd (sql_execute path False ev st l)) = calls l" by (simp add: sql_execute_def)
  show "\<exists>new. calls (snd (sql_execute path True ev st l)) = calls l @ new \<and>
      list_all (\<lambda>rq. rq_method rq = ''POST'' \<and> rq_path rq = path) new"
    by (rule execute_sends [of _ ev "sql_execute_request path st"])
      (simp_all add: sql_execute_def sql_execute_request_def Let_def split: prod.split sum.split option.split)
qed

section \<open>Logs and live status\<close>

text \<open>\<open>TaskLogsDialog\<close> and \<open>CertificateLogsDialog\<close>: the same load over two paths.\<close>

definition load_logs :: "string \<Rightarrow> bool \<Rightarrow> env \<Rightarrow> jsval list \<Rightarrow> log \<Rightarrow> jsval list \<times> log" where
  "load_logs path canRead ev logs l =
     (if \<not> canRead then ([], l)
      else case apiRequest ev (get_request path) l of
             (Inl e, l') \<Rightarrow> (logs, report e l')
           | (Inr data, l') \<Rightarrow>
               (case js_prop data ''items'' of
                  Inl e \<Rightarrow> (logs, report e l')
                | Inr (JArr xs) \<Rightarrow> (xs, l')
                | Inr _ \<Rightarrow> ([], l')))"

definition TaskLogsDialog :: "platform_item \<Rightarrow> bool \<Rightarrow> env \<Rightarrow> jsval list \<Rightarrow> log \<Rightarrow> jsval list \<times> log" where
  "TaskLogsDialog item = load_logs (task_path item @ ''/logs'')"

definition CertificateLogsDialog :: "platform_item \<Rightarrow> bool \<Rightarrow> env \<Rightarrow> jsval list \<Rightarrow> log \<Rightarrow> jsval list \<times> log" where
  "CertificateLogsDialog item = load_logs (certificate_path item @ ''/logs'')"

interpretation logs_dialog: submit_dialog "load_logs path" "\<lambda>st rq. rq = get_request path"
proof
  fix ev :: env and st :: "jsval list" and l :: log
  show "calls (snd (load_logs path False ev st l)) = calls l" by (simp add: load_logs_def)
  show "\<exists>new. calls (snd (load_logs path True ev st l)) = calls l @ new \<and> list_all (\<lambda>rq. rq = get_request path) new"
    by (cases rule: apiRequest_cases [of ev "get_request path" l]) (auto simp: load_logs_def split: sum.split jsval.split)
qed

section \<open>Properties\<close>

text \<open>A JSON import sends the records of the text as they are, and the switch of the dialog decides whether existing
  ones are updated, whatever the text itself says about it.\<close>

theorem import_switch_wins:
  assumes "json_ok (JObj ob)" "format \<noteq> ''csv''"
  shows "\<exists>ob'. import_payload format (json_stringify (JObj ob)) b = Inr (JObj ob') \<and>
    (\<forall>k. obj_get ob' k = (if k = ''update_existing'' then JBool b else obj_get ob k))"
  using assms json_parse_stringify [OF assms(1)] by (auto simp: import_payload_def)

lemma import_switch_wins_witness:
  "\<exists>ob'. import_payload ''json'' (json_stringify (JObj [(''update_existing'', JBool True)])) False = Inr (JObj ob') \<and>
    (\<forall>k. obj_get ob' k = (if k = ''update_existing'' then JBool False else obj_get [(''update_existing'', JBool True)] k))"
  by (rule import_switch_wins) (simp_all add: js_wf_object_def)

text \<open>An id that a list can hold: not empty, no blank at an end, no comma and no line feed.\<close>

definition list_safe :: "string \<Rightarrow> bool" where
  "list_safe i \<longleftrightarrow> i \<noteq> '''' \<and> trim i = i \<and> CHR '','' \<notin> set i \<and> CHR 0x0A \<notin> set i"

lemma splitLines_join: "list_all list_safe ids \<Longrightarrow> splitLines (join [CHR 0x0A] ids) = ids"
proof (cases "ids = []")
  case True
  then show ?thesis by (simp add: splitLines_def trimmed_def)
next
  case False
  assume safe: "list_all list_safe ids"
  then have "split_on CHR 0x0A (join [CHR 0x0A] ids) = ids"
    using False split_on_join [of ids "CHR 0x0A"] by (auto simp: list_all_iff list_safe_def)
  moreover have "concat (map (split_on CHR '','') ids) = ids"
    using safe by (induction ids) (auto simp: list_safe_def split_on_id)
  moreover have "trimmed ids = ids" using safe by (intro trimmed_id) (auto simp: list_all_iff list_safe_def)
  ultimately show ?thesis by (simp add: splitLines_def)
qed

text \<open>A bulk authorisation names exactly the selected records, and a group added to them appears once, however often
  its button is pressed.\<close>

theorem bulk_targets_exact:
  assumes "list_all list_safe (map it_id items)" "list_safe g" "lower g \<notin> set (map lower (map it_id items))"
    and "st = appendGroupTarget ((appendGroupTarget ((open_bulk items)\<lparr>bk_group := g\<rparr>))\<lparr>bk_subjects := subjects\<rparr>)"
  shows "splitLines (bk_targets (open_bulk items)) = map it_id items \<and>
    rq_body (bulk_request collection st) =
      Some (JObj [(''subject_ids'', JArr (map JStr (splitLines subjects))), (''target_ids'', JArr (map JStr (map it_id items @ [g]))),
                  (''type'', JStr ''bulk''), (''status'', JStr ''enabled'')])"
proof -
  have one: "splitLines (join [CHR 0x0A] (map it_id items)) = map it_id items" by (rule splitLines_join [OF assms(1)])
  have two: "splitLines (join [CHR 0x0A] (map it_id items @ [g])) = map it_id items @ [g]"
    by (rule splitLines_join) (use assms(1,2) in simp)
  have g: "trim g = g" "g \<noteq> []" using assms(2) by (simp_all add: list_safe_def)
  have add: "appendUniqueLine (join [CHR 0x0A] (map it_id items)) g = join [CHR 0x0A] (map it_id items @ [g])"
    using assms(3) g unfolding appendUniqueLine_def one Let_def by auto
  have again: "appendUniqueLine (join [CHR 0x0A] (map it_id items @ [g])) g = join [CHR 0x0A] (map it_id items @ [g])"
    using g unfolding appendUniqueLine_def two Let_def by simp
  show ?thesis
    using one two add again g assms(4) by (simp add: bulk_request_def open_bulk_def appendGroupTarget_def)
qed

lemma bulk_targets_exact_witness:
  "\<exists>st. st = appendGroupTarget ((appendGroupTarget ((open_bulk [blank_item\<lparr>it_id := ''a1''\<rparr>])\<lparr>bk_group := ''g1''\<rparr>))\<lparr>bk_subjects := ''u1''\<rparr>) \<and>
     splitLines (bk_targets (open_bulk [blank_item\<lparr>it_id := ''a1''\<rparr>])) = map it_id [blank_item\<lparr>it_id := ''a1''\<rparr>]"
proof -
  have pre: "list_all list_safe (map it_id [blank_item\<lparr>it_id := ''a1''\<rparr>])" "list_safe ''g1''"
    "lower ''g1'' \<notin> set (map lower (map it_id [blank_item\<lparr>it_id := ''a1''\<rparr>]))"
    by (simp_all add: list_safe_def trim_id is_ws_def lower_def lower_char_def)
  show ?thesis by (rule exI, rule conjI [OF refl bulk_targets_exact [OF pre refl, THEN conjunct1]])
qed

text \<open>Executing a command ends in one of four ways: a result with a refresh; nothing when the code prompt is
  dismissed; the server's refusal shown as a result, with no error message; or the error, with the result before it
  kept. The dialog can be used again after each.\<close>

theorem ssh_exec_outcomes:
  "let (st', l') = SSHExecDialog item ev st l; answer = with_access_mfa ev (ssh_exec_request item st) l
   in ex_command st' = ex_command st \<and> ex_timeout st' = ex_timeout st \<and> \<not> ex_running st' \<and>
      (case fst answer of
         Inr (Some data) \<Rightarrow> ex_result st' = Some data \<and> l' = snd answer @ [Refresh True, Toast ''sshExecDialog.executed'']
       | Inr None \<Rightarrow> ex_result st' = ex_result st \<and> l' = snd answer
       | Inl e \<Rightarrow>
           (case refused_with_data e of
              Some data \<Rightarrow> ex_result st' = Some data \<and> l' = snd answer @ [Refresh True]
            | None \<Rightarrow> ex_result st' = ex_result st \<and> l' = snd answer @ [ReportError e]))"
  by (cases "with_access_mfa ev (ssh_exec_request item st) l")
    (auto simp: SSHExecDialog_def Let_def toast_def refresh_def report_def split: sum.split option.split)

end
