(* ===== verification/StorageFiles.thy ===== *)
theory StorageFiles
  imports Table Paths
begin

text \<open>
  The file dialog of a storage (\<open>StorageFilesDialog\<close> of \<open>platform-page.tsx\<close>), used on the storages page
  and, over another base path, for a user's own storage. The handlers take the role's check \<open>can\<close> and
  the base path of the storage; \<open>encode\<close> is \<open>encodeURIComponent\<close> and \<open>lc\<close> the browser's comparison of names.
  The picked file is a value the upload carries.
\<close>

section \<open>State\<close>

record storage_entry =
  se_name :: string
  se_path :: string
  se_is_dir :: bool

record storage_dialog =
  sd_path :: string
  sd_entries :: "storage_entry list"
  sd_usage :: jsval
  sd_loading :: bool
  sd_folderName :: string
  sd_filePath :: string
  sd_fileContent :: string
  sd_copySource :: string
  sd_copyDestination :: string
  sd_copyOverwrite :: bool
  sd_renameSource :: string
  sd_renameDestination :: string
  sd_renameOverwrite :: bool
  sd_editingFilePath :: string
  sd_textLoadingPath :: string
  sd_upload :: "jsval option"
  sd_uploadKey :: nat

definition initial_storage :: storage_dialog where
  "initial_storage = \<lparr>sd_path = ''.'', sd_entries = [], sd_usage = JNull, sd_loading = False, sd_folderName = '''',
     sd_filePath = '''', sd_fileContent = '''', sd_copySource = '''', sd_copyDestination = '''', sd_copyOverwrite = False,
     sd_renameSource = '''', sd_renameDestination = '''', sd_renameOverwrite = False, sd_editingFilePath = '''',
     sd_textLoadingPath = '''', sd_upload = None, sd_uploadKey = 0\<rparr>"

text \<open>What the role may do with the storage at \<open>base\<close>.\<close>

record storage_rights =
  sr_list :: bool
  sr_delete :: bool
  sr_download :: bool
  sr_upload :: bool
  sr_write :: bool
  sr_mkdir :: bool
  sr_copy :: bool
  sr_rename :: bool

definition storage_rights_of :: "can_use \<Rightarrow> string \<Rightarrow> storage_rights" where
  "storage_rights_of can base =
     \<lparr>sr_list = can ''GET'' (base @ ''/files''), sr_delete = can ''DELETE'' (base @ ''/files''),
      sr_download = can ''GET'' (base @ ''/files-download''), sr_upload = can ''POST'' (base @ ''/files-upload''),
      sr_write = can ''POST'' (base @ ''/files-write''), sr_mkdir = can ''POST'' (base @ ''/files-mkdir''),
      sr_copy = can ''POST'' (base @ ''/files-copy''), sr_rename = can ''POST'' (base @ ''/files-rename'')\<rparr>"

definition canEditTextFiles :: "storage_rights \<Rightarrow> bool" where
  "canEditTextFiles r \<longleftrightarrow> sr_download r \<and> sr_write r"

section \<open>Listing\<close>

definition sortStorageEntries :: "locale_compare \<Rightarrow> storage_entry list \<Rightarrow> storage_entry list" where
  "sortStorageEntries lc entries =
     js_sort (\<lambda>left right. if se_is_dir left \<noteq> se_is_dir right then (if se_is_dir left then -1 else 1)
                           else lc (se_name left) (se_name right)) entries"

definition storage_entry_of_json :: "jsval \<Rightarrow> storage_entry" where
  "storage_entry_of_json v =
     (let ob = recordValue v
      in \<lparr>se_name = stringValue (obj_get ob ''name''), se_path = stringValue (obj_get ob ''path''),
          se_is_dir = truthy (obj_get ob ''is_dir'')\<rparr>)"

text \<open>A server answer that is no object, or whose entries are no list, throws where it is read; the path is
  set before the entries are.\<close>

definition listing_answer :: "locale_compare \<Rightarrow> jsval \<Rightarrow> storage_dialog \<Rightarrow> (exn option) \<times> storage_dialog" where
  "listing_answer lc data st =
     (case js_prop data ''path'' of
        Inl e \<Rightarrow> (Some e, st)
      | Inr p \<Rightarrow>
          (let st1 = st\<lparr>sd_path := (if truthy p then js_to_string p else ''.'')\<rparr>
           in case (case js_prop data ''entries'' of Inr v \<Rightarrow> v | Inl _ \<Rightarrow> JUndefined) of
                JArr es \<Rightarrow>
                  (None, st1\<lparr>sd_entries := sortStorageEntries lc (map storage_entry_of_json es),
                            sd_usage := (case js_prop data ''usage'' of Inr u \<Rightarrow> if truthy u then u else JNull | Inl _ \<Rightarrow> JNull)\<rparr>)
              | v \<Rightarrow>
                  if truthy v then (Some (OtherError ''TypeError''), st1)
                  else (None, st1\<lparr>sd_entries := [],
                            sd_usage := (case js_prop data ''usage'' of Inr u \<Rightarrow> if truthy u then u else JNull | Inl _ \<Rightarrow> JNull)\<rparr>)))"

definition load ::
  "can_use \<Rightarrow> string \<Rightarrow> (string \<Rightarrow> string) \<Rightarrow> locale_compare \<Rightarrow> env \<Rightarrow> string \<Rightarrow> storage_dialog \<Rightarrow> log \<Rightarrow> storage_dialog \<times> log" where
  "load can base encode lc ev target st l =
     (if \<not> sr_list (storage_rights_of can base) then (st, l)
      else case apiRequest ev (get_request (base @ ''/files?path='' @ encode target)) l of
             (Inl e, l') \<Rightarrow> (st\<lparr>sd_loading := False\<rparr>, report e l')
           | (Inr data, l') \<Rightarrow>
               (case listing_answer lc data st of
                  (None, st') \<Rightarrow> (st'\<lparr>sd_loading := False\<rparr>, l')
                | (Some e, st') \<Rightarrow> (st'\<lparr>sd_loading := False\<rparr>, report e l')))"

section \<open>Handlers\<close>

text \<open>After a change: list the folder the handler started in, refresh the console, say so.\<close>

definition reload_and_toast ::
  "can_use \<Rightarrow> string \<Rightarrow> (string \<Rightarrow> string) \<Rightarrow> locale_compare \<Rightarrow> env \<Rightarrow> string \<Rightarrow> string \<Rightarrow> storage_dialog \<Rightarrow> log \<Rightarrow> storage_dialog \<times> log" where
  "reload_and_toast can base encode lc ev path msg st l =
     (let (st', l') = load can base encode lc ev path st l in (st', toast msg (refresh True l')))"

text \<open>A change: one request, then the listing; \<open>describe\<close> is what the handler reports of an error.\<close>

definition send_change ::
  "can_use \<Rightarrow> string \<Rightarrow> (string \<Rightarrow> string) \<Rightarrow> locale_compare \<Rightarrow> env \<Rightarrow> request \<Rightarrow> (exn \<Rightarrow> exn) \<Rightarrow> string \<Rightarrow>
   storage_dialog \<Rightarrow> storage_dialog \<Rightarrow> log \<Rightarrow> storage_dialog \<times> log" where
  "send_change can base encode lc ev rq describe msg after st l =
     (case apiRequest ev rq l of
        (Inl e, l') \<Rightarrow> (st, report (describe e) l')
      | (Inr _, l') \<Rightarrow> reload_and_toast can base encode lc ev (sd_path st) msg after l')"

definition mkdir_request :: "string \<Rightarrow> storage_dialog \<Rightarrow> request" where
  "mkdir_request base st =
     post_request (base @ ''/files-mkdir'') (JObj [(''path'', JStr (resolveStoragePath (sd_path st) (sd_folderName st)))])"

definition createStorageFolder ::
  "can_use \<Rightarrow> string \<Rightarrow> (string \<Rightarrow> string) \<Rightarrow> locale_compare \<Rightarrow> env \<Rightarrow> storage_dialog \<Rightarrow> log \<Rightarrow> storage_dialog \<times> log" where
  "createStorageFolder can base encode lc ev st l =
     (if \<not> sr_mkdir (storage_rights_of can base) then (st, l)
      else send_change can base encode lc ev (mkdir_request base st) id ''folder created''
             (st\<lparr>sd_folderName := ''''\<rparr>) st l)"

definition write_request :: "string \<Rightarrow> storage_dialog \<Rightarrow> request" where
  "write_request base st =
     post_request (base @ ''/files-write'')
       (JObj [(''path'', JStr (resolveStoragePath (sd_path st) (sd_filePath st))), (''content'', JStr (sd_fileContent st))])"

definition writeFile ::
  "can_use \<Rightarrow> string \<Rightarrow> (string \<Rightarrow> string) \<Rightarrow> locale_compare \<Rightarrow> env \<Rightarrow> storage_dialog \<Rightarrow> log \<Rightarrow> storage_dialog \<times> log" where
  "writeFile can base encode lc ev st l =
     (if \<not> sr_write (storage_rights_of can base) then (st, l)
      else send_change can base encode lc ev (write_request base st) id ''file written''
             (st\<lparr>sd_filePath := '''', sd_fileContent := '''', sd_editingFilePath := ''''\<rparr>) st l)"

text \<open>The upload's own \<open>fetch\<close>: a form without a JSON header, and an error without the payload.\<close>

definition upload_request :: "string \<Rightarrow> storage_dialog \<Rightarrow> jsval \<Rightarrow> request" where
  "upload_request base st picked =
     \<lparr>rq_method = ''POST'', rq_path = base @ ''/files-upload'',
      rq_body = Some (JObj [(''path'', JStr (if sd_path st = ''.'' then '''' else sd_path st)), (''file'', picked)]),
      rq_json_header = False\<rparr>"

definition without_payload :: "exn \<Rightarrow> exn" where
  "without_payload e = (case e of ApiError err \<Rightarrow> ApiError (err\<lparr>ae_data := JUndefined\<rparr>) | OtherError m \<Rightarrow> OtherError m)"

definition uploadSelectedFile ::
  "can_use \<Rightarrow> string \<Rightarrow> (string \<Rightarrow> string) \<Rightarrow> locale_compare \<Rightarrow> env \<Rightarrow> storage_dialog \<Rightarrow> log \<Rightarrow> storage_dialog \<times> log" where
  "uploadSelectedFile can base encode lc ev st l =
     (case sd_upload st of
        None \<Rightarrow> (st, l)
      | Some picked \<Rightarrow>
          if \<not> sr_upload (storage_rights_of can base) then (st, l)
          else send_change can base encode lc ev (upload_request base st picked) without_payload ''file uploaded''
                 (st\<lparr>sd_upload := None, sd_uploadKey := Suc (sd_uploadKey st)\<rparr>) st l)"

definition delete_entry_request :: "string \<Rightarrow> (string \<Rightarrow> string) \<Rightarrow> storage_entry \<Rightarrow> request" where
  "delete_entry_request base encode entry = mk_request ''DELETE'' (base @ ''/files?path='' @ encode (se_path entry)) None"

definition deleteStorageEntry ::
  "can_use \<Rightarrow> string \<Rightarrow> (string \<Rightarrow> string) \<Rightarrow> locale_compare \<Rightarrow> env \<Rightarrow> storage_entry \<Rightarrow> storage_dialog \<Rightarrow> log \<Rightarrow> storage_dialog \<times> log" where
  "deleteStorageEntry can base encode lc ev entry st l =
     (if \<not> sr_delete (storage_rights_of can base) then (st, l)
      else case confirm ev (''delete '' @ se_path entry @ ''?'') l of
             (False, l1) \<Rightarrow> (st, l1)
           | (True, l1) \<Rightarrow>
               send_change can base encode lc ev (delete_entry_request base encode entry) id ''file deleted'' st st l1)"

definition download_path :: "string \<Rightarrow> (string \<Rightarrow> string) \<Rightarrow> storage_entry \<Rightarrow> string" where
  "download_path base encode entry = base @ ''/files-download?path='' @ encode (se_path entry)"

definition downloadStorageEntry :: "can_use \<Rightarrow> string \<Rightarrow> (string \<Rightarrow> string) \<Rightarrow> env \<Rightarrow> storage_entry \<Rightarrow> log \<Rightarrow> log" where
  "downloadStorageEntry can base encode ev entry l =
     (if \<not> sr_download (storage_rights_of can base) then l
      else download_and_toast ev (download_path base encode entry) (se_name entry) ''file downloaded'' l)"

definition transfer_request :: "string \<Rightarrow> string \<Rightarrow> string \<Rightarrow> string \<Rightarrow> string \<Rightarrow> bool \<Rightarrow> request" where
  "transfer_request base verb path source destination overwrite =
     post_request (base @ ''/files-'' @ verb)
       (JObj [(''path'', JStr (resolveStoragePath path source)), (''destination'', JStr (resolveStoragePath path destination)),
              (''overwrite'', JBool overwrite)])"

definition copyEntry ::
  "can_use \<Rightarrow> string \<Rightarrow> (string \<Rightarrow> string) \<Rightarrow> locale_compare \<Rightarrow> env \<Rightarrow> storage_dialog \<Rightarrow> log \<Rightarrow> storage_dialog \<times> log" where
  "copyEntry can base encode lc ev st l =
     (if \<not> sr_copy (storage_rights_of can base) then (st, l)
      else send_change can base encode lc ev (transfer_request base ''copy'' (sd_path st) (sd_copySource st) (sd_copyDestination st) (sd_copyOverwrite st)) id ''file copied''
             (st\<lparr>sd_copySource := '''', sd_copyDestination := '''', sd_copyOverwrite := False\<rparr>) st l)"

definition renameEntry ::
  "can_use \<Rightarrow> string \<Rightarrow> (string \<Rightarrow> string) \<Rightarrow> locale_compare \<Rightarrow> env \<Rightarrow> storage_dialog \<Rightarrow> log \<Rightarrow> storage_dialog \<times> log" where
  "renameEntry can base encode lc ev st l =
     (if \<not> sr_rename (storage_rights_of can base) then (st, l)
      else send_change can base encode lc ev (transfer_request base ''rename'' (sd_path st) (sd_renameSource st) (sd_renameDestination st) (sd_renameOverwrite st)) id ''file renamed''
             (st\<lparr>sd_renameSource := '''', sd_renameDestination := '''', sd_renameOverwrite := False\<rparr>) st l)"

definition prefillCopyEntry :: "can_use \<Rightarrow> string \<Rightarrow> storage_entry \<Rightarrow> storage_dialog \<Rightarrow> storage_dialog" where
  "prefillCopyEntry can base entry st =
     (if \<not> sr_copy (storage_rights_of can base) then st
      else st\<lparr>sd_copySource := rootStoragePath (se_path entry),
              sd_copyDestination := rootStoragePath (siblingStoragePath (se_path entry) (copiedStorageName (se_name entry) (se_is_dir entry))),
              sd_copyOverwrite := False\<rparr>)"

definition prefillRenameEntry :: "can_use \<Rightarrow> string \<Rightarrow> storage_entry \<Rightarrow> storage_dialog \<Rightarrow> storage_dialog" where
  "prefillRenameEntry can base entry st =
     (if \<not> sr_rename (storage_rights_of can base) then st
      else st\<lparr>sd_renameSource := rootStoragePath (se_path entry),
              sd_renameDestination := rootStoragePath (siblingStoragePath (se_path entry) (renamedStorageName (se_name entry) (se_is_dir entry))),
              sd_renameOverwrite := False\<rparr>)"

text \<open>\<open>fetchStorageText\<close>: the text of the answer is one more thing the outside supplies, \<open>body\<close>.\<close>

definition editTextEntry ::
  "can_use \<Rightarrow> string \<Rightarrow> (string \<Rightarrow> string) \<Rightarrow> (log \<Rightarrow> string) \<Rightarrow> env \<Rightarrow> storage_entry \<Rightarrow> storage_dialog \<Rightarrow> log \<Rightarrow> storage_dialog \<times> log" where
  "editTextEntry can base encode body ev entry st l =
     (if \<not> canEditTextFiles (storage_rights_of can base) then (st, l)
      else case apiRequest ev (get_request (download_path base encode entry)) l of
             (Inl e, l') \<Rightarrow> (st\<lparr>sd_textLoadingPath := ''''\<rparr>, report e l')
           | (Inr _, l') \<Rightarrow>
               (st\<lparr>sd_filePath := rootStoragePath (se_path entry), sd_fileContent := body l',
                   sd_editingFilePath := se_path entry, sd_textLoadingPath := ''''\<rparr>,
                toast ''file content loaded'' l'))"

definition clear_edit :: "storage_dialog \<Rightarrow> storage_dialog" where
  "clear_edit st = st\<lparr>sd_editingFilePath := '''', sd_filePath := '''', sd_fileContent := ''''\<rparr>"

section \<open>What is on the screen\<close>

text \<open>The buttons, each with the condition under which it is drawn and can be pressed.\<close>

datatype storage_control =
    Reload | Parent | EnterFolder storage_entry | DownloadEntry storage_entry | EditText storage_entry
  | PrefillCopy storage_entry | PrefillRename storage_entry | DeleteEntry storage_entry
  | CreateFolder | UploadFile | CopyFile | RenameFile | WriteFile

definition entry_controls :: "storage_rights \<Rightarrow> storage_dialog \<Rightarrow> storage_entry \<Rightarrow> storage_control list" where
  "entry_controls r st entry =
     shown (se_is_dir entry) (EnterFolder entry)
     @ shown (\<not> se_is_dir entry \<and> sr_download r) (DownloadEntry entry)
     @ shown (\<not> se_is_dir entry \<and> canEditTextFiles r \<and> sd_textLoadingPath st \<noteq> se_path entry) (EditText entry)
     @ shown (sr_copy r) (PrefillCopy entry) @ shown (sr_rename r) (PrefillRename entry) @ shown (sr_delete r) (DeleteEntry entry)"

definition storage_controls :: "storage_rights \<Rightarrow> storage_dialog \<Rightarrow> storage_control list" where
  "storage_controls r st =
     shown (\<not> sd_loading st) Reload @ shown (sd_path st \<noteq> ''.'' \<and> \<not> sd_loading st) Parent
     @ concat (map (entry_controls r st) (sd_entries st))
     @ shown (sr_mkdir r \<and> trim (sd_folderName st) \<noteq> '''') CreateFolder
     @ shown (sr_upload r \<and> sd_upload st \<noteq> None) UploadFile
     @ shown (sr_copy r \<and> trim (sd_copySource st) \<noteq> '''' \<and> trim (sd_copyDestination st) \<noteq> '''') CopyFile
     @ shown (sr_rename r \<and> trim (sd_renameSource st) \<noteq> '''' \<and> trim (sd_renameDestination st) \<noteq> '''') RenameFile
     @ shown (sr_write r \<and> trim (sd_filePath st) \<noteq> '''') WriteFile"

definition press_storage ::
  "can_use \<Rightarrow> string \<Rightarrow> (string \<Rightarrow> string) \<Rightarrow> locale_compare \<Rightarrow> (log \<Rightarrow> string) \<Rightarrow> env \<Rightarrow> storage_control \<Rightarrow> storage_dialog \<Rightarrow> log \<Rightarrow> storage_dialog \<times> log" where
  "press_storage can base encode lc body ev c st l =
     (case c of
        Reload \<Rightarrow> load can base encode lc ev (sd_path st) st l
      | Parent \<Rightarrow> load can base encode lc ev (parentStoragePath (sd_path st)) st l
      | EnterFolder entry \<Rightarrow> load can base encode lc ev (se_path entry) st l
      | DownloadEntry entry \<Rightarrow> (st, downloadStorageEntry can base encode ev entry l)
      | EditText entry \<Rightarrow> editTextEntry can base encode body ev entry st l
      | PrefillCopy entry \<Rightarrow> (prefillCopyEntry can base entry st, l)
      | PrefillRename entry \<Rightarrow> (prefillRenameEntry can base entry st, l)
      | DeleteEntry entry \<Rightarrow> deleteStorageEntry can base encode lc ev entry st l
      | CreateFolder \<Rightarrow> createStorageFolder can base encode lc ev st l
      | UploadFile \<Rightarrow> uploadSelectedFile can base encode lc ev st l
      | CopyFile \<Rightarrow> copyEntry can base encode lc ev st l
      | RenameFile \<Rightarrow> renameEntry can base encode lc ev st l
      | WriteFile \<Rightarrow> writeFile can base encode lc ev st l)"

section \<open>Requests\<close>

lemma without_query_files:
  "CHR ''?'' \<notin> set base \<Longrightarrow> CHR ''?'' \<notin> set tail \<Longrightarrow> without_query (base @ tail @ CHR ''?'' # rest) = base @ tail"
  "CHR ''?'' \<notin> set base \<Longrightarrow> CHR ''?'' \<notin> set tail \<Longrightarrow> without_query (base @ tail) = base @ tail"
  by (auto simp: without_query_def takeWhile_append)

text \<open>\<open>only\<close>: a step whose new requests all belong to a given list.\<close>

definition only :: "request list \<Rightarrow> log \<Rightarrow> log \<Rightarrow> bool" where
  "only rqs l l' \<longleftrightarrow> (\<exists>new. calls l' = calls l @ new \<and> set new \<subseteq> set rqs)"

lemma only_refl [simp]: "only rqs l l"
  by (auto simp: only_def)

lemma only_trans: "only a l l' \<Longrightarrow> only b l' l'' \<Longrightarrow> only (a @ b) l l''"
  unfolding only_def by (metis append.assoc set_append sup.mono)

lemma only_mono: "only a l l' \<Longrightarrow> set a \<subseteq> set b \<Longrightarrow> only b l l'"
  unfolding only_def by blast

lemma only_report [simp]: "only rqs l (report e l') \<longleftrightarrow> only rqs l l'"
  by (simp add: only_def)

lemma only_toast [simp]: "only rqs l (toast m l') \<longleftrightarrow> only rqs l l'"
  by (simp add: only_def)

lemma only_refresh [simp]: "only rqs l (refresh b l') \<longleftrightarrow> only rqs l l'"
  by (simp add: only_def)

lemma only_call [simp]: "only [rq] l (l @ [Call rq])"
  by (auto simp: only_def)

lemma only_ask: "only rqs (l @ [Confirm t]) l' \<Longrightarrow> only rqs l l'"
  by (simp add: only_def)

definition list_request :: "string \<Rightarrow> (string \<Rightarrow> string) \<Rightarrow> string \<Rightarrow> request" where
  "list_request base encode target = get_request (base @ ''/files?path='' @ encode target)"

lemma only_load:
  "only (if sr_list (storage_rights_of can base) then [list_request base encode target] else []) l
     (snd (load can base encode lc ev target st l))"
  by (cases rule: apiRequest_cases [of ev "list_request base encode target" l])
    (auto simp: load_def list_request_def split: prod.splits option.splits)

lemma only_reload:
  "only (if sr_list (storage_rights_of can base) then [list_request base encode path] else []) l
     (snd (reload_and_toast can base encode lc ev path msg st l))"
proof (cases "load can base encode lc ev path st l")
  case (Pair st' l')
  then show ?thesis using only_load [of can base encode path l lc ev st] by (simp add: reload_and_toast_def)
qed

lemma only_change:
  "only (rq # (if sr_list (storage_rights_of can base) then [list_request base encode (sd_path st)] else [])) l
     (snd (send_change can base encode lc ev rq describe msg after st l))"
proof (cases rule: apiRequest_cases [of ev rq l])
  case (error e)
  then show ?thesis by (auto simp: send_change_def intro: only_mono [OF only_call])
next
  case (ok v)
  have "only ([rq] @ (if sr_list (storage_rights_of can base) then [list_request base encode (sd_path st)] else [])) l
      (snd (reload_and_toast can base encode lc ev (sd_path st) msg after (l @ [Call rq])))"
    by (rule only_trans [OF only_call only_reload])
  then show ?thesis using ok by (simp add: send_change_def)
qed

lemma only_permitted:
  "only rqs l l' \<Longrightarrow> list_all (permitted can) rqs \<Longrightarrow> \<exists>new. calls l' = calls l @ new \<and> list_all (permitted can) new"
  by (auto simp: only_def list_all_iff)

lemma permitted_with_query:
  "CHR ''?'' \<notin> set base \<Longrightarrow> CHR ''?'' \<notin> set tail \<Longrightarrow> can m (base @ tail) \<Longrightarrow>
   permitted can (mk_request m (base @ tail @ CHR ''?'' # rest) b)"
  by (simp add: permitted_def without_query_files)

lemma permitted_list:
  "CHR ''?'' \<notin> set base \<Longrightarrow> sr_list (storage_rights_of can base) \<Longrightarrow> permitted can (list_request base encode target)"
  using permitted_with_query [of base "''/files''" can "''GET''" "''path='' @ encode target"]
  by (simp add: list_request_def storage_rights_of_def)

lemma permitted_delete:
  "CHR ''?'' \<notin> set base \<Longrightarrow> sr_delete (storage_rights_of can base) \<Longrightarrow> permitted can (delete_entry_request base encode entry)"
  using permitted_with_query [of base "''/files''" can "''DELETE''" "''path='' @ encode (se_path entry)"]
  by (simp add: delete_entry_request_def storage_rights_of_def)

lemma permitted_download:
  "CHR ''?'' \<notin> set base \<Longrightarrow> sr_download (storage_rights_of can base) \<Longrightarrow> permitted can (get_request (download_path base encode entry))"
  using permitted_with_query [of base "''/files-download''" can "''GET''" "''path='' @ encode (se_path entry)"]
  by (simp add: download_path_def storage_rights_of_def)

text \<open>A control makes only permitted requests.\<close>

definition allowed :: "can_use \<Rightarrow> log \<Rightarrow> log \<Rightarrow> bool" where
  "allowed can l l' \<longleftrightarrow> (\<exists>new. calls l' = calls l @ new \<and> list_all (permitted can) new)"

lemma allowed_only: "only rqs l l' \<Longrightarrow> list_all (permitted can) rqs \<Longrightarrow> allowed can l l'"
  using only_permitted by (simp add: allowed_def)

lemma allowed_refl [simp]: "allowed can l l"
  by (simp add: allowed_def)

lemma allowed_change:
  "CHR ''?'' \<notin> set base \<Longrightarrow> permitted can rq \<Longrightarrow>
   allowed can l (snd (send_change can base encode lc ev rq describe msg after st l))"
  by (rule allowed_only [OF only_change]) (simp add: permitted_list)

lemmas storage_request_defs = permitted_def storage_rights_of_def mkdir_request_def write_request_def upload_request_def
  transfer_request_def

lemma allowed_delete:
  assumes "CHR ''?'' \<notin> set base"
  shows "allowed can l (snd (deleteStorageEntry can base encode lc ev entry st l))"
proof -
  let ?l1 = "l @ [Confirm (''delete '' @ se_path entry @ ''?'')]"
  have "allowed can ?l1 (snd (send_change can base encode lc ev (delete_entry_request base encode entry) id ''file deleted'' st st ?l1))"
    if "sr_delete (storage_rights_of can base)"
    by (rule allowed_change [OF assms permitted_delete [OF assms that]])
  then show ?thesis by (auto simp: deleteStorageEntry_def confirm_eq allowed_def split: bool.split)
qed

lemma allowed_load: "CHR ''?'' \<notin> set base \<Longrightarrow> allowed can l (snd (load can base encode lc ev target st l))"
  by (rule allowed_only [OF only_load]) (simp add: permitted_list)

lemma allowed_download:
  "CHR ''?'' \<notin> set base \<Longrightarrow> allowed can l (downloadStorageEntry can base encode ev entry l)"
  by (auto simp: downloadStorageEntry_def allowed_def calls_download_and_toast permitted_download)

lemma allowed_edit:
  "CHR ''?'' \<notin> set base \<Longrightarrow> allowed can l (snd (editTextEntry can base encode body ev entry st l))"
  by (cases rule: apiRequest_cases [of ev "get_request (download_path base encode entry)" l])
    (auto simp: editTextEntry_def canEditTextFiles_def allowed_def permitted_download)

lemma allowed_press:
  assumes "CHR ''?'' \<notin> set base"
  shows "allowed can l (snd (press_storage can base encode lc body ev c st l))"
proof (cases c)
  case CreateFolder
  show ?thesis unfolding CreateFolder press_storage_def
    by (auto simp: createStorageFolder_def storage_request_defs intro!: allowed_change assms)
next
  case UploadFile
  show ?thesis unfolding UploadFile press_storage_def
    by (auto simp: uploadSelectedFile_def storage_request_defs intro!: allowed_change assms split: option.split)
next
  case CopyFile
  show ?thesis unfolding CopyFile press_storage_def
    by (auto simp: copyEntry_def storage_request_defs intro!: allowed_change assms)
next
  case RenameFile
  show ?thesis unfolding RenameFile press_storage_def
    by (auto simp: renameEntry_def storage_request_defs intro!: allowed_change assms)
next
  case WriteFile
  show ?thesis unfolding WriteFile press_storage_def
    by (auto simp: writeFile_def storage_request_defs intro!: allowed_change assms)
qed (simp_all add: press_storage_def allowed_load allowed_delete allowed_download allowed_edit assms)

section \<open>Properties\<close>

text \<open>Whatever is pressed in the file dialog, with whatever answers, sends only requests the role may send.\<close>

theorem storage_requests_permitted:
  assumes "CHR ''?'' \<notin> set base"
  shows "\<exists>new. calls (snd (press_storage can base encode lc body ev c st l)) = calls l @ new \<and> list_all (permitted can) new"
  using allowed_press [OF assms] by (simp add: allowed_def)

lemma storage_requests_permitted_witness:
  "\<exists>new. calls (snd (press_storage (\<lambda>_ _. True) ''/api/admin/storages/s1'' (\<lambda>s. s) (\<lambda>_ _. 0) (\<lambda>_. '''') second_call_fails
      CreateFolder (initial_storage\<lparr>sd_folderName := ''docs''\<rparr>) [])) = calls [] @ new \<and> list_all (permitted (\<lambda>_ _. True)) new"
  by (rule storage_requests_permitted) simp

text \<open>A path as the server lists it: no blank at either end, no leading slash, no backslash.\<close>

definition listed_path :: "string \<Rightarrow> bool" where
  "listed_path p \<longleftrightarrow> p \<noteq> '''' \<and> \<not> is_ws (hd p) \<and> \<not> is_ws (last p) \<and> hd p \<noteq> CHR ''/'' \<and> CHR 0x5C \<notin> set p"

lemma listed_path_normal: "listed_path p \<Longrightarrow> strip_left slash (unix_slashes (trim p)) = p"
  by (simp add: listed_path_def trim_id unix_slashes_def replace_char_id strip_left_id slash_def)

lemma resolve_listed: "listed_path p \<Longrightarrow> resolveStoragePath base (rootStoragePath p) = p"
  by (auto simp: storage_root_roundtrip listed_path_normal listed_path_def Let_def)

lemma listing_answer_keeps [simp]:
  "sd_filePath (snd (listing_answer lc data st)) = sd_filePath st"
  "sd_copySource (snd (listing_answer lc data st)) = sd_copySource st"
  "sd_copyDestination (snd (listing_answer lc data st)) = sd_copyDestination st"
  "sd_copyOverwrite (snd (listing_answer lc data st)) = sd_copyOverwrite st"
  unfolding listing_answer_def Let_def
  by (cases "js_prop data ''path''"; cases "case js_prop data ''entries'' of Inr v \<Rightarrow> v | Inl _ \<Rightarrow> JUndefined"; simp)+

lemma load_frame:
  obtains "fst (load can base encode lc ev t st l) = st"
    | b where "fst (load can base encode lc ev t st l) = st\<lparr>sd_loading := b\<rparr>"
    | data b where "fst (load can base encode lc ev t st l) = snd (listing_answer lc data st)\<lparr>sd_loading := b\<rparr>"
proof (cases "sr_list (storage_rights_of can base)")
  case True
  show ?thesis
  proof (cases rule: apiRequest_cases [of ev "get_request (base @ ''/files?path='' @ encode t)" l])
    case (error e)
    then show ?thesis using that(2) True by (simp add: load_def)
  next
    case (ok data)
    then have "fst (load can base encode lc ev t st l) = snd (listing_answer lc data st)\<lparr>sd_loading := False\<rparr>"
      using True by (simp add: load_def split: prod.split option.split)
    then show ?thesis by (rule that(3))
  qed
qed (use that(1) in \<open>simp add: load_def\<close>)

lemma load_keeps [simp]:
  "sd_filePath (fst (load can base encode lc ev t st l)) = sd_filePath st"
  "sd_copySource (fst (load can base encode lc ev t st l)) = sd_copySource st"
  "sd_copyDestination (fst (load can base encode lc ev t st l)) = sd_copyDestination st"
  "sd_copyOverwrite (fst (load can base encode lc ev t st l)) = sd_copyOverwrite st"
  by (cases rule: load_frame [of can base encode lc ev t st l]; simp)+

text \<open>Editing a text file of a storage and saving it, with any folder opened and any text typed in between,
  writes that text to the file's own path, not to a path inside the open folder.\<close>

theorem edited_file_written_back:
  assumes "listed_path (se_path entry)" "canEditTextFiles (storage_rights_of can base)"
    and "fst (apiRequest ev (get_request (download_path base encode entry)) l) = Inr v"
  shows "write_request base (fst (load can base encode lc ev' folder (fst (editTextEntry can base encode body ev entry st l)) l')
            \<lparr>sd_fileContent := typed\<rparr>) =
     post_request (base @ ''/files-write'') (JObj [(''path'', JStr (se_path entry)), (''content'', JStr typed)])"
proof -
  obtain l1 where "apiRequest ev (get_request (download_path base encode entry)) l = (Inr v, l1)"
    using assms(3) by (metis prod.collapse)
  then have "sd_filePath (fst (editTextEntry can base encode body ev entry st l)) = rootStoragePath (se_path entry)"
    using assms(2) by (simp add: editTextEntry_def)
  then show ?thesis using resolve_listed [OF assms(1)] by (simp add: write_request_def)
qed

definition listing_server :: env where
  "listing_server = \<lparr>ev_fetch = (\<lambda>_. Inr \<lparr>rs_ok = True, rs_status = 200, rs_status_text = ''OK'', rs_json = None\<rparr>),
     ev_mfa = (\<lambda>_. ''''), ev_confirm = (\<lambda>_. True)\<rparr>"

definition notes_entry :: storage_entry where
  "notes_entry = \<lparr>se_name = ''a.txt'', se_path = ''docs/a.txt'', se_is_dir = False\<rparr>"

lemma edited_file_written_back_witness:
  "write_request ''/api/s'' (fst (load (\<lambda>_ _. True) ''/api/s'' (\<lambda>s. s) (\<lambda>_ _. 0) listing_server ''other''
       (fst (editTextEntry (\<lambda>_ _. True) ''/api/s'' (\<lambda>s. s) (\<lambda>_. ''old'') listing_server notes_entry initial_storage [])) [])
       \<lparr>sd_fileContent := ''new''\<rparr>) =
     post_request (''/api/s'' @ ''/files-write'') (JObj [(''path'', JStr (se_path notes_entry)), (''content'', JStr ''new'')])"
  by (rule edited_file_written_back [where v = "JObj []"])
    (simp_all add: notes_entry_def listed_path_def is_ws_def canEditTextFiles_def storage_rights_of_def listing_server_def
      apiRequest_def api_result_def)

text \<open>A copy's name is a name, starts and ends like the original's, and has no character the original lacks but
  those of the suffix.\<close>

lemma suffixed_name_shape:
  assumes "n \<noteq> ''''"
  obtains a b where "n = a @ b" "suffixed_name suff n d = a @ ''-'' @ suff @ b" "a \<noteq> ''''"
proof (cases "d \<or> (\<nexists>i. last_index CHR ''.'' n = Some (Suc i))")
  case True
  then have "suffixed_name suff n d = n @ ''-'' @ suff @ []"
    by (auto simp: suffixed_name_def split: option.split nat.split)
  then show ?thesis using that [of n "[]"] assms by simp
next
  case False
  then obtain i where "last_index CHR ''.'' n = Some (Suc i)" "\<not> d" by auto
  then show ?thesis using that [of "take (Suc i) n" "drop (Suc i) n"] assms by (simp add: suffixed_name_def)
qed

lemma join_snoc: "join ''/'' (ws @ [n]) = (if ws = [] then n else join ''/'' ws @ ''/'' @ n)"
  by (induction ws) (auto simp: join_Cons)

lemma listed_sibling:
  assumes "listed_path (join ''/'' (ws @ [n]))" "n \<noteq> ''''"
    "copied = copiedStorageName n d"
  shows "listed_path (join ''/'' (ws @ [copied])) \<and> copied \<noteq> '''' \<and> (CHR ''/'' \<notin> set n \<longrightarrow> CHR ''/'' \<notin> set copied)"
proof -
  obtain a b where ab: "n = a @ b" "copied = a @ ''-copy'' @ b" "a \<noteq> ''''"
    using suffixed_name_shape [OF assms(2), of "''copy''" d] assms(3) by (auto simp: copiedStorageName_def)
  have y: "\<not> is_ws CHR ''y''" by (simp add: is_ws_def)
  show ?thesis using assms(1) ab y
    by (cases "b = []"; cases "ws = []"; cases "join ''/'' ws = []") (auto simp: listed_path_def join_snoc hd_append)
qed

text \<open>The copy a row's button prepares goes from the entry to a new name beside it, whatever folder is open when
  it is sent.\<close>

theorem prepared_copy_beside_entry:
  assumes "list_all plain_name ws" "plain_name (se_name entry)" "ws \<noteq> [''.'']"
    and path: "se_path entry = join ''/'' (ws @ [se_name entry])" and listed: "listed_path (se_path entry)"
    and "sr_copy (storage_rights_of can base)"
    and after: "st' = fst (load can base encode lc ev folder (prefillCopyEntry can base entry st) l)"
  shows "transfer_request base ''copy'' (sd_path st') (sd_copySource st') (sd_copyDestination st') (sd_copyOverwrite st') =
     post_request (base @ ''/files-copy'')
       (JObj [(''path'', JStr (se_path entry)),
              (''destination'', JStr (join ''/'' (ws @ [copiedStorageName (se_name entry) (se_is_dir entry)]))),
              (''overwrite'', JBool False)])"
proof -
  let ?n = "se_name entry" and ?copied = "copiedStorageName (se_name entry) (se_is_dir entry)"
  have n: "?n \<noteq> ''''" "CHR ''/'' \<notin> set ?n" using assms(2) by (simp_all add: plain_name_def)
  have c: "listed_path (join ''/'' (ws @ [?copied]))" "plain_name ?copied"
    using listed_sibling [OF _ n(1) refl, of ws "se_is_dir entry"] listed n path by (auto simp: plain_name_def)
  have dot: "storage_dir ws \<noteq> ''.'' \<or> ws = []"
  proof (cases ws rule: list.exhaust)
    case (Cons w us)
    show ?thesis
    proof (cases "us = []")
      case True
      then show ?thesis using Cons assms(3) by (simp add: storage_dir_def)
    next
      case False
      then have "length (join ''/'' ws) > 1" using Cons assms(1) by (auto simp: join_Cons plain_name_def)
      then show ?thesis using Cons by (auto simp: storage_dir_def)
    qed
  qed simp
  have "siblingStoragePath (se_path entry) ?copied = join ''/'' (ws @ [?copied])"
    using storage_parent_join [OF assms(1,2) dot] storage_parent_join [OF assms(1) c(2) dot] path
    by (metis siblingStoragePath_def)
  then show ?thesis
    using assms(6) after resolve_listed [OF listed] resolve_listed [OF c(1)]
    by (simp add: transfer_request_def prefillCopyEntry_def)
qed

lemma prepared_copy_beside_entry_witness:
  "\<exists>st'. st' = fst (load (\<lambda>_ _. True) ''/api/s'' (\<lambda>s. s) (\<lambda>_ _. 0) listing_server ''other''
      (prefillCopyEntry (\<lambda>_ _. True) ''/api/s'' notes_entry initial_storage) []) \<and>
    transfer_request ''/api/s'' ''copy'' (sd_path st') (sd_copySource st') (sd_copyDestination st') (sd_copyOverwrite st') =
     post_request (''/api/s'' @ ''/files-copy'')
       (JObj [(''path'', JStr (se_path notes_entry)),
              (''destination'', JStr (join ''/'' ([''docs''] @ [copiedStorageName (se_name notes_entry) (se_is_dir notes_entry)]))),
              (''overwrite'', JBool False)])"
proof -
  have pre: "list_all plain_name [''docs'']" "plain_name (se_name notes_entry)" "[''docs''] \<noteq> [''.'']"
    "se_path notes_entry = join ''/'' ([''docs''] @ [se_name notes_entry])" "listed_path (se_path notes_entry)"
    "sr_copy (storage_rights_of (\<lambda>_ _. True) ''/api/s'')"
    by (simp_all add: notes_entry_def plain_name_def listed_path_def is_ws_def storage_rights_of_def)
  show ?thesis
    by (rule exI, rule conjI [OF refl prepared_copy_beside_entry [OF pre refl]])
qed

lemma set_insert_by: "set (insert_by cmp x ys) = insert x (set ys)"
  by (induction ys) auto

text \<open>A listing shows every entry once, folders before files, whatever order the server and the browser's
  comparison give.\<close>

theorem storage_listing_sorted:
  "mset (sortStorageEntries lc es) = mset es \<and>
   sorted_wrt (\<lambda>a b. se_is_dir b \<longrightarrow> se_is_dir a) (sortStorageEntries lc es)"
proof
  let ?c = "\<lambda>left right. if se_is_dir left \<noteq> se_is_dir right then (if se_is_dir left then -1 else 1)
    else lc (se_name left) (se_name right) :: rat"
  have ins: "sorted_wrt (\<lambda>a b. se_is_dir b \<longrightarrow> se_is_dir a) (insert_by ?c x ys)"
    if "sorted_wrt (\<lambda>a b. se_is_dir b \<longrightarrow> se_is_dir a) ys" for x ys
    using that
  proof (induction ys)
    case (Cons y ys)
    then show ?case by (auto simp: set_insert_by split: if_splits)
  qed simp
  show "sorted_wrt (\<lambda>a b. se_is_dir b \<longrightarrow> se_is_dir a) (sortStorageEntries lc es)"
    unfolding sortStorageEntries_def js_sort_def by (induction es) (simp_all only: foldr.simps comp_def id_apply sorted_wrt.simps ins)
  show "mset (sortStorageEntries lc es) = mset es" by (simp add: sortStorageEntries_def)
qed

end
