(* ===== verification/Certificates.thy ===== *)
theory Certificates
  imports Dialogs StorageFiles
begin

text \<open>
  The certificate dialogs of \<open>platform-page.tsx\<close>: self-signed certificates, uploads, ACME, DNS providers and mTLS.
  Picked files are values the upload carries.
\<close>

section \<open>Self-signed certificates\<close>

record certificate_form =
  cf_name :: string
  cf_domain :: string
  cf_dns :: string
  cf_ip :: string
  cf_days :: string
  cf_saving :: bool

definition open_certificate :: certificate_form where
  "open_certificate = \<lparr>cf_name = '''', cf_domain = '''', cf_dns = '''', cf_ip = '''', cf_days = ''365'', cf_saving = False\<rparr>"

definition string_array :: "string list \<Rightarrow> jsval" where
  "string_array xs = JArr (map JStr xs)"

definition days_or :: "rat \<Rightarrow> string \<Rightarrow> jsval" where
  "days_or d s = JNum (num_or (to_number s) (Fin d))"

definition certificate_request :: "certificate_form \<Rightarrow> request" where
  "certificate_request st =
     post_request ''/api/admin/certificates/self-signed''
       (JObj [(''name'', JStr (cf_name st)), (''domain'', JStr (cf_domain st)), (''dns'', string_array (splitCSV (cf_dns st))),
              (''ip'', string_array (splitCSV (cf_ip st))), (''days'', days_or 365 (cf_days st))])"

definition CertificateCreateDialog :: "bool \<Rightarrow> env \<Rightarrow> certificate_form \<Rightarrow> log \<Rightarrow> certificate_form \<times> log" where
  "CertificateCreateDialog canSubmit ev st l =
     (if \<not> canSubmit then (st, permission_denied l)
      else case apiRequest ev (certificate_request st) l of
             (Inl e, l') \<Rightarrow> (st\<lparr>cf_saving := False\<rparr>, report e l')
           | (Inr _, l') \<Rightarrow> (st\<lparr>cf_saving := False\<rparr>, toast ''self-signed certificate created'' (refresh True l') @ [CloseDialog]))"

interpretation certificate_create: submit_dialog CertificateCreateDialog "\<lambda>st rq. rq = certificate_request st"
proof
  fix ev :: env and st :: certificate_form and l :: log
  show "calls (snd (CertificateCreateDialog False ev st l)) = calls l" by (simp add: CertificateCreateDialog_def)
  show "\<exists>new. calls (snd (CertificateCreateDialog True ev st l)) = calls l @ new \<and> list_all (\<lambda>rq. rq = certificate_request st) new"
    by (cases rule: apiRequest_cases [of ev "certificate_request st" l]) (auto simp: CertificateCreateDialog_def)
qed

section \<open>Uploads\<close>

record certificate_upload =
  cu_name :: string
  cu_certificate :: "jsval option"
  cu_private_key :: "jsval option"
  cu_chain :: "jsval option"
  cu_saving :: bool

definition optional_field :: "string \<Rightarrow> jsval option \<Rightarrow> js_object" where
  "optional_field k v = (case v of None \<Rightarrow> [] | Some x \<Rightarrow> [(k, x)])"

definition certificate_upload_request :: "certificate_upload \<Rightarrow> jsval \<Rightarrow> request" where
  "certificate_upload_request st certificate =
     \<lparr>rq_method = ''POST'', rq_path = ''/api/admin/certificates/upload'',
      rq_body = Some (JObj ([(''name'', JStr (cu_name st)), (''certificate'', certificate)]
        @ optional_field ''private_key'' (cu_private_key st) @ optional_field ''chain'' (cu_chain st))),
      rq_json_header = False\<rparr>"

definition CertificateUploadDialog :: "bool \<Rightarrow> env \<Rightarrow> certificate_upload \<Rightarrow> log \<Rightarrow> certificate_upload \<times> log" where
  "CertificateUploadDialog canUpload ev st l =
     (if \<not> canUpload then (st, permission_denied l)
      else case cu_certificate st of
             None \<Rightarrow> (st, l)
           | Some certificate \<Rightarrow>
               (case apiRequest ev (certificate_upload_request st certificate) l of
                  (Inl e, l') \<Rightarrow> (st\<lparr>cu_saving := False\<rparr>, report (without_payload e) l')
                | (Inr _, l') \<Rightarrow> (st\<lparr>cu_saving := False\<rparr>, toast ''certificate uploaded'' (refresh True l') @ [CloseDialog])))"

interpretation certificate_upload: submit_dialog CertificateUploadDialog
  "\<lambda>st rq. rq_method rq = ''POST'' \<and> rq_path rq = ''/api/admin/certificates/upload''"
proof
  fix ev :: env and st :: certificate_upload and l :: log
  show "calls (snd (CertificateUploadDialog False ev st l)) = calls l" by (simp add: CertificateUploadDialog_def)
  show "\<exists>new. calls (snd (CertificateUploadDialog True ev st l)) = calls l @ new \<and>
      list_all (\<lambda>rq. rq_method rq = ''POST'' \<and> rq_path rq = ''/api/admin/certificates/upload'') new"
  proof (cases "cu_certificate st")
    case (Some c)
    then show ?thesis
      by (cases rule: apiRequest_cases [of ev "certificate_upload_request st c" l])
        (auto simp: CertificateUploadDialog_def certificate_upload_request_def)
  qed (simp add: CertificateUploadDialog_def)
qed

section \<open>ACME\<close>

record acme_dialog =
  ac_providers :: "jsval list"
  ac_name :: string
  ac_domain :: string
  ac_dns :: string
  ac_ip :: string
  ac_email :: string
  ac_days :: string
  ac_mode :: string
  ac_directory :: string
  ac_challenge :: string
  ac_provider_id :: string
  ac_default :: bool
  ac_mtls :: bool
  ac_saving :: bool
  ac_issued :: "jsval option"

definition open_acme :: acme_dialog where
  "open_acme = \<lparr>ac_providers = [], ac_name = '''', ac_domain = '''', ac_dns = '''', ac_ip = '''', ac_email = '''', ac_days = ''90'',
     ac_mode = ''letsencrypt'', ac_directory = '''', ac_challenge = ''http-01'', ac_provider_id = '''', ac_default = False,
     ac_mtls = False, ac_saving = False, ac_issued = None\<rparr>"

text \<open>The list of DNS providers the dialog loads when it opens; a failure leaves it empty, quietly.\<close>

definition acme_providers :: "can_use \<Rightarrow> env \<Rightarrow> acme_dialog \<Rightarrow> log \<Rightarrow> acme_dialog \<times> log" where
  "acme_providers can ev st l =
     (if \<not> can ''GET'' ''/api/admin/certificates/dns-providers''
      then (st\<lparr>ac_providers := [], ac_provider_id := ''''\<rparr>, l)
      else case apiRequest ev (get_request ''/api/admin/certificates/dns-providers'') l of
             (Inl _, l') \<Rightarrow> (st\<lparr>ac_providers := []\<rparr>, l')
           | (Inr data, l') \<Rightarrow>
               (st\<lparr>ac_providers := (case js_prop data ''items'' of Inr (JArr xs) \<Rightarrow> xs | _ \<Rightarrow> [])\<rparr>, l'))"

definition directoryURL :: "acme_dialog \<Rightarrow> string" where
  "directoryURL st =
     (if ac_mode st = ''letsencrypt'' then ''https://acme-v02.api.letsencrypt.org/directory''
      else if ac_mode st = ''staging'' then ''https://acme-staging-v02.api.letsencrypt.org/directory''
      else if ac_mode st = ''local-ca'' then ''local-ca'' else trim (ac_directory st))"

definition acme_body :: "acme_dialog \<Rightarrow> js_object" where
  "acme_body st =
     [(''name'', JStr (ac_name st)), (''domain'', JStr (ac_domain st)), (''dns'', string_array (splitCSV (ac_dns st))),
      (''ip'', string_array (splitCSV (ac_ip st))), (''email'', JStr (ac_email st)), (''days'', days_or 90 (ac_days st)),
      (''directory_url'', JStr (directoryURL st)),
      (''challenge_type'', JStr (if ac_mode st = ''local-ca'' then ''http-01'' else ac_challenge st))]
     @ (if ac_challenge st = ''dns-01'' then [(''dns_provider_id'', JStr (ac_provider_id st))] else [])
     @ [(''default'', JBool (ac_default st)), (''mtls_enabled'', JBool (ac_mtls st))]"

definition acme_request :: "acme_dialog \<Rightarrow> request" where
  "acme_request st = post_request ''/api/admin/certificates/acme'' (JObj (acme_body st))"

definition CertificateACMEDialog :: "can_use \<Rightarrow> env \<Rightarrow> acme_dialog \<Rightarrow> log \<Rightarrow> acme_dialog \<times> log" where
  "CertificateACMEDialog can ev st l =
     (if \<not> can ''POST'' ''/api/admin/certificates/acme'' then (st, permission_denied l)
      else if directoryURL st = '''' then (st, l)
      else case apiRequest ev (acme_request st) l of
             (Inl e, l') \<Rightarrow> (st\<lparr>ac_saving := False\<rparr>, report e l')
           | (Inr item, l') \<Rightarrow> (st\<lparr>ac_issued := Some item, ac_saving := False\<rparr>, toast ''certificateAcmeIssued'' (refresh True l')))"

definition acme_enabled :: "can_use \<Rightarrow> acme_dialog \<Rightarrow> bool" where
  "acme_enabled can st \<longleftrightarrow>
     \<not> ac_saving st \<and> trim (ac_domain st) \<noteq> '''' \<and> can ''POST'' ''/api/admin/certificates/acme''
     \<and> \<not> (ac_mode st = ''custom'' \<and> trim (ac_directory st) = '''')
     \<and> \<not> (ac_mode st \<noteq> ''local-ca'' \<and> ac_challenge st = ''dns-01'' \<and> ac_provider_id st = '''')"

section \<open>DNS providers\<close>

record dns_dialog =
  dn_providers :: "platform_item list"
  dn_editing :: "platform_item option"
  dn_name :: string
  dn_provider :: string
  dn_zone :: string
  dn_accessKeyID :: string
  dn_token :: string
  dn_timeout :: string
  dn_saving :: bool

definition resetForm :: "dns_dialog \<Rightarrow> dns_dialog" where
  "resetForm st = st\<lparr>dn_editing := None, dn_name := '''', dn_provider := ''cloudflare'', dn_zone := '''', dn_accessKeyID := '''',
     dn_token := '''', dn_timeout := ''120''\<rparr>"

definition open_dns :: dns_dialog where
  "open_dns = \<lparr>dn_providers = [], dn_editing = None, dn_name = '''', dn_provider = ''cloudflare'', dn_zone = '''',
     dn_accessKeyID = '''', dn_token = '''', dn_timeout = ''120'', dn_saving = False\<rparr>"

definition provider_of :: "platform_item \<Rightarrow> string" where
  "provider_of item = or_str (mtext item ''provider'') ''cloudflare''"

definition editProvider :: "platform_item \<Rightarrow> dns_dialog \<Rightarrow> dns_dialog" where
  "editProvider item st =
     st\<lparr>dn_editing := Some item, dn_name := it_name item, dn_provider := provider_of item, dn_zone := mtext item ''zone'',
        dn_accessKeyID := mtext item ''access_key_id'', dn_token := '''',
        dn_timeout := num_text (num_or (Fin (metadataNumber (meta item ''propagation_timeout_seconds''))) (Fin 120))\<rparr>"

definition dns_path :: "string" where
  "dns_path = ''/api/admin/certificates/dns-providers''"

definition dns_target :: "dns_dialog \<Rightarrow> string \<times> string" where
  "dns_target st = (case dn_editing st of Some item \<Rightarrow> (''PATCH'', dns_path @ ''/'' @ it_id item) | None \<Rightarrow> (''POST'', dns_path))"

definition dns_body :: "dns_dialog \<Rightarrow> js_object" where
  "dns_body st =
     [(''name'', JStr (dn_name st)), (''provider'', JStr (dn_provider st)), (''zone'', JStr (dn_zone st))]
     @ (if dn_provider st = ''alidns'' then [(''access_key_id'', JStr (dn_accessKeyID st))] else [])
     @ (if dn_token st \<noteq> '''' then [(''token'', JStr (dn_token st))] else [])
     @ [(''propagation_timeout_seconds'', days_or 120 (dn_timeout st))]"

definition dns_request :: "dns_dialog \<Rightarrow> request" where
  "dns_request st = (case dns_target st of (m, p) \<Rightarrow> mk_request m p (Some (JObj (dns_body st))))"

text \<open>\<open>items_of\<close>: the records of an answer.\<close>

definition loadProviders :: "(jsval \<Rightarrow> platform_item list) \<Rightarrow> can_use \<Rightarrow> env \<Rightarrow> dns_dialog \<Rightarrow> log \<Rightarrow> (exn + dns_dialog) \<times> log" where
  "loadProviders items_of can ev st l =
     (if \<not> can ''GET'' dns_path then (Inr (st\<lparr>dn_providers := []\<rparr>), l)
      else case apiRequest ev (get_request dns_path) l of
             (Inl e, l') \<Rightarrow> (Inl e, l')
           | (Inr data, l') \<Rightarrow>
               (case js_prop data ''items'' of Inl e \<Rightarrow> (Inl e, l') | Inr v \<Rightarrow> (Inr (st\<lparr>dn_providers := items_of v\<rparr>), l')))"

definition dns_submit :: "(jsval \<Rightarrow> platform_item list) \<Rightarrow> can_use \<Rightarrow> env \<Rightarrow> dns_dialog \<Rightarrow> log \<Rightarrow> dns_dialog \<times> log" where
  "dns_submit items_of can ev st l =
     (if \<not> can (fst (dns_target st)) (snd (dns_target st)) then (st, permission_denied l)
      else let st0 = st\<lparr>dn_saving := False\<rparr>
           in case apiRequest ev (dns_request st) l of
                (Inl e, l') \<Rightarrow> (st0, report e l')
              | (Inr _, l') \<Rightarrow>
                  (case loadProviders items_of can ev st0 l' of
                     (Inl e, l2) \<Rightarrow> (st0, report e l2)
                   | (Inr st1, l2) \<Rightarrow> (resetForm st1, toast ''dnsProviderSaved'' (refresh True l2))))"

definition delete_provider_request :: "platform_item \<Rightarrow> request" where
  "delete_provider_request item = mk_request ''DELETE'' (dns_path @ ''/'' @ it_id item) None"

definition deleteProvider ::
  "(jsval \<Rightarrow> platform_item list) \<Rightarrow> can_use \<Rightarrow> env \<Rightarrow> platform_item \<Rightarrow> dns_dialog \<Rightarrow> log \<Rightarrow> dns_dialog \<times> log" where
  "deleteProvider items_of can ev item st l =
     (if \<not> can ''DELETE'' (dns_path @ ''/'' @ it_id item) then (st, l)
      else case confirm ev ''deleteDNSProviderTitle'' l of
             (False, l1) \<Rightarrow> (st, l1)
           | (True, l1) \<Rightarrow>
               (case apiRequest ev (delete_provider_request item) l1 of
                  (Inl e, l2) \<Rightarrow> (st, report e l2)
                | (Inr _, l2) \<Rightarrow>
                    (case loadProviders items_of can ev st l2 of
                       (Inl e, l3) \<Rightarrow> (st, report e l3)
                     | (Inr st1, l3) \<Rightarrow>
                         (if map_option it_id (dn_editing st) = Some (it_id item) then resetForm st1 else st1,
                          toast ''dnsProviderDeleted'' (refresh True l3)))))"

definition providerChanged :: "dns_dialog \<Rightarrow> bool" where
  "providerChanged st \<longleftrightarrow> (case dn_editing st of Some item \<Rightarrow> dn_provider st \<noteq> provider_of item | None \<Rightarrow> False)"

definition dns_enabled :: "can_use \<Rightarrow> dns_dialog \<Rightarrow> bool" where
  "dns_enabled can st \<longleftrightarrow>
     \<not> dn_saving st \<and> can (fst (dns_target st)) (snd (dns_target st)) \<and> trim (dn_name st) \<noteq> '''' \<and> trim (dn_zone st) \<noteq> ''''
     \<and> \<not> ((dn_editing st = None \<or> providerChanged st) \<and> trim (dn_token st) = '''')
     \<and> \<not> (dn_provider st = ''alidns'' \<and> trim (dn_accessKeyID st) = '''')"

section \<open>mTLS\<close>

record mtls_dialog =
  mt_enabled :: bool
  mt_clientCA :: string
  mt_saving :: bool

definition open_mtls :: "platform_item \<Rightarrow> mtls_dialog" where
  "open_mtls item = \<lparr>mt_enabled = metadataBool (meta item ''mtls_enabled''), mt_clientCA = '''', mt_saving = False\<rparr>"

definition mtls_request :: "platform_item \<Rightarrow> mtls_dialog \<Rightarrow> request" where
  "mtls_request item st =
     post_request (certificate_path item @ ''/mtls'')
       (JObj ((''enabled'', JBool (mt_enabled st)) # (if mt_clientCA st = '''' then [] else [(''client_ca'', JStr (mt_clientCA st))])))"

definition CertificateMTLSDialog :: "platform_item \<Rightarrow> bool \<Rightarrow> env \<Rightarrow> mtls_dialog \<Rightarrow> log \<Rightarrow> mtls_dialog \<times> log" where
  "CertificateMTLSDialog item canSave ev st l =
     (if \<not> canSave then (st, permission_denied l)
      else case apiRequest ev (mtls_request item st) l of
             (Inl e, l') \<Rightarrow> (st\<lparr>mt_saving := False\<rparr>, report e l')
           | (Inr _, l') \<Rightarrow> (st\<lparr>mt_saving := False\<rparr>, toast ''mtlsSettingsSaved'' (refresh True l') @ [CloseDialog]))"

interpretation certificate_mtls: submit_dialog "CertificateMTLSDialog item" "\<lambda>st rq. rq = mtls_request item st"
proof
  fix ev :: env and st :: mtls_dialog and l :: log
  show "calls (snd (CertificateMTLSDialog item False ev st l)) = calls l" by (simp add: CertificateMTLSDialog_def)
  show "\<exists>new. calls (snd (CertificateMTLSDialog item True ev st l)) = calls l @ new \<and> list_all (\<lambda>rq. rq = mtls_request item st) new"
    by (cases rule: apiRequest_cases [of ev "mtls_request item st" l]) (auto simp: CertificateMTLSDialog_def)
qed

section \<open>Properties\<close>

lemma days_or_whole: "days_or d (num_text (num_or (Fin (of_int n)) (Fin (of_int m)))) =
    JNum (Fin (if n = 0 then (if m = 0 then d else of_int m) else of_int n))"
  by (auto simp: days_or_def num_or_def num_text_int to_number_int)

text \<open>Saving a DNS provider right after opening it for editing sends its stored settings to its own address and never
  a secret, so the stored one is kept.\<close>

theorem dns_edit_keeps_secret:
  assumes "meta item ''propagation_timeout_seconds'' = JNum (Fin (of_int n))" "n \<noteq> 0"
  shows "dns_request (editProvider item st) =
    mk_request ''PATCH'' (''/api/admin/certificates/dns-providers/'' @ it_id item)
      (Some (JObj ([(''name'', JStr (it_name item)), (''provider'', JStr (provider_of item)), (''zone'', JStr (mtext item ''zone''))]
        @ (if provider_of item = ''alidns'' then [(''access_key_id'', JStr (mtext item ''access_key_id''))] else [])
        @ [(''propagation_timeout_seconds'', JNum (Fin (of_int n)))])))"
proof -
  have "dns_timeout_value = JNum (Fin (of_int n))"
    if "dns_timeout_value = days_or 120 (num_text (num_or (Fin (of_int n)) (Fin 120)))" for dns_timeout_value
    using that days_or_whole [of 120 n 120] assms(2) by simp
  then show ?thesis using assms(1)
    by (simp add: dns_request_def dns_target_def dns_body_def editProvider_def dns_path_def metadataNumber_def)
qed

lemma dns_edit_keeps_secret_witness:
  "dns_request (editProvider (blank_item\<lparr>it_id := ''d1'', it_metadata := Some [(''propagation_timeout_seconds'', JNum (Fin (of_int 60)))]\<rparr>) open_dns) =
    mk_request ''PATCH'' (''/api/admin/certificates/dns-providers/'' @ ''d1'')
      (Some (JObj ([(''name'', JStr ''''), (''provider'', JStr ''cloudflare''), (''zone'', JStr '''')]
        @ [] @ [(''propagation_timeout_seconds'', JNum (Fin (of_int 60)))])))"
  using dns_edit_keeps_secret [of "blank_item\<lparr>it_id := ''d1'', it_metadata := Some [(''propagation_timeout_seconds'', JNum (Fin (of_int 60)))]\<rparr>" 60 open_dns]
  by (simp add: blank_item_def meta_def obj_get_def provider_of_def mtext_def or_str_def)

text \<open>A provider that was created but whose list could not be read afterwards is reported as failed, and the form keeps
  what was typed: the button stays enabled and pressing it again creates the provider a second time.\<close>

theorem dns_created_twice:
  assumes "dns_enabled can st" "dn_editing st = None" "can ''GET'' dns_path"
    and "fst (apiRequest ev (dns_request st) l) = Inr v"
    and "fst (apiRequest ev (get_request dns_path) (l @ [Call (dns_request st)])) = Inl e"
  shows "\<exists>st' l'. dns_submit items_of can ev st l = (st', l') \<and> l' = l @ [Call (dns_request st), Call (get_request dns_path), ReportError e] \<and>
    dns_enabled can st' \<and> dns_request st' = dns_request st \<and> rq_method (dns_request st') = ''POST''"
proof -
  have can: "can (fst (dns_target st)) (snd (dns_target st))" "\<not> dn_saving st" using assms(1) by (simp_all add: dns_enabled_def)
  have st0: "st\<lparr>dn_saving := False\<rparr> = st" using can(2) by simp
  have "dns_submit items_of can ev st l = (st, l @ [Call (dns_request st), Call (get_request dns_path), ReportError e])"
    using can assms(3-5) apiRequest_eq [of ev "dns_request st" l] apiRequest_eq [of ev "get_request dns_path" "l @ [Call (dns_request st)]"]
    by (simp add: dns_submit_def loadProviders_def st0 report_def)
  then show ?thesis using assms(1,2) by (simp add: dns_request_def dns_target_def)
qed

definition typed_provider :: dns_dialog where
  "typed_provider = open_dns\<lparr>dn_name := ''n'', dn_zone := ''z'', dn_token := ''t''\<rparr>"

lemma dns_created_twice_witness:
  "\<exists>st' l'. dns_submit (\<lambda>_. []) (\<lambda>_ _. True) second_call_fails typed_provider [] = (st', l') \<and>
    l' = [] @ [Call (dns_request typed_provider), Call (get_request dns_path), ReportError (OtherError ''offline'')] \<and>
    dns_enabled (\<lambda>_ _. True) st' \<and> dns_request st' = dns_request typed_provider \<and> rq_method (dns_request st') = ''POST''"
  by (rule dns_created_twice [where v = "JObj []"])
    (simp_all add: typed_provider_def open_dns_def dns_enabled_def trim_id is_ws_def apiRequest_def second_call_fails_def
      api_result_def js_prop_def Let_def)

text \<open>Whenever the ACME form can be sent, it names a directory, and a DNS challenge comes with a DNS provider; without
  the permission nothing is sent at all.\<close>

theorem acme_form_complete:
  assumes "acme_enabled can st" "ac_mode st \<in> {''letsencrypt'', ''staging'', ''local-ca'', ''custom''}"
  shows "obj_get (acme_body st) ''directory_url'' \<noteq> JStr '''' \<and>
    (obj_get (acme_body st) ''challenge_type'' = JStr ''dns-01'' \<longrightarrow>
       (\<exists>i. i \<noteq> '''' \<and> obj_get (acme_body st) ''dns_provider_id'' = JStr i)) \<and>
    calls (snd (CertificateACMEDialog can ev st l)) = calls l @ [acme_request st]"
proof -
  have dir: "directoryURL st \<noteq> ''''" using assms by (auto simp: directoryURL_def acme_enabled_def)
  have sent: "calls (snd (CertificateACMEDialog can ev st l)) = calls l @ [acme_request st]"
    using assms(1) dir by (cases rule: apiRequest_cases [of ev "acme_request st" l]) (simp_all add: CertificateACMEDialog_def acme_enabled_def)
  have "obj_get (acme_body st) ''directory_url'' = JStr (directoryURL st)"
    "obj_get (acme_body st) ''challenge_type'' = JStr (if ac_mode st = ''local-ca'' then ''http-01'' else ac_challenge st)"
    by (simp_all add: acme_body_def obj_get_def)
  moreover have "obj_get (acme_body st) ''dns_provider_id'' = JStr (ac_provider_id st)" if "ac_challenge st = ''dns-01''"
    using that by (simp add: acme_body_def obj_get_def)
  ultimately show ?thesis using assms(1) dir sent by (auto simp: acme_enabled_def)
qed

lemma acme_form_complete_witness:
  "obj_get (acme_body (open_acme\<lparr>ac_domain := ''a.b''\<rparr>)) ''directory_url'' \<noteq> JStr ''''"
  by (rule acme_form_complete [where can = "\<lambda>_ _. True", THEN conjunct1])
    (simp_all add: open_acme_def acme_enabled_def trim_id is_ws_def)

end
