(* ===== verification/Gateways.thy ===== *)
theory Gateways
  imports Dialogs
begin

text \<open>
  The live status of gateways (\<open>GatewayStatusDialog\<close>, \<open>AgentGatewayStatusContent\<close>, \<open>GatewayGroupStatusContent\<close>)
  and the playback of recordings (\<open>RecordingPlaybackDialog\<close>) of \<open>platform-page.tsx\<close>. Both dialogs read with
  queries of the query library: a query that is not enabled stays pending, without data and without a request.
\<close>

section \<open>Gateway status\<close>

record query_state =
  qs_pending :: bool
  qs_fetching :: bool
  qs_error :: "string option"
  qs_data :: jsval

definition gateway_endpoint :: "string \<Rightarrow> string" where
  "gateway_endpoint collection =
     (if collection = ''agent_gateways'' then ''/api/admin/agent-gateways/status'' else ''/api/admin/gateway-groups/status'')"

text \<open>One tick of the polling: a request when the role may read, none otherwise.\<close>

definition gateway_poll :: "string \<Rightarrow> bool \<Rightarrow> env \<Rightarrow> query_state \<Rightarrow> log \<Rightarrow> query_state \<times> log" where
  "gateway_poll collection canRead ev q l =
     (if \<not> canRead then (q, l)
      else case apiRequest ev (get_request (gateway_endpoint collection)) l of
             (Inl e, l') \<Rightarrow> (q\<lparr>qs_pending := False, qs_error := Some (case e of ApiError err \<Rightarrow> ae_message err | OtherError m \<Rightarrow> m)\<rparr>, l')
           | (Inr v, l') \<Rightarrow> (\<lparr>qs_pending = False, qs_fetching = False, qs_error = None, qs_data = v\<rparr>, l'))"

definition find_by_id :: "string \<Rightarrow> jsval \<Rightarrow> js_object option" where
  "find_by_id i v = (case v of JArr xs \<Rightarrow> find (\<lambda>ob. obj_get ob ''id'' = JStr i) (map recordValue xs) | _ \<Rightarrow> None)"

definition status_item :: "platform_item \<Rightarrow> query_state \<Rightarrow> js_object option" where
  "status_item item q = find_by_id (it_id item) (obj_get (recordValue (qs_data q)) ''items'')"

definition status_badge :: "platform_item \<Rightarrow> query_state \<Rightarrow> string" where
  "status_badge item q =
     or_str (case status_item item q of Some ob \<Rightarrow> stringValue (obj_get ob ''status'') | None \<Rightarrow> '''')
       (or_str (it_status item) ''-'')"

definition list_text :: "jsval \<Rightarrow> string" where
  "list_text v = (case v of JArr xs \<Rightarrow> js_to_string (JArr xs) | _ \<Rightarrow> '''')"

definition words_or :: "string \<Rightarrow> string list \<Rightarrow> string" where
  "words_or sep ws = join sep (filter (\<lambda>w. w \<noteq> '''') ws)"

definition AgentGatewayStatusContent :: "formats \<Rightarrow> js_object \<Rightarrow> js_object \<Rightarrow> (string \<times> string) list" where
  "AgentGatewayStatusContent fm item summary =
     (let metadata = recordValue (obj_get item ''metadata'');
          m = (\<lambda>k. metadataText (obj_get metadata k)); num = (\<lambda>k. formatNumberValue fm (obj_get metadata k));
          bytes = (\<lambda>k. formatBytesValue (obj_get metadata k)); pct = (\<lambda>k. formatPercentValueFromWhole (obj_get metadata k));
          inline = (\<lambda>k. metadataInlineListText (obj_get metadata k))
      in [(''online'', formatNumberValue fm (obj_get summary ''online'')), (''offline'', formatNumberValue fm (obj_get summary ''offline'')),
          (''lastHeartbeat'', fmt_date fm (m ''last_heartbeat_at'')),
          (''hostname'', or_str (m ''hostname'') (or_str (stringValue (obj_get item ''host'')) ''-'')),
          (''version'', or_str (m ''version'') ''-''),
          (''operatingSystem'', or_str (words_or '' / '' [m ''os'', m ''arch'']) ''-''),
          (''ipAddresses'', or_str (inline ''ip_addresses'') (or_str (m ''last_client_ip'') ''-'')),
          (''capabilities'', or_str (inline ''capabilities'') ''-''),
          (''labels'', or_str (inline ''labels'') (or_str (metadataInlineListText (obj_get item ''tags'')) ''-'')),
          (''latency'', num ''latency_ms'' @ '' ms''), (''CPU'', pct ''cpu_percent''),
          (''memory'', bytes ''memory_used_bytes'' @ '' / '' @ bytes ''memory_total_bytes'' @ '' ('' @ pct ''memory_percent'' @ '')''),
          (''disk'', bytes ''disk_used_bytes'' @ '' / '' @ bytes ''disk_total_bytes'' @ '' ('' @ pct ''disk_percent'' @ '')''),
          (''networkReceive'', bytes ''network_rx_bytes''), (''networkTransmit'', bytes ''network_tx_bytes''),
          (''activeSessions'', num ''active_sessions''), (''heartbeatCount'', num ''heartbeat_count'')]
         @ (if m ''offline_reason'' \<noteq> '''' then [(''offlineReason'', m ''offline_reason'')] else []))"

definition comma_list :: "jsval \<Rightarrow> string" where
  "comma_list v = (case v of JArr xs \<Rightarrow> join '', '' (map js_to_string xs) | _ \<Rightarrow> '''')"

definition member_row :: "formats \<Rightarrow> js_object \<Rightarrow> string list" where
  "member_row fm member =
     (let s = (\<lambda>k. stringValue (obj_get member k)); is_online = truthy (obj_get member ''online'')
      in [or_str (s ''name'') (s ''id''), or_str (s ''status'') (if is_online then ''online'' else ''offline''),
          (if s ''host'' \<noteq> '''' then s ''host'' @ (if truthy (obj_get member ''port'') then '':'' @ js_to_string (obj_get member ''port'') else '''') else ''-''),
          formatNumberValue fm (obj_get member ''latency_ms'') @ '' ms'', formatNumberValue fm (obj_get member ''active_sessions''),
          or_str (comma_list (obj_get member ''capabilities'')) ''-'', fmt_date fm (s ''last_heartbeat_at'')])"

definition GatewayGroupStatusContent :: "formats \<Rightarrow> js_object \<Rightarrow> (string \<times> string) list \<times> string list list" where
  "GatewayGroupStatusContent fm status =
     (let members = objectArrayValue (obj_get status ''members''); s = (\<lambda>k. stringValue (obj_get status k));
          selected = recordValue (obj_get status ''selected_gateway'')
      in ([(''selectionMode'', or_str (s ''selection_mode'') ''-''),
           (''members'', formatNumberValue fm (JNum (Fin (of_nat (length members))))),
           (''online'', formatNumberValue fm (obj_get status ''online'')), (''offline'', formatNumberValue fm (obj_get status ''offline'')),
           (''selectedGateway'', or_str (stringValue (obj_get selected ''name'')) (or_str (s ''selected_gateway_id'') ''-'')),
           (''requiredLabels'', or_str (comma_list (obj_get status ''required_labels'')) ''-''),
           (''requiredCapabilities'', or_str (comma_list (obj_get status ''required_capabilities'')) ''-''),
           (''configuredMembers'', or_str (comma_list (obj_get status ''member_ids'')) ''-'')],
          map (member_row fm) members))"

interpretation gateway_status: submit_dialog "gateway_poll collection" "\<lambda>q rq. rq = get_request (gateway_endpoint collection)"
proof
  fix ev :: env and q :: query_state and l :: log
  show "calls (snd (gateway_poll collection False ev q l)) = calls l" by (simp add: gateway_poll_def)
  show "\<exists>new. calls (snd (gateway_poll collection True ev q l)) = calls l @ new \<and>
      list_all (\<lambda>rq. rq = get_request (gateway_endpoint collection)) new"
    by (cases rule: apiRequest_cases [of ev "get_request (gateway_endpoint collection)" l]) (auto simp: gateway_poll_def)
qed

section \<open>Playing a recording\<close>

record playback =
  pb_transcode :: query_state
  pb_container :: bool
  pb_recording :: bool
  pb_loading :: bool
  pb_error :: string
  pb_duration :: rat
  pb_position :: rat
  pb_playing :: bool

definition disabled_query :: query_state where
  "disabled_query = \<lparr>qs_pending = True, qs_fetching = False, qs_error = None, qs_data = JUndefined\<rparr>"

definition open_playback :: playback where
  "open_playback = \<lparr>pb_transcode = disabled_query, pb_container = False, pb_recording = False, pb_loading = True, pb_error = '''',
     pb_duration = 0, pb_position = 0, pb_playing = False\<rparr>"

definition videoURL :: "playback \<Rightarrow> string" where
  "videoURL st = (let v = obj_get (recordValue (qs_data (pb_transcode st))) ''video_url'' in if truthy v then js_to_string v else '''')"

definition transcode_interval :: "playback \<Rightarrow> nat option" where
  "transcode_interval st =
     (if obj_get (recordValue (qs_data (pb_transcode st))) ''status'' \<in> set [JStr ''queued'', JStr ''processing''] then Some 1000 else None)"

text \<open>One request of the status query, sent while the role may play the recording.\<close>

definition transcode_status_poll :: "platform_item \<Rightarrow> bool \<Rightarrow> env \<Rightarrow> playback \<Rightarrow> log \<Rightarrow> playback \<times> log" where
  "transcode_status_poll item canRead ev st l =
     (if \<not> canRead then (st, l)
      else case apiRequest ev (get_request (recording_path item @ ''/transcode'')) l of
             (Inl e, l') \<Rightarrow>
               (st\<lparr>pb_transcode := (pb_transcode st)\<lparr>qs_pending := False,
                  qs_error := Some (case e of ApiError err \<Rightarrow> ae_message err | OtherError m \<Rightarrow> m)\<rparr>\<rparr>, l')
           | (Inr v, l') \<Rightarrow>
               (st\<lparr>pb_transcode := \<lparr>qs_pending = False, qs_fetching = False, qs_error = None, qs_data = v\<rparr>\<rparr>, l'))"

text \<open>One run of the effect. \<open>library\<close> is whether the playback library is loaded.\<close>

definition playback_effect :: "bool \<Rightarrow> bool \<Rightarrow> playback \<Rightarrow> playback" where
  "playback_effect library canRead st =
     (if qs_pending (pb_transcode st) then st
      else if videoURL st \<noteq> '''' then st\<lparr>pb_loading := False, pb_error := ''''\<rparr>
      else if \<not> pb_container st then st
      else if \<not> canRead then st\<lparr>pb_loading := False, pb_error := ''permissionDenied''\<rparr>
      else if \<not> library then st\<lparr>pb_loading := False, pb_error := ''workspace.missingGuacamole''\<rparr>
      else st\<lparr>pb_recording := True\<rparr>)"

text \<open>What the recording reports; \<open>0\<close> for a number that is missing.\<close>

definition on_progress :: "rat \<Rightarrow> rat \<Rightarrow> playback \<Rightarrow> playback" where
  "on_progress nextDuration total_length st = st\<lparr>pb_duration := max 0 (if nextDuration \<noteq> 0 then nextDuration else total_length)\<rparr>"

definition on_seek :: "rat \<Rightarrow> playback \<Rightarrow> playback" where
  "on_seek nextPosition st = st\<lparr>pb_position := max 0 nextPosition\<rparr>"

definition on_play :: "playback \<Rightarrow> playback" where
  "on_play st = st\<lparr>pb_playing := True\<rparr>"

definition on_pause :: "rat \<Rightarrow> playback \<Rightarrow> playback" where
  "on_pause pos st = st\<lparr>pb_position := max 0 pos, pb_playing := False\<rparr>"

definition on_error :: "string \<Rightarrow> playback \<Rightarrow> playback" where
  "on_error message st = st\<lparr>pb_loading := False, pb_error := or_str message ''recordingPlaybackFailed''\<rparr>"

definition on_load :: "rat \<Rightarrow> playback \<Rightarrow> playback" where
  "on_load len st = st\<lparr>pb_duration := max 0 len, pb_loading := False\<rparr>"

definition playback_ready :: "playback \<Rightarrow> bool" where
  "playback_ready st \<longleftrightarrow> pb_recording st \<and> \<not> pb_loading st \<and> pb_error st = ''''"

datatype player_command = PlayerPlay | PlayerPause | PlayerSeek rat

definition togglePlayback :: "bool \<Rightarrow> playback \<Rightarrow> player_command list" where
  "togglePlayback isPlaying st = (if \<not> playback_ready st then [] else if isPlaying then [PlayerPause] else [PlayerPlay])"

definition seek :: "rat \<Rightarrow> playback \<Rightarrow> player_command list" where
  "seek nextPosition st = (if playback_ready st then [PlayerSeek nextPosition] else [])"

definition restart :: "playback \<Rightarrow> player_command list" where
  "restart st = (if playback_ready st then [PlayerSeek 0, PlayerPlay] else [])"

definition slider_value :: "playback \<Rightarrow> rat" where
  "slider_value st = min (pb_position st) (max (pb_duration st) 1)"

definition playback_controls_enabled :: "playback \<Rightarrow> bool" where
  "playback_controls_enabled st \<longleftrightarrow> \<not> (pb_loading st \<or> pb_error st \<noteq> '''' \<or> pb_duration st \<le> 0)"

text \<open>The fit of a display into its frame: never enlarged, and never wider or higher than the frame.\<close>

definition scaleDisplay :: "rat \<Rightarrow> rat \<Rightarrow> rat \<Rightarrow> rat \<Rightarrow> rat" where
  "scaleDisplay frameWidth frameHeight displayWidth displayHeight =
     min (min (frameWidth / max 1 displayWidth) (frameHeight / max 1 displayHeight)) 1"

inductive playback_step :: "bool \<Rightarrow> bool \<Rightarrow> playback \<Rightarrow> playback \<Rightarrow> bool" for library canRead where
  mounted: "playback_step library canRead st (playback_effect library canRead (st\<lparr>pb_container := True\<rparr>))"
| transcode_answer: "canRead \<Longrightarrow> \<not> qs_pending q \<Longrightarrow> playback_step library canRead st (playback_effect library canRead (st\<lparr>pb_transcode := q\<rparr>))"
| progress: "pb_recording st \<Longrightarrow> playback_step library canRead st (on_progress d t st)"
| sought: "pb_recording st \<Longrightarrow> playback_step library canRead st (on_seek p st)"
| played: "pb_recording st \<Longrightarrow> playback_step library canRead st (on_play st)"
| paused: "pb_recording st \<Longrightarrow> playback_step library canRead st (on_pause p st)"
| failed: "pb_recording st \<Longrightarrow> playback_step library canRead st (on_error m st)"
| loaded: "pb_recording st \<Longrightarrow> playback_step library canRead st (on_load d st)"

section \<open>Properties\<close>

text \<open>The position on the slider is always within the recording, whatever the player reports.\<close>

theorem slider_in_range:
  "(playback_step library canRead)\<^sup>*\<^sup>* open_playback st \<Longrightarrow> 0 \<le> slider_value st \<and> slider_value st \<le> max (pb_duration st) 1"
proof -
  assume "(playback_step library canRead)\<^sup>*\<^sup>* open_playback st"
  then have "0 \<le> pb_position st \<and> 0 \<le> pb_duration st"
  proof (induction rule: rtranclp_induct)
    case base
    show ?case by (simp add: open_playback_def)
  next
    case (step a b)
    from step(2) show ?case using step(3)
      by cases (auto simp: playback_effect_def on_progress_def on_seek_def on_play_def on_pause_def on_error_def on_load_def)
  qed
  then show ?thesis by (simp add: slider_value_def)
qed

lemma slider_in_range_witness: "0 \<le> slider_value open_playback \<and> slider_value open_playback \<le> max (pb_duration open_playback) 1"
  by (rule slider_in_range [of True True]) simp

text \<open>A role that may not play recordings waits for ever: the status query it may not send stays pending, so the
  effect never reaches the branch that says the permission is missing, and the dialog shows the loading text.\<close>

theorem playback_denied_never_said:
  "(playback_step library False)\<^sup>*\<^sup>* open_playback st \<Longrightarrow> pb_loading st \<and> pb_error st = ''''"
proof -
  assume "(playback_step library False)\<^sup>*\<^sup>* open_playback st"
  then have "pb_loading st \<and> pb_error st = '''' \<and> qs_pending (pb_transcode st) \<and> \<not> pb_recording st"
  proof (induction rule: rtranclp_induct)
    case base
    show ?case by (simp add: open_playback_def disabled_query_def)
  next
    case (step a b)
    from step(2) show ?case using step(3) by cases (auto simp: playback_effect_def)
  qed
  then show ?thesis by simp
qed

lemma playback_denied_never_said_witness:
  "pb_loading (playback_effect True False (open_playback\<lparr>pb_container := True\<rparr>)) \<and>
   pb_error (playback_effect True False (open_playback\<lparr>pb_container := True\<rparr>)) = ''''"
  by (rule playback_denied_never_said [of True]) (rule r_into_rtranclp, rule playback_step.mounted)

end
