(* ===== verification/Preferences.thy ===== *)
theory Preferences
  imports Trees Effects
begin

text \<open>
  The small shared modules: interface languages (\<open>i18n/languages.ts\<close>), the stores kept in
  \<open>localStorage\<close> (\<open>stores/preferences-store.ts\<close>, \<open>stores/notification-store.ts\<close>), the
  helpers of \<open>lib/utils.ts\<close>, \<open>lib/runtime-status.ts\<close> and \<open>lib/public-navigation.ts\<close>, and the
  two clipboard routines (\<open>lib/clipboard.ts\<close> and the one of \<open>workspace-view.tsx\<close>).

  The \<open>persist\<close> middleware is not under \<open>src/\<close>: its documented behaviour, that it saves
  \<open>partialize\<close> and starts from \<open>merge\<close> of what it saved, is the order in which the lemmas below
  compose the two functions the code hands to it.
\<close>

section \<open>Languages\<close>

definition INTERFACE_LANGUAGE_OPTIONS :: "string list" where
  "INTERFACE_LANGUAGE_OPTIONS = [''zh'', ''en'', ''zh-TW'', ''fr'', ''ru'', ''ja'', ''vi'']"

definition normalizeInterfaceLanguage :: "string option \<Rightarrow> string" where
  "normalizeInterfaceLanguage v =
     (if opt_str v = '''' then ''en''
      else let normalized = lower (replace_char CHR ''_'' CHR ''-'' (trim (opt_str v)))
           in if normalized = ''zh-tw'' \<or> normalized = ''zh-hk'' \<or> normalized = ''zh-mo'' then ''zh-TW''
              else if starts_with normalized ''zh'' then ''zh''
              else (case find (\<lambda>code. lower code = normalized) INTERFACE_LANGUAGE_OPTIONS of
                      Some code \<Rightarrow> code | None \<Rightarrow> ''en''))"

text \<open>Local storage as a map, with the start-up migration of \<open>i18n/config.ts\<close>.\<close>

type_synonym storage = "string \<Rightarrow> string option"

definition stored_or :: "storage \<Rightarrow> string \<Rightarrow> string \<Rightarrow> string option" where
  "stored_or ls a b = (if opt_str (ls a) \<noteq> '''' then ls a else ls b)"

definition migrate_locale :: "storage \<Rightarrow> storage" where
  "migrate_locale ls =
     (let legacyLocale = stored_or ls ''openwebservermanager:locale'' ''servermanager:locale''
      in if opt_str legacyLocale \<noteq> '''' \<and> opt_str (ls ''i18nextLng'') = ''''
         then ls(''i18nextLng'' \<mapsto> normalizeInterfaceLanguage legacyLocale,
                 ''openwebservermanager:locale'' := None, ''servermanager:locale'' := None)
         else ls)"

section \<open>Preferences\<close>

text \<open>Appearance values come from storage unchecked, so they are JavaScript values.\<close>

record appearance =
  ap_preset :: jsval
  ap_font :: jsval
  ap_radius :: jsval
  ap_scale :: jsval
  ap_contentLayout :: jsval
  ap_sidebarStyle :: jsval

definition defaultAppearance :: appearance where
  "defaultAppearance = \<lparr>ap_preset = JStr ''default'', ap_font = JStr ''default'', ap_radius = JStr ''default'',
     ap_scale = JStr ''default'', ap_contentLayout = JStr ''full'', ap_sidebarStyle = JStr ''default''\<rparr>"

record preferences =
  pf_theme :: jsval
  pf_appearance :: appearance

definition or_val :: "jsval \<Rightarrow> jsval \<Rightarrow> jsval" where
  "or_val v d = (if truthy v then v else d)"

definition migrateAppearance :: "jsval \<Rightarrow> appearance" where
  "migrateAppearance value =
     (let of_parsed = (\<lambda>parsed. \<lparr>
            ap_preset = or_val (obj_get parsed ''preset'') (ap_preset defaultAppearance),
            ap_font = or_val (obj_get parsed ''font'') (ap_font defaultAppearance),
            ap_radius = or_val (obj_get parsed ''radius'') (ap_radius defaultAppearance),
            ap_scale = or_val (obj_get parsed ''scale'') (ap_scale defaultAppearance),
            ap_contentLayout = or_val (obj_get parsed ''contentLayout'') (ap_contentLayout defaultAppearance),
            ap_sidebarStyle = or_val (obj_get parsed ''sidebarStyle'') (ap_sidebarStyle defaultAppearance)\<rparr>)
      in case value of JObj parsed \<Rightarrow> of_parsed parsed | JArr _ \<Rightarrow> of_parsed [] | _ \<Rightarrow> defaultAppearance)"

definition readLegacyTheme :: "storage \<Rightarrow> string" where
  "readLegacyTheme ls =
     (let stored = opt_str (stored_or ls ''openwebservermanager:theme'' ''servermanager:theme'')
      in if stored = ''light'' \<or> stored = ''dark'' \<or> stored = ''system'' then stored else ''system'')"

definition readLegacyAppearance :: "storage \<Rightarrow> appearance" where
  "readLegacyAppearance ls =
     (let stored = opt_str (stored_or ls ''openwebservermanager:appearance'' ''servermanager:appearance'')
      in if stored = '''' then defaultAppearance
         else case json_parse stored of Some v \<Rightarrow> migrateAppearance v | None \<Rightarrow> defaultAppearance)"

definition initial_preferences :: "storage \<Rightarrow> preferences" where
  "initial_preferences ls = \<lparr>pf_theme = JStr (readLegacyTheme ls), pf_appearance = readLegacyAppearance ls\<rparr>"

definition setTheme :: "jsval \<Rightarrow> preferences \<Rightarrow> preferences" where
  "setTheme theme st = st\<lparr>pf_theme := theme\<rparr>"

text \<open>\<open>{ ...state.appearance, ...appearance }\<close> for a partial appearance.\<close>

definition appearance_object :: "appearance \<Rightarrow> js_object" where
  "appearance_object a =
     [(''preset'', ap_preset a), (''font'', ap_font a), (''radius'', ap_radius a), (''scale'', ap_scale a),
      (''contentLayout'', ap_contentLayout a), (''sidebarStyle'', ap_sidebarStyle a)]"

definition appearance_of :: "js_object \<Rightarrow> appearance" where
  "appearance_of ob = \<lparr>ap_preset = obj_get ob ''preset'', ap_font = obj_get ob ''font'',
     ap_radius = obj_get ob ''radius'', ap_scale = obj_get ob ''scale'',
     ap_contentLayout = obj_get ob ''contentLayout'', ap_sidebarStyle = obj_get ob ''sidebarStyle''\<rparr>"

definition setAppearance :: "js_object \<Rightarrow> preferences \<Rightarrow> preferences" where
  "setAppearance upd st =
     st\<lparr>pf_appearance := appearance_of (obj_set_all (appearance_object (pf_appearance st)) upd)\<rparr>"

definition resetAppearance :: "preferences \<Rightarrow> preferences" where
  "resetAppearance st = st\<lparr>pf_appearance := defaultAppearance\<rparr>"

definition partialize :: "preferences \<Rightarrow> jsval" where
  "partialize st = JObj [(''theme'', pf_theme st), (''appearance'', JObj (appearance_object (pf_appearance st)))]"

text \<open>\<open>merge\<close>: optional chaining reads nothing from an absent or non-object value.\<close>

definition merge_preferences :: "jsval \<Rightarrow> preferences \<Rightarrow> preferences" where
  "merge_preferences persisted current =
     (let stored = recordValue persisted
      in current\<lparr>pf_theme := or_val (obj_get stored ''theme'') (pf_theme current),
                 pf_appearance := migrateAppearance (obj_get stored ''appearance'')\<rparr>)"

section \<open>Read notifications\<close>

text \<open>\<open>[...new Set(xs)]\<close>: the first occurrences, in order.\<close>

fun set_list :: "'a list \<Rightarrow> 'a list" where
  "set_list [] = []"
| "set_list (x # xs) = x # filter (\<lambda>y. y \<noteq> x) (set_list xs)"

definition markRead :: "string list \<Rightarrow> string list \<Rightarrow> string list" where
  "markRead keys readKeys = set_list (readKeys @ keys)"

definition isRead :: "string \<Rightarrow> string list \<Rightarrow> bool" where
  "isRead key readKeys \<longleftrightarrow> key \<in> set readKeys"

definition resetReadState :: "string list \<Rightarrow> string list" where
  "resetReadState readKeys = []"

section \<open>Servers and credentials\<close>

record managed_server =
  sv_id :: string
  sv_name :: string
  sv_host :: string
  sv_ssh_port :: "rat option"
  sv_rdp_port :: "rat option"
  sv_os :: string
  sv_group :: "string option"
  sv_description :: "string option"
  sv_created_at :: string
  sv_updated_at :: string

record credential =
  cr_id :: string
  cr_server_id :: "string option"
  cr_name :: string
  cr_type :: string
  cr_username :: string
  cr_domain :: "string option"
  cr_created_at :: string
  cr_updated_at :: string

definition osLabel :: "string option \<Rightarrow> string" where
  "osLabel v = (if v = Some ''windows'' then ''Windows'' else if v = Some ''linux'' then ''Linux''
     else or_str (opt_str v) ''-'')"

definition credentialProtocol :: "string \<Rightarrow> string" where
  "credentialProtocol value =
     (if value = ''rdp_password'' then ''rdp'' else if value = ''vnc_password'' then ''vnc''
      else if value = ''database_password'' then ''database'' else ''ssh'')"

definition serverProtocol :: "managed_server \<Rightarrow> string" where
  "serverProtocol server = (if sv_os server = ''windows'' then ''rdp'' else ''ssh'')"

definition serverSupportsProtocol :: "managed_server option \<Rightarrow> string \<Rightarrow> bool" where
  "serverSupportsProtocol server protocol =
     (case server of None \<Rightarrow> False | Some s \<Rightarrow> serverProtocol s = protocol)"

definition credentialSupportsServer :: "credential \<Rightarrow> managed_server option \<Rightarrow> bool" where
  "credentialSupportsServer cr server =
     (case server of None \<Rightarrow> False
      | Some s \<Rightarrow> if opt_str (cr_server_id cr) \<noteq> '''' \<and> opt_str (cr_server_id cr) \<noteq> sv_id s then False
                  else credentialProtocol (cr_type cr) = serverProtocol s)"

definition credential_bound :: "credential \<Rightarrow> rat" where
  "credential_bound cr = (if opt_str (cr_server_id cr) \<noteq> '''' then 1 else 0)"

definition credentialsForServer :: "locale_compare \<Rightarrow> credential list \<Rightarrow> managed_server option \<Rightarrow> credential list" where
  "credentialsForServer lc credentials server =
     (if server = None then []
      else js_sort (\<lambda>left right.
             let d = credential_bound right - credential_bound left
             in if d \<noteq> 0 then d else lc (cr_name left) (cr_name right))
           (filter (\<lambda>cr. credentialSupportsServer cr server) credentials))"

definition routeToView :: "string \<Rightarrow> string" where
  "routeToView pathname =
     (if ends_with pathname ''/servers'' then ''servers''
      else if ends_with pathname ''/credentials'' then ''servers''
      else if ends_with pathname ''/sessions'' then ''sessions''
      else if ends_with pathname ''/audit'' then ''audit''
      else ''overview'')"

definition isGuacdReady :: "string option \<Rightarrow> bool" where
  "isGuacdReady status \<longleftrightarrow> status = Some ''running''"

definition resolvePublicHref :: "string \<Rightarrow> string" where
  "resolvePublicHref href = (if starts_with href ''#'' then CHR ''/'' # href else href)"

section \<open>The clipboard\<close>

text \<open>
  What the browser offers: the asynchronous API, if any, and whether a write succeeds; whether the
  page is a secure context; and the \<open>copy\<close> command on a text area, which may also throw. The
  second component counts the helper text areas left in the document.
\<close>

record clipboard =
  cb_write :: "(string \<Rightarrow> bool) option"
  cb_secure :: bool
  cb_command :: "string \<Rightarrow> exn + bool"

definition copyText :: "clipboard \<Rightarrow> string \<Rightarrow> nat \<Rightarrow> (exn + unit) \<times> nat" where
  "copyText cb text areas =
     (if (case cb_write cb of Some write \<Rightarrow> write text | None \<Rightarrow> False) then (Inr (), areas)
      else (case cb_command cb text of
              Inl e \<Rightarrow> Inl e
            | Inr copied \<Rightarrow> if copied then Inr () else Inl (OtherError ''copy command failed''), areas))"

definition copyTextToClipboard :: "clipboard \<Rightarrow> string \<Rightarrow> nat \<Rightarrow> (exn + unit) \<times> nat" where
  "copyTextToClipboard cb text areas =
     (case (cb_write cb, cb_secure cb) of
        (Some write, True) \<Rightarrow> (if write text then Inr () else Inl (OtherError ''NotAllowedError''), areas)
      | _ \<Rightarrow> (case cb_command cb text of
                Inl e \<Rightarrow> (Inl e, Suc areas)
              | Inr copied \<Rightarrow> (if copied then Inr () else Inl (OtherError ''copy failed''), areas)))"

section \<open>Languages: a normal form\<close>

lemma language_options: "normalizeInterfaceLanguage v \<in> set INTERFACE_LANGUAGE_OPTIONS"
proof -
  have "find P INTERFACE_LANGUAGE_OPTIONS = Some c \<Longrightarrow> c \<in> set INTERFACE_LANGUAGE_OPTIONS" for P c
    by (auto simp: find_Some_iff)
  then show ?thesis
    unfolding normalizeInterfaceLanguage_def Let_def
    by (auto simp: INTERFACE_LANGUAGE_OPTIONS_def split: option.split simp del: find.simps)
qed

lemma language_fixed: "list_all (\<lambda>c. normalizeInterfaceLanguage (Some c) = c) INTERFACE_LANGUAGE_OPTIONS"
  by code_simp

section \<open>What the stores keep\<close>

definition appearance_set :: "appearance \<Rightarrow> bool" where
  "appearance_set a \<longleftrightarrow> list_all (\<lambda>kv. truthy (snd kv)) (appearance_object a)"

lemma migrate_appearance_object: "appearance_set a \<Longrightarrow> migrateAppearance (JObj (appearance_object a)) = a"
  by (simp add: migrateAppearance_def appearance_set_def appearance_object_def obj_get_def or_val_def)

lemma default_appearance_set: "appearance_set defaultAppearance"
  by (simp add: appearance_set_def appearance_object_def defaultAppearance_def truthy_def)

lemma migrate_always_set: "appearance_set (migrateAppearance v)"
proof -
  have "truthy (or_val x (JStr ''default''))" "truthy (or_val x (JStr ''full''))" for x
    by (simp_all add: or_val_def truthy_def)
  then show ?thesis using default_appearance_set
    by (cases v) (simp_all add: migrateAppearance_def appearance_set_def appearance_object_def defaultAppearance_def)
qed

definition preferences_ok :: "preferences \<Rightarrow> bool" where
  "preferences_ok st \<longleftrightarrow> truthy (pf_theme st) \<and> appearance_set (pf_appearance st)"

lemma merge_partialize: "preferences_ok st \<Longrightarrow> merge_preferences (partialize st) current = st"
  by (simp add: merge_preferences_def partialize_def recordValue_def obj_get_def or_val_def
      preferences_ok_def migrate_appearance_object)

interpretation stored_preferences: codec partialize "\<lambda>p. Some (merge_preferences p current)" preferences_ok
  for current by unfold_locales (simp add: merge_partialize)

lemma set_list_spec: "set (set_list xs) = set xs \<and> distinct (set_list xs)"
  by (induction xs) auto

lemma set_list_distinct: "distinct xs \<Longrightarrow> set_list xs = xs"
proof (induction xs)
  case (Cons x xs)
  then show ?case by (simp add: filter_id_conv) (metis)
qed simp

lemma set_list_append: "set_list (xs @ ys) = set_list xs @ filter (\<lambda>y. y \<notin> set xs) (set_list ys)"
  by (induction xs) (auto simp: filter_filter intro: filter_cong)

section \<open>The order of credentials\<close>

lemma insert_by_partition:
  "(\<And>x y. cmp x y \<le> 0 \<or> b x \<le> b y) \<Longrightarrow> (\<And>x y. b x > b y \<Longrightarrow> cmp x y \<le> 0) \<Longrightarrow>
   sorted_wrt (\<lambda>x y. b y \<le> b x) ys \<Longrightarrow> (\<And>x y. b x < b y \<Longrightarrow> cmp x y > 0) \<Longrightarrow>
   sorted_wrt (\<lambda>x y. (b y :: rat) \<le> b x) (insert_by cmp x ys)"
proof (induction ys)
  case Nil
  then show ?case by simp
next
  case (Cons y ys)
  have s: "set (insert_by cmp x ys) = insert x (set ys)" by (metis mset_insert_by set_mset_add_mset_insert set_mset_mset)
  show ?case
  proof (cases "cmp x y \<le> 0")
    case True
    then have "b y \<le> b x" using Cons.prems(4) by (meson not_less)
    then show ?thesis using True Cons.prems(3) by auto
  next
    case False
    then have "b x \<le> b y" using Cons.prems(1) by blast
    then show ?thesis using False Cons s by auto
  qed
qed

lemma js_sort_partition:
  "(\<And>x y. cmp x y \<le> 0 \<or> b x \<le> b y) \<Longrightarrow> (\<And>x y. b x > b y \<Longrightarrow> cmp x y \<le> 0) \<Longrightarrow>
   (\<And>x y. b x < b y \<Longrightarrow> cmp x y > 0) \<Longrightarrow>
   sorted_wrt (\<lambda>x y. (b y :: rat) \<le> b x) (js_sort cmp xs)"
  by (induction xs) (auto simp: js_sort_def intro!: insert_by_partition)

section \<open>Properties\<close>

text \<open>Whatever language tag the browser or an old setting supplies, the interface runs in one of the
  offered languages, and normalising a second time changes nothing.\<close>

theorem language_normal_form:
  "normalizeInterfaceLanguage v \<in> set INTERFACE_LANGUAGE_OPTIONS \<and>
   normalizeInterfaceLanguage (Some (normalizeInterfaceLanguage v)) = normalizeInterfaceLanguage v"
  using language_options [of v] language_fixed by (simp add: list_all_iff)

text \<open>Preferences survive a restart: what the store saves, it reads back, whatever the fresh state was;
  and a reading is always complete, so it can be saved and read again.\<close>

theorem preferences_survive_restart:
  "preferences_ok st \<Longrightarrow> merge_preferences (partialize st) current = st \<and>
     appearance_set (migrateAppearance v)"
  using stored_preferences.dec_enc [of st current] by (simp add: migrate_always_set)

lemma preferences_survive_restart_witness:
  "merge_preferences (partialize \<lparr>pf_theme = JStr ''dark'', pf_appearance = defaultAppearance\<lparr>ap_font := JStr ''serif''\<rparr>\<rparr>)
     \<lparr>pf_theme = JStr ''system'', pf_appearance = defaultAppearance\<rparr>
   = \<lparr>pf_theme = JStr ''dark'', pf_appearance = defaultAppearance\<lparr>ap_font := JStr ''serif''\<rparr>\<rparr>"
  by (rule preferences_survive_restart [THEN conjunct1])
    (simp add: preferences_ok_def appearance_set_def appearance_object_def defaultAppearance_def truthy_def)

text \<open>The appearance an older version stored is read and then dropped: with nothing in the new store, the
  first start keeps the old theme but shows the default appearance.\<close>

theorem legacy_appearance_dropped:
  "merge_preferences JUndefined (initial_preferences ls) =
     \<lparr>pf_theme = JStr (readLegacyTheme ls), pf_appearance = defaultAppearance\<rparr>"
  by (simp add: merge_preferences_def initial_preferences_def recordValue_def obj_get_def or_val_def
      truthy_def migrateAppearance_def)

text \<open>The credentials offered for a server are exactly the stored ones that fit it, with those bound to the
  server before the shared ones, however names compare.\<close>

theorem credentials_for_server:
  "mset (credentialsForServer lc crs (Some s)) = filter_mset (\<lambda>cr. credentialSupportsServer cr (Some s)) (mset crs) \<and>
   sorted_wrt (\<lambda>x y. credential_bound y \<le> credential_bound x) (credentialsForServer lc crs (Some s))"
  unfolding credentialsForServer_def
  by (auto simp: Let_def intro!: js_sort_partition [where b = credential_bound] split: if_splits)

text \<open>Marking notifications read forgets none, adds the new keys once, and marking the same keys again
  changes nothing.\<close>

theorem mark_read_keeps_keys:
  "(isRead k (markRead ks rs) \<longleftrightarrow> isRead k rs \<or> k \<in> set ks) \<and> distinct (markRead ks rs) \<and>
   markRead ks (markRead ks rs) = markRead ks rs"
proof -
  have "filter (\<lambda>y. y \<notin> set (markRead ks rs)) (set_list ks) = []"
    using set_list_spec [of ks] set_list_spec [of "rs @ ks"] by (auto simp: markRead_def filter_empty_conv)
  then have "markRead ks (markRead ks rs) = markRead ks rs"
    using set_list_spec [of "rs @ ks"] by (simp add: markRead_def set_list_append [of "set_list (rs @ ks)"] set_list_distinct)
  then show ?thesis using set_list_spec [of "rs @ ks"] by (auto simp: isRead_def markRead_def)
qed

text \<open>Copying fails only when every way fails: the shared routine falls back to the copy command after a
  rejected write and leaves no helper behind.\<close>

theorem copy_text_fallback:
  "copyText cb text areas =
     (if (\<exists>write. cb_write cb = Some write \<and> write text) \<or> cb_command cb text = Inr True then Inr ()
      else case cb_command cb text of Inl e \<Rightarrow> Inl e | Inr _ \<Rightarrow> Inl (OtherError ''copy command failed''), areas)"
  by (auto simp: copyText_def split: option.splits sum.splits)

text \<open>The workspace's own copy routine has neither quality: a rejected write is final although the copy
  command would work, and a throwing copy command leaves its text area in the document.\<close>

theorem workspace_copy_no_fallback:
  "(let cb = \<lparr>cb_write = Some (\<lambda>_. False), cb_secure = True, cb_command = (\<lambda>_. Inr True)\<rparr>
    in fst (copyText cb text n) = Inr () \<and> (\<exists>e. fst (copyTextToClipboard cb text n) = Inl e)) \<and>
   (let cb = \<lparr>cb_write = None, cb_secure = False, cb_command = (\<lambda>_. Inl (OtherError ''x''))\<rparr>
    in snd (copyText cb text n) = n \<and> snd (copyTextToClipboard cb text n) = Suc n)"
  by (simp add: copyText_def copyTextToClipboard_def)

end
