(* ===== verification/ConfigForms.thy ===== *)
theory ConfigForms
  imports Metadata
begin

text \<open>
  The settings forms of \<open>platform-page.tsx\<close> (mail and assistant integration, branding and its
  navigation links, proxy services, desktop access): how each is filled from a settings record
  and turned back into metadata, and the validators of the mail, URL and OIDC inputs. The browser's
  \<open>URL\<close> parser is a parameter of the validators that call it.
\<close>

section \<open>Shared readers\<close>

definition item_meta :: "platform_item option \<Rightarrow> js_object" where
  "item_meta item = (case item of Some i \<Rightarrow> (case it_metadata i of Some ob \<Rightarrow> ob | None \<Rightarrow> []) | None \<Rightarrow> [])"

definition nullish :: "jsval \<Rightarrow> bool" where
  "nullish v \<longleftrightarrow> v = JUndefined \<or> v = JNull"

definition coalesce :: "jsval \<Rightarrow> jsval \<Rightarrow> jsval" where
  "coalesce v w = (if nullish v then w else v)"

definition list_sep :: "char \<Rightarrow> bool" where
  "list_sep c \<longleftrightarrow> c = CHR 0x0A \<or> c = CHR '','' \<or> c = CHR '';''"

definition metadataListText :: "jsval \<Rightarrow> string" where
  "metadataListText value =
     (case value of
        JArr xs \<Rightarrow> join [CHR 0x0A] (trimmed (map js_to_string xs))
      | JStr s \<Rightarrow>
          (if trim s = '''' then ''''
           else case json_parse (trim s) of
                  Some (JArr xs) \<Rightarrow> join [CHR 0x0A] (trimmed (map js_to_string xs))
                | _ \<Rightarrow> join [CHR 0x0A] (trimmed (split_runs list_sep (trim s))))
      | _ \<Rightarrow> '''')"

section \<open>Mail and assistant integration\<close>

record smtp_form =
  sf_host :: string
  sf_port :: string
  sf_security :: string
  sf_serverName :: string
  sf_insecureSkipVerify :: bool
  sf_username :: string
  sf_password :: string
  sf_passwordSet :: bool
  sf_passwordClear :: bool
  sf_from :: string
  sf_to :: string
  sf_testTo :: string
  sf_notificationsEnabled :: bool
  sf_notifySecurity :: bool
  sf_notifyTasks :: bool
  sf_notifyGateways :: bool
  sf_notifyOperations :: bool
  sf_sendExistingNotifications :: bool
  sf_llmProvider :: string
  sf_llmBaseUrl :: string
  sf_llmModel :: string
  sf_llmApiKey :: string
  sf_llmApiKeySet :: bool
  sf_llmApiKeyClear :: bool

definition smtpIntegrationFormFromItem :: "platform_item option \<Rightarrow> smtp_form" where
  "smtpIntegrationFormFromItem item =
     (let metadata = item_meta item;
          text = (\<lambda>k. metadataText (obj_get metadata k));
          flag = (\<lambda>k. metadataBool (obj_get metadata k));
          useTLS = flag ''smtp_use_tls'' \<or> flag ''smtp_ssl'' \<or> flag ''tls'';
          startTLS = flag ''smtp_start_tls'' \<or> flag ''smtp_starttls'' \<or> flag ''start_tls'' \<or> flag ''starttls'';
          configured = filter (\<lambda>t. t \<noteq> '''')
            (split_on CHR 0x0A (metadataListText (obj_get metadata ''smtp_notification_categories'')));
          categories = (if configured \<noteq> [] then configured
                        else [''security'', ''task'', ''gateway'', ''operation'']);
          item_host = (case item of Some i \<Rightarrow> it_host i | None \<Rightarrow> '''');
          item_port = (case item of Some i \<Rightarrow> port_text (it_port i) | None \<Rightarrow> '''');
          item_user = (case item of Some i \<Rightarrow> it_username i | None \<Rightarrow> '''')
      in \<lparr>sf_host = or_str (text ''smtp_host'') item_host,
          sf_port = or_str (text ''smtp_port'') (or_str item_port ''587''),
          sf_security = (if useTLS then ''tls'' else if startTLS then ''starttls'' else ''none''),
          sf_serverName = or_str (text ''smtp_server_name'') (text ''server_name''),
          sf_insecureSkipVerify = (flag ''smtp_insecure_skip_verify'' \<or> flag ''insecure_skip_verify''),
          sf_username = or_str (text ''smtp_username'') item_user,
          sf_password = '''',
          sf_passwordSet = flag ''smtp_password_set'',
          sf_passwordClear = False,
          sf_from = or_str (text ''smtp_from'') (text ''from''),
          sf_to = or_str (text ''smtp_to'') (text ''to''),
          sf_testTo = or_str (text ''smtp_test_to'') (text ''test_to''),
          sf_notificationsEnabled = flag ''smtp_notifications_enabled'',
          sf_notifySecurity = (''security'' \<in> set categories),
          sf_notifyTasks = (''task'' \<in> set categories),
          sf_notifyGateways = (''gateway'' \<in> set categories),
          sf_notifyOperations = (''operation'' \<in> set categories),
          sf_sendExistingNotifications = flag ''smtp_notifications_send_existing'',
          sf_llmProvider = text ''llm_provider'',
          sf_llmBaseUrl = text ''llm_base_url'',
          sf_llmModel = text ''llm_model'',
          sf_llmApiKey = '''',
          sf_llmApiKeySet = flag ''llm_api_key_set'',
          sf_llmApiKeyClear = False\<rparr>)"

definition set_when :: "bool \<Rightarrow> string \<Rightarrow> jsval \<Rightarrow> js_object \<Rightarrow> js_object" where
  "set_when b k v ob = (if b then obj_set ob k v else ob)"

definition integrationMetadataFromForm :: "smtp_form \<Rightarrow> js_object option \<Rightarrow> js_object" where
  "integrationMetadataFromForm form existing =
     (let txt = (\<lambda>s. JStr (trim s));
          m0 = (case existing of Some ob \<Rightarrow> ob | None \<Rightarrow> []);
          m1 = obj_set_all m0
            [(''smtp_host'', txt (sf_host form)),
             (''smtp_port'', JNum (if sf_port form \<noteq> '''' then to_number (sf_port form) else Fin 587)),
             (''smtp_username'', txt (sf_username form)),
             (''smtp_from'', txt (sf_from form)),
             (''smtp_to'', txt (sf_to form)),
             (''smtp_test_to'', txt (sf_testTo form)),
             (''smtp_use_tls'', JBool (sf_security form = ''tls'')),
             (''smtp_start_tls'', JBool (sf_security form = ''starttls'')),
             (''smtp_server_name'', txt (sf_serverName form)),
             (''smtp_insecure_skip_verify'', JBool (sf_insecureSkipVerify form)),
             (''smtp_notifications_enabled'', JBool (sf_notificationsEnabled form)),
             (''smtp_notification_categories'', JArr (map JStr (filter (\<lambda>t. t \<noteq> '''')
                [if sf_notifySecurity form then ''security'' else '''',
                 if sf_notifyTasks form then ''task'' else '''',
                 if sf_notifyGateways form then ''gateway'' else '''',
                 if sf_notifyOperations form then ''operation'' else '''']))),
             (''smtp_notifications_send_existing'', JBool (sf_sendExistingNotifications form))];
          m2 = set_when (sf_passwordClear form) ''smtp_password_clear'' (JBool True) m1;
          m3 = obj_set_all m2
            [(''llm_provider'', txt (sf_llmProvider form)),
             (''llm_base_url'', txt (sf_llmBaseUrl form)),
             (''llm_model'', txt (sf_llmModel form))];
          m4 = set_when (trim (sf_llmApiKey form) \<noteq> '''') ''llm_api_key'' (txt (sf_llmApiKey form)) m3
      in set_when (sf_llmApiKeyClear form) ''llm_api_key_clear'' (JBool True) m4)"

section \<open>Branding\<close>

record nav_link =
  nl_title :: string
  nl_href :: string
  nl_external :: "bool option"

record public_config =
  pc_site_name :: string
  pc_version :: string
  pc_commit :: string
  pc_github_url :: string
  pc_copyright :: string
  pc_logo_url :: string
  pc_asset_logo_url :: string
  pc_icp_number :: string
  pc_about_title :: string
  pc_about_description :: string
  pc_about_body :: string
  pc_footer_text :: string
  pc_nav_links :: "nav_link list"

record branding_form =
  bf_siteName :: string
  bf_logoUrl :: string
  bf_assetLogoUrl :: string
  bf_githubUrl :: string
  bf_copyright :: string
  bf_icpNumber :: string
  bf_aboutTitle :: string
  bf_aboutDescription :: string
  bf_aboutBody :: string
  bf_footerText :: string
  bf_navLinks :: string

definition nav_link_json :: "nav_link \<Rightarrow> jsval" where
  "nav_link_json l = JObj ([(''title'', JStr (nl_title l)), (''href'', JStr (nl_href l))]
     @ (case nl_external l of Some b \<Rightarrow> [(''external'', JBool b)] | None \<Rightarrow> []))"

definition default_nav_links :: jsval where
  "default_nav_links = JArr (map (\<lambda>(t, h). JObj [(''title'', JStr t), (''href'', JStr h)])
     [(''product'', ''/#product''), (''connections'', ''/#connections''), (''security'', ''/#security''),
      (''deploy'', ''/#deploy''), (''about'', ''/about'')])"

definition formatNavLinksForForm :: "jsval \<Rightarrow> string" where
  "formatNavLinksForForm value =
     (if \<not> truthy value then json_stringify default_nav_links
      else case value of
             JStr s \<Rightarrow>
               (if trim s = '''' then json_stringify default_nav_links
                else case json_parse (trim s) of Some v \<Rightarrow> json_stringify v | None \<Rightarrow> trim s)
           | v \<Rightarrow> json_stringify v)"

definition nav_link_of :: "jsval \<Rightarrow> nav_link" where
  "nav_link_of raw =
     (let prop = (\<lambda>k. obj_get (recordValue raw) k);
          text = (\<lambda>k. metadataText (prop k))
      in \<lparr>nl_title = or_str (or_str (text ''title'') (text ''label'')) (text ''name''),
          nl_href = or_str (or_str (text ''href'') (text ''url'')) (text ''path''),
          nl_external = Some (metadataBool (prop ''external''))\<rparr>)"

text \<open>Reading a property of a \<open>null\<close> element throws, and the whole list is dropped.\<close>

definition parseNavLinksForm :: "string \<Rightarrow> nav_link list" where
  "parseNavLinksForm value =
     (if trim value = '''' then []
      else case json_parse (trim value) of
             Some (JArr xs) \<Rightarrow>
               (if list_ex nullish xs then []
                else filter (\<lambda>l. nl_title l \<noteq> '''' \<and> nl_href l \<noteq> '''') (map nav_link_of xs))
           | _ \<Rightarrow> [])"

definition brandingFormFromItem :: "platform_item option \<Rightarrow> public_config \<Rightarrow> branding_form" where
  "brandingFormFromItem item pc =
     (let metadata = item_meta item;
          text = (\<lambda>k. metadataText (obj_get metadata k));
          navLinks = coalesce (coalesce (obj_get metadata ''nav_links'') (obj_get metadata ''nav_links_json''))
            (JArr (map nav_link_json (pc_nav_links pc)))
      in \<lparr>bf_siteName = or_str (or_str (text ''site_name'') (text ''system_name'')) (pc_site_name pc),
          bf_logoUrl = or_str (or_str (text ''logo_url'') (text ''system_icon'')) (pc_logo_url pc),
          bf_assetLogoUrl = or_str (or_str (text ''asset_logo_url'') (text ''asset_logo'')) (pc_asset_logo_url pc),
          bf_githubUrl = or_str (text ''github_url'') (pc_github_url pc),
          bf_copyright = or_str (text ''copyright'') (pc_copyright pc),
          bf_icpNumber = or_str (or_str (text ''icp_number'') (text ''icp'')) (pc_icp_number pc),
          bf_aboutTitle = or_str (text ''about_title'') (pc_about_title pc),
          bf_aboutDescription = or_str (text ''about_description'') (pc_about_description pc),
          bf_aboutBody = or_str (or_str (text ''about_body'') (text ''about_content'')) (pc_about_body pc),
          bf_footerText = or_str (text ''footer_text'') (pc_footer_text pc),
          bf_navLinks = formatNavLinksForForm navLinks\<rparr>)"

definition brandingMetadataFromForm :: "branding_form \<Rightarrow> js_object option \<Rightarrow> js_object" where
  "brandingMetadataFromForm form previous =
     obj_set_all (case previous of Some ob \<Rightarrow> ob | None \<Rightarrow> [])
       [(''site_name'', JStr (trim (bf_siteName form))),
        (''logo_url'', JStr (trim (bf_logoUrl form))),
        (''asset_logo_url'', JStr (trim (bf_assetLogoUrl form))),
        (''github_url'', JStr (trim (bf_githubUrl form))),
        (''copyright'', JStr (trim (bf_copyright form))),
        (''icp_number'', JStr (trim (bf_icpNumber form))),
        (''about_title'', JStr (trim (bf_aboutTitle form))),
        (''about_description'', JStr (trim (bf_aboutDescription form))),
        (''about_body'', JStr (trim (bf_aboutBody form))),
        (''footer_text'', JStr (trim (bf_footerText form))),
        (''nav_links'', JArr (map nav_link_json (parseNavLinksForm (bf_navLinks form))))]"

section \<open>Proxy services\<close>

record proxy_form =
  px_sshEnabled :: bool
  px_sshListenAddress :: string
  px_sshDisablePasswordAuth :: bool
  px_sshForwardAllowlist :: string
  px_rdpEnabled :: bool
  px_rdpListenAddress :: string
  px_rdpForwardAllowlist :: string
  px_databaseEnabled :: bool
  px_databaseListenAddress :: string
  px_databaseForwardAllowlist :: string
  px_proxyPrivateKey :: string
  px_proxyPrivateKeySet :: bool
  px_proxyPrivateKeyClear :: bool

definition or_val :: "jsval \<Rightarrow> jsval \<Rightarrow> jsval" where
  "or_val v w = (if truthy v then v else w)"

definition proxyServicesFormFromItem :: "platform_item option \<Rightarrow> proxy_form" where
  "proxyServicesFormFromItem item =
     (let metadata = item_meta item;
          text = (\<lambda>k. metadataText (obj_get metadata k));
          flag = (\<lambda>k. metadataBool (obj_get metadata k))
      in \<lparr>px_sshEnabled = flag ''ssh_gateway_enabled'',
          px_sshListenAddress = or_str (or_str (text ''ssh_listen_address'') (text ''listen_address'')) ''0.0.0.0:2022'',
          px_sshDisablePasswordAuth = (flag ''ssh_disable_password_auth'' \<or> flag ''disable_password_auth''),
          px_sshForwardAllowlist = metadataListText (or_val (obj_get metadata ''ssh_forward_allowlist'') (obj_get metadata ''forward_allowlist'')),
          px_rdpEnabled = flag ''rdp_proxy_enabled'',
          px_rdpListenAddress = or_str (text ''rdp_listen_address'') ''0.0.0.0:23389'',
          px_rdpForwardAllowlist = metadataListText (obj_get metadata ''rdp_forward_allowlist''),
          px_databaseEnabled = flag ''database_proxy_enabled'',
          px_databaseListenAddress = or_str (text ''database_listen_address'') ''127.0.0.1:23306'',
          px_databaseForwardAllowlist = metadataListText (obj_get metadata ''database_forward_allowlist''),
          px_proxyPrivateKey = '''',
          px_proxyPrivateKeySet = flag ''proxy_private_key_set'',
          px_proxyPrivateKeyClear = False\<rparr>)"

definition proxyServicesPayloadFromForm :: "proxy_form \<Rightarrow> js_object" where
  "proxyServicesPayloadFromForm form =
     [(''ssh_enabled'', JBool (px_sshEnabled form)),
      (''ssh_listen_address'', JStr (trim (px_sshListenAddress form))),
      (''ssh_disable_password_auth'', JBool (px_sshDisablePasswordAuth form)),
      (''ssh_forward_allowlist'', JArr (map JStr (splitLines (px_sshForwardAllowlist form)))),
      (''rdp_enabled'', JBool (px_rdpEnabled form)),
      (''rdp_listen_address'', JStr (trim (px_rdpListenAddress form))),
      (''rdp_forward_allowlist'', JArr (map JStr (splitLines (px_rdpForwardAllowlist form)))),
      (''database_enabled'', JBool (px_databaseEnabled form)),
      (''database_listen_address'', JStr (trim (px_databaseListenAddress form))),
      (''database_forward_allowlist'', JArr (map JStr (splitLines (px_databaseForwardAllowlist form)))),
      (''proxy_private_key'', if trim (px_proxyPrivateKey form) \<noteq> '''' then JStr (trim (px_proxyPrivateKey form)) else JUndefined),
      (''proxy_private_key_clear'', if px_proxyPrivateKeyClear form then JBool True else JUndefined)]"

definition proxyRoutes :: "jsval \<Rightarrow> (string \<times> string) list" where
  "proxyRoutes value =
     (case value of
        JArr xs \<Rightarrow> concat (map (\<lambda>item.
          case item of
            JObj ob \<Rightarrow>
              (let listenAddress = metadataText (obj_get ob ''listen_address''); target = metadataText (obj_get ob ''target'')
               in if listenAddress \<noteq> '''' \<and> target \<noteq> '''' then [(listenAddress, target)] else [])
          | _ \<Rightarrow> []) xs)
      | _ \<Rightarrow> [])"

definition proxyStateTone :: "js_object option \<Rightarrow> tone" where
  "proxyStateTone status =
     (let state = (case status of Some ob \<Rightarrow> metadataText (obj_get ob ''state'') | None \<Rightarrow> '''')
      in if state \<in> set [''running'', ''online'', ''configured'', ''ready''] then Success
         else if state = ''disabled'' \<or> state = '''' then Neutral
         else Warning)"

section \<open>Desktop access\<close>

record desktop_form =
  df_width :: string
  df_height :: string
  df_dpi :: string
  df_colorDepth :: string
  df_resizeMethod :: string
  df_recordingEnabled :: bool
  df_clipboardEnabled :: bool
  df_fileTransferEnabled :: bool
  df_sshFileTransferEnabled :: bool
  df_ignoreCert :: bool
  df_readOnly :: bool
  df_watermarkEnabled :: bool
  df_watermarkText :: string
  df_watermarkColor :: string
  df_watermarkFontSize :: string
  df_accessMfaEnabled :: bool
  df_accessMfaValidMinutes :: string

definition default_true :: "jsval \<Rightarrow> bool" where
  "default_true v = (if v = JUndefined then True else metadataBool v)"

definition watermark_default :: string where
  "watermark_default = ''rgba(255,255,255,0.18)''"

definition desktopAccessFormFromItem :: "platform_item option \<Rightarrow> desktop_form" where
  "desktopAccessFormFromItem item =
     (let metadata = item_meta item;
          get = obj_get metadata;
          text = (\<lambda>k. metadataText (get k));
          flag = (\<lambda>k. metadataBool (get k))
      in \<lparr>df_width = or_str (text ''desktop_width'') ''1440'',
          df_height = or_str (text ''desktop_height'') ''900'',
          df_dpi = or_str (text ''desktop_dpi'') ''96'',
          df_colorDepth = or_str (text ''desktop_color_depth'') ''24'',
          df_resizeMethod = or_str (text ''desktop_resize_method'') ''display-update'',
          df_recordingEnabled = flag ''desktop_recording_enabled'',
          df_clipboardEnabled = default_true (get ''desktop_clipboard_enabled''),
          df_fileTransferEnabled =
            (if get ''rdp_file_transfer_enabled'' = JUndefined \<and> get ''desktop_file_transfer_enabled'' = JUndefined
             then True
             else metadataBool (coalesce (get ''rdp_file_transfer_enabled'') (get ''desktop_file_transfer_enabled''))),
          df_sshFileTransferEnabled = default_true (get ''ssh_file_transfer_enabled''),
          df_ignoreCert = default_true (get ''desktop_ignore_cert''),
          df_readOnly = flag ''desktop_read_only'',
          df_watermarkEnabled = flag ''watermark_enabled'',
          df_watermarkText = text ''watermark_text'',
          df_watermarkColor = or_str (text ''watermark_color'') watermark_default,
          df_watermarkFontSize = or_str (text ''watermark_font_size'') ''28'',
          df_accessMfaEnabled = metadataBool (coalesce (get ''access_mfa_enabled'') (get ''access_mfa_required'')),
          df_accessMfaValidMinutes = or_str (text ''access_mfa_valid_minutes'') ''10''\<rparr>)"

text \<open>\<open>Number(s) || d\<close>\<close>

definition number_or :: "string \<Rightarrow> int \<Rightarrow> jsval" where
  "number_or s d = JNum (num_or (to_number s) (Fin (of_int d)))"

definition desktopAccessMetadataFromForm :: "desktop_form \<Rightarrow> js_object option \<Rightarrow> js_object" where
  "desktopAccessMetadataFromForm form existing =
     obj_set_all (case existing of Some ob \<Rightarrow> ob | None \<Rightarrow> [])
       [(''desktop_width'', number_or (df_width form) 1440),
        (''desktop_height'', number_or (df_height form) 900),
        (''desktop_dpi'', number_or (df_dpi form) 96),
        (''desktop_color_depth'', number_or (df_colorDepth form) 24),
        (''desktop_resize_method'', JStr (or_str (df_resizeMethod form) ''display-update'')),
        (''desktop_recording_enabled'', JBool (df_recordingEnabled form)),
        (''desktop_clipboard_enabled'', JBool (df_clipboardEnabled form)),
        (''rdp_file_transfer_enabled'', JBool (df_fileTransferEnabled form)),
        (''ssh_file_transfer_enabled'', JBool (df_sshFileTransferEnabled form)),
        (''desktop_ignore_cert'', JBool (df_ignoreCert form)),
        (''desktop_read_only'', JBool (df_readOnly form)),
        (''watermark_enabled'', JBool (df_watermarkEnabled form)),
        (''watermark_text'', JStr (trim (df_watermarkText form))),
        (''watermark_color'', JStr (or_str (trim (df_watermarkColor form)) watermark_default)),
        (''watermark_font_size'', number_or (df_watermarkFontSize form) 28),
        (''access_mfa_enabled'', JBool (df_accessMfaEnabled form)),
        (''access_mfa_valid_minutes'', number_or (df_accessMfaValidMinutes form) 10)]"

section \<open>Validators\<close>

definition mailbox_char :: "char \<Rightarrow> bool" where
  "mailbox_char c \<longleftrightarrow> \<not> is_ws c \<and> c \<noteq> CHR ''@'' \<and> c \<noteq> CHR ''<'' \<and> c \<noteq> CHR ''>''"

definition mailbox_re :: "string \<Rightarrow> bool" where
  "mailbox_re s =
     (case split_on CHR ''@'' s of
        [l, d] \<Rightarrow> l \<noteq> [] \<and> list_all mailbox_char l \<and> list_all mailbox_char d \<and> CHR ''.'' \<in> set (butlast (tl d))
      | _ \<Rightarrow> False)"

text \<open>The text between the last angle brackets, when the value ends with one.\<close>

definition angle_address :: "string \<Rightarrow> string" where
  "angle_address s =
     (if s = [] \<or> last s \<noteq> CHR ''>'' then ''''
      else let r = rev (butlast s);
               g = rev (takeWhile (\<lambda>c. c \<noteq> CHR ''<'' \<and> c \<noteq> CHR ''>'') r)
           in (case dropWhile (\<lambda>c. c \<noteq> CHR ''<'' \<and> c \<noteq> CHR ''>'') r of
                 c # _ \<Rightarrow> if c = CHR ''<'' then trim g else ''''
               | [] \<Rightarrow> ''''))"

definition smtpMailboxInputValid :: "string \<Rightarrow> bool" where
  "smtpMailboxInputValid value =
     (let trimmed_value = trim value in mailbox_re (or_str (angle_address trimmed_value) trimmed_value))"

definition smtpRecipientInputValid :: "string \<Rightarrow> bool" where
  "smtpRecipientInputValid value =
     list_all smtpMailboxInputValid
       (trimmed (split_runs (\<lambda>c. c \<in> set [CHR '';'', CHR '','', CHR 0x0A, CHR 0x0D]) value))"

record parsed_url =
  ur_protocol :: string
  ur_username :: string
  ur_password :: string
  ur_host :: string
  ur_hostname :: string
  ur_pathname :: string
  ur_hash :: string

type_synonym url_parser = "string \<Rightarrow> parsed_url option"

definition httpEndpointInputValid :: "url_parser \<Rightarrow> string \<Rightarrow> bool" where
  "httpEndpointInputValid parse_url value =
     (case parse_url (trim value) of
        Some u \<Rightarrow> ur_protocol u \<in> set [''http:'', ''https:''] \<and> ur_username u = '''' \<and> ur_password u = ''''
      | None \<Rightarrow> False)"

definition control_char :: "char \<Rightarrow> bool" where
  "control_char c \<longleftrightarrow> of_char c \<le> (31::nat) \<or> c = CHR 0x7F"

definition validOIDCClientID :: "string \<Rightarrow> bool" where
  "validOIDCClientID value \<longleftrightarrow>
     value \<noteq> [] \<and> trim value = value \<and> length value \<le> 256
     \<and> list_all (\<lambda>c. \<not> is_ws c \<and> \<not> control_char c) value"

definition small_octet :: "string \<Rightarrow> bool" where
  "small_octet s \<longleftrightarrow> 1 \<le> length s \<and> length s \<le> 3 \<and> all_digits s \<and> nat_of_digits s \<le> 255"

definition validOIDCLoopbackIPv4 :: "string \<Rightarrow> bool" where
  "validOIDCLoopbackIPv4 hostname =
     (let octets = split_on CHR ''.'' hostname
      in length octets = 4 \<and> octets ! 0 = ''127'' \<and> list_all small_octet octets)"

definition scheme_char :: "char \<Rightarrow> bool" where
  "scheme_char c \<longleftrightarrow> is_lower c \<or> is_digit c"

definition scheme_label :: "string \<Rightarrow> bool" where
  "scheme_label l \<longleftrightarrow>
     0 < length l \<and> length l \<le> 63 \<and> scheme_char (hd l) \<and> scheme_char (last l)
     \<and> list_all (\<lambda>c. scheme_char c \<or> c = CHR ''-'') l"

definition validOIDCPrivateUseScheme :: "string \<Rightarrow> bool" where
  "validOIDCPrivateUseScheme scheme =
     (if 255 < length scheme then False
      else let labels = split_on CHR ''.'' (lower scheme)
           in 2 \<le> length labels \<and> list_all scheme_label labels)"

definition strip_brackets :: "string \<Rightarrow> string" where
  "strip_brackets h =
     (let a = (if starts_with h ''['' then tl h else h) in if ends_with a '']'' then butlast a else a)"

definition strip_final_dot :: "string \<Rightarrow> string" where
  "strip_final_dot h = (if ends_with h ''.'' then butlast h else h)"

definition validOIDCRedirectURI :: "url_parser \<Rightarrow> string \<Rightarrow> bool \<Rightarrow> bool" where
  "validOIDCRedirectURI parse_url value publicClient =
     (if value = [] \<or> trim value \<noteq> value \<or> 2048 < length value
         \<or> list_ex (\<lambda>c. c \<in> set [CHR 0x0D, CHR 0x0A, CHR 0x00]) value then False
      else case parse_url value of
             None \<Rightarrow> False
           | Some u \<Rightarrow>
               let protocol = lower (ur_protocol u);
                   hostname = lower (strip_final_dot (strip_brackets (ur_hostname u)))
               in if ur_hash u \<noteq> '''' \<or> ur_username u \<noteq> '''' \<or> ur_password u \<noteq> '''' then False
                  else if protocol = ''https:'' then ur_hostname u \<noteq> ''''
                  else if protocol = ''http:''
                    then hostname = ''localhost'' \<or> hostname = ''::1'' \<or> validOIDCLoopbackIPv4 hostname
                  else publicClient \<and> ur_host u = '''' \<and> ur_pathname u \<noteq> ''''
                    \<and> validOIDCPrivateUseScheme (butlast protocol))"

definition scope_char :: "char \<Rightarrow> bool" where
  "scope_char c \<longleftrightarrow>
     (let n = of_char c :: nat in n = 33 \<or> 35 \<le> n \<and> n \<le> 91 \<or> 93 \<le> n \<and> n \<le> 126)"

definition validOIDCScopes :: "string list \<Rightarrow> bool" where
  "validOIDCScopes scopes =
     (if scopes = [] \<or> 32 < length scopes \<or> ''openid'' \<notin> set scopes \<or> \<not> distinct scopes then False
      else list_all (\<lambda>scope. length scope \<le> 128 \<and> scope \<noteq> [] \<and> list_all scope_char scope) scopes)"

section \<open>Properties\<close>

lemma number_or_int [simp]: "i \<noteq> 0 \<Longrightarrow> metadataText (number_or (show_int i) d) = show_int i"
  by (simp add: number_or_def to_number_int num_or_def metadataText_def num_text_int)

lemma show_int_not_Nil [simp]: "show_int i \<noteq> []"
  using show_nat_digits by (simp add: show_int_def)

lemma item_meta_Some [simp]: "item_meta (Some (i\<lparr>it_metadata := Some ob\<rparr>)) = ob"
  by (simp add: item_meta_def)

lemma distinct_desktop_keys:
  "distinct [''desktop_width'', ''desktop_height'', ''desktop_dpi'', ''desktop_color_depth'',
     ''desktop_resize_method'', ''desktop_recording_enabled'', ''desktop_clipboard_enabled'',
     ''rdp_file_transfer_enabled'', ''ssh_file_transfer_enabled'', ''desktop_ignore_cert'',
     ''desktop_read_only'', ''watermark_enabled'', ''watermark_text'', ''watermark_color'',
     ''watermark_font_size'', ''access_mfa_enabled'', ''access_mfa_valid_minutes'']"
  by code_simp

lemma obj_get_desktop:
  "obj_get (desktopAccessMetadataFromForm f ex) k =
     (case map_of
       [(''desktop_width'', number_or (df_width f) 1440),
        (''desktop_height'', number_or (df_height f) 900),
        (''desktop_dpi'', number_or (df_dpi f) 96),
        (''desktop_color_depth'', number_or (df_colorDepth f) 24),
        (''desktop_resize_method'', JStr (or_str (df_resizeMethod f) ''display-update'')),
        (''desktop_recording_enabled'', JBool (df_recordingEnabled f)),
        (''desktop_clipboard_enabled'', JBool (df_clipboardEnabled f)),
        (''rdp_file_transfer_enabled'', JBool (df_fileTransferEnabled f)),
        (''ssh_file_transfer_enabled'', JBool (df_sshFileTransferEnabled f)),
        (''desktop_ignore_cert'', JBool (df_ignoreCert f)),
        (''desktop_read_only'', JBool (df_readOnly f)),
        (''watermark_enabled'', JBool (df_watermarkEnabled f)),
        (''watermark_text'', JStr (trim (df_watermarkText f))),
        (''watermark_color'', JStr (or_str (trim (df_watermarkColor f)) watermark_default)),
        (''watermark_font_size'', number_or (df_watermarkFontSize f) 28),
        (''access_mfa_enabled'', JBool (df_accessMfaEnabled f)),
        (''access_mfa_valid_minutes'', number_or (df_accessMfaValidMinutes f) 10)] k of
       Some v \<Rightarrow> v | None \<Rightarrow> obj_get (case ex of Some ob \<Rightarrow> ob | None \<Rightarrow> []) k)"
  unfolding desktopAccessMetadataFromForm_def
  by (rule obj_get_set_all) (simp only: list.map fst_conv distinct_desktop_keys)

text \<open>Saving the desktop settings and opening them again shows the form that was saved, whatever the
  record held before; nothing of an older setting shows through.\<close>

theorem desktop_form_roundtrip:
  assumes "df_width f = show_int w" "df_height f = show_int h" "df_dpi f = show_int d"
    "df_colorDepth f = show_int c" "df_watermarkFontSize f = show_int s" "df_accessMfaValidMinutes f = show_int m"
    and "w \<noteq> 0" "h \<noteq> 0" "d \<noteq> 0" "c \<noteq> 0" "s \<noteq> 0" "m \<noteq> 0"
    and "df_resizeMethod f \<noteq> ''''" "trim (df_watermarkText f) = df_watermarkText f"
    and "trim (df_watermarkColor f) = df_watermarkColor f" "df_watermarkColor f \<noteq> ''''"
  shows "desktopAccessFormFromItem (Some (item\<lparr>it_metadata := Some (desktopAccessMetadataFromForm f existing)\<rparr>)) = f"
  using assms
  by (cases f) (simp add: desktopAccessFormFromItem_def Let_def obj_get_desktop or_str_def default_true_def
      coalesce_def nullish_def)

lemma desktop_form_roundtrip_witness:
  "desktopAccessFormFromItem (Some (blank_item\<lparr>it_metadata := Some (desktopAccessMetadataFromForm
     \<lparr>df_width = show_int 1280, df_height = show_int 720, df_dpi = show_int 96, df_colorDepth = show_int 16,
      df_resizeMethod = ''reconnect'', df_recordingEnabled = True, df_clipboardEnabled = False,
      df_fileTransferEnabled = False, df_sshFileTransferEnabled = True, df_ignoreCert = False,
      df_readOnly = True, df_watermarkEnabled = True, df_watermarkText = ''audit'',
      df_watermarkColor = ''red'', df_watermarkFontSize = show_int 20, df_accessMfaEnabled = True,
      df_accessMfaValidMinutes = show_int 5\<rparr> (Some [(''desktop_width'', JStr ''1''), (''access_mfa_required'', JBool False)]))\<rparr>)) =
     \<lparr>df_width = show_int 1280, df_height = show_int 720, df_dpi = show_int 96, df_colorDepth = show_int 16,
      df_resizeMethod = ''reconnect'', df_recordingEnabled = True, df_clipboardEnabled = False,
      df_fileTransferEnabled = False, df_sshFileTransferEnabled = True, df_ignoreCert = False,
      df_readOnly = True, df_watermarkEnabled = True, df_watermarkText = ''audit'',
      df_watermarkColor = ''red'', df_watermarkFontSize = show_int 20, df_accessMfaEnabled = True,
      df_accessMfaValidMinutes = show_int 5\<rparr>"
  by (rule desktop_form_roundtrip [where w = 1280 and h = 720 and d = 96 and c = 16 and s = 20 and m = 5])
    (simp_all add: trim_id is_ws_def)

lemma obj_get_set_when: "obj_get (set_when b k v ob) k' = (if b \<and> k' = k then v else obj_get ob k')"
  by (simp add: set_when_def)

lemma obj_get_set_all_step:
  "obj_get (obj_set_all ob ((k, v) # upd)) k' = obj_get (obj_set_all (obj_set ob k v) upd) k'"
  "obj_get (obj_set_all ob []) k' = obj_get ob k'"
  by (simp_all add: obj_set_all_def)

lemma integration_categories:
  "obj_get (integrationMetadataFromForm f ex) ''smtp_notification_categories'' =
     JArr (map JStr (filter (\<lambda>t. t \<noteq> '''')
       [if sf_notifySecurity f then ''security'' else '''', if sf_notifyTasks f then ''task'' else '''',
        if sf_notifyGateways f then ''gateway'' else '''', if sf_notifyOperations f then ''operation'' else '''']))"
  unfolding integrationMetadataFromForm_def Let_def
  by (simp add: obj_get_set_when obj_get_set_all_step del: filter.simps)

lemma integration_other_key:
  "obj_get (integrationMetadataFromForm f ex) ''smtp_ssl'' = obj_get (case ex of Some ob \<Rightarrow> ob | None \<Rightarrow> []) ''smtp_ssl''"
  unfolding integrationMetadataFromForm_def Let_def
  by (simp add: obj_get_set_when obj_get_set_all_step)

text \<open>The mail settings do not keep an empty choice of notification categories: a form saved with
  all four off opens with all four on.\<close>

theorem smtp_categories_reset:
  "sf_notifySecurity f = False \<and> sf_notifyTasks f = False \<and> sf_notifyGateways f = False \<and> sf_notifyOperations f = False \<Longrightarrow>
   (let g = smtpIntegrationFormFromItem (Some (item\<lparr>it_metadata := Some (integrationMetadataFromForm f existing)\<rparr>))
    in sf_notifySecurity g \<and> sf_notifyTasks g \<and> sf_notifyGateways g \<and> sf_notifyOperations g)"
  unfolding smtpIntegrationFormFromItem_def item_meta_Some Let_def integration_categories
  by (simp add: metadataListText_def trimmed_def)

lemma smtp_categories_reset_witness:
  "sf_notifySecurity (smtpIntegrationFormFromItem (Some (blank_item\<lparr>it_metadata := Some
     (integrationMetadataFromForm (smtpIntegrationFormFromItem None
       \<lparr>sf_notifySecurity := False, sf_notifyTasks := False, sf_notifyGateways := False, sf_notifyOperations := False\<rparr>) None)\<rparr>)))"
  using smtp_categories_reset [where item = blank_item and existing = None and f = "smtpIntegrationFormFromItem None
       \<lparr>sf_notifySecurity := False, sf_notifyTasks := False, sf_notifyGateways := False, sf_notifyOperations := False\<rparr>"
       ]
  by (simp add: Let_def)

text \<open>Turning transport security off does not stick on a record that carries an older key: with
  \<open>smtp_ssl\<close> set, a form saved with security \<open>none\<close> opens with \<open>tls\<close>.\<close>

theorem smtp_security_legacy_key:
  "metadataBool (obj_get existing ''smtp_ssl'') \<Longrightarrow>
   sf_security (smtpIntegrationFormFromItem (Some (item\<lparr>it_metadata := Some (integrationMetadataFromForm f (Some existing))\<rparr>))) = ''tls''"
  unfolding smtpIntegrationFormFromItem_def item_meta_Some Let_def integration_other_key
  by simp

lemma smtp_security_legacy_key_witness:
  "sf_security (smtpIntegrationFormFromItem (Some (blank_item\<lparr>it_metadata := Some
     (integrationMetadataFromForm (smtpIntegrationFormFromItem None\<lparr>sf_security := ''none''\<rparr>)
       (Some [(''smtp_ssl'', JBool True)]))\<rparr>))) = ''tls''"
  by (rule smtp_security_legacy_key) (simp add: obj_get_def)

end
