(* ===== verification/Session.thy ===== *)
theory Session
  imports Preferences Navigation ConfigForms
begin

text \<open>
  The application provider (\<open>src/frontend/src/app/app-provider.tsx\<close>): who is signed in, what
  data is shown, and how errors, sign-in, refresh and sign-out change that.

  The query cache (react-query) is not under \<open>src/\<close>. It is the record \<open>query_client\<close> of
  functions on a cache of any type; \<open>query_client_laws\<close> states the documented behaviour the
  provider relies on: setting a query makes its data available, removing one forgets it, and
  neither touches the other queries.
\<close>

section \<open>Bootstrap data\<close>

record conn_session =
  cs_id :: string
  cs_protocol :: string
  cs_server_id :: string
  cs_credential_id :: string
  cs_user_id :: string
  cs_status :: string
  cs_client_ip :: string
  cs_recording_path :: string
  cs_recording_size :: rat
  cs_started_at :: string
  cs_width :: rat
  cs_height :: rat
  cs_dpi :: rat
  cs_clipboard_enabled :: "bool option"
  cs_file_transfer_enabled :: "bool option"
  cs_watermark_enabled :: bool
  cs_watermark_text :: string

record audit_log =
  al_id :: string
  al_user_id :: string
  al_action :: string
  al_target_id :: string
  al_protocol :: "string option"
  al_detail :: "string option"
  al_client_ip :: "string option"
  al_created_at :: string

type_synonym platform_data = "(string \<times> platform_item list) list"

record bootstrap_payload =
  bp_servers :: "managed_server list option"
  bp_credentials :: "credential list option"
  bp_sessions :: "conn_session list option"
  bp_audit_logs :: "audit_log list option"
  bp_platform :: "platform_data option"
  bp_guacd :: "string option"

record bootstrap_data =
  bd_servers :: "managed_server list"
  bd_credentials :: "credential list"
  bd_sessions :: "conn_session list"
  bd_audit_logs :: "audit_log list"
  bd_platform :: platform_data
  bd_guacd :: "string option"

definition emptyBootstrap :: bootstrap_data where
  "emptyBootstrap = \<lparr>bd_servers = [], bd_credentials = [], bd_sessions = [], bd_audit_logs = [],
     bd_platform = [], bd_guacd = None\<rparr>"

definition or_list :: "'a list option \<Rightarrow> 'a list" where
  "or_list xs = (case xs of Some ys \<Rightarrow> ys | None \<Rightarrow> [])"

definition bootstrap_view :: "bootstrap_payload option \<Rightarrow> bootstrap_data" where
  "bootstrap_view payload =
     (case payload of
        Some p \<Rightarrow> \<lparr>bd_servers = or_list (bp_servers p), bd_credentials = or_list (bp_credentials p),
           bd_sessions = or_list (bp_sessions p), bd_audit_logs = or_list (bp_audit_logs p),
           bd_platform = or_list (bp_platform p), bd_guacd = bp_guacd p\<rparr>
      | None \<Rightarrow> emptyBootstrap)"

definition defaultPublicConfig :: public_config where
  "defaultPublicConfig = \<lparr>pc_site_name = ''Open Web Server Manager'', pc_version = ''dev'', pc_commit = '''',
     pc_github_url = ''https://github.com/weige2008/openwebservermanager'',
     pc_copyright = ''Copyright (c) 2026 weige2008. All rights reserved.'', pc_logo_url = '''',
     pc_asset_logo_url = '''', pc_icp_number = '''', pc_about_title = '''', pc_about_description = '''',
     pc_about_body = '''', pc_footer_text = '''',
     pc_nav_links = map (\<lambda>(title, href). \<lparr>nl_title = title, nl_href = href, nl_external = None\<rparr>)
       [(''product'', ''/#product''), (''connections'', ''/#connections''), (''security'', ''/#security''),
        (''deploy'', ''/#deploy''), (''about'', ''/about'')]\<rparr>"

text \<open>An absent field of the payload is the empty string or list.\<close>

definition public_config_view :: "public_config option \<Rightarrow> public_config" where
  "public_config_view payload =
     (case payload of
        Some p \<Rightarrow> p\<lparr>pc_site_name := or_str (pc_site_name p) (pc_site_name defaultPublicConfig),
           pc_version := or_str (pc_version p) (pc_version defaultPublicConfig),
           pc_commit := or_str (pc_commit p) (pc_commit defaultPublicConfig),
           pc_github_url := or_str (pc_github_url p) (pc_github_url defaultPublicConfig),
           pc_copyright := or_str (pc_copyright p) (pc_copyright defaultPublicConfig),
           pc_nav_links := (if pc_nav_links p \<noteq> [] then pc_nav_links p else pc_nav_links defaultPublicConfig)\<rparr>
      | None \<Rightarrow> defaultPublicConfig)"

section \<open>The query cache\<close>

record auth_status =
  aq_configured :: bool
  aq_captcha_required :: bool
  aq_password_login_disabled :: bool
  aq_ldap_login_enabled :: bool

definition no_status :: auth_status where
  "no_status = \<lparr>aq_configured = False, aq_captcha_required = False,
     aq_password_login_disabled = False, aq_ldap_login_enabled = False\<rparr>"

datatype query_key = AuthStatus | PublicConfig | AuthMe | Bootstrap

record 'c query_client =
  q_status :: "'c \<Rightarrow> auth_status option"
  q_status_fetched :: "'c \<Rightarrow> bool"
  q_me :: "'c \<Rightarrow> auth_user option option"
  q_me_fetched :: "'c \<Rightarrow> bool"
  q_me_error :: "'c \<Rightarrow> bool"
  q_bootstrap :: "'c \<Rightarrow> bootstrap_payload option"
  q_set_status :: "(auth_status option \<Rightarrow> auth_status) \<Rightarrow> 'c \<Rightarrow> 'c"
  q_set_me :: "auth_user option \<Rightarrow> 'c \<Rightarrow> 'c"
  q_fail_me :: "'c \<Rightarrow> 'c"
  q_remove :: "query_key \<Rightarrow> 'c \<Rightarrow> 'c"
  q_invalidate :: "query_key \<Rightarrow> 'c \<Rightarrow> 'c"

definition same_status :: "'c query_client \<Rightarrow> 'c \<Rightarrow> 'c \<Rightarrow> bool" where
  "same_status qc c c' \<longleftrightarrow> q_status qc c' = q_status qc c \<and> q_status_fetched qc c' = q_status_fetched qc c"

definition same_me :: "'c query_client \<Rightarrow> 'c \<Rightarrow> 'c \<Rightarrow> bool" where
  "same_me qc c c' \<longleftrightarrow> q_me qc c' = q_me qc c \<and> q_me_fetched qc c' = q_me_fetched qc c \<and> q_me_error qc c' = q_me_error qc c"

definition query_client_laws :: "'c query_client \<Rightarrow> bool" where
  "query_client_laws qc \<longleftrightarrow>
     (\<forall>f c. let c' = q_set_status qc f c in
        q_status qc c' = Some (f (q_status qc c)) \<and> q_status_fetched qc c' \<and> same_me qc c c' \<and>
        q_bootstrap qc c' = q_bootstrap qc c) \<and>
     (\<forall>u c. let c' = q_set_me qc u c in
        q_me qc c' = Some u \<and> q_me_fetched qc c' \<and> same_status qc c c' \<and> q_bootstrap qc c' = q_bootstrap qc c) \<and>
     (\<forall>c. let c' = q_remove qc AuthMe c in
        q_me qc c' = None \<and> \<not> q_me_fetched qc c' \<and> \<not> q_me_error qc c' \<and> same_status qc c c' \<and>
        q_bootstrap qc c' = q_bootstrap qc c) \<and>
     (\<forall>c. let c' = q_fail_me qc c in
        q_me qc c' = q_me qc c \<and> q_me_error qc c' \<and> same_status qc c c' \<and> q_bootstrap qc c' = q_bootstrap qc c) \<and>
     (\<forall>c. let c' = q_remove qc Bootstrap c in
        q_bootstrap qc c' = None \<and> same_status qc c c' \<and> same_me qc c c') \<and>
     (\<forall>c. same_me qc c (q_invalidate qc AuthStatus c) \<and> same_me qc c (q_invalidate qc PublicConfig c) \<and>
        same_me qc c (q_invalidate qc Bootstrap c))"

section \<open>The provider\<close>

datatype modal = ServerModal | CredentialModal string | ConnectModal string string

datatype workspace_kind = SSHKind | RDPKind | VNCKind

record workspace =
  wk_type :: workspace_kind
  wk_session :: conn_session
  wk_status :: string

record 'c app =
  am_cache :: 'c
  am_modal :: "modal option"
  am_workspace :: "workspace option"
  am_toasts :: "string list"

definition configured :: "'c query_client \<Rightarrow> 'c app \<Rightarrow> bool" where
  "configured qc st = (case q_status qc (am_cache st) of Some s \<Rightarrow> aq_configured s | None \<Rightarrow> False)"

definition app_auth :: "'c query_client \<Rightarrow> 'c app \<Rightarrow> auth_user option" where
  "app_auth qc st = (case q_me qc (am_cache st) of Some u \<Rightarrow> u | None \<Rightarrow> None)"

definition app_booted :: "'c query_client \<Rightarrow> 'c app \<Rightarrow> bool" where
  "app_booted qc st \<longleftrightarrow> q_status_fetched qc (am_cache st) \<and>
     (\<not> configured qc st \<or> q_me_fetched qc (am_cache st) \<or> q_me_error qc (am_cache st))"

definition setupRequired :: "'c query_client \<Rightarrow> 'c app \<Rightarrow> bool" where
  "setupRequired qc st = (if q_status_fetched qc (am_cache st) then \<not> configured qc st else False)"

definition app_data :: "'c query_client \<Rightarrow> 'c app \<Rightarrow> bootstrap_data" where
  "app_data qc st = bootstrap_view (q_bootstrap qc (am_cache st))"

definition app_session :: "'c query_client \<Rightarrow> 'c app \<Rightarrow> session" where
  "app_session qc st = \<lparr>ss_booted = app_booted qc st, ss_auth = app_auth qc st\<rparr>"

definition exn_message :: "exn \<Rightarrow> string" where
  "exn_message e = (case e of ApiError err \<Rightarrow> ae_message err | OtherError m \<Rightarrow> m)"

definition is_setup_error :: "exn \<Rightarrow> bool" where
  "is_setup_error e = (case e of ApiError err \<Rightarrow> ae_setup_required err | OtherError _ \<Rightarrow> False)"

definition handleApiError :: "'c query_client \<Rightarrow> exn \<Rightarrow> 'c app \<Rightarrow> 'c app" where
  "handleApiError qc e st =
     (let st1 = (if is_setup_error e
          then st\<lparr>am_cache := q_remove qc Bootstrap (q_remove qc AuthMe
                   (q_set_status qc (\<lambda>_. no_status) (am_cache st))), am_workspace := None\<rparr>
          else st)
      in st1\<lparr>am_toasts := am_toasts st1 @ [exn_message e]\<rparr>)"

definition setAuthenticatedUser :: "'c query_client \<Rightarrow> auth_user \<Rightarrow> 'c app \<Rightarrow> 'c app" where
  "setAuthenticatedUser qc user st =
     st\<lparr>am_cache := q_set_me qc (Some user) (q_set_status qc
          (\<lambda>current. (case current of Some s \<Rightarrow> s | None \<Rightarrow> no_status)\<lparr>aq_configured := True\<rparr>) (am_cache st))\<rparr>"

definition refresh_app :: "'c query_client \<Rightarrow> bool \<Rightarrow> 'c app \<Rightarrow> 'c app" where
  "refresh_app qc silent st =
     (let st1 = st\<lparr>am_cache := q_invalidate qc Bootstrap (q_invalidate qc PublicConfig
                     (q_invalidate qc AuthStatus (am_cache st)))\<rparr>
      in if silent then st1 else st1\<lparr>am_toasts := am_toasts st1 @ [''dataRefreshed'']\<rparr>)"

text \<open>The mutation's \<open>onSettled\<close> runs whether the server answered or not; a failure is swallowed.\<close>

definition logout_settled :: "'c query_client \<Rightarrow> 'c app \<Rightarrow> 'c app" where
  "logout_settled qc st =
     st\<lparr>am_cache := q_remove qc Bootstrap (q_remove qc AuthMe (am_cache st)),
        am_workspace := None, am_modal := None\<rparr>"

definition logout :: "'c query_client \<Rightarrow> env \<Rightarrow> 'c app \<Rightarrow> log \<Rightarrow> 'c app \<times> log" where
  "logout qc ev st l =
     (case apiRequest ev (post_request ''/api/auth/logout'' (JObj [])) l of
        (Inr _, l') \<Rightarrow> (logout_settled qc st, l')
      | (Inl _, l') \<Rightarrow> (logout_settled qc st, l'))"

text \<open>
  The render that follows: the provider still observes \<open>auth-me\<close>, so a query that is no longer in the cache is fetched
  again, when \<open>enabled: configured\<close> says so. The user in the answer's body is read by \<open>read_user\<close>.
\<close>

definition render_me :: "'c query_client \<Rightarrow> (jsval \<Rightarrow> auth_user option) \<Rightarrow> env \<Rightarrow> 'c app \<Rightarrow> log \<Rightarrow> 'c app \<times> log" where
  "render_me qc read_user ev st l =
     (if \<not> configured qc st \<or> q_me qc (am_cache st) \<noteq> None \<or> q_me_error qc (am_cache st) then (st, l)
      else case apiRequest ev (get_request ''/api/auth/me'') l of
             (Inr v, l') \<Rightarrow> (st\<lparr>am_cache := q_set_me qc (read_user v) (am_cache st)\<rparr>, l')
           | (Inl _, l') \<Rightarrow> (st\<lparr>am_cache := q_fail_me qc (am_cache st)\<rparr>, l'))"

section \<open>Theme\<close>

definition resolved_theme :: "string \<Rightarrow> string \<Rightarrow> string" where
  "resolved_theme theme systemTheme = (if theme = ''system'' then systemTheme else theme)"

definition resolveThemeFont :: "appearance \<Rightarrow> jsval" where
  "resolveThemeFont a =
     (if ap_font a \<noteq> JStr ''default'' then ap_font a
      else if ap_preset a = JStr ''anthropic'' then JStr ''serif'' else JStr ''sans'')"

text \<open>The attributes of the body after the appearance effect; \<open>None\<close> is a removed attribute.\<close>

definition applyBodyAttribute :: "string \<Rightarrow> jsval \<Rightarrow> jsval \<Rightarrow> (string \<Rightarrow> jsval option) \<Rightarrow> string \<Rightarrow> jsval option" where
  "applyBodyAttribute name value fallback body =
     (if value = fallback then body(name := None) else body(name \<mapsto> value))"

definition apply_appearance :: "appearance \<Rightarrow> (string \<Rightarrow> jsval option) \<Rightarrow> string \<Rightarrow> jsval option" where
  "apply_appearance a body =
     applyBodyAttribute ''data-theme-sidebar-style'' (ap_sidebarStyle a) (ap_sidebarStyle defaultAppearance)
       ((applyBodyAttribute ''data-theme-scale'' (ap_scale a) (ap_scale defaultAppearance)
         (applyBodyAttribute ''data-theme-radius'' (ap_radius a) (ap_radius defaultAppearance)
           ((applyBodyAttribute ''data-theme-preset'' (ap_preset a) (ap_preset defaultAppearance) body)
             (''data-theme-font'' \<mapsto> resolveThemeFont a))))
         (''data-theme-content-layout'' \<mapsto> ap_contentLayout a))"

section \<open>What the cache laws give\<close>

named_theorems cache_laws

lemma status_after_set [cache_laws]:
  assumes "query_client_laws qc"
  shows "q_status qc (q_set_status qc f c) = Some (f (q_status qc c))" "q_status_fetched qc (q_set_status qc f c)"
    "q_me qc (q_set_status qc f c) = q_me qc c" "q_bootstrap qc (q_set_status qc f c) = q_bootstrap qc c"
  using assms by (auto simp: query_client_laws_def same_me_def Let_def)

lemma status_after_set_me [cache_laws]:
  assumes "query_client_laws qc"
  shows "q_me qc (q_set_me qc u c) = Some u" "q_me_fetched qc (q_set_me qc u c)"
    "q_status qc (q_set_me qc u c) = q_status qc c" "q_status_fetched qc (q_set_me qc u c) = q_status_fetched qc c"
    "q_bootstrap qc (q_set_me qc u c) = q_bootstrap qc c"
  using assms by (auto simp: query_client_laws_def same_status_def Let_def)

lemma status_after_remove [cache_laws]:
  assumes "query_client_laws qc"
  shows "q_me qc (q_remove qc AuthMe c) = None" "q_status qc (q_remove qc AuthMe c) = q_status qc c"
    "q_status_fetched qc (q_remove qc AuthMe c) = q_status_fetched qc c"
    "q_bootstrap qc (q_remove qc AuthMe c) = q_bootstrap qc c"
    "q_bootstrap qc (q_remove qc Bootstrap c) = None" "q_status qc (q_remove qc Bootstrap c) = q_status qc c"
    "q_status_fetched qc (q_remove qc Bootstrap c) = q_status_fetched qc c"
    "q_me qc (q_remove qc Bootstrap c) = q_me qc c"
    "\<not> q_me_error qc (q_remove qc AuthMe c)" "q_me_error qc (q_remove qc Bootstrap c) = q_me_error qc c"
  using assms by (auto simp: query_client_laws_def same_status_def same_me_def Let_def)

lemma after_fail_me [cache_laws]:
  assumes "query_client_laws qc"
  shows "q_me qc (q_fail_me qc c) = q_me qc c" "q_me_error qc (q_fail_me qc c)" "q_status qc (q_fail_me qc c) = q_status qc c"
    "q_status_fetched qc (q_fail_me qc c) = q_status_fetched qc c" "q_bootstrap qc (q_fail_me qc c) = q_bootstrap qc c"
  using assms by (auto simp: query_client_laws_def same_status_def Let_def)

lemma me_after_invalidate [cache_laws]:
  assumes "query_client_laws qc"
  shows "q_me qc (q_invalidate qc AuthStatus c) = q_me qc c" "q_me qc (q_invalidate qc PublicConfig c) = q_me qc c"
    "q_me qc (q_invalidate qc Bootstrap c) = q_me qc c"
  using assms by (auto simp: query_client_laws_def same_me_def)

lemmas provider_defs = handleApiError_def setAuthenticatedUser_def logout_settled_def app_auth_def
  app_booted_def configured_def setupRequired_def app_data_def app_session_def

lemma locked_routes:
  "app_auth qc st = None \<Longrightarrow> route_view q p (app_session qc st) = Some v \<Longrightarrow> p \<notin> set public_paths \<Longrightarrow>
   v = LoadingScreen \<or> v = NavigateTo ''/login'' \<or> v = NavigateTo ''/app''"
  by (rule console_locked [of "app_session qc st" q p v]) (simp_all add: app_session_def)

text \<open>A cache that satisfies the laws: the three queries and whether the user could not be read, nothing refetched.\<close>

type_synonym tuple_cache = "auth_status option \<times> auth_user option option \<times> bootstrap_payload option \<times> bool"

definition tuple_client :: "tuple_cache query_client" where
  "tuple_client = \<lparr>q_status = fst, q_status_fetched = (\<lambda>c. fst c \<noteq> None), q_me = (\<lambda>c. fst (snd c)),
     q_me_fetched = (\<lambda>c. fst (snd c) \<noteq> None), q_me_error = (\<lambda>c. snd (snd (snd c))), q_bootstrap = (\<lambda>c. fst (snd (snd c))),
     q_set_status = (\<lambda>f (s, m, b, e). (Some (f s), m, b, e)), q_set_me = (\<lambda>u (s, m, b, e). (s, Some u, b, False)),
     q_fail_me = (\<lambda>(s, m, b, e). (s, m, b, True)),
     q_remove = (\<lambda>k (s, m, b, e). case k of AuthMe \<Rightarrow> (s, None, b, False) | Bootstrap \<Rightarrow> (s, m, None, e)
       | AuthStatus \<Rightarrow> (None, m, b, e) | PublicConfig \<Rightarrow> (s, m, b, e)),
     q_invalidate = (\<lambda>k c. c)\<rparr>"

lemma tuple_client_laws: "query_client_laws tuple_client"
  by (auto simp: query_client_laws_def tuple_client_def same_me_def same_status_def Let_def)

section \<open>Properties\<close>

text \<open>When the server reports that it is not set up, the console locks: nobody is signed in, no data and
  no session stays on the screen, the sign-in page asks for the set-up, and no console route opens.\<close>

theorem setup_error_locks_out:
  assumes "query_client_laws qc" "is_setup_error e"
  shows "app_auth qc (handleApiError qc e st) = None \<and> setupRequired qc (handleApiError qc e st) \<and>
    app_booted qc (handleApiError qc e st) \<and> app_data qc (handleApiError qc e st) = emptyBootstrap \<and>
    am_workspace (handleApiError qc e st) = None \<and>
    (\<forall>q p v. route_view q p (app_session qc (handleApiError qc e st)) = Some v \<longrightarrow> p \<notin> set public_paths \<longrightarrow>
       v = LoadingScreen \<or> v = NavigateTo ''/login'' \<or> v = NavigateTo ''/app'')"
proof -
  have none: "app_auth qc (handleApiError qc e st) = None"
    using assms by (simp add: provider_defs Let_def cache_laws)
  then show ?thesis
    using assms locked_routes [OF none] by (simp add: provider_defs Let_def cache_laws no_status_def bootstrap_view_def)
qed

lemma setup_error_locks_out_witness:
  "app_auth tuple_client (handleApiError tuple_client
     (ApiError \<lparr>ae_message = ''setup'', ae_status = 409, ae_setup_required = True, ae_data = JNull\<rparr>)
     \<lparr>am_cache = (None, Some None, None, False), am_modal = None, am_workspace = None, am_toasts = []\<rparr>) = None"
  by (rule setup_error_locks_out [OF tuple_client_laws, THEN conjunct1]) (simp add: is_setup_error_def)

text \<open>C14 Signing out shows what the server says, not what was asked. Whatever the answer to the one request to sign out, nobody is
  signed in at that moment: the start-up data, the dialog and the session are gone and no console route opens. But the
  provider asks \<open>GET /api/auth/me\<close> again in its next render, and its answer alone decides from then on: if the server
  refuses, the console stays locked; if the request to sign out had not reached it, the same user is signed in again, and
  the console opens without a word. (Only the start-up data is meant; assets, notifications and snippets that other
  pages cached are not removed.)
\<close>

theorem logout_follows_server:
  assumes laws: "query_client_laws qc"
    and out: "logout qc ev st l = (st1, l1)" and render: "render_me qc read_user ev st1 l1 = (st2, l2)"
  shows "l1 = l @ [Call (post_request ''/api/auth/logout'' (JObj []))] \<and> app_auth qc st1 = None \<and>
    l2 = l1 @ (if configured qc st then [Call (get_request ''/api/auth/me'')] else []) \<and>
    app_auth qc st2 = (if configured qc st
       then case fst (apiRequest ev (get_request ''/api/auth/me'') l1) of Inr v \<Rightarrow> read_user v | Inl _ \<Rightarrow> None
       else None) \<and>
    (\<forall>s \<in> {st1, st2}. app_data qc s = emptyBootstrap \<and> am_workspace s = None \<and> am_modal s = None \<and>
       (app_auth qc s = None \<longrightarrow> (\<forall>q p v. route_view q p (app_session qc s) = Some v \<longrightarrow> p \<notin> set public_paths \<longrightarrow>
          v = LoadingScreen \<or> v = NavigateTo ''/login'' \<or> v = NavigateTo ''/app'')))"
proof -
  have l: "logout qc ev st l = (logout_settled qc st, l @ [Call (post_request ''/api/auth/logout'' (JObj []))])"
    unfolding logout_def by (subst apiRequest_eq) (simp split: sum.split)
  then have st1: "st1 = logout_settled qc st" and l1: "l1 = l @ [Call (post_request ''/api/auth/logout'' (JObj []))]"
    using out by simp_all
  have keeps: "configured qc st1 = configured qc st" "q_me qc (am_cache st1) = None" "\<not> q_me_error qc (am_cache st1)"
    by (simp_all add: st1 provider_defs cache_laws [OF laws])
  have "render_me qc read_user ev st1 l1 =
      (if configured qc st
       then (st1\<lparr>am_cache := (case fst (apiRequest ev (get_request ''/api/auth/me'') l1) of
               Inr v \<Rightarrow> q_set_me qc (read_user v) (am_cache st1) | Inl _ \<Rightarrow> q_fail_me qc (am_cache st1))\<rparr>,
             l1 @ [Call (get_request ''/api/auth/me'')])
       else (st1, l1))"
    unfolding render_me_def by (subst apiRequest_eq) (simp add: keeps split: sum.split)
  with render have st2: "st2 = (if configured qc st then st1\<lparr>am_cache := (case fst (apiRequest ev (get_request ''/api/auth/me'') l1) of
               Inr v \<Rightarrow> q_set_me qc (read_user v) (am_cache st1) | Inl _ \<Rightarrow> q_fail_me qc (am_cache st1))\<rparr> else st1)"
    and l2: "l2 = l1 @ (if configured qc st then [Call (get_request ''/api/auth/me'')] else [])"
    by (auto split: if_splits)
  have auth: "app_auth qc st1 = None" "app_auth qc st2 = (if configured qc st
       then case fst (apiRequest ev (get_request ''/api/auth/me'') l1) of Inr v \<Rightarrow> read_user v | Inl _ \<Rightarrow> None else None)"
    using keeps(2) by (auto simp: st2 app_auth_def cache_laws [OF laws] split: sum.split)
  have gone: "app_data qc s = emptyBootstrap \<and> am_workspace s = None \<and> am_modal s = None" if "s \<in> {st1, st2}" for s
    using that by (auto simp: st2 st1 app_data_def logout_settled_def cache_laws [OF laws] bootstrap_view_def split: sum.split)
  have locked: "\<forall>s \<in> {st1, st2}. app_data qc s = emptyBootstrap \<and> am_workspace s = None \<and> am_modal s = None \<and>
       (app_auth qc s = None \<longrightarrow> (\<forall>q p v. route_view q p (app_session qc s) = Some v \<longrightarrow> p \<notin> set public_paths \<longrightarrow>
          v = LoadingScreen \<or> v = NavigateTo ''/login'' \<or> v = NavigateTo ''/app''))"
    by (intro ballI conjI impI allI gone [THEN conjunct1] gone [THEN conjunct2, THEN conjunct1] gone [THEN conjunct2, THEN conjunct2])
      (assumption | rule locked_routes)+
  show ?thesis by (intro conjI l1 l2 auth locked)
qed

text \<open>The server is down when the user signs out, and back for the next request: the user is signed in again.\<close>

definition some_user :: auth_user where
  "some_user = \<lparr>au_id = ''u'', au_username = ''u'', au_role = ''admin'', au_expires_at = '''',
     au_api_permissions = None, au_menu_permissions = None\<rparr>"

definition flaky_server :: env where
  "flaky_server = \<lparr>ev_fetch = (\<lambda>l. if length l = 1 then Inl ''offline''
       else Inr \<lparr>rs_ok = True, rs_status = 200, rs_status_text = '''', rs_json = Some (JObj [])\<rparr>),
     ev_mfa = (\<lambda>_. ''''), ev_confirm = (\<lambda>_. True)\<rparr>"

definition signed_in_app :: "tuple_cache app" where
  "signed_in_app = \<lparr>am_cache = (Some (no_status\<lparr>aq_configured := True\<rparr>), Some (Some some_user), None, False),
     am_modal = None, am_workspace = None, am_toasts = []\<rparr>"

lemma logout_follows_server_witness:
  "let (st1, l1) = logout tuple_client flaky_server signed_in_app [];
       (st2, l2) = render_me tuple_client (\<lambda>_. Some some_user) flaky_server st1 l1
   in app_auth tuple_client st1 = None \<and> app_auth tuple_client st2 = Some some_user"
proof -
  obtain st1 l1 where 1: "logout tuple_client flaky_server signed_in_app [] = (st1, l1)" by fastforce
  obtain st2 l2 where 2: "render_me tuple_client (\<lambda>_. Some some_user) flaky_server st1 l1 = (st2, l2)" by fastforce
  have "configured tuple_client signed_in_app" by (simp add: configured_def tuple_client_def signed_in_app_def)
  with logout_follows_server [OF tuple_client_laws 1 2]
  show ?thesis using 1 2 by (simp add: apiRequest_def api_result_def flaky_server_def Let_def)
qed

text \<open>A completed sign-in opens the console for that user at once, without waiting for the server again,
  and keeps what is known of the sign-in methods.\<close>

theorem sign_in_opens_console:
  assumes "query_client_laws qc"
  shows "app_session qc (setAuthenticatedUser qc user st) = \<lparr>ss_booted = True, ss_auth = Some user\<rparr> \<and>
    \<not> setupRequired qc (setAuthenticatedUser qc user st) \<and>
    (\<forall>s. q_status qc (am_cache st) = Some s \<longrightarrow>
       q_status qc (am_cache (setAuthenticatedUser qc user st)) = Some (s\<lparr>aq_configured := True\<rparr>))"
  using assms by (simp add: provider_defs cache_laws split: option.split)

lemma sign_in_opens_console_witness:
  "ss_booted (app_session tuple_client (setAuthenticatedUser tuple_client
     \<lparr>au_id = ''u'', au_username = ''u'', au_role = ''admin'', au_expires_at = '''', au_api_permissions = None, au_menu_permissions = None\<rparr>
     \<lparr>am_cache = (None, None, None, False), am_modal = None, am_workspace = None, am_toasts = []\<rparr>))"
  using sign_in_opens_console [OF tuple_client_laws] by simp

lemma applyBodyAttribute_at:
  "applyBodyAttribute n v d body x = (if x = n then (if v = d then None else Some v) else body x)"
  by (simp add: applyBodyAttribute_def)

lemma apply_appearance_at:
  "apply_appearance a body x =
     (if x = ''data-theme-sidebar-style'' then if ap_sidebarStyle a = ap_sidebarStyle defaultAppearance then None else Some (ap_sidebarStyle a)
      else if x = ''data-theme-content-layout'' then Some (ap_contentLayout a)
      else if x = ''data-theme-scale'' then if ap_scale a = ap_scale defaultAppearance then None else Some (ap_scale a)
      else if x = ''data-theme-radius'' then if ap_radius a = ap_radius defaultAppearance then None else Some (ap_radius a)
      else if x = ''data-theme-font'' then Some (resolveThemeFont a)
      else if x = ''data-theme-preset'' then if ap_preset a = ap_preset defaultAppearance then None else Some (ap_preset a)
      else body x)"
  unfolding apply_appearance_def applyBodyAttribute_at fun_upd_apply by (rule refl)

text \<open>Changing the appearance leaves nothing of the previous one on the page: the body's theme attributes
  depend on the chosen appearance alone.\<close>

theorem appearance_no_leftover:
  "apply_appearance b (apply_appearance a body) = apply_appearance b body"
  by (rule ext) (simp add: apply_appearance_at cong: if_cong split del: if_split)

end
