(* ===== verification/AgentToken.thy ===== *)
theory AgentToken
  imports Table Paths Session
begin

text \<open>
  The registration token of an agent gateway (\<open>AgentGatewayTokenDialog\<close> of \<open>platform-page.tsx\<close>): the effect
  that asks the server for a token, what the dialog shows, and the install commands.

  The effect runs when the dialog opens and again whenever one of its dependencies changes. One of them is the
  whole context value of the application, which \<open>AppProvider\<close> builds anew each time it renders: its \<open>data\<close> and
  \<open>publicConfig\<close> are fresh objects in every render. It renders when a query delivers something new.
  Each run has a number; the clean-up of the previous run is that its number is no longer current.
\<close>

section \<open>State\<close>

text \<open>A request that has not reached the server, an answer on its way back, and the refresh that follows it.\<close>

datatype token_task = AskToken nat | Served nat "exn + jsval" | AwaitRefresh nat

text \<open>
  \<open>td_generation\<close> is what the server keeps in the gateway's record, \<open>td_shown\<close> what the console's data says of it, and
  \<open>td_new_data\<close> that a query has delivered data the provider has not rendered yet.
\<close>

record token_dialog =
  td_run :: nat
  td_loading :: bool
  td_token :: string
  td_expiresAt :: string
  td_error :: string
  td_tasks :: "token_task list"
  td_generation :: nat
  td_shown :: nat
  td_new_data :: bool
  td_log :: log

definition initial_token_dialog :: token_dialog where
  "initial_token_dialog = \<lparr>td_run = 0, td_loading = True, td_token = '''', td_expiresAt = '''', td_error = '''',
     td_tasks = [], td_generation = 0, td_shown = 0, td_new_data = False, td_log = []\<rparr>"

definition token_request :: "platform_item \<Rightarrow> request" where
  "token_request item = post_request (token_path item) (JObj [])"

section \<open>The effect\<close>

definition issue_effect :: "bool \<Rightarrow> platform_item \<Rightarrow> token_dialog \<Rightarrow> token_dialog" where
  "issue_effect canIssueToken item st =
     (let st1 = st\<lparr>td_run := Suc (td_run st)\<rparr>
      in if \<not> canIssueToken then st1\<lparr>td_loading := False, td_error := ''permissionDenied''\<rparr>
         else st1\<lparr>td_loading := True, td_error := '''', td_expiresAt := '''',
                  td_tasks := td_tasks st @ [AskToken (Suc (td_run st))], td_log := td_log st @ [Call (token_request item)]\<rparr>)"

definition text_or_empty :: "jsval \<Rightarrow> string" where
  "text_or_empty v = (if truthy v then js_to_string v else '''')"

definition issue_failed :: "exn \<Rightarrow> token_dialog \<Rightarrow> token_dialog" where
  "issue_failed e st = st\<lparr>td_error := exn_message e, td_loading := False\<rparr>"

text \<open>The answer of the token request, and what comes after the refresh: both do nothing once another run is
  current.\<close>

definition token_answered :: "nat \<Rightarrow> exn + jsval \<Rightarrow> token_dialog \<Rightarrow> token_dialog" where
  "token_answered n answer st =
     (let st1 = st\<lparr>td_tasks := remove1 (Served n answer) (td_tasks st)\<rparr>
      in if n \<noteq> td_run st then st1
         else case answer of
                Inl e \<Rightarrow> issue_failed e st1
              | Inr data \<Rightarrow>
                  (case (js_prop data ''registration_token'', js_prop data ''expires_at'') of
                     (Inr token, Inr expires) \<Rightarrow>
                       st1\<lparr>td_token := text_or_empty token, td_expiresAt := text_or_empty expires,
                           td_tasks := td_tasks st1 @ [AwaitRefresh n], td_log := td_log st1 @ [Refresh True]\<rparr>
                   | (Inl e, _) \<Rightarrow> issue_failed e st1
                   | (_, Inl e) \<Rightarrow> issue_failed e st1))"

definition token_refreshed :: "nat \<Rightarrow> token_dialog \<Rightarrow> token_dialog" where
  "token_refreshed n st =
     (let st1 = st\<lparr>td_tasks := remove1 (AwaitRefresh n) (td_tasks st)\<rparr>
      in if n = td_run st1 then st1\<lparr>td_loading := False\<rparr> else st1)"

text \<open>
  The server issues a token: \<open>internal/app/agent_gateways.go\<close> raises the generation in the gateway's record, which is part of
  the console's data; a refused request leaves the record as it was.
\<close>

definition token_served :: "nat \<Rightarrow> exn + jsval \<Rightarrow> token_dialog \<Rightarrow> token_dialog" where
  "token_served n answer st =
     st\<lparr>td_tasks := remove1 (AskToken n) (td_tasks st) @ [Served n answer],
        td_generation := (case answer of Inr _ \<Rightarrow> Suc (td_generation st) | Inl _ \<Rightarrow> td_generation st)\<rparr>"

text \<open>A reload of the console's data: the query keeps the old object when the answer says the same.\<close>

definition data_read :: "token_dialog \<Rightarrow> token_dialog" where
  "data_read st = st\<lparr>td_shown := td_generation st, td_new_data := (td_new_data st \<or> td_shown st \<noteq> td_generation st)\<rparr>"

text \<open>
  What can happen, in any order; \<open>answers\<close> are the answers the server may give. A request is served, its answer arrives, the
  refresh it starts reads the data and ends, and any other part of the console may read the data in between. New data
  renders the application, whose new context value runs the effect again.
\<close>

inductive token_step :: "(exn + jsval \<Rightarrow> bool) \<Rightarrow> platform_item \<Rightarrow> token_dialog \<Rightarrow> token_dialog \<Rightarrow> bool"
  for answers item where
  served: "AskToken n \<in> set (td_tasks st) \<Longrightarrow> answers answer \<Longrightarrow> token_step answers item st (token_served n answer st)"
| answered: "Served n answer \<in> set (td_tasks st) \<Longrightarrow> token_step answers item st (token_answered n answer st)"
| refreshed: "AwaitRefresh n \<in> set (td_tasks st) \<Longrightarrow> token_step answers item st (token_refreshed n (data_read st))"
| reloaded: "td_shown st \<noteq> td_generation st \<Longrightarrow> token_step answers item st (data_read st)"
| rendered: "td_new_data st \<Longrightarrow> token_step answers item st (issue_effect True item (st\<lparr>td_new_data := False\<rparr>))"

section \<open>The install commands\<close>

definition agent_name :: "platform_item \<Rightarrow> string" where
  "agent_name item = or_str (it_name item) ''gateway-01''"

definition linuxCommand :: "string \<Rightarrow> string \<Rightarrow> platform_item \<Rightarrow> string" where
  "linuxCommand token server item =
     ''OPENWEBSERVERMANAGER_AGENT_TOKEN='' @ quotePOSIXShell token @ '' ./openwebservermanager-agent --server ''
       @ quotePOSIXShell server @ '' --name '' @ quotePOSIXShell (agent_name item)"

definition windowsCommand :: "string \<Rightarrow> string \<Rightarrow> platform_item \<Rightarrow> string" where
  "windowsCommand token server item =
     ''$env:OPENWEBSERVERMANAGER_AGENT_TOKEN = '' @ quotePowerShell token @ ''; .'' @ [CHR 0x5C]
       @ ''openwebservermanager-agent.exe --server '' @ quotePowerShell server @ '' --name '' @ quotePowerShell (agent_name item)"

definition copy_command :: "clipboard \<Rightarrow> string \<Rightarrow> string \<Rightarrow> log \<Rightarrow> log" where
  "copy_command cb value message l =
     (case fst (copyText cb value 0) of
        Inr _ \<Rightarrow> toast message (l @ [CopyText value])
      | Inl e \<Rightarrow> report e l)"

text \<open>What is drawn: the waiting text, an error, or the token and its commands; the button that copies the token
  is there whenever a token is.\<close>

datatype token_screen = TokenLoading | TokenError string | TokenShown string

definition token_view :: "token_dialog \<Rightarrow> token_screen" where
  "token_view st =
     (if td_loading st then TokenLoading else if td_error st \<noteq> '''' then TokenError (td_error st) else TokenShown (td_token st))"

section \<open>Words of a command line\<close>

text \<open>
  How a shell splits a line into words: blanks outside quotes separate them, quotes are removed, a backslash or a
  character with a meaning of its own outside single quotes is refused.
\<close>

definition plain_char :: "char \<Rightarrow> bool" where
  "plain_char c \<longleftrightarrow> is_upper c \<or> is_lower c \<or> is_digit c \<or> c \<in> set [CHR ''-'', CHR ''_'', CHR ''.'', CHR ''/'', CHR ''='']"

fun shell_words :: "quote_state \<Rightarrow> string option \<Rightarrow> string \<Rightarrow> string list option" where
  "shell_words Unquoted w [] = Some (case w of None \<Rightarrow> [] | Some u \<Rightarrow> [u])"
| "shell_words _ w [] = None"
| "shell_words Unquoted w (c # s) =
     (if c = CHR 0x27 then shell_words InSingle (Some (case w of None \<Rightarrow> [] | Some u \<Rightarrow> u)) s
      else if c = CHR 0x22 then shell_words InDouble (Some (case w of None \<Rightarrow> [] | Some u \<Rightarrow> u)) s
      else if c = CHR '' '' then
        (case w of None \<Rightarrow> shell_words Unquoted None s | Some u \<Rightarrow> map_option (Cons u) (shell_words Unquoted None s))
      else if plain_char c then shell_words Unquoted (Some ((case w of None \<Rightarrow> [] | Some u \<Rightarrow> u) @ [c])) s
      else None)"
| "shell_words InSingle w (c # s) =
     (if c = CHR 0x27 then shell_words Unquoted w s
      else shell_words InSingle (Some ((case w of None \<Rightarrow> [] | Some u \<Rightarrow> u) @ [c])) s)"
| "shell_words InDouble w (c # s) =
     (if c = CHR 0x22 then shell_words Unquoted w s
      else if c \<in> set [CHR ''$'', CHR 0x60, CHR 0x5C] then None
      else shell_words InDouble (Some ((case w of None \<Rightarrow> [] | Some u \<Rightarrow> u) @ [c])) s)"

lemma shell_words_single:
  "shell_words InSingle (Some u)
     (concat (map (\<lambda>c. if c = CHR 0x27 then [CHR 0x27, CHR 0x22, CHR 0x27, CHR 0x22, CHR 0x27] else [c]) v) @ CHR 0x27 # rest) =
   shell_words Unquoted (Some (u @ v)) rest"
  by (induction v arbitrary: u) auto

lemma shell_words_quoted:
  "shell_words Unquoted w (quotePOSIXShell v @ rest) =
     shell_words Unquoted (Some ((case w of None \<Rightarrow> [] | Some u \<Rightarrow> u) @ v)) rest"
  using shell_words_single by (simp add: quotePOSIXShell_def js_replace_all_def replace_single)

lemma shell_words_plain:
  "list_all plain_char v \<Longrightarrow>
   shell_words Unquoted (Some u) (v @ rest) = shell_words Unquoted (Some (u @ v)) rest"
proof (induction v arbitrary: u)
  case (Cons c v)
  then have "c \<noteq> CHR 0x27" "c \<noteq> CHR 0x22" "c \<noteq> CHR '' ''" by (auto simp: plain_char_def)
  then show ?case using Cons by simp
qed simp

section \<open>Properties\<close>

text \<open>C18 The Linux command is read by a POSIX shell as the intended words, whatever the token, the address and the name
  of the gateway contain: each is one word, and nothing in it is executed. (\<open>shell_words\<close> splits at blanks outside quotes,
  removes quotes, and refuses whatever else means something to the shell.)\<close>

theorem linux_command_words:
  "shell_words Unquoted None (linuxCommand token server item) =
     Some [''OPENWEBSERVERMANAGER_AGENT_TOKEN='' @ token, ''./openwebservermanager-agent'',
           ''--server'', server, ''--name'', agent_name item]"
proof -
  have head: "shell_words Unquoted None (''OPENWEBSERVERMANAGER_AGENT_TOKEN='' @ rest) =
      shell_words Unquoted (Some ''OPENWEBSERVERMANAGER_AGENT_TOKEN='') rest" for rest
    by (simp add: plain_char_def)
  have agent: "shell_words Unquoted None (''./openwebservermanager-agent --server '' @ rest) =
      map_option (\<lambda>ws. ''./openwebservermanager-agent'' # ''--server'' # ws) (shell_words Unquoted None rest)" for rest
    by (simp add: plain_char_def option.map_comp comp_def)
  have name: "shell_words Unquoted None (''--name '' @ rest) = map_option (Cons ''--name'') (shell_words Unquoted None rest)" for rest
    by (simp add: plain_char_def)
  show ?thesis
    unfolding linuxCommand_def head shell_words_quoted
    using agent [of "quotePOSIXShell server @ '' --name '' @ quotePOSIXShell (agent_name item)"]
      name [of "quotePOSIXShell (agent_name item)"]
      shell_words_quoted [of None server "'' --name '' @ quotePOSIXShell (agent_name item)"]
      shell_words_quoted [of None "agent_name item" "[]"]
    by simp
qed

definition issues :: "(exn + jsval \<Rightarrow> bool) \<Rightarrow> bool" where
  "issues answers \<longleftrightarrow> (\<forall>a. answers a \<longrightarrow> (\<exists>ob. a = Inr (JObj ob))) \<and> (\<exists>a. answers a)"

text \<open>
  The current run has its request on the way, or its token is stored and the data not read since, or read data waits to be
  drawn. What the data says never runs ahead of the record.
\<close>

definition token_busy :: "token_dialog \<Rightarrow> bool" where
  "token_busy st \<longleftrightarrow> td_shown st \<le> td_generation st \<and> (\<forall>n a. Served n a \<in> set (td_tasks st) \<longrightarrow> (\<exists>ob. a = Inr (JObj ob))) \<and>
     (AskToken (td_run st) \<in> set (td_tasks st) \<or> td_new_data st \<or>
      td_shown st \<noteq> td_generation st \<and> (AwaitRefresh (td_run st) \<in> set (td_tasks st) \<or> (\<exists>a. Served (td_run st) a \<in> set (td_tasks st))))"

text \<open>Steps the pending tasks can still take before the next render.\<close>

definition task_work :: "token_task \<Rightarrow> nat" where
  "task_work t = (case t of AskToken _ \<Rightarrow> 7 | Served _ _ \<Rightarrow> 4 | AwaitRefresh _ \<Rightarrow> 2)"

definition token_work :: "token_dialog \<Rightarrow> nat" where
  "token_work st = sum_list (map task_work (td_tasks st)) + (if td_shown st \<noteq> td_generation st then 2 else 0)
     + (if td_new_data st then 1 else 0)"

lemma work_remove1: "t \<in> set ts \<Longrightarrow> sum_list (map task_work ts) = task_work t + sum_list (map task_work (remove1 t ts))"
  by (induction ts) auto

lemma task_work_simps [simp]: "task_work (AskToken n) = 7" "task_work (Served n a) = 4" "task_work (AwaitRefresh n) = 2"
  by (simp_all add: task_work_def)

lemma in_remove1_other [simp]: "t \<noteq> u \<Longrightarrow> t \<in> set (remove1 u ts) \<longleftrightarrow> t \<in> set ts"
  by (rule in_set_remove1)

lemma token_answered_issued:
  "token_answered n (Inr (JObj ob)) st =
     (let st1 = st\<lparr>td_tasks := remove1 (Served n (Inr (JObj ob))) (td_tasks st)\<rparr>
      in if n \<noteq> td_run st then st1
         else st1\<lparr>td_token := text_or_empty (obj_get ob ''registration_token''), td_expiresAt := text_or_empty (obj_get ob ''expires_at''),
                  td_tasks := td_tasks st1 @ [AwaitRefresh n], td_log := td_log st1 @ [Refresh True]\<rparr>)"
  by (simp add: token_answered_def js_prop_def Let_def)

lemma token_busy_step:
  assumes "token_step answers item st st'" "token_busy st" "issues answers"
  shows "token_busy st'"
  using assms(1)
proof (cases rule: token_step.cases)
  case (served n answer)
  with assms(3) obtain ob where "answer = Inr (JObj ob)" by (auto simp: issues_def)
  then show ?thesis using assms(2) served
    by (cases "n = td_run st") (auto simp: token_busy_def token_served_def dest: notin_set_remove1)
next
  case (answered n answer)
  with assms(2) obtain ob where ob: "answer = Inr (JObj ob)" by (auto simp: token_busy_def)
  show ?thesis using assms(2) unfolding answered ob token_answered_issued
    by (auto simp: token_busy_def Let_def dest: notin_set_remove1)
next
  case (refreshed n)
  then show ?thesis using assms(2) by (auto simp: token_busy_def token_refreshed_def data_read_def Let_def dest: notin_set_remove1)
next
  case reloaded
  then show ?thesis using assms(2) by (auto simp: token_busy_def data_read_def)
next
  case rendered
  then show ?thesis using assms(2) by (auto simp: token_busy_def issue_effect_def Let_def)
qed

text \<open>Every step but a render uses up work and asks nothing; a render asks once.\<close>

lemma token_step_work:
  assumes "token_step answers item st st'" "token_busy st"
  shows "calls (td_log st') = calls (td_log st) \<and> token_work st' < token_work st
    \<or> calls (td_log st') = calls (td_log st) @ [token_request item] \<and> token_work st' \<le> token_work st + 6 \<and> td_loading st'"
  using assms(1)
proof (cases rule: token_step.cases)
  case (served n answer)
  then show ?thesis using work_remove1 [of "AskToken n" "td_tasks st"] by (auto simp: token_served_def token_work_def)
next
  case (answered n answer)
  with assms(2) obtain ob where ob: "answer = Inr (JObj ob)" by (auto simp: token_busy_def)
  show ?thesis using work_remove1 [OF answered(2)] unfolding answered ob token_answered_issued
    by (auto simp: token_work_def Let_def)
next
  case (refreshed n)
  then show ?thesis using work_remove1 [of "AwaitRefresh n" "td_tasks st"]
    by (auto simp: token_refreshed_def data_read_def token_work_def Let_def)
next
  case reloaded
  then show ?thesis by (auto simp: data_read_def token_work_def)
next
  case rendered
  then show ?thesis by (auto simp: issue_effect_def token_work_def Let_def)
qed

lemma token_start:
  "token_busy (issue_effect True item initial_token_dialog)" "token_work (issue_effect True item initial_token_dialog) = 7"
  "calls (td_log (issue_effect True item initial_token_dialog)) = [token_request item]"
  by (simp_all add: issue_effect_def initial_token_dialog_def token_busy_def token_work_def Let_def)

lemma token_run_work:
  assumes "issues answers" "(token_step answers item ^^ n) (issue_effect True item initial_token_dialog) st"
  shows "token_busy st \<and> (\<exists>k. calls (td_log st) = replicate k (token_request item) \<and> n + token_work st \<le> 7 * k)"
  using assms(2)
proof (induction n arbitrary: st)
  case 0
  then show ?case using token_start [of item] by (auto intro!: exI [of _ 1])
next
  case (Suc n)
  then obtain s where s: "token_step answers item s st" "token_busy s"
      "\<exists>k. calls (td_log s) = replicate k (token_request item) \<and> n + token_work s \<le> 7 * k" by auto
  then obtain k where k: "calls (td_log s) = replicate k (token_request item)" "n + token_work s \<le> 7 * k" by blast
  from token_step_work [OF s(1,2)]
  have "\<exists>k. calls (td_log st) = replicate k (token_request item) \<and> Suc n + token_work st \<le> 7 * k"
  proof (elim disjE conjE)
    assume "calls (td_log st) = calls (td_log s)" "token_work st < token_work s"
    then show ?thesis using k by (intro exI [of _ k]) auto
  next
    assume "calls (td_log st) = calls (td_log s) @ [token_request item]" "token_work st \<le> token_work s + 6"
    then show ?thesis using k by (intro exI [of _ "Suc k"]) (auto simp: replicate_append_same)
  qed
  then show ?case using token_busy_step [OF s(1,2) assms(1)] by simp
qed

text \<open>C28 While it stays open, the token dialog of a gateway never comes to rest as long as the server issues tokens and answers the console's reloads:
  however served requests, answers, reloads and renders are interleaved, every run of \<open>n\<close> steps has asked the server for a
  token at least \<open>n / 7\<close> times, always with the same request, and a further step is always possible; each further request puts
  the dialog back to waiting. The cause is the effect's dependency on the whole application context: the token raises the generation in
  the gateway's record, the reload finds it, and the render runs the effect again.
\<close>
theorem token_reissued_forever:
  assumes "issues answers"
    and "(token_step answers item ^^ n) (issue_effect True item initial_token_dialog) st"
  shows "(\<exists>k. calls (td_log st) = replicate k (token_request item) \<and> n \<le> 7 * k)
    \<and> (td_tasks st \<noteq> [] \<or> td_new_data st) \<and> (\<exists>st'. token_step answers item st st')
    \<and> (\<forall>st'. token_step answers item st st' \<and> calls (td_log st') \<noteq> calls (td_log st) \<longrightarrow> token_view st' = TokenLoading)"
proof -
  obtain k where busy: "token_busy st" and k: "calls (td_log st) = replicate k (token_request item)" "n + token_work st \<le> 7 * k"
    using token_run_work [OF assms] by blast
  have "td_tasks st \<noteq> [] \<or> td_new_data st" using busy by (auto simp: token_busy_def)
  moreover have "\<exists>st'. token_step answers item st st'"
    using busy assms(1) unfolding token_busy_def issues_def by (meson token_step.intros)
  ultimately show ?thesis
    using k token_step_work [OF _ busy, of answers item] by (auto simp: token_view_def intro!: exI [of _ k])
qed

lemma token_reissued_forever_witness:
  "\<exists>k. calls (td_log (token_served 1 (Inr (JObj [])) (issue_effect True blank_item initial_token_dialog))) =
     replicate k (token_request blank_item) \<and> 1 \<le> 7 * k"
proof -
  have "token_step (\<lambda>a. a = Inr (JObj [])) blank_item (issue_effect True blank_item initial_token_dialog)
      (token_served 1 (Inr (JObj [])) (issue_effect True blank_item initial_token_dialog))"
    by (rule token_step.served) (simp_all add: issue_effect_def initial_token_dialog_def Let_def)
  then have "(token_step (\<lambda>a. a = Inr (JObj [])) blank_item ^^ 1) (issue_effect True blank_item initial_token_dialog)
      (token_served 1 (Inr (JObj [])) (issue_effect True blank_item initial_token_dialog))" by (simp only: relpowp_1)
  from token_reissued_forever [OF _ this] show ?thesis by (simp add: issues_def)
qed

end
