(* ===== verification/Operations.thy ===== *)
theory Operations
  imports Certificates Gateways AgentToken
begin

text \<open>
  The dialogs of a platform table put together (\<open>ResourceOperationDialog\<close> of \<open>platform-page.tsx\<close>): which dialog an
  operation opens, in which state, and what its buttons send. What a dialog needs from the browser is the record
  \<open>outside\<close>.
\<close>

record outside =
  os_encode :: "string \<Rightarrow> string"
  os_compare :: locale_compare
  os_body :: "log \<Rightarrow> string"
  os_items :: "jsval \<Rightarrow> platform_item list"

datatype dialog_state =
    DImport import_dialog
  | DBulk bulk_dialog
  | DToken token_dialog
  | DQuery query_state
  | DCertificate certificate_form
  | DUpload certificate_upload
  | DAcme acme_dialog
  | DDns dns_dialog
  | DLogs "jsval list"
  | DMtls mtls_dialog
  | DPlayback playback
  | DStorage storage_dialog
  | DSql sql_dialog
  | DDecision decision_dialog
  | DExec exec_dialog

definition no_upload :: certificate_upload where
  "no_upload = \<lparr>cu_name = '''', cu_certificate = None, cu_private_key = None, cu_chain = None, cu_saving = False\<rparr>"

definition no_note :: decision_dialog where
  "no_note = \<lparr>dc_note = '''', dc_saving = False\<rparr>"

definition open_command_execute :: exec_dialog where
  "open_command_execute = \<lparr>ex_command = '''', ex_timeout = ''30'', ex_result = None, ex_running = False\<rparr>"

fun open_dialog :: "resource_operation \<Rightarrow> dialog_state" where
  "open_dialog AssetImport = DImport (open_import AssetsImport)"
| "open_dialog UserImport = DImport (open_import UsersImport)"
| "open_dialog (BulkAuthorize collection items) = DBulk (open_bulk items)"
| "open_dialog (AgentToken item) = DToken initial_token_dialog"
| "open_dialog (GatewayStatus collection item) = DQuery disabled_query"
| "open_dialog CertificateCreate = DCertificate open_certificate"
| "open_dialog CertificateUpload = DUpload no_upload"
| "open_dialog CertificateACME = DAcme open_acme"
| "open_dialog CertificateDNSProvider = DDns open_dns"
| "open_dialog (CertificateLogs item) = DLogs []"
| "open_dialog (CertificateMTLS item) = DMtls (open_mtls item)"
| "open_dialog (RecordingPlayback item) = DPlayback open_playback"
| "open_dialog (StorageFiles item) = DStorage initial_storage"
| "open_dialog (TaskLogs item) = DLogs []"
| "open_dialog (SQLDecision item d) = DDecision no_note"
| "open_dialog (SQLExecute item) = DSql (open_sql None item)"
| "open_dialog (CommandDecision item d) = DDecision no_note"
| "open_dialog (CommandExecute item) = DExec open_command_execute"

text \<open>The permission the dialog was given, and what can be pressed: its own button, a control of the file dialog, the
  delete button of a DNS provider.\<close>

definition granted_to :: "resource_operation \<Rightarrow> can_use \<Rightarrow> bool" where
  "granted_to op can = (case ResourceOperationDialog op of Some (m, p) \<Rightarrow> can m p | None \<Rightarrow> False)"

datatype dialog_press = Submit | PressFiles storage_control | RemoveProvider platform_item | OpenList

definition issue_token :: "platform_item \<Rightarrow> bool \<Rightarrow> token_dialog \<Rightarrow> log \<Rightarrow> token_dialog \<times> log" where
  "issue_token item granted st l = (let st' = issue_effect granted item (st\<lparr>td_log := l\<rparr>) in (st', td_log st'))"

definition dns_press ::
  "(jsval \<Rightarrow> platform_item list) \<Rightarrow> can_use \<Rightarrow> env \<Rightarrow> dialog_press \<Rightarrow> dns_dialog \<Rightarrow> log \<Rightarrow> dns_dialog \<times> log" where
  "dns_press items_of can ev pr st l =
     (case pr of
        RemoveProvider item \<Rightarrow> deleteProvider items_of can ev item st l
      | OpenList \<Rightarrow> (case loadProviders items_of can ev st l of (Inr st', l') \<Rightarrow> (st', l') | (Inl e, l') \<Rightarrow> (st, report e l'))
      | _ \<Rightarrow> dns_submit items_of can ev st l)"

definition acme_press :: "can_use \<Rightarrow> env \<Rightarrow> dialog_press \<Rightarrow> acme_dialog \<Rightarrow> log \<Rightarrow> acme_dialog \<times> log" where
  "acme_press can ev pr st l = (if pr = OpenList then acme_providers can ev st l else CertificateACMEDialog can ev st l)"

definition run_dialog ::
  "outside \<Rightarrow> can_use \<Rightarrow> env \<Rightarrow> resource_operation \<Rightarrow> dialog_press \<Rightarrow> dialog_state \<Rightarrow> log \<Rightarrow> dialog_state \<times> log" where
  "run_dialog os can ev op pr ds l =
     (case op of
        AssetImport \<Rightarrow> (case ds of DImport st \<Rightarrow> map_prod DImport id (import_submit AssetsImport (granted_to op can) ev st l) | _ \<Rightarrow> (ds, l))
      | UserImport \<Rightarrow> (case ds of DImport st \<Rightarrow> map_prod DImport id (import_submit UsersImport (granted_to op can) ev st l) | _ \<Rightarrow> (ds, l))
      | BulkAuthorize collection items \<Rightarrow> (case ds of DBulk st \<Rightarrow> map_prod DBulk id (bulk_submit collection (granted_to op can) ev st l) | _ \<Rightarrow> (ds, l))
      | AgentToken item \<Rightarrow> (case ds of DToken st \<Rightarrow> map_prod DToken id (issue_token item (granted_to op can) st l) | _ \<Rightarrow> (ds, l))
      | GatewayStatus collection item \<Rightarrow> (case ds of DQuery q \<Rightarrow> map_prod DQuery id (gateway_poll collection (granted_to op can) ev q l) | _ \<Rightarrow> (ds, l))
      | CertificateCreate \<Rightarrow> (case ds of DCertificate st \<Rightarrow> map_prod DCertificate id (CertificateCreateDialog (granted_to op can) ev st l) | _ \<Rightarrow> (ds, l))
      | CertificateUpload \<Rightarrow> (case ds of DUpload st \<Rightarrow> map_prod DUpload id (CertificateUploadDialog (granted_to op can) ev st l) | _ \<Rightarrow> (ds, l))
      | CertificateACME \<Rightarrow> (case ds of DAcme st \<Rightarrow> map_prod DAcme id (acme_press can ev pr st l) | _ \<Rightarrow> (ds, l))
      | CertificateDNSProvider \<Rightarrow> (case ds of DDns st \<Rightarrow> map_prod DDns id (dns_press (os_items os) can ev pr st l) | _ \<Rightarrow> (ds, l))
      | CertificateLogs item \<Rightarrow> (case ds of DLogs logs \<Rightarrow> map_prod DLogs id (CertificateLogsDialog item (granted_to op can) ev logs l) | _ \<Rightarrow> (ds, l))
      | CertificateMTLS item \<Rightarrow> (case ds of DMtls st \<Rightarrow> map_prod DMtls id (CertificateMTLSDialog item (granted_to op can) ev st l) | _ \<Rightarrow> (ds, l))
      | TaskLogs item \<Rightarrow> (case ds of DLogs logs \<Rightarrow> map_prod DLogs id (TaskLogsDialog item (granted_to op can) ev logs l) | _ \<Rightarrow> (ds, l))
      | SQLDecision item d \<Rightarrow> (case ds of DDecision st \<Rightarrow> map_prod DDecision id (SQLWorkOrderDecisionDialog item d (granted_to op can) ev st l) | _ \<Rightarrow> (ds, l))
      | SQLExecute item \<Rightarrow> (case ds of DSql st \<Rightarrow> map_prod DSql id (sql_execute (sql_endpoint None item) (granted_to op can) ev st l) | _ \<Rightarrow> (ds, l))
      | CommandDecision item d \<Rightarrow> (case ds of DDecision st \<Rightarrow> map_prod DDecision id (CommandApprovalDecisionDialog item d (granted_to op can) ev st l) | _ \<Rightarrow> (ds, l))
      | CommandExecute item \<Rightarrow> (case ds of DExec st \<Rightarrow> map_prod DExec id (CommandApprovalExecuteDialog item (granted_to op can) ev st l) | _ \<Rightarrow> (ds, l))
      | StorageFiles item \<Rightarrow> (case ds of DStorage st \<Rightarrow>
          (case pr of
             PressFiles c \<Rightarrow> map_prod DStorage id (press_storage can (storage_path item) (os_encode os) (os_compare os) (os_body os) ev c st l)
           | OpenList \<Rightarrow> map_prod DStorage id (load can (storage_path item) (os_encode os) (os_compare os) ev ''.'' st l)
           | _ \<Rightarrow> (ds, l)) | _ \<Rightarrow> (ds, l))
      | RecordingPlayback item \<Rightarrow> (case ds of DPlayback st \<Rightarrow> map_prod DPlayback id (transcode_status_poll item (granted_to op can) ev st l) | _ \<Rightarrow> (ds, l)))"

section \<open>Requests of the dialogs\<close>

lemmas dialog_permissions = granted_to_def ResourceOperationDialog_def permitted_def

lemma allowed_from: "\<exists>new. calls l' = calls l @ new \<and> list_all (permitted can) new \<Longrightarrow> allowed can l l'"
  by (simp add: allowed_def)

lemma allowed_trans: "allowed can l l' \<Longrightarrow> allowed can l' l'' \<Longrightarrow> allowed can l l''"
  unfolding allowed_def by (metis append.assoc list_all_append)

lemma allowed_log [simp]:
  "allowed can l (toast m l') \<longleftrightarrow> allowed can l l'" "allowed can l (refresh b l') \<longleftrightarrow> allowed can l l'"
  "allowed can l (report e l') \<longleftrightarrow> allowed can l l'"
  by (simp_all add: allowed_def)

lemma allowed_one: "permitted can rq \<Longrightarrow> allowed can l (l @ [Call rq])"
  by (simp add: allowed_def)

lemma allowed_loadProviders: "allowed can l (snd (loadProviders items_of can ev st l))"
  by (cases rule: apiRequest_cases [of ev "get_request dns_path" l])
    (auto simp: loadProviders_def allowed_one permitted_def split: sum.split)

lemma allowed_after_providers:
  assumes "allowed can l l1" "loadProviders items_of can ev st l1 = (r, l2)"
  shows "allowed can l l2"
  using allowed_trans [OF assms(1), of l2] allowed_loadProviders [of can l1 items_of ev st] assms(2) by simp

lemma allowed_acme: "allowed can l (snd (acme_press can ev pr st l))"
proof (cases "pr = OpenList")
  case True
  then show ?thesis
    by (cases rule: apiRequest_cases [of ev "get_request ''/api/admin/certificates/dns-providers''" l])
      (auto simp: acme_press_def acme_providers_def allowed_one permitted_def)
next
  case False
  then show ?thesis
    by (cases rule: apiRequest_cases [of ev "acme_request st" l])
      (auto simp: acme_press_def CertificateACMEDialog_def permission_denied_def allowed_one permitted_def acme_request_def)
qed

lemma allowed_dns_submit: "allowed can l (snd (dns_submit items_of can ev st l))"
proof (cases "can (fst (dns_target st)) (snd (dns_target st))")
  case True
  then have p: "permitted can (dns_request st)" by (cases "dns_target st") (simp add: dns_request_def permitted_def)
  show ?thesis
    by (cases rule: apiRequest_cases [of ev "dns_request st" l])
      (use True allowed_one [OF p] allowed_after_providers [OF allowed_one [OF p]] in
        \<open>auto simp: dns_submit_def Let_def split: prod.split sum.split\<close>)
qed (simp add: dns_submit_def permission_denied_def)

lemma allowed_dns_delete: "allowed can l (snd (deleteProvider items_of can ev item st l))"
proof (cases "can ''DELETE'' (dns_path @ ''/'' @ it_id item)")
  case True
  let ?l1 = "l @ [Confirm ''deleteDNSProviderTitle'']"
  have p: "permitted can (delete_provider_request item)" using True by (simp add: delete_provider_request_def permitted_def)
  have a: "allowed can l ?l1" by (simp add: allowed_def)
  have b: "allowed can l (?l1 @ [Call (delete_provider_request item)])" by (rule allowed_trans [OF a allowed_one [OF p]])
  show ?thesis
    by (cases rule: apiRequest_cases [of ev "delete_provider_request item" ?l1])
      (use True a b allowed_after_providers [OF b] in
        \<open>auto simp: deleteProvider_def confirm_eq split: prod.split sum.split bool.split\<close>)
qed (simp add: deleteProvider_def)

lemma allowed_dns: "allowed can l (snd (dns_press items_of can ev pr st l))"
proof (cases pr)
  case OpenList
  then show ?thesis
    using allowed_loadProviders [of can l items_of ev st] by (auto simp: dns_press_def split: prod.split sum.split)
qed (simp_all add: dns_press_def allowed_dns_submit allowed_dns_delete)

lemma allowed_token: "(p \<Longrightarrow> permitted can (token_request item)) \<Longrightarrow> allowed can l (snd (issue_token item p st l))"
  by (auto simp: issue_token_def issue_effect_def allowed_def Let_def)

lemma allowed_lists:
  "allowed can l (snd (run_dialog os can ev AssetImport pr ds l))"
  "allowed can l (snd (run_dialog os can ev UserImport pr ds l))"
  "allowed can l (snd (run_dialog os can ev (BulkAuthorize collection items) pr ds l))"
  unfolding run_dialog_def
  by (cases ds; auto intro!: allowed_from import_dialog.submit_permitted bulk_dialog.submit_permitted
      simp: dialog_permissions import_endpoint_def bulk_request_def)+

lemma allowed_token_dialog: "allowed can l (snd (run_dialog os can ev (AgentToken item) pr ds l))"
  unfolding run_dialog_def by (cases ds) (auto intro!: allowed_token simp: dialog_permissions token_request_def)

lemma allowed_status:
  "allowed can l (snd (run_dialog os can ev (GatewayStatus collection item) pr ds l))"
  "allowed can l (snd (run_dialog os can ev (TaskLogs item) pr ds l))"
  unfolding run_dialog_def
  by (cases ds; auto intro!: allowed_from gateway_status.submit_permitted logs_dialog.submit_permitted
      simp: dialog_permissions gateway_endpoint_def TaskLogsDialog_def)+

lemma allowed_certificates:
  "allowed can l (snd (run_dialog os can ev CertificateCreate pr ds l))"
  "allowed can l (snd (run_dialog os can ev CertificateUpload pr ds l))"
  "allowed can l (snd (run_dialog os can ev CertificateACME pr ds l))"
  "allowed can l (snd (run_dialog os can ev CertificateDNSProvider pr ds l))"
  "allowed can l (snd (run_dialog os can ev (CertificateLogs item) pr ds l))"
  "allowed can l (snd (run_dialog os can ev (CertificateMTLS item) pr ds l))"
  unfolding run_dialog_def
  by (cases ds; auto intro!: allowed_from allowed_acme allowed_dns certificate_create.submit_permitted certificate_upload.submit_permitted
      logs_dialog.submit_permitted certificate_mtls.submit_permitted
      simp: dialog_permissions certificate_request_def CertificateLogsDialog_def mtls_request_def)+

lemma allowed_workflows:
  "allowed can l (snd (run_dialog os can ev (SQLDecision item d) pr ds l))"
  "allowed can l (snd (run_dialog os can ev (SQLExecute item) pr ds l))"
  "allowed can l (snd (run_dialog os can ev (CommandDecision item d) pr ds l))"
  "allowed can l (snd (run_dialog os can ev (CommandExecute item) pr ds l))"
  unfolding run_dialog_def
  by (cases ds; auto intro!: allowed_from decision_dialog.submit_permitted sql_execute.submit_permitted command_execute.submit_permitted
      simp: dialog_permissions SQLWorkOrderDecisionDialog_def CommandApprovalDecisionDialog_def sql_endpoint_def opt_str_def or_str_def)+

lemma allowed_files:
  assumes "CHR ''?'' \<notin> set (it_id item)"
  shows "allowed can l (snd (run_dialog os can ev (StorageFiles item) pr ds l))"
proof -
  have "CHR 0x3F \<notin> set (storage_path item)" using assms by (simp add: storage_path_def)
  then show ?thesis unfolding run_dialog_def by (cases ds; cases pr) (auto intro!: allowed_press allowed_load)
qed

section \<open>Properties\<close>

text \<open>C3 No dialog of a platform table sends a request its user may not send: whatever is pressed in it, in whatever
  state, with whatever answers. The one exception is the playback of recordings, whose status query is asked for with
  the permission to play.\<close>

theorem dialog_requests_permitted:
  assumes "\<And>item. op = StorageFiles item \<Longrightarrow> CHR ''?'' \<notin> set (it_id item)" "\<And>item. op \<noteq> RecordingPlayback item"
  shows "\<exists>new. calls (snd (run_dialog os can ev op pr ds l)) = calls l @ new \<and> list_all (permitted can) new"
proof -
  have "allowed can l (snd (run_dialog os can ev op pr ds l))"
    using assms by (cases op) (auto simp: allowed_lists allowed_token_dialog allowed_status allowed_certificates allowed_workflows allowed_files)
  then show ?thesis by (simp add: allowed_def)
qed

lemma dialog_requests_permitted_witness:
  "\<exists>new. calls (snd (run_dialog \<lparr>os_encode = (\<lambda>s. s), os_compare = (\<lambda>_ _. 0), os_body = (\<lambda>_. ''''), os_items = (\<lambda>_. [])\<rparr>
      (\<lambda>m p. m = ''POST'' \<and> p = ''/api/admin/assets/import'') second_call_fails AssetImport Submit (open_dialog AssetImport) [])) =
      calls [] @ new \<and> list_all (permitted (\<lambda>m p. m = ''POST'' \<and> p = ''/api/admin/assets/import'')) new"
  by (rule dialog_requests_permitted) simp_all

end
