(* ===== verification/Prompts.thy ===== *)
theory Prompts
  imports Prelude
begin

text \<open>
  The two dialogs that hand their caller a promise: the second-factor prompt
  (\<open>useAccessMFADialog\<close> of \<open>access-mfa.tsx\<close>) and the confirmation (\<open>useConfirmDialog\<close> of
  \<open>confirm-dialog.tsx\<close>). Each keeps at most one resolver. Promises are numbered in the order they
  are made; the state records how each was settled. The locale \<open>promise_dialog\<close> states the
  three kinds of steps both dialogs are made of and proves that no promise is lost or settled twice.
\<close>

section \<open>The second-factor prompt\<close>

record mfa_dialog =
  md_resolver :: "nat option"
  md_open :: bool
  md_code :: string
  md_made :: nat
  md_settled :: "(nat \<times> string) list"

definition mfa_initial :: mfa_dialog where
  "mfa_initial = \<lparr>md_resolver = None, md_open = False, md_code = '''', md_made = 0, md_settled = []\<rparr>"

definition settle :: "nat option \<Rightarrow> 'a \<Rightarrow> (nat \<times> 'a) list" where
  "settle resolver v = (case resolver of Some i \<Rightarrow> [(i, v)] | None \<Rightarrow> [])"

definition resolveCode :: "string \<Rightarrow> mfa_dialog \<Rightarrow> mfa_dialog" where
  "resolveCode value st =
     st\<lparr>md_resolver := None, md_open := False, md_code := '''',
        md_settled := md_settled st @ settle (md_resolver st) (trim value)\<rparr>"

definition requestAccessMFACode :: "mfa_dialog \<Rightarrow> mfa_dialog" where
  "requestAccessMFACode st =
     st\<lparr>md_settled := md_settled st @ settle (md_resolver st) '''',
        md_resolver := Some (md_made st), md_made := Suc (md_made st), md_code := '''', md_open := True\<rparr>"

definition mfa_open_change :: "bool \<Rightarrow> mfa_dialog \<Rightarrow> mfa_dialog" where
  "mfa_open_change nextOpen st = (if \<not> nextOpen then resolveCode '''' st else st)"

definition mfa_submit :: "mfa_dialog \<Rightarrow> mfa_dialog" where
  "mfa_submit st = (if trim (md_code st) = '''' then st else resolveCode (md_code st) st)"

text \<open>The form's controls: typing, submitting (only with a non-blank code), and the cancel button.\<close>

inductive mfa_step :: "mfa_dialog \<Rightarrow> mfa_dialog \<Rightarrow> bool" where
  ask: "mfa_step st (requestAccessMFACode st)"
| typed: "mfa_step st (st\<lparr>md_code := c\<rparr>)"
| submit: "mfa_step st (mfa_submit st)"
| open_change: "mfa_step st (mfa_open_change b st)"
| cancel: "mfa_step st (resolveCode '''' st)"

section \<open>The confirmation\<close>

record confirm_dialog =
  cd_resolver :: "nat option"
  cd_options :: "string option"
  cd_made :: nat
  cd_settled :: "(nat \<times> bool) list"

definition confirm_initial :: confirm_dialog where
  "confirm_initial = \<lparr>cd_resolver = None, cd_options = None, cd_made = 0, cd_settled = []\<rparr>"

definition resolve_confirm :: "bool \<Rightarrow> confirm_dialog \<Rightarrow> confirm_dialog" where
  "resolve_confirm confirmed st =
     st\<lparr>cd_resolver := None, cd_options := None, cd_settled := cd_settled st @ settle (cd_resolver st) confirmed\<rparr>"

definition ask_confirm :: "string \<Rightarrow> confirm_dialog \<Rightarrow> confirm_dialog" where
  "ask_confirm nextOptions st =
     st\<lparr>cd_settled := cd_settled st @ settle (cd_resolver st) False, cd_options := Some nextOptions,
        cd_resolver := Some (cd_made st), cd_made := Suc (cd_made st)\<rparr>"

inductive confirm_step :: "confirm_dialog \<Rightarrow> confirm_dialog \<Rightarrow> bool" where
  ask: "confirm_step st (ask_confirm options st)"
| answer: "confirm_step st (resolve_confirm b st)"

section \<open>What both guarantee\<close>

locale promise_dialog =
  fixes step :: "'s \<Rightarrow> 's \<Rightarrow> bool"
    and initial :: 's
    and resolver :: "'s \<Rightarrow> nat option"
    and made :: "'s \<Rightarrow> nat"
    and settled :: "'s \<Rightarrow> (nat \<times> 'a) list"
    and visible :: "'s \<Rightarrow> bool"
    and dismissed :: 'a
  assumes initially: "resolver initial = None" "made initial = 0" "settled initial = []" "\<not> visible initial"
    and steps: "step s s' \<Longrightarrow>
      (\<exists>v. resolver s' = None \<and> made s' = made s \<and> settled s' = settled s @ settle (resolver s) v \<and> \<not> visible s') \<or>
      (resolver s' = Some (made s) \<and> made s' = Suc (made s) \<and>
         settled s' = settled s @ settle (resolver s) dismissed \<and> visible s') \<or>
      (resolver s' = resolver s \<and> made s' = made s \<and> settled s' = settled s \<and> visible s' = visible s)"
begin

text \<open>The promises made are the settled ones, each settled once, and the pending one.\<close>

definition sound :: "'s \<Rightarrow> bool" where
  "sound s \<longleftrightarrow> distinct (map fst (settled s)) \<and>
     set (map fst (settled s)) \<union> set_option (resolver s) = {..<made s} \<and>
     set (map fst (settled s)) \<inter> set_option (resolver s) = {} \<and> (visible s \<longleftrightarrow> resolver s \<noteq> None)"

lemma sound_initial: "sound initial"
  using initially by (simp add: sound_def)

lemma settle_sound:
  assumes "sound s"
  shows "distinct (map fst (settled s @ settle (resolver s) v)) \<and>
    set (map fst (settled s @ settle (resolver s) v)) = {..<made s}"
  using assms by (cases "resolver s") (auto simp: sound_def settle_def)

lemma sound_step:
  assumes "sound s" "step s s'"
  shows "sound s'"
  using steps [OF assms(2)]
proof (elim disjE exE conjE)
  fix v
  assume "resolver s' = None" "made s' = made s" "settled s' = settled s @ settle (resolver s) v" "\<not> visible s'"
  then show ?thesis using settle_sound [OF assms(1), of v] by (simp add: sound_def)
next
  assume a: "resolver s' = Some (made s)" "made s' = Suc (made s)"
    "settled s' = settled s @ settle (resolver s) dismissed" "visible s'"
  then have "set (map fst (settled s')) = {..<made s}" "distinct (map fst (settled s'))"
    using settle_sound [OF assms(1), of dismissed] by simp_all
  then show ?thesis using a unfolding sound_def by (simp add: lessThan_Suc)
next
  assume "resolver s' = resolver s" "made s' = made s" "settled s' = settled s" "visible s' = visible s"
  then show ?thesis using assms(1) by (simp add: sound_def)
qed

lemma sound_reachable: "step\<^sup>*\<^sup>* initial s \<Longrightarrow> sound s"
  by (induction rule: rtranclp_induct) (use sound_initial sound_step in blast)+

end

interpretation mfa: promise_dialog mfa_step mfa_initial md_resolver md_made md_settled md_open "''''"
proof
  fix s s' :: mfa_dialog
  assume "mfa_step s s'"
  then show "(\<exists>v. md_resolver s' = None \<and> md_made s' = md_made s \<and> md_settled s' = md_settled s @ settle (md_resolver s) v \<and> \<not> md_open s') \<or>
      (md_resolver s' = Some (md_made s) \<and> md_made s' = Suc (md_made s) \<and>
         md_settled s' = md_settled s @ settle (md_resolver s) '''' \<and> md_open s') \<or>
      (md_resolver s' = md_resolver s \<and> md_made s' = md_made s \<and> md_settled s' = md_settled s \<and> md_open s' = md_open s)"
    by cases (auto simp: requestAccessMFACode_def mfa_submit_def mfa_open_change_def resolveCode_def)
qed (simp_all add: mfa_initial_def)

interpretation confirmation: promise_dialog confirm_step confirm_initial cd_resolver cd_made cd_settled
    "\<lambda>st. cd_options st \<noteq> None" False
proof
  fix s s' :: confirm_dialog
  assume "confirm_step s s'"
  then show "(\<exists>v. cd_resolver s' = None \<and> cd_made s' = cd_made s \<and> cd_settled s' = cd_settled s @ settle (cd_resolver s) v \<and> \<not> cd_options s' \<noteq> None) \<or>
      (cd_resolver s' = Some (cd_made s) \<and> cd_made s' = Suc (cd_made s) \<and>
         cd_settled s' = cd_settled s @ settle (cd_resolver s) False \<and> cd_options s' \<noteq> None) \<or>
      (cd_resolver s' = cd_resolver s \<and> cd_made s' = cd_made s \<and> cd_settled s' = cd_settled s \<and> (cd_options s' \<noteq> None) = (cd_options s \<noteq> None))"
    by cases (auto simp: ask_confirm_def resolve_confirm_def)
qed (simp_all add: confirm_initial_def)

section \<open>Properties\<close>

text \<open>C26 The second-factor prompt settles every promise it hands out exactly once, except the one it is
  waiting for, and it is on the screen exactly while it is waiting.\<close>

theorem mfa_prompt_settles_once:
  "mfa_step\<^sup>*\<^sup>* mfa_initial st \<Longrightarrow>
     distinct (map fst (md_settled st)) \<and>
     set (map fst (md_settled st)) \<union> set_option (md_resolver st) = {..<md_made st} \<and>
     set (map fst (md_settled st)) \<inter> set_option (md_resolver st) = {} \<and>
     (md_open st \<longleftrightarrow> md_resolver st \<noteq> None)"
  using mfa.sound_reachable [of st] unfolding mfa.sound_def by blast

lemma mfa_prompt_settles_once_witness:
  "md_settled (requestAccessMFACode (requestAccessMFACode mfa_initial)) = [(0, '''')] \<and>
   (md_open (requestAccessMFACode (requestAccessMFACode mfa_initial)) \<longleftrightarrow>
    md_resolver (requestAccessMFACode (requestAccessMFACode mfa_initial)) \<noteq> None)"
proof -
  have "mfa_step\<^sup>*\<^sup>* mfa_initial (requestAccessMFACode (requestAccessMFACode mfa_initial))"
    by (meson converse_rtranclp_into_rtranclp mfa_step.ask rtranclp.rtrancl_refl)
  from mfa_prompt_settles_once [OF this] show ?thesis
    by (simp add: requestAccessMFACode_def mfa_initial_def settle_def)
qed

text \<open>Every confirmation asked is answered exactly once, a newer question answering the older one with no;
  the dialog shows exactly while an answer is pending.\<close>

theorem confirm_settles_once:
  "confirm_step\<^sup>*\<^sup>* confirm_initial st \<Longrightarrow>
     distinct (map fst (cd_settled st)) \<and>
     set (map fst (cd_settled st)) \<union> set_option (cd_resolver st) = {..<cd_made st} \<and>
     set (map fst (cd_settled st)) \<inter> set_option (cd_resolver st) = {} \<and>
     (cd_options st \<noteq> None \<longleftrightarrow> cd_resolver st \<noteq> None)"
  using confirmation.sound_reachable [of st] unfolding confirmation.sound_def by blast

lemma confirm_settles_once_witness:
  "cd_settled (ask_confirm ''b'' (ask_confirm ''a'' confirm_initial)) = [(0, False)] \<and>
   set (map fst (cd_settled (ask_confirm ''b'' (ask_confirm ''a'' confirm_initial)))) \<inter>
     set_option (cd_resolver (ask_confirm ''b'' (ask_confirm ''a'' confirm_initial))) = {}"
proof -
  have "confirm_step\<^sup>*\<^sup>* confirm_initial (ask_confirm ''b'' (ask_confirm ''a'' confirm_initial))"
    by (meson converse_rtranclp_into_rtranclp confirm_step.ask rtranclp.rtrancl_refl)
  from confirm_settles_once [OF this] show ?thesis
    by (simp add: ask_confirm_def confirm_initial_def settle_def)
qed

end
