(* ===== verification/Codec.thy ===== *)
theory Codec
  imports Json
begin

text \<open>
  Bytes and text on the wire: base64 of the terminal stream (\<open>lib/codec.ts\<close>) with its streaming
  UTF-8 decoder, and the base64url conversions and payloads of passkeys (\<open>lib/passkeys.ts\<close>).
  \<open>btoa\<close>, \<open>atob\<close> and \<open>TextDecoder\<close> follow the web platform: \<open>atob\<close> ignores ASCII white space and
  throws (\<open>None\<close>) on anything else outside the alphabet or on a length that cannot occur; the decoder
  replaces malformed sequences by U+FFFD and keeps an unfinished one for the next chunk.
\<close>

section \<open>Base64\<close>

definition b64_alphabet :: string where
  "b64_alphabet = ''ABCDEFGHIJKLMNOPQRSTUVWXYZabcdefghijklmnopqrstuvwxyz0123456789+/''"

definition b64_char :: "nat \<Rightarrow> char" where
  "b64_char n = b64_alphabet ! n"

definition b64_val :: "char \<Rightarrow> nat option" where
  "b64_val c = map_of (zip b64_alphabet [0..<64]) c"

abbreviation byte :: "char \<Rightarrow> nat" where
  "byte c \<equiv> of_char c"

fun btoa :: "string \<Rightarrow> string" where
  "btoa [] = []"
| "btoa [a] = [b64_char (byte a div 4), b64_char (byte a mod 4 * 16), CHR ''='', CHR ''='']"
| "btoa [a, b] = [b64_char (byte a div 4), b64_char (byte a mod 4 * 16 + byte b div 16),
     b64_char (byte b mod 16 * 4), CHR ''='']"
| "btoa (a # b # c # s) = b64_char (byte a div 4) # b64_char (byte a mod 4 * 16 + byte b div 16)
     # b64_char (byte b mod 16 * 4 + byte c div 64) # b64_char (byte c mod 64) # btoa s"

fun b64_groups :: "nat list \<Rightarrow> string option" where
  "b64_groups [] = Some []"
| "b64_groups [w] = None"
| "b64_groups [w, x] = Some [char_of (w * 4 + x div 16)]"
| "b64_groups [w, x, y] = Some [char_of (w * 4 + x div 16), char_of (x mod 16 * 16 + y div 4)]"
| "b64_groups (w # x # y # z # r) =
     map_option (\<lambda>s. char_of (w * 4 + x div 16) # char_of (x mod 16 * 16 + y div 4) # char_of (y mod 4 * 64 + z) # s)
       (b64_groups r)"

definition strip_padding :: "string \<Rightarrow> string" where
  "strip_padding s =
     (if length s mod 4 \<noteq> 0 then s
      else if ends_with s ''=='' then take (length s - 2) s
      else if ends_with s ''='' then take (length s - 1) s
      else s)"

definition atob :: "string \<Rightarrow> string option" where
  "atob s =
     (let data = strip_padding (filter (\<lambda>c. c \<notin> set [CHR 0x09, CHR 0x0A, CHR 0x0C, CHR 0x0D, CHR '' '']) s)
      in case those (map b64_val data) of Some vs \<Rightarrow> b64_groups vs | None \<Rightarrow> None)"

text \<open>Texts are UTF-8 bytes already, so \<open>encoder.encode\<close> is the identity.\<close>

definition textToBase64 :: "string \<Rightarrow> string" where
  "textToBase64 value = btoa value"

section \<open>The streaming UTF-8 decoder\<close>

text \<open>The pending bytes of an unfinished sequence, how many are missing, and the bounds of the next one.\<close>

record utf8_state =
  u8_pending :: string
  u8_needed :: nat
  u8_lower :: nat
  u8_upper :: nat

definition u8_clean :: utf8_state where
  "u8_clean = \<lparr>u8_pending = [], u8_needed = 0, u8_lower = 128, u8_upper = 191\<rparr>"

definition replacement :: string where
  "replacement = [CHR 0xEF, CHR 0xBF, CHR 0xBD]"

text \<open>A byte at the start of a sequence.\<close>

definition u8_lead :: "char \<Rightarrow> string \<times> utf8_state" where
  "u8_lead c =
     (let n = byte c
      in if n < 128 then ([c], u8_clean)
         else if 194 \<le> n \<and> n \<le> 223 then ([], u8_clean\<lparr>u8_pending := [c], u8_needed := 1\<rparr>)
         else if 224 \<le> n \<and> n \<le> 239
           then ([], \<lparr>u8_pending = [c], u8_needed = 2, u8_lower = (if n = 224 then 160 else 128),
                      u8_upper = (if n = 237 then 159 else 191)\<rparr>)
         else if 240 \<le> n \<and> n \<le> 244
           then ([], \<lparr>u8_pending = [c], u8_needed = 3, u8_lower = (if n = 240 then 144 else 128),
                      u8_upper = (if n = 244 then 143 else 191)\<rparr>)
         else (replacement, u8_clean))"

definition u8_byte :: "utf8_state \<Rightarrow> char \<Rightarrow> string \<times> utf8_state" where
  "u8_byte st c =
     (if u8_needed st = 0 then u8_lead c
      else if byte c < u8_lower st \<or> u8_upper st < byte c
        then (case u8_lead c of (out, st') \<Rightarrow> (replacement @ out, st'))
      else if u8_needed st = 1 then (u8_pending st @ [c], u8_clean)
      else ([], u8_clean\<lparr>u8_pending := u8_pending st @ [c], u8_needed := u8_needed st - 1\<rparr>))"

fun u8_run :: "utf8_state \<Rightarrow> string \<Rightarrow> string \<times> utf8_state" where
  "u8_run st [] = ([], st)"
| "u8_run st (c # s) =
     (case u8_byte st c of (out, st') \<Rightarrow> (case u8_run st' s of (out', st'') \<Rightarrow> (out @ out', st'')))"

text \<open>The decoder object: it also drops a byte order mark when that is the first thing it yields.\<close>

record decoder =
  dc_started :: bool
  dc_utf8 :: utf8_state

definition new_decoder :: decoder where
  "new_decoder = \<lparr>dc_started = False, dc_utf8 = u8_clean\<rparr>"

definition byte_order_mark :: string where
  "byte_order_mark = [CHR 0xEF, CHR 0xBB, CHR 0xBF]"

definition decode_stream :: "decoder \<Rightarrow> string \<Rightarrow> string \<times> decoder" where
  "decode_stream d bytes =
     (case u8_run (dc_utf8 d) bytes of
        (out, st) \<Rightarrow>
          (if \<not> dc_started d \<and> starts_with out byte_order_mark then drop 3 out else out,
           \<lparr>dc_started = (dc_started d \<or> out \<noteq> []), dc_utf8 = st\<rparr>))"

text \<open>\<open>base64ToText\<close>: all calls share one decoder, so its state is threaded through them.\<close>

definition base64ToText :: "decoder \<Rightarrow> string option \<Rightarrow> (string \<times> decoder) option" where
  "base64ToText d value =
     (case atob (opt_str value) of Some bytes \<Rightarrow> Some (decode_stream d bytes) | None \<Rightarrow> None)"

fun base64_chunks :: "decoder \<Rightarrow> string list \<Rightarrow> (string \<times> decoder) option" where
  "base64_chunks d [] = Some ([], d)"
| "base64_chunks d (v # vs) =
     (case base64ToText d (Some v) of
        None \<Rightarrow> None
      | Some (out, st') \<Rightarrow> map_option (\<lambda>(out', st''). (out @ out', st'')) (base64_chunks st' vs))"

section \<open>Passkeys\<close>

definition base64URLToBuffer :: "string \<Rightarrow> string option" where
  "base64URLToBuffer value =
     (let normalized = replace_char CHR ''_'' CHR ''/'' (replace_char CHR ''-'' CHR ''+'' value);
          padded = normalized @ replicate ((4 - length normalized mod 4) mod 4) CHR ''=''
      in atob padded)"

definition bufferToBase64URL :: "string \<Rightarrow> string" where
  "bufferToBase64URL buffer =
     strip_right (\<lambda>c. c = CHR ''='')
       (replace_char CHR ''/'' CHR ''_'' (replace_char CHR ''+'' CHR ''-'' (btoa buffer)))"

record descriptor =
  de_type :: string
  de_id :: string
  de_transports :: "string list option"

record creation_options =
  co_challenge :: string
  co_user_id :: string
  co_exclude :: "descriptor list option"
  co_rest :: js_object

record request_options =
  ro_challenge :: string
  ro_allow :: "descriptor list option"
  ro_rest :: js_object

text \<open>The options with every base64url field replaced by its bytes; the other fields are kept.\<close>

definition decode_descriptor :: "descriptor \<Rightarrow> descriptor option" where
  "decode_descriptor d = map_option (\<lambda>b. d\<lparr>de_id := b\<rparr>) (base64URLToBuffer (de_id d))"

definition decode_descriptors :: "descriptor list option \<Rightarrow> descriptor list option option" where
  "decode_descriptors ds =
     (case ds of None \<Rightarrow> Some None | Some xs \<Rightarrow> map_option Some (those (map decode_descriptor xs)))"

definition decodePasskeyCreationOptions :: "creation_options \<Rightarrow> creation_options option" where
  "decodePasskeyCreationOptions pk =
     (case (base64URLToBuffer (co_challenge pk), base64URLToBuffer (co_user_id pk), decode_descriptors (co_exclude pk)) of
        (Some c, Some u, Some ex) \<Rightarrow> Some (pk\<lparr>co_challenge := c, co_user_id := u, co_exclude := ex\<rparr>)
      | _ \<Rightarrow> None)"

definition decodePasskeyRequestOptions :: "request_options \<Rightarrow> request_options option" where
  "decodePasskeyRequestOptions pk =
     (case (base64URLToBuffer (ro_challenge pk), decode_descriptors (ro_allow pk)) of
        (Some c, Some al) \<Rightarrow> Some (pk\<lparr>ro_challenge := c, ro_allow := al\<rparr>) | _ \<Rightarrow> None)"

text \<open>What the browser's credential holds, as bytes.\<close>

record attestation =
  at_id :: string
  at_raw_id :: string
  at_type :: string
  at_client_data :: string
  at_object :: string
  at_transports :: "string list option"

record assertion =
  as_id :: string
  as_raw_id :: string
  as_type :: string
  as_client_data :: string
  as_authenticator_data :: string
  as_signature :: string
  as_user_handle :: "string option"

abbreviation jbuf :: "string \<Rightarrow> jsval" where
  "jbuf b \<equiv> JStr (bufferToBase64URL b)"

definition passkeyAttestationPayload :: "attestation \<Rightarrow> string \<Rightarrow> string \<Rightarrow> jsval" where
  "passkeyAttestationPayload cr challengeID name = JObj
     [(''challenge_id'', JStr challengeID), (''id'', JStr (at_id cr)), (''raw_id'', jbuf (at_raw_id cr)),
      (''type'', JStr (at_type cr)), (''name'', JStr name),
      (''response'', JObj
        [(''client_data_json'', jbuf (at_client_data cr)), (''attestation_object'', jbuf (at_object cr)),
         (''transports'', JArr (map JStr (case at_transports cr of Some ts \<Rightarrow> ts | None \<Rightarrow> [])))])]"

definition passkeyAssertionPayload :: "assertion \<Rightarrow> string \<Rightarrow> jsval" where
  "passkeyAssertionPayload cr challengeID = JObj
     [(''challenge_id'', JStr challengeID), (''id'', JStr (as_id cr)), (''raw_id'', jbuf (as_raw_id cr)),
      (''type'', JStr (as_type cr)),
      (''response'', JObj
        [(''client_data_json'', jbuf (as_client_data cr)), (''authenticator_data'', jbuf (as_authenticator_data cr)),
         (''signature'', jbuf (as_signature cr)),
         (''user_handle'', case as_user_handle cr of Some h \<Rightarrow> jbuf h | None \<Rightarrow> JStr '''')])]"

section \<open>Base64 round trips\<close>

lemma b64_table:
  "list_all (\<lambda>n. b64_val (b64_char n) = Some n \<and> b64_char n \<noteq> CHR ''='' \<and> b64_char n \<noteq> CHR ''-'' \<and> b64_char n \<noteq> CHR ''_'' \<and>
     b64_char n \<notin> set [CHR 0x09, CHR 0x0A, CHR 0x0C, CHR 0x0D, CHR '' '']) [0..<64]"
  by code_simp

lemma b64_char_props:
  assumes "n < 64"
  shows "b64_val (b64_char n) = Some n" "b64_char n \<noteq> CHR ''=''" "b64_char n \<noteq> CHR ''-''" "b64_char n \<noteq> CHR ''_''"
    "b64_char n \<notin> set [CHR 0x09, CHR 0x0A, CHR 0x0C, CHR 0x0D, CHR '' '']"
  using b64_table assms unfolding list_all_iff by (metis atLeastLessThan_iff le0 set_upt)+

lemma byte_less [simp]: "byte c < (256::nat)"
  by (metis mod_less_divisor of_char_mod_256 zero_less_numeral)

text \<open>The digits of an encoding, without its padding.\<close>

fun b64_digits :: "string \<Rightarrow> nat list" where
  "b64_digits [] = []"
| "b64_digits [a] = [byte a div 4, byte a mod 4 * 16]"
| "b64_digits [a, b] = [byte a div 4, byte a mod 4 * 16 + byte b div 16, byte b mod 16 * 4]"
| "b64_digits (a # b # c # s) = byte a div 4 # (byte a mod 4 * 16 + byte b div 16)
     # (byte b mod 16 * 4 + byte c div 64) # byte c mod 64 # b64_digits s"

definition padding :: "nat \<Rightarrow> string" where
  "padding n = replicate ((3 - n mod 3) mod 3) CHR ''=''"

lemma digits_less: "d \<in> set (b64_digits s) \<Longrightarrow> d < 64"
proof (induction s rule: b64_digits.induct)
  case (4 a b c s)
  have "byte a div 4 < 64" "byte a mod 4 * 16 + byte b div 16 < 64" "byte b mod 16 * 4 + byte c div 64 < 64" "byte c mod 64 < 64"
    using byte_less [of a] byte_less [of b] byte_less [of c] by linarith+
  then show ?case using 4 by auto
next
  case (2 a)
  have "byte a div 4 < 64" "byte a mod 4 * 16 < 64" using byte_less [of a] by linarith+
  then show ?case using 2 by auto
next
  case (3 a b)
  have "byte a div 4 < 64" "byte a mod 4 * 16 + byte b div 16 < 64" "byte b mod 16 * 4 < 64"
    using byte_less [of a] byte_less [of b] by linarith+
  then show ?case using 3 by auto
qed simp

lemma btoa_digits: "btoa s = map b64_char (b64_digits s) @ padding (length s)"
proof (induction s rule: btoa.induct)
  case (4 a b c s)
  have "padding (length (a # b # c # s)) = padding (length s)" by (simp add: padding_def)
  then show ?case using 4 by simp
next
  case 1
  have "padding 0 = []" by code_simp
  then show ?case by simp
next
  case (2 a)
  have "padding 1 = [CHR ''='', CHR ''='']" by code_simp
  then show ?case by simp
next
  case (3 a b)
  have "padding 2 = [CHR ''='']" by code_simp
  then show ?case by (simp add: numeral_2_eq_2)
qed

lemma groups_digits: "b64_groups (b64_digits s) = Some s"
proof (induction s rule: b64_digits.induct)
  case (2 a)
  then show ?case by (simp add: mult.commute)
next
  case (3 a b)
  have "byte b div 16 < 16" using byte_less [of b] by linarith
  then have "(byte a mod 4 * 16 + byte b div 16) div 16 = byte a mod 4" "(byte a mod 4 * 16 + byte b div 16) mod 16 = byte b div 16"
    by simp_all
  then show ?case by (simp add: mult.commute)
next
  case (4 a b c s)
  have "byte b div 16 < 16" "byte c div 64 < 4" using byte_less [of b] byte_less [of c] by linarith+
  then have "(byte a mod 4 * 16 + byte b div 16) div 16 = byte a mod 4" "(byte a mod 4 * 16 + byte b div 16) mod 16 = byte b div 16"
    "(byte b mod 16 * 4 + byte c div 64) div 4 = byte b mod 16" "(byte b mod 16 * 4 + byte c div 64) mod 4 = byte c div 64"
    by simp_all
  then show ?case using 4 by (simp add: mult.commute)
qed simp

lemma those_digits: "(\<And>d. d \<in> set ds \<Longrightarrow> d < 64) \<Longrightarrow> those (map b64_val (map b64_char ds)) = Some ds"
  by (induction ds) (simp_all add: b64_char_props(1))

lemma length_digits: "length (b64_digits s) = (4 * length s + 2) div 3"
  by (induction s rule: b64_digits.induct) auto

lemma length_btoa: "length (btoa s) mod 4 = 0"
  by (induction s rule: btoa.induct) simp_all

lemma strip_padding_replicate:
  assumes "(length u + k) mod 4 = 0" "k \<le> 2" "u = [] \<or> last u \<noteq> CHR ''=''"
  shows "strip_padding (u @ replicate k CHR ''='') = u"
proof -
  have u: "\<not> suffix ''='' u" using assms(3) by (auto simp: suffix_def)
  consider "k = 0" | "k = 1" | "k = 2" using assms(2) by linarith
  then show ?thesis
  proof cases
    case 1
    have "\<not> suffix ''=='' u" using u by (auto simp: suffix_def)
    then show ?thesis using 1 u by (simp add: strip_padding_def ends_with_suffix)
  next
    case 2
    have "\<not> suffix ''=='' (u @ ''='')"
    proof
      assume "suffix ''=='' (u @ ''='')"
      then obtain v where "u @ ''='' = (v @ ''='') @ ''=''" by (auto simp: suffix_def)
      then have "u = v @ ''=''" by blast
      then show False using u by (simp add: suffix_def)
    qed
    then show ?thesis using 2 assms(1) by (simp add: strip_padding_def ends_with_suffix suffix_def)
  next
    case 3
    have "replicate 2 CHR ''='' = ''==''" by (simp add: numeral_2_eq_2)
    then show ?thesis using 3 assms(1) by (simp add: strip_padding_def ends_with_suffix suffix_def)
  qed
qed

lemma atob_padded:
  assumes "(length (b64_digits s) + k) mod 4 = 0" "k \<le> 2"
  shows "atob (map b64_char (b64_digits s) @ replicate k CHR ''='') = Some s"
proof -
  let ?u = "map b64_char (b64_digits s)"
  have d: "\<And>d. d \<in> set (b64_digits s) \<Longrightarrow> d < 64" by (rule digits_less)
  have "\<forall>c \<in> set (?u @ replicate k CHR ''=''). c \<notin> set [CHR 0x09, CHR 0x0A, CHR 0x0C, CHR 0x0D, CHR '' '']"
    using b64_char_props(5) d by auto
  then have f: "filter (\<lambda>c. c \<notin> set [CHR 0x09, CHR 0x0A, CHR 0x0C, CHR 0x0D, CHR '' '']) (?u @ replicate k CHR ''='') = ?u @ replicate k CHR ''=''"
    by (rule filter_True)
  have "?u = [] \<or> last ?u \<noteq> CHR ''=''"
    using b64_char_props(2) d by (metis last_in_set last_map map_is_Nil_conv)
  then have "strip_padding (?u @ replicate k CHR ''='') = ?u"
    using assms by (intro strip_padding_replicate) simp_all
  then show ?thesis
    unfolding atob_def f Let_def using those_digits [OF d] groups_digits by simp
qed

lemma digits_padding:
  "(length (b64_digits s) + (3 - length s mod 3) mod 3) mod 4 = 0 \<and> (3 - length s mod 3) mod 3 \<le> 2 \<and>
   (4 - length (b64_digits s) mod 4) mod 4 = (3 - length s mod 3) mod 3"
  by (induction s rule: b64_digits.induct) (simp_all add: numeral_2_eq_2)

lemma atob_btoa: "atob (btoa s) = Some s"
  unfolding btoa_digits padding_def using digits_padding by (intro atob_padded) simp_all

interpretation base64: codec btoa atob "\<lambda>_. True"
  by unfold_locales (rule atob_btoa)

text \<open>The digits of an encoding in the URL alphabet.\<close>

definition url_char :: "char \<Rightarrow> char" where
  "url_char c = (if c = CHR ''+'' then CHR ''-'' else if c = CHR ''/'' then CHR ''_'' else c)"

lemma bufferToBase64URL_digits: "bufferToBase64URL s = map url_char (map b64_char (b64_digits s))"
proof -
  let ?u = "map b64_char (b64_digits s)"
  have r: "replace_char CHR ''/'' CHR ''_'' (replace_char CHR ''+'' CHR ''-'' t) = map url_char t" for t
    by (simp add: replace_char_def url_char_def)
  have p: "map url_char (padding n) = padding n" for n by (simp add: padding_def url_char_def)
  have "dropWhile (\<lambda>c. c = CHR ''='') (rev (padding n) @ w) = dropWhile (\<lambda>c. c = CHR ''='') w" for n w
    by (rule dropWhile_append2) (simp add: padding_def)
  then have st: "strip_right (\<lambda>c. c = CHR ''='') (v @ padding n) = strip_right (\<lambda>c. c = CHR ''='') v" for v n
    by (simp add: strip_right_def)
  have u: "c \<in> set ?u \<Longrightarrow> url_char c \<noteq> CHR ''=''" for c
    using b64_char_props(2) digits_less [of _ s] by (auto simp: url_char_def)
  have "map url_char ?u = [] \<or> last (map url_char ?u) \<noteq> CHR ''=''"
    using u by (metis last_in_set last_map map_is_Nil_conv)
  then have "strip_right (\<lambda>c. c = CHR ''='') (map url_char ?u) = map url_char ?u" by (rule strip_right_id)
  then show ?thesis unfolding bufferToBase64URL_def btoa_digits r map_append p st by simp
qed

lemma url_char_back:
  "list_all (\<lambda>c. c \<noteq> CHR ''-'' \<and> c \<noteq> CHR ''_'') t \<Longrightarrow>
   replace_char CHR ''_'' CHR ''/'' (replace_char CHR ''-'' CHR ''+'' (map url_char t)) = t"
  by (induction t) (auto simp: replace_char_def url_char_def)

lemma url_roundtrip: "base64URLToBuffer (bufferToBase64URL s) = Some s"
proof -
  let ?u = "map b64_char (b64_digits s)"
  have "list_all (\<lambda>c. c \<noteq> CHR ''-'' \<and> c \<noteq> CHR ''_'') ?u"
    unfolding list_all_iff using b64_char_props(3,4) digits_less [of _ s] by auto
  then have "replace_char CHR ''_'' CHR ''/'' (replace_char CHR ''-'' CHR ''+'' (map url_char ?u)) = ?u"
    by (rule url_char_back)
  then show ?thesis
    using atob_padded [of s "(4 - length (b64_digits s) mod 4) mod 4"] digits_padding [of s]
    unfolding base64URLToBuffer_def bufferToBase64URL_digits Let_def by simp
qed

interpretation base64url: codec bufferToBase64URL base64URLToBuffer "\<lambda>_. True"
  by unfold_locales (rule url_roundtrip)

section \<open>The stream of a terminal\<close>

lemma u8_run_append:
  "u8_run st (a @ b) = (case u8_run st a of (o1, st1) \<Rightarrow> (case u8_run st1 b of (o2, st2) \<Rightarrow> (o1 @ o2, st2)))"
  by (induction st a rule: u8_run.induct) (auto split: prod.splits)

text \<open>How the output is cut into messages does not matter, but for a leading byte order mark.\<close>

lemma base64_chunks_concat:
  "u8_run (dc_utf8 d) (concat chunks) = (out, st) \<Longrightarrow> dc_started d \<or> \<not> starts_with out byte_order_mark \<Longrightarrow>
   base64_chunks d (map textToBase64 chunks) =
     Some (out, \<lparr>dc_started = (dc_started d \<or> out \<noteq> []), dc_utf8 = st\<rparr>)"
proof (induction chunks arbitrary: d out st)
  case Nil
  then show ?case by simp
next
  case (Cons c cs)
  obtain o1 s1 where c: "u8_run (dc_utf8 d) c = (o1, s1)" by (cases "u8_run (dc_utf8 d) c")
  obtain o2 s2 where cs: "u8_run s1 (concat cs) = (o2, s2)" by (cases "u8_run s1 (concat cs)")
  have out: "out = o1 @ o2" "st = s2" using Cons.prems(1) c cs by (simp_all add: u8_run_append)
  have first: "dc_started d \<or> \<not> starts_with o1 byte_order_mark" using Cons.prems(2) out by (auto simp: prefix_def)
  let ?d = "\<lparr>dc_started = (dc_started d \<or> o1 \<noteq> []), dc_utf8 = s1\<rparr>"
  have "dc_started ?d \<or> \<not> starts_with o2 byte_order_mark" using Cons.prems(2) out by auto
  then have rest: "base64_chunks ?d (map textToBase64 cs) = Some (o2, \<lparr>dc_started = (dc_started ?d \<or> o2 \<noteq> []), dc_utf8 = s2\<rparr>)"
    by (intro Cons.IH) (simp_all add: cs)
  have "base64ToText d (Some (textToBase64 c)) = Some (o1, ?d)"
    using first by (auto simp: base64ToText_def textToBase64_def opt_str_def atob_btoa decode_stream_def c)
  then show ?case using rest out by (auto simp: disj_assoc)
qed

definition scalar_value :: "nat \<Rightarrow> bool" where
  "scalar_value n \<longleftrightarrow> n < 1114112 \<and> \<not> (55296 \<le> n \<and> n < 57344)"

lemma byte_char_of [simp]: "k < 256 \<Longrightarrow> byte (char_of k) = k"
  by simp

lemma u8_clean_fields [simp]:
  "u8_pending u8_clean = []" "u8_needed u8_clean = 0" "u8_lower u8_clean = 128" "u8_upper u8_clean = 191"
  by (simp_all add: u8_clean_def)

lemma u8_next:
  "0 < u8_needed st \<Longrightarrow> u8_lower st \<le> 128 + y \<Longrightarrow> 128 + y \<le> u8_upper st \<Longrightarrow> y < (64::nat) \<Longrightarrow>
   u8_byte st (char_of (128 + y)) =
     (if u8_needed st = 1 then (u8_pending st @ [char_of (128 + y)], u8_clean)
      else ([], u8_clean\<lparr>u8_pending := u8_pending st @ [char_of (128 + y)], u8_needed := u8_needed st - 1\<rparr>))"
  by (simp add: u8_byte_def)

lemma u8_lead_two:
  "2 \<le> x \<Longrightarrow> x < (32::nat) \<Longrightarrow>
   u8_byte u8_clean (char_of (192 + x)) = ([], u8_clean\<lparr>u8_pending := [char_of (192 + x)], u8_needed := 1\<rparr>)"
  by (simp add: u8_byte_def u8_lead_def)

lemma u8_lead_three:
  "x < (16::nat) \<Longrightarrow>
   u8_byte u8_clean (char_of (224 + x)) =
     ([], \<lparr>u8_pending = [char_of (224 + x)], u8_needed = 2, u8_lower = (if x = 0 then 160 else 128),
           u8_upper = (if x = 13 then 159 else 191)\<rparr>)"
  by (simp add: u8_byte_def u8_lead_def)

lemma u8_lead_four:
  "x < (5::nat) \<Longrightarrow>
   u8_byte u8_clean (char_of (240 + x)) =
     ([], \<lparr>u8_pending = [char_of (240 + x)], u8_needed = 3, u8_lower = (if x = 0 then 144 else 128),
           u8_upper = (if x = 4 then 143 else 191)\<rparr>)"
  by (simp add: u8_byte_def u8_lead_def)

lemma u8_two:
  "2 \<le> (x::nat) \<Longrightarrow> x < 32 \<Longrightarrow> y < (64::nat) \<Longrightarrow>
   u8_run u8_clean [char_of (192 + x), char_of (128 + y)] = ([char_of (192 + x), char_of (128 + y)], u8_clean)"
  by (simp add: u8_lead_two u8_next)

lemma u8_three:
  "x < (16::nat) \<Longrightarrow> y < (64::nat) \<Longrightarrow> z < (64::nat) \<Longrightarrow> (x = 0 \<Longrightarrow> 32 \<le> y) \<Longrightarrow> (x = 13 \<Longrightarrow> y < 32) \<Longrightarrow>
   u8_run u8_clean [char_of (224 + x), char_of (128 + y), char_of (128 + z)] =
     ([char_of (224 + x), char_of (128 + y), char_of (128 + z)], u8_clean)"
  by (cases "x = 0"; cases "x = 13") (simp_all add: u8_lead_three u8_lead_three [of 0, simplified] u8_lead_three [of 13, simplified] u8_next)

lemma u8_four:
  "x < (5::nat) \<Longrightarrow> y < (64::nat) \<Longrightarrow> z < (64::nat) \<Longrightarrow> w < (64::nat) \<Longrightarrow> (x = 0 \<Longrightarrow> 16 \<le> y) \<Longrightarrow> (x = 4 \<Longrightarrow> y < 16) \<Longrightarrow>
   u8_run u8_clean [char_of (240 + x), char_of (128 + y), char_of (128 + z), char_of (128 + w)] =
     ([char_of (240 + x), char_of (128 + y), char_of (128 + z), char_of (128 + w)], u8_clean)"
  by (cases "x = 0"; cases "x = 4") (simp_all add: u8_lead_four u8_lead_four [of 0, simplified] u8_lead_four [of 4, simplified] u8_next)

lemma mod_window:
  "64 * k \<le> m \<Longrightarrow> m < 64 * k + r \<Longrightarrow> r \<le> 64 \<Longrightarrow> m mod 64 < (r::nat)"
proof -
  assume m: "64 * k \<le> m" "m < 64 * k + r" "r \<le> 64"
  then obtain j where j: "m = j + k * 64" "j < r" by (metis add.commute le_Suc_ex mult.commute nat_add_left_cancel_less)
  then show "m mod 64 < r" using m(3) by simp
qed

lemma u8_scalar_three:
  assumes "scalar_value n" "2048 \<le> n" "n < 65536"
  shows "u8_run u8_clean (utf8 n) = (utf8 n, u8_clean)"
proof -
  have a: "n div 4096 < 16" "n div 64 mod 64 < 64" "n mod 64 < 64" using assms by linarith+
  have lo: "n div 4096 = 0 \<Longrightarrow> 32 \<le> n div 64 mod 64"
  proof -
    assume "n div 4096 = 0"
    then have "n div 64 < 64" using assms by linarith
    then show "32 \<le> n div 64 mod 64" using assms by simp
  qed
  have hi: "n div 4096 = 13 \<Longrightarrow> n div 64 mod 64 < 32"
  proof -
    assume e: "n div 4096 = 13"
    then have "n < 55296" using assms unfolding scalar_value_def by linarith
    then have "64 * 13 \<le> n div 64" "n div 64 < 64 * 13 + 32" using e by linarith+
    then show "n div 64 mod 64 < 32" by (rule mod_window) simp
  qed
  have "\<not> n < 128" "\<not> n < 2048" "n < 65536" using assms by linarith+
  then show ?thesis using u8_three [OF a lo hi] by (simp only: utf8_def if_False if_True)
qed

lemma u8_scalar_four:
  assumes "scalar_value n" "65536 \<le> n"
  shows "u8_run u8_clean (utf8 n) = (utf8 n, u8_clean)"
proof -
  have t: "n < 1114112" using assms by (simp add: scalar_value_def)
  have a: "n div 262144 < 5" "n div 4096 mod 64 < 64" "n div 64 mod 64 < 64" "n mod 64 < 64" using t by linarith+
  have lo: "n div 262144 = 0 \<Longrightarrow> 16 \<le> n div 4096 mod 64"
  proof -
    assume "n div 262144 = 0"
    then have "n div 4096 < 64" "16 \<le> n div 4096" using assms by linarith+
    then show "16 \<le> n div 4096 mod 64" by simp
  qed
  have hi: "n div 262144 = 4 \<Longrightarrow> n div 4096 mod 64 < 16"
  proof -
    assume "n div 262144 = 4"
    then have "64 * 4 \<le> n div 4096" "n div 4096 < 64 * 4 + 16" using t by linarith+
    then show "n div 4096 mod 64 < 16" by (rule mod_window) simp
  qed
  have "\<not> n < 128" "\<not> n < 2048" "\<not> n < 65536" using assms by linarith+
  then show ?thesis using u8_four [OF a lo hi] by (simp only: utf8_def if_False)
qed

lemma u8_scalar: "scalar_value n \<Longrightarrow> u8_run u8_clean (utf8 n) = (utf8 n, u8_clean)"
proof -
  assume s: "scalar_value n"
  consider "n < 128" | "128 \<le> n" "n < 2048" | "2048 \<le> n" "n < 65536" | "65536 \<le> n" by linarith
  then show ?thesis
  proof cases
    case 1
    then show ?thesis by (simp add: utf8_def u8_byte_def u8_lead_def u8_clean_def)
  next
    case 2
    then have a: "2 \<le> n div 64" "n div 64 < 32" "n mod 64 < 64" by linarith+
    have "\<not> n < 128" "n < 2048" using 2 by linarith+
    then show ?thesis using u8_two [OF a] by (simp only: utf8_def if_False if_True)
  qed (use s u8_scalar_three u8_scalar_four in blast)+
qed

lemma u8_text: "list_all scalar_value ns \<Longrightarrow> u8_run u8_clean (concat (map utf8 ns)) = (concat (map utf8 ns), u8_clean)"
  by (induction ns) (simp_all add: u8_run_append u8_scalar)

section \<open>Properties\<close>

text \<open>Terminal text arrives as it was sent, however the server cuts the byte stream into base64 messages,
  inside a character too: with a fresh decoder the pieces concatenate to the text and nothing stays
  behind, provided the text does not begin with a byte order mark.\<close>

theorem terminal_stream_roundtrip:
  "list_all scalar_value ns \<Longrightarrow> concat chunks = concat (map utf8 ns) \<Longrightarrow>
   \<not> starts_with (concat chunks) byte_order_mark \<Longrightarrow>
     base64_chunks new_decoder (map textToBase64 chunks) =
       Some (concat (map utf8 ns), \<lparr>dc_started = (concat chunks \<noteq> []), dc_utf8 = u8_clean\<rparr>)"
  using base64_chunks_concat [of new_decoder chunks "concat (map utf8 ns)" u8_clean]
  by (simp add: u8_text new_decoder_def)

lemma terminal_stream_roundtrip_witness:
  "base64_chunks new_decoder (map textToBase64 [[char_of (97::nat), char_of (226::nat)], [char_of (130::nat), char_of (172::nat)]]) =
     Some (concat (map utf8 [97, 8364]), \<lparr>dc_started = True, dc_utf8 = u8_clean\<rparr>)"
  using terminal_stream_roundtrip [of "[97, 8364]" "[[char_of (97::nat), char_of (226::nat)], [char_of (130::nat), char_of (172::nat)]]"]
  by (simp add: scalar_value_def utf8_def byte_order_mark_def char_of_def)

text \<open>The decoder is shared by all terminals of the page: a session that ends inside a character spoils the
  first output of the next one, which starts with a replacement character.\<close>

theorem terminal_decoder_not_reset:
  "(case base64ToText new_decoder (Some (textToBase64 [CHR ''a'', CHR 0xE2, CHR 0x82])) of
      Some (out, st) \<Rightarrow> out = ''a'' \<and> map_option fst (base64ToText st (Some (textToBase64 ''login:''))) = Some (replacement @ ''login:'')
    | None \<Rightarrow> False)"
  by code_simp

text \<open>A passkey's identifiers survive the trip to the server and back: decoding the base64url text of a buffer
  gives the buffer.\<close>

theorem passkey_buffer_roundtrip: "base64URLToBuffer (bufferToBase64URL buffer) = Some buffer"
  by (rule base64url.dec_enc) simp

end
