(* ===== verification/SignIn.thy ===== *)
theory SignIn
  imports Session Codec
begin

text \<open>
  The sign-in page (\<open>src/frontend/src/features/auth/auth-page.tsx\<close>): password and set-up
  forms, second factor, recovery codes, passkeys, captcha and single sign-on.

  A handler takes the values its closure was rendered with, the state, and the log of effects; the
  server, the browser's credential dialog and the query string are parameters.
\<close>

section \<open>State\<close>

record mfa_challenge =
  mc_token :: jsval
  mc_setupRequired :: bool
  mc_secret :: jsval
  mc_otpauthURL :: jsval

record sign_in =
  si_submitting :: bool
  si_passkeySubmitting :: bool
  si_username :: string
  si_mfaChallenge :: "mfa_challenge option"
  si_captcha :: "jsval option"
  si_oidcProviders :: "jsval list"
  si_wecomProviders :: "jsval list"
  si_pendingRecoveryCodes :: "(jsval \<times> jsval) option"

record sign_in_flags =
  sg_setupRequired :: bool
  sg_captchaRequired :: bool
  sg_passwordLoginDisabled :: bool
  sg_ldapLoginEnabled :: bool

record browser =
  br_next :: "string option"
  br_passkeySupported :: bool
  br_secureContext :: bool
  br_credential :: "request_options \<Rightarrow> exn + assertion option"

definition initial_sign_in :: "sign_in_flags \<Rightarrow> sign_in" where
  "initial_sign_in fl = \<lparr>si_submitting = False, si_passkeySubmitting = False,
     si_username = (if sg_setupRequired fl then ''admin'' else ''''), si_mfaChallenge = None, si_captcha = None,
     si_oidcProviders = [], si_wecomProviders = [], si_pendingRecoveryCodes = None\<rparr>"

text \<open>A property of a value that is neither \<open>undefined\<close> nor \<open>null\<close>.\<close>

definition field_of :: "jsval \<Rightarrow> string \<Rightarrow> jsval" where
  "field_of v k = (case v of JObj ob \<Rightarrow> obj_get ob k | _ \<Rightarrow> JUndefined)"

definition nullish :: "jsval \<Rightarrow> bool" where
  "nullish v \<longleftrightarrow> v = JUndefined \<or> v = JNull"

text \<open>\<open>v?.length\<close> as a condition.\<close>

definition has_length :: "jsval \<Rightarrow> bool" where
  "has_length v = (case v of JArr xs \<Rightarrow> xs \<noteq> [] | JStr s \<Rightarrow> s \<noteq> [] | JObj ob \<Rightarrow> truthy (obj_get ob ''length'') | _ \<Rightarrow> False)"

abbreviation type_error :: exn where
  "type_error \<equiv> OtherError ''TypeError''"

abbreviation operation_failed :: exn where
  "operation_failed \<equiv> OtherError ''operationFailed''"

section \<open>Captcha and providers\<close>

definition loadCaptcha :: "env \<Rightarrow> sign_in \<Rightarrow> log \<Rightarrow> (exn + sign_in) \<times> log" where
  "loadCaptcha ev st l =
     (case apiRequest ev (get_request ''/api/auth/captcha'') l of
        (Inl e, l') \<Rightarrow> (Inl e, l') | (Inr v, l') \<Rightarrow> (Inr (st\<lparr>si_captcha := Some v\<rparr>), l'))"

text \<open>\<open>void loadCaptcha().catch(() => undefined)\<close>\<close>

definition loadCaptcha_quiet :: "env \<Rightarrow> sign_in \<Rightarrow> log \<Rightarrow> sign_in \<times> log" where
  "loadCaptcha_quiet ev st l =
     (case loadCaptcha ev st l of (Inl e, l') \<Rightarrow> (st, l') | (Inr st', l') \<Rightarrow> (st', l'))"

definition captcha_effect :: "sign_in_flags \<Rightarrow> env \<Rightarrow> sign_in \<Rightarrow> log \<Rightarrow> sign_in \<times> log" where
  "captcha_effect fl ev st l =
     (let st1 = (if sg_setupRequired fl \<and> si_username st = '''' then st\<lparr>si_username := ''admin''\<rparr> else st)
      in if \<not> sg_setupRequired fl \<and> sg_captchaRequired fl \<and> si_mfaChallenge st = None
           then loadCaptcha_quiet ev st1 l
         else (st1\<lparr>si_captcha := None\<rparr>, l))"

text \<open>The effect runs again when one of its dependencies changed: the flags, the challenge or the user name.\<close>

definition change_username :: "sign_in_flags \<Rightarrow> env \<Rightarrow> string \<Rightarrow> sign_in \<Rightarrow> log \<Rightarrow> sign_in \<times> log" where
  "change_username fl ev name st l =
     (let st' = st\<lparr>si_username := name\<rparr>
      in if name \<noteq> si_username st then captcha_effect fl ev st' l else (st', l))"

definition back_to_password :: "sign_in_flags \<Rightarrow> env \<Rightarrow> sign_in \<Rightarrow> log \<Rightarrow> sign_in \<times> log" where
  "back_to_password fl ev st l =
     (let st' = st\<lparr>si_mfaChallenge := None\<rparr>
      in if si_mfaChallenge st \<noteq> None then captcha_effect fl ev st' l else (st', l))"

definition provider_list :: "exn + jsval \<Rightarrow> jsval list" where
  "provider_list r =
     (case r of Inr (JObj ob) \<Rightarrow> (case obj_get ob ''providers'' of JArr xs \<Rightarrow> xs | _ \<Rightarrow> []) | _ \<Rightarrow> [])"

definition providers_effect :: "sign_in_flags \<Rightarrow> env \<Rightarrow> sign_in \<Rightarrow> log \<Rightarrow> sign_in \<times> log" where
  "providers_effect fl ev st l =
     (if sg_setupRequired fl then (st\<lparr>si_oidcProviders := [], si_wecomProviders := []\<rparr>, l)
      else case apiRequest ev (get_request ''/api/auth/oidc/providers'') l of
             (r, l1) \<Rightarrow> (case apiRequest ev (get_request ''/api/auth/wecom/providers'') l1 of
               (r', l2) \<Rightarrow> (st\<lparr>si_oidcProviders := provider_list r, si_wecomProviders := provider_list r'\<rparr>, l2)))"

section \<open>Leaving the page\<close>

definition finishSignIn :: "browser \<Rightarrow> log \<Rightarrow> log" where
  "finishSignIn br l =
     (case br_next br of
        Some nxt \<Rightarrow> if safe_next nxt then l @ [AssignUrl nxt] else l @ [Navigate ''/app'']
      | None \<Rightarrow> l @ [Navigate ''/app''])"

definition enter_console :: "browser \<Rightarrow> string \<Rightarrow> jsval \<Rightarrow> log \<Rightarrow> log" where
  "enter_console br message user l = finishSignIn br (toast message (refresh True (l @ [SetUser user])))"

definition sso_start :: "string \<Rightarrow> (string \<Rightarrow> string) \<Rightarrow> browser \<Rightarrow> string \<Rightarrow> log \<Rightarrow> log" where
  "sso_start base encode br provider l =
     l @ [AssignUrl (base @ ''?provider='' @ encode provider @ ''&next='' @ encode (or_str (opt_str (br_next br)) ''/app''))]"

definition startOIDCLogin :: "(string \<Rightarrow> string) \<Rightarrow> browser \<Rightarrow> string \<Rightarrow> log \<Rightarrow> log" where
  "startOIDCLogin encode = sso_start ''/api/auth/oidc/start'' encode"

definition startWeComLogin :: "(string \<Rightarrow> string) \<Rightarrow> browser \<Rightarrow> string \<Rightarrow> log \<Rightarrow> log" where
  "startWeComLogin encode = sso_start ''/api/auth/wecom/start'' encode"

definition continueAfterRecoveryCodes :: "browser \<Rightarrow> sign_in \<Rightarrow> log \<Rightarrow> log" where
  "continueAfterRecoveryCodes br st l =
     (case si_pendingRecoveryCodes st of None \<Rightarrow> l | Some (user, codes) \<Rightarrow> enter_console br ''auth.signedIn'' user l)"

definition copyRecoveryCodes :: "clipboard \<Rightarrow> sign_in \<Rightarrow> log \<Rightarrow> log" where
  "copyRecoveryCodes cb st l =
     (case si_pendingRecoveryCodes st of
        Some (user, JArr codes) \<Rightarrow>
          if codes = [] then l
          else let text = join [CHR 0x0A] (map js_to_string codes)
               in (case fst (copyText cb text 0) of
                     Inr _ \<Rightarrow> toast ''auth.recoveryCodesCopied'' (l @ [CopyText text]) | Inl e \<Rightarrow> report e l)
      | _ \<Rightarrow> l)"

section \<open>Signing in\<close>

text \<open>The answer to a password or a passkey: a second factor is demanded, or there is a user.\<close>

definition mfa_demanded :: "jsval \<Rightarrow> bool" where
  "mfa_demanded result \<longleftrightarrow> truthy (field_of result ''mfa_required'') \<or> truthy (field_of result ''mfa_setup_required'')"

definition accept_login :: "browser \<Rightarrow> sign_in \<Rightarrow> jsval \<Rightarrow> log \<Rightarrow> (exn + sign_in) \<times> log" where
  "accept_login br st result l =
     (if nullish result then (Inl type_error, l)
      else if mfa_demanded result
        then (if \<not> truthy (field_of result ''mfa_token'') then (Inl operation_failed, l)
              else (Inr (st\<lparr>si_mfaChallenge := Some \<lparr>mc_token = field_of result ''mfa_token'',
                      mc_setupRequired = truthy (field_of result ''mfa_setup_required''),
                      mc_secret = field_of result ''secret'', mc_otpauthURL = field_of result ''otpauth_url''\<rparr>\<rparr>), l))
      else if \<not> truthy (field_of result ''user'') then (Inl operation_failed, l)
      else (Inr st, enter_console br ''auth.signedIn'' (field_of result ''user'') l))"

definition complete_mfa :: "browser \<Rightarrow> env \<Rightarrow> (string \<Rightarrow> string) \<Rightarrow> mfa_challenge \<Rightarrow> sign_in \<Rightarrow> log \<Rightarrow> (exn + sign_in) \<times> log" where
  "complete_mfa br ev form ch st l =
     (case apiRequest ev (post_request ''/api/auth/mfa/complete-login''
             (JObj [(''token'', mc_token ch), (''mfa_code'', JStr (form ''mfa_code'')),
                    (''recovery_code'', JStr (form ''recovery_code''))])) l of
        (Inl e, l') \<Rightarrow> (Inl e, l')
      | (Inr result, l') \<Rightarrow>
          if nullish result then (Inl type_error, l')
          else if \<not> truthy (field_of result ''user'') then (Inl operation_failed, l')
          else if has_length (field_of result ''recovery_codes'')
            then (Inr (st\<lparr>si_pendingRecoveryCodes := Some (field_of result ''user'', field_of result ''recovery_codes'')\<rparr>), l')
          else (Inr st, enter_console br ''auth.signedIn'' (field_of result ''user'') l'))"

definition complete_setup :: "browser \<Rightarrow> env \<Rightarrow> (string \<Rightarrow> string) \<Rightarrow> sign_in \<Rightarrow> log \<Rightarrow> (exn + sign_in) \<times> log" where
  "complete_setup br ev form st l =
     (if form ''password'' \<noteq> form ''confirm_password'' then (Inr st, toast ''auth.passwordMismatch'' l)
      else case apiRequest ev (post_request ''/api/auth/setup''
                  (JObj [(''username'', JStr (or_str (form ''username'') ''admin'')),
                         (''password'', JStr (form ''password''))])) l of
             (Inl e, l') \<Rightarrow> (Inl e, l')
           | (Inr result, l') \<Rightarrow>
               if nullish result then (Inl type_error, l')
               else (Inr st, enter_console br ''auth.adminCreated'' (field_of result ''user'') l'))"

definition password_login :: "browser \<Rightarrow> env \<Rightarrow> (string \<Rightarrow> string) \<Rightarrow> sign_in \<Rightarrow> log \<Rightarrow> (exn + sign_in) \<times> log" where
  "password_login br ev form st l =
     (case apiRequest ev (post_request ''/api/auth/login''
             (JObj [(''username'', JStr (form ''username'')), (''password'', JStr (form ''password'')),
                    (''captcha_id'', case si_captcha st of
                        Some c \<Rightarrow> or_val (field_of c ''captcha_id'') (JStr '''') | None \<Rightarrow> JStr ''''),
                    (''captcha_answer'', JStr (form ''captcha_answer''))])) l of
        (Inl e, l') \<Rightarrow> (Inl e, l')
      | (Inr result, l') \<Rightarrow> accept_login br st result l')"

definition onSubmit :: "sign_in_flags \<Rightarrow> browser \<Rightarrow> env \<Rightarrow> (string \<Rightarrow> string) \<Rightarrow> sign_in \<Rightarrow> log \<Rightarrow> sign_in \<times> log" where
  "onSubmit fl br ev form st l =
     (let st1 = st\<lparr>si_submitting := True\<rparr>;
          attempt = (case si_mfaChallenge st of
              Some ch \<Rightarrow> complete_mfa br ev form ch st1 l
            | None \<Rightarrow> if sg_setupRequired fl then complete_setup br ev form st1 l
                      else password_login br ev form st1 l)
      in case attempt of
           (Inr st2, l2) \<Rightarrow> (st2\<lparr>si_submitting := False\<rparr>, l2)
         | (Inl e, l2) \<Rightarrow>
             let l3 = report e l2;
                 (st4, l4) = (if sg_captchaRequired fl \<and> si_mfaChallenge st = None \<and> \<not> sg_setupRequired fl
                              then loadCaptcha_quiet ev st1 l3 else (st1, l3))
             in (st4\<lparr>si_submitting := False\<rparr>, l4))"

section \<open>Passkeys\<close>

definition descriptor_of_json :: "jsval \<Rightarrow> descriptor option" where
  "descriptor_of_json v =
     (case (field_of v ''id'', field_of v ''type'') of
        (JStr i, JStr t) \<Rightarrow> Some \<lparr>de_type = t, de_id = i, de_transports =
           (case field_of v ''transports'' of JArr xs \<Rightarrow> Some (stringArrayValue (JArr xs)) | _ \<Rightarrow> None)\<rparr>
      | _ \<Rightarrow> None)"

text \<open>The server's options as the decoder takes them; a challenge that is no string has no \<open>replace\<close>.\<close>

definition request_options_of_json :: "jsval \<Rightarrow> request_options option" where
  "request_options_of_json v =
     (case (field_of v ''challenge'', field_of v ''allowCredentials'') of
        (JStr c, JArr ds) \<Rightarrow> map_option (\<lambda>xs. \<lparr>ro_challenge = c, ro_allow = Some xs, ro_rest = recordValue v\<rparr>)
                               (those (map descriptor_of_json ds))
      | (JStr c, a) \<Rightarrow> if nullish a then Some \<lparr>ro_challenge = c, ro_allow = None, ro_rest = recordValue v\<rparr> else None
      | _ \<Rightarrow> None)"

definition passkey_assertion :: "browser \<Rightarrow> jsval \<Rightarrow> exn + assertion" where
  "passkey_assertion br options =
     (case request_options_of_json (field_of options ''publicKey'') of
        None \<Rightarrow> Inl type_error
      | Some ro \<Rightarrow> (case decodePasskeyRequestOptions ro of
          None \<Rightarrow> Inl (OtherError ''InvalidCharacterError'')
        | Some ro' \<Rightarrow> (case br_credential br ro' of
            Inl e \<Rightarrow> Inl e | Inr None \<Rightarrow> Inl operation_failed | Inr (Some cr) \<Rightarrow> Inr cr)))"

definition passkey_attempt :: "browser \<Rightarrow> env \<Rightarrow> string \<Rightarrow> sign_in \<Rightarrow> log \<Rightarrow> (exn + sign_in) \<times> log" where
  "passkey_attempt br ev account st l =
     (case apiRequest ev (post_request ''/api/auth/passkeys/login/options'' (JObj [(''username'', JStr account)])) l of
        (Inl e, l1) \<Rightarrow> (Inl e, l1)
      | (Inr options, l1) \<Rightarrow>
          if nullish options then (Inl type_error, l1)
          else case passkey_assertion br options of
                 Inl e \<Rightarrow> (Inl e, l1)
               | Inr cr \<Rightarrow>
                   case apiRequest ev (post_request ''/api/auth/passkeys/login/verify''
                          (passkeyAssertionPayload cr (js_to_string (field_of options ''challenge_id'')))) l1 of
                     (Inl e, l2) \<Rightarrow> (Inl e, l2)
                   | (Inr result, l2) \<Rightarrow> accept_login br st result l2)"

definition startPasskeyLogin :: "browser \<Rightarrow> env \<Rightarrow> sign_in \<Rightarrow> log \<Rightarrow> sign_in \<times> log" where
  "startPasskeyLogin br ev st l =
     (let account = trim (si_username st)
      in if account = '''' then (st, toast ''auth.passkeyUsernameRequired'' l)
         else if \<not> br_passkeySupported br then (st, toast ''auth.passkeyUnsupported'' l)
         else if \<not> br_secureContext br then (st, toast ''auth.passkeySecureContextRequired'' l)
         else case passkey_attempt br ev account (st\<lparr>si_passkeySubmitting := True\<rparr>) l of
                (Inr st', l') \<Rightarrow> (st'\<lparr>si_passkeySubmitting := False\<rparr>, l')
              | (Inl e, l') \<Rightarrow> (st, report e l'))"

section \<open>What is on the page\<close>

datatype sign_in_control =
  RecoveryControls | MFAForm bool | SetupForm | LoginForm bool | PasskeyButton bool | ProviderButtons

definition sign_in_controls :: "sign_in_flags \<Rightarrow> browser \<Rightarrow> sign_in \<Rightarrow> sign_in_control list" where
  "sign_in_controls fl br st =
     (if si_pendingRecoveryCodes st \<noteq> None then [RecoveryControls]
      else (case si_mfaChallenge st of
              Some ch \<Rightarrow> [MFAForm (\<not> mc_setupRequired ch)]
            | None \<Rightarrow> if sg_setupRequired fl then [SetupForm]
                      else [LoginForm (sg_captchaRequired fl)]
                        @ [PasskeyButton (\<not> si_passkeySubmitting st \<and> \<not> si_submitting st \<and> br_passkeySupported br \<and> br_secureContext br)]
                        @ (if si_oidcProviders st \<noteq> [] \<or> si_wecomProviders st \<noteq> [] then [ProviderButtons] else [])))"

section \<open>The events of the page\<close>

inductive sign_in_step :: "sign_in_flags \<Rightarrow> browser \<Rightarrow> env \<Rightarrow> sign_in \<times> log \<Rightarrow> sign_in \<times> log \<Rightarrow> bool"
  for fl br ev where
  submit: "sign_in_step fl br ev (st, l) (onSubmit fl br ev form st l)"
| passkey: "sign_in_step fl br ev (st, l) (startPasskeyLogin br ev st l)"
| continue_: "sign_in_step fl br ev (st, l) (st, continueAfterRecoveryCodes br st l)"
| copy: "sign_in_step fl br ev (st, l) (st, copyRecoveryCodes cb st l)"
| typing: "sign_in_step fl br ev (st, l) (change_username fl ev name st l)"
| to_password: "sign_in_step fl br ev (st, l) (back_to_password fl ev st l)"
| captcha: "sign_in_step fl br ev (st, l) (captcha_effect fl ev st l)"
| providers: "sign_in_step fl br ev (st, l) (providers_effect fl ev st l)"
| reload_captcha: "sign_in_step fl br ev (st, l) (loadCaptcha_quiet ev st l)"
| oidc: "sign_in_step fl br ev (st, l) (st, startOIDCLogin enc br p l)"
| wecom: "sign_in_step fl br ev (st, l) (st, startWeComLogin enc br p l)"

inductive_cases sign_in_stepE: "sign_in_step fl br ev (st, l) c"

text \<open>
  The server vouched for \<open>u\<close>: some request of the log went to an endpoint that ends a sign-in, its
  answer names \<open>u\<close>, and unless the request was itself the second factor or the first set-up, the
  answer did not ask for a second factor.
\<close>

definition vouched :: "env \<Rightarrow> log \<Rightarrow> jsval \<Rightarrow> bool" where
  "vouched ev l u \<longleftrightarrow> (\<exists>l1 rq l2 result. l = l1 @ Call rq # l2 \<and> fst (apiRequest ev rq l1) = Inr result \<and>
     field_of result ''user'' = u \<and>
     (rq_path rq \<in> {''/api/auth/mfa/complete-login'', ''/api/auth/setup''} \<or>
      rq_path rq \<in> {''/api/auth/login'', ''/api/auth/passkeys/login/verify''} \<and> \<not> mfa_demanded result))"

definition vouched_state :: "env \<Rightarrow> sign_in \<Rightarrow> log \<Rightarrow> bool" where
  "vouched_state ev st l \<longleftrightarrow> (\<forall>u. SetUser u \<in> set l \<longrightarrow> vouched ev l u) \<and>
     (\<forall>u codes. si_pendingRecoveryCodes st = Some (u, codes) \<longrightarrow> vouched ev l u)"

lemma vouched_append: "vouched ev l u \<Longrightarrow> vouched ev (l @ new) u"
  unfolding vouched_def by (metis append.assoc append_Cons)

lemma vouched_last:
  "fst (apiRequest ev rq l) = Inr result \<Longrightarrow> field_of result ''user'' = u \<Longrightarrow>
   rq_path rq \<in> {''/api/auth/mfa/complete-login'', ''/api/auth/setup''} \<or>
   rq_path rq \<in> {''/api/auth/login'', ''/api/auth/passkeys/login/verify''} \<and> \<not> mfa_demanded result \<Longrightarrow>
   vouched ev (l @ [Call rq]) u"
  unfolding vouched_def by blast

lemma vouched_quiet:
  "vouched_state ev st l \<Longrightarrow> list_all (\<lambda>e. case e of SetUser _ \<Rightarrow> False | _ \<Rightarrow> True) new \<Longrightarrow>
   si_pendingRecoveryCodes st' = si_pendingRecoveryCodes st \<Longrightarrow> vouched_state ev st' (l @ new)"
  unfolding vouched_state_def by (auto simp: list_all_iff intro: vouched_append)

lemma enter_console_log:
  obtains e where "enter_console br m u l = l @ [SetUser u, Refresh True, Toast m, e]" "\<And>v. e \<noteq> SetUser v"
  unfolding enter_console_def finishSignIn_def toast_def refresh_def
  by (cases "br_next br"; cases "safe_next (the (br_next br))") auto

lemma vouched_enter:
  assumes "vouched_state ev st l" "vouched ev l u"
  shows "vouched_state ev st (enter_console br m u l)"
proof -
  obtain e where e: "enter_console br m u l = l @ [SetUser u, Refresh True, Toast m, e]" "\<And>v. e \<noteq> SetUser v"
    by (rule enter_console_log [of br m u l]) blast
  show ?thesis using assms e(2) unfolding vouched_state_def e(1) by (auto intro: vouched_append)
qed

lemma apiRequest_pair: "apiRequest ev rq l = (r, l') \<longleftrightarrow> r = fst (apiRequest ev rq l) \<and> l' = l @ [Call rq]"
  by (metis apiRequest_eq prod.inject)

lemma vouched_call: "vouched_state ev st l \<Longrightarrow> vouched_state ev st (l @ [Call rq])"
  by (rule vouched_quiet) simp_all

lemma vouched_report: "vouched_state ev st l \<Longrightarrow> vouched_state ev st (report e l)"
  unfolding report_def by (rule vouched_quiet) simp_all

lemma vouched_toast: "vouched_state ev st l \<Longrightarrow> vouched_state ev st (toast m l)"
  unfolding toast_def by (rule vouched_quiet) simp_all

lemma vouched_same_pending:
  "vouched_state ev st l \<Longrightarrow> si_pendingRecoveryCodes st' = si_pendingRecoveryCodes st \<Longrightarrow> vouched_state ev st' l"
  by (simp add: vouched_state_def)

lemma vouched_captcha: "vouched_state ev st l \<Longrightarrow> case loadCaptcha_quiet ev st l of (st', l') \<Rightarrow> vouched_state ev st' l'"
  unfolding loadCaptcha_quiet_def loadCaptcha_def
  by (auto simp: apiRequest_pair split: prod.splits sum.splits intro: vouched_call vouched_same_pending)

text \<open>An attempt leaves the state vouched for, whether it succeeds or fails; a failure changes no state.\<close>

definition vouched_attempt :: "env \<Rightarrow> sign_in \<Rightarrow> (exn + sign_in) \<times> log \<Rightarrow> bool" where
  "vouched_attempt ev st r \<longleftrightarrow> (case r of (Inr st', l') \<Rightarrow> vouched_state ev st' l' | (Inl e, l') \<Rightarrow> vouched_state ev st l')"

lemma vouched_accept:
  assumes "vouched_state ev st l" "\<not> mfa_demanded result \<Longrightarrow> vouched ev l (field_of result ''user'')"
  shows "vouched_attempt ev st (accept_login br st result l)"
proof (cases "nullish result \<or> mfa_demanded result \<or> \<not> truthy (field_of result ''user'')")
  case True
  then show ?thesis using assms(1)
    by (auto simp: vouched_attempt_def accept_login_def intro: vouched_same_pending)
next
  case False
  then show ?thesis using vouched_enter [OF assms(1) assms(2)] by (simp add: vouched_attempt_def accept_login_def)
qed

lemma vouched_mfa:
  assumes "vouched_state ev st l"
  shows "vouched_attempt ev st (complete_mfa br ev form ch st l)"
proof -
  let ?rq = "post_request ''/api/auth/mfa/complete-login'' (JObj [(''token'', mc_token ch),
    (''mfa_code'', JStr (form ''mfa_code'')), (''recovery_code'', JStr (form ''recovery_code''))])"
  have v: "vouched_state ev st (l @ [Call ?rq])" by (rule vouched_call [OF assms])
  show ?thesis
  proof (cases "fst (apiRequest ev ?rq l)")
    case (Inl e)
    then show ?thesis using v unfolding complete_mfa_def by (subst apiRequest_eq) (simp add: vouched_attempt_def)
  next
    case (Inr result)
    have u: "vouched ev (l @ [Call ?rq]) (field_of result ''user'')" by (rule vouched_last [OF Inr]) simp_all
    have p: "vouched_state ev (st\<lparr>si_pendingRecoveryCodes := Some (field_of result ''user'', c)\<rparr>) (l @ [Call ?rq])" for c
      using v u by (simp add: vouched_state_def)
    show ?thesis using v p vouched_enter [OF v u] unfolding complete_mfa_def
      by (subst apiRequest_eq) (simp add: Inr vouched_attempt_def)
  qed
qed

lemma vouched_setup:
  assumes "vouched_state ev st l"
  shows "vouched_attempt ev st (complete_setup br ev form st l)"
proof (cases "form ''password'' = form ''confirm_password''")
  case False
  then show ?thesis using vouched_toast [OF assms] by (simp add: complete_setup_def vouched_attempt_def)
next
  case True
  let ?rq = "post_request ''/api/auth/setup'' (JObj [(''username'', JStr (or_str (form ''username'') ''admin'')),
    (''password'', JStr (form ''password''))])"
  have v: "vouched_state ev st (l @ [Call ?rq])" by (rule vouched_call [OF assms])
  show ?thesis
  proof (cases "fst (apiRequest ev ?rq l)")
    case (Inl e)
    then show ?thesis using v True unfolding complete_setup_def by (subst apiRequest_eq) (simp add: Inl [unfolded True] vouched_attempt_def)
  next
    case (Inr result)
    have u: "vouched ev (l @ [Call ?rq]) (field_of result ''user'')" by (rule vouched_last [OF Inr]) simp_all
    show ?thesis using v True vouched_enter [OF v u] unfolding complete_setup_def
      by (subst apiRequest_eq) (simp add: Inr [unfolded True] vouched_attempt_def)
  qed
qed

lemma vouched_password:
  assumes "vouched_state ev st l"
  shows "vouched_attempt ev st (password_login br ev form st l)"
proof -
  let ?rq = "post_request ''/api/auth/login''
             (JObj [(''username'', JStr (form ''username'')), (''password'', JStr (form ''password'')),
                    (''captcha_id'', case si_captcha st of
                        Some c \<Rightarrow> or_val (field_of c ''captcha_id'') (JStr '''') | None \<Rightarrow> JStr ''''),
                    (''captcha_answer'', JStr (form ''captcha_answer''))])"
  have v: "vouched_state ev st (l @ [Call ?rq])" by (rule vouched_call [OF assms])
  show ?thesis
  proof (cases "fst (apiRequest ev ?rq l)")
    case (Inl e)
    then show ?thesis using v unfolding password_login_def by (subst apiRequest_eq) (simp add: vouched_attempt_def)
  next
    case (Inr result)
    have "vouched_attempt ev st (accept_login br st result (l @ [Call ?rq]))"
      by (rule vouched_accept [OF v]) (rule vouched_last [OF Inr refl], simp)
    then show ?thesis unfolding password_login_def by (subst apiRequest_eq) (simp add: Inr)
  qed
qed

lemma vouched_passkey:
  assumes "vouched_state ev st l"
  shows "vouched_attempt ev st (passkey_attempt br ev account st l)"
proof -
  let ?rq = "post_request ''/api/auth/passkeys/login/options'' (JObj [(''username'', JStr account)])"
  have v: "vouched_state ev st (l @ [Call ?rq])" by (rule vouched_call [OF assms])
  show ?thesis
  proof (cases "fst (apiRequest ev ?rq l)")
    case (Inl e)
    then show ?thesis using v unfolding passkey_attempt_def by (subst apiRequest_eq) (simp add: vouched_attempt_def)
  next
    case (Inr options)
    have "vouched_attempt ev st
       (case apiRequest ev (post_request ''/api/auth/passkeys/login/verify'' body) (l @ [Call ?rq]) of
          (Inl e, l2) \<Rightarrow> (Inl e, l2) | (Inr result, l2) \<Rightarrow> accept_login br st result l2)" for body
    proof (cases "fst (apiRequest ev (post_request ''/api/auth/passkeys/login/verify'' body) (l @ [Call ?rq]))")
      case (Inl e)
      then show ?thesis using vouched_call [OF v]
        by (subst apiRequest_eq) (simp add: vouched_attempt_def)
    next
      case (Inr result)
      have "vouched_attempt ev st (accept_login br st result
          ((l @ [Call ?rq]) @ [Call (post_request ''/api/auth/passkeys/login/verify'' body)]))"
        by (rule vouched_accept [OF vouched_call [OF v]]) (rule vouched_last [OF Inr refl], simp)
      then show ?thesis by (subst apiRequest_eq) (simp add: Inr)
    qed
    then show ?thesis using v unfolding passkey_attempt_def
      by (subst (2) apiRequest_eq) (simp add: Inr vouched_attempt_def [of ev st "(Inl _, _)"] split: sum.split)
  qed
qed

lemma vouched_submit:
  assumes "vouched_state ev st l"
  shows "case onSubmit fl br ev form st l of (st', l') \<Rightarrow> vouched_state ev st' l'"
proof -
  let ?st = "st\<lparr>si_submitting := True\<rparr>"
  let ?a = "case si_mfaChallenge st of Some ch \<Rightarrow> complete_mfa br ev form ch ?st l
     | None \<Rightarrow> if sg_setupRequired fl then complete_setup br ev form ?st l else password_login br ev form ?st l"
  have s: "vouched_state ev ?st l" using assms by (rule vouched_same_pending) simp
  have a: "vouched_attempt ev ?st ?a"
    using vouched_mfa [OF s] vouched_setup [OF s] vouched_password [OF s] by (simp split: option.split)
  obtain r l2 where r: "?a = (r, l2)" by (cases ?a)
  show ?thesis
  proof (cases r)
    case (Inr st2)
    have "vouched_state ev st2 l2" using a unfolding r Inr by (simp add: vouched_attempt_def)
    then show ?thesis unfolding onSubmit_def Let_def r Inr by (auto intro: vouched_same_pending)
  next
    case (Inl e)
    have v: "vouched_state ev ?st (report e l2)" using a unfolding r Inl by (auto simp: vouched_attempt_def intro: vouched_report)
    obtain st4 l4 where q: "loadCaptcha_quiet ev ?st (report e l2) = (st4, l4)" by (cases "loadCaptcha_quiet ev ?st (report e l2)")
    have "vouched_state ev st4 l4" using vouched_captcha [OF v] by (simp add: q)
    then show ?thesis using v unfolding onSubmit_def Let_def r Inl
      by (auto simp: q intro: vouched_same_pending)
  qed
qed

lemma vouched_captcha_effect:
  "vouched_state ev st l \<Longrightarrow> case captcha_effect fl ev st l of (st', l') \<Rightarrow> vouched_state ev st' l'"
proof -
  assume v: "vouched_state ev st l"
  let ?st = "if sg_setupRequired fl \<and> si_username st = '''' then st\<lparr>si_username := ''admin''\<rparr> else st"
  have "vouched_state ev ?st l" "vouched_state ev (?st\<lparr>si_captcha := None\<rparr>) l"
    using v by (auto intro: vouched_same_pending)
  then show ?thesis using vouched_captcha [of ev ?st l] unfolding captcha_effect_def Let_def
    by (cases "sg_setupRequired fl"; cases "si_username st = ''''") simp_all
qed

lemma vouched_providers:
  "vouched_state ev st l \<Longrightarrow> case providers_effect fl ev st l of (st', l') \<Rightarrow> vouched_state ev st' l'"
proof -
  assume v: "vouched_state ev st l"
  have "vouched_state ev (st\<lparr>si_oidcProviders := o', si_wecomProviders := w\<rparr>) (l @ [Call r, Call r'])"
    "vouched_state ev (st\<lparr>si_oidcProviders := o', si_wecomProviders := w\<rparr>) l" for o' w r r'
    using vouched_quiet [OF v] v by (simp_all add: vouched_state_def)
  then show ?thesis unfolding providers_effect_def by (auto simp: apiRequest_pair split: prod.splits)
qed

lemma vouched_passkey_login:
  assumes "vouched_state ev st l"
  shows "case startPasskeyLogin br ev st l of (st', l') \<Rightarrow> vouched_state ev st' l'"
proof -
  let ?st = "st\<lparr>si_passkeySubmitting := True\<rparr>"
  have s: "vouched_state ev ?st l" using assms by (rule vouched_same_pending) simp
  note a = vouched_passkey [OF s, of br "trim (si_username st)"]
  have "vouched_state ev st l' \<longleftrightarrow> vouched_state ev ?st l'" for l' by (simp add: vouched_state_def)
  then show ?thesis using a vouched_toast [OF assms] unfolding startPasskeyLogin_def Let_def vouched_attempt_def
    by (auto split: prod.splits sum.splits intro: vouched_same_pending vouched_report)
qed

lemma vouched_step: "sign_in_step fl br ev (st, l) (st', l') \<Longrightarrow> vouched_state ev st l \<Longrightarrow> vouched_state ev st' l'"
proof (erule sign_in_stepE)
  assume v: "vouched_state ev st l"
  show "vouched_state ev st' l'" if "(st', l') = onSubmit fl br ev form st l" for form
    using vouched_submit [OF v, of fl br form] by (simp flip: that)
  show "vouched_state ev st' l'" if "(st', l') = startPasskeyLogin br ev st l"
    using vouched_passkey_login [OF v, of br] by (simp flip: that)
  show "vouched_state ev st' l'" if "(st', l') = (st, continueAfterRecoveryCodes br st l)"
    using that v by (auto simp: continueAfterRecoveryCodes_def vouched_state_def [of _ _ l] split: option.splits intro: vouched_enter)
  show "vouched_state ev st' l'" if "(st', l') = (st, copyRecoveryCodes cb st l)" for cb
  proof -
    have "list_all (\<lambda>e. case e of SetUser _ \<Rightarrow> False | _ \<Rightarrow> True) [CopyText t, Toast m]" for t m by simp
    then have "vouched_state ev st (toast m (l @ [CopyText t]))" for t m
      unfolding toast_def using vouched_quiet [OF v, of "[CopyText t, Toast m]" st] by simp
    then show ?thesis using that v
      by (auto simp: copyRecoveryCodes_def Let_def split: option.splits jsval.splits sum.splits intro: vouched_report)
  qed
  show "vouched_state ev st' l'" if "(st', l') = change_username fl ev name st l" for name
  proof -
    have "vouched_state ev (st\<lparr>si_username := name\<rparr>) l" using v by (rule vouched_same_pending) simp
    then show ?thesis using vouched_captcha_effect [of ev "st\<lparr>si_username := name\<rparr>" l fl] that
      by (auto simp: change_username_def Let_def split: if_splits)
  qed
  show "vouched_state ev st' l'" if "(st', l') = back_to_password fl ev st l"
  proof -
    have "vouched_state ev (st\<lparr>si_mfaChallenge := None\<rparr>) l" using v by (rule vouched_same_pending) simp
    then show ?thesis using vouched_captcha_effect [of ev "st\<lparr>si_mfaChallenge := None\<rparr>" l fl] that
      by (auto simp: back_to_password_def Let_def split: if_splits)
  qed
  show "vouched_state ev st' l'" if "(st', l') = captcha_effect fl ev st l"
    using vouched_captcha_effect [OF v, of fl] by (simp flip: that)
  show "vouched_state ev st' l'" if "(st', l') = providers_effect fl ev st l"
    using vouched_providers [OF v, of fl] by (simp flip: that)
  show "vouched_state ev st' l'" if "(st', l') = loadCaptcha_quiet ev st l"
    using vouched_captcha [OF v] by (simp flip: that)
  show "vouched_state ev st' l'" if "(st', l') = (st, startOIDCLogin enc br p l)" for enc p
    using that vouched_quiet [OF v] by (simp add: startOIDCLogin_def sso_start_def)
  show "vouched_state ev st' l'" if "(st', l') = (st, startWeComLogin enc br p l)" for enc p
    using that vouched_quiet [OF v] by (simp add: startWeComLogin_def sso_start_def)
qed

lemma vouched_reachable:
  "(sign_in_step fl br ev)\<^sup>*\<^sup>* (initial_sign_in fl, []) (st, l) \<Longrightarrow> vouched_state ev st l"
proof (induction "(st, l)" arbitrary: st l rule: rtranclp_induct)
  case base
  then show ?case by (simp add: vouched_state_def initial_sign_in_def)
next
  case (step c)
  then show ?case by (cases c) (auto intro: vouched_step)
qed

section \<open>Properties\<close>

text \<open>C4 Whatever the user does and whatever the server answers, the page only ever signs in a user the server
  vouched for: a sign-in endpoint returned that user, and a password or passkey answer that asked for a second
  factor never signs anyone in by itself.\<close>

theorem sign_in_vouched:
  "(sign_in_step fl br ev)\<^sup>*\<^sup>* (initial_sign_in fl, []) (st, l) \<Longrightarrow> SetUser u \<in> set l \<Longrightarrow> vouched ev l u"
  using vouched_reachable [of fl br ev st l] by (simp add: vouched_state_def)

definition friendly_server :: env where
  "friendly_server = \<lparr>ev_fetch = (\<lambda>l. Inr \<lparr>rs_ok = True, rs_status = 200, rs_status_text = ''OK'',
     rs_json = Some (JObj [(''user'', JObj [(''id'', JStr ''u1'')])])\<rparr>), ev_mfa = (\<lambda>_. ''''), ev_confirm = (\<lambda>_. True)\<rparr>"

definition plain_flags :: sign_in_flags where
  "plain_flags = \<lparr>sg_setupRequired = False, sg_captchaRequired = False, sg_passwordLoginDisabled = False, sg_ldapLoginEnabled = False\<rparr>"

definition plain_browser :: browser where
  "plain_browser = \<lparr>br_next = None, br_passkeySupported = False, br_secureContext = False,
     br_credential = (\<lambda>_. Inr None)\<rparr>"

lemma plain_login:
  "onSubmit plain_flags plain_browser friendly_server (\<lambda>_. ''x'') (initial_sign_in plain_flags) [] =
     (initial_sign_in plain_flags, [Call (post_request ''/api/auth/login''
        (JObj [(''username'', JStr ''x''), (''password'', JStr ''x''), (''captcha_id'', JStr ''''), (''captcha_answer'', JStr ''x'')])),
      SetUser (JObj [(''id'', JStr ''u1'')]), Refresh True, Toast ''auth.signedIn'', Navigate ''/app''])"
  by (simp add: onSubmit_def initial_sign_in_def plain_flags_def password_login_def apiRequest_def friendly_server_def
      api_result_def accept_login_def nullish_def mfa_demanded_def field_of_def obj_get_def truthy_def
      enter_console_def finishSignIn_def plain_browser_def toast_def refresh_def js_prop_def)

lemma sign_in_vouched_witness:
  "vouched friendly_server (snd (onSubmit plain_flags plain_browser friendly_server (\<lambda>_. ''x'') (initial_sign_in plain_flags) []))
     (JObj [(''id'', JStr ''u1'')])"
proof (rule sign_in_vouched)
  show "(sign_in_step plain_flags plain_browser friendly_server)\<^sup>*\<^sup>* (initial_sign_in plain_flags, [])
     (fst (onSubmit plain_flags plain_browser friendly_server (\<lambda>_. ''x'') (initial_sign_in plain_flags) []),
      snd (onSubmit plain_flags plain_browser friendly_server (\<lambda>_. ''x'') (initial_sign_in plain_flags) []))"
    unfolding prod.collapse by (rule r_into_rtranclp) (rule sign_in_step.submit)
  show "SetUser (JObj [(''id'', JStr ''u1'')]) \<in>
     set (snd (onSubmit plain_flags plain_browser friendly_server (\<lambda>_. ''x'') (initial_sign_in plain_flags) []))"
    by (simp add: plain_login)
qed

text \<open>C25 New recovery codes are shown before anything else: when the second factor returns codes, nobody is signed
  in yet, the page shows the codes and nothing else, and only the button under them signs that user in.\<close>

theorem recovery_codes_first:
  assumes "si_mfaChallenge st = Some ch" "truthy (field_of result ''user'')" "has_length (field_of result ''recovery_codes'')"
    and "fst (apiRequest ev (post_request ''/api/auth/mfa/complete-login'' (JObj [(''token'', mc_token ch),
      (''mfa_code'', JStr (form ''mfa_code'')), (''recovery_code'', JStr (form ''recovery_code''))])) l) = Inr result"
  shows "case onSubmit fl br ev form st l of (st', l') \<Rightarrow>
    (\<forall>u. SetUser u \<in> set l' \<longrightarrow> SetUser u \<in> set l) \<and> sign_in_controls fl br st' = [RecoveryControls] \<and>
    \<not> si_submitting st' \<and>
    continueAfterRecoveryCodes br st' l' = enter_console br ''auth.signedIn'' (field_of result ''user'') l'"
proof -
  have "\<not> nullish result" using assms(2) by (auto simp: nullish_def field_of_def truthy_def)
  then have "complete_mfa br ev form ch (st\<lparr>si_submitting := True\<rparr>) l =
     (Inr (st\<lparr>si_submitting := True, si_pendingRecoveryCodes := Some (field_of result ''user'', field_of result ''recovery_codes'')\<rparr>),
      l @ [Call (post_request ''/api/auth/mfa/complete-login'' (JObj [(''token'', mc_token ch),
      (''mfa_code'', JStr (form ''mfa_code'')), (''recovery_code'', JStr (form ''recovery_code''))]))])"
    unfolding complete_mfa_def using assms by (subst apiRequest_eq) simp
  then show ?thesis
    by (simp add: onSubmit_def assms(1) sign_in_controls_def continueAfterRecoveryCodes_def)
qed

lemma recovery_codes_first_witness:
  "case onSubmit plain_flags plain_browser
      \<lparr>ev_fetch = (\<lambda>l. Inr \<lparr>rs_ok = True, rs_status = 200, rs_status_text = ''OK'',
         rs_json = Some (JObj [(''user'', JStr ''u1''), (''recovery_codes'', JArr [JStr ''a''])])\<rparr>),
       ev_mfa = (\<lambda>_. ''''), ev_confirm = (\<lambda>_. True)\<rparr> (\<lambda>_. ''1'')
      ((initial_sign_in plain_flags)\<lparr>si_mfaChallenge := Some \<lparr>mc_token = JStr ''t'', mc_setupRequired = True,
          mc_secret = JNull, mc_otpauthURL = JNull\<rparr>\<rparr>) [] of (st', l') \<Rightarrow>
    (\<forall>u. SetUser u \<in> set l' \<longrightarrow> SetUser u \<in> set []) \<and> sign_in_controls plain_flags plain_browser st' = [RecoveryControls] \<and>
    \<not> si_submitting st' \<and>
    continueAfterRecoveryCodes plain_browser st' l' = enter_console plain_browser ''auth.signedIn''
      (field_of (JObj [(''user'', JStr ''u1''), (''recovery_codes'', JArr [JStr ''a''])]) ''user'') l'"
  by (rule recovery_codes_first) (simp_all add: apiRequest_def api_result_def js_prop_def field_of_def obj_get_def
      truthy_def has_length_def)

text \<open>Every keystroke in the user name fetches a new captcha: the question changes while the user types.\<close>

theorem captcha_per_keystroke:
  "sg_captchaRequired fl \<and> \<not> sg_setupRequired fl \<and> si_mfaChallenge st = None \<and> name \<noteq> si_username st \<Longrightarrow>
     calls (snd (change_username fl ev name st l)) = calls l @ [get_request ''/api/auth/captcha'']"
  unfolding change_username_def captcha_effect_def loadCaptcha_quiet_def loadCaptcha_def Let_def
  by (subst apiRequest_eq) (simp split: sum.split)

lemma captcha_per_keystroke_witness:
  "calls (snd (change_username (plain_flags\<lparr>sg_captchaRequired := True\<rparr>) friendly_server ''a'' (initial_sign_in plain_flags) [])) =
     calls [] @ [get_request ''/api/auth/captcha'']"
  by (rule captcha_per_keystroke) (simp add: plain_flags_def initial_sign_in_def)

end
