(* ===== verification/Workspace.thy ===== *)
theory Workspace
  imports Session Codec Paths
begin

text \<open>
  The session screen (\<open>WorkspaceView\<close> of \<open>src/frontend/src/features/workspace/workspace-view.tsx\<close>):
  what the bar offers, closing, reconnecting, command snippets, and the terminal's side of the SSH
  web socket. Numbers a session does not carry are 0 and texts are empty, as \<open>||\<close> treats them.
\<close>

section \<open>State\<close>

record shell =
  sh_workspace :: "workspace option"
  sh_status :: string
  sh_closing :: bool
  sh_reconnecting :: bool
  sh_snippet :: string

record viewport =
  vp_innerWidth :: rat
  vp_innerHeight :: rat

definition kind_name :: "workspace_kind \<Rightarrow> string" where
  "kind_name k = (case k of SSHKind \<Rightarrow> ''ssh'' | RDPKind \<Rightarrow> ''rdp'' | VNCKind \<Rightarrow> ''vnc'')"

definition open_workspace :: "workspace \<Rightarrow> shell" where
  "open_workspace wk = \<lparr>sh_workspace = Some wk, sh_status = or_str (wk_status wk) ''connecting'',
     sh_closing = False, sh_reconnecting = False, sh_snippet = ''''\<rparr>"

definition is_desktop :: "workspace \<Rightarrow> bool" where
  "is_desktop wk \<longleftrightarrow> wk_type wk = RDPKind \<or> wk_type wk = VNCKind"

definition clipboard_enabled :: "workspace \<Rightarrow> bool" where
  "clipboard_enabled wk \<longleftrightarrow> is_desktop wk \<and> cs_clipboard_enabled (wk_session wk) \<noteq> Some False"

definition sshFileTransferEnabled :: "workspace \<Rightarrow> bool" where
  "sshFileTransferEnabled wk \<longleftrightarrow> wk_type wk = SSHKind \<and> cs_file_transfer_enabled (wk_session wk) \<noteq> Some False"

definition fileTransferEnabled :: "workspace \<Rightarrow> bool" where
  "fileTransferEnabled wk \<longleftrightarrow>
     (if wk_type wk = RDPKind then cs_file_transfer_enabled (wk_session wk) \<noteq> Some False
      else wk_type wk = VNCKind \<and> cs_file_transfer_enabled (wk_session wk) = Some True)"

definition find_server :: "bootstrap_data \<Rightarrow> string \<Rightarrow> managed_server option" where
  "find_server data i = find (\<lambda>s. sv_id s = i) (bd_servers data)"

definition find_asset :: "bootstrap_data \<Rightarrow> string \<Rightarrow> platform_item option" where
  "find_asset data i =
     (case map_of (bd_platform data) ''assets'' of Some items \<Rightarrow> find (\<lambda>a. it_id a = i) items | None \<Rightarrow> None)"

definition target_name :: "bootstrap_data \<Rightarrow> workspace \<Rightarrow> string" where
  "target_name data wk =
     (let i = cs_server_id (wk_session wk)
      in or_str (case find_server data i of Some s \<Rightarrow> sv_name s | None \<Rightarrow> '''')
           (or_str (case find_asset data i of Some a \<Rightarrow> it_name a | None \<Rightarrow> '''') i))"

definition watermark_text :: "bootstrap_data \<Rightarrow> auth_user option \<Rightarrow> workspace \<Rightarrow> string" where
  "watermark_text data auth wk =
     (if cs_watermark_enabled (wk_session wk)
      then resolveWorkspaceWatermark (cs_watermark_text (wk_session wk))
             (or_str (case auth of Some u \<Rightarrow> au_username u | None \<Rightarrow> '''') (cs_user_id (wk_session wk)))
             (target_name data wk)
      else '''')"

section \<open>Snippets\<close>

definition first_text :: "platform_item \<Rightarrow> string list \<Rightarrow> string option" where
  "first_text snippet keys =
     (case find (\<lambda>k. case meta snippet k of JStr s \<Rightarrow> trim s \<noteq> '''' | _ \<Rightarrow> False) keys of
        Some k \<Rightarrow> Some (stringValue (meta snippet k)) | None \<Rightarrow> None)"

definition snippetCommand :: "platform_item option \<Rightarrow> string" where
  "snippetCommand snippet =
     (case snippet of None \<Rightarrow> ''''
      | Some s \<Rightarrow> (case first_text s [''command'', ''content'', ''value'', ''text''] of
                    Some t \<Rightarrow> t | None \<Rightarrow> it_description s))"

definition snippetAppendNewline :: "platform_item option \<Rightarrow> bool" where
  "snippetAppendNewline snippet =
     (case snippet of None \<Rightarrow> False
      | Some s \<Rightarrow>
          (case find (\<lambda>k. case meta s k of JBool _ \<Rightarrow> True | JStr _ \<Rightarrow> True | _ \<Rightarrow> False)
                  [''append_newline'', ''appendNewline'', ''auto_enter'', ''autoEnter'', ''execute''] of
             None \<Rightarrow> False
           | Some k \<Rightarrow> (case meta s k of JBool b \<Rightarrow> b
                 | JStr t \<Rightarrow> lower (trim t) \<in> set [''true'', ''1'', ''yes'', ''enabled''] | _ \<Rightarrow> False)))"

definition commandWithEnter :: "string \<Rightarrow> string" where
  "commandWithEnter command =
     (if ends_with command [CHR 0x0D] \<or> ends_with command [CHR 0x0A] then command else command @ [CHR 0x0D])"

definition selected_snippet :: "platform_item list \<Rightarrow> shell \<Rightarrow> platform_item option" where
  "selected_snippet snippets st =
     (case find (\<lambda>s. it_id s = sh_snippet st) snippets of Some s \<Rightarrow> Some s
      | None \<Rightarrow> (case snippets of s # _ \<Rightarrow> Some s | [] \<Rightarrow> None))"

definition insertCommandSnippet :: "platform_item list \<Rightarrow> shell \<Rightarrow> log \<Rightarrow> log" where
  "insertCommandSnippet snippets st l =
     (let s = selected_snippet snippets st; command = snippetCommand s
      in if command = '''' then l
         else let payload = (if snippetAppendNewline s then commandWithEnter command else command)
              in toast ''workspace.commandSnippetInserted''
                   (l @ [Emit ''openwebservermanager:ssh-snippet'' (JObj [(''command'', JStr payload)])]))"

section \<open>Leaving, closing, reconnecting\<close>

definition leave :: "shell \<Rightarrow> log \<Rightarrow> shell \<times> log" where
  "leave st l = (st\<lparr>sh_workspace := None\<rparr>, refresh True (l @ [SetWorkspace None]))"

definition already_gone :: "exn \<Rightarrow> bool" where
  "already_gone e = (case e of ApiError err \<Rightarrow> ae_status err = 404 \<or> ae_status err = 409 | OtherError _ \<Rightarrow> False)"

definition close_request :: "workspace \<Rightarrow> request" where
  "close_request wk = post_request (''/api/connections/'' @ cs_id (wk_session wk) @ ''/close'') (JObj [])"

definition close :: "env \<Rightarrow> shell \<Rightarrow> log \<Rightarrow> shell \<times> log" where
  "close ev st l =
     (case sh_workspace st of None \<Rightarrow> (st, l)
      | Some wk \<Rightarrow>
          if sh_closing st then (st, l)
          else case apiRequest ev (close_request wk) l of
                 (Inr _, l') \<Rightarrow> (st\<lparr>sh_workspace := None, sh_closing := False\<rparr>, refresh True (l' @ [SetWorkspace None]))
               | (Inl e, l') \<Rightarrow>
                   if already_gone e
                   then (st\<lparr>sh_workspace := None, sh_closing := False\<rparr>, refresh True (l' @ [SetWorkspace None]))
                   else (st\<lparr>sh_closing := False\<rparr>, report e l'))"

definition num_js :: "rat \<Rightarrow> jsval" where
  "num_js r = JNum (Fin r)"

definition or_num :: "rat \<Rightarrow> rat \<Rightarrow> rat" where
  "or_num r d = (if r = 0 then d else r)"

definition reconnect_payload :: "viewport \<Rightarrow> bool \<Rightarrow> workspace \<Rightarrow> js_object" where
  "reconnect_payload vp asset wk =
     (let s = wk_session wk;
          dimensions = (if wk_type wk = SSHKind
             then [(''cols'', num_js (or_num (cs_width s) 120)), (''rows'', num_js (or_num (cs_height s) 32)),
                   (''term'', JStr ''xterm-256color'')]
             else [(''width'', num_js (max 1024 (vp_innerWidth vp))), (''height'', num_js (max 680 (vp_innerHeight vp - 52))),
                   (''dpi'', num_js (or_num (cs_dpi s) 96)),
                   (''recording_enabled'', JBool (cs_recording_path s \<noteq> ''''))])
      in dimensions @ [(''credential_id'', JStr (cs_credential_id s)), (''reconnect_from'', JStr (cs_id s))]
           @ (if asset then [] else [(''server_id'', JStr (cs_server_id s))]))"

definition reconnect_request :: "bootstrap_data \<Rightarrow> viewport \<Rightarrow> workspace \<Rightarrow> string \<Rightarrow> request" where
  "reconnect_request data vp wk mfaCode =
     (let asset = find_asset data (cs_server_id (wk_session wk));
          payload = reconnect_payload vp (asset \<noteq> None) wk;
          endpoint = (case asset of
             Some a \<Rightarrow> ''/api/access/'' @ kind_name (wk_type wk) @ ''/'' @ it_id a
           | None \<Rightarrow> ''/api/connections/'' @ kind_name (wk_type wk))
      in post_request endpoint (JObj (if mfaCode \<noteq> '''' then payload @ [(''mfa_code'', JStr mfaCode)] else payload)))"

text \<open>The server's session, read field by field.\<close>

definition opt_bool :: "jsval \<Rightarrow> bool option" where
  "opt_bool v = (case v of JBool b \<Rightarrow> Some b | _ \<Rightarrow> None)"

definition session_of_json :: "jsval \<Rightarrow> conn_session" where
  "session_of_json v =
     (let ob = recordValue v; txt = (\<lambda>k. stringValue (obj_get ob k)); num = (\<lambda>k. numberValue (obj_get ob k))
      in \<lparr>cs_id = txt ''id'', cs_protocol = txt ''protocol'', cs_server_id = txt ''server_id'',
          cs_credential_id = txt ''credential_id'', cs_user_id = txt ''user_id'', cs_status = txt ''status'',
          cs_client_ip = txt ''client_ip'', cs_recording_path = txt ''recording_path'',
          cs_recording_size = num ''recording_size'', cs_started_at = txt ''started_at'', cs_width = num ''width'', cs_height = num ''height'',
          cs_dpi = num ''dpi'', cs_clipboard_enabled = opt_bool (obj_get ob ''clipboard_enabled''),
          cs_file_transfer_enabled = opt_bool (obj_get ob ''file_transfer_enabled''),
          cs_watermark_enabled = truthy (obj_get ob ''watermark_enabled''), cs_watermark_text = txt ''watermark_text''\<rparr>)"

definition reconnect :: "bootstrap_data \<Rightarrow> viewport \<Rightarrow> env \<Rightarrow> shell \<Rightarrow> log \<Rightarrow> shell \<times> log" where
  "reconnect data vp ev st l =
     (case sh_workspace st of None \<Rightarrow> (st, l)
      | Some wk \<Rightarrow>
          if sh_reconnecting st then (st, l)
          else case with_access_mfa ev (reconnect_request data vp wk) l of
                 (Inl e, l') \<Rightarrow> (st\<lparr>sh_reconnecting := False\<rparr>, report e l')
               | (Inr None, l') \<Rightarrow> (st\<lparr>sh_reconnecting := False\<rparr>, l')
               | (Inr (Some session), l') \<Rightarrow>
                   (st\<lparr>sh_status := ''connecting'',
                       sh_workspace := Some \<lparr>wk_type = wk_type wk, wk_session = session_of_json session, wk_status = ''connecting''\<rparr>,
                       sh_reconnecting := False\<rparr>,
                    toast ''workspace.reconnected'' (l' @ [SetWorkspace (Some session)])))"

section \<open>The bar\<close>

datatype shell_control =
  SnippetSelect bool | InsertSnippet bool | SSHFiles | SSHUpload | DesktopClipboard | DesktopFiles | DesktopUpload
| Reconnect bool | ReturnConsole bool | Disconnect bool

definition shell_controls :: "platform_item list \<Rightarrow> shell \<Rightarrow> shell_control list" where
  "shell_controls snippets st =
     (case sh_workspace st of None \<Rightarrow> []
      | Some wk \<Rightarrow>
          (if wk_type wk = SSHKind
           then [SnippetSelect (snippets \<noteq> []),
                 InsertSnippet (sh_status st = ''connected'' \<and> snippetCommand (selected_snippet snippets st) \<noteq> '''')]
                @ (if sshFileTransferEnabled wk then [SSHFiles, SSHUpload] else [])
           else [])
          @ (if is_desktop wk
             then (if clipboard_enabled wk then [DesktopClipboard] else [])
                  @ (if fileTransferEnabled wk then [DesktopFiles, DesktopUpload] else [])
             else [])
          @ (if sh_status st = ''disconnected''
             then [Reconnect (\<not> sh_reconnecting st), ReturnConsole (\<not> sh_reconnecting st)] else [])
          @ [Disconnect (\<not> sh_closing st \<and> sh_status st \<noteq> ''disconnected'')])"

section \<open>The terminal and its socket\<close>

text \<open>
  \<open>tm_open\<close> is \<open>socket.readyState === OPEN\<close>; \<open>tm_screen\<close> is what was written to the terminal and
  \<open>tm_sent\<close> what was sent to the server, both in order.
\<close>

record terminal =
  tm_open :: bool
  tm_status :: string
  tm_screen :: string
  tm_sent :: "jsval list"
  tm_decoder :: decoder

definition crlf :: string where
  "crlf = [CHR 0x0D, CHR 0x0A]"

definition nl_to_crlf :: "string \<Rightarrow> string" where
  "nl_to_crlf s = concat (map (\<lambda>c. if c = CHR 0x0A then crlf else [c]) s)"

definition term_write :: "string \<Rightarrow> terminal \<Rightarrow> terminal" where
  "term_write s tm = tm\<lparr>tm_screen := tm_screen tm @ s\<rparr>"

definition socket_send :: "jsval \<Rightarrow> terminal \<Rightarrow> terminal" where
  "socket_send v tm = (if tm_open tm then tm\<lparr>tm_sent := tm_sent tm @ [v]\<rparr> else tm)"

definition open_terminal :: "string \<Rightarrow> decoder \<Rightarrow> terminal" where
  "open_terminal status d = \<lparr>tm_open = False, tm_status = status, tm_screen = ''workspace.connecting'' @ crlf,
     tm_sent = [], tm_decoder = d\<rparr>"

definition sendStdin :: "string \<Rightarrow> terminal \<Rightarrow> terminal" where
  "sendStdin bytes = socket_send (JObj [(''type'', JStr ''stdin''), (''data'', JStr (textToBase64 bytes))])"

definition sendResize :: "rat \<Rightarrow> rat \<Rightarrow> terminal \<Rightarrow> terminal" where
  "sendResize cols rows = socket_send (JObj [(''type'', JStr ''resize''), (''cols'', num_js cols), (''rows'', num_js rows)])"

definition onSnippet :: "string \<Rightarrow> terminal \<Rightarrow> terminal" where
  "onSnippet command tm = (if command = '''' then tm else sendStdin command tm)"

definition socket_opened :: "rat \<Rightarrow> rat \<Rightarrow> terminal \<Rightarrow> terminal" where
  "socket_opened cols rows tm = sendResize cols rows (tm\<lparr>tm_open := True\<rparr>)"

text \<open>\<open>onmessage\<close>: a malformed payload throws out of the handler and changes nothing further.\<close>

definition message_text :: "jsval \<Rightarrow> string option" where
  "message_text v = (case v of JStr s \<Rightarrow> Some s | JUndefined \<Rightarrow> None | JNull \<Rightarrow> None | v' \<Rightarrow> Some (js_to_string v'))"

definition onmessage :: "jsval \<Rightarrow> terminal \<Rightarrow> terminal" where
  "onmessage msg tm =
     (let ob = recordValue msg; kind = obj_get ob ''type'';
          tm1 = (if kind = JStr ''ready'' then term_write (''workspace.connected'' @ crlf) (tm\<lparr>tm_status := ''connected''\<rparr>) else tm)
      in if kind = JStr ''stdout'' \<or> kind = JStr ''stderr''
           then (case base64ToText (tm_decoder tm1) (message_text (obj_get ob ''data'')) of
                   Some (text, d) \<Rightarrow> term_write (nl_to_crlf text) (tm1\<lparr>tm_decoder := d\<rparr>)
                 | None \<Rightarrow> tm1)
         else if kind = JStr ''error''
           then term_write (crlf @ ''[error] '' @ js_to_string (obj_get ob ''data'') @ crlf) tm1
         else tm1)"

definition socket_closed :: "terminal \<Rightarrow> terminal" where
  "socket_closed tm = term_write (crlf @ ''[workspace.disconnected]'' @ crlf) (tm\<lparr>tm_open := False, tm_status := ''disconnected''\<rparr>)"

inductive terminal_step :: "terminal \<Rightarrow> terminal \<Rightarrow> bool" where
  opened: "terminal_step tm (socket_opened c r tm)"
| resized: "terminal_step tm (sendResize c r tm)"
| typed: "terminal_step tm (sendStdin s tm)"
| snippet: "terminal_step tm (onSnippet s tm)"
| message: "terminal_step tm (onmessage m tm)"
| closed: "terminal_step tm (socket_closed tm)"

section \<open>What the terminal shows and sends\<close>

lemma nl_to_crlf_append: "nl_to_crlf (s @ t) = nl_to_crlf s @ nl_to_crlf t"
  by (simp add: nl_to_crlf_def)

definition stdout_message :: "string \<Rightarrow> jsval" where
  "stdout_message chunk = JObj [(''type'', JStr ''stdout''), (''data'', JStr (textToBase64 chunk))]"

lemma onmessage_stdout:
  "onmessage (stdout_message chunk) tm =
     (case decode_stream (tm_decoder tm) chunk of (text, d) \<Rightarrow> term_write (nl_to_crlf text) (tm\<lparr>tm_decoder := d\<rparr>))"
  by (simp add: onmessage_def stdout_message_def recordValue_def obj_get_def message_text_def base64ToText_def
      textToBase64_def opt_str_def atob_btoa split: prod.split)

lemma chunks_on_screen:
  "base64_chunks (tm_decoder tm) (map textToBase64 chunks) = Some (out, d) \<Longrightarrow>
   foldl (\<lambda>t c. onmessage (stdout_message c) t) tm chunks =
     tm\<lparr>tm_screen := tm_screen tm @ nl_to_crlf out, tm_decoder := d\<rparr>"
proof (induction chunks arbitrary: tm out)
  case Nil
  then show ?case by (simp add: nl_to_crlf_def)
next
  case (Cons c cs)
  obtain o1 d1 where c: "decode_stream (tm_decoder tm) c = (o1, d1)" by (cases "decode_stream (tm_decoder tm) c")
  then have "base64ToText (tm_decoder tm) (Some (textToBase64 c)) = Some (o1, d1)"
    by (simp add: base64ToText_def textToBase64_def opt_str_def atob_btoa)
  then obtain o2 where rest: "base64_chunks d1 (map textToBase64 cs) = Some (o2, d)" "out = o1 @ o2"
    using Cons.prems by (auto split: option.splits)
  let ?tm = "term_write (nl_to_crlf o1) (tm\<lparr>tm_decoder := d1\<rparr>)"
  have "foldl (\<lambda>t c. onmessage (stdout_message c) t) ?tm cs =
      ?tm\<lparr>tm_screen := tm_screen ?tm @ nl_to_crlf o2, tm_decoder := d\<rparr>"
    by (rule Cons.IH) (simp add: term_write_def rest(1))
  then show ?case using rest(2) by (simp add: onmessage_stdout c nl_to_crlf_append) (simp add: term_write_def)
qed

definition stdin_bytes :: "jsval \<Rightarrow> string option" where
  "stdin_bytes msg =
     (if obj_get (recordValue msg) ''type'' = JStr ''stdin''
      then (case obj_get (recordValue msg) ''data'' of JStr s \<Rightarrow> atob s | _ \<Rightarrow> None) else None)"

lemma sendStdin_open:
  "tm_open tm \<Longrightarrow> sendStdin s tm = tm\<lparr>tm_sent := tm_sent tm @ [JObj [(''type'', JStr ''stdin''), (''data'', JStr (textToBase64 s))]]\<rparr>"
  by (simp add: sendStdin_def socket_send_def)

lemma stdin_bytes_of: "stdin_bytes (JObj [(''type'', JStr ''stdin''), (''data'', JStr (textToBase64 s))]) = Some s"
  by (simp add: stdin_bytes_def recordValue_def obj_get_def textToBase64_def base64.dec_enc)

lemma typed_on_wire:
  "tm_open tm \<Longrightarrow> foldl (\<lambda>t s. sendStdin s t) tm inputs =
     tm\<lparr>tm_sent := tm_sent tm @ map (\<lambda>s. JObj [(''type'', JStr ''stdin''), (''data'', JStr (textToBase64 s))]) inputs\<rparr>"
  by (induction inputs arbitrary: tm) (simp_all add: sendStdin_open)

section \<open>Properties\<close>

text \<open>C13 Output that arrives while the page's decoder is between two characters is shown as it was written, line ends adapted, however
  the server cuts it into messages: the handlers of all the messages together append exactly the text and leave the
  decoder between two characters, so the next output is shown in full as well. Two conditions: the bytes are those of a text,
  and the first text the page ever decodes does not begin with a byte order mark, which is taken away. The decoder is one
  for all sessions of the page: after a session that ended inside a character the condition does not hold, and the next
  output is spoilt (\<open>terminal_decoder_not_reset\<close>).
\<close>

theorem terminal_shows_output:
  "dc_utf8 (tm_decoder tm) = u8_clean \<Longrightarrow> list_all scalar_value ns \<Longrightarrow> concat chunks = concat (map utf8 ns) \<Longrightarrow>
   dc_started (tm_decoder tm) \<or> \<not> starts_with (concat chunks) byte_order_mark \<Longrightarrow>
     foldl (\<lambda>t c. onmessage (stdout_message c) t) tm chunks =
       tm\<lparr>tm_screen := tm_screen tm @ nl_to_crlf (concat (map utf8 ns)),
          tm_decoder := \<lparr>dc_started = (dc_started (tm_decoder tm) \<or> concat chunks \<noteq> []), dc_utf8 = u8_clean\<rparr>\<rparr>"
  using base64_chunks_concat [of "tm_decoder tm" chunks "concat (map utf8 ns)" u8_clean]
  by (intro chunks_on_screen) (simp add: u8_text)

lemma terminal_shows_output_witness:
  "tm_screen (foldl (\<lambda>t c. onmessage (stdout_message c) t) (open_terminal ''connecting'' new_decoder)
     [[char_of (97::nat), char_of (226::nat)], [char_of (130::nat), char_of (172::nat)]]) =
   tm_screen (open_terminal ''connecting'' new_decoder) @ nl_to_crlf (concat (map utf8 [97, 8364]))"
  using terminal_shows_output [of "open_terminal ''connecting'' new_decoder" "[97, 8364]"
      "[[char_of (97::nat), char_of (226::nat)], [char_of (130::nat), char_of (172::nat)]]"]
  by (simp add: open_terminal_def new_decoder_def scalar_value_def utf8_def byte_order_mark_def char_of_def)

text \<open>What is typed reaches the server as it was typed, in order and without loss, while the socket is open;
  while it is not, nothing is sent, by typing, by resizing or by a snippet.\<close>

theorem terminal_input_exact:
  "(if tm_open tm
    then tm_sent tm @ map (\<lambda>s. JObj [(''type'', JStr ''stdin''), (''data'', JStr (textToBase64 s))]) inputs =
           tm_sent (foldl (\<lambda>t s. sendStdin s t) tm inputs) \<and>
         map stdin_bytes (drop (length (tm_sent tm)) (tm_sent (foldl (\<lambda>t s. sendStdin s t) tm inputs))) = map Some inputs
    else sendStdin s tm = tm \<and> sendResize c r tm = tm \<and> onSnippet s tm = tm)"
proof (cases "tm_open tm")
  case True
  then show ?thesis by (simp add: typed_on_wire stdin_bytes_of comp_def)
next
  case False
  then show ?thesis by (simp add: sendStdin_def sendResize_def onSnippet_def socket_send_def)
qed

text \<open>Reconnecting makes one request, or a second one with the code the user gave when the server asked for it,
  and either leaves the screen as it was or continues with a new session of the same protocol that is connecting.\<close>

theorem reconnect_outcomes:
  assumes "sh_workspace st = Some wk" "\<not> sh_reconnecting st"
  shows "\<exists>sent. calls (snd (reconnect data vp ev st l)) = calls l @ sent \<and>
     (sent = [reconnect_request data vp wk ''''] \<or>
      (\<exists>code. code \<noteq> '''' \<and> sent = [reconnect_request data vp wk '''', reconnect_request data vp wk code])) \<and>
     (fst (reconnect data vp ev st l) = st \<or>
      (\<exists>s. fst (reconnect data vp ev st l) = st\<lparr>sh_status := ''connecting'',
         sh_workspace := Some \<lparr>wk_type = wk_type wk, wk_session = s, wk_status = ''connecting''\<rparr>\<rparr>))"
proof -
  have keep: "st\<lparr>sh_reconnecting := False\<rparr> = st" using assms(2) by simp
  obtain r l' where w: "with_access_mfa ev (reconnect_request data vp wk) l = (r, l')" by fastforce
  have "\<exists>sent. calls l' = calls l @ sent \<and> (sent = [reconnect_request data vp wk ''''] \<or>
      (\<exists>code. code \<noteq> '''' \<and> sent = [reconnect_request data vp wk '''', reconnect_request data vp wk code]))"
    using w by (cases rule: with_access_mfa_cases [of ev "reconnect_request data vp wk" l]) auto
  moreover have "fst (reconnect data vp ev st l) = st \<or>
      (\<exists>s. fst (reconnect data vp ev st l) = st\<lparr>sh_status := ''connecting'',
         sh_workspace := Some \<lparr>wk_type = wk_type wk, wk_session = s, wk_status = ''connecting''\<rparr>\<rparr>)"
    using keep assms by (cases st) (auto simp: reconnect_def w split: sum.split option.split)
  moreover have "calls (snd (reconnect data vp ev st l)) = calls l'"
    using assms by (auto simp: reconnect_def w split: sum.split option.split)
  ultimately show ?thesis by auto
qed

lemma reconnect_outcomes_witness:
  "\<exists>sent. calls (snd (reconnect emptyBootstrap \<lparr>vp_innerWidth = 800, vp_innerHeight = 600\<rparr>
       \<lparr>ev_fetch = (\<lambda>_. Inl ''offline''), ev_mfa = (\<lambda>_. ''''), ev_confirm = (\<lambda>_. True)\<rparr>
       (open_workspace \<lparr>wk_type = SSHKind, wk_session = session_of_json JNull, wk_status = ''disconnected''\<rparr>) [])) = calls [] @ sent"
  using reconnect_outcomes [of "open_workspace \<lparr>wk_type = SSHKind, wk_session = session_of_json JNull, wk_status = ''disconnected''\<rparr>"
      "\<lparr>wk_type = SSHKind, wk_session = session_of_json JNull, wk_status = ''disconnected''\<rparr>"]
  by (auto simp: open_workspace_def)

text \<open>Closing asks the server once and leaves the session screen exactly when the server agreed or no longer
  knows the session; on any other failure the session stays, the error is shown and closing can be tried again.\<close>

theorem close_outcomes:
  assumes "sh_workspace st = Some wk" "\<not> sh_closing st"
  shows "calls (snd (close ev st l)) = calls l @ [close_request wk] \<and> \<not> sh_closing (fst (close ev st l)) \<and>
    (case fst (apiRequest ev (close_request wk) l) of
       Inr v \<Rightarrow> sh_workspace (fst (close ev st l)) = None
     | Inl e \<Rightarrow> if already_gone e then sh_workspace (fst (close ev st l)) = None
               else fst (close ev st l) = st \<and> ReportError e \<in> set (snd (close ev st l)))"
proof -
  have "st\<lparr>sh_closing := False\<rparr> = st" using assms(2) by simp
  then show ?thesis using assms unfolding close_def
    by (subst (1 2 3 4 5 6) apiRequest_eq) (auto simp: report_def split: sum.split)
qed

lemma close_outcomes_witness:
  "\<not> sh_closing (fst (close \<lparr>ev_fetch = (\<lambda>_. Inl ''offline''), ev_mfa = (\<lambda>_. ''''), ev_confirm = (\<lambda>_. True)\<rparr>
     (open_workspace \<lparr>wk_type = SSHKind, wk_session = session_of_json JNull, wk_status = ''''\<rparr>) []))"
  by (rule close_outcomes [THEN conjunct2, THEN conjunct1]) (simp_all add: open_workspace_def)

end
