(* ===== verification/Transfers.thy ===== *)
theory Transfers
  imports Effects
begin

text \<open>
  Requests the code sends by \<open>fetch\<close> itself, not by \<open>apiRequest\<close>: uploads of forms and downloads of files, in the session screen
  (\<open>features/workspace/workspace-view.tsx\<close>) and the sessions table (\<open>features/console/sessions-table.tsx\<close>).
\<close>

text \<open>A refusal becomes an \<open>ApiError\<close> that never asks for the set-up, whatever the payload says.\<close>

definition refusal :: "http_response \<Rightarrow> exn" where
  "refusal resp =
     (let payload = (case rs_json resp of Some v \<Rightarrow> v | None \<Rightarrow> JObj [])
      in case js_prop payload ''error'' of
           Inl e \<Rightarrow> e
         | Inr err \<Rightarrow> ApiError \<lparr>ae_message = (if truthy err then js_to_string err else rs_status_text resp),
             ae_status = rs_status resp, ae_setup_required = False, ae_data = payload\<rparr>)"

definition plain_fetch :: "env \<Rightarrow> (http_response \<Rightarrow> 'a) \<Rightarrow> request \<Rightarrow> log \<Rightarrow> (exn + 'a) \<times> log" where
  "plain_fetch ev body rq l =
     (let l' = l @ [Call rq]
      in (case ev_fetch ev l' of
            Inl msg \<Rightarrow> Inl (OtherError msg)
          | Inr resp \<Rightarrow> if rs_ok resp then Inr (body resp) else Inl (refusal resp), l'))"

definition transfer_form :: "string \<Rightarrow> jsval \<Rightarrow> string \<Rightarrow> request" where
  "transfer_form path file url =
     \<lparr>rq_method = ''POST'', rq_path = url, rq_body = Some (JObj [(''path'', JStr path), (''file'', file)]), rq_json_header = False\<rparr>"

lemma transfer_form_sel [simp]: "rq_method (transfer_form path file url) = ''POST''" "rq_path (transfer_form path file url) = url"
  by (simp_all add: transfer_form_def)

lemma plain_fetch_log [simp]: "snd (plain_fetch ev body rq l) = l @ [Call rq]"
  by (simp add: plain_fetch_def Let_def)

text \<open>The error of such a request says nothing of a set-up.\<close>

lemma plain_fetch_no_setup:
  "fst (plain_fetch ev body rq l) = Inl (ApiError err) \<Longrightarrow> ae_setup_required err = False"
  by (auto simp: plain_fetch_def refusal_def js_prop_def Let_def split: sum.splits if_splits jsval.splits)

end
