(* ===== verification/RemoteFiles.thy ===== *)
theory RemoteFiles
  imports Paths Transfers
begin

text \<open>
  The SFTP file manager of the SSH session (\<open>SSHWorkspace\<close> of
  \<open>src/frontend/src/features/workspace/workspace-view.tsx\<close>).

  Its handlers wait for the server while the user goes on. A handler is therefore split at each
  \<open>await\<close>: the part before it sends the request and leaves a task that holds what the rest of
  the handler still needs; \<open>resume\<close> is that rest, run on whatever the state has become when the
  answer arrives. The three handlers that hold a busy flag keep it until the new listing has come,
  the task \<open>AwaitRefetch\<close>. \<open>encode\<close> is \<open>encodeURIComponent\<close>.
\<close>

section \<open>State\<close>

record file_entry =
  fe_name :: string
  fe_path :: string
  fe_is_dir :: bool
  fe_size :: rat
  fe_modified :: string

datatype file_task =
    AwaitConfirm file_entry
  | AwaitDownload file_entry
  | AwaitDelete file_entry
  | AwaitMkdir
  | AwaitText file_entry
  | AwaitSave
  | AwaitAction string
  | AwaitUpload bool
  | AwaitRefetch file_task

record remote_files =
  rf_open :: bool
  rf_path :: string
  rf_listing :: "string option"
  rf_uploading :: bool
  rf_folderName :: string
  rf_newFileName :: string
  rf_editingPath :: string
  rf_editingContent :: string
  rf_savingFile :: bool
  rf_mode :: string
  rf_source :: string
  rf_destination :: string
  rf_overwrite :: bool
  rf_running :: bool
  rf_tasks :: "file_task list"
  rf_log :: log

definition initial_files :: remote_files where
  "initial_files = \<lparr>rf_open = False, rf_path = '''', rf_listing = None, rf_uploading = False, rf_folderName = '''',
     rf_newFileName = '''', rf_editingPath = '''', rf_editingContent = '''', rf_savingFile = False, rf_mode = '''',
     rf_source = '''', rf_destination = '''', rf_overwrite = False, rf_running = False, rf_tasks = [], rf_log = []\<rparr>"

definition currentPath :: "remote_files \<Rightarrow> string" where
  "currentPath st = or_str (opt_str (rf_listing st)) (rf_path st)"

definition sftp :: "string \<Rightarrow> string \<Rightarrow> string" where
  "sftp session rest = ''/api/connections/'' @ session @ ''/sftp'' @ rest"

definition awaiting :: "request \<Rightarrow> file_task \<Rightarrow> remote_files \<Rightarrow> remote_files" where
  "awaiting rq t st = st\<lparr>rf_log := rf_log st @ [Call rq], rf_tasks := rf_tasks st @ [t]\<rparr>"

definition files_effects :: "effect list \<Rightarrow> remote_files \<Rightarrow> remote_files" where
  "files_effects es st = st\<lparr>rf_log := rf_log st @ es\<rparr>"

text \<open>\<open>filesQuery.refetch()\<close>, as an effect.\<close>

abbreviation refetch :: effect where
  "refetch \<equiv> Emit ''refetch'' (JStr ''ssh-files'')"

section \<open>Handlers\<close>

definition openEntry :: "file_entry \<Rightarrow> remote_files \<Rightarrow> remote_files" where
  "openEntry entry st = (if fe_is_dir entry then st\<lparr>rf_path := fe_path entry, rf_listing := None\<rparr> else st)"

definition goParent :: "remote_files \<Rightarrow> remote_files" where
  "goParent st = st\<lparr>rf_path := parentRemotePath (currentPath st), rf_listing := None\<rparr>"

definition downloadEntry :: "(string \<Rightarrow> string) \<Rightarrow> string \<Rightarrow> file_entry \<Rightarrow> remote_files \<Rightarrow> remote_files" where
  "downloadEntry encode session entry =
     awaiting (get_request (sftp session (''/download?path='' @ encode (fe_path entry)))) (AwaitDownload entry)"

definition deleteEntry :: "file_entry \<Rightarrow> remote_files \<Rightarrow> remote_files" where
  "deleteEntry entry st =
     st\<lparr>rf_log := rf_log st @ [Confirm (''workspace.sshFileManager.deleteConfirmTitle '' @ fe_name entry)],
        rf_tasks := rf_tasks st @ [AwaitConfirm entry]\<rparr>"

definition delete_file_request :: "(string \<Rightarrow> string) \<Rightarrow> string \<Rightarrow> file_entry \<Rightarrow> request" where
  "delete_file_request encode session entry = mk_request ''DELETE'' (sftp session (''?path='' @ encode (fe_path entry))) None"


definition answer_delete :: "(string \<Rightarrow> string) \<Rightarrow> string \<Rightarrow> bool \<Rightarrow> file_entry \<Rightarrow> remote_files \<Rightarrow> remote_files" where
  "answer_delete encode session confirmed entry st =
     (if \<not> confirmed then st else awaiting (delete_file_request encode session entry) (AwaitDelete entry) st)"

definition createFolder :: "string \<Rightarrow> remote_files \<Rightarrow> remote_files" where
  "createFolder session st =
     (let name = trim (rf_folderName st)
      in if name = '''' then st
         else awaiting (post_request (sftp session ''/mkdir'') (JObj [(''path'', JStr (joinRemotePath (currentPath st) name))]))
                AwaitMkdir st)"

definition editEntry :: "(string \<Rightarrow> string) \<Rightarrow> string \<Rightarrow> file_entry \<Rightarrow> remote_files \<Rightarrow> remote_files" where
  "editEntry encode session entry st =
     (if fe_is_dir entry then st
      else awaiting (get_request (sftp session (''/download?path='' @ encode (fe_path entry)))) (AwaitText entry) st)"

definition beginNewTextFile :: "remote_files \<Rightarrow> remote_files" where
  "beginNewTextFile st =
     (let name = trim (rf_newFileName st)
      in if name = '''' then st
         else st\<lparr>rf_editingPath := joinRemotePath (currentPath st) name, rf_editingContent := '''',
                 rf_newFileName := '''', rf_mode := ''''\<rparr>)"

definition save_file_request :: "string \<Rightarrow> remote_files \<Rightarrow> request" where
  "save_file_request session st =
     post_request (sftp session ''/write'') (JObj [(''path'', JStr (rf_editingPath st)), (''content'', JStr (rf_editingContent st))])"

definition saveEditedFile :: "string \<Rightarrow> remote_files \<Rightarrow> remote_files" where
  "saveEditedFile session st =
     (if rf_editingPath st = '''' \<or> rf_savingFile st then st
      else awaiting (save_file_request session st) AwaitSave (st\<lparr>rf_savingFile := True\<rparr>))"

definition beginFileAction :: "string \<Rightarrow> file_entry \<Rightarrow> remote_files \<Rightarrow> remote_files" where
  "beginFileAction mode entry st =
     st\<lparr>rf_mode := mode, rf_source := fe_path entry,
        rf_destination := joinRemotePath (parentRemotePath (fe_path entry)) (suggestedRemoteName (fe_name entry) (fe_is_dir entry) mode),
        rf_overwrite := False, rf_editingPath := '''', rf_editingContent := ''''\<rparr>"

definition runFileAction :: "string \<Rightarrow> remote_files \<Rightarrow> remote_files" where
  "runFileAction session st =
     (if rf_mode st = '''' \<or> trim (rf_source st) = '''' \<or> trim (rf_destination st) = '''' \<or> rf_running st then st
      else awaiting (post_request (sftp session (CHR ''/'' # rf_mode st))
               (JObj [(''path'', JStr (rf_source st)), (''destination'', JStr (rf_destination st)), (''overwrite'', JBool (rf_overwrite st))]))
             (AwaitAction (rf_mode st)) (st\<lparr>rf_running := True\<rparr>))"

text \<open>\<open>uploadFile\<close> once a file was picked: the form is a value the request carries.\<close>

definition uploadFile :: "string \<Rightarrow> jsval \<Rightarrow> remote_files \<Rightarrow> remote_files" where
  "uploadFile session file st =
     awaiting (transfer_form (currentPath st) file (sftp session ''/upload'')) (AwaitUpload (rf_open st)) (st\<lparr>rf_uploading := True\<rparr>)"

text \<open>
  How the answer of a request becomes the result its handler goes on with: downloads, texts and uploads are fetches of their own,
  the others go through \<open>apiRequest\<close>. The text of a body is an argument.
\<close>

definition task_answer :: "(http_response \<Rightarrow> string) \<Rightarrow> file_task \<Rightarrow> http_response \<Rightarrow> exn + string" where
  "task_answer body t resp =
     (case t of
        AwaitDownload _ \<Rightarrow> if rs_ok resp then Inr '''' else Inl (refusal resp)
      | AwaitText _ \<Rightarrow> if rs_ok resp then Inr (body resp) else Inl (refusal resp)
      | AwaitUpload _ \<Rightarrow> if rs_ok resp then Inr '''' else Inl (refusal resp)
      | _ \<Rightarrow> map_sum id (\<lambda>_. '''') (api_result resp))"

section \<open>The rest of each handler\<close>

definition resume :: "file_task \<Rightarrow> exn + string \<Rightarrow> remote_files \<Rightarrow> remote_files" where
  "resume t answer st =
     (case (t, answer) of
        (AwaitConfirm entry, _) \<Rightarrow> st
      | (AwaitDownload entry, Inr _) \<Rightarrow> files_effects [Download (or_str (fe_name entry) ''download'')] st
      | (AwaitDelete entry, Inr _) \<Rightarrow> files_effects [Toast ''fileDeleted'', refetch] st
      | (AwaitMkdir, Inr _) \<Rightarrow> files_effects [Toast ''folderCreated'', refetch] (st\<lparr>rf_folderName := ''''\<rparr>)
      | (AwaitText entry, Inr content) \<Rightarrow>
          st\<lparr>rf_editingPath := fe_path entry, rf_editingContent := content, rf_mode := ''''\<rparr>
      | (AwaitSave, Inr _) \<Rightarrow>
          files_effects [Toast ''fileSaved'', refetch]
            (st\<lparr>rf_editingPath := '''', rf_editingContent := '''', rf_tasks := rf_tasks st @ [AwaitRefetch AwaitSave]\<rparr>)
      | (AwaitSave, Inl e) \<Rightarrow> files_effects [ReportError e] (st\<lparr>rf_savingFile := False\<rparr>)
      | (AwaitAction mode, Inr _) \<Rightarrow>
          files_effects [Toast (if mode = ''copy'' then ''fileCopied'' else ''fileRenamed''), refetch]
            (st\<lparr>rf_mode := '''', rf_source := '''', rf_destination := '''', rf_overwrite := False,
                rf_tasks := rf_tasks st @ [AwaitRefetch (AwaitAction mode)]\<rparr>)
      | (AwaitAction mode, Inl e) \<Rightarrow> files_effects [ReportError e] (st\<lparr>rf_running := False\<rparr>)
      | (AwaitUpload was_open, Inr _) \<Rightarrow>
          if was_open
          then files_effects [Toast ''fileUploaded'', refetch] (st\<lparr>rf_tasks := rf_tasks st @ [AwaitRefetch (AwaitUpload True)]\<rparr>)
          else files_effects [Toast ''fileUploaded''] (st\<lparr>rf_uploading := False\<rparr>)
      | (AwaitUpload was_open, Inl e) \<Rightarrow> files_effects [ReportError e] (st\<lparr>rf_uploading := False\<rparr>)
      | (AwaitRefetch AwaitSave, _) \<Rightarrow> st\<lparr>rf_savingFile := False\<rparr>
      | (AwaitRefetch (AwaitAction mode), _) \<Rightarrow> st\<lparr>rf_running := False\<rparr>
      | (AwaitRefetch (AwaitUpload was_open), _) \<Rightarrow> st\<lparr>rf_uploading := False\<rparr>
      | (AwaitRefetch _, _) \<Rightarrow> st
      | (_, Inl e) \<Rightarrow> files_effects [ReportError e] st)"

definition drop_task :: "file_task \<Rightarrow> remote_files \<Rightarrow> remote_files" where
  "drop_task t st = st\<lparr>rf_tasks := remove1 t (rf_tasks st)\<rparr>"

text \<open>The user's answer to the question of a deletion, as an event of the run: the handler does not write it.\<close>

definition answer_mark :: "bool \<Rightarrow> file_entry \<Rightarrow> effect" where
  "answer_mark yes entry = Emit (if yes then ''confirmed'' else ''declined'') (JStr (fe_path entry))"

text \<open>
  The events: buttons, inputs, the dialog's close, listings that arrive, and answers in any order. The log records what
  the user answered before the handler goes on, whatever the handler does with it.
\<close>

inductive files_step :: "(string \<Rightarrow> string) \<Rightarrow> string \<Rightarrow> remote_files \<Rightarrow> remote_files \<Rightarrow> bool"
  for encode session where
  open_entry: "files_step encode session st (openEntry e st)"
| parent: "currentPath st \<noteq> '''' \<and> currentPath st \<noteq> ''/'' \<Longrightarrow> files_step encode session st (goParent st)"
| download: "files_step encode session st (downloadEntry encode session e st)"
| delete: "files_step encode session st (deleteEntry e st)"
| answer: "AwaitConfirm e \<in> set (rf_tasks st) \<Longrightarrow>
    files_step encode session st
      (answer_delete encode session yes e (files_effects [answer_mark yes e] (drop_task (AwaitConfirm e) st)))"
| mkdir: "files_step encode session st (createFolder session st)"
| edit: "files_step encode session st (editEntry encode session e st)"
| new_file: "files_step encode session st (beginNewTextFile st)"
| save: "files_step encode session st (saveEditedFile session st)"
| action: "mode \<in> {''copy'', ''rename''} \<Longrightarrow> files_step encode session st (beginFileAction mode e st)"
| run: "files_step encode session st (runFileAction session st)"
| upload: "files_step encode session st (uploadFile session file st)"
| typed_content: "files_step encode session st (st\<lparr>rf_editingContent := c\<rparr>)"
| typed_folder: "files_step encode session st (st\<lparr>rf_folderName := c\<rparr>)"
| typed_file: "files_step encode session st (st\<lparr>rf_newFileName := c\<rparr>)"
| typed_source: "files_step encode session st (st\<lparr>rf_source := c\<rparr>)"
| typed_destination: "files_step encode session st (st\<lparr>rf_destination := c\<rparr>)"
| overwrite: "files_step encode session st (st\<lparr>rf_overwrite := b\<rparr>)"
| cancel_edit: "files_step encode session st (st\<lparr>rf_editingPath := '''', rf_editingContent := ''''\<rparr>)"
| cancel_action: "files_step encode session st (st\<lparr>rf_mode := ''''\<rparr>)"
| show_dialog: "files_step encode session st (st\<lparr>rf_open := b\<rparr>)"
| listed: "files_step encode session st (st\<lparr>rf_listing := p\<rparr>)"
| refresh: "files_step encode session st (files_effects [refetch] st)"
| answered: "t \<in> set (rf_tasks st) \<Longrightarrow> (\<And>e. t \<noteq> AwaitConfirm e) \<Longrightarrow>
    files_step encode session st (resume t r (drop_task t st))"

section \<open>Deletions are confirmed\<close>

definition not_delete :: "effect \<Rightarrow> bool" where
  "not_delete e = (case e of Call rq \<Rightarrow> rq_method rq \<noteq> ''DELETE'' | _ \<Rightarrow> True)"

definition asked_mark :: "file_entry \<Rightarrow> effect" where
  "asked_mark entry = Confirm (''workspace.sshFileManager.deleteConfirmTitle '' @ fe_name entry)"

definition deletes_confirmed :: "(string \<Rightarrow> string) \<Rightarrow> string \<Rightarrow> log \<Rightarrow> bool" where
  "deletes_confirmed encode session l \<longleftrightarrow>
     (\<forall>l1 rq l2. l = l1 @ Call rq # l2 \<longrightarrow> rq_method rq = ''DELETE'' \<longrightarrow>
        (\<exists>e l0. l1 = l0 @ [answer_mark True e] \<and> rq = delete_file_request encode session e \<and> asked_mark e \<in> set l0))"

lemma deletes_confirmed_quiet:
  assumes "deletes_confirmed encode session l" "list_all not_delete new"
  shows "deletes_confirmed encode session (l @ new)"
  unfolding deletes_confirmed_def
proof (intro allI impI)
  fix l1 rq l2 assume s: "l @ new = l1 @ Call rq # l2" and d: "rq_method rq = ''DELETE''"
  have "Call rq \<notin> set new" using assms(2) d by (auto simp: list_all_iff not_delete_def)
  moreover from s obtain us where us: "l = l1 @ us \<and> us @ new = Call rq # l2 \<or> l @ us = l1 \<and> new = us @ Call rq # l2"
    by (auto simp: append_eq_append_conv2)
  ultimately obtain m where "l = l1 @ Call rq # m" by (cases us) auto
  then show "\<exists>e l0. l1 = l0 @ [answer_mark True e] \<and> rq = delete_file_request encode session e \<and> asked_mark e \<in> set l0"
    using assms(1) d unfolding deletes_confirmed_def by blast
qed

lemma deletes_confirmed_delete:
  assumes "deletes_confirmed encode session l" "asked_mark e \<in> set l"
  shows "deletes_confirmed encode session (l @ [answer_mark True e, Call (delete_file_request encode session e)])"
  unfolding deletes_confirmed_def
proof (intro allI impI)
  fix l1 rq l2
  assume s: "l @ [answer_mark True e, Call (delete_file_request encode session e)] = l1 @ Call rq # l2"
    and d: "rq_method rq = ''DELETE''"
  show "\<exists>e l0. l1 = l0 @ [answer_mark True e] \<and> rq = delete_file_request encode session e \<and> asked_mark e \<in> set l0"
  proof (cases l2 rule: rev_cases)
    case Nil
    then show ?thesis using s assms(2) by auto
  next
    case (snoc m x)
    then have "l @ [answer_mark True e] = l1 @ Call rq # m" using s by simp
    moreover have "list_all not_delete [answer_mark True e]" by (simp add: not_delete_def answer_mark_def)
    ultimately show ?thesis
      using deletes_confirmed_quiet [OF assms(1)] d unfolding deletes_confirmed_def by metis
  qed
qed

definition is_action :: "file_task \<Rightarrow> bool" where
  "is_action t = (case t of AwaitAction _ \<Rightarrow> True | AwaitRefetch (AwaitAction _) \<Rightarrow> True | _ \<Rightarrow> False)"

definition is_save :: "file_task \<Rightarrow> bool" where
  "is_save t \<longleftrightarrow> t = AwaitSave \<or> t = AwaitRefetch AwaitSave"

text \<open>What every step keeps: one save and one copy or rename at a time, and the question of every deletion.\<close>

definition files_ok :: "(string \<Rightarrow> string) \<Rightarrow> string \<Rightarrow> remote_files \<Rightarrow> bool" where
  "files_ok encode session st \<longleftrightarrow>
     length (filter is_save (rf_tasks st)) = (if rf_savingFile st then 1 else 0) \<and>
     length (filter is_action (rf_tasks st)) = (if rf_running st then 1 else 0) \<and>
     (\<forall>e. AwaitConfirm e \<in> set (rf_tasks st) \<longrightarrow> asked_mark e \<in> set (rf_log st)) \<and>
     deletes_confirmed encode session (rf_log st)"

lemma filter_remove1_length:
  "length (filter P (remove1 t ts)) = length (filter P ts) - (if t \<in> set ts \<and> P t then 1 else 0)"
  by (simp add: filter_remove1 length_remove1)

lemma files_ok_same:
  "files_ok encode session st \<Longrightarrow> rf_tasks st' = rf_tasks st \<Longrightarrow> rf_log st' = rf_log st \<Longrightarrow>
   rf_savingFile st' = rf_savingFile st \<Longrightarrow> rf_running st' = rf_running st \<Longrightarrow> files_ok encode session st'"
  by (simp add: files_ok_def)

lemma files_ok_effects:
  "files_ok encode session st \<Longrightarrow> list_all not_delete es \<Longrightarrow> files_ok encode session (files_effects es st)"
  by (auto simp: files_ok_def files_effects_def intro: deletes_confirmed_quiet)

lemma files_ok_awaiting:
  "files_ok encode session st \<Longrightarrow> rq_method rq \<noteq> ''DELETE'' \<Longrightarrow> \<not> is_save t \<Longrightarrow> \<not> is_action t \<Longrightarrow>
   (\<And>e. t \<noteq> AwaitConfirm e) \<Longrightarrow> files_ok encode session (awaiting rq t st)"
  by (auto simp: files_ok_def awaiting_def not_delete_def intro!: deletes_confirmed_quiet)

lemma files_ok_drop:
  "files_ok encode session st \<Longrightarrow> \<not> is_save t \<Longrightarrow> \<not> is_action t \<Longrightarrow> files_ok encode session (drop_task t st)"
  by (auto simp: files_ok_def drop_task_def filter_remove1_length dest: notin_set_remove1 in_set_remove1 [THEN iffD1] split: if_splits)

lemma not_delete_simps [simp]:
  "not_delete (Call rq) \<longleftrightarrow> rq_method rq \<noteq> ''DELETE''" "not_delete (Toast m)" "not_delete (Emit c v)"
  "not_delete (ReportError e)" "not_delete (Download d)" "not_delete (Confirm q)"
  by (simp_all add: not_delete_def)

lemma is_action_simps [simp]:
  "is_action (AwaitAction m)" "\<not> is_action AwaitSave" "\<not> is_action (AwaitConfirm e)" "\<not> is_action (AwaitDownload e)"
  "\<not> is_action (AwaitDelete e)" "\<not> is_action AwaitMkdir" "\<not> is_action (AwaitText e)" "\<not> is_action (AwaitUpload b)"
  "is_action (AwaitRefetch (AwaitAction m))" "\<not> is_action (AwaitRefetch AwaitSave)" "\<not> is_action (AwaitRefetch (AwaitUpload b))"
  by (simp_all add: is_action_def)

lemma is_save_simps [simp]:
  "is_save AwaitSave" "is_save (AwaitRefetch AwaitSave)" "\<not> is_save (AwaitAction m)" "\<not> is_save (AwaitConfirm e)"
  "\<not> is_save (AwaitDownload e)" "\<not> is_save (AwaitDelete e)" "\<not> is_save AwaitMkdir" "\<not> is_save (AwaitText e)"
  "\<not> is_save (AwaitUpload b)" "\<not> is_save (AwaitRefetch (AwaitAction m))" "\<not> is_save (AwaitRefetch (AwaitUpload b))"
  by (simp_all add: is_save_def)

lemma files_ok_save: "files_ok encode session st \<Longrightarrow> files_ok encode session (saveEditedFile session st)"
  by (auto simp: saveEditedFile_def files_ok_def awaiting_def save_file_request_def intro!: deletes_confirmed_quiet)

lemma files_ok_run: "files_ok encode session st \<Longrightarrow> files_ok encode session (runFileAction session st)"
  by (auto simp: runFileAction_def files_ok_def awaiting_def intro!: deletes_confirmed_quiet)

lemma files_ok_ask: "files_ok encode session st \<Longrightarrow> files_ok encode session (deleteEntry e st)"
  by (auto simp: deleteEntry_def files_ok_def asked_mark_def intro!: deletes_confirmed_quiet)

lemma files_ok_answer:
  assumes "files_ok encode session st" "AwaitConfirm e \<in> set (rf_tasks st)"
  shows "files_ok encode session (answer_delete encode session yes e (files_effects [answer_mark yes e] (drop_task (AwaitConfirm e) st)))"
proof (cases yes)
  case False
  then show ?thesis using files_ok_effects [OF files_ok_drop [OF assms(1), of "AwaitConfirm e"], of "[answer_mark False e]"]
    by (simp add: answer_delete_def answer_mark_def)
next
  case True
  have "asked_mark e \<in> set (rf_log st)" "files_ok encode session (drop_task (AwaitConfirm e) st)"
    using assms files_ok_drop [OF assms(1), of "AwaitConfirm e"] by (auto simp: files_ok_def)
  then show ?thesis using True deletes_confirmed_delete [of encode session "rf_log st" e]
    by (auto simp: answer_delete_def files_ok_def awaiting_def files_effects_def drop_task_def)
qed

lemma files_ok_with_refetch:
  "files_ok encode session st \<Longrightarrow> files_ok encode session (st\<lparr>rf_tasks := rf_tasks st @ [AwaitRefetch (AwaitUpload b)]\<rparr>)"
  by (auto simp: files_ok_def)

lemma files_ok_resume_other:
  assumes d: "files_ok encode session (drop_task t st)" and "\<not> is_save t" "\<not> is_action t" "\<And>e. t \<noteq> AwaitConfirm e"
  shows "files_ok encode session (resume t r (drop_task t st))"
proof (cases t)
  case (AwaitRefetch u)
  then show ?thesis using assms(2,3) by (cases u) (auto simp: resume_def intro: files_ok_same [OF d])
next
  case (AwaitUpload b)
  then show ?thesis using d
    by (cases r; cases b) (auto simp: resume_def intro!: files_ok_effects files_ok_with_refetch intro: files_ok_same [OF d])
qed (use assms(2-4) files_ok_effects [OF d] in \<open>cases r;
    auto simp: resume_def intro: files_ok_same [OF d] files_ok_effects [OF files_ok_same [OF d]]\<close>)+

lemma files_ok_resume_save:
  assumes "files_ok encode session st" "t \<in> set (rf_tasks st)" "is_save t"
  shows "files_ok encode session (resume t r (drop_task t st))"
proof -
  have one: "rf_savingFile st"
    using assms by (auto simp: files_ok_def filter_empty_conv split: if_splits)
  have keep: "\<forall>e. AwaitConfirm e \<in> set (remove1 t (rf_tasks st)) \<longrightarrow> asked_mark e \<in> set (rf_log st)"
    "deletes_confirmed encode session (rf_log st)"
    using assms(1) by (auto simp: files_ok_def dest: notin_set_remove1)
  from assms(3) consider "t = AwaitSave" | "t = AwaitRefetch AwaitSave" by (auto simp: is_save_def)
  then show ?thesis
    by cases (cases r; use assms one keep in \<open>auto simp: resume_def files_ok_def files_effects_def drop_task_def
      filter_remove1_length intro!: deletes_confirmed_quiet\<close>)+
qed

lemma files_ok_resume_action:
  assumes "files_ok encode session st" "t \<in> set (rf_tasks st)" "is_action t"
  shows "files_ok encode session (resume t r (drop_task t st))"
proof -
  have one: "rf_running st"
    using assms by (auto simp: files_ok_def filter_empty_conv split: if_splits)
  have keep: "\<forall>e. AwaitConfirm e \<in> set (remove1 t (rf_tasks st)) \<longrightarrow> asked_mark e \<in> set (rf_log st)"
    "deletes_confirmed encode session (rf_log st)"
    using assms(1) by (auto simp: files_ok_def dest: notin_set_remove1)
  from assms(3) obtain m where "t = AwaitAction m \<or> t = AwaitRefetch (AwaitAction m)"
    by (auto simp: is_action_def split: file_task.splits)
  then show ?thesis
    by (elim disjE) (cases r; use assms one keep in \<open>auto simp: resume_def files_ok_def files_effects_def drop_task_def
      filter_remove1_length intro!: deletes_confirmed_quiet\<close>)+
qed

lemma files_ok_resume:
  assumes "files_ok encode session st" "t \<in> set (rf_tasks st)" "\<And>e. t \<noteq> AwaitConfirm e"
  shows "files_ok encode session (resume t r (drop_task t st))"
  using files_ok_resume_save [OF assms(1,2)] files_ok_resume_action [OF assms(1,2)]
    files_ok_resume_other [OF files_ok_drop [OF assms(1)] _ _ assms(3)] by blast

lemma files_ok_step:
  assumes "files_step encode session st st'" "files_ok encode session st"
  shows "files_ok encode session st'"
  using assms
proof (cases rule: files_step.cases)
  case (answer e yes)
  then show ?thesis using files_ok_answer assms(2) by blast
next
  case (upload f)
  have "files_ok encode session (st\<lparr>rf_uploading := True\<rparr>)" by (rule files_ok_same [OF assms(2)]) simp_all
  then show ?thesis unfolding upload uploadFile_def by (intro files_ok_awaiting) simp_all
next
  case (answered t r)
  then show ?thesis using files_ok_resume assms(2) by blast
next
  case refresh
  then show ?thesis using files_ok_effects [OF assms(2)] by simp
qed (auto simp: openEntry_def goParent_def downloadEntry_def createFolder_def editEntry_def beginNewTextFile_def
    beginFileAction_def Let_def
    intro: files_ok_same [OF assms(2)] files_ok_awaiting files_ok_save files_ok_run files_ok_ask)

lemma files_reachable_ok: "(files_step encode session)\<^sup>*\<^sup>* initial_files st \<Longrightarrow> files_ok encode session st"
proof (induction rule: rtranclp_induct)
  case base
  then show ?case by (simp add: files_ok_def initial_files_def deletes_confirmed_def)
next
  case (step st st')
  then show ?case by (blast intro: files_ok_step)
qed

section \<open>Properties\<close>

text \<open>C9 The SFTP file manager deletes no remote file without the user's word: in every run, whatever arrives in whatever order,
  each DELETE request is sent right after the user answered yes to the question for that very entry, and the question
  had been put. The answer is an event of the run, yes or no. (The drive of a desktop, a dialog of its own, deletes
  without a question: \<open>drive_delete_unconfirmed\<close>.)
\<close>
theorem remote_deletes_confirmed:
  "(files_step encode session)\<^sup>*\<^sup>* initial_files st \<Longrightarrow> rf_log st = l1 @ Call rq # l2 \<Longrightarrow> rq_method rq = ''DELETE'' \<Longrightarrow>
     \<exists>e l0. l1 = l0 @ [answer_mark True e] \<and> rq = delete_file_request encode session e \<and> asked_mark e \<in> set l0"
  using files_reachable_ok [of encode session st] unfolding files_ok_def deletes_confirmed_def by blast

lemma remote_deletes_confirmed_witness:
  "\<exists>e l0. [asked_mark \<lparr>fe_name = ''a'', fe_path = ''/a'', fe_is_dir = False, fe_size = 0, fe_modified = ''''\<rparr>,
      answer_mark True \<lparr>fe_name = ''a'', fe_path = ''/a'', fe_is_dir = False, fe_size = 0, fe_modified = ''''\<rparr>] = l0 @ [answer_mark True e] \<and>
     delete_file_request (\<lambda>s. s) ''s1'' \<lparr>fe_name = ''a'', fe_path = ''/a'', fe_is_dir = False, fe_size = 0, fe_modified = ''''\<rparr> =
       delete_file_request (\<lambda>s. s) ''s1'' e \<and> asked_mark e \<in> set l0"
proof (rule remote_deletes_confirmed)
  let ?e = "\<lparr>fe_name = ''a'', fe_path = ''/a'', fe_is_dir = False, fe_size = 0, fe_modified = ''''\<rparr> :: file_entry"
  let ?st = "answer_delete (\<lambda>s. s) ''s1'' True ?e
    (files_effects [answer_mark True ?e] (drop_task (AwaitConfirm ?e) (deleteEntry ?e initial_files)))"
  have "files_step (\<lambda>s. s) ''s1'' (deleteEntry ?e initial_files) ?st"
    by (rule files_step.answer) (simp add: deleteEntry_def)
  then show "(files_step (\<lambda>s. s) ''s1'')\<^sup>*\<^sup>* initial_files ?st"
    by (meson files_step.delete rtranclp.rtrancl_refl rtranclp.rtrancl_into_rtrancl)
  show "rf_log ?st = [asked_mark ?e, answer_mark True ?e] @ Call (delete_file_request (\<lambda>s. s) ''s1'' ?e) # []"
    by (simp add: answer_delete_def awaiting_def files_effects_def drop_task_def deleteEntry_def initial_files_def asked_mark_def)
  show "rq_method (delete_file_request (\<lambda>s. s) ''s1'' ?e) = ''DELETE''" by (simp add: delete_file_request_def)
qed

text \<open>C27 At most one save and at most one copy or rename is under way at any time, and the busy flags say exactly
  whether one is.\<close>

theorem file_operations_exclusive:
  "(files_step encode session)\<^sup>*\<^sup>* initial_files st \<Longrightarrow>
     length (filter is_save (rf_tasks st)) = (if rf_savingFile st then 1 else 0) \<and>
     length (filter is_action (rf_tasks st)) = (if rf_running st then 1 else 0)"
  using files_reachable_ok [of encode session st] by (simp add: files_ok_def)

lemma file_operations_exclusive_witness:
  "length (filter is_save (rf_tasks (createFolder ''s1'' initial_files))) =
     (if rf_savingFile (createFolder ''s1'' initial_files) then 1 else 0)"
  by (rule file_operations_exclusive [THEN conjunct1, of "\<lambda>s. s" "''s1''"]) (rule r_into_rtranclp, rule files_step.mkdir)

text \<open>A save that finishes late discards the file opened meanwhile: whatever is in the editor when the answer
  arrives is cleared, although only the text of the save was sent.\<close>

theorem late_save_discards_edit:
  "rf_editingPath a \<noteq> '''' \<and> \<not> rf_savingFile a \<Longrightarrow>
   (let saving = saveEditedFile session a;
        other = (resume (AwaitText b) (Inr old) saving)\<lparr>rf_editingContent := typed\<rparr>;
        after = resume AwaitSave (Inr ''ok'') other
    in rf_editingPath other = fe_path b \<and> rf_editingContent other = typed \<and>
       rf_editingPath after = '''' \<and> rf_editingContent after = '''' \<and>
       calls (rf_log after) = calls (rf_log a) @ [save_file_request session a])"
  by (simp add: Let_def saveEditedFile_def awaiting_def resume_def files_effects_def save_file_request_def)

lemma late_save_discards_edit_witness:
  "rf_editingContent (resume AwaitSave (Inr ''ok'') ((resume (AwaitText \<lparr>fe_name = ''b'', fe_path = ''/b'', fe_is_dir = False,
       fe_size = 0, fe_modified = ''''\<rparr>) (Inr ''x'') (saveEditedFile ''s1'' (initial_files\<lparr>rf_editingPath := ''/a''\<rparr>)))
       \<lparr>rf_editingContent := ''hours of work''\<rparr>)) = ''''"
proof -
  have start: "rf_editingPath (initial_files\<lparr>rf_editingPath := ''/a''\<rparr>) \<noteq> '''' \<and> \<not> rf_savingFile (initial_files\<lparr>rf_editingPath := ''/a''\<rparr>)"
    by (simp add: initial_files_def)
  show ?thesis by (rule late_save_discards_edit [unfolded Let_def, OF start, THEN conjunct2, THEN conjunct2, THEN conjunct2, THEN conjunct1])
qed

end
