(* ===== verification/Desktop.thy ===== *)
theory Desktop
  imports RemoteFiles Workspace
begin

text \<open>
  The remote desktop (\<open>RDPWorkspace\<close> of
  \<open>src/frontend/src/features/workspace/workspace-view.tsx\<close>): the keys held on the remote side,
  the clipboard in both directions, connection states, the session drive, and uploads.

  The Guacamole client is third-party. What the code relies on is a parameter: which keys a reset
  of its keyboard reports as released. Of its \<open>BlobWriter\<close> (vendored under
  \<open>src/frontend/public/vendor\<close>) the order of instructions is modelled: \<open>sendBlob\<close> starts an
  asynchronous read, \<open>sendEnd\<close> sends its instruction at once.
\<close>

section \<open>Keys\<close>

record keys =
  ks_pressed :: "nat list"
  ks_sent :: "(bool \<times> nat) list"

definition no_keys :: keys where
  "no_keys = \<lparr>ks_pressed = [], ks_sent = []\<rparr>"

definition sendKeyEvent :: "bool \<Rightarrow> nat \<Rightarrow> keys \<Rightarrow> keys" where
  "sendKeyEvent pressed keysym st = st\<lparr>ks_sent := ks_sent st @ [(pressed, keysym)]\<rparr>"

definition onkeydown :: "nat \<Rightarrow> keys \<Rightarrow> keys" where
  "onkeydown keysym st =
     sendKeyEvent True keysym (st\<lparr>ks_pressed := (if keysym \<in> set (ks_pressed st) then ks_pressed st else ks_pressed st @ [keysym])\<rparr>)"

definition onkeyup :: "nat \<Rightarrow> keys \<Rightarrow> keys" where
  "onkeyup keysym st = sendKeyEvent False keysym (st\<lparr>ks_pressed := remove1 keysym (ks_pressed st)\<rparr>)"

fun releaseKeysyms :: "nat list \<Rightarrow> keys \<Rightarrow> keys" where
  "releaseKeysyms [] st = st"
| "releaseKeysyms (k # ks) st =
     releaseKeysyms ks (if k \<in> set (ks_pressed st)
                        then sendKeyEvent False k (st\<lparr>ks_pressed := remove1 k (ks_pressed st)\<rparr>) else st)"

text \<open>\<open>released\<close>: the keys for which the client's \<open>keyboard.reset()\<close> calls \<open>onkeyup\<close>.\<close>

definition releaseInputState :: "nat list \<Rightarrow> keys \<Rightarrow> keys" where
  "releaseInputState released st =
     (let st1 = foldl (\<lambda>s k. onkeyup k s) st released in releaseKeysyms (ks_pressed st1) st1)"

record modifiers =
  mo_shift :: bool
  mo_ctrl :: bool
  mo_alt :: bool
  mo_meta :: bool

definition releaseStaleModifiers :: "modifiers \<Rightarrow> keys \<Rightarrow> keys" where
  "releaseStaleModifiers ev st =
     (let st1 = (if \<not> mo_shift ev then releaseKeysyms [65505, 65506] st else st);
          st2 = (if \<not> mo_ctrl ev then releaseKeysyms [65507, 65508] st1 else st1);
          st3 = (if \<not> mo_alt ev then releaseKeysyms [65513, 65514, 65027] st2 else st2)
      in if \<not> mo_meta ev then releaseKeysyms [65511, 65512, 65515, 65516] st3 else st3)"

inductive key_step :: "keys \<Rightarrow> keys \<Rightarrow> bool" where
  down: "key_step st (onkeydown k st)"
| up: "key_step st (onkeyup k st)"
| mouse: "key_step st (releaseStaleModifiers ev st)"
| blur: "key_step st (releaseInputState released st)"

section \<open>Connection and clipboard\<close>

record desktop =
  dk_status :: string
  dk_clipboardOpen :: bool
  dk_clipboardText :: string
  dk_remoteText :: string
  dk_remoteMime :: string
  dk_driveOpen :: bool
  dk_drivePath :: string
  dk_uploading :: bool

definition connect_size :: "viewport \<Rightarrow> rat \<times> rat" where
  "connect_size vp = (max 1024 (vp_innerWidth vp), max 680 (vp_innerHeight vp - 52))"

definition resize_size :: "viewport \<Rightarrow> rat \<times> rat" where
  "resize_size vp = (vp_innerWidth vp, vp_innerHeight vp - 52)"

definition onstatechange :: "nat \<Rightarrow> desktop \<Rightarrow> desktop" where
  "onstatechange code st =
     (let st1 = (if code = 3 then st\<lparr>dk_status := ''connected''\<rparr> else st)
      in if code = 5 then st1\<lparr>dk_status := ''disconnected''\<rparr> else st1)"

definition client_error :: "string option \<Rightarrow> desktop \<Rightarrow> log \<Rightarrow> desktop \<times> log" where
  "client_error message st l = (st\<lparr>dk_status := ''disconnected''\<rparr>, toast (or_str (opt_str message) ''workspace.rdpFailed'') l)"

definition onclipboard :: "bool \<Rightarrow> string \<Rightarrow> string list \<Rightarrow> desktop \<Rightarrow> log \<Rightarrow> desktop \<times> log" where
  "onclipboard enabled mimeType chunks st l =
     (if \<not> enabled then (st, l)
      else if lower mimeType \<noteq> '''' \<and> \<not> starts_with (lower mimeType) ''text/'' then (st, l)
      else (st\<lparr>dk_remoteText := concat chunks, dk_remoteMime := or_str mimeType ''text/plain'', dk_clipboardOpen := True\<rparr>,
            toast ''workspace.remoteClipboardReceived'' l))"

definition open_clipboard :: "bool \<Rightarrow> desktop \<Rightarrow> desktop" where
  "open_clipboard enabled st = (if enabled then st\<lparr>dk_clipboardText := '''', dk_clipboardOpen := True\<rparr> else st)"

definition sendClipboardText :: "bool \<Rightarrow> desktop \<Rightarrow> log \<Rightarrow> desktop \<times> log" where
  "sendClipboardText has_client st l =
     (if \<not> has_client then (st, toast ''workspace.rdpFailed'' l)
      else (st\<lparr>dk_clipboardOpen := False, dk_clipboardText := ''''\<rparr>,
            toast ''workspace.clipboardSent'' (l @ [Emit ''clipboard'' (JStr (dk_clipboardText st))])))"

definition copyRemoteClipboard :: "clipboard \<Rightarrow> desktop \<Rightarrow> log \<Rightarrow> log" where
  "copyRemoteClipboard cb st l =
     (if dk_remoteText st = '''' then l
      else case fst (copyTextToClipboard cb (dk_remoteText st) 0) of
             Inr _ \<Rightarrow> toast ''workspace.remoteClipboardCopied'' (l @ [CopyText (dk_remoteText st)])
           | Inl _ \<Rightarrow> toast ''workspace.remoteClipboardCopyFailed'' l)"

section \<open>The session drive\<close>

definition drive :: "string \<Rightarrow> string \<Rightarrow> string" where
  "drive session rest = ''/api/connections/'' @ session @ ''/drive'' @ rest"

definition openDriveEntry :: "file_entry \<Rightarrow> desktop \<Rightarrow> desktop" where
  "openDriveEntry entry st =
     (if \<not> fe_is_dir entry then st else st\<lparr>dk_drivePath := (if fe_path entry = ''.'' then '''' else fe_path entry)\<rparr>)"

definition goParentDriveFolder :: "desktop \<Rightarrow> desktop" where
  "goParentDriveFolder st =
     (let normalized = strip_right slash (strip_left slash (unix_slashes (dk_drivePath st)))
      in if normalized = '''' then st
         else st\<lparr>dk_drivePath := join ''/'' (butlast (filter (\<lambda>p. p \<noteq> '''') (split_on CHR ''/'' normalized)))\<rparr>)"

text \<open>The transfers of files are fetches of their own.\<close>

definition downloadDesktopDriveFile :: "(string \<Rightarrow> string) \<Rightarrow> string \<Rightarrow> env \<Rightarrow> file_entry \<Rightarrow> log \<Rightarrow> (exn + unit) \<times> log" where
  "downloadDesktopDriveFile encode session ev entry l =
     (case plain_fetch ev (\<lambda>_. ()) (get_request (drive session (''/download?path='' @ encode (fe_path entry)))) l of
        (Inr _, l') \<Rightarrow> (Inr (), l' @ [Download (or_str (fe_name entry) ''download'')])
      | (Inl e, l') \<Rightarrow> (Inl e, l'))"

definition uploadDesktopDriveFile :: "string \<Rightarrow> env \<Rightarrow> string \<Rightarrow> jsval \<Rightarrow> log \<Rightarrow> (exn + unit) \<times> log" where
  "uploadDesktopDriveFile session ev path file l = plain_fetch ev (\<lambda>_. ()) (transfer_form path file (drive session ''/upload'')) l"

definition downloadDriveEntry :: "(string \<Rightarrow> string) \<Rightarrow> string \<Rightarrow> env \<Rightarrow> file_entry \<Rightarrow> log \<Rightarrow> log" where
  "downloadDriveEntry encode session ev entry l =
     (case downloadDesktopDriveFile encode session ev entry l of (Inr _, l') \<Rightarrow> l' | (Inl e, l') \<Rightarrow> report e l')"

definition deleteDriveEntry :: "(string \<Rightarrow> string) \<Rightarrow> string \<Rightarrow> env \<Rightarrow> file_entry \<Rightarrow> log \<Rightarrow> log" where
  "deleteDriveEntry encode session ev entry l =
     (case apiRequest ev (mk_request ''DELETE'' (drive session (''?path='' @ encode (fe_path entry))) None) l of
        (Inr _, l') \<Rightarrow> toast ''workspace.fileDeleted'' l' @ [Emit ''refetch'' (JStr ''desktop-drive'')]
      | (Inl e, l') \<Rightarrow> report e l')"

definition uploadDriveFile :: "string \<Rightarrow> env \<Rightarrow> jsval \<Rightarrow> desktop \<Rightarrow> log \<Rightarrow> desktop \<times> log" where
  "uploadDriveFile session ev file st l =
     (case uploadDesktopDriveFile session ev (dk_drivePath st) file l of
        (Inr _, l') \<Rightarrow> (st\<lparr>dk_uploading := False\<rparr>, toast ''workspace.fileUploaded'' l' @ [Emit ''refetch'' (JStr ''desktop-drive'')])
      | (Inl e, l') \<Rightarrow> (st\<lparr>dk_uploading := False\<rparr>, report e l'))"

section \<open>Uploading over the desktop connection\<close>

datatype instruction = FileInstr string | BlobInstr nat nat | EndInstr

record blob_upload =
  bu_size :: nat
  bu_offset :: nat
  bu_reading :: bool
  bu_awaiting_ack :: bool
  bu_sent :: "instruction list"
  bu_toasts :: "string list"

definition blob_length :: nat where
  "blob_length = 6048"

text \<open>\<open>readNextChunk\<close> of the writer: completion, or the asynchronous read of a chunk.\<close>

definition read_next :: "blob_upload \<Rightarrow> blob_upload" where
  "read_next u =
     (if bu_offset u \<ge> bu_size u then u\<lparr>bu_toasts := bu_toasts u @ [''workspace.fileSent'']\<rparr> else u\<lparr>bu_reading := True\<rparr>)"

definition blob_read :: "blob_upload \<Rightarrow> blob_upload" where
  "blob_read u =
     u\<lparr>bu_reading := False, bu_awaiting_ack := True,
       bu_sent := bu_sent u @ [BlobInstr (bu_offset u) (min blob_length (bu_size u - bu_offset u))],
       bu_offset := bu_offset u + blob_length\<rparr>"

definition blob_ack :: "blob_upload \<Rightarrow> blob_upload" where
  "blob_ack u = read_next (u\<lparr>bu_awaiting_ack := False\<rparr>)"

definition onUpload :: "string \<Rightarrow> nat \<Rightarrow> blob_upload" where
  "onUpload name n =
     (let u = read_next \<lparr>bu_size = n, bu_offset = 0, bu_reading = False, bu_awaiting_ack = False,
                bu_sent = [FileInstr name], bu_toasts = []\<rparr>
      in u\<lparr>bu_sent := bu_sent u @ [EndInstr]\<rparr>)"

inductive upload_step :: "blob_upload \<Rightarrow> blob_upload \<Rightarrow> bool" where
  loaded: "bu_reading u \<Longrightarrow> upload_step u (blob_read u)"
| acked: "bu_awaiting_ack u \<Longrightarrow> upload_step u (blob_ack u)"

section \<open>What the remote side holds\<close>

definition held :: "(bool \<times> nat) list \<Rightarrow> nat set" where
  "held evs = foldl (\<lambda>H (down, k). if down then insert k H else H - {k}) {} evs"

lemma held_append [simp]: "held (evs @ [(d, k)]) = (if d then insert k (held evs) else held evs - {k})"
  by (simp add: held_def)

definition keys_ok :: "keys \<Rightarrow> bool" where
  "keys_ok st \<longleftrightarrow> distinct (ks_pressed st) \<and> held (ks_sent st) = set (ks_pressed st)"

lemma keys_ok_down: "keys_ok st \<Longrightarrow> keys_ok (onkeydown k st)"
  by (auto simp: keys_ok_def onkeydown_def sendKeyEvent_def)

lemma keys_ok_up: "keys_ok st \<Longrightarrow> keys_ok (onkeyup k st)"
  by (auto simp: keys_ok_def onkeyup_def sendKeyEvent_def)

lemma releaseKeysyms_spec:
  "keys_ok st \<Longrightarrow> keys_ok (releaseKeysyms ks st) \<and> set (ks_pressed (releaseKeysyms ks st)) = set (ks_pressed st) - set ks"
proof (induction ks arbitrary: st)
  case (Cons k ks)
  let ?st = "if k \<in> set (ks_pressed st) then sendKeyEvent False k (st\<lparr>ks_pressed := remove1 k (ks_pressed st)\<rparr>) else st"
  have "keys_ok ?st" "set (ks_pressed ?st) = set (ks_pressed st) - {k}"
    using Cons.prems by (auto simp: keys_ok_def sendKeyEvent_def)
  then show ?case using Cons.IH [of ?st] by auto
qed simp

lemma keys_ok_reset: "keys_ok st \<Longrightarrow> keys_ok (foldl (\<lambda>s k. onkeyup k s) st ks)"
  by (induction ks arbitrary: st) (simp_all add: keys_ok_up)

lemma releaseInputState_spec:
  "keys_ok st \<Longrightarrow> keys_ok (releaseInputState rs st) \<and> ks_pressed (releaseInputState rs st) = []"
proof -
  assume "keys_ok st"
  then have ok: "keys_ok (foldl (\<lambda>s k. onkeyup k s) st rs)" by (rule keys_ok_reset)
  then show ?thesis using releaseKeysyms_spec [OF ok] by (simp add: releaseInputState_def Let_def flip: set_empty)
qed

definition stale_keysyms :: "modifiers \<Rightarrow> nat set" where
  "stale_keysyms ev = (if mo_shift ev then {} else {65505, 65506}) \<union> (if mo_ctrl ev then {} else {65507, 65508}) \<union>
     (if mo_alt ev then {} else {65513, 65514, 65027}) \<union> (if mo_meta ev then {} else {65511, 65512, 65515, 65516})"

lemma releaseStaleModifiers_spec:
  assumes "keys_ok st"
  shows "keys_ok (releaseStaleModifiers ev st) \<and>
    set (ks_pressed (releaseStaleModifiers ev st)) = set (ks_pressed st) - stale_keysyms ev"
proof -
  have step: "keys_ok (if b then releaseKeysyms ks s else s) \<and>
      set (ks_pressed (if b then releaseKeysyms ks s else s)) = set (ks_pressed s) - (if b then set ks else {})"
    if "keys_ok s" for b ks s using releaseKeysyms_spec [OF that] that by simp
  let ?s1 = "if \<not> mo_shift ev then releaseKeysyms [65505, 65506] st else st"
  let ?s2 = "if \<not> mo_ctrl ev then releaseKeysyms [65507, 65508] ?s1 else ?s1"
  let ?s3 = "if \<not> mo_alt ev then releaseKeysyms [65513, 65514, 65027] ?s2 else ?s2"
  note s1 = step [OF assms, of "\<not> mo_shift ev" "[65505, 65506]"]
  note s2 = step [OF s1 [THEN conjunct1], of "\<not> mo_ctrl ev" "[65507, 65508]"]
  note s3 = step [OF s2 [THEN conjunct1], of "\<not> mo_alt ev" "[65513, 65514, 65027]"]
  note s4 = step [OF s3 [THEN conjunct1], of "\<not> mo_meta ev" "[65511, 65512, 65515, 65516]"]
  have e: "releaseStaleModifiers ev st = (if \<not> mo_meta ev then releaseKeysyms [65511, 65512, 65515, 65516] ?s3 else ?s3)"
    unfolding releaseStaleModifiers_def Let_def by (rule refl)
  have "set (ks_pressed (releaseStaleModifiers ev st)) = set (ks_pressed st)
      - (if \<not> mo_shift ev then set [65505, 65506] else {}) - (if \<not> mo_ctrl ev then set [65507, 65508] else {})
      - (if \<not> mo_alt ev then set [65513, 65514, 65027] else {}) - (if \<not> mo_meta ev then set [65511, 65512, 65515, 65516] else {})"
    unfolding e s4 [THEN conjunct2] s3 [THEN conjunct2] s2 [THEN conjunct2] s1 [THEN conjunct2] by (rule refl)
  then show ?thesis using s4 [THEN conjunct1] unfolding e [symmetric]
    by (auto simp: stale_keysyms_def)
qed

lemma key_reachable_ok: "key_step\<^sup>*\<^sup>* no_keys st \<Longrightarrow> keys_ok st"
proof (induction rule: rtranclp_induct)
  case base
  then show ?case by (simp add: keys_ok_def no_keys_def held_def)
next
  case (step st st')
  from step(2) show ?case
    using step.IH by cases (auto simp: keys_ok_down keys_ok_up releaseStaleModifiers_spec releaseInputState_spec)
qed

section \<open>Properties\<close>

text \<open>C12 No key sticks on the remote desktop: after any sequence of key presses, releases, clicks and losses of
  focus, the remote side holds exactly the keys the page counts as pressed, and losing the focus releases all
  of them, whatever the client's own reset reported.\<close>

theorem desktop_no_stuck_keys:
  "key_step\<^sup>*\<^sup>* no_keys st \<Longrightarrow>
     held (ks_sent st) = set (ks_pressed st) \<and> held (ks_sent (releaseInputState rs st)) = {}"
  using key_reachable_ok [of st] releaseInputState_spec [of st rs] by (auto simp: keys_ok_def)

lemma desktop_no_stuck_keys_witness:
  "held (ks_sent (releaseInputState [] (onkeydown 65507 no_keys))) = {}"
  by (rule desktop_no_stuck_keys [THEN conjunct2]) (rule r_into_rtranclp, rule key_step.down)

text \<open>A click releases the modifier keys that are no longer held down, which the page may have missed, and no
  other key.\<close>

theorem click_releases_stale_modifiers:
  "key_step\<^sup>*\<^sup>* no_keys st \<Longrightarrow>
     held (ks_sent (releaseStaleModifiers ev st)) = held (ks_sent st) - stale_keysyms ev"
  using key_reachable_ok [of st] releaseStaleModifiers_spec [of st ev] by (simp add: keys_ok_def)

lemma click_releases_stale_modifiers_witness:
  "held (ks_sent (releaseStaleModifiers \<lparr>mo_shift = False, mo_ctrl = True, mo_alt = False, mo_meta = False\<rparr>
      (onkeydown 65 (onkeydown 65505 no_keys)))) = {65}"
proof -
  have "key_step\<^sup>*\<^sup>* no_keys (onkeydown 65 (onkeydown 65505 no_keys))"
    by (meson key_step.down rtranclp.rtrancl_into_rtrancl rtranclp.rtrancl_refl)
  from click_releases_stale_modifiers [OF this] show ?thesis
    by (auto simp: onkeydown_def sendKeyEvent_def no_keys_def held_def stale_keysyms_def)
qed

text \<open>An upload to the remote desktop is ended before its first byte: the end of the stream is sent right after
  its announcement, so for a file that is not empty every piece of data comes after the end.\<close>

theorem desktop_upload_ends_first:
  "upload_step\<^sup>*\<^sup>* (onUpload name n) u \<Longrightarrow> take 2 (bu_sent u) = [FileInstr name, EndInstr] \<and>
     (n \<noteq> 0 \<longrightarrow> bu_toasts (onUpload name n) = [])"
proof -
  assume "upload_step\<^sup>*\<^sup>* (onUpload name n) u"
  then have "take 2 (bu_sent u) = [FileInstr name, EndInstr]"
  proof (induction rule: rtranclp_induct)
    case base
    then show ?case by (simp add: onUpload_def read_next_def)
  next
    case (step u u')
    then have "length (bu_sent u) \<ge> 2" by (metis length_Cons list.size(3) length_take min.cobounded1 numeral_2_eq_2)
    with step show ?case by (auto simp: upload_step.simps blob_read_def blob_ack_def read_next_def)
  qed
  then show ?thesis by (simp add: onUpload_def read_next_def)
qed

lemma desktop_upload_ends_first_witness:
  "take 2 (bu_sent (blob_read (onUpload ''a.txt'' 10))) = [FileInstr ''a.txt'', EndInstr]"
  by (rule desktop_upload_ends_first [THEN conjunct1])
    (rule r_into_rtranclp, rule upload_step.loaded, simp add: onUpload_def read_next_def)

text \<open>Deleting a file of the session drive asks nobody: unlike the SSH file manager, one press sends the request.\<close>

theorem drive_delete_unconfirmed:
  "deleteDriveEntry encode session ev entry l =
     l @ [Call (mk_request ''DELETE'' (drive session (''?path='' @ encode (fe_path entry))) None)]
       @ (case fst (apiRequest ev (mk_request ''DELETE'' (drive session (''?path='' @ encode (fe_path entry))) None) l) of
            Inr _ \<Rightarrow> [Toast ''workspace.fileDeleted'', Emit ''refetch'' (JStr ''desktop-drive'')] | Inl e \<Rightarrow> [ReportError e])"
  unfolding deleteDriveEntry_def by (subst apiRequest_eq) (simp add: toast_def report_def split: sum.split)

text \<open>When a transfer is refused because the server was reset, the provider does not open the set-up, as it does for every other request.\<close>

lemma plain_fetch_not_setup: "fst (plain_fetch ev body rq l) = Inl e \<Longrightarrow> \<not> is_setup_error e"
  using plain_fetch_no_setup[of ev body rq l] by (cases e) (auto simp: is_setup_error_def)

lemma drive_refusal_no_setup:
  shows "fst (downloadDesktopDriveFile encode session ev entry l) = Inl e \<Longrightarrow> \<not> is_setup_error e"
    and "fst (uploadDesktopDriveFile session ev path file l) = Inl e \<Longrightarrow> \<not> is_setup_error e"
proof -
  let ?fetched = "plain_fetch ev (\<lambda>_. ()) (get_request (drive session (''/download?path='' @ encode (fe_path entry)))) l"
  assume "fst (downloadDesktopDriveFile encode session ev entry l) = Inl e"
  then have "fst ?fetched = Inl e" unfolding downloadDesktopDriveFile_def by (cases ?fetched) (simp split: sum.splits)
  then show "\<not> is_setup_error e" by (rule plain_fetch_not_setup)
qed (simp add: uploadDesktopDriveFile_def plain_fetch_not_setup)

end
