(* ===== verification/DataTable.thy ===== *)
theory DataTable
  imports JsValue "HOL-Library.AList"
begin

text \<open>
  The generic table (\<open>components/data-table/data-table.tsx\<close>): the ids given to its columns, the
  search box, the selection handed back to the page, the column menu, the pagination bar and the cards
  that replace the rows on a narrow screen. The headless table it is built on is a library outside the
  repository: the functions of it the code calls are the fields of \<open>table_lib\<close>, and what its
  documentation promises of them is \<open>table_laws\<close>.
\<close>

section \<open>Column ids\<close>

datatype header = HText string | HNum jsnum | HNode

record column_def =
  cd_id :: "string option"
  cd_header :: header
  cd_enableHiding :: "bool option"

text \<open>
  The last replacement of \<open>stableColumnID\<close> drops every character that is no letter, number, underscore
  or hyphen. Characters beyond ASCII take several bytes; the parameter says which of those are
  letters or numbers, as the Unicode tables do.
\<close>

definition continuation :: "char \<Rightarrow> bool" where
  "continuation c \<longleftrightarrow> (128::nat) \<le> of_char c \<and> of_char c < (192::nat)"

declare length_dropWhile_le [termination_simp]

fun utf8_chars :: "string \<Rightarrow> string list" where
  "utf8_chars [] = []"
| "utf8_chars (c # s) = (c # takeWhile continuation s) # utf8_chars (dropWhile continuation s)"

definition word_char :: "(string \<Rightarrow> bool) \<Rightarrow> string \<Rightarrow> bool" where
  "word_char unicode u =
     (case u of
        [c] \<Rightarrow> if of_char c < (128::nat) then is_upper c \<or> is_lower c \<or> is_digit c \<or> c \<in> set ''_-'' else unicode u
      | _ \<Rightarrow> unicode u)"

definition column_n :: "nat \<Rightarrow> string" where
  "column_n index = ''column-'' @ show_nat (index + 1)"

definition stableColumnID :: "(string \<Rightarrow> bool) \<Rightarrow> string \<Rightarrow> nat \<Rightarrow> string" where
  "stableColumnID unicode v index =
     (let dashed = collapse is_ws CHR ''-'' (lower (trim v));
          normalized = concat (filter (word_char unicode) (utf8_chars dashed))
      in if normalized \<noteq> '''' then normalized else column_n index)"

definition header_base :: "header \<Rightarrow> string" where
  "header_base h = (case h of HText s \<Rightarrow> s | HNum n \<Rightarrow> num_text n | HNode \<Rightarrow> '''')"

definition with_stable_id :: "(string \<Rightarrow> bool) \<Rightarrow> nat \<Rightarrow> column_def \<Rightarrow> column_def" where
  "with_stable_id unicode index column =
     (let base = or_str (header_base (cd_header column)) (column_n index);
          i = (case cd_id column of Some u \<Rightarrow> if u \<noteq> '''' then u else stableColumnID unicode base index
               | None \<Rightarrow> stableColumnID unicode base index)
      in column\<lparr>cd_id := Some i,
                cd_enableHiding := (if i \<in> set [''actions'', ''__select''] then Some False else cd_enableHiding column)\<rparr>)"

definition withStableColumnIDs :: "(string \<Rightarrow> bool) \<Rightarrow> column_def list \<Rightarrow> column_def list" where
  "withStableColumnIDs unicode columns = map (\<lambda>(i, c). with_stable_id unicode i c) (enumerate 0 columns)"

definition selection_column :: column_def where
  "selection_column = \<lparr>cd_id = Some ''__select'', cd_header = HNode, cd_enableHiding = Some False\<rparr>"

definition table_columns :: "(string \<Rightarrow> bool) \<Rightarrow> bool \<Rightarrow> column_def list \<Rightarrow> column_def list" where
  "table_columns unicode selectable columns =
     (if selectable then [selection_column] else []) @ withStableColumnIDs unicode columns"

definition column_key :: "column_def \<Rightarrow> string" where
  "column_key c = (case cd_id c of Some i \<Rightarrow> i | None \<Rightarrow> '''')"

definition renderHeader :: "header \<Rightarrow> string \<Rightarrow> string" where
  "renderHeader h fallback = (case h of HText s \<Rightarrow> s | HNum n \<Rightarrow> num_text n | HNode \<Rightarrow> fallback)"

section \<open>The library underneath\<close>

type_synonym visibility = "string \<Rightarrow> bool option"
type_synonym flags = "(string \<times> bool) list"

record pagination =
  pageIndex :: nat
  pageSize :: nat

record 'a table_lib =
  lib_can_hide :: "column_def \<Rightarrow> bool"
  lib_visible :: "visibility \<Rightarrow> column_def \<Rightarrow> bool"
  lib_toggle :: "bool \<Rightarrow> column_def \<Rightarrow> visibility \<Rightarrow> visibility"
  lib_page :: "pagination \<Rightarrow> 'a list \<Rightarrow> 'a list"
  lib_page_count :: "pagination \<Rightarrow> nat \<Rightarrow> nat"
  lib_can_previous :: "pagination \<Rightarrow> nat \<Rightarrow> bool"
  lib_can_next :: "pagination \<Rightarrow> nat \<Rightarrow> bool"
  lib_previous :: "pagination \<Rightarrow> pagination"
  lib_next :: "pagination \<Rightarrow> pagination"
  lib_set_size :: "nat \<Rightarrow> pagination \<Rightarrow> pagination"
  lib_data_updated :: "pagination \<Rightarrow> pagination"
  lib_toggle_row :: "string \<Rightarrow> bool \<Rightarrow> flags \<Rightarrow> flags"
  lib_toggle_page :: "string list \<Rightarrow> bool \<Rightarrow> flags \<Rightarrow> flags"

definition selected_ids :: "flags \<Rightarrow> string set" where
  "selected_ids f = {i. map_of f i = Some True}"

text \<open>What the library's documentation says of the functions the component calls.\<close>

definition column_laws :: "'a table_lib \<Rightarrow> bool" where
  "column_laws lib \<longleftrightarrow>
     (\<forall>c. lib_can_hide lib c \<longleftrightarrow> cd_enableHiding c \<noteq> Some False) \<and>
     (\<forall>v c. lib_visible lib v c \<longleftrightarrow> v (column_key c) \<noteq> Some False) \<and>
     (\<forall>b c v. lib_can_hide lib c \<longrightarrow> lib_toggle lib b c v = v(column_key c \<mapsto> b))"

definition paging_laws :: "'a table_lib \<Rightarrow> bool" where
  "paging_laws lib \<longleftrightarrow>
     (\<forall>p rows. lib_page lib p rows = take (pageSize p) (drop (pageIndex p * pageSize p) rows)) \<and>
     (\<forall>p n. 0 < pageSize p \<longrightarrow> (\<forall>k. k < lib_page_count lib p n \<longleftrightarrow> k * pageSize p < n)) \<and>
     (\<forall>p n. lib_can_previous lib p n \<longleftrightarrow> 0 < pageIndex p) \<and>
     (\<forall>p n. lib_can_next lib p n \<longleftrightarrow> pageIndex p + 1 < lib_page_count lib p n) \<and>
     (\<forall>p. lib_previous lib p = p\<lparr>pageIndex := pageIndex p - 1\<rparr>) \<and>
     (\<forall>p. lib_next lib p = p\<lparr>pageIndex := pageIndex p + 1\<rparr>) \<and>
     (\<forall>p. lib_data_updated lib p = p\<lparr>pageIndex := 0\<rparr>) \<and>
     (\<forall>p s. 0 < s \<longrightarrow> lib_set_size lib s p = \<lparr>pageIndex = (pageIndex p * pageSize p) div s, pageSize = s\<rparr>)"

definition selection_laws :: "'a table_lib \<Rightarrow> bool" where
  "selection_laws lib \<longleftrightarrow>
     (\<forall>i b f. selected_ids (lib_toggle_row lib i b f) =
        (if b then insert i (selected_ids f) else selected_ids f - {i})) \<and>
     (\<forall>ids b f. selected_ids (lib_toggle_page lib ids b f) =
        (if b then selected_ids f \<union> set ids else selected_ids f - set ids)) \<and>
     (\<forall>i b f. distinct (map fst f) \<longrightarrow> distinct (map fst (lib_toggle_row lib i b f))) \<and>
     (\<forall>ids b f. distinct (map fst f) \<longrightarrow> distinct (map fst (lib_toggle_page lib ids b f)))"

section \<open>The component\<close>

text \<open>
  The props that stay the same over the life of a table are its configuration; the rows and the
  selected ids come from the page and change. \<open>query\<close>, \<open>columnVisibility\<close> and \<open>pagination\<close> are the
  component's own state.
\<close>

record 'a table_config =
  tc_columns :: "column_def list"
  tc_getSearchText :: "('a \<Rightarrow> string) option"
  tc_getRowID :: "('a \<Rightarrow> string) option"
  tc_selection :: bool

record 'a table_ui =
  tu_query :: string
  tu_visibility :: visibility
  tu_pagination :: pagination
  tu_data :: "'a list"
  tu_selected :: "string list"

definition table_start :: "'a list \<Rightarrow> string list \<Rightarrow> 'a table_ui" where
  "table_start data ids =
     \<lparr>tu_query = '''', tu_visibility = (\<lambda>_. None), tu_pagination = \<lparr>pageIndex = 0, pageSize = 20\<rparr>,
      tu_data = data, tu_selected = ids\<rparr>"

definition normalizedQuery :: "'a table_ui \<Rightarrow> string" where
  "normalizedQuery s = lower (trim (tu_query s))"

definition filteredData :: "'a table_config \<Rightarrow> 'a table_ui \<Rightarrow> 'a list" where
  "filteredData cfg s =
     (case tc_getSearchText cfg of
        None \<Rightarrow> tu_data s
      | Some search \<Rightarrow>
          if normalizedQuery s = '''' then tu_data s
          else filter (\<lambda>row. str_includes (lower (search row)) (normalizedQuery s)) (tu_data s))"

text \<open>
  \<open>rowSelection\<close> is the object made of the selected ids; without a selection the library is given none and
  no check box is on the screen.
\<close>

definition rowSelection :: "string list \<Rightarrow> flags" where
  "rowSelection ids = map (\<lambda>i. (i, True)) (rev (remdups (rev ids)))"

text \<open>\<open>Object.keys\<close>: keys that are array indices first, in numeric order, the others as inserted.\<close>

definition index_key :: "string \<Rightarrow> bool" where
  "index_key k \<longleftrightarrow> k \<noteq> '''' \<and> all_digits k \<and> (k = ''0'' \<or> hd k \<noteq> CHR ''0'') \<and> nat_of_digits k < 4294967295"

definition object_keys :: "flags \<Rightarrow> string list" where
  "object_keys f = sort_key nat_of_digits (filter index_key (map fst f)) @ filter (\<lambda>k. \<not> index_key k) (map fst f)"

definition onRowSelectionChange :: "(flags \<Rightarrow> flags) \<Rightarrow> string list \<Rightarrow> string list" where
  "onRowSelectionChange updater ids =
     (let next = updater (rowSelection ids)
      in filter (\<lambda>i. map_of next i = Some True) (object_keys next))"

definition hideable :: "'a table_lib \<Rightarrow> column_def list \<Rightarrow> column_def list" where
  "hideable lib columns = filter (lib_can_hide lib) columns"

definition visibleCount :: "'a table_lib \<Rightarrow> visibility \<Rightarrow> column_def list \<Rightarrow> nat" where
  "visibleCount lib v columns = length (filter (lib_visible lib v) columns)"

text \<open>The column menu: an entry is disabled while its column is the last one visible.\<close>

definition entry_disabled :: "'a table_lib \<Rightarrow> visibility \<Rightarrow> column_def list \<Rightarrow> column_def \<Rightarrow> bool" where
  "entry_disabled lib v columns c \<longleftrightarrow> lib_visible lib v c \<and> visibleCount lib v columns \<le> 1"

definition show_all :: "'a table_lib \<Rightarrow> column_def list \<Rightarrow> visibility \<Rightarrow> visibility" where
  "show_all lib columns v = fold (lib_toggle lib True) columns v"

definition press_entry :: "'a table_lib \<Rightarrow> column_def list \<Rightarrow> column_def \<Rightarrow> visibility \<Rightarrow> visibility" where
  "press_entry lib columns c v =
     (if entry_disabled lib v columns c then v else lib_toggle lib (\<not> lib_visible lib v c) c v)"

definition page_sizes :: "nat list" where
  "page_sizes = [10, 20, 50, 100]"

datatype 'a table_event =
    TypeQuery string
  | ResetFilter
  | ShowAllColumns
  | PressColumn nat
  | PreviousPage
  | NextPage
  | ChooseSize nat
  | CheckRow 'a bool
  | CheckPage bool
  | ClearSelection
  | NewData "'a list"

definition selectable :: "'a table_config \<Rightarrow> bool" where
  "selectable cfg \<longleftrightarrow> tc_selection cfg \<and> tc_getRowID cfg \<noteq> None"

definition row_id :: "'a table_config \<Rightarrow> 'a \<Rightarrow> string" where
  "row_id cfg row = (case tc_getRowID cfg of Some f \<Rightarrow> f row | None \<Rightarrow> '''')"

definition all_columns :: "(string \<Rightarrow> bool) \<Rightarrow> 'a table_config \<Rightarrow> column_def list" where
  "all_columns unicode cfg = table_columns unicode (selectable cfg) (tc_columns cfg)"

definition page_rows :: "'a table_lib \<Rightarrow> 'a table_config \<Rightarrow> 'a table_ui \<Rightarrow> 'a list" where
  "page_rows lib cfg s = lib_page lib (tu_pagination s) (filteredData cfg s)"

text \<open>The effect on \<open>[normalizedQuery, data.length]\<close> goes back to the first page.\<close>

definition reset_effect :: "'a table_ui \<Rightarrow> 'a table_ui \<Rightarrow> 'a table_ui" where
  "reset_effect old s =
     (if normalizedQuery old \<noteq> normalizedQuery s \<or> length (tu_data old) \<noteq> length (tu_data s)
      then s\<lparr>tu_pagination := (tu_pagination s)\<lparr>pageIndex := 0\<rparr>\<rparr> else s)"

definition table_use :: "'a table_lib \<Rightarrow> (string \<Rightarrow> bool) \<Rightarrow> 'a table_config \<Rightarrow> 'a table_event \<Rightarrow> 'a table_ui \<Rightarrow> 'a table_ui" where
  "table_use lib unicode cfg e s =
     (let columns = hideable lib (all_columns unicode cfg); p = tu_pagination s; n = length (filteredData cfg s);
          select = (\<lambda>u. if selectable cfg then s\<lparr>tu_selected := onRowSelectionChange u (tu_selected s)\<rparr> else s)
      in case e of
           TypeQuery q \<Rightarrow> reset_effect s (s\<lparr>tu_query := q\<rparr>)
         | ResetFilter \<Rightarrow> reset_effect s (s\<lparr>tu_query := ''''\<rparr>)
         | ShowAllColumns \<Rightarrow> s\<lparr>tu_visibility := show_all lib columns (tu_visibility s)\<rparr>
         | PressColumn i \<Rightarrow>
             if i < length columns then s\<lparr>tu_visibility := press_entry lib columns (columns ! i) (tu_visibility s)\<rparr> else s
         | PreviousPage \<Rightarrow> if lib_can_previous lib p n then s\<lparr>tu_pagination := lib_previous lib p\<rparr> else s
         | NextPage \<Rightarrow> if lib_can_next lib p n then s\<lparr>tu_pagination := lib_next lib p\<rparr> else s
         | ChooseSize k \<Rightarrow> if k \<in> set page_sizes then s\<lparr>tu_pagination := lib_set_size lib k p\<rparr> else s
         | CheckRow row b \<Rightarrow> select (lib_toggle_row lib (row_id cfg row) b)
         | CheckPage b \<Rightarrow> select (lib_toggle_page lib (map (row_id cfg) (page_rows lib cfg s)) b)
         | ClearSelection \<Rightarrow> s\<lparr>tu_selected := []\<rparr>
         | NewData rows \<Rightarrow> reset_effect s (s\<lparr>tu_data := rows, tu_pagination := lib_data_updated lib p\<rparr>))"

definition table_after :: "'a table_lib \<Rightarrow> (string \<Rightarrow> bool) \<Rightarrow> 'a table_config \<Rightarrow> 'a table_event list \<Rightarrow> 'a table_ui \<Rightarrow> 'a table_ui" where
  "table_after lib unicode cfg es s = fold (table_use lib unicode cfg) es s"

section \<open>What is on the screen\<close>

record page_label =
  pl_first :: nat
  pl_last :: nat
  pl_total :: nat
  pl_page :: nat
  pl_pages :: nat

definition TablePagination :: "'a table_lib \<Rightarrow> pagination \<Rightarrow> nat \<Rightarrow> page_label" where
  "TablePagination lib p totalRows =
     \<lparr>pl_first = (if totalRows = 0 then 0 else pageIndex p * pageSize p + 1),
      pl_last = min totalRows ((pageIndex p + 1) * pageSize p),
      pl_total = totalRows, pl_page = pageIndex p + 1, pl_pages = max (lib_page_count lib p totalRows) 1\<rparr>"

datatype 'a table_screen =
    EmptyTable
  | TableScreen (ts_search: bool) (ts_reset: bool) (ts_counts: "nat \<times> nat") (ts_menu: "(string \<times> bool \<times> bool) list")
      (ts_bulk: "nat option") (ts_rows: "('a list \<times> page_label) option")

definition table_view :: "'a table_lib \<Rightarrow> (string \<Rightarrow> bool) \<Rightarrow> 'a table_config \<Rightarrow> 'a table_ui \<Rightarrow> 'a table_screen" where
  "table_view lib unicode cfg s =
     (let rows = filteredData cfg s; columns = hideable lib (all_columns unicode cfg); v = tu_visibility s
      in if tu_data s = [] then EmptyTable
         else TableScreen (tc_getSearchText cfg \<noteq> None) (tu_query s \<noteq> '''') (length rows, length (tu_data s))
           (map (\<lambda>c. (renderHeader (cd_header c) (column_key c), lib_visible lib v c, entry_disabled lib v columns c)) columns)
           (if tc_selection cfg \<and> tu_selected s \<noteq> [] then Some (length (tu_selected s)) else None)
           (if rows = [] then None
            else Some (page_rows lib cfg s, TablePagination lib (tu_pagination s) (length rows))))"

text \<open>The card of a row: its cells are given by the ids of their columns.\<close>

record mobile_card =
  mc_select :: "string option"
  mc_actions :: "string option"
  mc_primary :: "string option"
  mc_details :: "string list"

definition MobileRowCard :: "string list \<Rightarrow> mobile_card" where
  "MobileRowCard cells =
     (let shown = filter (\<lambda>c. c \<noteq> ''__select'' \<and> c \<noteq> ''actions'') cells
      in \<lparr>mc_select = find (\<lambda>c. c = ''__select'') cells, mc_actions = find (\<lambda>c. c = ''actions'') cells,
          mc_primary = (case shown of [] \<Rightarrow> None | c # _ \<Rightarrow> Some c), mc_details = tl shown\<rparr>)"

section \<open>Paging\<close>

lemma paging_page:
  "paging_laws lib \<Longrightarrow> lib_page lib p rows = take (pageSize p) (drop (pageIndex p * pageSize p) rows)"
  by (simp add: paging_laws_def)

lemma paging_count:
  "paging_laws lib \<Longrightarrow> 0 < pageSize p \<Longrightarrow> k < lib_page_count lib p n \<longleftrightarrow> k * pageSize p < n"
  by (simp add: paging_laws_def)

text \<open>The pages of a list, one after the other, are the list: no row is lost or shown twice.\<close>

lemma pages_partition_aux:
  "concat (map (\<lambda>i. take k (drop (i * k) rows)) [0..<c]) = take (c * k) rows"
  by (induction c) (simp_all add: take_add [symmetric] add.commute)

lemma pages_partition:
  assumes laws: "paging_laws lib" and size: "0 < k"
  shows "concat (map (\<lambda>i. lib_page lib \<lparr>pageIndex = i, pageSize = k\<rparr> rows)
    [0..<lib_page_count lib \<lparr>pageIndex = j, pageSize = k\<rparr> (length rows)]) = rows"
proof -
  let ?c = "lib_page_count lib \<lparr>pageIndex = j, pageSize = k\<rparr> (length rows)"
  have "length rows \<le> ?c * k"
    using paging_count [OF laws, of "\<lparr>pageIndex = j, pageSize = k\<rparr>" ?c "length rows"] size by simp
  then show ?thesis by (simp add: paging_page [OF laws] pages_partition_aux)
qed

lemma paging_steps:
  assumes "paging_laws lib"
  shows "lib_can_previous lib p n \<longleftrightarrow> 0 < pageIndex p"
    "lib_can_next lib p n \<longleftrightarrow> pageIndex p + 1 < lib_page_count lib p n"
    "lib_previous lib p = p\<lparr>pageIndex := pageIndex p - 1\<rparr>" "lib_next lib p = p\<lparr>pageIndex := pageIndex p + 1\<rparr>"
    "lib_data_updated lib p = p\<lparr>pageIndex := 0\<rparr>"
    "0 < k \<Longrightarrow> lib_set_size lib k p = \<lparr>pageIndex = (pageIndex p * pageSize p) div k, pageSize = k\<rparr>"
  using assms by (simp_all add: paging_laws_def)


lemma table_uses [simp]:
  "table_use lib unicode cfg (TypeQuery q) s = reset_effect s (s\<lparr>tu_query := q\<rparr>)"
  "table_use lib unicode cfg ResetFilter s = reset_effect s (s\<lparr>tu_query := ''''\<rparr>)"
  "table_use lib unicode cfg ShowAllColumns s =
     s\<lparr>tu_visibility := show_all lib (hideable lib (all_columns unicode cfg)) (tu_visibility s)\<rparr>"
  "table_use lib unicode cfg ClearSelection s = s\<lparr>tu_selected := []\<rparr>"
  "table_use lib unicode cfg (NewData rows) s =
     reset_effect s (s\<lparr>tu_data := rows, tu_pagination := lib_data_updated lib (tu_pagination s)\<rparr>)"
  by (simp_all add: table_use_def Let_def)

definition page_ok :: "'a table_config \<Rightarrow> 'a table_ui \<Rightarrow> bool" where
  "page_ok cfg s \<longleftrightarrow> 0 < pageSize (tu_pagination s) \<and>
     (pageIndex (tu_pagination s) = 0 \<or>
      pageIndex (tu_pagination s) * pageSize (tu_pagination s) < length (filteredData cfg s))"

lemma filteredData_frame:
  "tu_data s' = tu_data s \<Longrightarrow> normalizedQuery s' = normalizedQuery s \<Longrightarrow> filteredData cfg s' = filteredData cfg s"
  by (simp add: filteredData_def split: option.splits)

lemma normalizedQuery_simps [simp]:
  "normalizedQuery (s\<lparr>tu_visibility := v\<rparr>) = normalizedQuery s"
  "normalizedQuery (s\<lparr>tu_pagination := p\<rparr>) = normalizedQuery s"
  "normalizedQuery (s\<lparr>tu_selected := ids\<rparr>) = normalizedQuery s"
  "normalizedQuery (s\<lparr>tu_data := rows\<rparr>) = normalizedQuery s"
  by (simp_all add: normalizedQuery_def)

lemma filteredData_simps [simp]:
  "filteredData cfg (s\<lparr>tu_visibility := v\<rparr>) = filteredData cfg s"
  "filteredData cfg (s\<lparr>tu_pagination := p\<rparr>) = filteredData cfg s"
  "filteredData cfg (s\<lparr>tu_selected := ids\<rparr>) = filteredData cfg s"
  by (rule filteredData_frame; simp)+

lemma page_ok_same:
  "filteredData cfg s' = filteredData cfg s \<Longrightarrow> tu_pagination s' = tu_pagination s \<Longrightarrow> page_ok cfg s \<Longrightarrow> page_ok cfg s'"
  by (simp add: page_ok_def)

lemma page_ok_query: "page_ok cfg s \<Longrightarrow> page_ok cfg (reset_effect s (s\<lparr>tu_query := q\<rparr>))"
proof (cases "normalizedQuery (s\<lparr>tu_query := q\<rparr>) = normalizedQuery s")
  case True
  assume ok: "page_ok cfg s"
  have "filteredData cfg (s\<lparr>tu_query := q\<rparr>) = filteredData cfg s"
    by (rule filteredData_frame) (use True in simp_all)
  with ok True show ?thesis by (simp add: reset_effect_def page_ok_def)
next
  case False
  assume "page_ok cfg s"
  then show ?thesis using False by (simp add: reset_effect_def page_ok_def)
qed

lemma page_ok_event:
  assumes laws: "paging_laws lib" and ok: "page_ok cfg s"
  shows "page_ok cfg (table_use lib unicode cfg e s)"
proof (cases e)
  case (TypeQuery q)
  then show ?thesis using page_ok_query [OF ok] by simp
next
  case ResetFilter
  then show ?thesis using page_ok_query [OF ok] by simp
next
  case PreviousPage
  have "(pageIndex (tu_pagination s) - Suc 0) * pageSize (tu_pagination s) \<le> pageIndex (tu_pagination s) * pageSize (tu_pagination s)"
    by (rule mult_le_mono1) simp
  then have "0 < pageIndex (tu_pagination s) \<Longrightarrow>
      (pageIndex (tu_pagination s) - Suc 0) * pageSize (tu_pagination s) < length (filteredData cfg s)"
    using ok unfolding page_ok_def by linarith
  with ok PreviousPage show ?thesis
    by (auto simp: table_use_def Let_def page_ok_def paging_steps [OF laws])
next
  case NextPage
  with ok paging_count [OF laws] show ?thesis
    by (auto simp: table_use_def Let_def page_ok_def paging_steps [OF laws])
next
  case (ChooseSize k)
  have "(pageIndex (tu_pagination s) * pageSize (tu_pagination s)) div k * k
      \<le> pageIndex (tu_pagination s) * pageSize (tu_pagination s)"
    by simp
  with ok ChooseSize show ?thesis
    unfolding table_use_def Let_def page_ok_def
    by (cases "k \<in> set page_sizes") (auto simp: paging_steps [OF laws] page_sizes_def)
next
  case (NewData rows)
  with ok show ?thesis
    by (auto simp: page_ok_def paging_steps [OF laws] reset_effect_def)
qed (use ok in \<open>auto simp: table_use_def page_ok_def Let_def\<close>)

lemma page_ok_after: "paging_laws lib \<Longrightarrow> page_ok cfg s \<Longrightarrow> page_ok cfg (table_after lib unicode cfg es s)"
  unfolding table_after_def by (induction es arbitrary: s) (simp_all add: page_ok_event)

lemma page_ok_start [simp]: "page_ok cfg (table_start data ids)"
  by (simp add: page_ok_def table_start_def)

section \<open>Columns\<close>

definition some_visible :: "'a table_lib \<Rightarrow> column_def list \<Rightarrow> visibility \<Rightarrow> bool" where
  "some_visible lib columns v \<longleftrightarrow> list_ex (lib_visible lib v) columns"

lemma visible_toggle:
  assumes "column_laws lib" "lib_can_hide lib c"
  shows "lib_visible lib (lib_toggle lib b c v) d \<longleftrightarrow> (if column_key d = column_key c then b else lib_visible lib v d)"
  using assms by (auto simp: column_laws_def)

lemma visible_show_all:
  assumes "column_laws lib"
  shows "list_all (lib_can_hide lib) columns \<Longrightarrow> c \<in> set columns \<or> lib_visible lib v c \<Longrightarrow> lib_visible lib (show_all lib columns v) c"
  unfolding show_all_def
  by (induction columns arbitrary: v) (auto simp: visible_toggle [OF assms])

lemma hideable_can_hide [simp]: "list_all (lib_can_hide lib) (hideable lib columns)"
  by (simp add: hideable_def list_all_iff)

lemma distinct_hideable: "distinct (map column_key columns) \<Longrightarrow> distinct (map column_key (hideable lib columns))"
  by (simp add: hideable_def distinct_map_filter)

lemma some_visible_press:
  assumes laws: "column_laws lib" and hide: "list_all (lib_can_hide lib) columns"
    and keys: "distinct (map column_key columns)" and c: "c \<in> set columns" and vis: "some_visible lib columns v"
  shows "some_visible lib columns (press_entry lib columns c v)"
proof (cases "lib_visible lib v c \<and> \<not> entry_disabled lib v columns c")
  case True
  then have "1 < length (filter (lib_visible lib v) columns)"
    by (auto simp: entry_disabled_def visibleCount_def)
  moreover have "distinct (filter (lib_visible lib v) columns)"
    using keys by (simp add: distinct_map)
  ultimately have "1 < card (set (filter (lib_visible lib v) columns))"
    by (metis distinct_card)
  then have "\<not> set (filter (lib_visible lib v) columns) \<subseteq> {c}"
    using card_mono [of "{c}" "set (filter (lib_visible lib v) columns)"] by auto
  then obtain d where d: "d \<in> set columns" "lib_visible lib v d" "d \<noteq> c"
    by auto
  then have "column_key d \<noteq> column_key c"
    using keys c by (auto simp: distinct_map dest: inj_onD)
  with d True hide c show ?thesis
    by (auto simp: some_visible_def press_entry_def list_ex_iff list_all_iff visible_toggle [OF laws])
next
  case False
  with vis hide c show ?thesis
    by (auto simp: some_visible_def press_entry_def entry_disabled_def list_ex_iff list_all_iff visible_toggle [OF laws])
qed

lemma reset_effect_simps [simp]:
  "tu_visibility (reset_effect s s') = tu_visibility s'" "tu_selected (reset_effect s s') = tu_selected s'"
  "tu_data (reset_effect s s') = tu_data s'" "tu_query (reset_effect s s') = tu_query s'"
  by (simp_all add: reset_effect_def)

lemma some_visible_event:
  assumes "column_laws lib" "columns = hideable lib (all_columns unicode cfg)" "distinct (map column_key columns)"
    "some_visible lib columns (tu_visibility s)"
  shows "some_visible lib columns (tu_visibility (table_use lib unicode cfg e s))"
proof (cases e)
  case ShowAllColumns
  have "list_all (lib_can_hide lib) columns" using assms(2) by simp
  with ShowAllColumns assms show ?thesis
    by (auto simp: some_visible_def list_ex_iff intro!: visible_show_all)
next
  case (PressColumn i)
  then show ?thesis
    using assms some_visible_press [of lib columns "columns ! i" "tu_visibility s"]
    by (auto simp: table_use_def Let_def)
qed (use assms in \<open>auto simp: table_use_def Let_def\<close>)

section \<open>The selection\<close>

lemma set_rowSelection: "selected_ids (rowSelection ids) = set ids"
  by (auto simp: selected_ids_def rowSelection_def map_of_map_restrict restrict_map_def split: if_splits)

lemma rowSelection_distinct [simp]: "distinct (map fst (rowSelection ids))"
  by (simp add: rowSelection_def comp_def)

lemma set_object_keys [simp]: "set (object_keys f) = fst ` set f"
  by (auto simp: object_keys_def)

lemma set_true_keys: "set (filter (\<lambda>i. map_of f i = Some True) (object_keys f)) = selected_ids f"
proof -
  have "i \<in> fst ` set f" if "map_of f i = Some True" for i
    using map_of_SomeD [OF that] by force
  then show ?thesis by (auto simp: selected_ids_def)
qed

lemma set_onRowSelectionChange: "set (onRowSelectionChange updater ids) = selected_ids (updater (rowSelection ids))"
  by (simp only: onRowSelectionChange_def Let_def set_true_keys)

lemma onRowSelectionChange_distinct:
  assumes "distinct (map fst (updater (rowSelection ids)))"
  shows "distinct (onRowSelectionChange updater ids)"
proof -
  have "distinct (object_keys (updater (rowSelection ids)))"
    using assms by (auto simp: object_keys_def distinct_sort)
  then show ?thesis by (simp add: onRowSelectionChange_def Let_def)
qed

lemma selection_event:
  assumes laws: "selection_laws lib" and sel: "selectable cfg"
  shows "set (tu_selected (table_use lib unicode cfg (CheckRow row b) s)) =
      (if b then insert (row_id cfg row) (set (tu_selected s)) else set (tu_selected s) - {row_id cfg row})"
    "set (tu_selected (table_use lib unicode cfg (CheckPage b) s)) =
      (if b then set (tu_selected s) \<union> row_id cfg ` set (page_rows lib cfg s)
       else set (tu_selected s) - row_id cfg ` set (page_rows lib cfg s))"
    "distinct (tu_selected (table_use lib unicode cfg (CheckRow row b) s))"
    "distinct (tu_selected (table_use lib unicode cfg (CheckPage b) s))"
  using laws sel
  by (simp_all add: table_use_def Let_def set_onRowSelectionChange onRowSelectionChange_distinct set_rowSelection selection_laws_def)

lemma selection_frame:
  assumes "\<And>row b. e \<noteq> CheckRow row b" "\<And>b. e \<noteq> CheckPage b" "e \<noteq> ClearSelection"
  shows "tu_selected (table_use lib unicode cfg e s) = tu_selected s"
  using assms by (cases e) (auto simp: table_use_def Let_def)

section \<open>The library's laws have a model\<close>

definition sample_lib :: "nat table_lib" where
  "sample_lib =
     \<lparr>lib_can_hide = (\<lambda>c. cd_enableHiding c \<noteq> Some False),
      lib_visible = (\<lambda>v c. v (column_key c) \<noteq> Some False),
      lib_toggle = (\<lambda>b c v. v(column_key c \<mapsto> b)),
      lib_page = (\<lambda>p rows. take (pageSize p) (drop (pageIndex p * pageSize p) rows)),
      lib_page_count = (\<lambda>p n. (n + pageSize p - 1) div pageSize p),
      lib_can_previous = (\<lambda>p n. 0 < pageIndex p),
      lib_can_next = (\<lambda>p n. pageIndex p + 1 < (n + pageSize p - 1) div pageSize p),
      lib_previous = (\<lambda>p. p\<lparr>pageIndex := pageIndex p - 1\<rparr>),
      lib_next = (\<lambda>p. p\<lparr>pageIndex := pageIndex p + 1\<rparr>),
      lib_set_size = (\<lambda>k p. \<lparr>pageIndex = (pageIndex p * pageSize p) div k, pageSize = k\<rparr>),
      lib_data_updated = (\<lambda>p. p\<lparr>pageIndex := 0\<rparr>),
      lib_toggle_row = (\<lambda>i b f. AList.update i b f),
      lib_toggle_page = (\<lambda>ids b f. fold (\<lambda>i. AList.update i b) ids f)\<rparr>"

lemma sample_columns: "column_laws sample_lib"
  by (simp add: column_laws_def sample_lib_def)

lemma sample_paging: "paging_laws sample_lib"
proof -
  have "k < (n + s - 1) div s \<longleftrightarrow> k * s < n" if "0 < s" for k n s :: nat
  proof -
    have "k < (n + s - 1) div s \<longleftrightarrow> (k + 1) * s \<le> n + s - 1"
      using that less_eq_div_iff_mult_less_eq [of s "k + 1" "n + s - 1"] by (simp add: Suc_le_eq)
    also have "\<dots> \<longleftrightarrow> k * s < n" using that by auto
    finally show ?thesis .
  qed
  then show ?thesis by (simp add: paging_laws_def sample_lib_def)
qed

lemma sample_selection: "selection_laws sample_lib"
proof -
  have row: "selected_ids (AList.update i b f) = (if b then insert i (selected_ids f) else selected_ids f - {i})" for i b f
    by (auto simp: selected_ids_def AList.update_conv')
  have "selected_ids (fold (\<lambda>i. AList.update i b) ids f) =
      (if b then selected_ids f \<union> set ids else selected_ids f - set ids)" for ids b f
    by (induction ids arbitrary: f) (auto simp: row)
  moreover have "distinct (map fst (fold (\<lambda>i. AList.update i b) ids f))" if "distinct (map fst f)" for ids b and f :: flags
    using that by (induction ids arbitrary: f) (auto simp: AList.distinct_update)
  ultimately show ?thesis
    by (auto simp: selection_laws_def sample_lib_def row AList.distinct_update)
qed

section \<open>Properties\<close>

definition data_columns :: "'a table_lib \<Rightarrow> (string \<Rightarrow> bool) \<Rightarrow> 'a table_config \<Rightarrow> column_def list" where
  "data_columns lib unicode cfg = hideable lib (all_columns unicode cfg)"

text \<open>C20 whatever the user does with the column menu, the search box, the pages and the selection, at least one of the
  columns that can be hidden stays on the screen, provided the columns have different ids.
\<close>
theorem column_never_all_hidden:
  assumes "column_laws lib" and "distinct (map column_key (data_columns lib unicode cfg))"
    and "data_columns lib unicode cfg \<noteq> []"
  shows "some_visible lib (data_columns lib unicode cfg)
    (tu_visibility (table_after lib unicode cfg es (table_start data ids)))"
proof -
  have "some_visible lib (data_columns lib unicode cfg) (tu_visibility (table_start data ids))"
    using assms(1,3) by (cases "data_columns lib unicode cfg") (auto simp: some_visible_def table_start_def column_laws_def)
  moreover have "some_visible lib (data_columns lib unicode cfg) (tu_visibility s) \<Longrightarrow>
      some_visible lib (data_columns lib unicode cfg) (tu_visibility (fold (table_use lib unicode cfg) es s))" for s
    by (induction es arbitrary: s)
      (simp_all add: some_visible_event [OF assms(1) data_columns_def assms(2)])
  ultimately show ?thesis by (simp add: table_after_def)
qed

text \<open>C22 the pagination bar tells the truth after any use of the table: when rows are on the screen, the page shown is not
  empty, it consists of exactly the rows \<open>first\<close> to \<open>last\<close> of the filtered list, and the page number is within the
  number of pages.
\<close>
theorem page_label_true:
  assumes laws: "paging_laws lib" and s: "s = table_after lib unicode cfg es (table_start data ids)"
    and rows: "filteredData cfg s \<noteq> []" and label: "l = TablePagination lib (tu_pagination s) (length (filteredData cfg s))"
  shows "page_rows lib cfg s = take (pl_last l + 1 - pl_first l) (drop (pl_first l - 1) (filteredData cfg s)) \<and>
    pl_first l \<le> pl_last l \<and> pl_last l \<le> pl_total l \<and> pl_page l \<le> pl_pages l"
proof -
  let ?p = "tu_pagination s"
  have ok: "page_ok cfg s" unfolding s by (rule page_ok_after [OF laws]) simp
  then have size: "0 < pageSize ?p" by (simp add: page_ok_def)
  have idx: "pageIndex ?p * pageSize ?p < length (filteredData cfg s)"
    using ok rows by (auto simp: page_ok_def)
  have "page_rows lib cfg s = take (pl_last l + 1 - pl_first l) (drop (pl_first l - 1) (filteredData cfg s))"
    using rows idx by (auto simp: label TablePagination_def page_rows_def paging_page [OF laws] min_def)
  moreover have "pl_first l \<le> pl_last l \<and> pl_last l \<le> pl_total l"
    using rows idx size by (simp add: label TablePagination_def)
  moreover have "pl_page l \<le> pl_pages l"
    using paging_count [OF laws size, of "pageIndex ?p" "length (filteredData cfg s)"] idx
    by (simp add: label TablePagination_def)
  ultimately show ?thesis by simp
qed

text \<open>C21 ticking the box of a row or the box of the page changes the selection by exactly that row or by the rows of the
  page on the screen. Rows that a filter or another page hides keep their place in the selection, and every other event
  leaves the selection alone except clearing it.
\<close>
theorem selection_exact:
  assumes "selection_laws lib" and "selectable cfg"
  shows "set (tu_selected (table_use lib unicode cfg e s)) =
    (case e of
       CheckRow row b \<Rightarrow> if b then insert (row_id cfg row) (set (tu_selected s)) else set (tu_selected s) - {row_id cfg row}
     | CheckPage b \<Rightarrow>
         if b then set (tu_selected s) \<union> row_id cfg ` set (page_rows lib cfg s)
         else set (tu_selected s) - row_id cfg ` set (page_rows lib cfg s)
     | ClearSelection \<Rightarrow> {}
     | _ \<Rightarrow> set (tu_selected s))"
  by (cases e) (simp_all add: selection_event [OF assms] selection_frame)

definition sample_config :: "nat table_config" where
  "sample_config =
     \<lparr>tc_columns = [\<lparr>cd_id = None, cd_header = HText ''Host name'', cd_enableHiding = None\<rparr>,
                    \<lparr>cd_id = Some ''actions'', cd_header = HNode, cd_enableHiding = None\<rparr>],
      tc_getSearchText = None, tc_getRowID = Some show_nat, tc_selection = True\<rparr>"

lemma column_never_all_hidden_witness:
  "some_visible sample_lib (data_columns sample_lib (\<lambda>_. False) sample_config)
     (tu_visibility (table_after sample_lib (\<lambda>_. False) sample_config [PressColumn 0, PressColumn 0] (table_start [1, 2] [])))"
  by (rule column_never_all_hidden [OF sample_columns]; code_simp)

lemma page_label_true_witness:
  "pl_page (TablePagination sample_lib \<lparr>pageIndex = 1, pageSize = 20\<rparr> 25) \<le>
     pl_pages (TablePagination sample_lib \<lparr>pageIndex = 1, pageSize = 20\<rparr> 25)"
proof -
  let ?s = "table_after sample_lib (\<lambda>_. False) sample_config [NextPage] (table_start [0..<25] [])"
  have rows: "filteredData sample_config ?s = [0..<25]" and p: "tu_pagination ?s = \<lparr>pageIndex = 1, pageSize = 20\<rparr>"
    by (simp_all add: filteredData_def sample_config_def table_after_def table_use_def Let_def table_start_def sample_lib_def)
  have "filteredData sample_config ?s \<noteq> []" by (simp add: rows)
  from page_label_true [OF sample_paging refl [of ?s] this refl] show ?thesis
    unfolding rows p by (simp del: upt_rec_numeral)
qed

lemma selection_exact_witness:
  "set (tu_selected (table_use sample_lib (\<lambda>_. False) sample_config (CheckRow 7 False) (table_start [7, 8] [''7'', ''8'']))) = {''8''}"
  by (subst selection_exact [OF sample_selection])
    (simp_all add: selectable_def row_id_def sample_config_def table_start_def show_nat.simps)

text \<open>No cell of a row is lost on its card.\<close>

lemma mobile_card_complete:
  "set_option (mc_select (MobileRowCard cells)) \<union> set_option (mc_actions (MobileRowCard cells)) \<union>
     set_option (mc_primary (MobileRowCard cells)) \<union> set (mc_details (MobileRowCard cells)) = set cells"
proof -
  have find_eq: "set_option (find (\<lambda>c. c = k) cells) = set cells \<inter> {k}" for k :: string
    by (induction cells) auto
  define shown where "shown = filter (\<lambda>c. c \<noteq> ''__select'' \<and> c \<noteq> ''actions'') cells"
  have "set_option (case shown of [] \<Rightarrow> None | c # _ \<Rightarrow> Some c) \<union> set (tl shown) = set shown"
    by (cases shown) auto
  moreover have "set shown = set cells - {''__select'', ''actions''}"
    by (auto simp: shown_def)
  ultimately show ?thesis
    unfolding MobileRowCard_def Let_def shown_def [symmetric] by (auto simp: find_eq)
qed

end
