(* ===== verification/Settings.thy ===== *)
theory Settings
  imports Platform Trees Paths
begin

text \<open>
  The system settings as the settings page reads and writes them (\<open>settings-page.tsx\<close>): the readers of loosely
  typed metadata, the five forms (login security, log retention, OIDC, LDAP, WeCom) with the conversions from the
  stored records and to the metadata that is saved, the licence form, and the checks a form must pass.
  Reading an address is the browser's \<open>URL\<close>: a parameter that gives the parts of an address or nothing.
\<close>

section \<open>Readers of metadata\<close>

definition setting_text :: "jsval \<Rightarrow> string" where
  "setting_text v =
     (case v of JStr s \<Rightarrow> s | JNum n \<Rightarrow> num_text n | JBool b \<Rightarrow> (if b then ''true'' else ''false'') | _ \<Rightarrow> '''')"

definition setting_list_text :: "jsval \<Rightarrow> string" where
  "setting_list_text v =
     (case v of JArr xs \<Rightarrow> join '' '' (filter (\<lambda>s. s \<noteq> '''') (map setting_text xs)) | _ \<Rightarrow> setting_text v)"

definition metadataBoolValue :: "jsval \<Rightarrow> bool option" where
  "metadataBoolValue v =
     (case v of
        JBool b \<Rightarrow> Some b
      | JNum n \<Rightarrow> Some (n \<noteq> Fin 0)
      | JStr s \<Rightarrow>
          (let normalized = lower (trim s)
           in if normalized \<in> set [''true'', ''1'', ''yes'', ''enabled'', ''required'', ''on''] then Some True
              else if normalized \<in> set [''false'', ''0'', ''no'', ''disabled'', ''off''] then Some False
              else None)
      | _ \<Rightarrow> None)"

definition metadataTruthy :: "jsval \<Rightarrow> bool" where
  "metadataTruthy v \<longleftrightarrow> metadataBoolValue v = Some True"

text \<open>\<open>Number.parseInt(s, 10)\<close>: an optional sign and the digits that follow; what comes after them is ignored.\<close>

definition parse_int :: "string \<Rightarrow> int option" where
  "parse_int str =
     (let s = strip_left is_ws str;
          (neg, t) = (case s of c # r \<Rightarrow> if c = CHR ''-'' then (True, r) else if c = CHR ''+'' then (False, r) else (False, s)
                      | [] \<Rightarrow> (False, s));
          digits = takeWhile is_digit t
      in if digits = '''' then None
         else Some (if neg then - int (nat_of_digits digits) else int (nat_of_digits digits)))"

definition metadataNumberValue :: "jsval \<Rightarrow> rat option" where
  "metadataNumberValue v =
     (case v of
        JNum n \<Rightarrow> (case n of Fin r \<Rightarrow> Some r | _ \<Rightarrow> None)
      | JStr s \<Rightarrow> map_option of_int (parse_int (trim s))
      | _ \<Rightarrow> None)"

definition numberInputValue :: "string \<Rightarrow> int \<Rightarrow> int" where
  "numberInputValue v fallback = (case parse_int v of Some n \<Rightarrow> n | None \<Rightarrow> fallback)"

definition js_trunc :: "rat \<Rightarrow> int" where
  "js_trunc r = (if 0 \<le> r then \<lfloor>r\<rfloor> else \<lceil>r\<rceil>)"

definition clampSettingNumber :: "jsnum \<Rightarrow> int \<Rightarrow> int \<Rightarrow> int \<Rightarrow> int" where
  "clampSettingNumber v lo hi fallback = (case v of Fin r \<Rightarrow> min hi (max lo (js_trunc r)) | _ \<Rightarrow> fallback)"

fun metadataNumberByKeys :: "js_object \<Rightarrow> string list \<Rightarrow> int \<Rightarrow> int \<Rightarrow> int \<Rightarrow> int" where
  "metadataNumberByKeys metadata [] fallback lo hi = fallback"
| "metadataNumberByKeys metadata (k # ks) fallback lo hi =
     (case metadataNumberValue (obj_get metadata k) of
        Some r \<Rightarrow> clampSettingNumber (Fin r) lo hi fallback
      | None \<Rightarrow> metadataNumberByKeys metadata ks fallback lo hi)"

definition has_any :: "js_object \<Rightarrow> string list \<Rightarrow> bool" where
  "has_any metadata ks \<longleftrightarrow> list_ex (\<lambda>k. k \<in> fst ` set metadata) ks"

text \<open>\<open>metadataText(a) || metadataText(b) || ... || d\<close>\<close>

fun first_setting :: "js_object \<Rightarrow> string list \<Rightarrow> string \<Rightarrow> string" where
  "first_setting metadata [] d = d"
| "first_setting metadata (k # ks) d = or_str (setting_text (obj_get metadata k)) (first_setting metadata ks d)"

definition stored_meta :: "platform_item \<Rightarrow> js_object" where
  "stored_meta item = (case it_metadata item of Some m \<Rightarrow> m | None \<Rightarrow> [])"

definition platformItemEnabled :: "platform_item \<Rightarrow> bool" where
  "platformItemEnabled item \<longleftrightarrow> lower (trim (it_status item)) \<in> set ['''', ''enabled'', ''active'', ''locked'']"

definition setting_type :: "platform_item \<Rightarrow> string" where
  "setting_type item = lower (trim (it_type item))"

section \<open>Login security\<close>

definition loginSecurityTypes :: "string list" where
  "loginSecurityTypes = [''security'', ''identity'', ''login'', ''password'', ''captcha'', ''mfa'']"

definition captchaKeys :: "string list" where
  "captchaKeys = [''captcha_enabled'', ''login_captcha'', ''enable_captcha'', ''captcha'', ''require_captcha'']"

definition disablePasswordKeys :: "string list" where
  "disablePasswordKeys = [''disable_password_login'', ''password_login_disabled'', ''disablePasswordLogin'',
     ''passwordLoginDisabled'', ''no_password_login'']"

definition passwordLoginKeys :: "string list" where
  "passwordLoginKeys = [''password_login'', ''enable_password_login'', ''password_auth'', ''local_password_login'']"

definition forceMFAKeys :: "string list" where
  "forceMFAKeys = [''force_mfa'', ''forceMFA'', ''mfa_required'', ''require_mfa'']"

definition loginFailureThresholdKeys :: "string list" where
  "loginFailureThresholdKeys = [''login_failure_threshold'', ''failure_threshold'', ''max_login_failures'',
     ''login_lock_threshold'', ''lock_threshold'']"

definition loginFailureWindowKeys :: "string list" where
  "loginFailureWindowKeys = [''login_failure_window_minutes'', ''failure_window_minutes'', ''login_lock_window_minutes'',
     ''lock_window_minutes'']"

definition loginLockMinutesKeys :: "string list" where
  "loginLockMinutesKeys = [''login_lock_minutes'', ''lock_minutes'', ''login_lock_duration_minutes'', ''lock_duration_minutes'']"

record login_security =
  ls_captchaEnabled :: bool
  ls_passwordLoginDisabled :: bool
  ls_forceMFARequired :: bool
  ls_threshold :: int
  ls_window :: int
  ls_lockMinutes :: int
  ls_setting :: "platform_item option"

definition hasLoginSecurityMetadata :: "platform_item \<Rightarrow> bool" where
  "hasLoginSecurityMetadata item \<longleftrightarrow>
     has_any (stored_meta item) (captchaKeys @ disablePasswordKeys @ passwordLoginKeys @ forceMFAKeys @
       loginFailureThresholdKeys @ loginFailureWindowKeys @ loginLockMinutesKeys)"

definition login_candidates :: "platform_item list \<Rightarrow> platform_item list" where
  "login_candidates items = filter (\<lambda>item. platformItemEnabled item \<and> setting_type item \<in> set loginSecurityTypes) items"

definition any_truthy :: "js_object \<Rightarrow> string list \<Rightarrow> bool" where
  "any_truthy metadata ks \<longleftrightarrow> list_ex (\<lambda>k. metadataTruthy (obj_get metadata k)) ks"

definition read_candidate :: "platform_item \<Rightarrow> login_security \<Rightarrow> login_security" where
  "read_candidate item st =
     (let m = stored_meta item
      in st\<lparr>ls_captchaEnabled := any_truthy m captchaKeys \<or> ls_captchaEnabled st,
            ls_passwordLoginDisabled := any_truthy m disablePasswordKeys
              \<or> list_ex (\<lambda>k. metadataBoolValue (obj_get m k) = Some False) passwordLoginKeys \<or> ls_passwordLoginDisabled st,
            ls_forceMFARequired := any_truthy m forceMFAKeys \<or> ls_forceMFARequired st,
            ls_threshold := metadataNumberByKeys m loginFailureThresholdKeys (ls_threshold st) 1 50,
            ls_window := metadataNumberByKeys m loginFailureWindowKeys (ls_window st) 1 1440,
            ls_lockMinutes := metadataNumberByKeys m loginLockMinutesKeys (ls_lockMinutes st) 1 1440\<rparr>)"

text \<open>\<open>a || b || xs[0]\<close>\<close>

definition or_option :: "'a option \<Rightarrow> 'a option \<Rightarrow> 'a option" where
  "or_option a b = (case a of Some x \<Rightarrow> Some x | None \<Rightarrow> b)"

definition first_of :: "'a list \<Rightarrow> 'a option" where
  "first_of xs = (case xs of [] \<Rightarrow> None | x # _ \<Rightarrow> Some x)"

definition login_setting :: "platform_item list \<Rightarrow> platform_item option" where
  "login_setting candidates =
     or_option (find (\<lambda>item. it_name item = ''Login security'') candidates)
       (or_option (find hasLoginSecurityMetadata candidates) (first_of candidates))"

definition loginSecurityFromSettings :: "platform_item list \<Rightarrow> bool \<Rightarrow> bool \<Rightarrow> login_security" where
  "loginSecurityFromSettings items fallbackCaptcha fallbackPasswordDisabled =
     (let candidates = login_candidates items;
          st = \<lparr>ls_captchaEnabled = fallbackCaptcha, ls_passwordLoginDisabled = fallbackPasswordDisabled, ls_forceMFARequired = False,
            ls_threshold = 5, ls_window = 15, ls_lockMinutes = 5, ls_setting = None\<rparr>
      in (fold read_candidate candidates st)\<lparr>ls_setting := login_setting candidates\<rparr>)"

definition login_security_metadata :: "js_object \<Rightarrow> login_security \<Rightarrow> js_object" where
  "login_security_metadata old merged =
     obj_set_all old
       [(''captcha_enabled'', JBool (ls_captchaEnabled merged)),
        (''disable_password_login'', JBool (ls_passwordLoginDisabled merged)),
        (''password_login'', JBool (\<not> ls_passwordLoginDisabled merged)),
        (''force_mfa'', JBool (ls_forceMFARequired merged)),
        (''login_failure_threshold'', JNum (Fin (of_int (ls_threshold merged)))),
        (''login_failure_window_minutes'', JNum (Fin (of_int (ls_window merged)))),
        (''login_lock_minutes'', JNum (Fin (of_int (ls_lockMinutes merged))))]"

section \<open>Retention\<close>

record retention =
  rt_session :: int
  rt_login :: int
  rt_scheduledTask :: int
  rt_operation :: int
  rt_file :: int
  rt_access :: int
  rt_sql :: int
  rt_execCommand :: int
  rt_setting :: "platform_item option"

definition defaultRetentionSettings :: retention where
  "defaultRetentionSettings = \<lparr>rt_session = 90, rt_login = 90, rt_scheduledTask = 90, rt_operation = 90, rt_file = 90,
     rt_access = 90, rt_sql = 90, rt_execCommand = 90, rt_setting = None\<rparr>"

definition retention_of :: "js_object \<Rightarrow> retention" where
  "retention_of m =
     (let fallback = metadataNumberByKeys m [''retention_days'', ''days''] 90 0 36500;
          days = (\<lambda>ks. metadataNumberByKeys m ks fallback 0 36500)
      in \<lparr>rt_session = days [''connection_sessions_days'', ''connection_session_days'', ''sessions_days'', ''session_days'',
            ''offline_sessions_days'', ''offline_session_days'', ''recordings_days'', ''recording_days''],
          rt_login = days [''login_logs_days'', ''login_days''],
          rt_scheduledTask = days [''scheduled_task_logs_days'', ''scheduled_tasks_days'', ''scheduled_task_days'',
            ''operation_logs_days'', ''operation_days''],
          rt_operation = days [''operation_logs_days'', ''operation_days''],
          rt_file = days [''file_logs_days'', ''file_days''],
          rt_access = days [''access_logs_days'', ''access_days''],
          rt_sql = days [''sql_logs_days'', ''sql_days''],
          rt_execCommand = days [''exec_command_logs_days'', ''exec_command_days''],
          rt_setting = None\<rparr>)"

definition retentionSettingsFromSettings :: "platform_item list \<Rightarrow> retention" where
  "retentionSettingsFromSettings items =
     (case find (\<lambda>item. platformItemEnabled item \<and> setting_type item = ''retention'') items of
        None \<Rightarrow> defaultRetentionSettings
      | Some setting \<Rightarrow> (retention_of (stored_meta setting))\<lparr>rt_setting := Some setting\<rparr>)"

definition retention_metadata :: "retention \<Rightarrow> js_object" where
  "retention_metadata st =
     (let num = (\<lambda>n. JNum (Fin (of_int n)))
      in [(''connection_sessions_days'', num (rt_session st)), (''login_logs_days'', num (rt_login st)),
          (''scheduled_task_logs_days'', num (rt_scheduledTask st)), (''operation_logs_days'', num (rt_operation st)),
          (''file_logs_days'', num (rt_file st)), (''access_logs_days'', num (rt_access st)),
          (''sql_logs_days'', num (rt_sql st)), (''exec_command_logs_days'', num (rt_execCommand st))])"

datatype retention_key = SessionDays | LoginDays | ScheduledTaskDays | OperationDays | FileDays | AccessDays | SqlDays | ExecCommandDays

definition patchRetentionSettings :: "retention_key \<Rightarrow> int \<Rightarrow> retention \<Rightarrow> retention" where
  "patchRetentionSettings k v st =
     (let n = clampSettingNumber (Fin (of_int v)) 0 36500 90
      in case k of
           SessionDays \<Rightarrow> st\<lparr>rt_session := n\<rparr> | LoginDays \<Rightarrow> st\<lparr>rt_login := n\<rparr>
         | ScheduledTaskDays \<Rightarrow> st\<lparr>rt_scheduledTask := n\<rparr> | OperationDays \<Rightarrow> st\<lparr>rt_operation := n\<rparr>
         | FileDays \<Rightarrow> st\<lparr>rt_file := n\<rparr> | AccessDays \<Rightarrow> st\<lparr>rt_access := n\<rparr>
         | SqlDays \<Rightarrow> st\<lparr>rt_sql := n\<rparr> | ExecCommandDays \<Rightarrow> st\<lparr>rt_execCommand := n\<rparr>)"

section \<open>OIDC\<close>

datatype token_auth = SecretBasic | SecretPost | NoAuth

definition token_auth_text :: "token_auth \<Rightarrow> string" where
  "token_auth_text a = (case a of SecretBasic \<Rightarrow> ''client_secret_basic'' | SecretPost \<Rightarrow> ''client_secret_post'' | NoAuth \<Rightarrow> ''none'')"

definition normalizeOIDCTokenAuthMethod :: "string \<Rightarrow> token_auth" where
  "normalizeOIDCTokenAuthMethod v =
     (if v = ''client_secret_post'' then SecretPost else if v = ''none'' then NoAuth else SecretBasic)"

record oidc_settings =
  oi_enabled :: bool
  oi_providerName :: string
  oi_issuer :: string
  oi_authorizationEndpoint :: string
  oi_tokenEndpoint :: string
  oi_userInfoEndpoint :: string
  oi_jwksEndpoint :: string
  oi_clientID :: string
  oi_clientSecret :: string
  oi_clientSecretSet :: bool
  oi_clientSecretClear :: bool
  oi_tokenAuthMethod :: token_auth
  oi_requireIDToken :: bool
  oi_scopes :: string
  oi_role :: string
  oi_autoCreate :: bool
  oi_setting :: "platform_item option"

definition defaultOIDCSettings :: oidc_settings where
  "defaultOIDCSettings = \<lparr>oi_enabled = False, oi_providerName = ''OIDC'', oi_issuer = '''', oi_authorizationEndpoint = '''',
     oi_tokenEndpoint = '''', oi_userInfoEndpoint = '''', oi_jwksEndpoint = '''', oi_clientID = '''', oi_clientSecret = '''',
     oi_clientSecretSet = False, oi_clientSecretClear = False, oi_tokenAuthMethod = SecretBasic, oi_requireIDToken = True,
     oi_scopes = ''openid profile email'', oi_role = ''user'', oi_autoCreate = True, oi_setting = None\<rparr>"

definition oidcSettingKeys :: "string list" where
  "oidcSettingKeys = [''oidc_login_enabled'', ''external_oidc_enabled'', ''oidc_issuer'', ''oidc_jwks_uri'',
     ''oidc_authorization_endpoint'', ''oidc_token_endpoint'', ''oidc_client_id'', ''oidc_provider_id'']"

definition hasOIDCMetadata :: "platform_item \<Rightarrow> bool" where
  "hasOIDCMetadata item = has_any (stored_meta item) oidcSettingKeys"

text \<open>The record a provider's form is about: the one with the name the form gives, or the first.\<close>

definition identity_setting :: "(platform_item \<Rightarrow> bool) \<Rightarrow> string \<Rightarrow> platform_item list \<Rightarrow> platform_item option" where
  "identity_setting has nm items =
     (let candidates = filter (\<lambda>item. platformItemEnabled item \<and> setting_type item = ''identity'' \<and> has item) items
      in or_option (find (\<lambda>item. it_name item = nm) candidates) (first_of candidates))"

definition bool_or_default :: "jsval \<Rightarrow> bool \<Rightarrow> bool" where
  "bool_or_default v d = (if v = JUndefined then d else metadataTruthy v)"

definition oidc_of :: "js_object \<Rightarrow> string \<Rightarrow> oidc_settings" where
  "oidc_of m nm =
     (let userInfoEndpoint = first_setting m [''oidc_userinfo_endpoint'', ''userinfo_endpoint'', ''user_info_endpoint''] ''''
      in \<lparr>oi_enabled = (metadataTruthy (obj_get m ''oidc_login_enabled'') \<or> metadataTruthy (obj_get m ''external_oidc_enabled'')),
          oi_providerName = first_setting m [''oidc_provider_name'', ''provider_name''] (or_str nm ''OIDC''),
          oi_issuer = first_setting m [''oidc_issuer'', ''issuer'', ''issuer_url''] '''',
          oi_authorizationEndpoint =
            first_setting m [''oidc_authorization_endpoint'', ''authorization_endpoint'', ''authorize_endpoint''] '''',
          oi_tokenEndpoint = first_setting m [''oidc_token_endpoint'', ''token_endpoint''] '''',
          oi_userInfoEndpoint = userInfoEndpoint,
          oi_jwksEndpoint = first_setting m [''oidc_jwks_uri'', ''jwks_uri'', ''jwks_endpoint'', ''jwks_url''] '''',
          oi_clientID = first_setting m [''oidc_client_id'', ''client_id''] '''',
          oi_clientSecret = '''',
          oi_clientSecretSet = metadataTruthy (obj_get m ''oidc_client_secret_set''),
          oi_clientSecretClear = False,
          oi_tokenAuthMethod = normalizeOIDCTokenAuthMethod
            (first_setting m [''oidc_token_endpoint_auth_method'', ''token_endpoint_auth_method'', ''oidc_auth_method''] ''''),
          oi_requireIDToken = bool_or_default (obj_get m ''oidc_require_id_token'') (userInfoEndpoint = ''''),
          oi_scopes = or_str (setting_list_text (obj_get m ''oidc_scopes''))
            (first_setting m [''scope'', ''scopes''] ''openid profile email''),
          oi_role = first_setting m [''oidc_role'', ''role''] ''user'',
          oi_autoCreate = bool_or_default (obj_get m ''oidc_auto_create'') True,
          oi_setting = None\<rparr>)"

definition oidcSettingsFromSettings :: "platform_item list \<Rightarrow> oidc_settings" where
  "oidcSettingsFromSettings items =
     (case identity_setting hasOIDCMetadata ''External OIDC identity'' items of
        None \<Rightarrow> defaultOIDCSettings
      | Some setting \<Rightarrow> (oidc_of (stored_meta setting) (it_name setting))\<lparr>oi_setting := Some setting\<rparr>)"

definition scope_words :: "string \<Rightarrow> string list" where
  "scope_words s = filter (\<lambda>x. x \<noteq> '''') (map trim (split_runs (\<lambda>c. is_ws c \<or> c = CHR '','') s))"

text \<open>A typed secret is sent; without one, a ticked box asks the server to forget the stored one.\<close>

definition secret_fields :: "string \<Rightarrow> string \<Rightarrow> bool \<Rightarrow> js_object" where
  "secret_fields key secret clear =
     (if trim secret \<noteq> '''' then [(key, JStr (trim secret))]
      else if clear then [(key @ ''_clear'', JBool True)] else [])"

definition provider_metadata :: "js_object \<Rightarrow> js_object \<Rightarrow> string \<Rightarrow> string \<Rightarrow> bool \<Rightarrow> js_object" where
  "provider_metadata old fs key secret clear = obj_set_all (obj_set_all old fs) (secret_fields key secret clear)"

definition oidc_saved :: "oidc_settings \<Rightarrow> js_object" where
  "oidc_saved st =
     [(''oidc_login_enabled'', JBool (oi_enabled st)),
      (''oidc_provider_id'', JStr ''default-oidc''),
      (''oidc_provider_name'', JStr (or_str (trim (oi_providerName st)) ''OIDC'')),
      (''oidc_issuer'', JStr (trim (oi_issuer st))),
      (''oidc_authorization_endpoint'', JStr (trim (oi_authorizationEndpoint st))),
      (''oidc_token_endpoint'', JStr (trim (oi_tokenEndpoint st))),
      (''oidc_userinfo_endpoint'', JStr (trim (oi_userInfoEndpoint st))),
      (''oidc_jwks_uri'', JStr (trim (oi_jwksEndpoint st))),
      (''oidc_client_id'', JStr (trim (oi_clientID st))),
      (''oidc_scopes'', JArr (map JStr (scope_words (oi_scopes st)))),
      (''oidc_token_endpoint_auth_method'', JStr (token_auth_text (oi_tokenAuthMethod st))),
      (''oidc_require_id_token'', JBool (oi_requireIDToken st)),
      (''oidc_role'', JStr (or_str (oi_role st) ''user'')),
      (''oidc_auto_create'', JBool (oi_autoCreate st))]"

definition oidc_metadata :: "js_object \<Rightarrow> oidc_settings \<Rightarrow> js_object" where
  "oidc_metadata old st = provider_metadata old (oidc_saved st) ''oidc_client_secret'' (oi_clientSecret st) (oi_clientSecretClear st)"

section \<open>LDAP\<close>

record ldap_settings =
  ld_enabled :: bool
  ld_providerName :: string
  ld_url :: string
  ld_bindDN :: string
  ld_bindPassword :: string
  ld_bindPasswordSet :: bool
  ld_bindPasswordClear :: bool
  ld_baseDN :: string
  ld_userFilter :: string
  ld_userDNTemplate :: string
  ld_usernameAttribute :: string
  ld_displayNameAttribute :: string
  ld_emailAttribute :: string
  ld_role :: string
  ld_autoCreate :: bool
  ld_startTLS :: bool
  ld_serverName :: string
  ld_insecureSkipVerify :: bool
  ld_setting :: "platform_item option"

definition defaultLDAPSettings :: ldap_settings where
  "defaultLDAPSettings = \<lparr>ld_enabled = False, ld_providerName = ''LDAP'', ld_url = '''', ld_bindDN = '''', ld_bindPassword = '''',
     ld_bindPasswordSet = False, ld_bindPasswordClear = False, ld_baseDN = '''', ld_userFilter = ''(uid={username})'',
     ld_userDNTemplate = '''', ld_usernameAttribute = ''uid'', ld_displayNameAttribute = ''cn'', ld_emailAttribute = ''mail'',
     ld_role = ''user'', ld_autoCreate = True, ld_startTLS = False, ld_serverName = '''', ld_insecureSkipVerify = False,
     ld_setting = None\<rparr>"

definition ldapSettingKeys :: "string list" where
  "ldapSettingKeys = [''ldap_enabled'', ''ldap_url'', ''ldap_base_dn'', ''ldap_bind_dn'', ''ldap_user_filter'',
     ''ldap_user_dn_template'', ''ldap_start_tls'', ''ldap_server_name'', ''ldap_provider_id'', ''ldap_provider_name'']"

definition hasLDAPMetadata :: "platform_item \<Rightarrow> bool" where
  "hasLDAPMetadata item = has_any (stored_meta item) ldapSettingKeys"

definition ldap_of :: "js_object \<Rightarrow> string \<Rightarrow> ldap_settings" where
  "ldap_of m nm =
     \<lparr>ld_enabled = (metadataTruthy (obj_get m ''ldap_enabled'') \<or> metadataTruthy (obj_get m ''ldap_login_enabled'')),
      ld_providerName = first_setting m [''ldap_provider_name'', ''provider_name''] (or_str nm ''LDAP''),
      ld_url = first_setting m [''ldap_url'', ''url''] '''',
      ld_bindDN = first_setting m [''ldap_bind_dn'', ''bind_dn''] '''',
      ld_bindPassword = '''',
      ld_bindPasswordSet = metadataTruthy (obj_get m ''ldap_bind_password_set''),
      ld_bindPasswordClear = False,
      ld_baseDN = first_setting m [''ldap_base_dn'', ''base_dn''] '''',
      ld_userFilter = first_setting m [''ldap_user_filter'', ''user_filter''] ''(uid={username})'',
      ld_userDNTemplate = first_setting m [''ldap_user_dn_template'', ''user_dn_template''] '''',
      ld_usernameAttribute = first_setting m [''ldap_username_attribute'', ''username_attribute''] ''uid'',
      ld_displayNameAttribute = first_setting m [''ldap_display_name_attribute'', ''display_name_attribute''] ''cn'',
      ld_emailAttribute = first_setting m [''ldap_email_attribute'', ''email_attribute''] ''mail'',
      ld_role = first_setting m [''ldap_role'', ''role''] ''user'',
      ld_autoCreate = bool_or_default (obj_get m ''ldap_auto_create'') True,
      ld_startTLS = (metadataTruthy (obj_get m ''ldap_start_tls'') \<or> metadataTruthy (obj_get m ''start_tls'')),
      ld_serverName = first_setting m [''ldap_server_name'', ''tls_server_name'', ''server_name''] '''',
      ld_insecureSkipVerify =
        (metadataTruthy (obj_get m ''ldap_insecure_skip_verify'') \<or> metadataTruthy (obj_get m ''insecure_skip_verify'')),
      ld_setting = None\<rparr>"

definition ldapSettingsFromSettings :: "platform_item list \<Rightarrow> ldap_settings" where
  "ldapSettingsFromSettings items =
     (case identity_setting hasLDAPMetadata ''LDAP identity'' items of
        None \<Rightarrow> defaultLDAPSettings
      | Some setting \<Rightarrow> (ldap_of (stored_meta setting) (it_name setting))\<lparr>ld_setting := Some setting\<rparr>)"

definition ldap_saved :: "ldap_settings \<Rightarrow> js_object" where
  "ldap_saved st =
     [(''ldap_enabled'', JBool (ld_enabled st)),
      (''ldap_provider_id'', JStr ''default-ldap''),
      (''ldap_provider_name'', JStr (or_str (trim (ld_providerName st)) ''LDAP'')),
      (''ldap_url'', JStr (trim (ld_url st))),
      (''ldap_bind_dn'', JStr (trim (ld_bindDN st))),
      (''ldap_base_dn'', JStr (trim (ld_baseDN st))),
      (''ldap_user_filter'', JStr (or_str (trim (ld_userFilter st)) ''(uid={username})'')),
      (''ldap_user_dn_template'', JStr (trim (ld_userDNTemplate st))),
      (''ldap_username_attribute'', JStr (or_str (trim (ld_usernameAttribute st)) ''uid'')),
      (''ldap_display_name_attribute'', JStr (or_str (trim (ld_displayNameAttribute st)) ''cn'')),
      (''ldap_email_attribute'', JStr (or_str (trim (ld_emailAttribute st)) ''mail'')),
      (''ldap_role'', JStr (or_str (ld_role st) ''user'')),
      (''ldap_auto_create'', JBool (ld_autoCreate st)),
      (''ldap_start_tls'', JBool (ld_startTLS st)),
      (''ldap_server_name'', JStr (trim (ld_serverName st))),
      (''ldap_insecure_skip_verify'', JBool (ld_insecureSkipVerify st))]"

definition ldap_metadata :: "js_object \<Rightarrow> ldap_settings \<Rightarrow> js_object" where
  "ldap_metadata old st = provider_metadata old (ldap_saved st) ''ldap_bind_password'' (ld_bindPassword st) (ld_bindPasswordClear st)"

section \<open>WeCom\<close>

record wecom_settings =
  wc_enabled :: bool
  wc_providerName :: string
  wc_corpID :: string
  wc_agentID :: string
  wc_agentSecret :: string
  wc_agentSecretSet :: bool
  wc_agentSecretClear :: bool
  wc_role :: string
  wc_autoCreate :: bool
  wc_setting :: "platform_item option"

definition defaultWeComSettings :: wecom_settings where
  "defaultWeComSettings = \<lparr>wc_enabled = False, wc_providerName = ''Enterprise WeChat'', wc_corpID = '''', wc_agentID = '''',
     wc_agentSecret = '''', wc_agentSecretSet = False, wc_agentSecretClear = False, wc_role = ''user'', wc_autoCreate = True,
     wc_setting = None\<rparr>"

definition wecomSettingKeys :: "string list" where
  "wecomSettingKeys = [''wecom_enabled'', ''wecom_corp_id'', ''wecom_agent_id'', ''wecom_provider_id'', ''wecom_provider_name'']"

definition hasWeComMetadata :: "platform_item \<Rightarrow> bool" where
  "hasWeComMetadata item = has_any (stored_meta item) wecomSettingKeys"

definition wecom_of :: "js_object \<Rightarrow> string \<Rightarrow> wecom_settings" where
  "wecom_of m nm =
     \<lparr>wc_enabled = (metadataTruthy (obj_get m ''wecom_enabled'') \<or> metadataTruthy (obj_get m ''wecom_login_enabled'')
        \<or> metadataTruthy (obj_get m ''enterprise_wechat_enabled'')),
      wc_providerName = first_setting m [''wecom_provider_name'', ''enterprise_wechat_provider_name'', ''provider_name'']
        (or_str nm ''Enterprise WeChat''),
      wc_corpID = first_setting m [''wecom_corp_id'', ''enterprise_wechat_corp_id'', ''corp_id''] '''',
      wc_agentID = first_setting m [''wecom_agent_id'', ''enterprise_wechat_agent_id'', ''agent_id''] '''',
      wc_agentSecret = '''',
      wc_agentSecretSet = metadataTruthy (obj_get m ''wecom_agent_secret_set''),
      wc_agentSecretClear = False,
      wc_role = first_setting m [''wecom_role'', ''role''] ''user'',
      wc_autoCreate = bool_or_default (obj_get m ''wecom_auto_create'') True,
      wc_setting = None\<rparr>"

definition wecomSettingsFromSettings :: "platform_item list \<Rightarrow> wecom_settings" where
  "wecomSettingsFromSettings items =
     (case identity_setting hasWeComMetadata ''Enterprise WeChat identity'' items of
        None \<Rightarrow> defaultWeComSettings
      | Some setting \<Rightarrow> (wecom_of (stored_meta setting) (it_name setting))\<lparr>wc_setting := Some setting\<rparr>)"

definition wecom_saved :: "wecom_settings \<Rightarrow> js_object" where
  "wecom_saved st =
     [(''wecom_enabled'', JBool (wc_enabled st)),
      (''wecom_provider_id'', JStr ''default-wecom''),
      (''wecom_provider_name'', JStr (or_str (trim (wc_providerName st)) ''Enterprise WeChat'')),
      (''wecom_corp_id'', JStr (trim (wc_corpID st))),
      (''wecom_agent_id'', JStr (trim (wc_agentID st))),
      (''wecom_role'', JStr (or_str (wc_role st) ''user'')),
      (''wecom_auto_create'', JBool (wc_autoCreate st))]"

definition wecom_metadata :: "js_object \<Rightarrow> wecom_settings \<Rightarrow> js_object" where
  "wecom_metadata old st = provider_metadata old (wecom_saved st) ''wecom_agent_secret'' (wc_agentSecret st) (wc_agentSecretClear st)"

section \<open>What a form must satisfy\<close>

record url_parts =
  up_protocol :: string
  up_hostname :: string
  up_port :: string
  up_username :: string
  up_password :: string
  up_pathname :: string
  up_search :: string
  up_hash :: string

type_synonym address_parser = "string \<Rightarrow> url_parts option"

definition loopback_host :: "string \<Rightarrow> bool" where
  "loopback_host host \<longleftrightarrow> host \<in> set [''localhost'', ''::1'', ''[::1]''] \<or> starts_with host ''127.''"

definition isValidOIDCEndpoint :: "address_parser \<Rightarrow> string \<Rightarrow> bool \<Rightarrow> bool" where
  "isValidOIDCEndpoint url v allowQuery \<longleftrightarrow>
     (case url (trim v) of
        None \<Rightarrow> False
      | Some u \<Rightarrow>
          (up_protocol u = ''https:'' \<or> up_protocol u = ''http:'')
          \<and> up_hostname u \<noteq> '''' \<and> up_username u = '''' \<and> up_password u = '''' \<and> up_hash u = ''''
          \<and> (allowQuery \<or> up_search u = '''')
          \<and> (up_protocol u = ''http:'' \<longrightarrow> loopback_host (lower (up_hostname u))))"

definition isValidLDAPURL :: "address_parser \<Rightarrow> string \<Rightarrow> bool" where
  "isValidLDAPURL url v \<longleftrightarrow>
     (case url (trim v) of
        None \<Rightarrow> False
      | Some u \<Rightarrow>
          (up_protocol u = ''ldap:'' \<or> up_protocol u = ''ldaps:'')
          \<and> up_hostname u \<noteq> '''' \<and> up_username u = '''' \<and> up_password u = '''' \<and> up_search u = '''' \<and> up_hash u = ''''
          \<and> (up_pathname u = '''' \<or> up_pathname u = ''/'')
          \<and> (up_port u = '''' \<or> (case to_number (up_port u) of
               Fin r \<Rightarrow> r = of_int \<lfloor>r\<rfloor> \<and> 1 \<le> r \<and> r \<le> 65535 | _ \<Rightarrow> False)))"

definition blank_or :: "(string \<Rightarrow> bool) \<Rightarrow> string \<Rightarrow> bool" where
  "blank_or P s \<longleftrightarrow> s = '''' \<or> P s"

text \<open>
  \<open>length\<close> of a text counts UTF-16 units: a character outside the basic plane, four bytes long, counts twice.
\<close>

definition utf16_units :: "string \<Rightarrow> nat" where
  "utf16_units s =
     sum_list (map (\<lambda>c. if of_char c < (128::nat) then 1 else if of_char c < (192::nat) then 0
                        else if of_char c < (240::nat) then 1 else 2) s)"

definition oidcClientIDValid :: "string \<Rightarrow> bool" where
  "oidcClientIDValid = blank_or (\<lambda>s. list_all (\<lambda>c. c \<notin> set [CHR 0x00, CHR 0x0D, CHR 0x0A, CHR 0x09]) s \<and> utf16_units s \<le> 512)"

definition oidcScopesValid :: "string list \<Rightarrow> bool" where
  "oidcScopesValid scopes \<longleftrightarrow>
     scopes \<noteq> [] \<and> length scopes \<le> 32 \<and> ''openid'' \<in> set scopes
     \<and> list_all (\<lambda>scope. utf16_units scope \<le> 128 \<and> \<not> list_ex is_ws scope) scopes"

definition oidcClientSecretReady :: "oidc_settings \<Rightarrow> bool" where
  "oidcClientSecretReady st \<longleftrightarrow>
     oi_tokenAuthMethod st = NoAuth \<or> trim (oi_clientSecret st) \<noteq> '''' \<or> (oi_clientSecretSet st \<and> \<not> oi_clientSecretClear st)"

definition oidcFormValid :: "address_parser \<Rightarrow> oidc_settings \<Rightarrow> bool" where
  "oidcFormValid url st \<longleftrightarrow>
     blank_or (\<lambda>s. isValidOIDCEndpoint url s False) (trim (oi_issuer st))
     \<and> blank_or (\<lambda>s. isValidOIDCEndpoint url s True) (trim (oi_authorizationEndpoint st))
     \<and> blank_or (\<lambda>s. isValidOIDCEndpoint url s False) (trim (oi_tokenEndpoint st))
     \<and> blank_or (\<lambda>s. isValidOIDCEndpoint url s False) (trim (oi_userInfoEndpoint st))
     \<and> blank_or (\<lambda>s. isValidOIDCEndpoint url s False) (trim (oi_jwksEndpoint st))
     \<and> oidcClientIDValid (trim (oi_clientID st))
     \<and> oidcScopesValid (scope_words (oi_scopes st))
     \<and> (\<not> oi_enabled st \<or>
          trim (oi_authorizationEndpoint st) \<noteq> '''' \<and> trim (oi_tokenEndpoint st) \<noteq> '''' \<and> trim (oi_clientID st) \<noteq> ''''
          \<and> oidcClientSecretReady st
          \<and> (if oi_requireIDToken st then trim (oi_issuer st) \<noteq> '''' else trim (oi_userInfoEndpoint st) \<noteq> ''''))"

definition ldapTLSModeValid :: "ldap_settings \<Rightarrow> bool" where
  "ldapTLSModeValid st \<longleftrightarrow> \<not> (starts_with (lower (trim (ld_url st))) ''ldaps://'' \<and> ld_startTLS st)"

definition ldapFormValid :: "address_parser \<Rightarrow> ldap_settings \<Rightarrow> bool" where
  "ldapFormValid url st \<longleftrightarrow>
     \<not> ld_enabled st \<or>
       trim (ld_url st) \<noteq> '''' \<and> (trim (ld_url st) = '''' \<or> isValidLDAPURL url (ld_url st)) \<and> ldapTLSModeValid st
       \<and> (trim (ld_baseDN st) \<noteq> '''' \<or> trim (ld_userDNTemplate st) \<noteq> '''')"

definition wecomFormValid :: "wecom_settings \<Rightarrow> bool" where
  "wecomFormValid st \<longleftrightarrow>
     blank_or (\<lambda>s. list_all (\<lambda>c. \<not> is_ws c \<and> c \<notin> set ''/@?#'' \<and> c \<noteq> CHR 0x5C) s \<and> utf16_units s \<le> 256) (trim (wc_corpID st))
     \<and> blank_or (\<lambda>s. all_digits s \<and> length s \<le> 32) (trim (wc_agentID st))
     \<and> (\<not> wc_enabled st \<or>
          trim (wc_corpID st) \<noteq> '''' \<and> (trim (wc_agentSecret st) \<noteq> '''' \<or> (wc_agentSecretSet st \<and> \<not> wc_agentSecretClear st)))"

section \<open>The licence form\<close>

record license_form =
  lf_licensee :: string
  lf_contact :: string
  lf_serial :: string
  lf_issued_at :: string
  lf_expires_at :: string
  lf_notes :: string
  lf_features :: string

definition defaultLocalLicenseForm :: license_form where
  "defaultLocalLicenseForm = \<lparr>lf_licensee = '''', lf_contact = '''', lf_serial = '''', lf_issued_at = '''', lf_expires_at = ''never'',
     lf_notes = '''', lf_features = ''ssh, rdp, vnc, web, database, audit, gateway, identity, backup''\<rparr>"

definition license_features :: "js_object \<Rightarrow> string list" where
  "license_features info =
     (case stringArrayValue (obj_get info ''features'') of
        [] \<Rightarrow> map (\<lambda>m. stringValue (obj_get m ''key''))
                (filter (\<lambda>m. truthy (obj_get m ''enabled'')) (objectArrayValue (obj_get info ''modules'')))
      | fs \<Rightarrow> fs)"

definition localLicenseFormFromInfo :: "js_object \<Rightarrow> license_form" where
  "localLicenseFormFromInfo info =
     (let s = (\<lambda>k. stringValue (obj_get info k))
      in \<lparr>lf_licensee = s ''licensee'', lf_contact = s ''contact'', lf_serial = s ''serial'', lf_issued_at = s ''issued_at'',
          lf_expires_at = or_str (s ''expires_at'') ''never'', lf_notes = s ''notes'', lf_features = join '', '' (license_features info)\<rparr>)"

definition splitLicenseFeatures :: "string \<Rightarrow> string list" where
  "splitLicenseFeatures v = trimmed (split_runs (\<lambda>c. c = CHR '','' \<or> c = CHR '';'' \<or> c = CHR 0x0A) v)"

definition license_body :: "license_form \<Rightarrow> js_object" where
  "license_body st =
     [(''licensee'', JStr (trim (lf_licensee st))), (''contact'', JStr (trim (lf_contact st))),
      (''serial'', JStr (trim (lf_serial st))), (''issued_at'', JStr (trim (lf_issued_at st))),
      (''expires_at'', JStr (trim (lf_expires_at st))), (''notes'', JStr (trim (lf_notes st))),
      (''features'', JArr (map JStr (splitLicenseFeatures (lf_features st))))]"

definition usage_of :: "js_object \<Rightarrow> string list \<Rightarrow> rat" where
  "usage_of usage ks = sum_list (map (\<lambda>k. numberValue (obj_get usage k)) ks)"

definition licenseUsageSummary :: "js_object option \<Rightarrow> string" where
  "licenseUsageSummary info =
     (case info of
        None \<Rightarrow> ''-''
      | Some i \<Rightarrow>
          (let usage = recordValue (obj_get i ''usage''); n = (\<lambda>ks. num_text (Fin (usage_of usage ks)))
           in n [''users''] @ '' users / '' @ n [''assets'', ''web_assets'', ''database_assets''] @ '' assets / ''
              @ n [''agent_gateways'', ''ssh_gateways''] @ '' gateways''))"

section \<open>Login policies and locks\<close>

definition loginPolicyAction :: "platform_item \<Rightarrow> string" where
  "loginPolicyAction policy =
     (if lower (trim (or_str (setting_text (meta policy ''action'')) (it_type policy))) = ''allow'' then ''allow'' else ''deny'')"

definition loginPolicyAccount :: "platform_item \<Rightarrow> string" where
  "loginPolicyAccount policy = first_setting (stored_meta policy) [''account'', ''username''] (or_str (it_username policy) ''*'')"

definition loginPolicyCIDR :: "platform_item \<Rightarrow> string" where
  "loginPolicyCIDR policy =
     first_setting (stored_meta policy) [''cidr'', ''client_ip''] (or_str (it_host policy) (or_str (it_target_id policy) ''*''))"

definition loginPolicyPriority :: "platform_item \<Rightarrow> string" where
  "loginPolicyPriority policy =
     (case meta policy ''priority'' of JNum n \<Rightarrow> num_text n | JStr s \<Rightarrow> s | _ \<Rightarrow> ''0'')"

definition loginPolicyExpiresAt :: "(string \<Rightarrow> string) \<Rightarrow> platform_item \<Rightarrow> string" where
  "loginPolicyExpiresAt formatDate policy =
     (let v = setting_text (meta policy ''expires_at'') in if v \<noteq> '''' then formatDate v else ''-'')"

definition loginLockAccount :: "platform_item \<Rightarrow> string" where
  "loginLockAccount lock =
     first_setting (stored_meta lock) [''account'', ''username''] (or_str (it_username lock) (or_str (it_name lock) ''*''))"

definition loginLockClientIP :: "platform_item \<Rightarrow> string" where
  "loginLockClientIP lock = first_setting (stored_meta lock) [''client_ip''] (or_str (it_host lock) ''*'')"

definition loginLockUntil :: "platform_item \<Rightarrow> string" where
  "loginLockUntil lock = first_setting (stored_meta lock) [''locked_until''] ''-''"

definition loginLockFailureCount :: "platform_item \<Rightarrow> string" where
  "loginLockFailureCount lock = first_setting (stored_meta lock) [''failure_count''] ''0''"

section \<open>Numbers\<close>

lemma clamp_bounds: "lo \<le> hi \<Longrightarrow> lo \<le> clampSettingNumber (Fin r) lo hi d \<and> clampSettingNumber (Fin r) lo hi d \<le> hi"
  by (simp add: clampSettingNumber_def)

lemma clamp_whole [simp]: "clampSettingNumber (Fin (of_int n)) lo hi d = min hi (max lo n)"
  by (simp add: clampSettingNumber_def js_trunc_def)

lemma byKeys_bounds:
  "lo \<le> hi \<Longrightarrow> lo \<le> d \<Longrightarrow> d \<le> hi \<Longrightarrow> lo \<le> metadataNumberByKeys m ks d lo hi \<and> metadataNumberByKeys m ks d lo hi \<le> hi"
  by (induction ks) (auto simp: clamp_bounds split: option.splits)

lemma byKeys_first:
  "obj_get m k = JNum (Fin (of_int n)) \<Longrightarrow> lo \<le> n \<Longrightarrow> n \<le> hi \<Longrightarrow> metadataNumberByKeys m (k # ks) d lo hi = n"
  by (simp add: metadataNumberValue_def)

definition login_numbers_ok :: "login_security \<Rightarrow> bool" where
  "login_numbers_ok st \<longleftrightarrow> 1 \<le> ls_threshold st \<and> ls_threshold st \<le> 50 \<and> 1 \<le> ls_window st \<and> ls_window st \<le> 1440
     \<and> 1 \<le> ls_lockMinutes st \<and> ls_lockMinutes st \<le> 1440"

lemma read_candidate_ok: "login_numbers_ok st \<Longrightarrow> login_numbers_ok (read_candidate item st)"
  by (simp add: login_numbers_ok_def read_candidate_def Let_def byKeys_bounds)

lemma fold_read_ok: "login_numbers_ok st \<Longrightarrow> login_numbers_ok (fold read_candidate items st)"
  by (induction items arbitrary: st) (simp_all add: read_candidate_ok)

section \<open>Texts\<close>

lemma setting_text_simps [simp]:
  "setting_text (JStr s) = s" "setting_text JUndefined = ''''" "setting_text JNull = ''''"
  by (simp_all add: setting_text_def)

lemma metadataTruthy_simps [simp]:
  "metadataTruthy (JBool b) = b" "metadataTruthy JUndefined = False"
  by (simp_all add: metadataTruthy_def metadataBoolValue_def)

lemma first_setting_set:
  "obj_get m k = JStr s \<Longrightarrow> list_all (\<lambda>k'. obj_get m k' = JUndefined) ks \<Longrightarrow> first_setting m (k # ks) d = or_str s d"
proof -
  assume k: "obj_get m k = JStr s" and ks: "list_all (\<lambda>k'. obj_get m k' = JUndefined) ks"
  have "first_setting m ks d = d" using ks by (induction ks) (simp_all add: or_str_def)
  with k show ?thesis by simp
qed

lemma or_str_simps [simp]: "or_str s '''' = s" "or_str (or_str s t) u = (if s = '''' then or_str t u else s)"
  by (simp_all add: or_str_def)

lemma or_str_blank: "or_str '''' t = t" and or_str_typed: "s \<noteq> '''' \<Longrightarrow> or_str s t = s"
  by (simp_all add: or_str_def)

lemma normalize_token_auth [simp]: "normalizeOIDCTokenAuthMethod (token_auth_text a) = a"
  by (cases a) (simp_all add: normalizeOIDCTokenAuthMethod_def token_auth_text_def)

lemma setting_list_text_array [simp]:
  "list_all (\<lambda>s. s \<noteq> '''') xs \<Longrightarrow> setting_list_text (JArr (map JStr xs)) = join '' '' xs"
  by (simp add: setting_list_text_def comp_def filter_id_conv list_all_iff)

lemma scope_words_nonempty: "list_all (\<lambda>s. s \<noteq> '''') (scope_words v)"
  by (simp add: scope_words_def list_all_iff)

section \<open>Properties of the readers\<close>

text \<open>
  whatever the stored settings hold, the numbers of the login security form are within the limits its inputs
  announce: 1 to 50 failures, and 1 to 1440 minutes for the window and the lock.
\<close>
theorem login_security_in_bounds:
  "let st = loginSecurityFromSettings items captcha passwordDisabled
   in (1 \<le> ls_threshold st \<and> ls_threshold st \<le> 50) \<and> (1 \<le> ls_window st \<and> ls_window st \<le> 1440)
      \<and> (1 \<le> ls_lockMinutes st \<and> ls_lockMinutes st \<le> 1440)"
proof -
  have "login_numbers_ok \<lparr>ls_captchaEnabled = captcha, ls_passwordLoginDisabled = passwordDisabled, ls_forceMFARequired = False,
      ls_threshold = 5, ls_window = 15, ls_lockMinutes = 5, ls_setting = None\<rparr>"
    by (simp add: login_numbers_ok_def)
  from fold_read_ok [OF this, of "login_candidates items"] show ?thesis
    by (simp add: loginSecurityFromSettings_def login_numbers_ok_def Let_def)
qed

definition retention_ok :: "retention \<Rightarrow> bool" where
  "retention_ok st \<longleftrightarrow>
     list_all (\<lambda>n. 0 \<le> n \<and> n \<le> 36500)
       [rt_session st, rt_login st, rt_scheduledTask st, rt_operation st, rt_file st, rt_access st, rt_sql st, rt_execCommand st]"

lemma retention_ok_patch: "retention_ok st \<Longrightarrow> retention_ok (patchRetentionSettings k v st)"
  by (cases k) (simp_all add: patchRetentionSettings_def retention_ok_def Let_def)

lemma retention_ok_default: "retention_ok defaultRetentionSettings"
  by (simp add: retention_ok_def defaultRetentionSettings_def)

lemma retention_ok_read: "retention_ok (retentionSettingsFromSettings items)"
proof -
  have "retention_ok ((retention_of m)\<lparr>rt_setting := s\<rparr>)" for m s
    by (simp add: retention_of_def retention_ok_def Let_def byKeys_bounds del: metadataNumberByKeys.simps)
  then show ?thesis
    by (simp add: retentionSettingsFromSettings_def retention_ok_default split: option.splits)
qed

lemma retention_of_metadata: "retention_ok st \<Longrightarrow> retention_of (retention_metadata st) = st\<lparr>rt_setting := None\<rparr>"
  by (simp add: retention_of_def retention_metadata_def retention_ok_def Let_def obj_get_def metadataNumberValue_def)

text \<open>
  the retention form survives saving: reading the record that carries the saved metadata gives back every number
  of the form, whatever other settings stand behind it in the list.
\<close>
theorem retention_roundtrip:
  assumes "retention_ok st" and "platformItemEnabled saved" and "setting_type saved = ''retention''"
    and "it_metadata saved = Some (retention_metadata st)"
  shows "retentionSettingsFromSettings (saved # others) = st\<lparr>rt_setting := Some saved\<rparr>"
  using assms by (simp add: retentionSettingsFromSettings_def stored_meta_def retention_of_metadata)

lemma retention_roundtrip_witness:
  "rt_sql (retentionSettingsFromSettings
     [blank_item\<lparr>it_type := ''retention'', it_metadata := Some (retention_metadata (defaultRetentionSettings\<lparr>rt_sql := 7\<rparr>))\<rparr>]) = 7"
proof -
  let ?st = "defaultRetentionSettings\<lparr>rt_sql := 7\<rparr>"
  let ?saved = "blank_item\<lparr>it_type := ''retention'', it_metadata := Some (retention_metadata ?st)\<rparr>"
  have "retention_ok ?st" "platformItemEnabled ?saved" "setting_type ?saved = ''retention''"
    by (code_simp, code_simp, code_simp)
  from retention_roundtrip [OF this, of "[]"] show ?thesis by simp
qed

definition oidc_aliases :: "string list" where
  "oidc_aliases = [''external_oidc_enabled'', ''provider_name'', ''issuer'', ''issuer_url'', ''authorization_endpoint'',
     ''authorize_endpoint'', ''token_endpoint'', ''userinfo_endpoint'', ''user_info_endpoint'', ''jwks_uri'', ''jwks_endpoint'',
     ''jwks_url'', ''client_id'', ''token_endpoint_auth_method'', ''oidc_auth_method'', ''scope'', ''scopes'', ''role'']"

definition oidc_keys :: "string list" where
  "oidc_keys = [''oidc_login_enabled'', ''oidc_provider_id'', ''oidc_provider_name'', ''oidc_issuer'',
     ''oidc_authorization_endpoint'', ''oidc_token_endpoint'', ''oidc_userinfo_endpoint'', ''oidc_jwks_uri'', ''oidc_client_id'',
     ''oidc_scopes'', ''oidc_token_endpoint_auth_method'', ''oidc_require_id_token'', ''oidc_role'', ''oidc_auto_create'']"

lemma oidc_saved_keys: "map fst (oidc_saved st) = oidc_keys"
  by (simp add: oidc_saved_def oidc_keys_def)

lemma oidc_keys_other: "list_all (\<lambda>k. k \<noteq> ''oidc_client_secret'' \<and> k \<noteq> ''oidc_client_secret_clear'') oidc_keys"
  by code_simp

lemma oidc_keys_distinct: "distinct oidc_keys"
  by code_simp

lemma oidc_aliases_other:
  "list_all (\<lambda>k. k \<notin> set oidc_keys \<and> k \<noteq> ''oidc_client_secret'' \<and> k \<noteq> ''oidc_client_secret_clear'') oidc_aliases"
  by code_simp

text \<open>The form as it comes back: texts trimmed, secrets gone, defaults filled in.\<close>

definition oidc_normal :: "bool \<Rightarrow> oidc_settings \<Rightarrow> oidc_settings" where
  "oidc_normal secretSet st =
     st\<lparr>oi_providerName := or_str (trim (oi_providerName st)) ''OIDC'', oi_issuer := trim (oi_issuer st),
        oi_authorizationEndpoint := trim (oi_authorizationEndpoint st), oi_tokenEndpoint := trim (oi_tokenEndpoint st),
        oi_userInfoEndpoint := trim (oi_userInfoEndpoint st), oi_jwksEndpoint := trim (oi_jwksEndpoint st),
        oi_clientID := trim (oi_clientID st), oi_clientSecret := '''', oi_clientSecretSet := secretSet, oi_clientSecretClear := False,
        oi_scopes := join '' '' (scope_words (oi_scopes st)), oi_role := or_str (oi_role st) ''user'', oi_setting := None\<rparr>"

lemma secret_fields_keys: "k \<noteq> key \<Longrightarrow> k \<noteq> key @ ''_clear'' \<Longrightarrow> map_of (secret_fields key s c) k = None"
  by (simp add: secret_fields_def)

lemma secret_fields_distinct [simp]: "distinct (map fst (secret_fields key s c))"
  by (simp add: secret_fields_def)

lemma obj_get_provider_metadata:
  assumes "distinct (map fst fs)" "k \<noteq> key" "k \<noteq> key @ ''_clear''"
  shows "obj_get (provider_metadata old fs key s c) k = (case map_of fs k of Some v \<Rightarrow> v | None \<Rightarrow> obj_get old k)"
  using assms by (simp add: provider_metadata_def obj_get_set_all secret_fields_keys)

lemma first_setting_old:
  "list_all (\<lambda>k. obj_get m k = JUndefined) ks \<Longrightarrow> first_setting m ks d = d"
  by (induction ks) (simp_all add: or_str_def)

text \<open>C17 the OIDC form survives saving: what the page reads from the saved metadata is the form that was saved, with its
  texts trimmed, the secret gone and empty fields at their defaults, provided the record carries none of the older
  names of the settings and the scopes are not empty, as the form demands.
\<close>
theorem oidc_roundtrip:
  assumes old: "list_all (\<lambda>k. obj_get old k = JUndefined) oidc_aliases" and scopes: "oidcScopesValid (scope_words (oi_scopes st))"
  shows "oidc_of (oidc_metadata old st) nm = oidc_normal (metadataTruthy (obj_get old ''oidc_client_secret_set'')) st"
proof -
  let ?m = "oidc_metadata old st"
  have get: "obj_get ?m k = (case map_of (oidc_saved st) k of Some v \<Rightarrow> v | None \<Rightarrow> obj_get old k)"
    if "k \<noteq> ''oidc_client_secret''" "k \<noteq> ''oidc_client_secret_clear''" for k
    unfolding oidc_metadata_def by (rule obj_get_provider_metadata) (use that in \<open>simp_all add: oidc_saved_def\<close>)
  have older: "obj_get ?m k = JUndefined" if "k \<in> set oidc_aliases" for k
  proof -
    have "k \<noteq> ''oidc_client_secret''" "k \<noteq> ''oidc_client_secret_clear''" "k \<notin> set oidc_keys"
      using that oidc_aliases_other by (auto simp: list_all_iff)
    moreover have "map_of (oidc_saved st) k = None"
      using \<open>k \<notin> set oidc_keys\<close> oidc_saved_keys [of st] by (metis list.set_map map_of_eq_None_iff)
    ultimately show ?thesis using get old that by (simp add: list_all_iff)
  qed
  have olders: "first_setting ?m ks d = d" if "set ks \<subseteq> set oidc_aliases" for ks d
    by (rule first_setting_old) (use that older in \<open>auto simp: list_all_iff\<close>)
  have scope_text: "or_str (join '' '' (scope_words (oi_scopes st))) d = join '' '' (scope_words (oi_scopes st))" for d
  proof -
    have "scope_words (oi_scopes st) \<noteq> []" "list_all (\<lambda>s. s \<noteq> '''') (scope_words (oi_scopes st))"
      using scopes scope_words_nonempty by (simp_all add: oidcScopesValid_def)
    then have "join '' '' (scope_words (oi_scopes st)) \<noteq> ''''"
      by (cases "scope_words (oi_scopes st)"; cases "tl (scope_words (oi_scopes st))") auto
    then show ?thesis by (simp add: or_str_def)
  qed
  have texts: "first_setting ?m (k # ks) d = or_str (setting_text (obj_get ?m k)) d" if "set ks \<subseteq> set oidc_aliases" for k ks d
    using that olders by simp
  have others: "k \<noteq> ''oidc_client_secret'' \<and> k \<noteq> ''oidc_client_secret_clear''" if "k \<in> set oidc_keys" for k
    using that oidc_keys_other by (simp add: list_all_iff)
  have distinct: "distinct (map fst (oidc_saved st))" unfolding oidc_saved_keys by (rule oidc_keys_distinct)
  have "list_all (\<lambda>(k, v). obj_get ?m k = v) (oidc_saved st)"
    unfolding list_all_iff
  proof clarify
    fix k v assume kv: "(k, v) \<in> set (oidc_saved st)"
    then have "k \<in> set oidc_keys" unfolding oidc_saved_keys [symmetric, of st] by force
    with others get map_of_is_SomeI [OF distinct kv] show "obj_get ?m k = v" by simp
  qed
  then have saved: "list_all (\<lambda>(k, v). obj_get ?m k = v) (oidc_saved st)" .
  note gets = saved [unfolded oidc_saved_def list.pred_inject prod.case]
  have secret: "obj_get ?m ''oidc_client_secret_set'' = obj_get old ''oidc_client_secret_set''"
    by (simp add: get oidc_saved_def)
  show ?thesis
    unfolding oidc_of_def oidc_normal_def Let_def
    using olders [of "[''scope'', ''scopes'']"] older [of "''external_oidc_enabled''"]
    by (intro oidc_settings.equality)
      (simp_all add: texts gets secret oidc_aliases_def scope_words_nonempty scope_text bool_or_default_def
        or_str_blank or_str_typed del: first_setting.simps)
qed

definition oidc_sample :: oidc_settings where
  "oidc_sample = defaultOIDCSettings\<lparr>oi_clientID := '' web '', oi_scopes := ''openid, email''\<rparr>"

lemma oidc_roundtrip_witness:
  "oi_clientID (oidc_of (oidc_metadata [(''note'', JStr ''kept'')] oidc_sample) ''x'') = ''web''"
proof -
  have "list_all (\<lambda>k. obj_get [(''note'', JStr ''kept'')] k = JUndefined) oidc_aliases"
    and "oidcScopesValid (scope_words (oi_scopes oidc_sample))"
    by (code_simp, code_simp)
  from oidc_roundtrip [OF this, of "''x''"] show ?thesis
    by (simp add: oidc_normal_def oidc_sample_def) code_simp
qed

text \<open>
  What the address check of an enabled provider comes to: the authorisation and token addresses, and the issuer or, where no
  identity token is required, the user-information address, are \<open>https\<close> addresses, or \<open>http\<close> addresses of a host
  called \<open>localhost\<close> or beginning with \<open>127.\<close> (which other machines may be too), without a user name or a password.
\<close>
theorem oidc_endpoints_encrypted:
  assumes "oidcFormValid url st" and "oi_enabled st"
    and "address \<in> {trim (oi_authorizationEndpoint st), trim (oi_tokenEndpoint st)} \<union>
      (if oi_requireIDToken st then {trim (oi_issuer st)} else {trim (oi_userInfoEndpoint st)})"
  shows "\<exists>u. url address = Some u \<and> up_username u = '''' \<and> up_password u = '''' \<and> up_hostname u \<noteq> '''' \<and>
    (up_protocol u = ''https:'' \<or> up_protocol u = ''http:'' \<and> loopback_host (lower (up_hostname u)))"
proof -
  have valid: "\<exists>u. url (trim v) = Some u \<and> up_username u = '''' \<and> up_password u = '''' \<and> up_hostname u \<noteq> '''' \<and>
      (up_protocol u = ''https:'' \<or> up_protocol u = ''http:'' \<and> loopback_host (lower (up_hostname u)))"
    if "isValidOIDCEndpoint url (trim v) q" for v q
    using that by (auto simp: isValidOIDCEndpoint_def split: option.splits)
  have "\<exists>v q. address = trim v \<and> isValidOIDCEndpoint url (trim v) q"
    using assms unfolding oidcFormValid_def blank_or_def by (auto split: if_splits)
  with valid show ?thesis by blast
qed

definition https_only :: address_parser where
  "https_only s = (if s = '''' then None else
     Some \<lparr>up_protocol = ''https:'', up_hostname = s, up_port = '''', up_username = '''', up_password = '''', up_pathname = ''/'',
       up_search = '''', up_hash = ''''\<rparr>)"

definition oidc_enabled_sample :: oidc_settings where
  "oidc_enabled_sample = oidc_sample\<lparr>oi_enabled := True, oi_authorizationEndpoint := ''sso'', oi_tokenEndpoint := ''sso'',
     oi_issuer := ''sso'', oi_tokenAuthMethod := NoAuth\<rparr>"

lemma oidc_endpoints_encrypted_witness:
  "\<exists>u. https_only ''sso'' = Some u \<and> up_username u = '''' \<and> up_password u = '''' \<and> up_hostname u \<noteq> '''' \<and>
    (up_protocol u = ''https:'' \<or> up_protocol u = ''http:'' \<and> loopback_host (lower (up_hostname u)))"
proof -
  have "oidcFormValid https_only oidc_enabled_sample" "oi_enabled oidc_enabled_sample"
    and "''sso'' \<in> {trim (oi_authorizationEndpoint oidc_enabled_sample), trim (oi_tokenEndpoint oidc_enabled_sample)} \<union>
      (if oi_requireIDToken oidc_enabled_sample then {trim (oi_issuer oidc_enabled_sample)}
       else {trim (oi_userInfoEndpoint oidc_enabled_sample)})"
    by (code_simp, code_simp, code_simp)
  then show ?thesis by (rule oidc_endpoints_encrypted)
qed

end
