(* ===== verification/Handlers.thy ===== *)
theory Handlers
  imports Dialogs
begin

text \<open>
  The shape shared by the asynchronous handlers of a page: the body of a \<open>try\<close> is a sequence of state updates,
  toasts and awaited requests that stops at the first exception; \<open>catch\<close> reports the exception and \<open>finally\<close> clears
  the busy flag. A body maps a state and a log to an exception or nothing, the state reached and the longer log, so
  that updates made before an exception stay made, as they do in the page.
\<close>

named_theorems sends_rules \<open>which requests the parts of a body send\<close>

type_synonym 's proc = "'s \<times> log \<Rightarrow> exn option \<times> 's \<times> log"

definition skip :: "'s proc" where
  "skip = (\<lambda>(st, l). (None, st, l))"

definition throw :: "exn \<Rightarrow> 's proc" where
  "throw e = (\<lambda>(st, l). (Some e, st, l))"

definition update :: "('s \<Rightarrow> 's) \<Rightarrow> 's proc" where
  "update f = (\<lambda>(st, l). (None, f st, l))"

definition act :: "(log \<Rightarrow> log) \<Rightarrow> 's proc" where
  "act f = (\<lambda>(st, l). (None, st, f l))"

definition andthen :: "'s proc \<Rightarrow> 's proc \<Rightarrow> 's proc" where
  "andthen p q = (\<lambda>s. case p s of (Some e, s') \<Rightarrow> (Some e, s') | (None, s') \<Rightarrow> q s')"

primrec steps :: "'s proc list \<Rightarrow> 's proc" where
  "steps [] = skip"
| "steps (p # ps) = andthen p (steps ps)"

definition awaited :: "env \<Rightarrow> request \<Rightarrow> (jsval \<Rightarrow> 's proc) \<Rightarrow> 's proc" where
  "awaited ev rq k = (\<lambda>(st, l). case apiRequest ev rq l of (Inl e, l') \<Rightarrow> (Some e, st, l') | (Inr v, l') \<Rightarrow> k v (st, l'))"

definition read_prop :: "jsval \<Rightarrow> string \<Rightarrow> (jsval \<Rightarrow> 's proc) \<Rightarrow> 's proc" where
  "read_prop v k cont = (case js_prop v k of Inl e \<Rightarrow> throw e | Inr x \<Rightarrow> cont x)"

text \<open>\<open>set(true); try { body } catch (error) { handleApiError(error) } finally { set(false) }\<close>\<close>

definition try_busy :: "(bool \<Rightarrow> 's \<Rightarrow> 's) \<Rightarrow> 's proc \<Rightarrow> 's \<Rightarrow> log \<Rightarrow> 's \<times> log" where
  "try_busy busy body st l =
     (case body (busy True st, l) of
        (None, st', l') \<Rightarrow> (busy False st', l')
      | (Some e, st', l') \<Rightarrow> (busy False st', report e l'))"

section \<open>What a body sends\<close>

definition sends :: "(request \<Rightarrow> bool) \<Rightarrow> 's proc \<Rightarrow> bool" where
  "sends P p \<longleftrightarrow> (\<forall>st l. \<exists>new. calls (snd (snd (p (st, l)))) = calls l @ new \<and> list_all P new)"

definition quiet :: "(log \<Rightarrow> log) \<Rightarrow> bool" where
  "quiet f \<longleftrightarrow> (\<forall>l. calls (f l) = calls l)"

lemma quiet_rules [sends_rules]: "quiet (toast m)" "quiet (refresh b)" "quiet (report e)" "quiet permission_denied"
  by (simp_all add: quiet_def)

lemma sends_skip [sends_rules]: "sends P skip"
  by (simp add: sends_def skip_def)

lemma sends_throw [sends_rules]: "sends P (throw e)"
  by (simp add: sends_def throw_def)

lemma sends_update [sends_rules]: "sends P (update f)"
  by (simp add: sends_def update_def)

lemma sends_act [sends_rules]: "quiet f \<Longrightarrow> sends P (act f)"
  by (simp add: sends_def act_def quiet_def)

lemma sends_andthen [sends_rules]:
  assumes p: "sends P p" and q: "sends P q"
  shows "sends P (andthen p q)"
  unfolding sends_def
proof (intro allI)
  fix st l
  obtain r st1 l1 where run: "p (st, l) = (r, st1, l1)" by (cases "p (st, l)") auto
  obtain n1 where n1: "calls l1 = calls l @ n1" "list_all P n1"
    using p [unfolded sends_def, rule_format, of st l] run by auto
  obtain n2 where "calls (snd (snd (q (st1, l1)))) = calls l1 @ n2" "list_all P n2"
    using q [unfolded sends_def, rule_format, of st1 l1] by auto
  with n1 run show "\<exists>new. calls (snd (snd (andthen p q (st, l)))) = calls l @ new \<and> list_all P new"
    by (cases r) (auto simp: andthen_def)
qed

lemma sends_steps [sends_rules]: "list_all (sends P) ps \<Longrightarrow> sends P (steps ps)"
  by (induction ps) (simp_all add: sends_rules)

lemma sends_awaited [sends_rules]:
  assumes "P rq" and k: "\<And>v. sends P (k v)"
  shows "sends P (awaited ev rq k)"
  unfolding sends_def
proof (intro allI)
  fix st l
  show "\<exists>new. calls (snd (snd (awaited ev rq k (st, l)))) = calls l @ new \<and> list_all P new"
  proof (cases rule: apiRequest_cases [of ev rq l])
    case (error e)
    then show ?thesis using assms(1) by (simp add: awaited_def)
  next
    case (ok v)
    obtain n where "calls (snd (snd (k v (st, l @ [Call rq])))) = calls (l @ [Call rq]) @ n" "list_all P n"
      using k [of v, unfolded sends_def, rule_format, of st "l @ [Call rq]"] by auto
    with ok assms(1) show ?thesis by (simp add: awaited_def)
  qed
qed

lemma sends_read_prop [sends_rules]: "(\<And>x. sends P (k x)) \<Longrightarrow> sends P (read_prop v s k)"
  by (auto simp: read_prop_def sends_throw split: sum.splits)

lemma sends_if [sends_rules]: "(b \<Longrightarrow> sends P p) \<Longrightarrow> (\<not> b \<Longrightarrow> sends P q) \<Longrightarrow> sends P (if b then p else q)"
  by simp

definition handler_sends :: "(request \<Rightarrow> bool) \<Rightarrow> ('s \<Rightarrow> log \<Rightarrow> 's \<times> log) \<Rightarrow> bool" where
  "handler_sends P h \<longleftrightarrow> (\<forall>st l. \<exists>new. calls (snd (h st l)) = calls l @ new \<and> list_all P new)"

lemma handler_try [sends_rules]:
  assumes "sends P p"
  shows "handler_sends P (try_busy busy p)"
  unfolding handler_sends_def
proof (intro allI)
  fix st l
  obtain r st' l' where run: "p (busy True st, l) = (r, st', l')" by (cases "p (busy True st, l)") auto
  then show "\<exists>new. calls (snd (try_busy busy p st l)) = calls l @ new \<and> list_all P new"
    using assms [unfolded sends_def, rule_format, of "busy True st" l] by (cases r) (auto simp: try_busy_def)
qed

lemma handler_quiet [sends_rules]: "quiet f \<Longrightarrow> handler_sends P (\<lambda>st l. (st, f l))"
  by (simp add: handler_sends_def quiet_def)

lemma handler_if [sends_rules]:
  "(b \<Longrightarrow> handler_sends P h) \<Longrightarrow> (\<not> b \<Longrightarrow> handler_sends P g) \<Longrightarrow> handler_sends P (\<lambda>st l. if b then h st l else g st l)"
  by (cases b) simp_all

lemma handler_confirmed [sends_rules]:
  assumes "handler_sends P h"
  shows "handler_sends P (\<lambda>st l. case confirm ev m l of (False, l1) \<Rightarrow> (st, l1) | (True, l1) \<Rightarrow> h st l1)"
  unfolding handler_sends_def
proof (intro allI)
  fix st l
  show "\<exists>new. calls (snd (case confirm ev m l of (False, l1) \<Rightarrow> (st, l1) | (True, l1) \<Rightarrow> h st l1)) = calls l @ new \<and> list_all P new"
    using assms [unfolded handler_sends_def, rule_format, of st "l @ [Confirm m]"]
    by (cases "ev_confirm ev (l @ [Confirm m])") (simp_all add: confirm_eq)
qed

section \<open>What a body keeps\<close>

named_theorems keeps_rules \<open>which conditions on the state the parts of a body keep\<close>

definition keeps :: "('s \<Rightarrow> bool) \<Rightarrow> 's proc \<Rightarrow> bool" where
  "keeps I p \<longleftrightarrow> (\<forall>st l. I st \<longrightarrow> I (fst (snd (p (st, l)))))"

definition handler_keeps :: "('s \<Rightarrow> bool) \<Rightarrow> ('s \<Rightarrow> log \<Rightarrow> 's \<times> log) \<Rightarrow> bool" where
  "handler_keeps I h \<longleftrightarrow> (\<forall>st l. I st \<longrightarrow> I (fst (h st l)))"

lemma keeps_simple [keeps_rules]:
  "keeps I skip" "keeps I (throw e)" "keeps I (act g)" "(\<And>st. I st \<Longrightarrow> I (f st)) \<Longrightarrow> keeps I (update f)"
  by (simp_all add: keeps_def skip_def throw_def act_def update_def)

lemma keeps_andthen [keeps_rules]: "keeps I p \<Longrightarrow> keeps I q \<Longrightarrow> keeps I (andthen p q)"
  unfolding keeps_def andthen_def by (auto split: prod.splits option.splits) (metis fst_conv snd_conv)+

lemma keeps_steps [keeps_rules]: "list_all (keeps I) ps \<Longrightarrow> keeps I (steps ps)"
  by (induction ps) (simp_all add: keeps_rules)

lemma keeps_awaited [keeps_rules]: "(\<And>v. keeps I (k v)) \<Longrightarrow> keeps I (awaited ev rq k)"
  unfolding keeps_def awaited_def by (auto split: prod.splits sum.splits)

lemma keeps_read_prop [keeps_rules]: "(\<And>x. keeps I (k x)) \<Longrightarrow> keeps I (read_prop v s k)"
  by (auto simp: read_prop_def keeps_rules split: sum.splits)

lemma keeps_if [keeps_rules]: "keeps I p \<Longrightarrow> keeps I q \<Longrightarrow> keeps I (if b then p else q)"
  by simp

lemma handler_keeps_try [keeps_rules]:
  "keeps I p \<Longrightarrow> (\<And>b st. I st \<Longrightarrow> I (busy b st)) \<Longrightarrow> handler_keeps I (try_busy busy p)"
  unfolding handler_keeps_def keeps_def try_busy_def
  by (auto split: prod.splits option.splits) (metis fst_conv snd_conv)+

lemma handler_keeps_simple [keeps_rules]:
  "handler_keeps I (\<lambda>st l. (st, g l))" "handler_keeps I (\<lambda>st l. (st, l))"
  "handler_keeps I h \<Longrightarrow> handler_keeps I h' \<Longrightarrow> handler_keeps I (\<lambda>st l. if b then h st l else h' st l)"
  "handler_keeps I h \<Longrightarrow> (\<And>v. handler_keeps I (g' v)) \<Longrightarrow>
     handler_keeps I (\<lambda>st l. case x of None \<Rightarrow> h st l | Some v \<Rightarrow> g' v st l)"
  "handler_keeps I h \<Longrightarrow> handler_keeps I (\<lambda>st l. case confirm ev m l of (False, l1) \<Rightarrow> (st, l1) | (True, l1) \<Rightarrow> h st l1)"
  unfolding handler_keeps_def by (auto split: option.splits prod.splits bool.splits)

section \<open>Running a body\<close>

declare steps.simps(2) [simp del]

lemmas proc_defs = skip_def throw_def update_def act_def andthen_def awaited_def read_prop_def

lemma steps_run [simp]:
  "steps [] (st, l) = (None, st, l)"
  "steps (update f # ps) (st, l) = steps ps (f st, l)"
  "steps (act g # ps) (st, l) = steps ps (st, g l)"
  "steps (throw e # ps) (st, l) = (Some e, st, l)"
  "steps (p # ps) (st, l) = (case p (st, l) of (Some e, s') \<Rightarrow> (Some e, s') | (None, s') \<Rightarrow> steps ps s')"
  by (simp_all add: steps.simps proc_defs split: prod.splits option.splits)

lemma atom_run [simp]:
  "skip (st, l) = (None, st, l)" "update f (st, l) = (None, f st, l)" "act g (st, l) = (None, st, g l)"
  "throw e (st, l) = (Some e, st, l)"
  by (simp_all add: proc_defs)

lemma awaited_run:
  "apiRequest ev rq l = (Inl e, l') \<Longrightarrow> awaited ev rq k (st, l) = (Some e, st, l')"
  "apiRequest ev rq l = (Inr v, l') \<Longrightarrow> awaited ev rq k (st, l) = k v (st, l')"
  by (simp_all add: awaited_def)

end
