(* ===== verification/SettingsPage.thy ===== *)
theory SettingsPage
  imports Settings Handlers Codec SignIn
begin

text \<open>
  The settings page (\<open>SettingsPage\<close> in \<open>settings-page.tsx\<close>): its state, what it loads, the handlers of its
  sections and the controls that start them. A handler is given what the render it belongs to had captured: the
  permissions and the two login flags of the application (\<open>settings_cx\<close>) and, as its first state argument, the state
  of that render; its body then works on the state of the moment.
\<close>

section \<open>State\<close>

datatype settings_busy =
    MFABusy | PasskeyBusy | SSHKeyBusy | LoginSecurityBusy | RetentionBusy | LoginPolicyBusy | LoginLockBusy
  | OIDCBusy | OIDCTestBusy | LDAPBusy | LDAPTestBusy | WeComBusy | WeComTestBusy | PasswordBusy | LicenseBusy

record policy_form =
  pf_name :: string
  pf_allow :: bool
  pf_account :: string
  pf_cidr :: string
  pf_priority :: int
  pf_expiresAt :: string

definition defaultLoginPolicyForm :: policy_form where
  "defaultLoginPolicyForm = \<lparr>pf_name = '''', pf_allow = False, pf_account = ''*'', pf_cidr = '''', pf_priority = 0, pf_expiresAt = ''''\<rparr>"

record password_form =
  pw_current :: string
  pw_new :: string
  pw_confirm :: string

definition blank_password_form :: password_form where
  "blank_password_form = \<lparr>pw_current = '''', pw_new = '''', pw_confirm = ''''\<rparr>"

record settings_page =
  sp_mfaStatus :: "jsval option"
  sp_mfaSetup :: "jsval option"
  sp_mfaCode :: string
  sp_mfaPassword :: string
  sp_recoveryCodes :: "jsval list"
  sp_passkeys :: "jsval list"
  sp_passkeyName :: string
  sp_sshKeys :: "jsval list"
  sp_sshKeyName :: string
  sp_sshKeyText :: string
  sp_loginSecurity :: login_security
  sp_retention :: retention
  sp_policies :: "platform_item list"
  sp_policyForm :: policy_form
  sp_locks :: "platform_item list"
  sp_oidc :: oidc_settings
  sp_ldap :: ldap_settings
  sp_ldapTestUsername :: string
  sp_ldapTestPassword :: string
  sp_wecom :: wecom_settings
  sp_passwordForm :: password_form
  sp_licenseInfo :: "jsval option"
  sp_licenseForm :: license_form
  sp_busy :: "settings_busy \<Rightarrow> bool"

record settings_cx =
  cx_can :: can_use
  cx_captchaRequired :: bool
  cx_passwordLoginDisabled :: bool
  cx_items :: "jsval \<Rightarrow> platform_item list"
  cx_item :: "jsval \<Rightarrow> platform_item"
  cx_url :: address_parser
  cx_iso :: "string \<Rightarrow> exn + string"
  cx_passkeySupported :: bool
  cx_secureContext :: bool
  cx_credential :: "creation_options \<Rightarrow> exn + attestation option"

definition settings_start :: "settings_cx \<Rightarrow> settings_page" where
  "settings_start cx =
     \<lparr>sp_mfaStatus = None, sp_mfaSetup = None, sp_mfaCode = '''', sp_mfaPassword = '''', sp_recoveryCodes = [], sp_passkeys = [],
      sp_passkeyName = '''', sp_sshKeys = [], sp_sshKeyName = '''', sp_sshKeyText = '''',
      sp_loginSecurity = \<lparr>ls_captchaEnabled = cx_captchaRequired cx, ls_passwordLoginDisabled = cx_passwordLoginDisabled cx,
        ls_forceMFARequired = False, ls_threshold = 5, ls_window = 15, ls_lockMinutes = 5, ls_setting = None\<rparr>,
      sp_retention = defaultRetentionSettings, sp_policies = [], sp_policyForm = defaultLoginPolicyForm, sp_locks = [],
      sp_oidc = defaultOIDCSettings, sp_ldap = defaultLDAPSettings, sp_ldapTestUsername = '''', sp_ldapTestPassword = '''',
      sp_wecom = defaultWeComSettings, sp_passwordForm = blank_password_form, sp_licenseInfo = None,
      sp_licenseForm = defaultLocalLicenseForm, sp_busy = (\<lambda>_. False)\<rparr>"

definition set_busy :: "settings_busy \<Rightarrow> bool \<Rightarrow> settings_page \<Rightarrow> settings_page" where
  "set_busy f b st = st\<lparr>sp_busy := (sp_busy st)(f := b)\<rparr>"

section \<open>Rights\<close>

definition settings_path :: string where
  "settings_path = ''/api/admin/system-settings''"

definition policies_path :: string where
  "policies_path = ''/api/admin/login-policies''"

definition locks_path :: string where
  "locks_path = ''/api/admin/login-locked''"

definition license_path :: string where
  "license_path = ''/api/admin/license''"

definition canReadSystemSettings :: "settings_cx \<Rightarrow> bool" where
  "canReadSystemSettings cx = cx_can cx ''GET'' settings_path"

text \<open>The record a save is about is given by its id; a missing or empty id means a new record.\<close>

definition setting_id :: "platform_item option \<Rightarrow> string" where
  "setting_id s = (case s of Some item \<Rightarrow> it_id item | None \<Rightarrow> '''')"

definition canSaveSystemSetting :: "settings_cx \<Rightarrow> string \<Rightarrow> bool" where
  "canSaveSystemSetting cx i =
     (if i \<noteq> '''' then cx_can cx ''PATCH'' (settings_path @ ''/'' @ i) else cx_can cx ''POST'' settings_path)"

section \<open>What the page loads\<close>

definition rows_of :: "jsval \<Rightarrow> jsval list" where
  "rows_of v = (case v of JArr xs \<Rightarrow> xs | _ \<Rightarrow> [])"

definition loadMFAStatus :: "env \<Rightarrow> settings_page proc" where
  "loadMFAStatus ev = awaited ev (get_request ''/api/auth/mfa/status'') (\<lambda>v. update (\<lambda>st. st\<lparr>sp_mfaStatus := Some v\<rparr>))"

definition loadPasskeys :: "env \<Rightarrow> settings_page proc" where
  "loadPasskeys ev = awaited ev (get_request ''/api/auth/passkeys'')
     (\<lambda>v. read_prop v ''items'' (\<lambda>xs. update (\<lambda>st. st\<lparr>sp_passkeys := rows_of xs\<rparr>)))"

definition loadSSHPublicKeys :: "env \<Rightarrow> settings_page proc" where
  "loadSSHPublicKeys ev = awaited ev (get_request ''/api/auth/ssh-keys'')
     (\<lambda>v. read_prop v ''items'' (\<lambda>xs. update (\<lambda>st. st\<lparr>sp_sshKeys := rows_of xs\<rparr>)))"

definition show_settings :: "settings_cx \<Rightarrow> platform_item list \<Rightarrow> settings_page \<Rightarrow> settings_page" where
  "show_settings cx items st =
     st\<lparr>sp_loginSecurity := loginSecurityFromSettings items (cx_captchaRequired cx) (cx_passwordLoginDisabled cx),
        sp_retention := retentionSettingsFromSettings items, sp_oidc := oidcSettingsFromSettings items,
        sp_ldap := ldapSettingsFromSettings items, sp_wecom := wecomSettingsFromSettings items\<rparr>"

text \<open>\<open>items.filter\<close> throws when the answer has no list.\<close>

definition with_items :: "settings_cx \<Rightarrow> jsval \<Rightarrow> (platform_item list \<Rightarrow> 's proc) \<Rightarrow> 's proc" where
  "with_items cx v k =
     read_prop v ''items'' (\<lambda>xs. case xs of JArr _ \<Rightarrow> k (cx_items cx xs) | _ \<Rightarrow> throw type_error)"

definition loadLoginSecurity :: "settings_cx \<Rightarrow> env \<Rightarrow> settings_page proc" where
  "loadLoginSecurity cx ev =
     awaited ev (get_request settings_path) (\<lambda>v. with_items cx v (\<lambda>items. update (show_settings cx items)))"

definition loadLoginPolicies :: "settings_cx \<Rightarrow> env \<Rightarrow> settings_page proc" where
  "loadLoginPolicies cx ev = awaited ev (get_request policies_path)
     (\<lambda>v. read_prop v ''items'' (\<lambda>xs. update (\<lambda>st. st\<lparr>sp_policies := cx_items cx xs\<rparr>)))"

definition loadLoginLocks :: "settings_cx \<Rightarrow> env \<Rightarrow> settings_page proc" where
  "loadLoginLocks cx ev = awaited ev (get_request locks_path)
     (\<lambda>v. read_prop v ''items'' (\<lambda>xs. update (\<lambda>st. st\<lparr>sp_locks := cx_items cx xs\<rparr>)))"

definition show_license :: "jsval \<Rightarrow> settings_page proc" where
  "show_license v =
     andthen (update (\<lambda>st. st\<lparr>sp_licenseInfo := Some v\<rparr>))
       (if SignIn.nullish v then throw type_error else update (\<lambda>st. st\<lparr>sp_licenseForm := localLicenseFormFromInfo (recordValue v)\<rparr>))"

definition loadLocalLicense :: "env \<Rightarrow> settings_page proc" where
  "loadLocalLicense ev = awaited ev (get_request license_path) show_license"

text \<open>The effect at the start: each load swallows its own error.\<close>

definition attempt :: "'s proc \<Rightarrow> 's proc" where
  "attempt p = (\<lambda>s. (None, snd (p s)))"

definition settings_effect :: "settings_cx \<Rightarrow> env \<Rightarrow> settings_page proc" where
  "settings_effect cx ev =
     steps ([attempt (loadMFAStatus ev), attempt (loadPasskeys ev), attempt (loadSSHPublicKeys ev)]
       @ (if canReadSystemSettings cx then [attempt (loadLoginSecurity cx ev)] else [])
       @ (if cx_can cx ''GET'' policies_path then [attempt (loadLoginPolicies cx ev)] else [])
       @ (if cx_can cx ''GET'' locks_path then [attempt (loadLoginLocks cx ev)] else [])
       @ (if cx_can cx ''GET'' license_path then [attempt (loadLocalLicense ev)] else []))"

text \<open>The effect on the application's two flags.\<close>

definition flags_effect :: "bool \<Rightarrow> bool \<Rightarrow> settings_page \<Rightarrow> settings_page" where
  "flags_effect captcha passwordDisabled st =
     st\<lparr>sp_loginSecurity := (sp_loginSecurity st)\<lparr>ls_captchaEnabled := captcha, ls_passwordLoginDisabled := passwordDisabled\<rparr>\<rparr>"

section \<open>Second factor and password\<close>

definition startMFASetup :: "env \<Rightarrow> settings_page \<Rightarrow> log \<Rightarrow> settings_page \<times> log" where
  "startMFASetup ev =
     try_busy (set_busy MFABusy)
       (awaited ev (post_request ''/api/auth/mfa/setup'' (JObj []))
          (\<lambda>v. update (\<lambda>st. st\<lparr>sp_mfaSetup := Some v, sp_mfaCode := ''''\<rparr>)))"

definition changePassword :: "env \<Rightarrow> settings_page \<Rightarrow> settings_page \<Rightarrow> log \<Rightarrow> settings_page \<times> log" where
  "changePassword ev now st l =
     (let f = sp_passwordForm now
      in if pw_new f \<noteq> pw_confirm f then (st, toast ''auth.passwordMismatch'' l)
         else if utf16_units (pw_new f) < 8 then (st, toast ''settingsPage.passwordTooShort'' l)
         else try_busy (set_busy PasswordBusy)
           (awaited ev (post_request ''/api/auth/password''
               (JObj [(''current_password'', JStr (pw_current f)), (''new_password'', JStr (pw_new f))]))
             (\<lambda>_. steps [update (\<lambda>st. st\<lparr>sp_passwordForm := blank_password_form\<rparr>), act (toast ''settingsPage.passwordChanged'')]))
           st l)"

text \<open>The recovery codes of an answer: \<open>result.recovery_codes || []\<close>.\<close>

definition enableMFA :: "env \<Rightarrow> settings_page \<Rightarrow> settings_page \<Rightarrow> log \<Rightarrow> settings_page \<times> log" where
  "enableMFA ev now st l =
     (case sp_mfaSetup now of
        None \<Rightarrow> (st, l)
      | Some setup \<Rightarrow>
          try_busy (set_busy MFABusy)
            (awaited ev (post_request ''/api/auth/mfa/enable''
                (JObj [(''secret'', field_of setup ''secret''), (''mfa_code'', JStr (sp_mfaCode now))]))
              (\<lambda>result. steps
                [update (\<lambda>st. st\<lparr>sp_mfaSetup := None, sp_mfaCode := ''''\<rparr>),
                 loadMFAStatus ev,
                 read_prop result ''recovery_codes'' (\<lambda>v. update (\<lambda>st. st\<lparr>sp_recoveryCodes := rows_of v\<rparr>)),
                 act (toast ''settingsPage.mfaEnabled'')]))
            st l)"

definition mfa_credentials :: "settings_page \<Rightarrow> jsval" where
  "mfa_credentials now = JObj [(''current_password'', JStr (sp_mfaPassword now)), (''mfa_code'', JStr (sp_mfaCode now))]"

definition disableMFA :: "env \<Rightarrow> settings_page \<Rightarrow> settings_page \<Rightarrow> log \<Rightarrow> settings_page \<times> log" where
  "disableMFA ev now =
     try_busy (set_busy MFABusy)
       (awaited ev (post_request ''/api/auth/mfa/disable'' (mfa_credentials now))
         (\<lambda>_. steps
           [update (\<lambda>st. st\<lparr>sp_mfaSetup := None, sp_mfaCode := '''', sp_mfaPassword := '''', sp_recoveryCodes := []\<rparr>),
            loadMFAStatus ev,
            act (toast ''settingsPage.mfaDisabled'')]))"

definition regenerateMFARecoveryCodes :: "env \<Rightarrow> settings_page \<Rightarrow> settings_page \<Rightarrow> log \<Rightarrow> settings_page \<times> log" where
  "regenerateMFARecoveryCodes ev now =
     try_busy (set_busy MFABusy)
       (awaited ev (post_request ''/api/auth/mfa/recovery-codes'' (mfa_credentials now))
         (\<lambda>result. steps
           [update (\<lambda>st. st\<lparr>sp_mfaCode := '''', sp_mfaPassword := ''''\<rparr>),
            read_prop result ''recovery_codes'' (\<lambda>v. update (\<lambda>st. st\<lparr>sp_recoveryCodes := rows_of v\<rparr>)),
            loadMFAStatus ev,
            act (toast ''settingsPage.mfaRecoveryCodesRegenerated'')]))"

section \<open>Passkeys and SSH keys\<close>

definition creation_options_of_json :: "jsval \<Rightarrow> creation_options option" where
  "creation_options_of_json v =
     (case (field_of v ''challenge'', field_of (field_of v ''user'') ''id'', field_of v ''excludeCredentials'') of
        (JStr c, JStr u, JArr ds) \<Rightarrow>
          map_option (\<lambda>xs. \<lparr>co_challenge = c, co_user_id = u, co_exclude = Some xs, co_rest = recordValue v\<rparr>)
            (those (map descriptor_of_json ds))
      | (JStr c, JStr u, ex) \<Rightarrow>
          if SignIn.nullish ex then Some \<lparr>co_challenge = c, co_user_id = u, co_exclude = None, co_rest = recordValue v\<rparr> else None
      | _ \<Rightarrow> None)"

definition passkey_attestation :: "settings_cx \<Rightarrow> jsval \<Rightarrow> exn + attestation" where
  "passkey_attestation cx options =
     (case creation_options_of_json (field_of options ''publicKey'') of
        None \<Rightarrow> Inl type_error
      | Some co \<Rightarrow> (case decodePasskeyCreationOptions co of
          None \<Rightarrow> Inl (OtherError ''InvalidCharacterError'')
        | Some co' \<Rightarrow> (case cx_credential cx co' of
            Inl e \<Rightarrow> Inl e | Inr None \<Rightarrow> Inl operation_failed | Inr (Some cr) \<Rightarrow> Inr cr)))"

definition registerPasskey :: "settings_cx \<Rightarrow> env \<Rightarrow> settings_page \<Rightarrow> settings_page \<Rightarrow> log \<Rightarrow> settings_page \<times> log" where
  "registerPasskey cx ev now st l =
     (if \<not> cx_passkeySupported cx then (st, toast ''settingsPage.passkeyUnsupported'' l)
      else if \<not> cx_secureContext cx then (st, toast ''settingsPage.passkeySecureContextRequired'' l)
      else try_busy (set_busy PasskeyBusy)
        (awaited ev (post_request ''/api/auth/passkeys/register/options'' (JObj []))
          (\<lambda>options. if SignIn.nullish options then throw type_error
             else case passkey_attestation cx options of
                Inl e \<Rightarrow> throw e
              | Inr cr \<Rightarrow>
                  awaited ev (post_request ''/api/auth/passkeys/register/verify''
                      (passkeyAttestationPayload cr (js_to_string (field_of options ''challenge_id''))
                        (or_str (trim (sp_passkeyName now)) ''settingsPage.defaultPasskeyName'')))
                    (\<lambda>_. steps
                      [update (\<lambda>st. st\<lparr>sp_passkeyName := ''''\<rparr>), loadPasskeys ev,
                       act (toast ''settingsPage.passkeyRegistered'')])))
        st l)"

definition item_path :: "string \<Rightarrow> jsval \<Rightarrow> string" where
  "item_path base item = base @ ''/'' @ js_to_string (field_of item ''id'')"

definition deletePasskey :: "env \<Rightarrow> jsval \<Rightarrow> settings_page \<Rightarrow> log \<Rightarrow> settings_page \<times> log" where
  "deletePasskey ev item st l =
     (case confirm ev ''settingsPage.passkeyDeleteConfirm'' l of
        (False, l1) \<Rightarrow> (st, l1)
      | (True, l1) \<Rightarrow>
          try_busy (set_busy PasskeyBusy)
            (awaited ev (mk_request ''DELETE'' (item_path ''/api/auth/passkeys'' item) None)
              (\<lambda>_. steps [loadPasskeys ev, act (toast ''settingsPage.passkeyDeleted'')]))
            st l1)"

definition registerSSHPublicKey :: "env \<Rightarrow> settings_page \<Rightarrow> settings_page \<Rightarrow> log \<Rightarrow> settings_page \<times> log" where
  "registerSSHPublicKey ev now st l =
     (if trim (sp_sshKeyText now) = '''' then (st, l)
      else try_busy (set_busy SSHKeyBusy)
        (awaited ev (post_request ''/api/auth/ssh-keys''
            (JObj [(''name'', JStr (sp_sshKeyName now)), (''public_key'', JStr (sp_sshKeyText now))]))
          (\<lambda>_. steps
            [update (\<lambda>st. st\<lparr>sp_sshKeyName := '''', sp_sshKeyText := ''''\<rparr>), loadSSHPublicKeys ev,
             act (toast ''settingsPage.sshPublicKeyRegistered'')]))
        st l)"

definition deleteSSHPublicKey :: "env \<Rightarrow> jsval \<Rightarrow> settings_page \<Rightarrow> log \<Rightarrow> settings_page \<times> log" where
  "deleteSSHPublicKey ev item st l =
     (case confirm ev ''settingsPage.sshPublicKeyDeleteConfirm'' l of
        (False, l1) \<Rightarrow> (st, l1)
      | (True, l1) \<Rightarrow>
          try_busy (set_busy SSHKeyBusy)
            (awaited ev (mk_request ''DELETE'' (item_path ''/api/auth/ssh-keys'' item) None)
              (\<lambda>_. steps [loadSSHPublicKeys ev, act (toast ''settingsPage.sshPublicKeyDeleted'')]))
            st l1)"

section \<open>Login security and retention\<close>

text \<open>The part of the form a control changes.\<close>

record login_change =
  lc_captcha :: "bool option"
  lc_passwordDisabled :: "bool option"
  lc_forceMFA :: "bool option"

definition no_change :: login_change where
  "no_change = \<lparr>lc_captcha = None, lc_passwordDisabled = None, lc_forceMFA = None\<rparr>"

definition opt_or :: "'a option \<Rightarrow> 'a \<Rightarrow> 'a" where
  "opt_or x d = (case x of Some v \<Rightarrow> v | None \<Rightarrow> d)"

definition merged_security :: "login_change \<Rightarrow> login_security \<Rightarrow> login_security" where
  "merged_security change ls =
     (let num = (\<lambda>n. JNum (Fin (of_int n)))
      in ls\<lparr>ls_captchaEnabled := opt_or (lc_captcha change) (ls_captchaEnabled ls),
            ls_passwordLoginDisabled := opt_or (lc_passwordDisabled change) (ls_passwordLoginDisabled ls),
            ls_forceMFARequired := opt_or (lc_forceMFA change) (ls_forceMFARequired ls),
            ls_threshold := clampSettingNumber (Fin (of_int (ls_threshold ls))) 1 50 5,
            ls_window := clampSettingNumber (Fin (of_int (ls_window ls))) 1 1440 15,
            ls_lockMinutes := clampSettingNumber (Fin (of_int (ls_lockMinutes ls))) 1 1440 5\<rparr>)"

text \<open>The request that stores a settings record: over the one given, or a new one.\<close>

definition save_request :: "string \<Rightarrow> js_object \<Rightarrow> request" where
  "save_request i payload =
     (if i \<noteq> '''' then mk_request ''PATCH'' (settings_path @ ''/'' @ i) (Some (JObj payload))
      else post_request settings_path (JObj payload))"

definition setting_payload :: "string \<Rightarrow> string \<Rightarrow> js_object \<Rightarrow> js_object" where
  "setting_payload nm tp metadata =
     [(''name'', JStr nm), (''type'', JStr tp), (''status'', JStr ''enabled''), (''metadata'', JObj metadata)]"

definition setting_name :: "platform_item option \<Rightarrow> string \<Rightarrow> string" where
  "setting_name target d = (case target of Some item \<Rightarrow> or_str (it_name item) d | None \<Rightarrow> d)"

definition target_meta :: "platform_item option \<Rightarrow> js_object" where
  "target_meta target = (case target of Some item \<Rightarrow> stored_meta item | None \<Rightarrow> [])"

definition login_security_type :: "platform_item option \<Rightarrow> string" where
  "login_security_type target =
     (case target of
        Some item \<Rightarrow> if it_type item \<noteq> '''' \<and> it_type item \<noteq> ''captcha'' then it_type item else ''security''
      | None \<Rightarrow> ''security'')"

definition security_payload :: "platform_item option \<Rightarrow> login_security \<Rightarrow> js_object" where
  "security_payload target merged =
     setting_payload (setting_name target ''Login security'') (login_security_type target)
       (login_security_metadata (target_meta target) merged)"

definition security_saved :: "settings_cx \<Rightarrow> env \<Rightarrow> settings_page proc" where
  "security_saved cx ev = steps [act (refresh True), loadLoginSecurity cx ev, loadMFAStatus ev, act (toast ''saved'')]"

definition security_target :: "settings_cx \<Rightarrow> platform_item list \<Rightarrow> platform_item option" where
  "security_target cx items =
     ls_setting (loginSecurityFromSettings items (cx_captchaRequired cx) (cx_passwordLoginDisabled cx))"

definition store_security :: "settings_cx \<Rightarrow> env \<Rightarrow> login_security \<Rightarrow> platform_item list \<Rightarrow> settings_page proc" where
  "store_security cx ev merged items =
     (let target = security_target cx items
      in if \<not> canSaveSystemSetting cx (setting_id target) then act permission_denied
         else awaited ev (save_request (setting_id target) (security_payload target merged)) (\<lambda>_. security_saved cx ev))"

definition updateLoginSecurity ::
  "settings_cx \<Rightarrow> env \<Rightarrow> login_change \<Rightarrow> settings_page \<Rightarrow> settings_page \<Rightarrow> log \<Rightarrow> settings_page \<times> log" where
  "updateLoginSecurity cx ev change now st l =
     (if \<not> canReadSystemSettings cx then (st, permission_denied l)
      else try_busy (set_busy LoginSecurityBusy)
        (awaited ev (get_request settings_path)
          (\<lambda>v. with_items cx v (store_security cx ev (merged_security change (sp_loginSecurity now)))))
        st l)"

definition saveRetentionSettings :: "settings_cx \<Rightarrow> env \<Rightarrow> settings_page \<Rightarrow> settings_page \<Rightarrow> log \<Rightarrow> settings_page \<times> log" where
  "saveRetentionSettings cx ev now st l =
     (let rt = sp_retention now
      in if \<not> canSaveSystemSetting cx (setting_id (rt_setting rt)) then (st, permission_denied l)
         else try_busy (set_busy RetentionBusy)
           (awaited ev (save_request (setting_id (rt_setting rt))
               (setting_payload (setting_name (rt_setting rt) ''Log retention'') ''retention'' (retention_metadata rt)))
             (\<lambda>_. steps [loadLoginSecurity cx ev, act (toast ''settingsPage.retentionSaved'')]))
           st l)"

section \<open>Login policies and locks\<close>

definition policy_action :: "policy_form \<Rightarrow> string" where
  "policy_action f = (if pf_allow f then ''allow'' else ''deny'')"

definition policy_body :: "policy_form \<Rightarrow> string option \<Rightarrow> js_object" where
  "policy_body f until =
     (let cidr = trim (pf_cidr f); account = or_str (trim (pf_account f)) ''*''
      in [(''name'', JStr (or_str (trim (pf_name f)) (upper (policy_action f) @ '' '' @ cidr))),
          (''type'', JStr (policy_action f)), (''status'', JStr ''enabled''), (''username'', JStr account), (''host'', JStr cidr),
          (''description'', JStr (if pf_allow f then ''allow login from matched clients'' else ''deny login from matched clients'')),
          (''metadata'', JObj ([(''action'', JStr (policy_action f)), (''account'', JStr account), (''cidr'', JStr cidr),
             (''priority'', JNum (Fin (of_int (pf_priority f))))]
             @ (case until of Some t \<Rightarrow> [(''expires_at'', JStr t)] | None \<Rightarrow> [])))])"

definition createLoginPolicy :: "settings_cx \<Rightarrow> env \<Rightarrow> settings_page \<Rightarrow> settings_page \<Rightarrow> log \<Rightarrow> settings_page \<times> log" where
  "createLoginPolicy cx ev now st l =
     (let f = sp_policyForm now; expiresAt = trim (pf_expiresAt f);
          send = (\<lambda>until. awaited ev (post_request policies_path (JObj (policy_body f until)))
            (\<lambda>_. steps [update (\<lambda>st. st\<lparr>sp_policyForm := defaultLoginPolicyForm\<rparr>), loadLoginPolicies cx ev, act (toast ''saved'')]))
      in if \<not> cx_can cx ''POST'' policies_path then (st, permission_denied l)
         else if trim (pf_cidr f) = '''' then (st, toast ''settingsPage.loginPolicyCidrRequired'' l)
         else try_busy (set_busy LoginPolicyBusy)
           (if expiresAt = '''' then send None
            else case cx_iso cx expiresAt of Inl e \<Rightarrow> throw e | Inr t \<Rightarrow> send (Some t))
           st l)"

definition policy_item_path :: "platform_item \<Rightarrow> string" where
  "policy_item_path policy = policies_path @ ''/'' @ it_id policy"

definition toggle_body :: "platform_item \<Rightarrow> js_object" where
  "toggle_body policy =
     [(''name'', JStr (it_name policy)), (''type'', JStr (loginPolicyAction policy)),
      (''status'', JStr (if platformItemEnabled policy then ''disabled'' else ''enabled'')),
      (''username'', JStr (or_str (it_username policy) (loginPolicyAccount policy))),
      (''host'', JStr (or_str (it_host policy) (loginPolicyCIDR policy))),
      (''description'', JStr (it_description policy)),
      (''metadata'', JObj (obj_set_all (stored_meta policy)
         [(''action'', JStr (loginPolicyAction policy)), (''account'', JStr (loginPolicyAccount policy)),
          (''cidr'', JStr (loginPolicyCIDR policy))]))]"

definition toggleLoginPolicy :: "settings_cx \<Rightarrow> env \<Rightarrow> platform_item \<Rightarrow> settings_page \<Rightarrow> log \<Rightarrow> settings_page \<times> log" where
  "toggleLoginPolicy cx ev policy st l =
     (if \<not> cx_can cx ''PATCH'' (policy_item_path policy) then (st, permission_denied l)
      else try_busy (set_busy LoginPolicyBusy)
        (awaited ev (mk_request ''PATCH'' (policy_item_path policy) (Some (JObj (toggle_body policy))))
          (\<lambda>_. steps [loadLoginPolicies cx ev, act (toast ''saved'')]))
        st l)"

definition deleteLoginPolicy :: "settings_cx \<Rightarrow> env \<Rightarrow> platform_item \<Rightarrow> settings_page \<Rightarrow> log \<Rightarrow> settings_page \<times> log" where
  "deleteLoginPolicy cx ev policy st l =
     (if \<not> cx_can cx ''DELETE'' (policy_item_path policy) then (st, permission_denied l)
      else try_busy (set_busy LoginPolicyBusy)
        (awaited ev (mk_request ''DELETE'' (policy_item_path policy) None)
          (\<lambda>_. steps [loadLoginPolicies cx ev, act (toast ''settingsPage.loginPolicyDeleted'')]))
        st l)"

definition lock_item_path :: "platform_item \<Rightarrow> string" where
  "lock_item_path lock = locks_path @ ''/'' @ it_id lock"

definition unlockLoginLock :: "settings_cx \<Rightarrow> env \<Rightarrow> platform_item \<Rightarrow> settings_page \<Rightarrow> log \<Rightarrow> settings_page \<times> log" where
  "unlockLoginLock cx ev lock st l =
     (if \<not> cx_can cx ''DELETE'' (lock_item_path lock) then (st, permission_denied l)
      else try_busy (set_busy LoginLockBusy)
        (awaited ev (mk_request ''DELETE'' (lock_item_path lock) None)
          (\<lambda>_. steps [loadLoginLocks cx ev, act (toast ''settingsPage.loginLockUnlocked'')]))
        st l)"

section \<open>Identity providers\<close>

text \<open>
  The three providers are saved the same way: the form is checked, the record is stored, the form forgets the typed
  secret and remembers the stored record, the application and the settings are read again.
\<close>

definition save_provider ::
  "settings_cx \<Rightarrow> env \<Rightarrow> settings_busy \<Rightarrow> string \<Rightarrow> bool \<Rightarrow> string \<Rightarrow> js_object \<Rightarrow> (jsval \<Rightarrow> settings_page \<Rightarrow> settings_page) \<Rightarrow>
     settings_page \<Rightarrow> log \<Rightarrow> settings_page \<times> log" where
  "save_provider cx ev busy i valid complaint payload remember st l =
     (if \<not> canSaveSystemSetting cx i then (st, permission_denied l)
      else if \<not> valid then (st, toast complaint l)
      else try_busy (set_busy busy)
        (awaited ev (save_request i payload)
          (\<lambda>saved. if SignIn.nullish saved then throw type_error
             else steps [update (remember saved), act (refresh True), loadLoginSecurity cx ev, act (toast ''saved'')]))
        st l)"

definition saved_secret :: "jsval \<Rightarrow> string \<Rightarrow> bool" where
  "saved_secret saved k = truthy (field_of (field_of saved ''metadata'') k)"

definition remember_oidc :: "settings_cx \<Rightarrow> jsval \<Rightarrow> settings_page \<Rightarrow> settings_page" where
  "remember_oidc cx saved st =
     st\<lparr>sp_oidc := (sp_oidc st)\<lparr>oi_clientSecret := '''', oi_clientSecretSet := saved_secret saved ''oidc_client_secret_set'',
        oi_clientSecretClear := False, oi_setting := Some (cx_item cx saved)\<rparr>\<rparr>"

definition saveOIDCSettings :: "settings_cx \<Rightarrow> env \<Rightarrow> settings_page \<Rightarrow> settings_page \<Rightarrow> log \<Rightarrow> settings_page \<times> log" where
  "saveOIDCSettings cx ev now =
     (let f = sp_oidc now
      in save_provider cx ev OIDCBusy (setting_id (oi_setting f)) (oidcFormValid (cx_url cx) f)
           ''settingsPage.oidcConfigurationInvalid''
           (setting_payload (setting_name (oi_setting f) ''External OIDC identity'') ''identity''
              (oidc_metadata (target_meta (oi_setting f)) f))
           (remember_oidc cx))"

definition remember_ldap :: "settings_cx \<Rightarrow> jsval \<Rightarrow> settings_page \<Rightarrow> settings_page" where
  "remember_ldap cx saved st =
     st\<lparr>sp_ldap := (sp_ldap st)\<lparr>ld_bindPassword := '''', ld_bindPasswordSet := saved_secret saved ''ldap_bind_password_set'',
        ld_bindPasswordClear := False, ld_setting := Some (cx_item cx saved)\<rparr>\<rparr>"

definition saveLDAPSettings :: "settings_cx \<Rightarrow> env \<Rightarrow> settings_page \<Rightarrow> settings_page \<Rightarrow> log \<Rightarrow> settings_page \<times> log" where
  "saveLDAPSettings cx ev now =
     (let f = sp_ldap now
      in save_provider cx ev LDAPBusy (setting_id (ld_setting f)) (ldapFormValid (cx_url cx) f)
           ''settingsPage.ldapConfigurationInvalid''
           (setting_payload (setting_name (ld_setting f) ''LDAP identity'') ''identity''
              (ldap_metadata (target_meta (ld_setting f)) f))
           (remember_ldap cx))"

definition remember_wecom :: "settings_cx \<Rightarrow> jsval \<Rightarrow> settings_page \<Rightarrow> settings_page" where
  "remember_wecom cx saved st =
     st\<lparr>sp_wecom := (sp_wecom st)\<lparr>wc_agentSecret := '''', wc_agentSecretSet := saved_secret saved ''wecom_agent_secret_set'',
        wc_agentSecretClear := False, wc_setting := Some (cx_item cx saved)\<rparr>\<rparr>"

definition saveWeComSettings :: "settings_cx \<Rightarrow> env \<Rightarrow> settings_page \<Rightarrow> settings_page \<Rightarrow> log \<Rightarrow> settings_page \<times> log" where
  "saveWeComSettings cx ev now =
     (let f = sp_wecom now
      in save_provider cx ev WeComBusy (setting_id (wc_setting f)) (wecomFormValid f)
           ''settingsPage.wecomConfigurationInvalid''
           (setting_payload (setting_name (wc_setting f) ''Enterprise WeChat identity'') ''identity''
              (wecom_metadata (target_meta (wc_setting f)) f))
           (remember_wecom cx))"

text \<open>\<open>setting?.id\<close> in a body: a missing record leaves the field out.\<close>

definition id_field :: "platform_item option \<Rightarrow> js_object" where
  "id_field s = (case s of Some item \<Rightarrow> [(''setting_id'', JStr (it_id item))] | None \<Rightarrow> [])"

definition test_path :: "string \<Rightarrow> string" where
  "test_path provider = settings_path @ ''/'' @ provider @ ''/test''"

definition test_provider ::
  "settings_cx \<Rightarrow> env \<Rightarrow> settings_busy \<Rightarrow> string \<Rightarrow> js_object \<Rightarrow> settings_page proc \<Rightarrow> settings_page \<Rightarrow> log \<Rightarrow> settings_page \<times> log" where
  "test_provider cx ev busy provider body finish st l =
     (if \<not> cx_can cx ''POST'' (test_path provider) then (st, permission_denied l)
      else try_busy (set_busy busy) (awaited ev (post_request (test_path provider) (JObj body)) (\<lambda>_. finish)) st l)"

definition testOIDCSettings :: "settings_cx \<Rightarrow> env \<Rightarrow> settings_page \<Rightarrow> settings_page \<Rightarrow> log \<Rightarrow> settings_page \<times> log" where
  "testOIDCSettings cx ev now =
     test_provider cx ev OIDCTestBusy ''oidc'' (id_field (oi_setting (sp_oidc now))) (act (toast ''settingsPage.oidcTestSucceeded''))"

definition testLDAPSettings :: "settings_cx \<Rightarrow> env \<Rightarrow> settings_page \<Rightarrow> settings_page \<Rightarrow> log \<Rightarrow> settings_page \<times> log" where
  "testLDAPSettings cx ev now =
     test_provider cx ev LDAPTestBusy ''ldap''
       (id_field (ld_setting (sp_ldap now)) @
         [(''username'', JStr (trim (sp_ldapTestUsername now))), (''password'', JStr (sp_ldapTestPassword now))])
       (steps [update (\<lambda>st. st\<lparr>sp_ldapTestPassword := ''''\<rparr>), act (toast ''settingsPage.ldapTestSucceeded'')])"

definition testWeComSettings :: "settings_cx \<Rightarrow> env \<Rightarrow> settings_page \<Rightarrow> settings_page \<Rightarrow> log \<Rightarrow> settings_page \<times> log" where
  "testWeComSettings cx ev now =
     test_provider cx ev WeComTestBusy ''wecom'' (id_field (wc_setting (sp_wecom now))) (act (toast ''settingsPage.wecomTestSucceeded''))"

section \<open>Licence\<close>

definition saveLocalLicense :: "settings_cx \<Rightarrow> env \<Rightarrow> settings_page \<Rightarrow> settings_page \<Rightarrow> log \<Rightarrow> settings_page \<times> log" where
  "saveLocalLicense cx ev now st l =
     (if \<not> cx_can cx ''PUT'' license_path then (st, permission_denied l)
      else try_busy (set_busy LicenseBusy)
        (awaited ev (mk_request ''PUT'' license_path (Some (JObj (license_body (sp_licenseForm now)))))
          (\<lambda>v. steps [show_license v, act (toast ''settingsPage.licenseSaved'')]))
        st l)"

section \<open>The controls\<close>

datatype settings_button =
    SetupMFA | EnableMFA | DisableMFA | NewRecoveryCodes | ChangePassword
  | RegisterPasskey | DeletePasskey jsval | RegisterKey | DeleteKey jsval
  | SwitchSecurity login_change | SaveSecurity | SaveRetention
  | CreatePolicy | TogglePolicy platform_item | DeletePolicy platform_item | Unlock platform_item
  | SaveOIDC | TestOIDC | SaveLDAP | TestLDAP | SaveWeCom | TestWeCom | SaveLicense

definition press :: "settings_cx \<Rightarrow> env \<Rightarrow> settings_button \<Rightarrow> settings_page \<Rightarrow> settings_page \<Rightarrow> log \<Rightarrow> settings_page \<times> log" where
  "press cx ev b now =
     (case b of
        SetupMFA \<Rightarrow> startMFASetup ev
      | EnableMFA \<Rightarrow> enableMFA ev now
      | DisableMFA \<Rightarrow> disableMFA ev now
      | NewRecoveryCodes \<Rightarrow> regenerateMFARecoveryCodes ev now
      | ChangePassword \<Rightarrow> changePassword ev now
      | RegisterPasskey \<Rightarrow> registerPasskey cx ev now
      | DeletePasskey item \<Rightarrow> deletePasskey ev item
      | RegisterKey \<Rightarrow> registerSSHPublicKey ev now
      | DeleteKey item \<Rightarrow> deleteSSHPublicKey ev item
      | SwitchSecurity c \<Rightarrow> updateLoginSecurity cx ev c now
      | SaveSecurity \<Rightarrow> updateLoginSecurity cx ev no_change now
      | SaveRetention \<Rightarrow> saveRetentionSettings cx ev now
      | CreatePolicy \<Rightarrow> createLoginPolicy cx ev now
      | TogglePolicy p \<Rightarrow> toggleLoginPolicy cx ev p
      | DeletePolicy p \<Rightarrow> deleteLoginPolicy cx ev p
      | Unlock k \<Rightarrow> unlockLoginLock cx ev k
      | SaveOIDC \<Rightarrow> saveOIDCSettings cx ev now
      | TestOIDC \<Rightarrow> testOIDCSettings cx ev now
      | SaveLDAP \<Rightarrow> saveLDAPSettings cx ev now
      | TestLDAP \<Rightarrow> testLDAPSettings cx ev now
      | SaveWeCom \<Rightarrow> saveWeComSettings cx ev now
      | TestWeCom \<Rightarrow> testWeComSettings cx ev now
      | SaveLicense \<Rightarrow> saveLocalLicense cx ev now)"

definition mfa_enabled :: "settings_page \<Rightarrow> bool" where
  "mfa_enabled now = (case sp_mfaStatus now of Some v \<Rightarrow> truthy (field_of v ''enabled'') | None \<Rightarrow> False)"

definition mfa_confirmable :: "settings_page \<Rightarrow> bool" where
  "mfa_confirmable now \<longleftrightarrow>
     \<not> sp_busy now MFABusy
     \<and> \<not> ((case sp_mfaStatus now of Some v \<Rightarrow> truthy (field_of v ''password_required'') | None \<Rightarrow> False) \<and> trim (sp_mfaPassword now) = '''')
     \<and> trim (sp_mfaCode now) \<noteq> ''''"

definition maxPasskeysPerUser :: nat where
  "maxPasskeysPerUser = 20"

text \<open>Whether a button is on the screen and not disabled.\<close>

definition button_live :: "settings_cx \<Rightarrow> settings_page \<Rightarrow> settings_button \<Rightarrow> bool" where
  "button_live cx now b =
     (let free = (\<lambda>f. \<not> sp_busy now f); reads = canReadSystemSettings cx;
          saves = (\<lambda>s. canSaveSystemSetting cx (setting_id s))
      in case b of
           SetupMFA \<Rightarrow> free MFABusy \<and> sp_mfaSetup now = None \<and> \<not> mfa_enabled now
         | EnableMFA \<Rightarrow> free MFABusy \<and> sp_mfaSetup now \<noteq> None \<and> trim (sp_mfaCode now) \<noteq> ''''
         | DisableMFA \<Rightarrow> sp_mfaSetup now = None \<and> mfa_enabled now \<and> mfa_confirmable now
         | NewRecoveryCodes \<Rightarrow> sp_mfaSetup now = None \<and> mfa_enabled now \<and> mfa_confirmable now
         | ChangePassword \<Rightarrow> free PasswordBusy \<and> pw_current (sp_passwordForm now) \<noteq> ''''
             \<and> pw_new (sp_passwordForm now) \<noteq> '''' \<and> pw_confirm (sp_passwordForm now) \<noteq> ''''
         | RegisterPasskey \<Rightarrow> free PasskeyBusy \<and> length (sp_passkeys now) < maxPasskeysPerUser
             \<and> cx_passkeySupported cx \<and> cx_secureContext cx
         | DeletePasskey item \<Rightarrow> free PasskeyBusy \<and> item \<in> set (sp_passkeys now)
         | RegisterKey \<Rightarrow> free SSHKeyBusy \<and> trim (sp_sshKeyText now) \<noteq> ''''
         | DeleteKey item \<Rightarrow> free SSHKeyBusy \<and> item \<in> set (sp_sshKeys now)
         | SwitchSecurity c \<Rightarrow> reads \<and> saves (ls_setting (sp_loginSecurity now)) \<and> free LoginSecurityBusy
         | SaveSecurity \<Rightarrow> reads \<and> saves (ls_setting (sp_loginSecurity now)) \<and> free LoginSecurityBusy
         | SaveRetention \<Rightarrow> reads \<and> saves (rt_setting (sp_retention now)) \<and> free RetentionBusy
         | CreatePolicy \<Rightarrow> (cx_can cx ''GET'' policies_path \<or> cx_can cx ''GET'' locks_path) \<and> cx_can cx ''POST'' policies_path
             \<and> free LoginPolicyBusy \<and> trim (pf_cidr (sp_policyForm now)) \<noteq> ''''
         | TogglePolicy p \<Rightarrow> cx_can cx ''GET'' policies_path \<and> p \<in> set (sp_policies now)
             \<and> cx_can cx ''PATCH'' (policy_item_path p) \<and> free LoginPolicyBusy
         | DeletePolicy p \<Rightarrow> cx_can cx ''GET'' policies_path \<and> p \<in> set (sp_policies now)
             \<and> cx_can cx ''DELETE'' (policy_item_path p) \<and> free LoginPolicyBusy
         | Unlock k \<Rightarrow> cx_can cx ''GET'' locks_path \<and> k \<in> set (sp_locks now) \<and> cx_can cx ''DELETE'' (lock_item_path k)
             \<and> free LoginLockBusy
         | SaveOIDC \<Rightarrow> reads \<and> saves (oi_setting (sp_oidc now)) \<and> free OIDCBusy \<and> oidcFormValid (cx_url cx) (sp_oidc now)
         | TestOIDC \<Rightarrow> reads \<and> cx_can cx ''POST'' (test_path ''oidc'') \<and> free OIDCTestBusy \<and> setting_id (oi_setting (sp_oidc now)) \<noteq> ''''
         | SaveLDAP \<Rightarrow> reads \<and> saves (ld_setting (sp_ldap now)) \<and> free LDAPBusy \<and> ldapFormValid (cx_url cx) (sp_ldap now)
         | TestLDAP \<Rightarrow> reads \<and> cx_can cx ''POST'' (test_path ''ldap'') \<and> free LDAPTestBusy \<and> setting_id (ld_setting (sp_ldap now)) \<noteq> ''''
             \<and> trim (sp_ldapTestUsername now) \<noteq> '''' \<and> sp_ldapTestPassword now \<noteq> ''''
         | SaveWeCom \<Rightarrow> reads \<and> saves (wc_setting (sp_wecom now)) \<and> free WeComBusy \<and> wecomFormValid (sp_wecom now)
         | TestWeCom \<Rightarrow> reads \<and> cx_can cx ''POST'' (test_path ''wecom'') \<and> free WeComTestBusy \<and> setting_id (wc_setting (sp_wecom now)) \<noteq> ''''
         | SaveLicense \<Rightarrow> cx_can cx ''GET'' license_path \<and> cx_can cx ''PUT'' license_path \<and> free LicenseBusy)"

section \<open>What the handlers send\<close>

lemma handler_option [sends_rules]:
  "(x = None \<Longrightarrow> handler_sends P h) \<Longrightarrow> (\<And>v. x = Some v \<Longrightarrow> handler_sends P (g v)) \<Longrightarrow>
     handler_sends P (\<lambda>st l. case x of None \<Rightarrow> h st l | Some v \<Rightarrow> g v st l)"
  by (cases x) simp_all

lemma handler_nothing [sends_rules]: "handler_sends P (\<lambda>st l. (st, l))"
  by (simp add: handler_sends_def)

lemma sends_sum [sends_rules]:
  "(\<And>e. sends P (p e)) \<Longrightarrow> (\<And>v. sends P (q v)) \<Longrightarrow> sends P (case x of Inl e \<Rightarrow> p e | Inr v \<Rightarrow> q v)"
  by (cases x) simp_all

lemma sends_with_items [sends_rules]: "(\<And>items. sends P (k items)) \<Longrightarrow> sends P (with_items cx v k)"
  by (auto simp: with_items_def intro!: sends_rules split: jsval.splits)

definition own_account :: "request \<Rightarrow> bool" where
  "own_account rq \<longleftrightarrow> starts_with (rq_path rq) ''/api/auth/''"

definition settings_request :: "settings_cx \<Rightarrow> request \<Rightarrow> bool" where
  "settings_request cx rq \<longleftrightarrow> cx_can cx (rq_method rq) (rq_path rq) \<or> own_account rq"

lemma own_paths [simp]:
  "own_account (mk_request m ''/api/auth/mfa/status'' b)" "own_account (mk_request m ''/api/auth/passkeys'' b)"
  "own_account (mk_request m ''/api/auth/ssh-keys'' b)" "own_account (mk_request m ''/api/auth/mfa/setup'' b)"
  "own_account (mk_request m ''/api/auth/password'' b)" "own_account (mk_request m ''/api/auth/mfa/enable'' b)"
  "own_account (mk_request m ''/api/auth/mfa/disable'' b)" "own_account (mk_request m ''/api/auth/mfa/recovery-codes'' b)"
  "own_account (mk_request m ''/api/auth/passkeys/register/options'' b)"
  "own_account (mk_request m ''/api/auth/passkeys/register/verify'' b)"
  "own_account (mk_request m (item_path ''/api/auth/passkeys'' item) b)"
  "own_account (mk_request m (item_path ''/api/auth/ssh-keys'' item) b)"
  by (simp_all add: own_account_def item_path_def)

lemma sends_loads [sends_rules]:
  "P (get_request ''/api/auth/mfa/status'') \<Longrightarrow> sends P (loadMFAStatus ev)"
  "P (get_request ''/api/auth/passkeys'') \<Longrightarrow> sends P (loadPasskeys ev)"
  "P (get_request ''/api/auth/ssh-keys'') \<Longrightarrow> sends P (loadSSHPublicKeys ev)"
  "P (get_request settings_path) \<Longrightarrow> sends P (loadLoginSecurity cx ev)"
  "P (get_request policies_path) \<Longrightarrow> sends P (loadLoginPolicies cx ev)"
  "P (get_request locks_path) \<Longrightarrow> sends P (loadLoginLocks cx ev)"
  "P (get_request license_path) \<Longrightarrow> sends P (loadLocalLicense ev)"
  by (auto simp: loadMFAStatus_def loadPasskeys_def loadSSHPublicKeys_def loadLoginSecurity_def loadLoginPolicies_def
      loadLoginLocks_def loadLocalLicense_def show_license_def intro!: sends_rules)

lemma sends_show_license [sends_rules]: "sends P (show_license v)"
  by (auto simp: show_license_def intro!: sends_rules)

lemma save_request_permitted: "canSaveSystemSetting cx i \<Longrightarrow> settings_request cx (save_request i payload)"
  by (auto simp: canSaveSystemSetting_def settings_request_def save_request_def split: if_splits)

lemma own_sends:
  "handler_sends own_account (startMFASetup ev)" "handler_sends own_account (enableMFA ev now)"
  "handler_sends own_account (disableMFA ev now)" "handler_sends own_account (regenerateMFARecoveryCodes ev now)"
  "handler_sends own_account (changePassword ev now)" "handler_sends own_account (registerPasskey cx ev now)"
  "handler_sends own_account (registerSSHPublicKey ev now)"
  "handler_sends own_account (deletePasskey ev item)" "handler_sends own_account (deleteSSHPublicKey ev item)"
  unfolding startMFASetup_def enableMFA_def [abs_def] disableMFA_def regenerateMFARecoveryCodes_def changePassword_def [abs_def]
    registerPasskey_def [abs_def] registerSSHPublicKey_def [abs_def] deletePasskey_def [abs_def] deleteSSHPublicKey_def [abs_def] Let_def
  by (intro sends_rules; simp; intro conjI sends_rules; simp)+

lemma handler_weaken: "handler_sends P h \<Longrightarrow> (\<And>rq. P rq \<Longrightarrow> Q rq) \<Longrightarrow> handler_sends Q h"
  unfolding handler_sends_def list_all_iff by meson

lemma own_sends_settings: "handler_sends own_account h \<Longrightarrow> handler_sends (settings_request cx) h"
  by (erule handler_weaken) (simp add: settings_request_def)

lemma settings_requestI [simp]:
  "cx_can cx m p \<Longrightarrow> settings_request cx (mk_request m p b)"
  "own_account rq \<Longrightarrow> settings_request cx rq"
  by (simp_all add: settings_request_def)

lemma save_provider_sends:
  assumes "canReadSystemSettings cx"
  shows "handler_sends (settings_request cx) (save_provider cx ev busy i valid complaint payload remember)"
  using assms unfolding save_provider_def [abs_def]
  by (intro sends_rules) (auto simp: save_request_permitted canReadSystemSettings_def intro!: sends_rules)

lemma test_provider_sends:
  assumes "sends (settings_request cx) finish"
  shows "handler_sends (settings_request cx) (test_provider cx ev busy provider body finish)"
  using assms unfolding test_provider_def [abs_def] by (intro sends_rules) simp_all

lemma updateLoginSecurity_sends: "handler_sends (settings_request cx) (updateLoginSecurity cx ev c now)"
  unfolding updateLoginSecurity_def [abs_def] store_security_def security_saved_def Let_def
  by (intro sends_rules) (auto simp: save_request_permitted canReadSystemSettings_def intro!: sends_rules)

lemma saveRetentionSettings_sends:
  "canReadSystemSettings cx \<Longrightarrow> handler_sends (settings_request cx) (saveRetentionSettings cx ev now)"
  unfolding saveRetentionSettings_def [abs_def] Let_def
  by (intro sends_rules) (auto simp: save_request_permitted canReadSystemSettings_def intro!: sends_rules)

lemma policy_handlers_send:
  "cx_can cx ''GET'' policies_path \<Longrightarrow> handler_sends (settings_request cx) (toggleLoginPolicy cx ev p)"
  "cx_can cx ''GET'' policies_path \<Longrightarrow> handler_sends (settings_request cx) (deleteLoginPolicy cx ev p)"
  "cx_can cx ''GET'' locks_path \<Longrightarrow> handler_sends (settings_request cx) (unlockLoginLock cx ev k)"
  "handler_sends (settings_request cx) (saveLocalLicense cx ev now)"
  unfolding toggleLoginPolicy_def [abs_def] deleteLoginPolicy_def [abs_def] unlockLoginLock_def [abs_def] saveLocalLicense_def [abs_def]
  by (intro sends_rules; auto intro!: sends_rules)+

lemma createLoginPolicy_sends:
  "handler_sends (\<lambda>rq. settings_request cx rq \<or> rq = get_request policies_path) (createLoginPolicy cx ev now)"
  unfolding createLoginPolicy_def [abs_def] Let_def
  by (intro sends_rules) (auto intro!: sends_rules)

lemma press_sends:
  assumes "button_live cx now b" "b \<noteq> CreatePolicy"
  shows "handler_sends (settings_request cx) (press cx ev b now)"
  using assms
  by (cases b)
    (auto simp: press_def button_live_def saveOIDCSettings_def saveLDAPSettings_def saveWeComSettings_def testOIDCSettings_def
      testLDAPSettings_def testWeComSettings_def Let_def
      intro!: own_sends own_sends_settings save_provider_sends test_provider_sends updateLoginSecurity_sends
        saveRetentionSettings_sends policy_handlers_send sends_rules)

section \<open>Properties\<close>

text \<open>C2 a button of the settings page that can be pressed sends only requests about the user's own account and requests
  the role may use, whatever the server answers along the way. The one exception is the list of login policies that is
  read again after a policy was created: that button is also there for a role that may create policies but not list them.
\<close>
theorem settings_requests_permitted:
  assumes "button_live cx now b"
  shows "\<exists>new. calls (snd (press cx ev b now st l)) = calls l @ new \<and>
    list_all (\<lambda>rq. cx_can cx (rq_method rq) (rq_path rq) \<or> starts_with (rq_path rq) ''/api/auth/'' \<or>
      b = CreatePolicy \<and> rq = get_request policies_path) new"
proof (cases "b = CreatePolicy")
  case True
  then show ?thesis
    using createLoginPolicy_sends [of cx ev now, unfolded handler_sends_def, rule_format, of st l]
    by (auto simp: press_def settings_request_def own_account_def list_all_iff)
next
  case False
  then show ?thesis
    using press_sends [OF assms False, of ev, unfolded handler_sends_def, rule_format, of st l]
    by (auto simp: settings_request_def own_account_def list_all_iff)
qed

definition open_cx :: settings_cx where
  "open_cx = \<lparr>cx_can = (\<lambda>_ _. True), cx_captchaRequired = True, cx_passwordLoginDisabled = False, cx_items = (\<lambda>_. []),
     cx_item = (\<lambda>_. blank_item), cx_url = (\<lambda>_. None), cx_iso = Inr, cx_passkeySupported = True, cx_secureContext = True,
     cx_credential = (\<lambda>_. Inr None)\<rparr>"

definition silent_server :: env where
  "silent_server = \<lparr>ev_fetch = (\<lambda>_. Inl ''offline''), ev_mfa = (\<lambda>_. ''''), ev_confirm = (\<lambda>_. True)\<rparr>"

lemma settings_requests_permitted_witness:
  "\<exists>new. calls (snd (press open_cx silent_server SaveSecurity (settings_start open_cx) (settings_start open_cx) [])) = calls [] @ new \<and>
    list_all (\<lambda>rq. cx_can open_cx (rq_method rq) (rq_path rq) \<or> starts_with (rq_path rq) ''/api/auth/'' \<or>
      SaveSecurity = CreatePolicy \<and> rq = get_request policies_path) new"
  by (rule settings_requests_permitted)
    (simp add: button_live_def open_cx_def settings_start_def canReadSystemSettings_def canSaveSystemSetting_def Let_def)

text \<open>
  when the second factor was switched on but the status that is read right after it fails, the recovery codes the
  server has just issued are dropped: the page forgets the set-up, shows no codes and reports an error, although the
  second factor is on.
\<close>
theorem recovery_codes_lost:
  assumes "sp_mfaSetup now = Some setup"
    and "enable = post_request ''/api/auth/mfa/enable''
      (JObj [(''secret'', field_of setup ''secret''), (''mfa_code'', JStr (sp_mfaCode now))])"
    and "fst (apiRequest ev enable l) = Inr result"
    and "fst (apiRequest ev (get_request ''/api/auth/mfa/status'') (l @ [Call enable])) = Inl e"
    and "(st', l') = enableMFA ev now st l"
  shows "sp_recoveryCodes st' = sp_recoveryCodes st \<and> sp_mfaSetup st' = None \<and>
    l' = l @ [Call enable, Call (get_request ''/api/auth/mfa/status''), ReportError e]"
proof -
  have "apiRequest ev enable l = (Inr result, l @ [Call enable])"
    and "apiRequest ev (get_request ''/api/auth/mfa/status'') (l @ [Call enable]) =
      (Inl e, l @ [Call enable, Call (get_request ''/api/auth/mfa/status'')])"
    using assms(3,4) by (subst apiRequest_eq; simp)+
  then show ?thesis
    using assms(1,5) unfolding assms(2)
    by (simp add: enableMFA_def try_busy_def awaited_run loadMFAStatus_def set_busy_def report_def)
qed

definition status_down :: env where
  "status_down = \<lparr>ev_fetch = (\<lambda>l. if length (calls l) = 1
       then Inr \<lparr>rs_ok = True, rs_status = 200, rs_status_text = ''OK'', rs_json = Some (JObj [(''recovery_codes'', JArr [JStr ''A1''])])\<rparr>
       else Inl ''offline''), ev_mfa = (\<lambda>_. ''''), ev_confirm = (\<lambda>_. True)\<rparr>"

lemma recovery_codes_lost_witness:
  "sp_recoveryCodes (fst (enableMFA status_down ((settings_start open_cx)\<lparr>sp_mfaSetup := Some (JObj [])\<rparr>) (settings_start open_cx) [])) = []"
proof -
  let ?now = "(settings_start open_cx)\<lparr>sp_mfaSetup := Some (JObj [])\<rparr>" and ?st = "settings_start open_cx"
  let ?enable = "post_request ''/api/auth/mfa/enable'' (JObj [(''secret'', field_of (JObj []) ''secret''), (''mfa_code'', JStr (sp_mfaCode ?now))])"
  have one: "fst (apiRequest status_down ?enable []) = Inr (JObj [(''recovery_codes'', JArr [JStr ''A1''])])"
    by (simp add: apiRequest_def status_down_def api_result_def)
  have two: "fst (apiRequest status_down (get_request ''/api/auth/mfa/status'') ([] @ [Call ?enable])) = Inl (OtherError ''offline'')"
    by (simp add: apiRequest_def status_down_def)
  obtain st' l' where run: "(st', l') = enableMFA status_down ?now ?st []" by (metis surj_pair)
  from recovery_codes_lost [OF _ refl one two run]
  have "sp_recoveryCodes st' = sp_recoveryCodes ?st" by simp
  with run show ?thesis by (metis fst_conv settings_page.select_convs(5) settings_start_def)
qed

lemma fold_read_captcha: "ls_captchaEnabled st \<Longrightarrow> ls_captchaEnabled (fold read_candidate items st)"
  by (induction items arbitrary: st) (simp_all add: read_candidate_def Let_def)

lemma captcha_fallback: "ls_captchaEnabled (loginSecurityFromSettings items True pd)"
  by (simp add: loginSecurityFromSettings_def Let_def fold_read_captcha)

lemma load_shows_captcha:
  assumes "cx_captchaRequired cx" "loadLoginSecurity cx ev (st, l) = (None, st', l')"
  shows "ls_captchaEnabled (sp_loginSecurity st')"
proof (cases rule: apiRequest_cases [of ev "get_request settings_path" l])
  case (error e)
  with assms(2) show ?thesis by (simp add: loadLoginSecurity_def awaited_run)
next
  case (ok v)
  with assms show ?thesis
    by (auto simp: loadLoginSecurity_def awaited_run with_items_def read_prop_def show_settings_def captcha_fallback
        split: sum.splits jsval.splits)
qed

lemma mfa_status_frame:
  "loadMFAStatus ev (st, l) = (r, st', l') \<Longrightarrow> sp_loginSecurity st' = sp_loginSecurity st"
  by (cases rule: apiRequest_cases [of ev "get_request ''/api/auth/mfa/status''" l]) (auto simp: loadMFAStatus_def awaited_run)

lemma after_save_captcha:
  assumes "cx_captchaRequired cx" "security_saved cx ev (st, l) = (None, st', l')"
  shows "ls_captchaEnabled (sp_loginSecurity st')"
  using assms load_shows_captcha [OF assms(1)] mfa_status_frame
  by (auto simp: security_saved_def split: option.splits prod.splits)

lemma awaited_done:
  "awaited ev rq k (st, l) = (None, s') \<Longrightarrow> \<exists>v. k v (st, l @ [Call rq]) = (None, s')"
  by (cases rule: apiRequest_cases [of ev rq l]) (auto simp: awaited_run)

lemma with_items_done:
  "with_items cx v k (st, l) = (None, s') \<Longrightarrow> \<exists>items. k items (st, l) = (None, s')"
  by (auto simp: with_items_def read_prop_def split: sum.splits jsval.splits)

lemma store_security_done:
  assumes "store_security cx ev merged items (st, l) = (None, st', l')" "l' = l0 @ [Toast ''saved'']"
  shows "\<exists>l2. security_saved cx ev (st, l2) = (None, st', l')"
proof -
  let ?target = "security_target cx items"
  have saves: "canSaveSystemSetting cx (setting_id ?target)"
  proof (rule ccontr)
    assume "\<not> canSaveSystemSetting cx (setting_id ?target)"
    with assms show False by (simp add: store_security_def Let_def permission_denied_def toast_def)
  qed
  with assms(1) have "awaited ev (save_request (setting_id ?target) (security_payload ?target merged))
      (\<lambda>_. security_saved cx ev) (st, l) = (None, st', l')"
    by (simp add: store_security_def Let_def)
  from awaited_done [OF this] show ?thesis by blast
qed

lemma try_busy_saved:
  assumes "try_busy busy p st l = (st', l0 @ [Toast m])"
  shows "\<exists>st1. p (busy True st, l) = (None, st1, l0 @ [Toast m]) \<and> st' = busy False st1"
  using assms by (auto simp: try_busy_def report_def split: option.splits prod.splits)

text \<open>C29 switching the captcha off does not last on the page: whenever the page says \<open>saved\<close>, its switch is on again,
  because the settings are read back with the flag the page had captured before the change. The next button of the
  same form then stores \<open>captcha_enabled\<close> as true.
\<close>
theorem captcha_switch_comes_back:
  assumes "cx_captchaRequired cx"
    and "updateLoginSecurity cx ev (no_change\<lparr>lc_captcha := Some False\<rparr>) now st l = (st', l0 @ [Toast ''saved''])"
  shows "ls_captchaEnabled (sp_loginSecurity st') \<and>
    obj_get (login_security_metadata old (merged_security no_change (sp_loginSecurity st'))) ''captcha_enabled'' = JBool True"
proof -
  have reads: "canReadSystemSettings cx"
  proof (rule ccontr)
    assume "\<not> canReadSystemSettings cx"
    with assms(2) show False by (simp add: updateLoginSecurity_def permission_denied_def toast_def)
  qed
  let ?store = "store_security cx ev (merged_security (no_change\<lparr>lc_captcha := Some False\<rparr>) (sp_loginSecurity now))"
  have "try_busy (set_busy LoginSecurityBusy) (awaited ev (get_request settings_path) (\<lambda>v. with_items cx v ?store)) st l
      = (st', l0 @ [Toast ''saved''])"
    using reads assms(2) by (simp add: updateLoginSecurity_def)
  from try_busy_saved [OF this] obtain st1 where
    body: "awaited ev (get_request settings_path) (\<lambda>v. with_items cx v ?store) (set_busy LoginSecurityBusy True st, l)
        = (None, st1, l0 @ [Toast ''saved''])" and st': "st' = set_busy LoginSecurityBusy False st1" by blast
  from awaited_done [OF body] obtain v where
    "with_items cx v ?store (set_busy LoginSecurityBusy True st, l @ [Call (get_request settings_path)]) = (None, st1, l0 @ [Toast ''saved''])"
    by blast
  from with_items_done [OF this] obtain items where
    "?store items (set_busy LoginSecurityBusy True st, l @ [Call (get_request settings_path)]) = (None, st1, l0 @ [Toast ''saved''])"
    by blast
  from store_security_done [OF this refl] obtain s2 l2 where
    "security_saved cx ev (s2, l2) = (None, st1, l0 @ [Toast ''saved''])" by blast
  from after_save_captcha [OF assms(1) this] have on: "ls_captchaEnabled (sp_loginSecurity st')"
    by (simp add: st' set_busy_def)
  then show ?thesis
    by (simp add: login_security_metadata_def obj_get_set_all merged_security_def Let_def opt_or_def no_change_def)
qed

text \<open>A server that stores nothing but accepts everything.\<close>

definition kind_server :: env where
  "kind_server = \<lparr>ev_fetch = (\<lambda>_. Inr \<lparr>rs_ok = True, rs_status = 200, rs_status_text = ''OK'',
       rs_json = Some (JObj [(''items'', JArr [])])\<rparr>), ev_mfa = (\<lambda>_. ''''), ev_confirm = (\<lambda>_. True)\<rparr>"

lemma kind_answers: "apiRequest kind_server rq l = (Inr (JObj [(''items'', JArr [])]), l @ [Call rq])"
  by (simp add: apiRequest_def kind_server_def api_result_def)

lemma captcha_switch_comes_back_witness:
  "ls_captchaEnabled (sp_loginSecurity (fst (updateLoginSecurity open_cx kind_server (no_change\<lparr>lc_captcha := Some False\<rparr>)
     (settings_start open_cx) (settings_start open_cx) [])))"
proof -
  let ?run = "updateLoginSecurity open_cx kind_server (no_change\<lparr>lc_captcha := Some False\<rparr>) (settings_start open_cx) (settings_start open_cx) []"
  have rights: "cx_captchaRequired open_cx" "canReadSystemSettings open_cx" "\<And>i. canSaveSystemSetting open_cx i"
    by (simp_all add: open_cx_def canReadSystemSettings_def canSaveSystemSetting_def)
  have "\<exists>l0. snd ?run = l0 @ [Toast ''saved'']"
    by (simp add: updateLoginSecurity_def rights try_busy_def awaited_def kind_answers with_items_def read_prop_def js_prop_def
        obj_get_def store_security_def security_saved_def loadLoginSecurity_def loadMFAStatus_def toast_def Let_def)
  then obtain l0 where "?run = (fst ?run, l0 @ [Toast ''saved''])" by (metis prod.collapse)
  from captcha_switch_comes_back [OF rights(1) this, of "[]"] show ?thesis by simp
qed

section \<open>The retention form stays in range\<close>

text \<open>
  The life of the page: the start, its effects, its buttons (with what any earlier render had captured), the eight
  retention inputs, and every other input, which leaves the retention form alone.
\<close>

inductive settings_reach :: "settings_page \<Rightarrow> bool" where
  reach_start: "settings_reach (settings_start cx)"
| reach_effect: "settings_reach st \<Longrightarrow> settings_reach (fst (snd (settings_effect cx ev (st, l))))"
| reach_flags: "settings_reach st \<Longrightarrow> settings_reach (flags_effect captcha passwordDisabled st)"
| reach_press: "settings_reach st \<Longrightarrow> settings_reach (fst (press cx ev b now st l))"
| reach_days: "settings_reach st \<Longrightarrow> settings_reach (st\<lparr>sp_retention := patchRetentionSettings k n (sp_retention st)\<rparr>)"
| reach_other: "settings_reach st \<Longrightarrow> sp_retention st' = sp_retention st \<Longrightarrow> settings_reach st'"

text \<open>
  A condition on the page that none of the assignments of the handlers breaks is kept by the buttons and the effects.
\<close>

lemma keeps_with_items [keeps_rules]: "(\<And>items. keeps I (k items)) \<Longrightarrow> keeps I (with_items cx v k)"
  by (auto simp: with_items_def intro!: keeps_rules split: jsval.splits)

lemma keeps_sum [keeps_rules]:
  "(\<And>e. keeps I (p e)) \<Longrightarrow> (\<And>v. keeps I (q v)) \<Longrightarrow> keeps I (case x of Inl e \<Rightarrow> p e | Inr v \<Rightarrow> q v)"
  by (cases x) simp_all

lemma keeps_attempt [keeps_rules]: "keeps I p \<Longrightarrow> keeps I (attempt p)"
  by (simp add: keeps_def attempt_def)

locale page_invariant =
  fixes I :: "settings_page \<Rightarrow> bool"
  assumes own_assigned: "I (set_busy f b st) = I st" "I (st\<lparr>sp_mfaStatus := a1\<rparr>) = I st" "I (st\<lparr>sp_mfaSetup := a1\<rparr>) = I st"
      "I (st\<lparr>sp_mfaCode := a3\<rparr>) = I st" "I (st\<lparr>sp_mfaPassword := a3\<rparr>) = I st" "I (st\<lparr>sp_recoveryCodes := a5\<rparr>) = I st"
      "I (st\<lparr>sp_passkeys := a5\<rparr>) = I st" "I (st\<lparr>sp_passkeyName := a3\<rparr>) = I st" "I (st\<lparr>sp_sshKeys := a5\<rparr>) = I st"
      "I (st\<lparr>sp_sshKeyName := a3\<rparr>) = I st" "I (st\<lparr>sp_sshKeyText := a3\<rparr>) = I st" "I (st\<lparr>sp_passwordForm := a8\<rparr>) = I st"
    and lists_assigned: "I (st\<lparr>sp_policies := a6\<rparr>) = I st" "I (st\<lparr>sp_locks := a6\<rparr>) = I st" "I (st\<lparr>sp_policyForm := a7\<rparr>) = I st"
      "I (st\<lparr>sp_licenseInfo := a1\<rparr>) = I st" "I (st\<lparr>sp_licenseForm := a9\<rparr>) = I st" "I (st\<lparr>sp_ldapTestPassword := a3\<rparr>) = I st"
    and forms_assigned: "I st \<Longrightarrow> I (show_settings cx items st)" "I st \<Longrightarrow> I (remember_oidc cx v st)"
      "I st \<Longrightarrow> I (remember_ldap cx v st)" "I st \<Longrightarrow> I (remember_wecom cx v st)"
begin

lemmas assigned [simp] = own_assigned lists_assigned forms_assigned

lemma keeps_show_license [keeps_rules]: "keeps I (show_license v)"
  by (auto simp: show_license_def intro!: keeps_rules)

lemma keeps_loads [keeps_rules]:
  "keeps I (loadMFAStatus ev)" "keeps I (loadPasskeys ev)" "keeps I (loadSSHPublicKeys ev)"
  "keeps I (loadLoginSecurity cx ev)" "keeps I (loadLoginPolicies cx ev)" "keeps I (loadLoginLocks cx ev)"
  "keeps I (loadLocalLicense ev)"
  unfolding loadMFAStatus_def loadPasskeys_def loadSSHPublicKeys_def loadLoginSecurity_def loadLoginPolicies_def
    loadLoginLocks_def loadLocalLicense_def
  by (intro keeps_rules; simp)+

lemma keeps_security [keeps_rules]: "keeps I (store_security cx ev merged items)"
  unfolding store_security_def security_saved_def Let_def by (intro keeps_rules; simp; intro conjI keeps_rules)

lemma own_keeps:
  "handler_keeps I (startMFASetup ev)" "handler_keeps I (enableMFA ev now)" "handler_keeps I (disableMFA ev now)"
  "handler_keeps I (regenerateMFARecoveryCodes ev now)" "handler_keeps I (changePassword ev now)"
  "handler_keeps I (registerPasskey cx ev now)" "handler_keeps I (registerSSHPublicKey ev now)"
  "handler_keeps I (deletePasskey ev item)" "handler_keeps I (deleteSSHPublicKey ev item)"
  unfolding startMFASetup_def enableMFA_def [abs_def] disableMFA_def regenerateMFARecoveryCodes_def changePassword_def [abs_def]
    registerPasskey_def [abs_def] registerSSHPublicKey_def [abs_def] deletePasskey_def [abs_def] deleteSSHPublicKey_def [abs_def] Let_def
  by (intro keeps_rules; simp; intro conjI keeps_rules; simp)+

lemma save_provider_keeps:
  "(\<And>v st. I st \<Longrightarrow> I (remember v st)) \<Longrightarrow>
     handler_keeps I (save_provider cx ev busy i valid complaint payload remember)"
  unfolding save_provider_def [abs_def] by (intro keeps_rules; simp; intro conjI keeps_rules; simp)

lemma test_provider_keeps:
  "keeps I finish \<Longrightarrow> handler_keeps I (test_provider cx ev busy provider body finish)"
  unfolding test_provider_def [abs_def] by (intro keeps_rules; simp)

lemma admin_keeps:
  "handler_keeps I (updateLoginSecurity cx ev c now)" "handler_keeps I (saveRetentionSettings cx ev now)"
  "handler_keeps I (createLoginPolicy cx ev now)" "handler_keeps I (toggleLoginPolicy cx ev p)"
  "handler_keeps I (deleteLoginPolicy cx ev p)" "handler_keeps I (unlockLoginLock cx ev k)"
  "handler_keeps I (saveLocalLicense cx ev now)"
  unfolding updateLoginSecurity_def [abs_def] saveRetentionSettings_def [abs_def] createLoginPolicy_def [abs_def]
    toggleLoginPolicy_def [abs_def] deleteLoginPolicy_def [abs_def] unlockLoginLock_def [abs_def] saveLocalLicense_def [abs_def] Let_def
  by (intro keeps_rules; simp; intro conjI keeps_rules; simp)+

lemma press_keeps: "handler_keeps I (press cx ev b now)"
  by (cases b)
    (auto simp: press_def saveOIDCSettings_def saveLDAPSettings_def saveWeComSettings_def testOIDCSettings_def testLDAPSettings_def
      testWeComSettings_def Let_def intro!: own_keeps save_provider_keeps test_provider_keeps admin_keeps keeps_rules)

lemma settings_effect_keeps: "keeps I (settings_effect cx ev)"
  unfolding settings_effect_def by (intro keeps_rules) (simp add: keeps_rules)

lemma kept:
  assumes "I st"
  shows "I (fst (snd (settings_effect cx ev (st, l))))" "I (fst (press cx ev b now st l))"
  using assms settings_effect_keeps press_keeps by (simp_all add: keeps_def handler_keeps_def)

end

definition days_ok :: "settings_page \<Rightarrow> bool" where
  "days_ok st \<longleftrightarrow> retention_ok (sp_retention st)"

interpretation days: page_invariant days_ok
  by unfold_locales
    (simp_all add: days_ok_def show_settings_def set_busy_def remember_oidc_def remember_ldap_def remember_wecom_def retention_ok_read)

lemma reach_days_ok: "settings_reach st \<Longrightarrow> days_ok st"
proof (induction rule: settings_reach.induct)
  case (reach_start cx)
  then show ?case by (simp add: days_ok_def settings_start_def retention_ok_default)
next
  case (reach_effect st cx ev l)
  then show ?case using days.kept by blast
next
  case (reach_flags st captcha passwordDisabled)
  then show ?case by (simp add: days_ok_def flags_effect_def)
next
  case (reach_press st cx ev b now l)
  then show ?case using days.kept by blast
next
  case (reach_days st k n)
  then show ?case by (simp add: days_ok_def retention_ok_patch)
next
  case (reach_other st st')
  then show ?case by (simp add: days_ok_def)
qed

text \<open>C16 in every state the page can reach, whatever is typed into its inputs and whatever the server answers, saving the
  retention form would send a whole number of days between 0 and 36500 for each kind of log.
\<close>
theorem retention_always_in_range:
  assumes "settings_reach st" and "(k, v) \<in> set (retention_metadata (sp_retention st))"
  shows "\<exists>n. v = JNum (Fin (of_int n)) \<and> 0 \<le> n \<and> n \<le> 36500"
  using reach_days_ok [OF assms(1)] assms(2)
  by (auto simp: days_ok_def retention_ok_def retention_metadata_def Let_def)

lemma retention_always_in_range_witness:
  "\<exists>n. JNum (Fin (of_int 36500)) = JNum (Fin (of_int n)) \<and> 0 \<le> n \<and> n \<le> 36500"
proof -
  let ?st = "(settings_start open_cx)\<lparr>sp_retention := patchRetentionSettings SqlDays 99999 (sp_retention (settings_start open_cx))\<rparr>"
  have "settings_reach ?st" by (intro settings_reach.intros)
  moreover have "(''sql_logs_days'', JNum (Fin (of_int 36500))) \<in> set (retention_metadata (sp_retention ?st))"
    by (simp add: retention_metadata_def patchRetentionSettings_def Let_def clampSettingNumber_def js_trunc_def)
  ultimately show ?thesis by (rule retention_always_in_range)
qed

end
