(* ===== verification/AccessPortal.thy ===== *)
theory AccessPortal
  imports Dialogs Paths Navigation StorageFiles
begin

text \<open>
  The access page of an ordinary user (\<open>AccessPortalPage\<close>, \<open>AccessSection\<close> and \<open>AccessStorageSection\<close> in
  \<open>platform-page.tsx\<close>): connecting to a web asset in a window of its own, to a database through the query dialog,
  to a host by a new session, and opening shared storage, each with the second factor where the server asks for one;
  and the diagnostic tools (\<open>ToolsPage\<close>). Whether the browser lets a window open is part of the outside world.
\<close>

section \<open>The page\<close>

record access_assets =
  ac_text :: "platform_item list"
  ac_desktop :: "platform_item list"
  ac_web :: "platform_item list"
  ac_database :: "platform_item list"
  ac_storages :: "platform_item list"

datatype portal_query = PortalLoading | PortalFailed | PortalLoaded access_assets

datatype portal_section =
    AssetSection (ps_title: string) (ps_items: "platform_item list") (ps_protocol: string)
  | StorageSection "platform_item list"

datatype portal_screen = PortalNotice string | PortalSections "portal_section list"

definition portal_view :: "portal_query \<Rightarrow> portal_screen" where
  "portal_view q =
     (case q of
        PortalLoading \<Rightarrow> PortalNotice ''loading''
      | PortalFailed \<Rightarrow> PortalNotice ''accessAssetsLoadFailed''
      | PortalLoaded a \<Rightarrow> PortalSections
          [AssetSection ''accessPage.textProtocols'' (ac_text a) '''',
           AssetSection ''accessPage.desktopProtocols'' (ac_desktop a) '''',
           AssetSection ''accessPage.webAssets'' (ac_web a) ''http'',
           AssetSection ''accessPage.databaseAssets'' (ac_database a) ''database'',
           StorageSection (ac_storages a)])"

definition canManageAssets :: "session \<Rightarrow> bool" where
  "canManageAssets s =
     (case platformPageByRoute ''/app/assets'' of
        Some config \<Rightarrow> canViewPlatformPage (session_role s) config (session_menu s)
      | None \<Rightarrow> False)"

definition item_endpoint :: "platform_item \<Rightarrow> string" where
  "item_endpoint item =
     (case it_port item of Some p \<Rightarrow> if p \<noteq> 0 then it_host item @ '':'' @ num_text (Fin p) else it_host item | None \<Rightarrow> it_host item)"

section \<open>Connecting\<close>

record portal_env =
  pe_innerWidth :: rat
  pe_innerHeight :: rat
  pe_popup :: "log \<Rightarrow> bool"

definition accessProtocol :: "string \<Rightarrow> platform_item \<Rightarrow> string" where
  "accessProtocol protocol item = or_str protocol (or_str (it_protocol item) ''ssh'')"

definition http_path :: "platform_item \<Rightarrow> string" where
  "http_path item = ''/api/access/http/'' @ it_id item"

text \<open>
  A web asset: the window is opened first, blank, so that the browser does not block it; it is closed again
  unless the second factor is settled.
\<close>

definition connect_http :: "portal_env \<Rightarrow> env \<Rightarrow> platform_item \<Rightarrow> log \<Rightarrow> log" where
  "connect_http pe ev item l =
     (let l1 = l @ [OpenWindow ''about:blank'']
      in if \<not> pe_popup pe l1 then toast ''accessPage.popupBlocked'' l1
         else case ensureAccessMFA ev (http_path item @ ''/mfa'') l1 of
                (Inr True, l2) \<Rightarrow> l2 @ [Emit ''popup.replace'' (JStr (http_path item @ ''/proxy/''))]
              | (Inr False, l2) \<Rightarrow> l2 @ [Emit ''popup.close'' JUndefined]
              | (Inl e, l2) \<Rightarrow> report e (l2 @ [Emit ''popup.close'' JUndefined]))"

definition session_payload :: "portal_env \<Rightarrow> string \<Rightarrow> js_object" where
  "session_payload pe protocol =
     (if protocol \<in> set [''rdp'', ''vnc'']
      then [(''width'', JNum (Fin (max 1024 (pe_innerWidth pe)))), (''height'', JNum (Fin (max 680 (pe_innerHeight pe - 52)))),
            (''dpi'', JNum (Fin 96))]
      else [(''cols'', JNum (Fin 120)), (''rows'', JNum (Fin 32)), (''term'', JStr ''xterm-256color'')])"

definition session_request :: "portal_env \<Rightarrow> string \<Rightarrow> platform_item \<Rightarrow> string \<Rightarrow> request" where
  "session_request pe protocol item mfaCode =
     post_request (''/api/access/'' @ protocol @ ''/'' @ it_id item)
       (JObj (session_payload pe protocol @ (if mfaCode \<noteq> '''' then [(''mfa_code'', JStr mfaCode)] else [])))"

definition new_workspace :: "string \<Rightarrow> jsval \<Rightarrow> jsval" where
  "new_workspace protocol s = JObj [(''type'', JStr protocol), (''session'', s), (''status'', JStr ''connecting'')]"

definition connect_session :: "portal_env \<Rightarrow> env \<Rightarrow> string \<Rightarrow> platform_item \<Rightarrow> log \<Rightarrow> log" where
  "connect_session pe ev protocol item l =
     (case with_access_mfa ev (session_request pe protocol item) l of
        (Inl e, l') \<Rightarrow> report e l'
      | (Inr None, l') \<Rightarrow> l'
      | (Inr (Some s), l') \<Rightarrow>
          if protocol \<in> set [''ssh'', ''rdp'', ''vnc''] then l' @ [SetWorkspace (Some (new_workspace protocol s))]
          else toast ''accessPage.sessionCreated'' (refresh True l'))"

text \<open>The item whose query dialog opens, and the log.\<close>

definition connect :: "portal_env \<Rightarrow> env \<Rightarrow> string \<Rightarrow> platform_item \<Rightarrow> log \<Rightarrow> platform_item option \<times> log" where
  "connect pe ev protocol item l =
     (let p = accessProtocol protocol item
      in if p = ''http'' then (None, connect_http pe ev item l)
         else if p = ''database'' then (Some item, l)
         else (None, connect_session pe ev p item l))"

definition exec_offered :: "string \<Rightarrow> platform_item \<Rightarrow> bool" where
  "exec_offered protocol item \<longleftrightarrow> or_str protocol (it_protocol item) = ''ssh''"

definition openStorage :: "env \<Rightarrow> platform_item \<Rightarrow> log \<Rightarrow> platform_item option \<times> log" where
  "openStorage ev item l =
     (case ensureAccessMFA ev (''/api/access/storages/'' @ it_id item @ ''/mfa'') l of
        (Inr True, l') \<Rightarrow> (Some item, l')
      | (Inr False, l') \<Rightarrow> (None, l')
      | (Inl e, l') \<Rightarrow> (None, report e l'))"

section \<open>Diagnostic tools\<close>

datatype ping_mode = Icmp | Tcp

record tools_page =
  tl_target :: string
  tl_mode :: ping_mode
  tl_count :: string
  tl_loading :: bool
  tl_result :: "jsval option"

definition tools_start :: tools_page where
  "tools_start = \<lparr>tl_target = '''', tl_mode = Icmp, tl_count = ''4'', tl_loading = False, tl_result = None\<rparr>"

definition mode_text :: "ping_mode \<Rightarrow> string" where
  "mode_text m = (case m of Icmp \<Rightarrow> ''icmp'' | Tcp \<Rightarrow> ''tcp'')"

definition countValid :: "string \<Rightarrow> bool" where
  "countValid typed = (case to_number typed of Fin r \<Rightarrow> r = of_int \<lfloor>r\<rfloor> \<and> 1 \<le> r \<and> r \<le> 10 | _ \<Rightarrow> False)"

definition tools_path :: "page_config \<Rightarrow> string" where
  "tools_path config = or_str (api_path config) ''/api/tools/ping''"

definition tools_request :: "string \<Rightarrow> tools_page \<Rightarrow> request" where
  "tools_request path st =
     post_request path (JObj [(''target'', JStr (trim (tl_target st))), (''count'', JNum (to_number (tl_count st))),
       (''mode'', JStr (mode_text (tl_mode st)))])"

definition run_tool :: "page_config \<Rightarrow> can_use \<Rightarrow> env \<Rightarrow> tools_page \<Rightarrow> log \<Rightarrow> tools_page \<times> log" where
  "run_tool config can ev st l =
     (let path = tools_path config
      in if \<not> can ''POST'' path \<or> trim (tl_target st) = '''' \<or> \<not> countValid (tl_count st) then (st, l)
         else case apiRequest ev (tools_request path st) l of
                (Inl e, l') \<Rightarrow> (st\<lparr>tl_loading := False, tl_result := None\<rparr>, report e l')
              | (Inr v, l') \<Rightarrow> (st\<lparr>tl_loading := False, tl_result := Some v\<rparr>, l'))"

definition tools_enabled :: "tools_page \<Rightarrow> bool" where
  "tools_enabled st \<longleftrightarrow> trim (tl_target st) \<noteq> '''' \<and> countValid (tl_count st) \<and> \<not> tl_loading st"

section \<open>Properties\<close>

text \<open>How the retry with a second factor ends well: the last call was answered.\<close>

lemma api_answered: "apiRequest ev rq l = (Inr v, l') \<Longrightarrow> l' = l @ [Call rq] \<and> fst (apiRequest ev rq l) = Inr v"
  by (metis apiRequest_log fst_conv snd_conv)

lemma mfa_answered:
  assumes "with_access_mfa ev run l = (Inr (Some v), l')"
  shows "\<exists>code l0. l' = l0 @ [Call (run code)] \<and> fst (apiRequest ev (run code) l0) = Inr v"
proof (cases "fst (apiRequest ev (run '''') l)")
  case (Inr w)
  then have "l' = l @ [Call (run '''')]" "w = v"
    using assms apiRequest_eq [of ev "run ''''" l] by (auto simp: with_access_mfa_def)
  with Inr show ?thesis by (intro exI [of _ "''''"] exI [of _ l]) simp
next
  case (Inl e)
  let ?l2 = "l @ [Call (run ''''), PromptMFA]"
  let ?code = "ev_mfa ev ?l2"
  have "apiRequest ev (run ?code) ?l2 = (Inr v, l')"
    using assms Inl apiRequest_eq [of ev "run ''''" l]
    by (auto simp: with_access_mfa_def Let_def split: if_splits sum.splits prod.splits)
  from api_answered [OF this] show ?thesis by blast
qed

lemma verified:
  assumes "ensureAccessMFA ev path l = (Inr True, l')"
  shows "\<exists>code l0 v. l' = l0 @ [Call (post_request path (mfa_body code))] \<and>
    fst (apiRequest ev (post_request path (mfa_body code)) l0) = Inr v"
proof -
  obtain v where "with_access_mfa ev (\<lambda>code. post_request path (mfa_body code)) l = (Inr (Some v), l')"
    using assms by (auto simp: ensureAccessMFA_def split: sum.splits prod.splits option.splits)
  from mfa_answered [OF this] show ?thesis by blast
qed

lemma mfa_failed:
  assumes "with_access_mfa ev run l = (Inl e, l')"
  shows "\<exists>code l0. l' = l0 @ [Call (run code)] \<and> fst (apiRequest ev (run code) l0) = Inl e"
proof (cases "fst (apiRequest ev (run '''') l)")
  case (Inr w)
  then show ?thesis using assms apiRequest_eq [of ev "run ''''" l] by (simp add: with_access_mfa_def)
next
  case (Inl e1)
  let ?l2 = "l @ [Call (run ''''), PromptMFA]"
  let ?code = "ev_mfa ev ?l2"
  from Inl have first: "apiRequest ev (run '''') l = (Inl e1, l @ [Call (run '''')])" using apiRequest_eq [of ev "run ''''" l] by simp
  consider "\<not> isAccessMFARequiredError e1" "e = e1" "l' = l @ [Call (run '''')]" | "apiRequest ev (run ?code) ?l2 = (Inl e, l')"
    using assms first by (auto simp: with_access_mfa_def Let_def split: if_splits sum.splits prod.splits)
  then show ?thesis
  proof cases
    case 1
    with Inl show ?thesis by (intro exI [of _ "''''"] exI [of _ l]) simp
  next
    case 2
    then have "l' = ?l2 @ [Call (run ?code)] \<and> fst (apiRequest ev (run ?code) ?l2) = Inl e" by (metis apiRequest_log fst_conv snd_conv)
    then show ?thesis by blast
  qed
qed

lemma mfa_dismissed:
  assumes "with_access_mfa ev run l = (Inr None, l')"
  shows "\<exists>l0. l' = l0 @ [PromptMFA] \<and> ev_mfa ev l' = ''''"
  using assms apiRequest_eq [of ev "run ''''" l]
  by (cases rule: with_access_mfa_cases [of ev run l])
    (auto simp: with_access_mfa_def Let_def split: sum.splits prod.splits if_splits)

text \<open>C23 The window opened for a web asset never stays behind blank. If the browser lets it open, there are three ends, each decided by the
  last thing that happened: the server accepted the verification of that very asset, and the window is at the asset's own
  proxy address; a verification was refused or failed, and the window is closed and that error reported; or the
  user left the prompt for the second factor without a code, and the window is closed without a message.
\<close>
theorem web_window_settled:
  assumes "pe_popup pe (l @ [OpenWindow ''about:blank''])"
  shows "(\<exists>code l0 v. connect_http pe ev item l =
        l0 @ [Call (post_request (''/api/access/http/'' @ it_id item @ ''/mfa'') (mfa_body code)),
              Emit ''popup.replace'' (JStr (''/api/access/http/'' @ it_id item @ ''/proxy/''))] \<and>
        fst (apiRequest ev (post_request (''/api/access/http/'' @ it_id item @ ''/mfa'') (mfa_body code)) l0) = Inr v)
    \<or> (\<exists>code l0 e. connect_http pe ev item l =
        l0 @ [Call (post_request (''/api/access/http/'' @ it_id item @ ''/mfa'') (mfa_body code)),
              Emit ''popup.close'' JUndefined, ReportError e] \<and>
        fst (apiRequest ev (post_request (''/api/access/http/'' @ it_id item @ ''/mfa'') (mfa_body code)) l0) = Inl e)
    \<or> (\<exists>l0. connect_http pe ev item l = l0 @ [PromptMFA, Emit ''popup.close'' JUndefined] \<and> ev_mfa ev (l0 @ [PromptMFA]) = '''')"
proof -
  let ?run = "\<lambda>code. post_request (http_path item @ ''/mfa'') (mfa_body code)"
  obtain r l2 where run: "with_access_mfa ev ?run (l @ [OpenWindow ''about:blank'']) = (r, l2)" by (metis surj_pair)
  consider v where "r = Inr (Some v)" | "r = Inr None" | e where "r = Inl e" by (metis obj_sumE option.exhaust)
  then show ?thesis
  proof cases
    case 1
    from mfa_answered [OF run [unfolded 1]] obtain code l0 where
      "l2 = l0 @ [Call (?run code)]" "fst (apiRequest ev (?run code) l0) = Inr v" by blast
    then show ?thesis using assms run 1
      by (intro disjI1 exI [of _ code] exI [of _ l0] exI [of _ v]) (simp add: connect_http_def ensureAccessMFA_def Let_def http_path_def)
  next
    case 2
    from mfa_dismissed [OF run [unfolded 2]] obtain l0 where "l2 = l0 @ [PromptMFA]" "ev_mfa ev l2 = ''''" by blast
    then show ?thesis using assms run 2
      by (intro disjI2 exI [of _ l0]) (simp add: connect_http_def ensureAccessMFA_def)
  next
    case 3
    from mfa_failed [OF run [unfolded 3]] obtain code l0 where
      "l2 = l0 @ [Call (?run code)]" "fst (apiRequest ev (?run code) l0) = Inl e" by blast
    then show ?thesis using assms run 3
      by (intro disjI2 disjI1 exI [of _ code] exI [of _ l0] exI [of _ e])
        (simp add: connect_http_def ensureAccessMFA_def report_def http_path_def)
  qed
qed

definition refusing_server :: env where
  "refusing_server = \<lparr>ev_fetch = (\<lambda>_. Inl ''offline''), ev_mfa = (\<lambda>_. ''''), ev_confirm = (\<lambda>_. False)\<rparr>"

definition plain_portal :: portal_env where
  "plain_portal = \<lparr>pe_innerWidth = 800, pe_innerHeight = 600, pe_popup = (\<lambda>_. True)\<rparr>"

lemma web_window_settled_witness:
  "\<exists>l0 e. connect_http plain_portal refusing_server (blank_item\<lparr>it_id := ''w1''\<rparr>) [] =
     l0 @ [Emit ''popup.close'' JUndefined, ReportError e]"
proof -
  have p: "pe_popup plain_portal ([] @ [OpenWindow ''about:blank''])" by (simp add: plain_portal_def)
  have f: "fst (apiRequest refusing_server rq l0) = Inl (OtherError ''offline'')" for rq l0
    by (simp add: apiRequest_def refusing_server_def)
  have "connect_http plain_portal refusing_server (blank_item\<lparr>it_id := ''w1''\<rparr>) [] \<noteq> l0 @ [PromptMFA, Emit ''popup.close'' JUndefined]" for l0
    by (simp add: connect_http_def plain_portal_def ensureAccessMFA_def with_access_mfa_def apiRequest_def refusing_server_def
        isAccessMFARequiredError_def report_def)
  with web_window_settled [OF p, of refusing_server "blank_item\<lparr>it_id := ''w1''\<rparr>"] f show ?thesis by force
qed

text \<open>
  a screen opens for a session only when the server has just created it: the workspace carries the server's
  answer to the last request, which asked for a session of that protocol on that asset.
\<close>
theorem session_screen_from_server:
  assumes "connect_session pe ev protocol item l = l' @ [SetWorkspace (Some w)]"
  shows "\<exists>code l0 s. l' = l0 @ [Call (session_request pe protocol item code)] \<and>
    fst (apiRequest ev (session_request pe protocol item code) l0) = Inr s \<and> w = new_workspace protocol s"
proof -
  obtain r l2 where run: "with_access_mfa ev (session_request pe protocol item) l = (r, l2)" by (metis surj_pair)
  show ?thesis
  proof (cases r)
    case (Inl e)
    with assms run show ?thesis by (simp add: connect_session_def report_def)
  next
    case (Inr s)
    show ?thesis
    proof (cases s)
      case None
      with Inr have "with_access_mfa ev (session_request pe protocol item) l = (Inr None, l2)" using run by simp
      then have "\<exists>l3. l2 = l3 @ [PromptMFA]"
        by (cases rule: with_access_mfa_cases [of ev "session_request pe protocol item" l])
          (auto simp: with_access_mfa_def Let_def split: sum.splits prod.splits if_splits)
      with assms run Inr None show ?thesis by (auto simp: connect_session_def)
    next
      case (Some v)
      then have w: "l2 = l'" "w = new_workspace protocol v"
        using assms run Inr by (auto simp: connect_session_def toast_def refresh_def split: if_splits)
      from mfa_answered [of ev "session_request pe protocol item" l v l2] run Inr Some w show ?thesis by auto
    qed
  qed
qed

definition session_server :: env where
  "session_server = \<lparr>ev_fetch = (\<lambda>_. Inr \<lparr>rs_ok = True, rs_status = 201, rs_status_text = ''Created'',
     rs_json = Some (JObj [(''id'', JStr ''s1'')])\<rparr>), ev_mfa = (\<lambda>_. ''''), ev_confirm = (\<lambda>_. False)\<rparr>"

lemma session_screen_from_server_witness:
  "\<exists>code l0 s. [Call (session_request plain_portal ''ssh'' blank_item '''')] = l0 @ [Call (session_request plain_portal ''ssh'' blank_item code)] \<and>
    fst (apiRequest session_server (session_request plain_portal ''ssh'' blank_item code) l0) = Inr s \<and>
    new_workspace ''ssh'' (JObj [(''id'', JStr ''s1'')]) = new_workspace ''ssh'' s"
  by (rule session_screen_from_server [where l = "[]"])
    (simp add: connect_session_def with_access_mfa_def apiRequest_def session_server_def api_result_def Let_def)

text \<open>
  the tools page asks for a diagnosis only with a target and a whole number of probes from 1 to 10, however the
  number was typed.
\<close>
theorem tool_request_bounded:
  assumes "calls (snd (run_tool config can ev st l)) \<noteq> calls l"
  shows "\<exists>n. calls (snd (run_tool config can ev st l)) = calls l @ [post_request (tools_path config)
      (JObj [(''target'', JStr (trim (tl_target st))), (''count'', JNum (Fin (of_int n))), (''mode'', JStr (mode_text (tl_mode st)))])]
    \<and> 1 \<le> n \<and> n \<le> 10 \<and> trim (tl_target st) \<noteq> '''' \<and> can ''POST'' (tools_path config)"
proof -
  have can: "can ''POST'' (tools_path config)" and target: "trim (tl_target st) \<noteq> ''''" and valid: "countValid (tl_count st)"
    using assms by (auto simp: run_tool_def Let_def split: if_splits)
  then have calls: "calls (snd (run_tool config can ev st l)) = calls l @ [tools_request (tools_path config) st]"
    by (cases rule: apiRequest_cases [of ev "tools_request (tools_path config) st" l]) (simp_all add: run_tool_def Let_def)
  from valid obtain r where r: "to_number (tl_count st) = Fin r" "r = of_int \<lfloor>r\<rfloor>" "1 \<le> r" "r \<le> 10"
    by (auto simp: countValid_def split: jsnum.splits)
  then have "1 \<le> \<lfloor>r\<rfloor>" "\<lfloor>r\<rfloor> \<le> 10" by linarith+
  moreover have "to_number (tl_count st) = Fin (of_int \<lfloor>r\<rfloor>)" using r by simp
  ultimately show ?thesis
    using can target calls by (intro exI [of _ "\<lfloor>r\<rfloor>"]) (simp add: tools_request_def)
qed

lemma tool_request_bounded_witness:
  "\<exists>n. 1 \<le> n \<and> n \<le> (10::int) \<and> calls (snd (run_tool (platformPages ! 0) (\<lambda>_ _. True) refusing_server
     (tools_start\<lparr>tl_target := ''host''\<rparr>) [])) \<noteq> []"
proof -
  let ?run = "run_tool (platformPages ! 0) (\<lambda>_ _. True) refusing_server (tools_start\<lparr>tl_target := ''host''\<rparr>) []"
  have valid: "countValid ''4''" "trim ''host'' = ''host''" by (code_simp, code_simp)
  have "calls (snd ?run) \<noteq> calls []"
    by (cases rule: apiRequest_cases [of refusing_server "tools_request (tools_path (platformPages ! 0)) (tools_start\<lparr>tl_target := ''host''\<rparr>)" "[]"])
      (simp_all add: run_tool_def tools_start_def valid Let_def)
  with tool_request_bounded [OF this] show ?thesis by auto
qed

end
