(* ===== verification/Backups.thy ===== *)
theory Backups
  imports Dialogs Paths
begin

text \<open>
  The backups page (\<open>BackupsPage\<close> in \<open>platform-page.tsx\<close>): listing, creating and deleting backups, and restoring
  an uploaded archive, which must have passed a dry run on the server first. The user may pick another file while a
  request is under way, so the restore is a step relation: validating and restoring are split at their awaits, and the
  answers come at any time. \<open>encode\<close> is \<open>encodeURIComponent\<close>.
\<close>

section \<open>Files and requests\<close>

record backup_file =
  bf_name :: string
  bf_size :: nat
  bf_lastModified :: int
  bf_content :: string

definition backupUploadKey :: "backup_file \<Rightarrow> string" where
  "backupUploadKey f = bf_name f @ '':'' @ show_nat (bf_size f) @ '':'' @ show_int (bf_lastModified f)"

definition upload_form :: "backup_file \<Rightarrow> bool \<Rightarrow> jsval" where
  "upload_form f dryRun =
     JObj ([(''file'', JObj [(''name'', JStr (bf_name f)), (''content'', JStr (bf_content f))])]
       @ (if dryRun then [(''dry_run'', JStr ''true'')] else []))"

definition backup_request :: "backup_file \<Rightarrow> bool \<Rightarrow> request" where
  "backup_request f dryRun =
     \<lparr>rq_method = ''POST'', rq_path = ''/api/admin/backups/restore'' @ (if dryRun then ''?dry_run=1'' else ''''),
      rq_body = Some (upload_form f dryRun), rq_json_header = False\<rparr>"

text \<open>\<open>submitBackupFile\<close> reads the answer as JSON, or as an empty object, and throws when the status is an error.\<close>

definition submit_result :: "http_response \<Rightarrow> exn + jsval" where
  "submit_result resp =
     (let payload = (case rs_json resp of Some v \<Rightarrow> v | None \<Rightarrow> JObj [])
      in if rs_ok resp then Inr payload
         else case (js_prop payload ''error'', js_prop payload ''setup_required'') of
                (Inr err, Inr setup) \<Rightarrow>
                  Inl (ApiError \<lparr>ae_message = (if truthy err then js_to_string err else rs_status_text resp),
                     ae_status = rs_status resp, ae_setup_required = truthy setup, ae_data = JUndefined\<rparr>)
              | (Inl e, _) \<Rightarrow> Inl e
              | (_, Inl e) \<Rightarrow> Inl e)"

section \<open>Rights and state\<close>

definition backups_path :: "page_config \<Rightarrow> string" where
  "backups_path config = or_str (api_path config) ''/api/admin/backups''"

definition backup_item_path :: "(string \<Rightarrow> string) \<Rightarrow> string \<Rightarrow> string \<Rightarrow> string" where
  "backup_item_path encode path nm = path @ ''/'' @ encode nm"

record backup_rights =
  br_list :: bool
  br_create :: bool
  br_restore :: bool
  br_download :: "string \<Rightarrow> bool"
  br_delete :: "string \<Rightarrow> bool"

definition backup_can :: "page_config \<Rightarrow> (string \<Rightarrow> string) \<Rightarrow> can_use \<Rightarrow> backup_rights" where
  "backup_can config encode can =
     (let path = backups_path config
      in \<lparr>br_list = can ''GET'' path, br_create = can ''POST'' path, br_restore = can ''POST'' (path @ ''/restore''),
          br_download = (\<lambda>nm. can ''GET'' (backup_item_path encode path nm @ ''/download'')),
          br_delete = (\<lambda>nm. can ''DELETE'' (backup_item_path encode path nm))\<rparr>)"

record backups_page =
  bk_items :: "js_object list"
  bk_loading :: bool
  bk_creating :: bool
  bk_restoring :: bool
  bk_uploadFile :: "backup_file option"
  bk_validation :: "jsval option"
  bk_validatedKey :: string

definition backups_start :: backups_page where
  "backups_start = \<lparr>bk_items = [], bk_loading = False, bk_creating = False, bk_restoring = False, bk_uploadFile = None,
     bk_validation = None, bk_validatedKey = ''''\<rparr>"

definition uploadKey :: "backups_page \<Rightarrow> string" where
  "uploadKey st = (case bk_uploadFile st of Some f \<Rightarrow> backupUploadKey f | None \<Rightarrow> '''')"

definition uploadValidated :: "backups_page \<Rightarrow> bool" where
  "uploadValidated st \<longleftrightarrow>
     (case bk_validation st of Some v \<Rightarrow> truthy v | None \<Rightarrow> False) \<and> uploadKey st \<noteq> '''' \<and> uploadKey st = bk_validatedKey st"

section \<open>The list\<close>

definition load_backups :: "string \<Rightarrow> backup_rights \<Rightarrow> env \<Rightarrow> backups_page \<Rightarrow> log \<Rightarrow> backups_page \<times> log" where
  "load_backups path rights ev st l =
     (if \<not> br_list rights then (st, l)
      else case apiRequest ev (get_request path) l of
             (Inl e, l') \<Rightarrow> (st\<lparr>bk_loading := False\<rparr>, report e l')
           | (Inr data, l') \<Rightarrow>
               (case js_prop data ''items'' of
                  Inl e \<Rightarrow> (st\<lparr>bk_loading := False\<rparr>, report e l')
                | Inr v \<Rightarrow> (st\<lparr>bk_loading := False, bk_items := objectArrayValue v\<rparr>, l')))"

definition createBackup :: "string \<Rightarrow> backup_rights \<Rightarrow> env \<Rightarrow> backups_page \<Rightarrow> log \<Rightarrow> backups_page \<times> log" where
  "createBackup path rights ev st l =
     (if \<not> br_create rights then (st, l)
      else case apiRequest ev (post_request path (JObj [])) l of
             (Inl e, l') \<Rightarrow> (st\<lparr>bk_creating := False\<rparr>, report e l')
           | (Inr _, l') \<Rightarrow>
               (case load_backups path rights ev st l' of
                  (st', l2) \<Rightarrow> (st'\<lparr>bk_creating := False\<rparr>, toast ''backupsPage.created'' l2)))"

definition deleteBackup ::
  "string \<Rightarrow> (string \<Rightarrow> string) \<Rightarrow> backup_rights \<Rightarrow> env \<Rightarrow> string \<Rightarrow> backups_page \<Rightarrow> log \<Rightarrow> backups_page \<times> log" where
  "deleteBackup path encode rights ev nm st l =
     (if \<not> br_delete rights nm then (st, l)
      else case confirm ev ''backupsPage.deleteConfirmTitle'' l of
             (False, l1) \<Rightarrow> (st, l1)
           | (True, l1) \<Rightarrow>
               (case apiRequest ev (mk_request ''DELETE'' (backup_item_path encode path nm) None) l1 of
                  (Inl e, l2) \<Rightarrow> (st, report e l2)
                | (Inr _, l2) \<Rightarrow>
                    (case load_backups path rights ev st l2 of (st', l3) \<Rightarrow> (st', toast ''backupsPage.deleted'' l3))))"

section \<open>Picking, validating and restoring a file\<close>

definition upload_limit :: nat where
  "upload_limit = 512 * 1024 * 1024"

definition forget_validation :: "backups_page \<Rightarrow> backups_page" where
  "forget_validation st = st\<lparr>bk_validation := None, bk_validatedKey := ''''\<rparr>"

definition choose_file :: "backup_file option \<Rightarrow> backups_page \<Rightarrow> log \<Rightarrow> backups_page \<times> log" where
  "choose_file f st l =
     (case f of
        Some g \<Rightarrow> if upload_limit < bf_size g then (forget_validation (st\<lparr>bk_uploadFile := None\<rparr>), toast ''backupsPage.fileTooLarge'' l)
                  else (forget_validation (st\<lparr>bk_uploadFile := f\<rparr>), l)
      | None \<Rightarrow> (forget_validation (st\<lparr>bk_uploadFile := None\<rparr>), l))"

text \<open>What is under way: a dry run, the question, or the restore, each of the file it was started with.\<close>

datatype backup_task = AwaitDryRun backup_file | AwaitRestoreConfirm backup_file | AwaitRestore backup_file

definition press_validate :: "backup_rights \<Rightarrow> backups_page \<Rightarrow> (backups_page \<times> backup_task \<times> request) option" where
  "press_validate rights st =
     (case bk_uploadFile st of
        None \<Rightarrow> None
      | Some f \<Rightarrow> if \<not> br_restore rights \<or> bk_restoring st then None
                  else Some (st\<lparr>bk_restoring := True\<rparr>, AwaitDryRun f, backup_request f True))"

definition dry_run_answered :: "backup_file \<Rightarrow> exn + jsval \<Rightarrow> backups_page \<Rightarrow> log \<Rightarrow> backups_page \<times> log" where
  "dry_run_answered f answer st l =
     (case answer of
        Inr v \<Rightarrow> (st\<lparr>bk_validation := Some v, bk_validatedKey := backupUploadKey f, bk_restoring := False\<rparr>,
                  toast ''backupsPage.validated'' l)
      | Inl e \<Rightarrow> ((forget_validation st)\<lparr>bk_restoring := False\<rparr>, report e l))"

definition press_restore :: "backup_rights \<Rightarrow> backups_page \<Rightarrow> backup_task option" where
  "press_restore rights st =
     (case bk_uploadFile st of
        None \<Rightarrow> None
      | Some f \<Rightarrow> if \<not> br_restore rights \<or> bk_restoring st \<or> \<not> uploadValidated st then None else Some (AwaitRestoreConfirm f))"

definition restore_answered :: "exn + jsval \<Rightarrow> backups_page \<Rightarrow> log \<Rightarrow> backups_page \<times> log" where
  "restore_answered answer st l =
     (case answer of
        Inr v \<Rightarrow> (st\<lparr>bk_validation := Some v, bk_restoring := False\<rparr>,
                  toast ''backupsPage.restored'' l @ [AssignUrl ''/login''])
      | Inl e \<Rightarrow> (st\<lparr>bk_restoring := False\<rparr>, report e l))"

section \<open>The life of the page\<close>

text \<open>What matters of the past: which dry runs the server passed, which restores the user confirmed, which were sent.\<close>

datatype backup_event = Passed backup_file | Confirmed backup_file | Sent backup_file

record backup_run =
  ru_page :: backups_page
  ru_tasks :: "backup_task list"
  ru_past :: "backup_event list"
  ru_log :: log

definition run_start :: backup_run where
  "run_start = \<lparr>ru_page = backups_start, ru_tasks = [], ru_past = [], ru_log = []\<rparr>"

inductive backup_step :: "backup_rights \<Rightarrow> backup_run \<Rightarrow> backup_run \<Rightarrow> bool" for rights where
  step_choose: "choose_file f (ru_page s) (ru_log s) = (st', l') \<Longrightarrow> backup_step rights s (s\<lparr>ru_page := st', ru_log := l'\<rparr>)"
| step_validate: "press_validate rights (ru_page s) = Some (st', task, rq) \<Longrightarrow>
    backup_step rights s (s\<lparr>ru_page := st', ru_tasks := task # ru_tasks s, ru_log := ru_log s @ [Call rq]\<rparr>)"
| step_passed: "ru_tasks s = ts1 @ AwaitDryRun f # ts2 \<Longrightarrow> dry_run_answered f (Inr v) (ru_page s) (ru_log s) = (st', l') \<Longrightarrow>
    backup_step rights s (s\<lparr>ru_page := st', ru_tasks := ts1 @ ts2, ru_past := ru_past s @ [Passed f], ru_log := l'\<rparr>)"
| step_refused: "ru_tasks s = ts1 @ AwaitDryRun f # ts2 \<Longrightarrow> dry_run_answered f (Inl e) (ru_page s) (ru_log s) = (st', l') \<Longrightarrow>
    backup_step rights s (s\<lparr>ru_page := st', ru_tasks := ts1 @ ts2, ru_log := l'\<rparr>)"
| step_restore: "press_restore rights (ru_page s) = Some task \<Longrightarrow>
    backup_step rights s (s\<lparr>ru_tasks := task # ru_tasks s, ru_log := ru_log s @ [Confirm ''backupsPage.restoreConfirmTitle'']\<rparr>)"
| step_declined: "ru_tasks s = ts1 @ AwaitRestoreConfirm f # ts2 \<Longrightarrow> backup_step rights s (s\<lparr>ru_tasks := ts1 @ ts2\<rparr>)"
| step_confirmed: "ru_tasks s = ts1 @ AwaitRestoreConfirm f # ts2 \<Longrightarrow>
    backup_step rights s (s\<lparr>ru_page := (ru_page s)\<lparr>bk_restoring := True\<rparr>, ru_tasks := ts1 @ AwaitRestore f # ts2,
      ru_past := ru_past s @ [Confirmed f, Sent f], ru_log := ru_log s @ [Call (backup_request f False)]\<rparr>)"
| step_restored: "ru_tasks s = ts1 @ AwaitRestore f # ts2 \<Longrightarrow> restore_answered answer (ru_page s) (ru_log s) = (st', l') \<Longrightarrow>
    backup_step rights s (s\<lparr>ru_page := st', ru_tasks := ts1 @ ts2, ru_log := l'\<rparr>)"

inductive backup_reach :: "backup_rights \<Rightarrow> backup_run \<Rightarrow> bool" for rights where
  reach_init: "backup_reach rights run_start"
| reach_step: "backup_reach rights s \<Longrightarrow> backup_step rights s t \<Longrightarrow> backup_reach rights t"

section \<open>A restore is validated and confirmed\<close>

definition key_passed :: "backup_event list \<Rightarrow> string \<Rightarrow> bool" where
  "key_passed past k \<longleftrightarrow> (\<exists>g. Passed g \<in> set past \<and> backupUploadKey g = k)"

definition sound_past :: "backup_event list \<Rightarrow> bool" where
  "sound_past past \<longleftrightarrow> (\<forall>h1 f h2. past = h1 @ Sent f # h2 \<longrightarrow> Confirmed f \<in> set h1 \<and> key_passed h1 (backupUploadKey f))"

lemma key_passed_append [simp]: "key_passed h k \<Longrightarrow> key_passed (h @ h') k"
  by (auto simp: key_passed_def)

lemma sound_snoc: "sound_past h \<Longrightarrow> (\<And>f. x = Sent f \<Longrightarrow> Confirmed f \<in> set h \<and> key_passed h (backupUploadKey f)) \<Longrightarrow> sound_past (h @ [x])"
  unfolding sound_past_def
proof (intro allI impI)
  fix h1 f h2
  assume sound: "\<forall>h1 f h2. h = h1 @ Sent f # h2 \<longrightarrow> Confirmed f \<in> set h1 \<and> key_passed h1 (backupUploadKey f)"
    and last: "\<And>f. x = Sent f \<Longrightarrow> Confirmed f \<in> set h \<and> key_passed h (backupUploadKey f)" and eq: "h @ [x] = h1 @ Sent f # h2"
  show "Confirmed f \<in> set h1 \<and> key_passed h1 (backupUploadKey f)"
  proof (cases h2 rule: rev_cases)
    case Nil
    with eq last show ?thesis by auto
  next
    case (snoc h3 y)
    with eq have "h = h1 @ Sent f # h3" by auto
    with sound show ?thesis by blast
  qed
qed

lemma sound_confirmed_sent:
  "sound_past h \<Longrightarrow> key_passed h (backupUploadKey f) \<Longrightarrow> sound_past (h @ [Confirmed f, Sent f])"
proof -
  assume h: "sound_past h" and k: "key_passed h (backupUploadKey f)"
  have "sound_past (h @ [Confirmed f])" by (rule sound_snoc [OF h]) simp
  then have "sound_past ((h @ [Confirmed f]) @ [Sent f])" by (rule sound_snoc) (use k in auto)
  then show ?thesis by simp
qed

definition restore_call :: "request \<Rightarrow> bool" where
  "restore_call rq \<longleftrightarrow> rq_path rq = ''/api/admin/backups/restore''"

definition backup_inv :: "backup_run \<Rightarrow> bool" where
  "backup_inv s \<longleftrightarrow>
     (bk_validatedKey (ru_page s) \<noteq> '''' \<longrightarrow> key_passed (ru_past s) (bk_validatedKey (ru_page s)))
     \<and> (\<forall>f. AwaitRestoreConfirm f \<in> set (ru_tasks s) \<longrightarrow> key_passed (ru_past s) (backupUploadKey f))
     \<and> sound_past (ru_past s)
     \<and> (\<forall>rq \<in> set (calls (ru_log s)). restore_call rq \<longrightarrow> (\<exists>f. rq = backup_request f False \<and> Sent f \<in> set (ru_past s)))"

lemma choose_frame:
  "choose_file f st l = (st', l') \<Longrightarrow> bk_validatedKey st' = '''' \<and> calls l' = calls l"
  by (auto simp: choose_file_def forget_validation_def split: option.splits if_splits)

lemma answer_frames:
  "dry_run_answered f (Inr v) st l = (st', l') \<Longrightarrow> bk_validatedKey st' = backupUploadKey f \<and> calls l' = calls l"
  "dry_run_answered f (Inl e) st l = (st', l') \<Longrightarrow> bk_validatedKey st' = '''' \<and> calls l' = calls l"
  "restore_answered answer st l = (st', l') \<Longrightarrow> bk_validatedKey st' = bk_validatedKey st \<and> calls l' = calls l"
  by (auto simp: dry_run_answered_def restore_answered_def forget_validation_def split: sum.splits)

lemma press_frames:
  "press_validate rights st = Some (st', task, rq) \<Longrightarrow>
     bk_validatedKey st' = bk_validatedKey st \<and> \<not> restore_call rq \<and> (\<forall>f. task \<noteq> AwaitRestoreConfirm f)"
  "press_restore rights st = Some task \<Longrightarrow>
     \<exists>f. task = AwaitRestoreConfirm f \<and> backupUploadKey f = bk_validatedKey st \<and> bk_validatedKey st \<noteq> ''''"
  by (auto simp: press_validate_def press_restore_def restore_call_def backup_request_def uploadValidated_def uploadKey_def
      split: option.splits if_splits)

lemma restore_call_request [simp]: "restore_call (backup_request f False)"
  by (simp add: restore_call_def backup_request_def)

lemma inv_past_grows:
  "(\<forall>rq \<in> set cs. restore_call rq \<longrightarrow> (\<exists>f. rq = backup_request f False \<and> Sent f \<in> set h)) \<Longrightarrow>
     \<forall>rq \<in> set cs. restore_call rq \<longrightarrow> (\<exists>f. rq = backup_request f False \<and> Sent f \<in> set (h @ h'))"
  by (metis Un_iff set_append)

lemma backup_inv_step: "backup_step rights s t \<Longrightarrow> backup_inv s \<Longrightarrow> backup_inv t"
proof (induction rule: backup_step.induct)
  case (step_choose f s st' l')
  with choose_frame [OF step_choose.hyps] show ?case by (simp add: backup_inv_def)
next
  case (step_validate s st' task rq)
  with press_frames(1) [OF step_validate.hyps] show ?case by (auto simp: backup_inv_def)
next
  case (step_passed s ts1 f ts2 v st' l')
  have "sound_past (ru_past s @ [Passed f])" using step_passed.prems by (intro sound_snoc) (auto simp: backup_inv_def)
  moreover have "key_passed (ru_past s @ [Passed f]) (backupUploadKey f)" by (auto simp: key_passed_def)
  ultimately show ?case
    using step_passed.prems step_passed.hyps(1) answer_frames(1) [OF step_passed.hyps(2)] inv_past_grows
    by (auto simp: backup_inv_def)
next
  case (step_refused s ts1 f ts2 e st' l')
  with answer_frames(2) [OF step_refused.hyps(2)] show ?case by (auto simp: backup_inv_def)
next
  case (step_restore s task)
  with press_frames(2) [OF step_restore.hyps] show ?case by (auto simp: backup_inv_def)
next
  case (step_declined s ts1 f ts2)
  then show ?case by (auto simp: backup_inv_def)
next
  case (step_confirmed s ts1 f ts2)
  then have "key_passed (ru_past s) (backupUploadKey f)" by (auto simp: backup_inv_def)
  with step_confirmed have "sound_past (ru_past s @ [Confirmed f, Sent f])"
    by (intro sound_confirmed_sent) (auto simp: backup_inv_def)
  with step_confirmed inv_past_grows [of "calls (ru_log s)" "ru_past s" "[Confirmed f, Sent f]"] show ?case
    by (auto simp: backup_inv_def)
next
  case (step_restored s ts1 f ts2 answer st' l')
  with answer_frames(3) [OF step_restored.hyps(2)] show ?case by (auto simp: backup_inv_def)
qed

lemma backup_inv_reach: "backup_reach rights s \<Longrightarrow> backup_inv s"
proof (induction rule: backup_reach.induct)
  case reach_init
  then show ?case by (simp add: backup_inv_def run_start_def backups_start_def sound_past_def)
next
  case (reach_step s t)
  then show ?case using backup_inv_step by blast
qed

section \<open>A run that restores\<close>

definition sample_backup :: backup_file where
  "sample_backup = \<lparr>bf_name = ''b.tar'', bf_size = 10, bf_lastModified = 5, bf_content = ''x''\<rparr>"

definition restoring_rights :: backup_rights where
  "restoring_rights = \<lparr>br_list = True, br_create = True, br_restore = True, br_download = (\<lambda>_. True), br_delete = (\<lambda>_. True)\<rparr>"

lemmas backup_page_defs = run_start_def backups_start_def choose_file_def forget_validation_def upload_limit_def
  press_validate_def dry_run_answered_def press_restore_def uploadValidated_def uploadKey_def sample_backup_def
  restoring_rights_def backupUploadKey_def

lemma restore_run_reached:
  "\<exists>s. backup_reach restoring_rights s \<and> backup_request sample_backup False \<in> set (calls (ru_log s))"
proof -
  let ?r = restoring_rights and ?f = sample_backup
  let ?chosen = "run_start\<lparr>ru_page := backups_start\<lparr>bk_uploadFile := Some ?f\<rparr>\<rparr>"
  have "backup_step ?r run_start ?chosen"
    using step_choose [of "Some ?f" run_start "backups_start\<lparr>bk_uploadFile := Some ?f\<rparr>" "[]"]
    by (simp add: backup_page_defs)
  then have 1: "backup_reach ?r ?chosen" by (blast intro: backup_reach.intros)
  obtain asked where "asked = ?chosen\<lparr>ru_page := (ru_page ?chosen)\<lparr>bk_restoring := True\<rparr>, ru_tasks := [AwaitDryRun ?f],
      ru_log := [Call (backup_request ?f True)]\<rparr>" by simp
  then have asked: "backup_reach ?r asked" "ru_tasks asked = [] @ AwaitDryRun ?f # []"
      "ru_page asked = backups_start\<lparr>bk_uploadFile := Some ?f, bk_restoring := True\<rparr>"
    using reach_step [OF 1 step_validate [of ?r ?chosen]] by (simp_all add: backup_page_defs)
  let ?page = "backups_start\<lparr>bk_uploadFile := Some ?f, bk_validation := Some (JBool True), bk_validatedKey := backupUploadKey ?f\<rparr>"
  have "\<exists>s. backup_reach ?r s \<and> ru_page s = ?page \<and> ru_tasks s = []"
    using reach_step [OF asked(1) step_passed [OF asked(2), of "JBool True"]] asked(3)
    by (force simp: dry_run_answered_def backups_start_def)
  then obtain passed where passed: "backup_reach ?r passed" "ru_page passed = ?page" "ru_tasks passed = []" by blast
  have "press_restore ?r (ru_page passed) = Some (AwaitRestoreConfirm ?f)" by (simp add: passed backup_page_defs truthy_def)
  from reach_step [OF passed(1) step_restore [OF this]] passed(3)
  have "\<exists>s. backup_reach ?r s \<and> ru_tasks s = [] @ AwaitRestoreConfirm ?f # []" by force
  then obtain s where s: "backup_reach ?r s" "ru_tasks s = [] @ AwaitRestoreConfirm ?f # []" by blast
  from reach_step [OF s(1) step_confirmed [OF s(2)]] show ?thesis by force
qed

section \<open>Properties\<close>

text \<open>C10 no archive replaces the data of the system unless a file with the same name, size and date had passed the dry run
  and the user had confirmed this very restore, whatever files are picked and whenever the answers arrive: every
  restore request in the log is of such a file, and the two events come before it is sent.
\<close>
theorem restore_validated_and_confirmed:
  assumes "backup_reach rights s" and "rq \<in> set (calls (ru_log s))" and "rq_path rq = ''/api/admin/backups/restore''"
  shows "\<exists>f h1 h2. rq = backup_request f False \<and> ru_past s = h1 @ Sent f # h2 \<and> Confirmed f \<in> set h1 \<and>
    (\<exists>g. Passed g \<in> set h1 \<and> backupUploadKey g = backupUploadKey f)"
proof -
  have inv: "backup_inv s" by (rule backup_inv_reach [OF assms(1)])
  with assms(2,3) obtain f where f: "rq = backup_request f False" "Sent f \<in> set (ru_past s)"
    unfolding backup_inv_def restore_call_def by blast
  then obtain h1 h2 where past: "ru_past s = h1 @ Sent f # h2" by (meson split_list)
  moreover have "sound_past (ru_past s)" using inv by (simp add: backup_inv_def)
  ultimately have "Confirmed f \<in> set h1 \<and> key_passed h1 (backupUploadKey f)" by (simp add: sound_past_def)
  with f past show ?thesis unfolding key_passed_def by blast
qed

lemma restore_validated_and_confirmed_witness:
  "\<exists>s f h1 h2. backup_reach restoring_rights s \<and> ru_past s = h1 @ Sent f # h2 \<and> Confirmed f \<in> set h1"
proof -
  obtain s where s: "backup_reach restoring_rights s" "backup_request sample_backup False \<in> set (calls (ru_log s))"
    using restore_run_reached by blast
  have "rq_path (backup_request sample_backup False) = ''/api/admin/backups/restore''" by (simp add: backup_request_def)
  from restore_validated_and_confirmed [OF s this] s(1) show ?thesis by blast
qed

end
