(* ===== verification/Controls.thy ===== *)
theory Controls
  imports Metadata
begin

text \<open>
  The inputs of the forms of \<open>platform-page.tsx\<close>: what an input shows for a form, and the form after something was
  entered into it. A text box passes on whatever is typed, a number box only the text of a number or nothing, a select
  one of its options, a check box whether it is ticked. The locale states what makes the inputs of a form
  independent of each other; the forms interpret it.
\<close>

section \<open>Entries and inputs\<close>

datatype entry = Typed string | Ticked bool

fun typed_text :: "entry \<Rightarrow> string" where
  "typed_text (Typed t) = t"
| "typed_text (Ticked _) = ''''"

fun is_ticked :: "entry \<Rightarrow> bool" where
  "is_ticked (Ticked b) = b"
| "is_ticked (Typed _) = False"

text \<open>The value of a number box: empty, or the text of a finite number.\<close>

definition number_entry :: "string \<Rightarrow> bool" where
  "number_entry t \<longleftrightarrow> t = '''' \<or> (\<exists>r. to_number t = Fin r)"

datatype 'f control =
    TextBox (ct_label: string) "'f \<Rightarrow> string" "string \<Rightarrow> 'f \<Rightarrow> 'f"
  | NumberBox (ct_label: string) "'f \<Rightarrow> string" "string \<Rightarrow> 'f \<Rightarrow> 'f"
  | SelectBox (ct_label: string) "string list" "'f \<Rightarrow> string" "string \<Rightarrow> 'f \<Rightarrow> 'f"
  | TickBox (ct_label: string) "'f \<Rightarrow> bool" "bool \<Rightarrow> 'f \<Rightarrow> 'f"

fun control_accepts :: "'f control \<Rightarrow> entry \<Rightarrow> bool" where
  "control_accepts (TextBox _ _ _) (Typed t) = True"
| "control_accepts (NumberBox _ _ _) (Typed t) = number_entry t"
| "control_accepts (SelectBox _ options _ _) (Typed t) = (t \<in> set options)"
| "control_accepts (TickBox _ _ _) (Ticked b) = True"
| "control_accepts _ _ = False"

fun control_shows :: "'f control \<Rightarrow> 'f \<Rightarrow> entry" where
  "control_shows (TextBox _ get _) f = Typed (get f)"
| "control_shows (NumberBox _ get _) f = Typed (get f)"
| "control_shows (SelectBox _ _ get _) f = Typed (get f)"
| "control_shows (TickBox _ get _) f = Ticked (get f)"

fun control_enters :: "'f control \<Rightarrow> entry \<Rightarrow> 'f \<Rightarrow> 'f" where
  "control_enters (TextBox _ _ put) (Typed t) f = put t f"
| "control_enters (NumberBox _ _ put) (Typed t) f = put t f"
| "control_enters (SelectBox _ _ _ put) (Typed t) f = put t f"
| "control_enters (TickBox _ _ put) (Ticked b) f = put b f"
| "control_enters _ _ f = f"

section \<open>Independent inputs\<close>

text \<open>
  The contract of a form: \<open>linked k k'\<close> says that entering something into \<open>k\<close> may change what \<open>k'\<close> shows; every other
  input is left alone, and the input itself shows what was entered.
\<close>

locale form_inputs =
  fixes sound :: "'f \<Rightarrow> bool"
    and accepts :: "'k \<Rightarrow> entry \<Rightarrow> 'f \<Rightarrow> bool"
    and shows_in :: "'k \<Rightarrow> 'f \<Rightarrow> entry"
    and enters :: "'k \<Rightarrow> entry \<Rightarrow> 'f \<Rightarrow> 'f"
    and linked :: "'k \<Rightarrow> 'k \<Rightarrow> bool"
  assumes keeps_sound: "sound f \<Longrightarrow> accepts k e f \<Longrightarrow> sound (enters k e f)"
    and echo: "sound f \<Longrightarrow> accepts k e f \<Longrightarrow> shows_in k (enters k e f) = e"
    and frame: "sound f \<Longrightarrow> accepts k e f \<Longrightarrow> \<not> linked k k' \<Longrightarrow> shows_in k' (enters k e f) = shows_in k' f"
begin

definition after :: "('k \<times> entry) list \<Rightarrow> 'f \<Rightarrow> 'f" where
  "after es f = fold (\<lambda>(k, e). enters k e) es f"

primrec acceptable :: "('k \<times> entry) list \<Rightarrow> 'f \<Rightarrow> bool" where
  "acceptable [] f = True"
| "acceptable (x # es) f = (accepts (fst x) (snd x) f \<and> acceptable es (enters (fst x) (snd x) f))"

lemma after_simps [simp]:
  "after [] f = f" "after (x # es) f = after es (enters (fst x) (snd x) f)" "after (es @ es') f = after es' (after es f)"
  by (simp_all add: after_def split_beta)

lemma acceptable_append [simp]: "acceptable (es @ es') f \<longleftrightarrow> acceptable es f \<and> acceptable es' (after es f)"
  by (induction es arbitrary: f) auto

lemma after_sound: "sound f \<Longrightarrow> acceptable es f \<Longrightarrow> sound (after es f)"
  by (induction es arbitrary: f) (auto simp: keeps_sound)

lemma untouched:
  "sound f \<Longrightarrow> acceptable es f \<Longrightarrow> (\<And>k' e. (k', e) \<in> set es \<Longrightarrow> \<not> linked k' k) \<Longrightarrow> shows_in k (after es f) = shows_in k f"
proof (induction es arbitrary: f)
  case Nil
  then show ?case by simp
next
  case (Cons x es)
  obtain k' e where x: "x = (k', e)" by (cases x)
  with Cons.prems have now: "sound (enters k' e f)" "shows_in k (enters k' e f) = shows_in k f"
    by (auto intro: keeps_sound frame)
  have "shows_in k (after es (enters k' e f)) = shows_in k (enters k' e f)"
    using Cons.prems x by (intro Cons.IH now(1)) auto
  with now(2) x show ?case by simp
qed

lemma last_entry_shown:
  assumes "sound f" "acceptable (before @ (k, e) # later) f" "\<And>k' e'. (k', e') \<in> set later \<Longrightarrow> \<not> linked k' k"
  shows "shows_in k (after (before @ (k, e) # later) f) = e"
proof -
  let ?g = "after before f"
  have "sound ?g" and accepted: "accepts k e ?g" "acceptable later (enters k e ?g)"
    using assms(1,2) after_sound by simp_all
  then have "sound (enters k e ?g)" "shows_in k (enters k e ?g) = e" by (simp_all add: keeps_sound echo)
  then show ?thesis using untouched [of "enters k e ?g" later k] accepted(2) assms(3) by simp
qed

end

text \<open>A fixed list of inputs, named by their positions.\<close>

definition input_at :: "'f control list \<Rightarrow> nat \<Rightarrow> 'f control" where
  "input_at cs i = cs ! i"

definition section_accepts :: "'f control list \<Rightarrow> nat \<Rightarrow> entry \<Rightarrow> bool" where
  "section_accepts cs i e \<longleftrightarrow> i < length cs \<and> control_accepts (cs ! i) e"

definition section_shows :: "'f control list \<Rightarrow> nat \<Rightarrow> 'f \<Rightarrow> entry" where
  "section_shows cs i f = (if i < length cs then control_shows (cs ! i) f else Typed '''')"

definition section_enters :: "'f control list \<Rightarrow> nat \<Rightarrow> entry \<Rightarrow> 'f \<Rightarrow> 'f" where
  "section_enters cs i e f = (if i < length cs then control_enters (cs ! i) e f else f)"

definition section_linked :: "'f control list \<Rightarrow> (string \<times> string) list \<Rightarrow> nat \<Rightarrow> nat \<Rightarrow> bool" where
  "section_linked cs links i j \<longleftrightarrow> i = j \<or> (i < length cs \<and> j < length cs \<and> (ct_label (cs ! i), ct_label (cs ! j)) \<in> set links)"

text \<open>What each input of a section does, checked pair by pair: \<open>lawful\<close> is the contract of the section.\<close>

definition echoes :: "'f control \<Rightarrow> bool" where
  "echoes c \<longleftrightarrow> (\<forall>e f. control_accepts c e \<longrightarrow> control_shows c (control_enters c e f) = e)"

definition leaves :: "'f control \<Rightarrow> 'f control \<Rightarrow> bool" where
  "leaves c d \<longleftrightarrow> (\<forall>e f. control_accepts c e \<longrightarrow> control_shows d (control_enters c e f) = control_shows d f)"

definition lawful :: "'f control list \<Rightarrow> (string \<times> string) list \<Rightarrow> bool" where
  "lawful cs links \<longleftrightarrow>
     list_all echoes cs \<and> distinct (map ct_label cs) \<and>
     list_all (\<lambda>c. list_all (\<lambda>d. ct_label c = ct_label d \<or> (ct_label c, ct_label d) \<in> set links \<or> leaves c d) cs) cs"

lemma all_entry_split: "(\<forall>e. P e) \<longleftrightarrow> (\<forall>t. P (Typed t)) \<and> (\<forall>b. P (Ticked b))"
  by (metis entry.exhaust)

lemma echoes_simps [simp]:
  "echoes (TextBox l get put) \<longleftrightarrow> (\<forall>t f. get (put t f) = t)"
  "echoes (NumberBox l get put) \<longleftrightarrow> (\<forall>t f. number_entry t \<longrightarrow> get (put t f) = t)"
  "echoes (SelectBox l options get put) \<longleftrightarrow> (\<forall>t \<in> set options. \<forall>f. get (put t f) = t)"
  "echoes (TickBox l tick set_tick) \<longleftrightarrow> (\<forall>b f. tick (set_tick b f) = b)"
  by (auto simp: echoes_def all_entry_split)

definition maintains :: "('f \<Rightarrow> bool) \<Rightarrow> 'f control \<Rightarrow> bool" where
  "maintains P c \<longleftrightarrow> (\<forall>e f. P f \<longrightarrow> control_accepts c e \<longrightarrow> P (control_enters c e f))"

lemma maintains_simps [simp]:
  "maintains P (TextBox l get put) \<longleftrightarrow> (\<forall>t f. P f \<longrightarrow> P (put t f))"
  "maintains P (NumberBox l get put) \<longleftrightarrow> (\<forall>t f. P f \<longrightarrow> number_entry t \<longrightarrow> P (put t f))"
  "maintains P (SelectBox l options get put) \<longleftrightarrow> (\<forall>t \<in> set options. \<forall>f. P f \<longrightarrow> P (put t f))"
  "maintains P (TickBox l tick set_tick) \<longleftrightarrow> (\<forall>b f. P f \<longrightarrow> P (set_tick b f))"
  by (auto simp: maintains_def all_entry_split)

lemma lawful_section:
  assumes "lawful cs links" and keep: "list_all (maintains P) cs"
  shows "form_inputs P (\<lambda>i e _. section_accepts cs i e) (section_shows cs) (section_enters cs) (section_linked cs links)"
proof
  fix f :: 'a and i e
  assume "P f" and ok: "section_accepts cs i e"
  then have "i < length cs" "control_accepts (cs ! i) e" by (simp_all add: section_accepts_def)
  moreover from this have "maintains P (cs ! i)" using keep by (simp add: list_all_length)
  ultimately show "P (section_enters cs i e f)" using \<open>P f\<close> by (simp add: section_enters_def maintains_def)
next
  fix f :: 'a and i e
  assume ok: "section_accepts cs i e"
  then have i: "i < length cs" "control_accepts (cs ! i) e" by (simp_all add: section_accepts_def)
  have "echoes (cs ! i)" using assms i(1) by (simp add: lawful_def list_all_length)
  with i show "section_shows cs i (section_enters cs i e f) = e"
    by (simp add: section_shows_def section_enters_def echoes_def)
next
  fix f :: 'a and i e j
  assume ok: "section_accepts cs i e" and no: "\<not> section_linked cs links i j"
  then have i: "i < length cs" "control_accepts (cs ! i) e" by (simp_all add: section_accepts_def)
  show "section_shows cs j (section_enters cs i e f) = section_shows cs j f"
  proof (cases "j < length cs")
    case True
    have "ct_label (cs ! i) \<noteq> ct_label (cs ! j)"
      using assms i(1) True no nth_eq_iff_index_eq [of "map ct_label cs" i j] by (simp add: lawful_def section_linked_def)
    moreover have "(ct_label (cs ! i), ct_label (cs ! j)) \<notin> set links"
      using no i(1) True by (simp add: section_linked_def)
    ultimately have "leaves (cs ! i) (cs ! j)" using assms i(1) True by (auto simp: lawful_def list_all_length)
    with i True show ?thesis by (simp add: section_shows_def section_enters_def leaves_def)
  qed (simp add: section_shows_def)
qed

end
