(* ===== verification/SystemSettings.thy ===== *)
theory SystemSettings
  imports ConfigForms Handlers Controls
begin

text \<open>
  The system settings of the console (\<open>PlatformSettingsPage\<close> in \<open>platform-page.tsx\<close>): branding, desktop access, proxy
  services, mail delivery and the assistant. The inputs of each section are lists of controls, the handlers are
  bodies in the sense of \<open>Handlers\<close>; a handler is given the state of the render that drew its button (\<open>now\<close>), whose
  forms and settings records it sends.
\<close>

section \<open>State and rights\<close>

record system_page =
  py_branding :: branding_form
  py_access :: desktop_form
  py_mail :: smtp_form
  py_proxy :: proxy_form
  py_proxyStatus :: js_object
  py_savingBranding :: bool
  py_savingAccess :: bool
  py_savingProxy :: bool
  py_saving :: bool
  py_testing :: bool
  py_testingLLM :: bool

record system_cx =
  sx_can :: can_use
  sx_items :: "platform_item list"
  sx_publicConfig :: public_config
  sx_url :: url_parser

definition setting_of_type :: "string \<Rightarrow> system_cx \<Rightarrow> platform_item option" where
  "setting_of_type t cx = find (\<lambda>item. lower (it_type item) = t) (sx_items cx)"

definition brandingSetting :: "system_cx \<Rightarrow> platform_item option" where
  "brandingSetting = setting_of_type ''branding''"

definition accessSetting :: "system_cx \<Rightarrow> platform_item option" where
  "accessSetting = setting_of_type ''access''"

definition integration :: "system_cx \<Rightarrow> platform_item option" where
  "integration = setting_of_type ''integration''"

definition proxySetting :: "system_cx \<Rightarrow> platform_item option" where
  "proxySetting = setting_of_type ''proxy''"

definition system_start :: "system_cx \<Rightarrow> system_page" where
  "system_start cx =
     \<lparr>py_branding = brandingFormFromItem (brandingSetting cx) (sx_publicConfig cx),
      py_access = desktopAccessFormFromItem (accessSetting cx), py_mail = smtpIntegrationFormFromItem (integration cx),
      py_proxy = proxyServicesFormFromItem (proxySetting cx), py_proxyStatus = [], py_savingBranding = False,
      py_savingAccess = False, py_savingProxy = False, py_saving = False, py_testing = False, py_testingLLM = False\<rparr>"

definition system_settings_path :: string where
  "system_settings_path = ''/api/admin/system-settings''"

definition proxy_path :: string where
  "proxy_path = ''/api/admin/proxy-services''"

definition item_id :: "platform_item option \<Rightarrow> string" where
  "item_id item = (case item of Some i \<Rightarrow> it_id i | None \<Rightarrow> '''')"

definition canSaveSetting :: "system_cx \<Rightarrow> platform_item option \<Rightarrow> bool" where
  "canSaveSetting cx item =
     (if item_id item \<noteq> '''' then sx_can cx ''PATCH'' (system_settings_path @ ''/'' @ item_id item)
      else sx_can cx ''POST'' system_settings_path)"

definition canTestSMTPSettings :: "system_cx \<Rightarrow> bool" where
  "canTestSMTPSettings cx = sx_can cx ''POST'' (system_settings_path @ ''/smtp/test'')"

definition canTestLLMSettings :: "system_cx \<Rightarrow> bool" where
  "canTestLLMSettings cx = sx_can cx ''POST'' (system_settings_path @ ''/llm/test'')"

definition canRunSMTPTest :: "system_cx \<Rightarrow> bool" where
  "canRunSMTPTest cx \<longleftrightarrow> canTestSMTPSettings cx \<and> (canSaveSetting cx (integration cx) \<or> item_id (integration cx) \<noteq> '''')"

definition canRunLLMTest :: "system_cx \<Rightarrow> bool" where
  "canRunLLMTest cx \<longleftrightarrow> canTestLLMSettings cx \<and> (canSaveSetting cx (integration cx) \<or> item_id (integration cx) \<noteq> '''')"

section \<open>Checks of the mail form\<close>

definition smtpPortValid :: "smtp_form \<Rightarrow> bool" where
  "smtpPortValid form =
     (case to_number (sf_port form) of Fin r \<Rightarrow> r = of_int \<lfloor>r\<rfloor> \<and> 1 \<le> r \<and> r \<le> 65535 | _ \<Rightarrow> False)"

definition smtpSenderValid :: "smtp_form \<Rightarrow> bool" where
  "smtpSenderValid form \<longleftrightarrow> trim (sf_from form) = '''' \<or> smtpMailboxInputValid (sf_from form)"

definition smtpRecipientsValid :: "smtp_form \<Rightarrow> bool" where
  "smtpRecipientsValid form \<longleftrightarrow> trim (sf_to form) = '''' \<or> smtpRecipientInputValid (sf_to form)"

definition smtpTestRecipientValid :: "smtp_form \<Rightarrow> bool" where
  "smtpTestRecipientValid form \<longleftrightarrow> trim (sf_testTo form) = '''' \<or> smtpRecipientInputValid (sf_testTo form)"

definition smtpNotificationRecipientsReady :: "smtp_form \<Rightarrow> bool" where
  "smtpNotificationRecipientsReady form \<longleftrightarrow> \<not> sf_notificationsEnabled form \<or> trim (sf_to form) \<noteq> ''''"

definition smtpFormValid :: "smtp_form \<Rightarrow> bool" where
  "smtpFormValid form \<longleftrightarrow> smtpPortValid form \<and> smtpSenderValid form \<and> smtpRecipientsValid form \<and> smtpTestRecipientValid form
     \<and> smtpNotificationRecipientsReady form"

definition llmBaseURLValid :: "system_cx \<Rightarrow> smtp_form \<Rightarrow> bool" where
  "llmBaseURLValid cx form \<longleftrightarrow> trim (sf_llmBaseUrl form) = '''' \<or> httpEndpointInputValid (sx_url cx) (sf_llmBaseUrl form)"

section \<open>Inputs\<close>

definition branding_inputs :: "branding_form control list" where
  "branding_inputs =
     [TextBox ''systemName'' bf_siteName (\<lambda>t f. f\<lparr>bf_siteName := t\<rparr>),
      TextBox ''logoUrl'' bf_logoUrl (\<lambda>t f. f\<lparr>bf_logoUrl := t\<rparr>),
      TextBox ''assetLogoUrl'' bf_assetLogoUrl (\<lambda>t f. f\<lparr>bf_assetLogoUrl := t\<rparr>),
      TextBox ''icpNumber'' bf_icpNumber (\<lambda>t f. f\<lparr>bf_icpNumber := t\<rparr>),
      TextBox ''github'' bf_githubUrl (\<lambda>t f. f\<lparr>bf_githubUrl := t\<rparr>),
      TextBox ''copyright'' bf_copyright (\<lambda>t f. f\<lparr>bf_copyright := t\<rparr>),
      TextBox ''aboutTitle'' bf_aboutTitle (\<lambda>t f. f\<lparr>bf_aboutTitle := t\<rparr>),
      TextBox ''aboutDescription'' bf_aboutDescription (\<lambda>t f. f\<lparr>bf_aboutDescription := t\<rparr>),
      TextBox ''aboutBody'' bf_aboutBody (\<lambda>t f. f\<lparr>bf_aboutBody := t\<rparr>),
      TextBox ''footerText'' bf_footerText (\<lambda>t f. f\<lparr>bf_footerText := t\<rparr>),
      TextBox ''navLinks'' bf_navLinks (\<lambda>t f. f\<lparr>bf_navLinks := t\<rparr>)]"

definition access_inputs :: "desktop_form control list" where
  "access_inputs =
     [NumberBox ''desktopWidth'' df_width (\<lambda>t f. f\<lparr>df_width := t\<rparr>),
      NumberBox ''desktopHeight'' df_height (\<lambda>t f. f\<lparr>df_height := t\<rparr>),
      NumberBox ''DPI'' df_dpi (\<lambda>t f. f\<lparr>df_dpi := t\<rparr>),
      SelectBox ''colorDepth'' [''16'', ''24'', ''32''] df_colorDepth (\<lambda>t f. f\<lparr>df_colorDepth := t\<rparr>),
      SelectBox ''resizeMethod'' [''display-update'', ''reconnect'', ''none''] df_resizeMethod (\<lambda>t f. f\<lparr>df_resizeMethod := t\<rparr>),
      NumberBox ''accessMFAValidMinutes'' df_accessMfaValidMinutes (\<lambda>t f. f\<lparr>df_accessMfaValidMinutes := t\<rparr>),
      TextBox ''watermarkText'' df_watermarkText (\<lambda>t f. f\<lparr>df_watermarkText := t\<rparr>),
      TextBox ''watermarkColor'' df_watermarkColor (\<lambda>t f. f\<lparr>df_watermarkColor := t\<rparr>),
      NumberBox ''watermarkFontSize'' df_watermarkFontSize (\<lambda>t f. f\<lparr>df_watermarkFontSize := t\<rparr>),
      TickBox ''defaultRecording'' df_recordingEnabled (\<lambda>b f. f\<lparr>df_recordingEnabled := b\<rparr>),
      TickBox ''clipboardEnabled'' df_clipboardEnabled (\<lambda>b f. f\<lparr>df_clipboardEnabled := b\<rparr>),
      TickBox ''fileTransferEnabled'' df_fileTransferEnabled (\<lambda>b f. f\<lparr>df_fileTransferEnabled := b\<rparr>),
      TickBox ''sshFileTransferEnabled'' df_sshFileTransferEnabled (\<lambda>b f. f\<lparr>df_sshFileTransferEnabled := b\<rparr>),
      TickBox ''ignoreCertificate'' df_ignoreCert (\<lambda>b f. f\<lparr>df_ignoreCert := b\<rparr>),
      TickBox ''readOnlyDesktop'' df_readOnly (\<lambda>b f. f\<lparr>df_readOnly := b\<rparr>),
      TickBox ''workspaceWatermark'' df_watermarkEnabled (\<lambda>b f. f\<lparr>df_watermarkEnabled := b\<rparr>),
      TickBox ''accessMFA'' df_accessMfaEnabled (\<lambda>b f. f\<lparr>df_accessMfaEnabled := b\<rparr>)]"

text \<open>The clear box of the private key is drawn only for a stored key (\<open>clearable\<close>).\<close>

definition proxy_inputs :: "bool \<Rightarrow> proxy_form control list" where
  "proxy_inputs clearable =
     [TickBox ''enableSshGateway'' px_sshEnabled (\<lambda>b f. f\<lparr>px_sshEnabled := b\<rparr>),
      TextBox ''sshListenAddress'' px_sshListenAddress (\<lambda>t f. f\<lparr>px_sshListenAddress := t\<rparr>),
      TickBox ''disablePasswordAuth'' px_sshDisablePasswordAuth (\<lambda>b f. f\<lparr>px_sshDisablePasswordAuth := b\<rparr>),
      TextBox ''sshForwardAllowlist'' px_sshForwardAllowlist (\<lambda>t f. f\<lparr>px_sshForwardAllowlist := t\<rparr>),
      TickBox ''enableRdpProxy'' px_rdpEnabled (\<lambda>b f. f\<lparr>px_rdpEnabled := b\<rparr>),
      TextBox ''rdpListenAddress'' px_rdpListenAddress (\<lambda>t f. f\<lparr>px_rdpListenAddress := t\<rparr>),
      TextBox ''rdpForwardAllowlist'' px_rdpForwardAllowlist (\<lambda>t f. f\<lparr>px_rdpForwardAllowlist := t\<rparr>),
      TickBox ''enableDatabaseProxy'' px_databaseEnabled (\<lambda>b f. f\<lparr>px_databaseEnabled := b\<rparr>),
      TextBox ''databaseListenAddress'' px_databaseListenAddress (\<lambda>t f. f\<lparr>px_databaseListenAddress := t\<rparr>),
      TextBox ''databaseForwardAllowlist'' px_databaseForwardAllowlist (\<lambda>t f. f\<lparr>px_databaseForwardAllowlist := t\<rparr>),
      TextBox ''proxyPrivateKey'' px_proxyPrivateKey (\<lambda>t f. f\<lparr>px_proxyPrivateKey := t, px_proxyPrivateKeyClear := False\<rparr>)]
     @ (if clearable
        then [TickBox ''clearProxyPrivateKey'' px_proxyPrivateKeyClear
                (\<lambda>b f. f\<lparr>px_proxyPrivateKeyClear := b, px_proxyPrivateKey := (if b then '''' else px_proxyPrivateKey f)\<rparr>)]
        else [])"

definition mail_inputs :: "bool \<Rightarrow> smtp_form control list" where
  "mail_inputs clearable =
     [TextBox ''smtpHost'' sf_host (\<lambda>t f. f\<lparr>sf_host := t\<rparr>),
      NumberBox ''smtpPort'' sf_port (\<lambda>t f. f\<lparr>sf_port := t\<rparr>),
      SelectBox ''smtpSecurity'' [''starttls'', ''tls'', ''none''] sf_security (\<lambda>t f. f\<lparr>sf_security := t\<rparr>),
      TextBox ''smtpServerName'' sf_serverName (\<lambda>t f. f\<lparr>sf_serverName := t\<rparr>),
      TextBox ''username'' sf_username (\<lambda>t f. f\<lparr>sf_username := t\<rparr>),
      TextBox ''password'' sf_password (\<lambda>t f. f\<lparr>sf_password := t, sf_passwordClear := False\<rparr>),
      TextBox ''smtpFrom'' sf_from (\<lambda>t f. f\<lparr>sf_from := t\<rparr>),
      TextBox ''smtpTo'' sf_to (\<lambda>t f. f\<lparr>sf_to := t\<rparr>),
      TextBox ''smtpTestTo'' sf_testTo (\<lambda>t f. f\<lparr>sf_testTo := t\<rparr>),
      TickBox ''smtpInsecureSkipVerify'' sf_insecureSkipVerify (\<lambda>b f. f\<lparr>sf_insecureSkipVerify := b\<rparr>)]
     @ (if clearable
        then [TickBox ''clearSMTPPassword'' sf_passwordClear
                (\<lambda>b f. f\<lparr>sf_passwordClear := b, sf_password := (if b then '''' else sf_password f)\<rparr>)]
        else [])
     @ [TickBox ''smtpNotificationsEnabled'' sf_notificationsEnabled (\<lambda>b f. f\<lparr>sf_notificationsEnabled := b\<rparr>),
        TickBox ''smtpNotifySecurity'' sf_notifySecurity (\<lambda>b f. f\<lparr>sf_notifySecurity := b\<rparr>),
        TickBox ''smtpNotifyTasks'' sf_notifyTasks (\<lambda>b f. f\<lparr>sf_notifyTasks := b\<rparr>),
        TickBox ''smtpNotifyGateways'' sf_notifyGateways (\<lambda>b f. f\<lparr>sf_notifyGateways := b\<rparr>),
        TickBox ''smtpNotifyOperations'' sf_notifyOperations (\<lambda>b f. f\<lparr>sf_notifyOperations := b\<rparr>),
        TickBox ''smtpSendExistingNotifications'' sf_sendExistingNotifications (\<lambda>b f. f\<lparr>sf_sendExistingNotifications := b\<rparr>)]"

definition llm_inputs :: "bool \<Rightarrow> smtp_form control list" where
  "llm_inputs clearable =
     [TextBox ''provider'' sf_llmProvider (\<lambda>t f. f\<lparr>sf_llmProvider := t\<rparr>),
      TextBox ''baseUrl'' sf_llmBaseUrl (\<lambda>t f. f\<lparr>sf_llmBaseUrl := t\<rparr>),
      TextBox ''model'' sf_llmModel (\<lambda>t f. f\<lparr>sf_llmModel := t\<rparr>),
      TextBox ''apiKey'' sf_llmApiKey (\<lambda>t f. f\<lparr>sf_llmApiKey := t, sf_llmApiKeyClear := False\<rparr>)]
     @ (if clearable
        then [TickBox ''clearLLMApiKey'' sf_llmApiKeyClear
                (\<lambda>b f. f\<lparr>sf_llmApiKeyClear := b, sf_llmApiKey := (if b then '''' else sf_llmApiKey f)\<rparr>)]
        else [])"

text \<open>What an invalid input says.\<close>

definition mail_messages :: "smtp_form \<Rightarrow> string list" where
  "mail_messages form =
     (if smtpPortValid form then [] else [''smtpPortInvalid''])
     @ (if smtpSenderValid form then [] else [''smtpSenderInvalid''])
     @ (if smtpRecipientsValid form then [] else [''smtpRecipientsInvalid''])
     @ (if smtpRecipientsValid form \<and> \<not> smtpNotificationRecipientsReady form then [''smtpNotificationsRecipientsRequired''] else [])
     @ (if smtpTestRecipientValid form then [] else [''smtpTestRecipientInvalid''])"

section \<open>The state of the proxies\<close>

definition proxy_part :: "js_object \<Rightarrow> string \<Rightarrow> js_object option" where
  "proxy_part status k = (case obj_get status k of JObj ob \<Rightarrow> Some ob | _ \<Rightarrow> None)"

definition status_text :: "js_object option \<Rightarrow> string \<Rightarrow> string" where
  "status_text part k = (case part of Some ob \<Rightarrow> metadataText (obj_get ob k) | None \<Rightarrow> '''')"

definition proxy_badges :: "js_object \<Rightarrow> (string \<times> string \<times> tone) list" where
  "proxy_badges status =
     map (\<lambda>(label, k). (label, or_str (status_text (proxy_part status k) ''state'') ''-'', proxyStateTone (proxy_part status k)))
       [(''sshGateway'', ''ssh_gateway''), (''rdpProxy'', ''rdp_proxy''), (''databaseProxy'', ''database_proxy'')]"

definition proxy_lines :: "js_object option \<Rightarrow> (string \<times> string) list" where
  "proxy_lines part =
     [(''state'', or_str (status_text part ''state'') ''-''), (''listenAddress'', or_str (status_text part ''listen_address'') ''-''),
      (''liveAddress'', or_str (status_text part ''live_address'') ''-''), (''target'', or_str (status_text part ''target'') ''-''),
      (''activeConnections'', or_str (status_text part ''active'') ''0''),
      (''forwardAllowlist'', or_str (status_text part ''allowlist_count'') ''0'')]
     @ (let routes = (case part of Some ob \<Rightarrow> proxyRoutes (obj_get ob ''routes'') | None \<Rightarrow> [])
        in if routes = [] then [] else (''listenerMappings'', '''') # routes)
     @ (if status_text part ''last_error'' \<noteq> '''' then [(''last_error'', status_text part ''last_error'')] else [])"

definition rdp_lines :: "js_object option \<Rightarrow> (string \<times> string) list" where
  "rdp_lines part = (''guacdAddress'', or_str (status_text part ''guacd_address'') ''-'') # proxy_lines part"

section \<open>Effects\<close>

text \<open>
  The forms are filled again when their record changes; the proxies are read once the role may read them. An answer
  for a page that is gone is dropped (\<open>alive\<close>).
\<close>

definition refill_branding :: "system_cx \<Rightarrow> system_page \<Rightarrow> system_page" where
  "refill_branding cx st = st\<lparr>py_branding := brandingFormFromItem (brandingSetting cx) (sx_publicConfig cx)\<rparr>"

definition refill_access :: "system_cx \<Rightarrow> system_page \<Rightarrow> system_page" where
  "refill_access cx st = st\<lparr>py_access := desktopAccessFormFromItem (accessSetting cx)\<rparr>"

definition refill_mail :: "system_cx \<Rightarrow> system_page \<Rightarrow> system_page" where
  "refill_mail cx st = st\<lparr>py_mail := smtpIntegrationFormFromItem (integration cx)\<rparr>"

definition refill_proxy :: "system_cx \<Rightarrow> system_page \<Rightarrow> system_page" where
  "refill_proxy cx st = st\<lparr>py_proxy := proxyServicesFormFromItem (proxySetting cx)\<rparr>"

text \<open>A record in an answer, of which only the metadata is read.\<close>

definition answered_item :: "jsval \<Rightarrow> platform_item" where
  "answered_item v = blank_item\<lparr>it_metadata := (case obj_get (recordValue v) ''metadata'' of JObj ob \<Rightarrow> Some ob | _ \<Rightarrow> None)\<rparr>"

definition show_proxy_settings :: "jsval \<Rightarrow> system_page \<Rightarrow> system_page" where
  "show_proxy_settings v st = st\<lparr>py_proxy := proxyServicesFormFromItem (Some (answered_item v))\<rparr>"

definition proxy_effect :: "system_cx \<Rightarrow> env \<Rightarrow> bool \<Rightarrow> system_page \<Rightarrow> log \<Rightarrow> system_page \<times> log" where
  "proxy_effect cx ev alive st l =
     (if \<not> sx_can cx ''GET'' proxy_path then (st\<lparr>py_proxyStatus := []\<rparr>, l)
      else case awaited ev (get_request proxy_path)
          (\<lambda>v. if alive
             then read_prop v ''status'' (\<lambda>s.
                andthen (update (\<lambda>st. st\<lparr>py_proxyStatus := recordValue s\<rparr>))
                  (read_prop v ''settings'' (\<lambda>x. if truthy x then update (show_proxy_settings x) else skip)))
             else skip) (st, l) of
             (None, st', l') \<Rightarrow> (st', l')
           | (Some _, st', l') \<Rightarrow> (if alive then st'\<lparr>py_proxyStatus := []\<rparr> else st', l'))"

section \<open>Saving\<close>

definition permission_denied_toast :: "log \<Rightarrow> log" where
  "permission_denied_toast = toast ''permissionDenied''"

definition setting_request :: "platform_item option \<Rightarrow> js_object \<Rightarrow> request" where
  "setting_request item body =
     (if item_id item \<noteq> '''' then mk_request ''PATCH'' (system_settings_path @ ''/'' @ item_id item) (Some (JObj body))
      else post_request system_settings_path (JObj body))"

definition name_or :: "platform_item option \<Rightarrow> string \<Rightarrow> jsval" where
  "name_or item d = JStr (case item of Some i \<Rightarrow> or_str (it_name i) d | None \<Rightarrow> d)"

definition old_metadata :: "platform_item option \<Rightarrow> js_object option" where
  "old_metadata item = (case item of Some i \<Rightarrow> it_metadata i | None \<Rightarrow> None)"

definition branding_request :: "system_cx \<Rightarrow> branding_form \<Rightarrow> request" where
  "branding_request cx form =
     (let item = brandingSetting cx
      in setting_request item
        [(''name'', name_or item ''System branding''), (''type'', JStr ''branding''), (''status'', JStr ''enabled''),
         (''metadata'', JObj (brandingMetadataFromForm form (old_metadata item))),
         (''description'', JStr ''Public branding, logo, ICP record, footer, navigation, and about page content.'')])"

definition saveBrandingSettings :: "system_cx \<Rightarrow> env \<Rightarrow> system_page \<Rightarrow> system_page \<Rightarrow> log \<Rightarrow> system_page \<times> log" where
  "saveBrandingSettings cx ev now st l =
     (if \<not> canSaveSetting cx (brandingSetting cx) then (st, permission_denied_toast l)
      else try_busy (\<lambda>b st. st\<lparr>py_savingBranding := b\<rparr>)
        (awaited ev (branding_request cx (py_branding now)) (\<lambda>_. steps [act (refresh True), act (toast ''saved'')])) st l)"

definition access_request :: "system_cx \<Rightarrow> desktop_form \<Rightarrow> request" where
  "access_request cx form =
     (let item = accessSetting cx
      in setting_request item
        [(''name'', name_or item ''Asset access settings''), (''type'', JStr ''access''), (''status'', JStr ''enabled''),
         (''metadata'', JObj (desktopAccessMetadataFromForm form (old_metadata item))),
         (''description'', JStr ''Desktop access defaults for RDP/VNC sessions, recording, clipboard, file transfer, and watermark.'')])"

definition saveAccessSettings :: "system_cx \<Rightarrow> env \<Rightarrow> system_page \<Rightarrow> system_page \<Rightarrow> log \<Rightarrow> system_page \<times> log" where
  "saveAccessSettings cx ev now st l =
     (if \<not> canSaveSetting cx (accessSetting cx) then (st, permission_denied_toast l)
      else try_busy (\<lambda>b st. st\<lparr>py_savingAccess := b\<rparr>)
        (awaited ev (access_request cx (py_access now)) (\<lambda>_. steps [act (refresh True), act (toast ''saved'')])) st l)"

text \<open>An absent password is left out of the body (\<open>undefined\<close>).\<close>

definition integration_request :: "system_cx \<Rightarrow> smtp_form \<Rightarrow> request" where
  "integration_request cx form =
     (let item = integration cx
      in setting_request item
        [(''name'', name_or item ''Notification integrations''), (''type'', JStr ''integration''), (''status'', JStr ''enabled''),
         (''host'', JStr (trim (sf_host form))),
         (''port'', JNum (if sf_port form \<noteq> '''' then to_number (sf_port form) else Fin 0)),
         (''username'', JStr (trim (sf_username form))),
         (''password'', if trim (sf_password form) \<noteq> '''' then JStr (trim (sf_password form)) else JUndefined),
         (''metadata'', JObj (integrationMetadataFromForm form (old_metadata item))),
         (''description'', JStr ''SMTP email delivery and LLM integration settings.'')])"

definition forget_secrets :: "js_object \<Rightarrow> smtp_form \<Rightarrow> smtp_form" where
  "forget_secrets metadata f =
     f\<lparr>sf_password := '''', sf_passwordSet := truthy (obj_get metadata ''smtp_password_set''), sf_passwordClear := False,
       sf_llmApiKey := '''', sf_llmApiKeySet := truthy (obj_get metadata ''llm_api_key_set''), sf_llmApiKeyClear := False\<rparr>"

text \<open>The body of \<open>saveIntegration\<close>; it returns the stored record, or \<open>null\<close> after an error it has reported.\<close>

definition integration_body :: "system_cx \<Rightarrow> env \<Rightarrow> bool \<Rightarrow> smtp_form \<Rightarrow> system_page proc" where
  "integration_body cx ev silent form =
     awaited ev (integration_request cx form)
       (\<lambda>v. read_prop v ''metadata'' (\<lambda>m. steps
          ([update (\<lambda>st. st\<lparr>py_mail := forget_secrets (recordValue m) (py_mail st)\<rparr>), act (refresh True)]
           @ (if silent then [] else [act (toast ''saved'')]))))"

definition saveIntegration ::
  "system_cx \<Rightarrow> env \<Rightarrow> bool \<Rightarrow> system_page \<Rightarrow> system_page \<Rightarrow> log \<Rightarrow> jsval option \<times> system_page \<times> log" where
  "saveIntegration cx ev silent now st l =
     (if \<not> canSaveSetting cx (integration cx) then (None, st, if silent then l else permission_denied_toast l)
      else case integration_body cx ev silent (py_mail now) (st\<lparr>py_saving := True\<rparr>, l) of
             (None, st', l') \<Rightarrow>
               (case fst (apiRequest ev (integration_request cx (py_mail now)) l) of Inr v \<Rightarrow> Some v | Inl _ \<Rightarrow> None,
                st'\<lparr>py_saving := False\<rparr>, l')
           | (Some e, st', l') \<Rightarrow> (None, st'\<lparr>py_saving := False\<rparr>, report e l'))"

section \<open>Tests\<close>

text \<open>The record a test is about: the one just stored, or the existing one when the role may not store it.\<close>

definition test_target ::
  "system_cx \<Rightarrow> env \<Rightarrow> system_page \<Rightarrow> (jsval \<Rightarrow> system_page proc) \<Rightarrow> system_page proc" where
  "test_target cx ev now k = (\<lambda>(st, l).
     if canSaveSetting cx (integration cx)
     then (case saveIntegration cx ev True now st l of
             (Some saved, st', l') \<Rightarrow> if truthy saved then read_prop saved ''id'' k (st', l') else (None, st', l')
           | (None, st', l') \<Rightarrow> (None, st', l'))
     else (case integration cx of Some item \<Rightarrow> k (JStr (it_id item)) (st, l) | None \<Rightarrow> (None, st, l)))"

definition smtp_test_request :: "smtp_form \<Rightarrow> jsval \<Rightarrow> request" where
  "smtp_test_request form setting =
     post_request (system_settings_path @ ''/smtp/test'')
       (JObj [(''setting_id'', setting), (''to'', JStr (or_str (trim (sf_testTo form)) (trim (sf_to form)))),
         (''subject'', JStr ''Open Web Server Manager SMTP test''), (''body'', JStr ''SMTP delivery settings are working.'')])"

definition or_text :: "jsval \<Rightarrow> string \<Rightarrow> string" where
  "or_text v d = (if truthy v then js_to_string v else d)"

definition testSMTP :: "system_cx \<Rightarrow> env \<Rightarrow> system_page \<Rightarrow> system_page \<Rightarrow> log \<Rightarrow> system_page \<times> log" where
  "testSMTP cx ev now st l =
     (if \<not> canTestSMTPSettings cx then (st, permission_denied_toast l)
      else try_busy (\<lambda>b st. st\<lparr>py_testing := b\<rparr>)
        (test_target cx ev now (\<lambda>setting.
           awaited ev (smtp_test_request (py_mail now) setting)
             (\<lambda>v. read_prop v ''message'' (\<lambda>m. act (toast (or_text m ''SMTP test email sent'')))))) st l)"

definition llm_test_request :: "jsval \<Rightarrow> request" where
  "llm_test_request setting =
     post_request (system_settings_path @ ''/llm/test'')
       (JObj [(''setting_id'', setting), (''prompt'', JStr ''Reply with the single word: ok'')])"

text \<open>
  \<open>s.slice(0, n)\<close> in UTF-16 units over the bytes of a text; half of a character outside the basic plane, which cannot
  be shown, is left out.
\<close>

fun utf16_take :: "nat \<Rightarrow> string \<Rightarrow> string" where
  "utf16_take n [] = []"
| "utf16_take n (c # s) =
     (let b = of_char c :: nat; u = (if 128 \<le> b \<and> b < 192 then 0 else if 240 \<le> b then 2 else 1)
      in if u \<le> n then c # utf16_take (n - u) s else [])"

text \<open>\<open>result.response ? `: ${result.response.slice(0, 120)}` : ''\<close>; only texts and arrays have \<open>slice\<close>.\<close>

definition response_suffix :: "jsval \<Rightarrow> exn + string" where
  "response_suffix r =
     (if \<not> truthy r then Inr ''''
      else case r of
             JStr s \<Rightarrow> Inr ('': '' @ utf16_take 120 s)
           | JArr xs \<Rightarrow> Inr ('': '' @ js_to_string (JArr (take 120 xs)))
           | _ \<Rightarrow> Inl (OtherError ''TypeError''))"

definition testLLM :: "system_cx \<Rightarrow> env \<Rightarrow> system_page \<Rightarrow> system_page \<Rightarrow> log \<Rightarrow> system_page \<times> log" where
  "testLLM cx ev now st l =
     (if \<not> canTestLLMSettings cx then (st, permission_denied_toast l)
      else try_busy (\<lambda>b st. st\<lparr>py_testingLLM := b\<rparr>)
        (test_target cx ev now (\<lambda>setting.
           awaited ev (llm_test_request setting)
             (\<lambda>v. read_prop v ''response'' (\<lambda>r. read_prop v ''message'' (\<lambda>m.
                case response_suffix r of Inl e \<Rightarrow> throw e | Inr s \<Rightarrow> act (toast (or_text m ''llmTestCompleted'' @ s))))))) st l)"

section \<open>Proxies\<close>

definition forget_proxy_key :: "proxy_form \<Rightarrow> proxy_form" where
  "forget_proxy_key f = f\<lparr>px_proxyPrivateKey := '''', px_proxyPrivateKeyClear := False\<rparr>"

definition saveProxyServices :: "system_cx \<Rightarrow> env \<Rightarrow> system_page \<Rightarrow> system_page \<Rightarrow> log \<Rightarrow> system_page \<times> log" where
  "saveProxyServices cx ev now st l =
     (if \<not> sx_can cx ''POST'' proxy_path then (st, permission_denied_toast l)
      else try_busy (\<lambda>b st. st\<lparr>py_savingProxy := b\<rparr>)
        (awaited ev (post_request proxy_path (JObj (proxyServicesPayloadFromForm (py_proxy now))))
          (\<lambda>v. read_prop v ''status'' (\<lambda>s. read_prop v ''settings'' (\<lambda>x. steps
             [if truthy s then update (\<lambda>st. st\<lparr>py_proxyStatus := recordValue s\<rparr>) else skip,
              if truthy x then update (show_proxy_settings x)
              else update (\<lambda>st. st\<lparr>py_proxy := forget_proxy_key (py_proxy st)\<rparr>),
              act (refresh True), act (toast ''saved'')])))) st l)"

section \<open>Buttons\<close>

definition branding_save_live :: "system_cx \<Rightarrow> system_page \<Rightarrow> bool" where
  "branding_save_live cx now \<longleftrightarrow>
     canSaveSetting cx (brandingSetting cx) \<and> \<not> py_savingBranding now \<and> trim (bf_siteName (py_branding now)) \<noteq> ''''"

definition access_save_live :: "system_cx \<Rightarrow> system_page \<Rightarrow> bool" where
  "access_save_live cx now \<longleftrightarrow> canSaveSetting cx (accessSetting cx) \<and> \<not> py_savingAccess now"

definition proxy_save_live :: "system_cx \<Rightarrow> system_page \<Rightarrow> bool" where
  "proxy_save_live cx now \<longleftrightarrow> sx_can cx ''POST'' proxy_path \<and> \<not> py_savingProxy now"

definition mail_save_live :: "system_cx \<Rightarrow> system_page \<Rightarrow> bool" where
  "mail_save_live cx now \<longleftrightarrow>
     (let form = py_mail now
      in canSaveSetting cx (integration cx) \<and>
         \<not> (py_saving now \<or> py_testing now \<or> trim (sf_host form) = '''' \<or> trim (sf_from form) = '''' \<or> \<not> smtpFormValid form))"

definition mail_test_live :: "system_cx \<Rightarrow> system_page \<Rightarrow> bool" where
  "mail_test_live cx now \<longleftrightarrow>
     (let form = py_mail now
      in canRunSMTPTest cx \<and>
         \<not> (py_saving now \<or> py_testing now \<or> trim (sf_host form) = '''' \<or> trim (sf_from form) = '''' \<or> \<not> smtpFormValid form))"

definition llm_save_live :: "system_cx \<Rightarrow> system_page \<Rightarrow> bool" where
  "llm_save_live cx now \<longleftrightarrow>
     canSaveSetting cx (integration cx) \<and>
     \<not> (py_saving now \<or> py_testing now \<or> py_testingLLM now \<or> \<not> llmBaseURLValid cx (py_mail now))"

definition llm_test_live :: "system_cx \<Rightarrow> system_page \<Rightarrow> bool" where
  "llm_test_live cx now \<longleftrightarrow>
     (let form = py_mail now
      in canRunLLMTest cx \<and>
         \<not> (py_saving now \<or> py_testing now \<or> py_testingLLM now \<or> trim (sf_llmBaseUrl form) = '''' \<or> trim (sf_llmModel form) = ''''
           \<or> \<not> llmBaseURLValid cx form))"

datatype system_button =
  PressSaveBranding | PressSaveAccess | PressSaveProxy | PressSaveMail | PressTestMail | PressSaveLLM | PressTestLLM

definition system_button_live :: "system_cx \<Rightarrow> system_page \<Rightarrow> system_button \<Rightarrow> bool" where
  "system_button_live cx now b =
     (case b of
        PressSaveBranding \<Rightarrow> branding_save_live cx now
      | PressSaveAccess \<Rightarrow> access_save_live cx now
      | PressSaveProxy \<Rightarrow> proxy_save_live cx now
      | PressSaveMail \<Rightarrow> mail_save_live cx now
      | PressTestMail \<Rightarrow> mail_test_live cx now
      | PressSaveLLM \<Rightarrow> llm_save_live cx now
      | PressTestLLM \<Rightarrow> llm_test_live cx now)"

definition system_press :: "system_cx \<Rightarrow> env \<Rightarrow> system_button \<Rightarrow> system_page \<Rightarrow> system_page \<Rightarrow> log \<Rightarrow> system_page \<times> log" where
  "system_press cx ev b now =
     (case b of
        PressSaveBranding \<Rightarrow> saveBrandingSettings cx ev now
      | PressSaveAccess \<Rightarrow> saveAccessSettings cx ev now
      | PressSaveProxy \<Rightarrow> saveProxyServices cx ev now
      | PressSaveMail \<Rightarrow> (\<lambda>st l. snd (saveIntegration cx ev False now st l))
      | PressTestMail \<Rightarrow> testSMTP cx ev now
      | PressSaveLLM \<Rightarrow> (\<lambda>st l. snd (saveIntegration cx ev False now st l))
      | PressTestLLM \<Rightarrow> testLLM cx ev now)"

section \<open>Independent inputs\<close>

text \<open>What is never sent together: a new secret and the order to clear it.\<close>

definition proxy_key_ok :: "proxy_form \<Rightarrow> bool" where
  "proxy_key_ok f \<longleftrightarrow> (px_proxyPrivateKeyClear f \<longrightarrow> px_proxyPrivateKey f = '''')"

definition mail_secrets_ok :: "smtp_form \<Rightarrow> bool" where
  "mail_secrets_ok f \<longleftrightarrow> (sf_passwordClear f \<longrightarrow> sf_password f = '''') \<and> (sf_llmApiKeyClear f \<longrightarrow> sf_llmApiKey f = '''')"

definition any_form :: "'f \<Rightarrow> bool" where
  "any_form f \<longleftrightarrow> True"

lemmas section_defs = lawful_def leaves_def all_entry_split proxy_key_ok_def mail_secrets_ok_def any_form_def

interpretation branding_sec: form_inputs any_form "\<lambda>i e _. section_accepts branding_inputs i e" "section_shows branding_inputs"
  "section_enters branding_inputs" "section_linked branding_inputs []"
  by (rule lawful_section) (simp_all add: section_defs branding_inputs_def)

interpretation access_sec: form_inputs any_form "\<lambda>i e _. section_accepts access_inputs i e" "section_shows access_inputs"
  "section_enters access_inputs" "section_linked access_inputs []"
  by (rule lawful_section) (simp_all add: section_defs access_inputs_def)

definition proxy_links :: "(string \<times> string) list" where
  "proxy_links = [(''proxyPrivateKey'', ''clearProxyPrivateKey''), (''clearProxyPrivateKey'', ''proxyPrivateKey'')]"

lemma proxy_lawful: "lawful (proxy_inputs clearable) proxy_links" "list_all (maintains proxy_key_ok) (proxy_inputs clearable)"
  by (cases clearable; simp add: section_defs proxy_inputs_def proxy_links_def)+

interpretation proxy_sec: form_inputs proxy_key_ok "\<lambda>i e _. section_accepts (proxy_inputs clearable) i e" "section_shows (proxy_inputs clearable)"
  "section_enters (proxy_inputs clearable)" "section_linked (proxy_inputs clearable) proxy_links" for clearable
  by (rule lawful_section [OF proxy_lawful])

text \<open>The mail and the assistant section edit one form.\<close>

definition integration_inputs :: "smtp_form \<Rightarrow> smtp_form control list" where
  "integration_inputs form = mail_inputs (sf_passwordSet form) @ llm_inputs (sf_llmApiKeySet form)"

definition integration_links :: "(string \<times> string) list" where
  "integration_links = [(''password'', ''clearSMTPPassword''), (''clearSMTPPassword'', ''password''),
     (''apiKey'', ''clearLLMApiKey''), (''clearLLMApiKey'', ''apiKey'')]"

lemma integration_lawful:
  "lawful (integration_inputs drawn) integration_links" "list_all (maintains mail_secrets_ok) (integration_inputs drawn)"
  by (cases "sf_passwordSet drawn"; cases "sf_llmApiKeySet drawn";
      simp add: section_defs integration_inputs_def mail_inputs_def llm_inputs_def integration_links_def)+

interpretation integration_sec: form_inputs mail_secrets_ok "\<lambda>i e _. section_accepts (integration_inputs drawn) i e"
  "section_shows (integration_inputs drawn)" "section_enters (integration_inputs drawn)"
  "section_linked (integration_inputs drawn) integration_links" for drawn
  by (rule lawful_section [OF integration_lawful])

section \<open>Reachable pages\<close>

inductive system_reach :: "system_page \<Rightarrow> bool" where
  start: "system_reach (system_start cx)"
| edit_branding: "system_reach st \<Longrightarrow> section_accepts branding_inputs i e \<Longrightarrow>
    system_reach (st\<lparr>py_branding := section_enters branding_inputs i e (py_branding st)\<rparr>)"
| edit_access: "system_reach st \<Longrightarrow> section_accepts access_inputs i e \<Longrightarrow>
    system_reach (st\<lparr>py_access := section_enters access_inputs i e (py_access st)\<rparr>)"
| edit_proxy: "system_reach st \<Longrightarrow> section_accepts (proxy_inputs (px_proxyPrivateKeySet (py_proxy st))) i e \<Longrightarrow>
    system_reach (st\<lparr>py_proxy := section_enters (proxy_inputs (px_proxyPrivateKeySet (py_proxy st))) i e (py_proxy st)\<rparr>)"
| edit_integration: "system_reach st \<Longrightarrow> section_accepts (integration_inputs (py_mail st)) i e \<Longrightarrow>
    system_reach (st\<lparr>py_mail := section_enters (integration_inputs (py_mail st)) i e (py_mail st)\<rparr>)"
| refill: "system_reach st \<Longrightarrow> refilled \<in> {refill_branding cx st, refill_access cx st, refill_mail cx st, refill_proxy cx st} \<Longrightarrow>
    system_reach refilled"
| proxies_read: "system_reach st \<Longrightarrow> proxy_effect cx ev alive st l = (st', l') \<Longrightarrow> system_reach st'"
| pressed: "system_reach st \<Longrightarrow> system_press cx ev b now st l = (st', l') \<Longrightarrow> system_reach st'"

definition secrets_ok :: "system_page \<Rightarrow> bool" where
  "secrets_ok st \<longleftrightarrow> proxy_key_ok (py_proxy st) \<and> mail_secrets_ok (py_mail st)"

lemma fresh_forms_ok [simp]:
  "proxy_key_ok (proxyServicesFormFromItem item)" "mail_secrets_ok (smtpIntegrationFormFromItem item)"
  "proxy_key_ok (forget_proxy_key p)" "mail_secrets_ok (forget_secrets m f)"
  by (simp_all add: proxy_key_ok_def mail_secrets_ok_def proxyServicesFormFromItem_def smtpIntegrationFormFromItem_def
      forget_proxy_key_def forget_secrets_def Let_def)

lemma integration_body_keeps [keeps_rules]: "keeps secrets_ok (integration_body cx ev silent form)"
  unfolding integration_body_def by (intro keeps_rules) (auto intro!: keeps_rules simp: secrets_ok_def)

lemma saveIntegration_keeps:
  "secrets_ok st \<Longrightarrow> secrets_ok (fst (snd (saveIntegration cx ev silent now st l)))"
  using integration_body_keeps [of cx ev silent "py_mail now", unfolded keeps_def, rule_format, of "st\<lparr>py_saving := True\<rparr>" l]
  by (auto simp: saveIntegration_def secrets_ok_def split: prod.splits option.splits)

lemma test_target_keeps [keeps_rules]:
  assumes k: "\<And>v. keeps secrets_ok (k v)"
  shows "keeps secrets_ok (test_target cx ev now k)"
  unfolding keeps_def
proof (intro allI impI)
  fix st l
  assume ok: "secrets_ok st"
  obtain saved st' l' where run: "saveIntegration cx ev True now st l = (saved, st', l')" by (cases "saveIntegration cx ev True now st l")
  with ok saveIntegration_keeps [OF ok, of cx ev True now l] have "secrets_ok st'" by simp
  moreover have "secrets_ok (fst (snd (read_prop v p k (st', l'))))" if "secrets_ok st'" for v p
    using keeps_read_prop [of secrets_ok k v p, OF k] that by (simp add: keeps_def)
  ultimately show "secrets_ok (fst (snd (test_target cx ev now k (st, l))))"
    using run ok k by (auto simp: test_target_def keeps_def split: option.splits)
qed

lemma response_keeps [keeps_rules]:
  "keeps I (case response_suffix r of Inl e \<Rightarrow> throw e | Inr s \<Rightarrow> act (g s))"
  by (auto intro: keeps_rules split: sum.split)

lemma system_handlers_keep:
  "handler_keeps secrets_ok (saveBrandingSettings cx ev now)" "handler_keeps secrets_ok (saveAccessSettings cx ev now)"
  "handler_keeps secrets_ok (saveProxyServices cx ev now)" "handler_keeps secrets_ok (testSMTP cx ev now)"
  "handler_keeps secrets_ok (testLLM cx ev now)"
  unfolding saveBrandingSettings_def saveAccessSettings_def saveProxyServices_def testSMTP_def testLLM_def
  by (intro keeps_rules; auto intro!: keeps_rules simp: secrets_ok_def show_proxy_settings_def)+


lemma system_press_keeps: "handler_keeps secrets_ok (system_press cx ev b now)"
  using saveIntegration_keeps system_handlers_keep by (cases b) (auto simp: system_press_def handler_keeps_def)

lemma proxy_effect_keeps: "handler_keeps secrets_ok (proxy_effect cx ev alive)"
  unfolding handler_keeps_def
proof (intro allI impI)
  fix st l
  assume ok: "secrets_ok st"
  let ?body = "awaited ev (get_request proxy_path) (\<lambda>v. if alive
      then read_prop v ''status'' (\<lambda>s. andthen (update (\<lambda>st. st\<lparr>py_proxyStatus := recordValue s\<rparr>))
        (read_prop v ''settings'' (\<lambda>x. if truthy x then update (show_proxy_settings x) else skip)))
      else skip)"
  have "keeps secrets_ok ?body"
    by (intro keeps_rules; auto intro!: keeps_rules simp: secrets_ok_def show_proxy_settings_def)
  with ok have "secrets_ok (fst (snd (?body (st, l))))" by (simp add: keeps_def)
  with ok show "secrets_ok (fst (proxy_effect cx ev alive st l))"
    by (auto simp: proxy_effect_def secrets_ok_def split: prod.splits option.splits)
qed

lemma system_reach_ok: "system_reach st \<Longrightarrow> secrets_ok st"
proof (induction rule: system_reach.induct)
  case (edit_proxy st i e)
  then show ?case using proxy_sec.keeps_sound by (simp add: secrets_ok_def)
next
  case (edit_integration st i e)
  then show ?case using integration_sec.keeps_sound by (simp add: secrets_ok_def)
next
  case (proxies_read st cx ev alive l st' l')
  then show ?case using proxy_effect_keeps [of cx ev alive] unfolding handler_keeps_def by (metis fst_conv)
next
  case (pressed st cx ev b now l st' l')
  then show ?case using system_press_keeps [of cx ev b now] unfolding handler_keeps_def by (metis fst_conv)
qed (auto simp: secrets_ok_def system_start_def refill_branding_def refill_access_def refill_mail_def refill_proxy_def)

section \<open>What is sent\<close>

definition system_permitted :: "system_cx \<Rightarrow> request \<Rightarrow> bool" where
  "system_permitted cx rq \<longleftrightarrow> sx_can cx (rq_method rq) (rq_path rq)"

lemma setting_request_permitted: "canSaveSetting cx item \<Longrightarrow> system_permitted cx (setting_request item body)"
  by (auto simp: canSaveSetting_def system_permitted_def setting_request_def)

lemma save_requests_permitted:
  "canSaveSetting cx (brandingSetting cx) \<Longrightarrow> system_permitted cx (branding_request cx bf)"
  "canSaveSetting cx (accessSetting cx) \<Longrightarrow> system_permitted cx (access_request cx df)"
  "canSaveSetting cx (integration cx) \<Longrightarrow> system_permitted cx (integration_request cx sf)"
  by (simp_all add: branding_request_def access_request_def integration_request_def Let_def setting_request_permitted)

lemma permitted_quiet [sends_rules]: "quiet permission_denied_toast"
  by (simp add: quiet_def permission_denied_toast_def)

lemma saveIntegration_log:
  "canSaveSetting cx (integration cx) \<Longrightarrow>
     calls (snd (snd (saveIntegration cx ev silent now st l))) = calls l @ [integration_request cx (py_mail now)]"
  by (cases rule: apiRequest_cases [of ev "integration_request cx (py_mail now)" l])
    (auto simp: saveIntegration_def integration_body_def awaited_def read_prop_def steps.simps proc_defs
      split: sum.splits)

lemma sends_test_target [sends_rules]:
  assumes save: "canSaveSetting cx (integration cx) \<Longrightarrow> P (integration_request cx (py_mail now))" and k: "\<And>v. sends P (k v)"
  shows "sends P (test_target cx ev now k)"
  unfolding sends_def
proof (intro allI)
  fix st l
  show "\<exists>new. calls (snd (snd (test_target cx ev now k (st, l)))) = calls l @ new \<and> list_all P new"
  proof (cases "canSaveSetting cx (integration cx)")
    case False
    then show ?thesis using k by (auto simp: test_target_def sends_def split: option.splits)
  next
    case True
    obtain saved st' l' where run: "saveIntegration cx ev True now st l = (saved, st', l')" by (metis prod_cases3)
    have l': "calls l' = calls l @ [integration_request cx (py_mail now)]" using saveIntegration_log [OF True, of ev True now st l] run by simp
    have "sends P (read_prop v p k)" for v p using k by (rule sends_read_prop)
    then obtain new where "calls (snd (snd (read_prop (the saved) ''id'' k (st', l')))) = calls l' @ new" "list_all P new"
      unfolding sends_def by blast
    with True run l' save show ?thesis by (cases saved) (auto simp: test_target_def)
  qed
qed

lemma response_sends [sends_rules]:
  "(\<And>s. quiet (g s)) \<Longrightarrow> sends P (case response_suffix r of Inl e \<Rightarrow> throw e | Inr s \<Rightarrow> act (g s))"
  by (auto intro: sends_rules split: sum.split)

lemma test_requests_permitted:
  "canTestSMTPSettings cx \<Longrightarrow> system_permitted cx (smtp_test_request f v)" "canTestLLMSettings cx \<Longrightarrow> system_permitted cx (llm_test_request v)"
  "sx_can cx ''POST'' proxy_path \<Longrightarrow> system_permitted cx (post_request proxy_path b)"
  by (simp_all add: system_permitted_def canTestSMTPSettings_def canTestLLMSettings_def smtp_test_request_def llm_test_request_def)

lemma system_handlers_send:
  "handler_sends (system_permitted cx) (saveBrandingSettings cx ev now)" "handler_sends (system_permitted cx) (saveAccessSettings cx ev now)"
  "handler_sends (system_permitted cx) (saveProxyServices cx ev now)" "handler_sends (system_permitted cx) (testSMTP cx ev now)"
  "handler_sends (system_permitted cx) (testLLM cx ev now)"
  unfolding saveBrandingSettings_def saveAccessSettings_def saveProxyServices_def testSMTP_def testLLM_def
  by (intro sends_rules; auto intro!: sends_rules save_requests_permitted test_requests_permitted)+

lemma system_press_sends: "handler_sends (system_permitted cx) (system_press cx ev b now)"
  using system_handlers_send saveIntegration_log save_requests_permitted(3)
  by (cases b; cases "canSaveSetting cx (integration cx)")
    (auto simp: system_press_def handler_sends_def saveIntegration_def permission_denied_toast_def)


lemma calls_try: "calls (snd (try_busy busy p st l)) = calls (snd (snd (p (busy True st, l))))"
  by (auto simp: try_busy_def split: option.splits prod.splits)

lemma sent_test:
  "calls (snd (snd (awaited ev rq (\<lambda>v. read_prop v p (\<lambda>m. act (toast (g m)))) (st, l)))) = calls l @ [rq]"
  by (cases rule: apiRequest_cases [of ev rq l]) (auto simp: awaited_def read_prop_def proc_defs split: sum.split)

lemma integration_secrets:
  "obj_get (integrationMetadataFromForm f ex) ''smtp_password_clear'' =
     (if sf_passwordClear f then JBool True else obj_get (case ex of Some ob \<Rightarrow> ob | None \<Rightarrow> []) ''smtp_password_clear'')"
  "obj_get (integrationMetadataFromForm f ex) ''llm_api_key_clear'' =
     (if sf_llmApiKeyClear f then JBool True else obj_get (case ex of Some ob \<Rightarrow> ob | None \<Rightarrow> []) ''llm_api_key_clear'')"
  "obj_get (integrationMetadataFromForm f ex) ''llm_api_key'' =
     (if trim (sf_llmApiKey f) \<noteq> '''' then JStr (trim (sf_llmApiKey f)) else obj_get (case ex of Some ob \<Rightarrow> ob | None \<Rightarrow> []) ''llm_api_key'')"
  unfolding integrationMetadataFromForm_def Let_def
  by (simp_all add: obj_get_set_when obj_get_set_all_step)

lemma integration_body_of:
  "rq_body (integration_request cx form) = Some (JObj
     [(''name'', name_or (integration cx) ''Notification integrations''), (''type'', JStr ''integration''), (''status'', JStr ''enabled''),
      (''host'', JStr (trim (sf_host form))),
      (''port'', JNum (if sf_port form \<noteq> '''' then to_number (sf_port form) else Fin 0)),
      (''username'', JStr (trim (sf_username form))),
      (''password'', if trim (sf_password form) \<noteq> '''' then JStr (trim (sf_password form)) else JUndefined),
      (''metadata'', JObj (integrationMetadataFromForm form (old_metadata (integration cx)))),
      (''description'', JStr ''SMTP email delivery and LLM integration settings.'')])"
  by (simp add: integration_request_def setting_request_def Let_def)

lemma old_meta: "(case old_metadata item of Some ob \<Rightarrow> ob | None \<Rightarrow> []) = item_meta item"
  by (simp add: old_metadata_def item_meta_def split: option.split)

lemma proxy_payload_secrets:
  "obj_get (proxyServicesPayloadFromForm f) ''proxy_private_key'' =
     (if trim (px_proxyPrivateKey f) \<noteq> '''' then JStr (trim (px_proxyPrivateKey f)) else JUndefined)"
  "obj_get (proxyServicesPayloadFromForm f) ''proxy_private_key_clear'' = (if px_proxyPrivateKeyClear f then JBool True else JUndefined)"
  unfolding proxyServicesPayloadFromForm_def by (simp_all add: obj_get_def)

section \<open>Properties\<close>

text \<open>
  No button of the system settings sends a request the role may not make, whatever the server answers: not even the
  tests, which store the form first when the role may.
\<close>
theorem system_requests_permitted:
  "\<exists>new. calls (snd (system_press cx ev b now st l)) = calls l @ new \<and>
    list_all (\<lambda>rq. sx_can cx (rq_method rq) (rq_path rq)) new"
  using system_press_sends [of cx ev b now] by (simp add: handler_sends_def system_permitted_def list_all_iff)

text \<open>C19 A test mail is about the form on the screen: when the role may store it, the form is stored first, and the test
  names the record of the server's answer; when storing fails, no test is sent. Only a role that may not store it
  tests the stored record, and one that may not test sends nothing.
\<close>
theorem mail_test_of_shown_form:
  "calls (snd (testSMTP cx ev now st l)) = calls l @
     (let save = integration_request cx (py_mail now); test = smtp_test_request (py_mail now)
      in if \<not> canTestSMTPSettings cx then []
         else if canSaveSetting cx (integration cx)
         then save # (case fst (apiRequest ev save l) of
                Inr v \<Rightarrow> if truthy v then [test (obj_get (recordValue v) ''id'')] else []
              | Inl _ \<Rightarrow> [])
         else case integration cx of Some item \<Rightarrow> [test (JStr (it_id item))] | None \<Rightarrow> [])"
proof (cases "canTestSMTPSettings cx \<and> canSaveSetting cx (integration cx)")
  case False
  then show ?thesis
    by (auto simp: testSMTP_def permission_denied_toast_def test_target_def calls_try sent_test split: option.split)
next
  case True
  let ?save = "integration_request cx (py_mail now)"
  show ?thesis
  proof (cases rule: apiRequest_cases [of ev ?save l])
    case (error e)
    with True show ?thesis
      by (simp add: testSMTP_def calls_try test_target_def saveIntegration_def integration_body_def awaited_def)
  next
    case (ok v)
    show ?thesis
    proof (cases "truthy v")
      case False
      with True ok show ?thesis
        by (auto simp: testSMTP_def calls_try test_target_def saveIntegration_def integration_body_def awaited_def read_prop_def
            split: sum.splits)
    next
      case True': True
      then obtain m i where "js_prop v ''metadata'' = Inr m" "js_prop v ''id'' = Inr i" "i = obj_get (recordValue v) ''id''"
        by (cases v) (auto simp: js_prop_def truthy_def recordValue_def obj_get_def)
      let ?st = "st\<lparr>py_testing := True\<rparr>"
      have "fst (saveIntegration cx ev True now ?st l) = Some v"
        using True ok \<open>js_prop v ''metadata'' = Inr m\<close>
        by (simp add: saveIntegration_def integration_body_def awaited_def read_prop_def)
      then obtain st1 l1 where "saveIntegration cx ev True now ?st l = (Some v, st1, l1)" by (metis fst_conv prod_cases3)
      moreover from this have "calls l1 = calls l @ [?save]" using saveIntegration_log [of cx ev True now ?st l] True by simp
      ultimately show ?thesis
        using True True' ok \<open>js_prop v ''id'' = Inr i\<close> \<open>i = _\<close>
        by (simp add: testSMTP_def calls_try test_target_def read_prop_def [of v] sent_test)
    qed
  qed
qed

text \<open>
  A new secret and the order to clear the stored one are never sent together: on every page that can be reached, by
  any typing, ticking, saving and reloading, the request that saves the proxies holds at most one of the two for the
  private key, and the request that saves the integrations at most one for the password and one for the API key
  (unless the stored record itself still carries such an order).
\<close>
theorem secret_never_set_and_cleared:
  assumes "system_reach now"
    and "obj_get (item_meta (integration cx)) ''smtp_password_clear'' = JUndefined"
    and "obj_get (item_meta (integration cx)) ''llm_api_key_clear'' = JUndefined"
    and "obj_get (item_meta (integration cx)) ''llm_api_key'' = JUndefined"
  shows "(obj_get (proxyServicesPayloadFromForm (py_proxy now)) ''proxy_private_key_clear'' = JUndefined \<or>
      obj_get (proxyServicesPayloadFromForm (py_proxy now)) ''proxy_private_key'' = JUndefined)
    \<and> (\<exists>body metadata. rq_body (integration_request cx (py_mail now)) = Some (JObj body) \<and> obj_get body ''metadata'' = JObj metadata \<and>
      (obj_get metadata ''smtp_password_clear'' = JUndefined \<or> obj_get body ''password'' = JUndefined) \<and>
      (obj_get metadata ''llm_api_key_clear'' = JUndefined \<or> obj_get metadata ''llm_api_key'' = JUndefined))"
proof
  have ok: "proxy_key_ok (py_proxy now)" "mail_secrets_ok (py_mail now)" using system_reach_ok [OF assms(1)] by (simp_all add: secrets_ok_def)
  from ok(1) show "obj_get (proxyServicesPayloadFromForm (py_proxy now)) ''proxy_private_key_clear'' = JUndefined \<or>
      obj_get (proxyServicesPayloadFromForm (py_proxy now)) ''proxy_private_key'' = JUndefined"
    by (simp add: proxy_payload_secrets proxy_key_ok_def)
  let ?m = "integrationMetadataFromForm (py_mail now) (old_metadata (integration cx))"
  have "obj_get ?m ''smtp_password_clear'' = JUndefined \<or> trim (sf_password (py_mail now)) = ''''"
    "obj_get ?m ''llm_api_key_clear'' = JUndefined \<or> obj_get ?m ''llm_api_key'' = JUndefined"
    using ok(2) assms(2-4) by (auto simp: integration_secrets mail_secrets_ok_def old_meta)
  then show "\<exists>body metadata. rq_body (integration_request cx (py_mail now)) = Some (JObj body) \<and> obj_get body ''metadata'' = JObj metadata \<and>
      (obj_get metadata ''smtp_password_clear'' = JUndefined \<or> obj_get body ''password'' = JUndefined) \<and>
      (obj_get metadata ''llm_api_key_clear'' = JUndefined \<or> obj_get metadata ''llm_api_key'' = JUndefined)"
    unfolding integration_body_of by (intro exI conjI; (rule refl)?) (auto simp: obj_get_def)
qed

definition no_config :: public_config where
  "no_config = \<lparr>pc_site_name = '''', pc_version = '''', pc_commit = '''', pc_github_url = '''', pc_copyright = '''', pc_logo_url = '''',
     pc_asset_logo_url = '''', pc_icp_number = '''', pc_about_title = '''', pc_about_description = '''', pc_about_body = '''',
     pc_footer_text = '''', pc_nav_links = []\<rparr>"

definition admin_cx :: system_cx where
  "admin_cx = \<lparr>sx_can = (\<lambda>_ _. True), sx_items = [], sx_publicConfig = no_config, sx_url = (\<lambda>_. None)\<rparr>"

text \<open>A password is typed, and then the saved one is to be cleared after all.\<close>

definition cleared_page :: system_page where
  "cleared_page =
     (let cs = integration_inputs (py_mail (system_start admin_cx));
          typed = section_enters cs 5 (Typed ''secret'') (py_mail (system_start admin_cx))
      in (system_start admin_cx)\<lparr>py_mail := typed\<rparr>)"

lemma cleared_page_reached: "system_reach cleared_page"
  unfolding cleared_page_def Let_def
  by (intro system_reach.intros) (simp add: section_accepts_def integration_inputs_def mail_inputs_def)

lemma secret_never_set_and_cleared_witness:
  "(\<exists>body metadata. rq_body (integration_request admin_cx (py_mail cleared_page)) = Some (JObj body) \<and> obj_get body ''metadata'' = JObj metadata \<and>
      (obj_get metadata ''smtp_password_clear'' = JUndefined \<or> obj_get body ''password'' = JUndefined)) \<and>
   sf_password (py_mail cleared_page) = ''secret''"
proof
  have "integration admin_cx = None" by (simp add: integration_def setting_of_type_def admin_cx_def)
  then show "\<exists>body metadata. rq_body (integration_request admin_cx (py_mail cleared_page)) = Some (JObj body) \<and> obj_get body ''metadata'' = JObj metadata \<and>
      (obj_get metadata ''smtp_password_clear'' = JUndefined \<or> obj_get body ''password'' = JUndefined)"
    using secret_never_set_and_cleared [OF cleared_page_reached, of admin_cx] by (auto simp: item_meta_def obj_get_def)
  show "sf_password (py_mail cleared_page) = ''secret''"
    by (simp add: cleared_page_def section_enters_def integration_inputs_def mail_inputs_def Let_def)
qed

text \<open>
  The assistant's save button does not look at the mail form: a port out of range that the mail section refuses to
  save is stored all the same, since both sections save one record.
\<close>

definition bad_port_page :: system_page where
  "bad_port_page = (system_start admin_cx)\<lparr>py_mail := (py_mail (system_start admin_cx))\<lparr>sf_port := ''0''\<rparr>\<rparr>"

theorem assistant_saves_bad_port:
  "\<not> system_button_live admin_cx bad_port_page PressSaveMail \<and> system_button_live admin_cx bad_port_page PressSaveLLM
   \<and> (\<exists>body. calls (snd (system_press admin_cx ev PressSaveLLM bad_port_page bad_port_page l)) =
        calls l @ [post_request system_settings_path (JObj body)] \<and> obj_get body ''port'' = JNum (Fin 0))"
proof -
  have port: "to_number ''0'' = Fin 0" by code_simp
  have may: "canSaveSetting admin_cx (integration admin_cx)" by (simp add: canSaveSetting_def admin_cx_def)
  have none: "integration admin_cx = None" by (simp add: integration_def setting_of_type_def admin_cx_def)
  have "sf_llmBaseUrl (smtpIntegrationFormFromItem None) = []"
    by (simp add: smtpIntegrationFormFromItem_def item_meta_def obj_get_def metadataText_def Let_def)
  then have url: "sf_llmBaseUrl (py_mail bad_port_page) = []" by (simp add: bad_port_page_def system_start_def none)
  have idle: "\<not> py_saving bad_port_page" "\<not> py_testing bad_port_page" "\<not> py_testingLLM bad_port_page" "sf_port (py_mail bad_port_page) = ''0''"
    by (simp_all add: bad_port_page_def system_start_def)
  have "\<not> smtpFormValid (py_mail bad_port_page)" by (simp add: smtpFormValid_def smtpPortValid_def idle port)
  then have dead: "\<not> system_button_live admin_cx bad_port_page PressSaveMail" by (simp add: system_button_live_def mail_save_live_def)
  have live: "system_button_live admin_cx bad_port_page PressSaveLLM"
    using may by (simp add: system_button_live_def llm_save_live_def idle llmBaseURLValid_def url(1) trim_def)
  have "rq_body (integration_request admin_cx (py_mail bad_port_page)) \<noteq> None" by (simp add: integration_body_of)
  have "\<exists>body. integration_request admin_cx (py_mail bad_port_page) = post_request system_settings_path (JObj body) \<and> obj_get body ''port'' = JNum (Fin 0)"
    by (simp add: integration_request_def setting_request_def none item_id_def idle port obj_get_def mk_request_def)
  with dead live saveIntegration_log [OF may, of ev False bad_port_page bad_port_page l] show ?thesis
    by (auto simp: system_press_def)
qed

end
