(* ===== verification/ItemDialog.thy ===== *)
theory ItemDialog
  imports ConfigForms Pages Controls "HOL-Library.AList"
begin

text \<open>
  The editor of a record (\<open>PlatformItemDialog\<close> in \<open>platform-page.tsx\<close>): which inputs it draws for each collection,
  what each shows of the form and what it makes of an entry. Most inputs are bound to a field of the form or to a key
  of its metadata text; the others change several at once or edit a list.
\<close>

section \<open>Inputs\<close>

datatype form_key =
    KName | KType | KStatus | KProtocol | KHost | KPort | KUsername | KPassword | KPrivateKey | KPassphrase | KGroup
  | KOwner | KParent | KTarget | KTags | KDescription | KMetadata

fun form_text :: "form_key \<Rightarrow> platform_form \<Rightarrow> string" where
  "form_text KName f = fm_name f" | "form_text KType f = fm_type f" | "form_text KStatus f = fm_status f"
| "form_text KProtocol f = fm_protocol f" | "form_text KHost f = fm_host f" | "form_text KPort f = fm_port f"
| "form_text KUsername f = fm_username f" | "form_text KPassword f = fm_password f"
| "form_text KPrivateKey f = fm_private_key f" | "form_text KPassphrase f = fm_passphrase f"
| "form_text KGroup f = fm_group f" | "form_text KOwner f = fm_owner_id f" | "form_text KParent f = fm_parent_id f"
| "form_text KTarget f = fm_target_id f" | "form_text KTags f = fm_tags f" | "form_text KDescription f = fm_description f"
| "form_text KMetadata f = fm_metadata f"

fun set_text :: "form_key \<Rightarrow> string \<Rightarrow> platform_form \<Rightarrow> platform_form" where
  "set_text KName t f = f\<lparr>fm_name := t\<rparr>" | "set_text KType t f = f\<lparr>fm_type := t\<rparr>" | "set_text KStatus t f = f\<lparr>fm_status := t\<rparr>"
| "set_text KProtocol t f = f\<lparr>fm_protocol := t\<rparr>" | "set_text KHost t f = f\<lparr>fm_host := t\<rparr>" | "set_text KPort t f = f\<lparr>fm_port := t\<rparr>"
| "set_text KUsername t f = f\<lparr>fm_username := t\<rparr>" | "set_text KPassword t f = f\<lparr>fm_password := t\<rparr>"
| "set_text KPrivateKey t f = f\<lparr>fm_private_key := t\<rparr>" | "set_text KPassphrase t f = f\<lparr>fm_passphrase := t\<rparr>"
| "set_text KGroup t f = f\<lparr>fm_group := t\<rparr>" | "set_text KOwner t f = f\<lparr>fm_owner_id := t\<rparr>" | "set_text KParent t f = f\<lparr>fm_parent_id := t\<rparr>"
| "set_text KTarget t f = f\<lparr>fm_target_id := t\<rparr>" | "set_text KTags t f = f\<lparr>fm_tags := t\<rparr>" | "set_text KDescription t f = f\<lparr>fm_description := t\<rparr>"
| "set_text KMetadata t f = f\<lparr>fm_metadata := t\<rparr>"

text \<open>A select shows its default when the value is empty; its last argument is the list of its options.\<close>

datatype item_field =
    PlainBox form_key
  | PlainNumber form_key
  | PlainSelect form_key string "string list"
  | TypeSelect string string "string list"
  | MetaBox string
  | MetaNumber string
  | MetaSelect string string "string list"
  | MetaTick string
  | MetaWords string
  | MetaLines string
  | ApiLines
  | RoleSelect "string list"
  | MenuTick page_config
  | GatewayModeSelect
  | GatewayMember string
  | ResourceTypeSelect
  | PermissionTick string
  | CertificateSelect "string list"
  | CredentialClearTick
  | DsnClearTick
  | ScheduleModeSelect
  | ClientTypeSelect
  | ClientSecretBox
  | SecretClearTick
  | AuthMethodSelect "string list"

definition oidcClientType :: "platform_form \<Rightarrow> string" where
  "oidcClientType form = lower (or_str (fm_type form) ''confidential'')"

definition oidcAuthMethod :: "platform_form \<Rightarrow> string" where
  "oidcAuthMethod form =
     or_str (metadataFormText (fm_metadata form) ''token_endpoint_auth_method'')
       (if oidcClientType form = ''public'' then ''none'' else ''client_secret_basic'')"

definition selectedGatewayIDs :: "platform_form \<Rightarrow> string list" where
  "selectedGatewayIDs form = metadataStringListFromForm (fm_metadata form) ''gateway_ids''"

definition authorizationResourceType :: "platform_form \<Rightarrow> string" where
  "authorizationResourceType form = or_str (metadataFormText (fm_metadata form) ''resource_type'') ''storage''"

definition menu_selected :: "page_config \<Rightarrow> platform_form \<Rightarrow> bool" where
  "menu_selected pg form \<longleftrightarrow>
     pg_collection pg \<in> set (roleMenuPermissions (fm_metadata form)) \<or> pg_route pg \<in> set (roleMenuPermissions (fm_metadata form))"

fun field_shows :: "item_field \<Rightarrow> platform_form \<Rightarrow> entry" where
  "field_shows (PlainBox k) f = Typed (form_text k f)"
| "field_shows (PlainNumber k) f = Typed (form_text k f)"
| "field_shows (PlainSelect k d options) f = Typed (or_str (form_text k f) d)"
| "field_shows (TypeSelect protocol d options) f = Typed (or_str (fm_type f) d)"
| "field_shows (MetaBox k) f = Typed (metadataFormText (fm_metadata f) k)"
| "field_shows (MetaNumber k) f = Typed (metadataFormText (fm_metadata f) k)"
| "field_shows (MetaSelect k d options) f = Typed (or_str (metadataFormText (fm_metadata f) k) d)"
| "field_shows (MetaTick k) f = Ticked (metadataBoolFromForm (fm_metadata f) k)"
| "field_shows (MetaWords k) f = Typed (metadataListInputText (fm_metadata f) k)"
| "field_shows (MetaLines k) f = Typed (metadataFormText (fm_metadata f) k)"
| "field_shows ApiLines f = Typed (roleAPIText (fm_metadata f))"
| "field_shows (RoleSelect options) f = Typed (roleValue (fm_metadata f))"
| "field_shows (MenuTick pg) f = Ticked (menu_selected pg f)"
| "field_shows GatewayModeSelect f = Typed (gatewayGroupSelectionModeFromForm f)"
| "field_shows (GatewayMember g) f = Ticked (g \<in> set (selectedGatewayIDs f))"
| "field_shows ResourceTypeSelect f = Typed (authorizationResourceType f)"
| "field_shows (PermissionTick a) f = Ticked (map_of (fm_permissions f) a = Some True)"
| "field_shows (CertificateSelect options) f =
     Typed (or_str (metadataFormText (fm_metadata f) ''certificate_id'') (metadataFormText (fm_metadata f) ''mtls_certificate_id''))"
| "field_shows CredentialClearTick f = Ticked (metadataBoolFromForm (fm_metadata f) ''web_upstream_credentials_clear'')"
| "field_shows DsnClearTick f = Ticked (fm_databaseDSNClear f)"
| "field_shows ScheduleModeSelect f = Typed (scheduledTaskScheduleModeFromForm (fm_metadata f))"
| "field_shows ClientTypeSelect f = Typed (or_str (fm_type f) ''confidential'')"
| "field_shows ClientSecretBox f = Typed (fm_password f)"
| "field_shows SecretClearTick f = Ticked (fm_oidcClientSecretClear f)"
| "field_shows (AuthMethodSelect options) f = Typed (oidcAuthMethod f)"

definition put_meta :: "string \<Rightarrow> jsval \<Rightarrow> platform_form \<Rightarrow> platform_form" where
  "put_meta k v f = f\<lparr>fm_metadata := metadataWithValue (fm_metadata f) k v\<rparr>"

definition put_list :: "string \<Rightarrow> string list \<Rightarrow> platform_form \<Rightarrow> platform_form" where
  "put_list k xs f = f\<lparr>fm_metadata := metadataWithList (fm_metadata f) k xs\<rparr>"

text \<open>\<open>event.currentTarget.value ? Number(event.currentTarget.value) : ''\<close>\<close>

definition number_value :: "string \<Rightarrow> jsval" where
  "number_value t = (if t \<noteq> '''' then JNum (to_number t) else JStr '''')"

text \<open>Choosing a client type sets the authentication method that goes with it; a public client has no secret.\<close>

definition choose_client_type :: "string \<Rightarrow> platform_form \<Rightarrow> platform_form" where
  "choose_client_type nextType f =
     f\<lparr>fm_type := nextType,
       fm_password := (if nextType = ''public'' then '''' else fm_password f),
       fm_oidcClientSecretClear := (if nextType = ''public'' then False else fm_oidcClientSecretClear f),
       fm_metadata := metadataWithValue (fm_metadata f) ''token_endpoint_auth_method''
         (JStr (if nextType = ''public'' then ''none'' else ''client_secret_basic''))\<rparr>"

fun field_enters :: "string \<Rightarrow> item_field \<Rightarrow> entry \<Rightarrow> platform_form \<Rightarrow> platform_form" where
  "field_enters soon (PlainBox k) e f = set_text k (typed_text e) f"
| "field_enters soon (PlainNumber k) e f = set_text k (typed_text e) f"
| "field_enters soon (PlainSelect k d options) e f = set_text k (typed_text e) f"
| "field_enters soon (TypeSelect protocol d options) e f = f\<lparr>fm_type := typed_text e, fm_protocol := protocol\<rparr>"
| "field_enters soon (MetaBox k) e f = put_meta k (JStr (typed_text e)) f"
| "field_enters soon (MetaNumber k) e f = put_meta k (number_value (typed_text e)) f"
| "field_enters soon (MetaSelect k d options) e f = put_meta k (JStr (typed_text e)) f"
| "field_enters soon (MetaTick k) e f = put_meta k (JBool (is_ticked e)) f"
| "field_enters soon (MetaWords k) e f = put_list k (splitWords (typed_text e)) f"
| "field_enters soon (MetaLines k) e f = put_list k (splitTextLines (typed_text e)) f"
| "field_enters soon ApiLines e f = put_list ''api_permissions'' (splitLines (typed_text e)) f"
| "field_enters soon (RoleSelect options) e f = put_meta ''role'' (JStr (typed_text e)) f"
| "field_enters soon (MenuTick pg) e f =
     put_list ''menu_permissions'' (toggleString (roleMenuPermissions (fm_metadata f)) (pg_collection pg)) f"
| "field_enters soon GatewayModeSelect e f =
     f\<lparr>fm_type := typed_text e, fm_metadata := metadataWithGatewaySelectionMode (fm_metadata f) (typed_text e)\<rparr>"
| "field_enters soon (GatewayMember g) e f = put_list ''gateway_ids'' (toggleString (selectedGatewayIDs f) g) f"
| "field_enters soon ResourceTypeSelect e f = put_meta ''resource_type'' (JStr (typed_text e)) (f\<lparr>fm_target_id := ''''\<rparr>)"
| "field_enters soon (PermissionTick a) e f = f\<lparr>fm_permissions := AList.update a (is_ticked e) (fm_permissions f)\<rparr>"
| "field_enters soon (CertificateSelect options) e f =
     f\<lparr>fm_metadata := metadataWithWebAssetCertificate (fm_metadata f) (typed_text e)\<rparr>"
| "field_enters soon CredentialClearTick e f =
     f\<lparr>fm_metadata := metadataWithWebAssetCredentialClear (fm_metadata f) (is_ticked e)\<rparr>"
| "field_enters soon DsnClearTick e f = f\<lparr>fm_databaseDSNClear := is_ticked e\<rparr>"
| "field_enters soon ScheduleModeSelect e f =
     f\<lparr>fm_metadata := metadataWithScheduledTaskMode soon (fm_metadata f) (typed_text e)\<rparr>"
| "field_enters soon ClientTypeSelect e f = choose_client_type (typed_text e) f"
| "field_enters soon ClientSecretBox e f = f\<lparr>fm_password := typed_text e, fm_oidcClientSecretClear := False\<rparr>"
| "field_enters soon SecretClearTick e f =
     f\<lparr>fm_oidcClientSecretClear := is_ticked e, fm_password := (if is_ticked e then '''' else fm_password f)\<rparr>"
| "field_enters soon (AuthMethodSelect options) e f = put_meta ''token_endpoint_auth_method'' (JStr (typed_text e)) f"

section \<open>The inputs of each collection\<close>

record dialog_cx =
  dc_collection :: string
  dc_items :: "platform_item list"
  dc_editingId :: string
  dc_platform :: "string \<Rightarrow> platform_item list option"

definition known :: "dialog_cx \<Rightarrow> string \<Rightarrow> platform_item list" where
  "known cx c = (case dc_platform cx c of Some xs \<Rightarrow> xs | None \<Rightarrow> [])"

definition assetGroupItems :: "dialog_cx \<Rightarrow> platform_item list" where
  "assetGroupItems cx =
     filter (\<lambda>item. it_id item \<noteq> dc_editingId cx) (case dc_platform cx ''asset_groups'' of Some xs \<Rightarrow> xs | None \<Rightarrow> dc_items cx)"

definition databaseCredentials :: "dialog_cx \<Rightarrow> platform_item list" where
  "databaseCredentials cx = filter (\<lambda>item. it_type item = ''database_password'') (known cx ''credentials'')"

definition mtlsCertificates :: "dialog_cx \<Rightarrow> platform_item list" where
  "mtlsCertificates cx =
     filter (\<lambda>item. metadataBool (meta item ''mtls_enabled'') \<and> metadataBool (meta item ''has_private_key'')) (known cx ''certificates'')"

abbreviation ids :: "platform_item list \<Rightarrow> string list" where
  "ids \<equiv> map it_id"

type_synonym drawn = "(string \<times> item_field) list"

definition name_box :: drawn where
  "name_box = [(''name'', PlainBox KName)]"

definition status_select :: drawn where
  "status_select = [(''status'', PlainSelect KStatus ''enabled'' [''enabled'', ''disabled''])]"

definition tags_box :: drawn where
  "tags_box = [(''tags'', PlainBox KTags)]"

definition protocol_select :: drawn where
  "protocol_select = [(''protocol'', PlainSelect KProtocol '''' ['''', ''ssh'', ''rdp'', ''vnc'', ''http'', ''database''])]"

definition gateway_group_select :: "dialog_cx \<Rightarrow> drawn" where
  "gateway_group_select cx = [(''gatewayGroup'', MetaSelect ''gateway_group_id'' '''' ('''' # ids (known cx ''gateway_groups'')))]"

definition storage_fields :: "dialog_cx \<Rightarrow> drawn" where
  "storage_fields cx =
     name_box @ status_select @
     [(''storageType'', PlainSelect KType ''local'' [''local'']),
      (''storageOwner'', PlainSelect KOwner '''' ('''' # ids (known cx ''users''))),
      (''quotaBytes'', MetaBox ''limit_bytes''), (''sharedUsers'', MetaWords ''shared_users''), (''sharedStorage'', MetaTick ''shared'')]
     @ tags_box"

definition gateway_group_fields :: "dialog_cx \<Rightarrow> platform_form \<Rightarrow> drawn" where
  "gateway_group_fields cx form =
     name_box @ status_select @
     [(''selectionMode'', GatewayModeSelect), (''attemptTimeoutSeconds'', MetaNumber ''attempt_timeout_seconds''),
      (''failureCooldownSeconds'', MetaNumber ''failure_cooldown_seconds'')]
     @ tags_box
     @ (if gatewayGroupSelectionModeFromForm form = ''manual''
        then map (\<lambda>g. (it_name g, GatewayMember (it_id g))) (known cx ''agent_gateways'')
        else [(''requiredLabels'', MetaWords ''required_labels''), (''requiredCapabilities'', MetaWords ''required_capabilities'')])"

definition asset_group_fields :: "dialog_cx \<Rightarrow> drawn" where
  "asset_group_fields cx =
     name_box @ status_select @
     [(''type'', PlainSelect KType ''ssh'' [''ssh'', ''desktop'', ''web'', ''database'', ''custom''])]
     @ protocol_select @
     [(''parent'', PlainSelect KParent '''' ('''' # ids (assetGroupItems cx))), (''sort'', MetaNumber ''sort''),
      (''collapsedByDefault'', MetaTick ''collapsed'')]
     @ tags_box"

definition command_filter_fields :: drawn where
  "command_filter_fields =
     [(''ruleName'', PlainBox KName)] @ status_select @
     [(''action'', PlainSelect KType ''deny'' [''deny'', ''approval'', ''allow'']),
      (''riskLevel'', MetaSelect ''risk'' ''high'' [''low'', ''medium'', ''high'', ''critical'']),
      (''commandPattern'', MetaBox ''pattern''), (''protocol'', PlainSelect KProtocol ''ssh'' [''ssh'']),
      (''targetAsset'', PlainBox KTarget), (''owner'', PlainBox KOwner)]
     @ tags_box"

definition strategy_fields :: "dialog_cx \<Rightarrow> platform_form \<Rightarrow> drawn" where
  "strategy_fields cx form =
     name_box @ status_select @
     [(''type'', PlainSelect KType ''file'' [''file'']), (''targetResourceType'', ResourceTypeSelect),
      (if authorizationResourceType form = ''asset'' then ''targetAsset'' else ''targetStorage'',
       PlainSelect KTarget '''' ('''' # ids (known cx (if authorizationResourceType form = ''asset'' then ''assets'' else ''storages'')))),
      (''owner'', PlainBox KOwner), (''pathPrefix'', MetaBox ''path_prefix'')]
     @ map (\<lambda>a. (a, PermissionTick a)) filePermissionActions @ tags_box"

definition web_asset_fields :: "dialog_cx \<Rightarrow> platform_form \<Rightarrow> drawn" where
  "web_asset_fields cx form =
     name_box @ status_select @
     [(''type'', TypeSelect ''http'' ''http'' [''http'', ''https'']), (''targetUrl'', MetaBox ''target_url'')]
     @ (if metadataBoolFromForm (fm_metadata form) ''web_upstream_url_set'' \<or> metadataBoolFromForm (fm_metadata form) ''upstream_credentials_set''
        then [(''clearUpstreamCredentials'', CredentialClearTick)] else [])
     @ [(''hostDomain'', PlainBox KHost), (''ports'', PlainNumber KPort),
        (''clientCertificate'', CertificateSelect ('''' # ids (mtlsCertificates cx))), (''tlsServerName'', MetaBox ''tls_server_name'')]
     @ gateway_group_select cx @ [(''caBundle'', MetaBox ''mtls_ca''), (''group'', PlainBox KGroup)] @ tags_box
     @ [(''details'', PlainBox KDescription)]"

definition database_fields :: "dialog_cx \<Rightarrow> platform_form \<Rightarrow> drawn" where
  "database_fields cx form =
     name_box @ status_select @
     [(''databaseDriver'', TypeSelect ''database'' ''sqlite'' [''sqlite'', ''mysql'', ''postgres''])]
     @ (if fm_type form = ''sqlite'' \<or> fm_type form = '''' then [(''sqlitePath'', MetaBox ''sqlite_path'')]
        else [(''address'', PlainBox KHost), (''ports'', PlainNumber KPort), (''databaseName'', MetaBox ''database''),
              (''username'', PlainBox KUsername), (''credential'', MetaSelect ''credential_id'' '''' ('''' # ids (databaseCredentials cx))),
              (if fm_type form = ''postgres''
               then (''SSL mode'', MetaSelect ''sslmode'' ''disable'' [''disable'', ''require'', ''verify-ca'', ''verify-full''])
               else (''Charset'', MetaBox ''charset''))])
     @ [(''rowLimit'', MetaNumber ''row_limit''), (''queryTimeoutMs'', MetaNumber ''query_timeout_ms'')]
     @ (if fm_databaseDSNSet form then [(''clearDatabaseDSN'', DsnClearTick)] else [])
     @ gateway_group_select cx @ [(''group'', PlainBox KGroup)] @ tags_box"

definition task_fields :: "platform_form \<Rightarrow> drawn" where
  "task_fields form =
     (let mode = scheduledTaskScheduleModeFromForm (fm_metadata form)
      in name_box @ status_select @
         [(''type'', PlainSelect KType ''asset-status'' [''asset-status'', ''log-cleanup'', ''certificate-renewal'', ''backup'']),
          (''scheduleMode'', ScheduleModeSelect)]
         @ (if mode = ''interval'' then [(''intervalSeconds'', MetaNumber ''interval_seconds'')] else [])
         @ (if mode = ''cron'' then [(''cronExpression'', MetaBox ''cron'')] else [])
         @ (if mode = ''once'' then [(''nextRun'', MetaBox ''next_run_at'')] else [])
         @ (if mode \<in> set [''interval'', ''cron''] then [(''runOnStart'', MetaTick ''run_on_start'')] else [])
         @ (if fm_type form = ''asset-status'' then [(''timeoutMs'', MetaNumber ''timeout_ms'')] else [])
         @ (if fm_type form = ''log-cleanup'' then [(''retentionDays'', MetaNumber ''retention_days'')] else [])
         @ (if fm_type form = ''certificate-renewal''
            then [(''renewBeforeDays'', MetaNumber ''renew_before_days''), (''validityDays'', MetaNumber ''validity_days'')] else [])
         @ [(''group'', PlainBox KGroup)] @ tags_box)"

definition snippet_fields :: drawn where
  "snippet_fields =
     name_box @ [(''visibility'', PlainSelect KType ''public'' [''public'', ''private''])] @ status_select @
     [(''owner'', PlainBox KOwner), (''commandContent'', MetaBox ''command''), (''appendNewline'', MetaTick ''append_newline''),
      (''group'', PlainBox KGroup)]
     @ tags_box"

definition oidc_fields :: "dialog_cx \<Rightarrow> platform_form \<Rightarrow> drawn" where
  "oidc_fields cx form =
     name_box @ status_select @
     [(''clientType'', ClientTypeSelect), (''oidcClientID'', MetaBox ''client_id''), (''oidcClientSecret'', ClientSecretBox)]
     @ (if dc_editingId cx \<noteq> '''' \<and> or_str (fm_type form) ''confidential'' \<noteq> ''public'' \<and> fm_oidcClientSecretSet form
        then [(''clearOIDCClientSecret'', SecretClearTick)] else [])
     @ [(''oidcAuthMethod'', AuthMethodSelect (if oidcClientType form = ''public'' then [''none'']
                                              else [''client_secret_basic'', ''client_secret_post''])),
        (''oidcRedirectURIs'', MetaLines ''redirect_uris''), (''oidcScopes'', MetaWords ''scopes''), (''group'', PlainBox KGroup)]
     @ tags_box"

definition other_fields :: "dialog_cx \<Rightarrow> platform_form \<Rightarrow> drawn" where
  "other_fields cx form =
     (let c = dc_collection cx;
          isCredential = (c = ''credentials''); isUser = (c = ''users''); isDepartment = (c = ''departments'')
      in name_box @
         [(''type'', if isCredential
             then PlainSelect KType '''' [''ssh_password'', ''ssh_key'', ''rdp_password'', ''vnc_password'', ''database_password'']
             else PlainBox KType),
          (''status'', if isUser then PlainSelect KStatus ''enabled'' [''enabled'', ''disabled''] else PlainBox KStatus)]
         @ protocol_select @
         [(''address'', PlainBox KHost), (if isDepartment then ''sort'' else ''ports'', PlainNumber KPort), (''username'', PlainBox KUsername)]
         @ (if isUser then [(''role'', RoleSelect ([''user'', ''auditor'', ''admin''] @ map it_name (known cx ''roles'')))] else [])
         @ (if isUser \<or> isCredential \<and> fm_type form \<noteq> ''ssh_key'' then [(''password'', PlainBox KPassword)] else [])
         @ (if isCredential \<and> fm_type form = ''ssh_key''
            then [(''Private key'', PlainBox KPrivateKey), (''Passphrase'', PlainBox KPassphrase)] else [])
         @ (if c = ''assets'' then gateway_group_select cx else [])
         @ [(''group'', PlainBox KGroup), (''owner'', PlainBox KOwner), (''target'', PlainBox KTarget),
            (if isDepartment
             then (''parentDepartment'', PlainSelect KParent '''' ('''' # ids (filter (\<lambda>item. it_id item \<noteq> dc_editingId cx) (dc_items cx))))
             else (''parent'', PlainBox KParent))]
         @ tags_box)"

definition role_fields :: "dialog_cx \<Rightarrow> drawn" where
  "role_fields cx =
     (if dc_collection cx = ''roles''
      then (''apiPermissions'', ApiLines) # map (\<lambda>pg. (pg_label_en pg, MenuTick pg)) platformPages else [])"

definition dialog_fields :: "dialog_cx \<Rightarrow> platform_form \<Rightarrow> drawn" where
  "dialog_fields cx form =
     (let c = dc_collection cx
      in (if c = ''storages'' then storage_fields cx
          else if c = ''gateway_groups'' then gateway_group_fields cx form
          else if c = ''asset_groups'' then asset_group_fields cx
          else if c = ''command_filters'' then command_filter_fields
          else if c = ''authorization_strategies'' then strategy_fields cx form
          else if c = ''web_assets'' then web_asset_fields cx form
          else if c = ''database_assets'' then database_fields cx form
          else if c = ''scheduled_tasks'' then task_fields form
          else if c = ''command_snippets'' then snippet_fields
          else if c = ''oidc_clients'' then oidc_fields cx form
          else other_fields cx form)
         @ role_fields cx @ [(''details'', PlainBox KDescription), (''Metadata JSON'', PlainBox KMetadata)])"

section \<open>Saving\<close>



section \<open>What an input reads and writes\<close>

datatype aspect = AKey form_key | AMeta string | APermission string | ASecretClear | ADsnClear

datatype aspect_value = VText string | VJson jsval | VPermission "bool option" | VFlag bool

fun aspect_of :: "aspect \<Rightarrow> platform_form \<Rightarrow> aspect_value" where
  "aspect_of (AKey k) f = VText (form_text k f)"
| "aspect_of (AMeta k) f = VJson (obj_get (metadataObject (fm_metadata f)) k)"
| "aspect_of (APermission a) f = VPermission (map_of (fm_permissions f) a)"
| "aspect_of ASecretClear f = VFlag (fm_oidcClientSecretClear f)"
| "aspect_of ADsnClear f = VFlag (fm_databaseDSNClear f)"

definition certificate_keys :: "string list" where
  "certificate_keys = [''certificate_id'', ''mtls_certificate_id'', ''client_certificate_id'', ''cert_id'']"

definition schedule_keys :: "string list" where
  "schedule_keys = intervalKeys @ cronKeys @ [''next_run_at'', ''manual_only'', ''run_on_start'']"

fun field_writes :: "item_field \<Rightarrow> aspect list" where
  "field_writes (PlainBox k) = [AKey k]"
| "field_writes (PlainNumber k) = [AKey k]"
| "field_writes (PlainSelect k _ _) = [AKey k]"
| "field_writes (TypeSelect _ _ _) = [AKey KType, AKey KProtocol]"
| "field_writes (MetaBox k) = [AMeta k]"
| "field_writes (MetaNumber k) = [AMeta k]"
| "field_writes (MetaSelect k _ _) = [AMeta k]"
| "field_writes (MetaTick k) = [AMeta k]"
| "field_writes (MetaWords k) = [AMeta k]"
| "field_writes (MetaLines k) = [AMeta k]"
| "field_writes ApiLines = [AMeta ''api_permissions'']"
| "field_writes (RoleSelect _) = [AMeta ''role'']"
| "field_writes (MenuTick _) = [AMeta ''menu_permissions'']"
| "field_writes GatewayModeSelect = AKey KType # AMeta ''selection_mode'' # map AMeta gatewayMemberKeys"
| "field_writes (GatewayMember _) = [AMeta ''gateway_ids'']"
| "field_writes ResourceTypeSelect = [AKey KTarget, AMeta ''resource_type'']"
| "field_writes (PermissionTick a) = [APermission a]"
| "field_writes (CertificateSelect _) = map AMeta certificate_keys"
| "field_writes CredentialClearTick = [AMeta ''web_upstream_credentials_clear'', AMeta ''clear_upstream_credentials'']"
| "field_writes DsnClearTick = [ADsnClear]"
| "field_writes ScheduleModeSelect = map AMeta schedule_keys"
| "field_writes ClientTypeSelect = [AKey KType, AKey KPassword, ASecretClear, AMeta ''token_endpoint_auth_method'']"
| "field_writes ClientSecretBox = [AKey KPassword, ASecretClear]"
| "field_writes SecretClearTick = [AKey KPassword, ASecretClear]"
| "field_writes (AuthMethodSelect _) = [AMeta ''token_endpoint_auth_method'']"

fun field_reads :: "item_field \<Rightarrow> aspect list" where
  "field_reads (TypeSelect _ _ _) = [AKey KType]"
| "field_reads GatewayModeSelect = [AKey KType, AMeta ''selection_mode'']"
| "field_reads ResourceTypeSelect = [AMeta ''resource_type'']"
| "field_reads (CertificateSelect _) = [AMeta ''certificate_id'', AMeta ''mtls_certificate_id'']"
| "field_reads CredentialClearTick = [AMeta ''web_upstream_credentials_clear'']"
| "field_reads ClientTypeSelect = [AKey KType]"
| "field_reads ClientSecretBox = [AKey KPassword]"
| "field_reads SecretClearTick = [ASecretClear]"
| "field_reads (AuthMethodSelect _) = [AKey KType, AMeta ''token_endpoint_auth_method'']"
| "field_reads k = field_writes k"

text \<open>The metadata text is made of all its keys.\<close>

fun in_metadata :: "aspect \<Rightarrow> bool" where
  "in_metadata (AMeta _) = True"
| "in_metadata _ = False"

definition touches :: "aspect \<Rightarrow> aspect \<Rightarrow> bool" where
  "touches a b \<longleftrightarrow> a = b \<or> a = AKey KMetadata \<and> in_metadata b \<or> in_metadata a \<and> b = AKey KMetadata"

definition field_linked :: "item_field \<Rightarrow> item_field \<Rightarrow> bool" where
  "field_linked k k' \<longleftrightarrow> list_ex (\<lambda>a. list_ex (touches a) (field_reads k')) (field_writes k)"

section \<open>Entries a user can make\<close>

text \<open>
  A number is entered in its plain form, a list with single separators (what other entries become is the subject of
  \<open>list_separator_lost\<close>), and a check box is pressed to change it. Text typed into the metadata box must hold an object
  with whole numbers, the values the JSON reader and printer are proved inverse for.
\<close>

definition whole_number :: "string \<Rightarrow> bool" where
  "whole_number t \<longleftrightarrow> t = '''' \<or> (\<exists>i. t = show_int i)"

definition option_chosen :: "string list \<Rightarrow> string \<Rightarrow> string \<Rightarrow> bool" where
  "option_chosen options d t \<longleftrightarrow> t \<in> set options \<and> or_str t d = t"

fun typed_ok :: "string \<Rightarrow> item_field \<Rightarrow> string \<Rightarrow> platform_form \<Rightarrow> bool" where
  "typed_ok soon (PlainBox k) t f = (k = KMetadata \<longrightarrow> json_ok (JObj (metadataObject t)))"
| "typed_ok soon (PlainNumber k) t f = (k \<noteq> KMetadata \<and> number_entry t)"
| "typed_ok soon (PlainSelect k d options) t f = (k \<noteq> KMetadata \<and> option_chosen options d t)"
| "typed_ok soon (TypeSelect protocol d options) t f = option_chosen options d t"
| "typed_ok soon (MetaBox k) t f = True"
| "typed_ok soon (MetaNumber k) t f = whole_number t"
| "typed_ok soon (MetaSelect k d options) t f = option_chosen options d t"
| "typed_ok soon (MetaWords k) t f = (t = join '' '' (splitWords t))"
| "typed_ok soon (MetaLines k) t f = (t = join [CHR 0x0A] (splitTextLines t))"
| "typed_ok soon ApiLines t f = (t = join [CHR 0x0A] (splitLines t))"
| "typed_ok soon (RoleSelect options) t f = (t \<in> set options \<and> t \<noteq> '''' \<and> trim t = t)"
| "typed_ok soon GatewayModeSelect t f = (t \<in> set [''manual'', ''auto'', ''least_latency'', ''least_sessions'', ''round_robin''])"
| "typed_ok soon ResourceTypeSelect t f = (t \<in> set [''storage'', ''asset''])"
| "typed_ok soon (CertificateSelect options) t f = (t \<in> set options \<and> trim t = t)"
| "typed_ok soon ScheduleModeSelect t f = (soon \<noteq> '''' \<and> t \<in> set [''interval'', ''cron'', ''startup'', ''once'', ''manual''])"
| "typed_ok soon ClientTypeSelect t f = (t \<in> set [''confidential'', ''public''])"
| "typed_ok soon ClientSecretBox t f = (or_str (fm_type f) ''confidential'' \<noteq> ''public'')"
| "typed_ok soon (AuthMethodSelect options) t f = (t \<in> set options \<and> t \<noteq> '''')"
| "typed_ok soon _ t f = False"

fun ticked_ok :: "item_field \<Rightarrow> platform_form \<Rightarrow> bool" where
  "ticked_ok (MetaTick k) f = True"
| "ticked_ok (MenuTick pg) f = (pg_route pg \<notin> set (roleMenuPermissions (fm_metadata f)) \<and> pg_route pg \<noteq> pg_collection pg)"
| "ticked_ok (GatewayMember g) f = True"
| "ticked_ok (PermissionTick a) f = True"
| "ticked_ok CredentialClearTick f = True"
| "ticked_ok DsnClearTick f = True"
| "ticked_ok SecretClearTick f = True"
| "ticked_ok _ f = False"

definition field_accepts :: "string \<Rightarrow> item_field \<Rightarrow> entry \<Rightarrow> platform_form \<Rightarrow> bool" where
  "field_accepts soon k e f =
     (case e of Typed t \<Rightarrow> typed_ok soon k t f | Ticked b \<Rightarrow> ticked_ok k f \<and> field_shows k f \<noteq> Ticked b)"

definition metadata_sound :: "platform_form \<Rightarrow> bool" where
  "metadata_sound f \<longleftrightarrow> json_ok (JObj (metadataObject (fm_metadata f)))"

lemma form_text_set [simp]: "form_text k (set_text k' t f) = (if k = k' then t else form_text k f)"
  by (cases k; cases k') simp_all

lemma set_text_others [simp]:
  "fm_permissions (set_text k t f) = fm_permissions f" "fm_oidcClientSecretClear (set_text k t f) = fm_oidcClientSecretClear f"
  "fm_databaseDSNClear (set_text k t f) = fm_databaseDSNClear f"
  "fm_metadata (set_text k t f) = (if k = KMetadata then t else fm_metadata f)"
  by (cases k; simp)+

lemma metadata_edits:
  assumes "json_ok (JObj (metadataObject m))"
  shows "json_ok v \<Longrightarrow> metadataObject (metadataWithValue m k v) =
      (if v = JStr '''' \<or> v = JNull then obj_delete (metadataObject m) k else obj_set (metadataObject m) k v)"
    and "metadataObject (metadataWithList m k xs) = obj_set (metadataObject m) k (JArr (map JStr xs))"
    and "metadataObject (metadataWithGatewaySelectionMode m t) =
      (let ob = obj_set (metadataObject m) ''selection_mode'' (JStr t) in if t \<noteq> ''manual'' then obj_delete_all ob gatewayMemberKeys else ob)"
    and "metadataObject (metadataWithWebAssetCertificate m t) =
      (let ob = obj_delete_all (metadataObject m) certificate_keys in if trim t \<noteq> '''' then obj_set ob ''certificate_id'' (JStr (trim t)) else ob)"
    and "metadataObject (metadataWithWebAssetCredentialClear m b) =
      (if b then obj_set (metadataObject m) ''web_upstream_credentials_clear'' (JBool True)
       else obj_delete (obj_delete (metadataObject m) ''web_upstream_credentials_clear'') ''clear_upstream_credentials'')"
proof -
  note [simp del] = json_ok.simps
  have ok: "json_ok (JArr (map JStr xs))" for xs by (simp add: json_ok.simps list_all_iff)
  have list: "metadataObject (json_stringify (JObj (obj_set (metadataObject m) k (JArr (map JStr xs))))) = obj_set (metadataObject m) k (JArr (map JStr xs))" for k xs
    by (intro metadataObject_stringify json_ok_edits assms ok)
  show "json_ok v \<Longrightarrow> metadataObject (metadataWithValue m k v) =
      (if v = JStr '''' \<or> v = JNull then obj_delete (metadataObject m) k else obj_set (metadataObject m) k v)"
    using assms by (auto simp: metadataWithValue_def Let_def json_ok.simps(1) intro!: metadataObject_stringify json_ok_edits)
  show "metadataObject (metadataWithList m k xs) = obj_set (metadataObject m) k (JArr (map JStr xs))"
    by (simp add: metadataWithList_def metadataWithValue_def list)
  show "metadataObject (metadataWithGatewaySelectionMode m t) =
      (let ob = obj_set (metadataObject m) ''selection_mode'' (JStr t) in if t \<noteq> ''manual'' then obj_delete_all ob gatewayMemberKeys else ob)"
    unfolding metadataWithGatewaySelectionMode_def Let_def by (intro metadataObject_stringify) (auto intro!: json_ok_edits assms json_ok_flat)
  show "metadataObject (metadataWithWebAssetCertificate m t) =
      (let ob = obj_delete_all (metadataObject m) certificate_keys in if trim t \<noteq> '''' then obj_set ob ''certificate_id'' (JStr (trim t)) else ob)"
    unfolding metadataWithWebAssetCertificate_def certificate_keys_def Let_def
    by (intro metadataObject_stringify) (auto intro!: json_ok_edits assms json_ok_flat)
  show "metadataObject (metadataWithWebAssetCredentialClear m b) =
      (if b then obj_set (metadataObject m) ''web_upstream_credentials_clear'' (JBool True)
       else obj_delete (obj_delete (metadataObject m) ''web_upstream_credentials_clear'') ''clear_upstream_credentials'')"
    unfolding metadataWithWebAssetCredentialClear_def Let_def
    by (intro metadataObject_stringify) (auto intro!: json_ok_edits assms json_ok_flat)
qed

lemma schedule_edit:
  assumes "json_ok (JObj (metadataObject m))"
  shows "\<exists>k v. metadataObject (metadataWithScheduledTaskMode soon m t) =
      obj_set (obj_set (obj_delete_all (metadataObject m) (intervalKeys @ cronKeys @ [''next_run_at'', ''manual_only''])) ''run_on_start'' (JBool False)) k v
    \<and> k \<in> set schedule_keys \<and> json_ok v"
proof -
  let ?n = "obj_set (obj_delete_all (metadataObject m) (intervalKeys @ cronKeys @ [''next_run_at'', ''manual_only''])) ''run_on_start'' (JBool False)"
  obtain k v where kv: "metadataWithScheduledTaskMode soon m t = json_stringify (JObj (obj_set ?n k v))"
      "k \<in> {''interval_seconds'', ''cron'', ''run_on_start'', ''next_run_at'', ''manual_only''}" "json_ok v"
  proof -
    consider "t = ''interval''" | "t = ''cron''" | "t = ''startup''" | "t = ''once''"
      | "t \<notin> {''interval'', ''cron'', ''startup'', ''once''}" by blast
    then show thesis
    proof cases
      case 1
      then show ?thesis using that [of "''interval_seconds''" "jint 600"] by (simp add: metadataWithScheduledTaskMode_def Let_def)
    next
      case 2
      then show ?thesis using that [of "''cron''" "JStr ''0 */10 * * * *''"] by (simp add: metadataWithScheduledTaskMode_def Let_def)
    next
      case 3
      then show ?thesis using that [of "''run_on_start''" "JBool True"] by (simp add: metadataWithScheduledTaskMode_def Let_def)
    next
      case 4
      then show ?thesis using that [of "''next_run_at''" "JStr soon"] by (simp add: metadataWithScheduledTaskMode_def Let_def)
    next
      case 5
      then show ?thesis using that [of "''manual_only''" "JBool True"] by (simp add: metadataWithScheduledTaskMode_def Let_def)
    qed
  qed
  have "metadataObject (json_stringify (JObj (obj_set ?n k v))) = obj_set ?n k v"
    by (intro metadataObject_stringify json_ok_edits json_ok_flat assms kv(3))
  moreover have "k \<in> set schedule_keys" using kv(2) by (auto simp: schedule_keys_def intervalKeys_def cronKeys_def)
  ultimately show ?thesis using kv(1,3) by auto
qed

section \<open>The inputs keep their contract\<close>

lemma json_ok_whole: "json_ok (number_value t)" if "whole_number t"
  using that by (auto simp: whole_number_def number_value_def to_number_int)

lemma metadata_sound_edits:
  assumes "json_ok (JObj (metadataObject m))"
  shows "json_ok v \<Longrightarrow> json_ok (JObj (metadataObject (metadataWithValue m k v)))"
    and "json_ok (JObj (metadataObject (metadataWithList m k xs)))"
    and "json_ok (JObj (metadataObject (metadataWithGatewaySelectionMode m t)))"
    and "json_ok (JObj (metadataObject (metadataWithWebAssetCertificate m t)))"
    and "json_ok (JObj (metadataObject (metadataWithWebAssetCredentialClear m b)))"
    and "json_ok (JObj (metadataObject (metadataWithScheduledTaskMode soon m t)))"
proof -
  note [simp del] = json_ok.simps
  have list: "json_ok (JArr (map JStr xs))" by (simp add: json_ok.simps list_all_iff)
  show "json_ok v \<Longrightarrow> json_ok (JObj (metadataObject (metadataWithValue m k v)))"
    "json_ok (JObj (metadataObject (metadataWithList m k xs)))"
    "json_ok (JObj (metadataObject (metadataWithGatewaySelectionMode m t)))"
    "json_ok (JObj (metadataObject (metadataWithWebAssetCertificate m t)))"
    "json_ok (JObj (metadataObject (metadataWithWebAssetCredentialClear m b)))"
    by (auto simp: metadata_edits [OF assms] Let_def intro!: json_ok_edits json_ok_flat assms list)
  obtain k v where "metadataObject (metadataWithScheduledTaskMode soon m t) =
      obj_set (obj_set (obj_delete_all (metadataObject m) (intervalKeys @ cronKeys @ [''next_run_at'', ''manual_only''])) ''run_on_start'' (JBool False)) k v"
    "json_ok v" using schedule_edit [OF assms] by blast
  then show "json_ok (JObj (metadataObject (metadataWithScheduledTaskMode soon m t)))"
    by (auto intro!: json_ok_edits json_ok_flat assms)
qed

lemma field_keeps_sound:
  assumes "metadata_sound f" "field_accepts soon k e f"
  shows "metadata_sound (field_enters soon k e f)"
  using assms
  by (cases k; cases e)
    (auto simp: metadata_sound_def field_accepts_def put_meta_def put_list_def choose_client_type_def
      simp del: json_ok.simps intro!: metadata_sound_edits json_ok_whole json_ok_flat)

lemma stringArray_map [simp]: "stringArrayValue (JArr (map JStr xs)) = xs"
  by (induction xs) (simp_all add: stringArrayValue_def)

lemma trimmed_nonempty: "filter (\<lambda>x. x \<noteq> []) (trimmed xs) = trimmed xs"
  by (simp add: trimmed_def)

lemma metadataFormText_list: "metadataText \<circ> JStr = id"
  by (simp add: fun_eq_iff)

lemma read_backs:
  assumes "json_ok (JObj (metadataObject m))"
  shows "metadataFormText (metadataWithValue m k (JStr t)) k = t"
    and "whole_number t \<Longrightarrow> metadataFormText (metadataWithValue m k (number_value t)) k = t"
    and "metadataBoolFromForm (metadataWithValue m k (JBool b)) k = b"
    and "metadataListInputText (metadataWithList m k xs) k = join '' '' xs"
    and "metadataFormText (metadataWithList m k xs) k = join [CHR 0x0A] (filter (\<lambda>x. x \<noteq> []) xs)"
    and "metadataStringListFromForm (metadataWithList m k xs) k = xs"
proof -
  note edits = metadata_edits [OF assms]
  show "metadataFormText (metadataWithValue m k (JStr t)) k = t"
    by (simp add: metadataFormText_def edits)
  show "metadataBoolFromForm (metadataWithValue m k (JBool b)) k = b"
    by (simp add: metadataBoolFromForm_def edits)
  show "metadataListInputText (metadataWithList m k xs) k = join '' '' xs"
    by (simp add: metadataListInputText_def edits Let_def metadataText_def)
  show "metadataFormText (metadataWithList m k xs) k = join [CHR 0x0A] (filter (\<lambda>x. x \<noteq> []) xs)"
    by (simp add: metadataFormText_def edits metadataFormText_list)
  show "metadataStringListFromForm (metadataWithList m k xs) k = xs"
    by (simp add: metadataStringListFromForm_def edits)
  assume "whole_number t"
  then consider "t = ''''" | i where "t = show_int i" by (auto simp: whole_number_def)
  then show "metadataFormText (metadataWithValue m k (number_value t)) k = t"
  proof cases
    case 1
    then show ?thesis by (simp add: metadataFormText_def edits number_value_def)
  next
    case 2
    then show ?thesis
      by (simp add: metadataFormText_def edits number_value_def to_number_int metadataText_def num_text_int)
  qed
qed

lemma toggle_member: "x \<in> set (toggleString xs y) \<longleftrightarrow> (if x = y then y \<notin> set xs else x \<in> set xs)"
  by (auto simp: toggleString_def)

lemma echo_certificate:
  assumes "json_ok (JObj (metadataObject m))" "trim t = t"
  shows "or_str (metadataFormText (metadataWithWebAssetCertificate m t) ''certificate_id'')
      (metadataFormText (metadataWithWebAssetCertificate m t) ''mtls_certificate_id'') = t"
  using assms(2)
  by (auto simp: metadataFormText_def metadata_edits [OF assms(1)] Let_def certificate_keys_def or_str_def)

lemma echo_role:
  "json_ok (JObj (metadataObject m)) \<Longrightarrow> t \<noteq> '''' \<Longrightarrow> trim t = t \<Longrightarrow> roleValue (metadataWithValue m ''role'' (JStr t)) = t"
  by (simp add: roleValue_def metadata_edits)

lemma echo_credential:
  "json_ok (JObj (metadataObject m)) \<Longrightarrow>
     metadataBoolFromForm (metadataWithWebAssetCredentialClear m b) ''web_upstream_credentials_clear'' = b"
  by (simp add: metadataBoolFromForm_def metadata_edits)

lemmas field_defs = field_accepts_def put_meta_def put_list_def choose_client_type_def metadata_sound_def option_chosen_def

lemma field_echo:
  assumes "metadata_sound f" "field_accepts soon k e f"
  shows "field_shows k (field_enters soon k e f) = e"
proof -
  have sound: "json_ok (JObj (metadataObject (fm_metadata f)))" using assms(1) by (simp add: metadata_sound_def)
  note read = read_backs [OF sound] echo_certificate [OF sound] echo_role [OF sound] echo_credential [OF sound]
  show ?thesis
  proof (cases e)
    case (Typed t)
    then have ok: "typed_ok soon k t f" using assms(2) by (simp add: field_accepts_def)
    show ?thesis
    proof (cases k)
      case GatewayModeSelect
      then show ?thesis using ok Typed gateway_mode_roundtrip [OF sound, of t "f\<lparr>fm_type := t\<rparr>"] by simp
    next
      case ScheduleModeSelect
      then show ?thesis using ok Typed schedule_mode_roundtrip [OF sound, of soon t] by simp
    next
      case (CertificateSelect options)
      then show ?thesis using ok Typed by (simp add: read)
    next
      case (MetaLines x)
      then show ?thesis using ok Typed by (simp add: put_list_def read splitTextLines_def trimmed_nonempty)
    qed (use ok Typed in \<open>auto simp: field_defs read roleAPIText_def oidcAuthMethod_def authorizationResourceType_def or_str_def\<close>)
  next
    case (Ticked b)
    then have ok: "ticked_ok k f" "field_shows k f \<noteq> Ticked b" using assms(2) by (simp_all add: field_accepts_def)
    show ?thesis
      by (cases k) (use ok Ticked in \<open>auto simp: field_defs read menu_selected_def selectedGatewayIDs_def toggle_member
          update_conv' roleMenuPermissions_def\<close>)
  qed
qed

lemma same_metadata:
  assumes "obj_get (metadataObject m) k = obj_get (metadataObject m') k"
  shows "metadataFormText m k = metadataFormText m' k" "metadataListInputText m k = metadataListInputText m' k"
    "metadataBoolFromForm m k = metadataBoolFromForm m' k" "metadataStringListFromForm m k = metadataStringListFromForm m' k"
    "k = ''role'' \<Longrightarrow> roleValue m = roleValue m'"
  using assms
  by (simp_all add: metadataFormText_def metadataListInputText_def metadataBoolFromForm_def metadataStringListFromForm_def roleValue_def)

lemma same_schedule:
  assumes "\<And>k. k \<in> set schedule_keys \<Longrightarrow> obj_get (metadataObject m) k = obj_get (metadataObject m') k"
  shows "scheduledTaskScheduleModeFromForm m = scheduledTaskScheduleModeFromForm m'"
proof -
  have "list_ex (\<lambda>k. metadataText (obj_get (metadataObject m) k) \<noteq> '''') ks =
      list_ex (\<lambda>k. metadataText (obj_get (metadataObject m') k) \<noteq> '''') ks" if "set ks \<subseteq> set schedule_keys" for ks
    using that assms by (induction ks) auto
  moreover have "set intervalKeys \<subseteq> set schedule_keys" "set cronKeys \<subseteq> set schedule_keys" by (auto simp: schedule_keys_def)
  moreover have "{''manual_only'', ''next_run_at'', ''run_on_start''} \<subseteq> set schedule_keys" by (auto simp: schedule_keys_def)
  ultimately show ?thesis using assms by (simp add: scheduledTaskScheduleModeFromForm_def Let_def)
qed

lemma shows_depends:
  assumes "\<And>b. b \<in> set (field_reads k) \<Longrightarrow> aspect_of b f = aspect_of b g"
  shows "field_shows k f = field_shows k g"
proof -
  have key: "AKey x \<in> set (field_reads k) \<Longrightarrow> form_text x f = form_text x g" for x using assms [of "AKey x"] by simp
  have meta: "AMeta x \<in> set (field_reads k) \<Longrightarrow> obj_get (metadataObject (fm_metadata f)) x = obj_get (metadataObject (fm_metadata g)) x" for x
    using assms [of "AMeta x"] by simp
  have rest: "ASecretClear \<in> set (field_reads k) \<Longrightarrow> fm_oidcClientSecretClear f = fm_oidcClientSecretClear g"
    "ADsnClear \<in> set (field_reads k) \<Longrightarrow> fm_databaseDSNClear f = fm_databaseDSNClear g"
    "APermission a \<in> set (field_reads k) \<Longrightarrow> map_of (fm_permissions f) a = map_of (fm_permissions g) a" for a
    using assms [of ASecretClear] assms [of ADsnClear] assms [of "APermission a"] by simp_all
  note same = same_metadata [OF meta]
  note plain = key [of KType] key [of KPassword]
  show ?thesis
  proof (cases k)
    case ScheduleModeSelect
    then show ?thesis using meta same_schedule [of "fm_metadata f" "fm_metadata g"] by simp
  next
    case GatewayModeSelect
    then show ?thesis using plain(1) same(1) [of "''selection_mode''"] by (simp add: gatewayGroupSelectionModeFromForm_def)
  next
    case (AuthMethodSelect options)
    then show ?thesis
      using plain(1) same(1) [of "''token_endpoint_auth_method''"] by (simp add: oidcAuthMethod_def oidcClientType_def)
  qed (use key plain rest same in \<open>simp_all add: menu_selected_def roleMenuPermissions_def roleAPIText_def
      selectedGatewayIDs_def authorizationResourceType_def\<close>)
qed

lemma key_change: "\<not> touches (AKey k) b \<Longrightarrow> aspect_of b (set_text k t f) = aspect_of b f"
  by (cases b) (auto simp: touches_def)

lemma metadata_change:
  assumes "\<And>x. x \<notin> set ks \<Longrightarrow> obj_get (metadataObject m) x = obj_get (metadataObject (fm_metadata f)) x"
    and "ks \<noteq> []" "\<And>a. a \<in> AMeta ` set ks \<Longrightarrow> \<not> touches a b"
  shows "aspect_of b (f\<lparr>fm_metadata := m\<rparr>) = aspect_of b f"
proof (cases b)
  case (AKey k)
  obtain x where "x \<in> set ks" using assms(2) by (cases ks) auto
  then have "k \<noteq> KMetadata" using assms(3) [of "AMeta x"] AKey by (auto simp: touches_def)
  then show ?thesis using AKey by (cases k) simp_all
next
  case (AMeta x)
  then have "x \<notin> set ks" using assms(3) by (auto simp: touches_def)
  then show ?thesis using assms(1) AMeta by simp
qed simp_all

lemma put_meta_change:
  "metadata_sound f \<Longrightarrow> json_ok v \<Longrightarrow> \<not> touches (AMeta k) b \<Longrightarrow> aspect_of b (put_meta k v f) = aspect_of b f"
  unfolding put_meta_def metadata_sound_def
  by (rule metadata_change [of "[k]"]) (auto simp: metadata_edits simp del: json_ok.simps)

lemma put_list_change:
  "metadata_sound f \<Longrightarrow> \<not> touches (AMeta k) b \<Longrightarrow> aspect_of b (put_list k xs f) = aspect_of b f"
  unfolding put_list_def metadata_sound_def
  by (rule metadata_change [of "[k]"]) (auto simp: metadata_edits simp del: json_ok.simps)

lemma flag_changes:
  "b \<noteq> ASecretClear \<Longrightarrow> aspect_of b (f\<lparr>fm_oidcClientSecretClear := c\<rparr>) = aspect_of b f"
  "b \<noteq> ADsnClear \<Longrightarrow> aspect_of b (f\<lparr>fm_databaseDSNClear := c\<rparr>) = aspect_of b f"
  "b \<noteq> APermission a \<Longrightarrow> aspect_of b (f\<lparr>fm_permissions := AList.update a c (fm_permissions f)\<rparr>) = aspect_of b f"
proof -
  have "form_text k (f\<lparr>fm_oidcClientSecretClear := c\<rparr>) = form_text k f" "form_text k (f\<lparr>fm_databaseDSNClear := c\<rparr>) = form_text k f"
    "form_text k (f\<lparr>fm_permissions := p\<rparr>) = form_text k f" for k p by (cases k; simp)+
  then show "b \<noteq> ASecretClear \<Longrightarrow> aspect_of b (f\<lparr>fm_oidcClientSecretClear := c\<rparr>) = aspect_of b f"
    "b \<noteq> ADsnClear \<Longrightarrow> aspect_of b (f\<lparr>fm_databaseDSNClear := c\<rparr>) = aspect_of b f"
    "b \<noteq> APermission a \<Longrightarrow> aspect_of b (f\<lparr>fm_permissions := AList.update a c (fm_permissions f)\<rparr>) = aspect_of b f"
    by (cases b; auto simp: update_conv')+
qed

text \<open>The inputs that edit several keys of the metadata at once leave the other keys alone.\<close>

lemma joint_edits:
  assumes "json_ok (JObj (metadataObject m))"
  shows "x \<notin> set schedule_keys \<Longrightarrow> obj_get (metadataObject (metadataWithScheduledTaskMode soon m t)) x = obj_get (metadataObject m) x"
    and "x \<notin> set (''selection_mode'' # gatewayMemberKeys) \<Longrightarrow> obj_get (metadataObject (metadataWithGatewaySelectionMode m t)) x = obj_get (metadataObject m) x"
    and "x \<notin> set certificate_keys \<Longrightarrow> obj_get (metadataObject (metadataWithWebAssetCertificate m t)) x = obj_get (metadataObject m) x"
    and "x \<notin> set [''web_upstream_credentials_clear'', ''clear_upstream_credentials''] \<Longrightarrow>
      obj_get (metadataObject (metadataWithWebAssetCredentialClear m c)) x = obj_get (metadataObject m) x"
    and "x \<notin> set [''token_endpoint_auth_method''] \<Longrightarrow>
      obj_get (metadataObject (metadataWithValue m ''token_endpoint_auth_method'' (JStr t))) x = obj_get (metadataObject m) x"
proof -
  note edits = metadata_edits [OF assms]
  show "x \<notin> set schedule_keys \<Longrightarrow> obj_get (metadataObject (metadataWithScheduledTaskMode soon m t)) x = obj_get (metadataObject m) x"
  proof -
    obtain y v where "metadataObject (metadataWithScheduledTaskMode soon m t) =
        obj_set (obj_set (obj_delete_all (metadataObject m) (intervalKeys @ cronKeys @ [''next_run_at'', ''manual_only''])) ''run_on_start'' (JBool False)) y v"
      "y \<in> set schedule_keys" using schedule_edit [OF assms] by blast
    moreover assume "x \<notin> set schedule_keys"
    ultimately show ?thesis by (auto simp: schedule_keys_def)
  qed
  have "''certificate_id'' \<in> set certificate_keys" by (simp add: certificate_keys_def)
  then show "x \<notin> set certificate_keys \<Longrightarrow> obj_get (metadataObject (metadataWithWebAssetCertificate m t)) x = obj_get (metadataObject m) x"
    by (auto simp: edits Let_def)
qed (auto simp: metadata_edits [OF assms] Let_def)

lemma writes_only:
  assumes "metadata_sound f" "field_accepts soon k e f" and apart: "\<And>a. a \<in> set (field_writes k) \<Longrightarrow> \<not> touches a b"
  shows "aspect_of b (field_enters soon k e f) = aspect_of b f"
proof -
  have sound: "json_ok (JObj (metadataObject (fm_metadata f)))" using assms(1) by (simp add: metadata_sound_def)
  have key: "AKey x \<in> set (field_writes k) \<Longrightarrow> aspect_of b (set_text x t g) = aspect_of b g" for x t g
    using apart key_change by blast
  have flag: "ASecretClear \<in> set (field_writes k) \<Longrightarrow> aspect_of b (g\<lparr>fm_oidcClientSecretClear := c\<rparr>) = aspect_of b g"
    "ADsnClear \<in> set (field_writes k) \<Longrightarrow> aspect_of b (g\<lparr>fm_databaseDSNClear := c\<rparr>) = aspect_of b g"
    "APermission a \<in> set (field_writes k) \<Longrightarrow> aspect_of b (g\<lparr>fm_permissions := AList.update a c (fm_permissions g)\<rparr>) = aspect_of b g" for g a c
    using apart [of ASecretClear] apart [of ADsnClear] apart [of "APermission a"] flag_changes by (metis touches_def)+
  have joint: "aspect_of b (g\<lparr>fm_metadata := m\<rparr>) = aspect_of b g"
    if "ks \<noteq> []" "set (map AMeta ks) \<subseteq> set (field_writes k)" "fm_metadata g = fm_metadata f"
      "\<And>x. x \<notin> set ks \<Longrightarrow> obj_get (metadataObject m) x = obj_get (metadataObject (fm_metadata f)) x" for ks g m
    using that apart by (intro metadata_change [of ks]) auto
  note plain = key [of KType] key [of KProtocol] key [of KPassword] key [of KTarget]
  show ?thesis
  proof (cases k)
    case ScheduleModeSelect
    then show ?thesis using joint [of schedule_keys, OF _ _ refl joint_edits(1) [OF sound]] by (simp add: schedule_keys_def)
  next
    case GatewayModeSelect
    then show ?thesis using plain joint [of "''selection_mode'' # gatewayMemberKeys", OF _ _ _ joint_edits(2) [OF sound]]
      by (simp add: subset_insertI2 del: aspect_of.simps)
  next
    case (CertificateSelect options)
    then show ?thesis using joint [of certificate_keys, OF _ _ refl joint_edits(3) [OF sound]] by (simp add: certificate_keys_def)
  next
    case CredentialClearTick
    then show ?thesis using joint [of "[''web_upstream_credentials_clear'', ''clear_upstream_credentials'']", OF _ _ refl joint_edits(4) [OF sound]] by simp
  next
    case ClientTypeSelect
    then show ?thesis using plain flag joint [of "[''token_endpoint_auth_method'']", OF _ _ _ joint_edits(5) [OF sound]] by (simp add: choose_client_type_def del: aspect_of.simps)
  next
    case (MetaNumber x)
    then have "json_ok (number_value (typed_text e))" using assms(2) json_ok_whole by (cases e) (auto simp: field_accepts_def)
    then show ?thesis using MetaNumber apart put_meta_change [OF assms(1)] by simp
  next
    case ResourceTypeSelect
    have "metadata_sound (f\<lparr>fm_target_id := ''''\<rparr>)" using assms(1) by (simp add: metadata_sound_def)
    then show ?thesis using ResourceTypeSelect apart plain put_meta_change by (simp del: aspect_of.simps)
  qed (use apart plain flag put_meta_change [OF assms(1)] put_list_change [OF assms(1)] in \<open>auto simp: key_change simp del: aspect_of.simps\<close>)
qed

lemma field_frame:
  assumes "metadata_sound f" "field_accepts soon k e f" "\<not> field_linked k k'"
  shows "field_shows k' (field_enters soon k e f) = field_shows k' f"
proof (rule shows_depends)
  fix b
  assume "b \<in> set (field_reads k')"
  with assms(3) have "\<And>a. a \<in> set (field_writes k) \<Longrightarrow> \<not> touches a b" by (auto simp: field_linked_def list_ex_iff)
  then show "aspect_of b (field_enters soon k e f) = aspect_of b f" by (rule writes_only [OF assms(1,2)])
qed

interpretation item_form: form_inputs metadata_sound "field_accepts soon" field_shows "field_enters soon" field_linked for soon
  by unfold_locales (auto intro: field_keeps_sound field_echo field_frame)

text \<open>A sequence of entries, each acceptable where it is made.\<close>

primrec enterable :: "string \<Rightarrow> (item_field \<times> entry) list \<Rightarrow> platform_form \<Rightarrow> bool" where
  "enterable soon [] f = True"
| "enterable soon (x # es) f = (field_accepts soon (fst x) (snd x) f \<and> enterable soon es (field_enters soon (fst x) (snd x) f))"

definition enter_all :: "string \<Rightarrow> (item_field \<times> entry) list \<Rightarrow> platform_form \<Rightarrow> platform_form" where
  "enter_all soon es f = fold (\<lambda>(k, e). field_enters soon k e) es f"

lemma enter_all_after: "item_form.after soon es f = enter_all soon es f"
  by (simp add: item_form.after_def enter_all_def)

lemma enterable_acceptable: "item_form.acceptable soon es f = enterable soon es f"
  by (induction es arbitrary: f) simp_all

section \<open>Lost separators\<close>

text \<open>What separates the entries of a list.\<close>

fun separates :: "item_field \<Rightarrow> char \<Rightarrow> bool" where
  "separates (MetaWords _) c = (is_ws c \<or> c = CHR '','')"
| "separates (MetaLines _) c = (c = CHR 0x0A)"
| "separates ApiLines c = (c = CHR 0x0A \<or> c = CHR '','')"
| "separates _ c = False"

lemma split_runs_final: "P c \<Longrightarrow> trimmed (split_runs P (s @ [c])) = trimmed (split_runs P s)"
proof (induction P s rule: split_runs.induct)
  case (1 P s)
  have blank: "trimmed (split_runs P []) = []" by (subst split_runs.simps) (simp add: trimmed_def trim_def)
  show ?case
  proof (cases "dropWhile (\<lambda>x. \<not> P x) s")
    case Nil
    then have all: "\<forall>x \<in> set s. \<not> P x" by (simp add: dropWhile_eq_Nil_conv)
    have "split_runs P (s @ [c]) = s # split_runs P []"
      using all 1(2) by (subst split_runs.simps) (simp add: dropWhile_append takeWhile_append dropWhile_eq_Nil_conv [THEN iffD2])
    moreover have "split_runs P s = [s]" by (subst split_runs.simps) (simp only: Nil list.case)
    ultimately show ?thesis using blank by (simp add: trimmed_def)
  next
    case (Cons x r)
    then have "\<exists>y \<in> set s. P y" by (metis dropWhile_eq_Nil_conv list.distinct(1))
    then have take: "takeWhile (\<lambda>x. \<not> P x) (s @ [c]) = takeWhile (\<lambda>x. \<not> P x) s"
      and drop: "dropWhile (\<lambda>x. \<not> P x) (s @ [c]) = x # r @ [c]"
      using Cons by (metis takeWhile_append1, metis append_Cons dropWhile_append1)
    have "split_runs P (s @ [c]) = takeWhile (\<lambda>x. \<not> P x) s # split_runs P (dropWhile P (r @ [c]))"
      by (subst split_runs.simps) (simp only: take drop list.case)
    moreover have "split_runs P s = takeWhile (\<lambda>x. \<not> P x) s # split_runs P (dropWhile P r)"
      using Cons by (subst split_runs.simps) simp
    moreover have "trimmed (split_runs P (dropWhile P (r @ [c]))) = trimmed (split_runs P (dropWhile P r))"
    proof (cases "dropWhile P r")
      case Nil
      then have "dropWhile P (r @ [c]) = []" using 1(2) by (simp add: dropWhile_append)
      then show ?thesis by (simp only: Nil)
    next
      case (Cons y ys)
      then have "dropWhile P (r @ [c]) = dropWhile P r @ [c]" by (metis append_Nil2 dropWhile_append1 dropWhile_eq_Nil_conv list.distinct(1))
      then show ?thesis using 1(1) [OF \<open>dropWhile (\<lambda>x. \<not> P x) s = x # r\<close> 1(2)] by simp
    qed
    ultimately show ?thesis by (simp add: trimmed_def)
  qed
qed

lemma trimmed_blank: "trimmed (xs @ [[]]) = trimmed xs"
  by (simp add: trimmed_def trim_def)

lemma split_on_final: "split_on c (s @ [c]) = split_on c s @ [[]]"
  by (induction s) (auto split: list.splits)

lemma split_on_other: "d \<noteq> c \<Longrightarrow> split_on d (s @ [c]) = butlast (split_on d s) @ [last (split_on d s) @ [c]]"
  by (induction s) (auto split: list.splits)

lemma splitWords_final: "is_ws c \<or> c = CHR '','' \<Longrightarrow> splitWords (t @ [c]) = splitWords t"
  by (simp add: splitWords_def split_runs_final)

lemma splitTextLines_final: "splitTextLines (t @ [CHR 0x0A]) = splitTextLines t"
  by (simp add: splitTextLines_def split_on_final trimmed_blank)

lemma concat_last: "ls \<noteq> [] \<Longrightarrow> concat (map g (butlast ls)) @ g (last ls) = concat (map g ls)"
  by (induction ls) auto

lemma splitLines_final: "c = CHR 0x0A \<or> c = CHR '','' \<Longrightarrow> splitLines (t @ [c]) = splitLines t"
proof (elim disjE)
  assume "c = CHR 0x0A"
  then show ?thesis by (simp add: splitLines_def split_on_final trimmed_blank)
next
  assume c: "c = CHR '',''"
  let ?ls = "split_on CHR 0x0A t"
  have "concat (map (split_on c) (butlast ?ls @ [last ?ls @ [c]])) = concat (map (split_on c) (butlast ?ls @ [last ?ls])) @ [[]]"
    by (simp add: split_on_final concat_last)
  then show ?thesis using c by (simp add: splitLines_def split_on_other trimmed_blank)
qed

section \<open>Properties\<close>

text \<open>C6 The inputs of the editor do not disturb each other, for entries the inputs can hold: over every sequence of such entries, an
  input shows the last one made into it as long as no linked input was used since, and an input for which neither it nor a
  linked one was used shows what it showed at first. Linked are the inputs that write the same part of the form: the client
  type and its secret, a schedule and its mode, the metadata box and every key (text in that box that is not JSON is
  discarded by any input for a key, \<open>broken_metadata_discarded\<close>), and so on. An entry can be held (\<open>enterable\<close>) when it is
  one of a select's options, a whole number in a number box, metadata with whole numbers and no key twice, which the form has to
  begin with, a tick that changes its box, or a list's text without stray separators: a separator typed at the
  end is lost (\<open>list_separator_lost\<close>), and so is the tick of a page whose permission is stored by its
  route (\<open>route_permission_stuck\<close>).
\<close>
theorem item_dialog_shows_entries:
  assumes "metadata_sound f" "enterable soon (before @ (k, e) # later) f"
    and "list_all (\<lambda>(k', e'). \<not> field_linked k' k) later"
    and "list_all (\<lambda>(k', e'). \<not> field_linked k' other) (before @ (k, e) # later)"
  shows "field_shows k (enter_all soon (before @ (k, e) # later) f) = e
    \<and> field_shows other (enter_all soon (before @ (k, e) # later) f) = field_shows other f"
proof -
  have "item_form.acceptable soon (before @ (k, e) # later) f" using assms(2) by (simp only: enterable_acceptable)
  moreover have "\<And>k' e'. (k', e') \<in> set later \<Longrightarrow> \<not> field_linked k' k" using assms(3) by (auto simp: list_all_iff)
  moreover have "\<And>k' e'. (k', e') \<in> set (before @ (k, e) # later) \<Longrightarrow> \<not> field_linked k' other"
    using assms(4) unfolding list_all_iff by blast
  ultimately show ?thesis
    using item_form.last_entry_shown [OF assms(1), of soon before k e later]
      item_form.untouched [OF assms(1), of soon "before @ (k, e) # later" other]
    unfolding enter_all_after by blast
qed

text \<open>
  The inputs for lists cannot be typed into entry by entry: a separator at the end disappears as it is typed, because
  the text is split and joined again with every key. The form stays as it was without the separator, and the input
  shows the old text, so that the next letter continues the last entry.
\<close>
theorem list_separator_lost:
  assumes "metadata_sound f" "separates k c" "typed_ok soon k t f"
  shows "field_enters soon k (Typed (t @ [c])) f = field_enters soon k (Typed t) f
    \<and> field_shows k (field_enters soon k (Typed (t @ [c])) f) = Typed t"
proof -
  have same: "field_enters soon k (Typed (t @ [c])) f = field_enters soon k (Typed t) f"
    using assms(2) by (cases k) (auto simp: splitWords_final splitTextLines_final splitLines_final)
  moreover have "field_accepts soon k (Typed t) f" using assms(3) by (simp add: field_accepts_def)
  ultimately show ?thesis using field_echo [OF assms(1)] by simp
qed

text \<open>
  While the metadata box holds text that is not JSON, any input for a single key replaces it: the keys that were
  there, the text just typed included, are gone.
\<close>
theorem broken_metadata_discarded:
  assumes "json_parse (fm_metadata f) = None" "t \<noteq> ''''"
  shows "fm_metadata (field_enters soon (MetaBox k) (Typed t) f) = json_stringify (JObj [(k, JStr t)])"
  using assms by (simp add: put_meta_def metadataWithValue_def metadataObject_def)

text \<open>
  A menu permission stored by its route cannot be taken away: the box of the page stays ticked whatever is pressed,
  since pressing it adds and removes the collection only.
\<close>
theorem route_permission_stuck:
  assumes "metadata_sound f" "pg_route pg \<in> set (roleMenuPermissions (fm_metadata f))" "pg_route pg \<noteq> pg_collection pg"
  shows "field_shows (MenuTick pg) f = Ticked True
    \<and> field_shows (MenuTick pg) (field_enters soon (MenuTick pg) (Ticked False) f) = Ticked True
    \<and> pg_route pg \<in> set (roleMenuPermissions (fm_metadata (field_enters soon (MenuTick pg) (Ticked False) f)))"
  using assms
  by (simp add: menu_selected_def put_list_def roleMenuPermissions_def read_backs metadata_sound_def toggle_member del: json_ok.simps)

definition new_record :: "string \<Rightarrow> platform_form" where
  "new_record c = initialForm\<lparr>fm_metadata := defaultPlatformMetadata c\<rparr>"

lemma new_record_sound: "c \<in> set [''web_assets'', ''storages''] \<Longrightarrow> metadata_sound (new_record c)"
  by (auto simp: metadata_sound_def new_record_def defaultPlatformMetadata_def default_metadata_object_def metadataObject_stringify)

lemma item_dialog_shows_entries_witness:
  "field_shows (MetaBox ''target_url'') (enter_all '''' [(MetaBox ''target_url'', Typed ''http://x''), (PlainBox KName, Typed ''n'')]
     (new_record ''web_assets'')) = Typed ''http://x''"
  using item_dialog_shows_entries [of "new_record ''web_assets''" "''''" "[]" "MetaBox ''target_url''" "Typed ''http://x''"
      "[(PlainBox KName, Typed ''n'')]" "PlainBox KHost"] new_record_sound
  by (auto simp: field_accepts_def field_linked_def touches_def)

lemma list_separator_lost_witness:
  "field_shows (MetaWords ''shared_users'') (field_enters '''' (MetaWords ''shared_users'') (Typed ''alice,'') (new_record ''storages''))
     = Typed ''alice''"
proof -
  have "metadata_sound (new_record ''storages'')" by (simp add: new_record_sound)
  moreover have "separates (MetaWords ''shared_users'') (CHR '','')" by simp
  moreover have "''alice'' = join '' '' (splitWords ''alice'')" by code_simp
  then have "typed_ok '''' (MetaWords ''shared_users'') ''alice'' (new_record ''storages'')" by simp
  ultimately have "field_shows (MetaWords ''shared_users'') (field_enters '''' (MetaWords ''shared_users'')
      (Typed (''alice'' @ [CHR '',''])) (new_record ''storages'')) = Typed ''alice''"
    by (rule list_separator_lost [THEN conjunct2])
  then show ?thesis by (simp only: append_Cons append_Nil)
qed

lemma broken_metadata_discarded_witness:
  "fm_metadata (field_enters '''' (MetaBox ''target_url'') (Typed ''x'') (initialForm\<lparr>fm_metadata := ''{''\<rparr>))
     = json_stringify (JObj [(''target_url'', JStr ''x'')])"
proof (rule broken_metadata_discarded)
  show "json_parse (fm_metadata (initialForm\<lparr>fm_metadata := ''{''\<rparr>)) = None" by (simp, code_simp)
qed simp

definition routed_role :: platform_form where
  "routed_role = initialForm\<lparr>fm_metadata := json_stringify (JObj [(''menu_permissions'', JArr [JStr ''/app/assets''])])\<rparr>"

lemma route_permission_stuck_witness:
  "field_shows (MenuTick (hd resourceItems)) (field_enters '''' (MenuTick (hd resourceItems)) (Ticked False) routed_role) = Ticked True"
proof -
  have ok: "metadataObject (fm_metadata routed_role) = [(''menu_permissions'', JArr [JStr ''/app/assets''])]"
    by (simp add: routed_role_def metadataObject_stringify)
  then have "metadata_sound routed_role" "roleMenuPermissions (fm_metadata routed_role) = [''/app/assets'']"
    by (simp_all add: metadata_sound_def roleMenuPermissions_def metadataStringListFromForm_def obj_get_def stringArrayValue_def)
  then show ?thesis
    using route_permission_stuck [of routed_role "hd resourceItems" "''''"] by (simp add: resourceItems_def page_def)
qed








end
