(* ===== verification/Servers.thy ===== *)
theory Servers
  imports Workspace Handlers
begin

text \<open>
  The servers page and the dialogs it opens (\<open>features/console/servers-page.tsx\<close>, \<open>features/modals/modal-host.tsx\<close>):
  what they show, what may be pressed, and what pressing sends.
\<close>

section \<open>The table of servers\<close>

definition port_or :: "rat \<Rightarrow> rat option \<Rightarrow> rat" where
  "port_or d p = (case p of None \<Rightarrow> d | Some r \<Rightarrow> if r = 0 then d else r)"

definition server_ports :: "managed_server \<Rightarrow> string" where
  "server_ports s =
     (if sv_os s = ''windows'' then ''RDP '' @ num_text (Fin (port_or 3389 (sv_rdp_port s)))
      else ''SSH '' @ num_text (Fin (port_or 22 (sv_ssh_port s))))"

text \<open>\<open>ServerCredentials\<close>: the first three, and how many more there are.\<close>

definition server_credentials :: "(string \<Rightarrow> string) \<Rightarrow> locale_compare \<Rightarrow> credential list \<Rightarrow> managed_server \<Rightarrow> string list" where
  "server_credentials credentialLabel lc credentials server =
     (let items = credentialsForServer lc credentials (Some server)
      in if items = [] then [''serversPage.noCredentials'']
         else map (\<lambda>cr. cr_name cr @ '' '' @ cr_username cr @ '' / '' @ credentialLabel (cr_type cr)) (take 3 items)
              @ (if length items > 3 then [CHR ''+'' # show_nat (length items - 3)] else []))"

definition server_row ::
  "(string \<Rightarrow> string) \<Rightarrow> (string \<Rightarrow> string) \<Rightarrow> locale_compare \<Rightarrow> credential list \<Rightarrow> managed_server \<Rightarrow> (string \<times> string list) list" where
  "server_row formatDate credentialLabel lc credentials s =
     [(''name'', [sv_name s, or_str (opt_str (sv_description s)) ''serversPage.noDescription'']), (''address'', [sv_host s]),
      (''os'', [osLabel (Some (sv_os s))]), (''ports'', [server_ports s]),
      (''connectionAccounts'', server_credentials credentialLabel lc credentials s),
      (''group'', [or_str (opt_str (sv_group s)) ''-'']), (''createdAt'', [formatDate (sv_created_at s)])]"

definition nonempty_words :: "string list \<Rightarrow> string" where
  "nonempty_words ws = join '' '' (filter (\<lambda>w. w \<noteq> '''') ws)"

definition server_search_text :: "locale_compare \<Rightarrow> credential list \<Rightarrow> managed_server \<Rightarrow> string" where
  "server_search_text lc credentials s =
     nonempty_words ([sv_name s, sv_host s, sv_os s, opt_str (sv_group s), opt_str (sv_description s)]
       @ concat (map (\<lambda>cr. [cr_name cr, cr_username cr, cr_type cr, opt_str (cr_domain cr)])
           (credentialsForServer lc credentials (Some s))))"

text \<open>The buttons of a row: both open a dialog.\<close>

definition server_actions :: "managed_server \<Rightarrow> modal list" where
  "server_actions s = [CredentialModal (sv_id s), ConnectModal (serverProtocol s) (sv_id s)]"

section \<open>The dialogs\<close>

text \<open>
  One dialog is on the screen at a time; \<open>dg_os\<close> and \<open>dg_credentialType\<close> are the state of the one that is. What was
  typed is read from the form when it is submitted: \<open>form.get\<close> finds an entry for every input drawn, nothing else.
\<close>

type_synonym form_data = "string \<Rightarrow> string option"

record dialogs =
  dg_modal :: "modal option"
  dg_workspace :: "workspace option"
  dg_submitting :: bool
  dg_os :: string
  dg_credentialType :: string

definition modal_server :: "bootstrap_data \<Rightarrow> dialogs \<Rightarrow> managed_server option" where
  "modal_server data st = (case dg_modal st of Some (CredentialModal i) \<Rightarrow> find_server data i | _ \<Rightarrow> None)"

text \<open>A dialog starts with the fresh state of its component.\<close>

definition mount :: "bootstrap_data \<Rightarrow> modal \<Rightarrow> dialogs \<Rightarrow> dialogs" where
  "mount data m st =
     st\<lparr>dg_modal := Some m, dg_submitting := False, dg_os := ''linux'',
        dg_credentialType := (case m of
            CredentialModal i \<Rightarrow> if map_option sv_os (find_server data i) = Some ''windows'' then ''rdp_password'' else ''ssh_password''
          | _ \<Rightarrow> ''ssh_password'')\<rparr>"

definition onOSChange :: "string \<Rightarrow> dialogs \<Rightarrow> dialogs" where
  "onOSChange nextOS st =
     st\<lparr>dg_os := nextOS, dg_credentialType := (if nextOS = ''windows'' then ''rdp_password'' else ''ssh_password'')\<rparr>"

definition server_credential_types :: "string \<Rightarrow> string list" where
  "server_credential_types os = (if os = ''windows'' then [''rdp_password''] else [''ssh_password'', ''ssh_key''])"

definition credential_types :: "managed_server option \<Rightarrow> string list" where
  "credential_types server =
     (case map_option sv_os server of
        Some os \<Rightarrow> if os = ''windows'' then [''rdp_password''] else if os = ''linux'' then [''ssh_password'', ''ssh_key'']
                   else [''ssh_password'', ''ssh_key'', ''rdp_password'']
      | None \<Rightarrow> [''ssh_password'', ''ssh_key'', ''rdp_password''])"

definition server_inputs :: "dialogs \<Rightarrow> string list" where
  "server_inputs st =
     [''name'', ''host'', ''os'', ''group'', if dg_os st = ''linux'' then ''ssh_port'' else ''rdp_port'', ''description'',
      ''credential_name'', ''username'', ''domain'']
     @ (if dg_credentialType st = ''ssh_key'' then [''passphrase'', ''private_key''] else [''password''])"

definition credential_inputs :: "dialogs \<Rightarrow> string list" where
  "credential_inputs st =
     [''name'', ''username'', ''domain'', ''password'']
     @ (if dg_credentialType st = ''ssh_key'' then [''passphrase'', ''private_key''] else [])"

definition credential_body ::
  "jsval \<Rightarrow> jsval \<Rightarrow> string \<Rightarrow> string \<Rightarrow> string \<Rightarrow> string \<Rightarrow> string \<Rightarrow> string \<Rightarrow> jsval" where
  "credential_body server_id nm type username domain password privateKey passphrase =
     JObj [(''server_id'', server_id), (''name'', nm), (''type'', JStr type), (''username'', JStr username),
           (''domain'', JStr domain), (''password'', JStr password), (''private_key'', JStr privateKey),
           (''passphrase'', JStr passphrase)]"

abbreviation credentials_path :: string where
  "credentials_path \<equiv> ''/api/credentials''"

text \<open>The secret that goes with a type must be there.\<close>

definition secret_problem :: "string \<Rightarrow> form_data \<Rightarrow> string option" where
  "secret_problem type form =
     (if type = ''ssh_key'' \<and> trim (opt_str (form ''private_key'')) = '''' then Some ''modals.privateKeyRequired''
      else if type \<noteq> ''ssh_key'' \<and> opt_str (form ''password'') = '''' then Some ''modals.passwordRequired''
      else None)"

section \<open>Adding a server\<close>

definition has_credential :: "form_data \<Rightarrow> bool" where
  "has_credential form \<longleftrightarrow>
     trim (opt_str (form ''credential_name'')) \<noteq> '''' \<or> trim (opt_str (form ''username'')) \<noteq> '''' \<or>
     trim (opt_str (form ''domain'')) \<noteq> '''' \<or> opt_str (form ''password'') \<noteq> '''' \<or>
     trim (opt_str (form ''private_key'')) \<noteq> '''' \<or> opt_str (form ''passphrase'') \<noteq> ''''"

definition server_problem :: "string \<Rightarrow> form_data \<Rightarrow> string option" where
  "server_problem type form =
     (if \<not> has_credential form then None
      else if trim (opt_str (form ''username'')) = '''' then Some ''modals.credentialUsernameRequired''
      else secret_problem type form)"

definition server_request :: "string \<Rightarrow> form_data \<Rightarrow> request" where
  "server_request os form =
     (let txt = (\<lambda>k. JStr (opt_str (form k))); num = (\<lambda>k d. JNum (to_number (or_str (opt_str (form k)) d)))
      in post_request ''/api/servers''
           (JObj [(''name'', txt ''name''), (''host'', txt ''host''), (''os'', JStr os), (''group'', txt ''group''),
                  (''ssh_port'', num ''ssh_port'' ''22''), (''rdp_port'', num ''rdp_port'' ''3389''),
                  (''description'', txt ''description'')]))"

definition server_credential_request :: "string \<Rightarrow> form_data \<Rightarrow> jsval \<Rightarrow> jsval \<Rightarrow> request" where
  "server_credential_request type form server_id server_name =
     (let credentialName = trim (opt_str (form ''credential_name''))
      in post_request credentials_path
           (credential_body server_id
              (JStr (or_str credentialName
                 (js_to_string server_name @ '' '' @ (if type = ''rdp_password'' then ''RDP'' else ''SSH''))))
              type (trim (opt_str (form ''username''))) (trim (opt_str (form ''domain''))) (opt_str (form ''password''))
              (trim (opt_str (form ''private_key''))) (opt_str (form ''passphrase''))))"

definition close_dialog :: "dialogs proc" where
  "close_dialog = update (\<lambda>st. st\<lparr>dg_modal := None\<rparr>)"

definition add_server_body :: "env \<Rightarrow> string \<Rightarrow> string \<Rightarrow> form_data \<Rightarrow> dialogs proc" where
  "add_server_body ev os type form =
     (case server_problem type form of
        Some m \<Rightarrow> throw (OtherError m)
      | None \<Rightarrow> awaited ev (server_request os form) (\<lambda>server.
          steps
            [if has_credential form
             then read_prop server ''id'' (\<lambda>i. read_prop server ''name'' (\<lambda>nm.
                    awaited ev (server_credential_request type form i nm) (\<lambda>_. skip)))
             else skip,
             close_dialog, act (refresh True),
             act (toast (if has_credential form then ''modals.serverAndCredentialAdded'' else ''modals.serverAdded''))]))"

abbreviation submitting :: "bool \<Rightarrow> dialogs \<Rightarrow> dialogs" where
  "submitting b st \<equiv> st\<lparr>dg_submitting := b\<rparr>"

definition server_submit :: "env \<Rightarrow> form_data \<Rightarrow> dialogs \<Rightarrow> log \<Rightarrow> dialogs \<times> log" where
  "server_submit ev form st l = try_busy submitting (add_server_body ev (dg_os st) (dg_credentialType st) form) st l"

section \<open>Adding a credential\<close>

definition credential_request :: "string \<Rightarrow> form_data \<Rightarrow> managed_server \<Rightarrow> request" where
  "credential_request type form server =
     post_request credentials_path
       (credential_body (JStr (sv_id server)) (JStr (opt_str (form ''name''))) type (opt_str (form ''username''))
          (opt_str (form ''domain'')) (opt_str (form ''password'')) (trim (opt_str (form ''private_key'')))
          (opt_str (form ''passphrase'')))"

definition add_credential_body :: "env \<Rightarrow> managed_server option \<Rightarrow> string \<Rightarrow> form_data \<Rightarrow> dialogs proc" where
  "add_credential_body ev server type form =
     (case server of
        None \<Rightarrow> throw (OtherError ''modals.selectAssetForCredentialTitle'')
      | Some s \<Rightarrow>
          (case secret_problem type form of
             Some m \<Rightarrow> throw (OtherError m)
           | None \<Rightarrow> awaited ev (credential_request type form s) (\<lambda>_.
               steps [close_dialog, act (refresh True), act (toast ''modals.credentialAdded'')])))"

definition credential_submit :: "env \<Rightarrow> bootstrap_data \<Rightarrow> form_data \<Rightarrow> dialogs \<Rightarrow> log \<Rightarrow> dialogs \<times> log" where
  "credential_submit ev data form st l =
     try_busy submitting (add_credential_body ev (modal_server data st) (dg_credentialType st) form) st l"

section \<open>Connecting\<close>

definition connect_credentials :: "locale_compare \<Rightarrow> bootstrap_data \<Rightarrow> string \<Rightarrow> string \<Rightarrow> credential list" where
  "connect_credentials lc data protocol serverId =
     filter (\<lambda>cr. if protocol = ''ssh'' then cr_type cr = ''ssh_password'' \<or> cr_type cr = ''ssh_key''
                  else cr_type cr = ''rdp_password'')
       (credentialsForServer lc (bd_credentials data) (find_server data serverId))"

definition ssh_connect_request :: "string \<Rightarrow> string \<Rightarrow> request" where
  "ssh_connect_request serverId credentialId =
     post_request ''/api/connections/ssh''
       (JObj [(''server_id'', JStr serverId), (''credential_id'', JStr credentialId), (''cols'', num_js 120),
              (''rows'', num_js 32), (''term'', JStr ''xterm-256color'')])"

definition rdp_connect_request :: "viewport \<Rightarrow> string \<Rightarrow> string \<Rightarrow> form_data \<Rightarrow> request" where
  "rdp_connect_request vp serverId credentialId form =
     post_request ''/api/connections/rdp''
       (JObj [(''server_id'', JStr serverId), (''credential_id'', JStr credentialId),
              (''width'', num_js (max 1024 (vp_innerWidth vp))), (''height'', num_js (max 680 (vp_innerHeight vp - 52))),
              (''dpi'', num_js 96), (''recording_enabled'', JBool (form ''recording_enabled'' = Some ''on''))])"

definition open_session :: "workspace_kind \<Rightarrow> jsval \<Rightarrow> dialogs proc" where
  "open_session k session =
     steps [close_dialog,
       update (\<lambda>st. st\<lparr>dg_workspace := Some \<lparr>wk_type = k, wk_session = session_of_json session, wk_status = ''connecting''\<rparr>\<rparr>),
       act (\<lambda>l. l @ [SetWorkspace (Some session)])]"

definition connect_submit :: "env \<Rightarrow> viewport \<Rightarrow> string \<Rightarrow> string \<Rightarrow> form_data \<Rightarrow> dialogs \<Rightarrow> log \<Rightarrow> dialogs \<times> log" where
  "connect_submit ev vp protocol serverId form st l =
     (let credentialId = opt_str (form ''credential_id'')
      in try_busy submitting
           (if protocol = ''ssh'' then awaited ev (ssh_connect_request serverId credentialId) (open_session SSHKind)
            else awaited ev (rdp_connect_request vp serverId credentialId form) (open_session RDPKind)) st l)"

section \<open>What is on the screen\<close>

datatype modal_view =
    NoDialog
  | ServerForm "string list"
  | SelectAssetNotice
  | CredentialForm "string list"
  | ProtocolUnavailable
  | ConnectForm "string list"
  | NoCredential modal

definition CredentialDialog :: "bootstrap_data \<Rightarrow> dialogs \<Rightarrow> modal_view" where
  "CredentialDialog data st = (if modal_server data st = None then SelectAssetNotice else CredentialForm (credential_inputs st))"

definition ConnectDialog :: "locale_compare \<Rightarrow> bootstrap_data \<Rightarrow> string \<Rightarrow> string \<Rightarrow> modal_view" where
  "ConnectDialog lc data protocol serverId =
     (if \<not> serverSupportsProtocol (find_server data serverId) protocol then ProtocolUnavailable
      else let credentials = connect_credentials lc data protocol serverId
           in if credentials = [] then NoCredential (CredentialModal serverId) else ConnectForm (map cr_id credentials))"

definition modal_host :: "locale_compare \<Rightarrow> bootstrap_data \<Rightarrow> dialogs \<Rightarrow> modal_view" where
  "modal_host lc data st =
     (case dg_modal st of
        None \<Rightarrow> NoDialog
      | Some ServerModal \<Rightarrow> ServerForm (server_inputs st)
      | Some (CredentialModal _) \<Rightarrow> CredentialDialog data st
      | Some (ConnectModal protocol serverId) \<Rightarrow> ConnectDialog lc data protocol serverId)"

lemmas modal_host_defs = modal_host_def CredentialDialog_def ConnectDialog_def

text \<open>Pressing the button of the form that is on the screen; it is disabled while a submit runs.\<close>

definition modal_submit ::
  "env \<Rightarrow> viewport \<Rightarrow> locale_compare \<Rightarrow> bootstrap_data \<Rightarrow> form_data \<Rightarrow> dialogs \<Rightarrow> log \<Rightarrow> dialogs \<times> log" where
  "modal_submit ev vp lc data form st l =
     (if dg_submitting st then (st, l)
      else case (modal_host lc data st, dg_modal st) of
          (ServerForm _, _) \<Rightarrow> server_submit ev form st l
        | (CredentialForm _, _) \<Rightarrow> credential_submit ev data form st l
        | (ConnectForm _, Some (ConnectModal protocol serverId)) \<Rightarrow> connect_submit ev vp protocol serverId form st l
        | _ \<Rightarrow> (st, l))"

datatype dialog_event = OpenModal modal | CloseModal | ChangeOS string | ChangeType string | SubmitModal form_data

definition dialog_can :: "bootstrap_data \<Rightarrow> dialogs \<Rightarrow> dialog_event \<Rightarrow> bool" where
  "dialog_can data st e =
     (case e of
        ChangeOS os \<Rightarrow> dg_modal st = Some ServerModal \<and> os \<in> set [''linux'', ''windows'']
      | ChangeType t \<Rightarrow>
          (case dg_modal st of
             Some ServerModal \<Rightarrow> t \<in> set (server_credential_types (dg_os st))
           | Some (CredentialModal i) \<Rightarrow> modal_server data st \<noteq> None \<and> t \<in> set (credential_types (modal_server data st))
           | _ \<Rightarrow> False)
      | _ \<Rightarrow> True)"

fun dialog_after ::
  "env \<Rightarrow> viewport \<Rightarrow> locale_compare \<Rightarrow> bootstrap_data \<Rightarrow> dialog_event \<Rightarrow> dialogs \<Rightarrow> log \<Rightarrow> dialogs \<times> log" where
  "dialog_after ev vp lc data (OpenModal m) st l = (mount data m st, l)"
| "dialog_after ev vp lc data CloseModal st l = (st\<lparr>dg_modal := None\<rparr>, l)"
| "dialog_after ev vp lc data (ChangeOS os) st l = (onOSChange os st, l)"
| "dialog_after ev vp lc data (ChangeType t) st l = (st\<lparr>dg_credentialType := t\<rparr>, l)"
| "dialog_after ev vp lc data (SubmitModal form) st l = modal_submit ev vp lc data form st l"

definition no_dialog :: dialogs where
  "no_dialog = \<lparr>dg_modal = None, dg_workspace = None, dg_submitting = False, dg_os = ''linux'', dg_credentialType = ''ssh_password''\<rparr>"

text \<open>The life of the dialogs over one list of servers; the world may answer every request in its own way.\<close>

inductive dialogs_reach :: "bootstrap_data \<Rightarrow> dialogs \<Rightarrow> bool" for data where
  closed: "dialogs_reach data no_dialog"
| event: "dialogs_reach data st \<Longrightarrow> dialog_can data st e \<Longrightarrow> dialogs_reach data (fst (dialog_after ev vp lc data e st l))"

section \<open>The type of a new credential\<close>

definition dialogs_ok :: "bootstrap_data \<Rightarrow> dialogs \<Rightarrow> bool" where
  "dialogs_ok data st \<longleftrightarrow>
     (dg_modal st = Some ServerModal \<longrightarrow>
        dg_os st \<in> set [''linux'', ''windows''] \<and> dg_credentialType st \<in> set (server_credential_types (dg_os st))) \<and>
     (\<forall>i s. dg_modal st = Some (CredentialModal i) \<longrightarrow> find_server data i = Some s \<longrightarrow>
        dg_credentialType st \<in> set (credential_types (Some s)))"

text \<open>A submit closes the dialog or leaves it as it is.\<close>

definition same_or_closed :: "dialogs \<Rightarrow> dialogs \<Rightarrow> bool" where
  "same_or_closed st0 st \<longleftrightarrow>
     (dg_modal st = dg_modal st0 \<or> dg_modal st = None) \<and> dg_os st = dg_os st0 \<and> dg_credentialType st = dg_credentialType st0"

lemma same_or_closed_simps [simp]:
  "same_or_closed st0 st0" "same_or_closed st0 (submitting b st) = same_or_closed st0 st"
  "same_or_closed st0 st \<Longrightarrow> same_or_closed st0 (st\<lparr>dg_modal := None\<rparr>)"
  "same_or_closed st0 (st\<lparr>dg_workspace := w\<rparr>) = same_or_closed st0 st"
  by (simp_all add: same_or_closed_def)

lemma keeps_close_dialog [keeps_rules]: "keeps (same_or_closed st0) close_dialog"
  by (simp add: close_dialog_def keeps_rules)

lemma submit_same_or_closed: "same_or_closed st (fst (modal_submit ev vp lc data form st l))"
proof -
  have "handler_keeps (same_or_closed st) (try_busy submitting (add_server_body ev os type form))" for os type
    by (auto simp: add_server_body_def intro!: keeps_rules split: option.split)
  moreover have "handler_keeps (same_or_closed st) (try_busy submitting (add_credential_body ev server type form))" for server type
    by (auto simp: add_credential_body_def intro!: keeps_rules split: option.split)
  moreover have "handler_keeps (same_or_closed st) (try_busy submitting (awaited ev rq (open_session k)))" for rq k
    by (auto simp: open_session_def intro!: keeps_rules)
  ultimately show ?thesis
    by (auto simp: handler_keeps_def modal_submit_def server_submit_def credential_submit_def connect_submit_def Let_def
        split: modal_view.split option.split modal.split)
qed

lemma dialogs_ok_same: "dialogs_ok data st \<Longrightarrow> same_or_closed st st' \<Longrightarrow> dialogs_ok data st'"
  by (cases "dg_modal st' = None") (simp_all add: dialogs_ok_def same_or_closed_def)

lemma dialogs_ok_reach: "dialogs_reach data st \<Longrightarrow> dialogs_ok data st"
proof (induction rule: dialogs_reach.induct)
  case closed
  show ?case by (simp add: dialogs_ok_def no_dialog_def)
next
  case (event st e ev vp lc l)
  show ?case
  proof (cases e)
    case (SubmitModal form)
    then show ?thesis
      using dialogs_ok_same [OF event.IH submit_same_or_closed] by simp
  next
    case (OpenModal m)
    then show ?thesis
      by (cases m) (auto simp: dialogs_ok_def mount_def server_credential_types_def credential_types_def)
  next
    case (ChangeType t)
    then show ?thesis
      using event.IH event.hyps(2)
      by (auto simp: dialogs_ok_def dialog_can_def modal_server_def split: option.splits modal.splits)
  next
    case (ChangeOS os)
    then show ?thesis
      using event.hyps(2) by (auto simp: dialogs_ok_def dialog_can_def onOSChange_def server_credential_types_def)
  qed (simp add: dialogs_ok_def)
qed

section \<open>What a submit stores\<close>

text \<open>Whom the dialog on the screen adds a credential for.\<close>

definition added_for :: "bootstrap_data \<Rightarrow> dialogs \<Rightarrow> managed_server \<Rightarrow> bool" where
  "added_for data st s \<longleftrightarrow>
     (case dg_modal st of
        Some ServerModal \<Rightarrow> sv_os s = dg_os st
      | Some (CredentialModal i) \<Rightarrow> find_server data i = Some s \<and> sv_os s \<in> set [''linux'', ''windows'']
      | _ \<Rightarrow> False)"

definition stores_type :: "string \<Rightarrow> request \<Rightarrow> bool" where
  "stores_type t rq \<longleftrightarrow>
     (rq_path rq = credentials_path \<longrightarrow> (\<exists>b. rq_body rq = Some (JObj b) \<and> obj_get b ''type'' = JStr t))"

lemma stores_type_simps [simp]:
  "stores_type t (server_request os form)" "stores_type t (server_credential_request t form i nm)"
  "stores_type t (credential_request t form s)" "stores_type t (ssh_connect_request sid c)" "stores_type t (rdp_connect_request vp sid c form)"
  by (simp_all add: stores_type_def server_request_def server_credential_request_def credential_request_def
      ssh_connect_request_def rdp_connect_request_def credential_body_def obj_get_def Let_def)

lemma sends_close_dialog [sends_rules]: "sends P close_dialog"
  by (simp add: close_dialog_def sends_rules)

lemma sends_from_start: "handler_sends P h \<Longrightarrow> list_all P (calls (snd (h st [])))"
  unfolding handler_sends_def by (metis append_Nil calls.simps(1))

lemma submit_stores_type:
  "rq \<in> set (calls (snd (modal_submit ev vp lc data form st []))) \<Longrightarrow> stores_type (dg_credentialType st) rq"
proof -
  assume rq: "rq \<in> set (calls (snd (modal_submit ev vp lc data form st [])))"
  let ?P = "stores_type (dg_credentialType st)"
  let ?sent = "\<lambda>body. list_all ?P (calls (snd (try_busy submitting body st [])))"
  have "?sent (add_server_body ev os (dg_credentialType st) form)" for os
    by (rule sends_from_start) (auto simp: add_server_body_def intro!: sends_rules split: option.split)
  moreover have "?sent (add_credential_body ev server (dg_credentialType st) form)" for server
    by (rule sends_from_start) (auto simp: add_credential_body_def intro!: sends_rules split: option.split)
  moreover have "quiet (\<lambda>l. l @ [SetWorkspace (Some session)])" for session by (simp add: quiet_def)
  then have "?P r \<Longrightarrow> ?sent (awaited ev r (open_session k))" for r k
    by (intro sends_from_start) (auto simp: open_session_def intro!: sends_rules)
  ultimately have "list_all ?P (calls (snd (modal_submit ev vp lc data form st [])))"
    unfolding modal_submit_def server_submit_def credential_submit_def connect_submit_def Let_def
    by (auto split: modal_view.split option.split modal.split)
  then show ?thesis using rq by (auto simp: list_all_iff)
qed

lemma set_credentialsForServer:
  "set (credentialsForServer lc crs (Some s)) = {cr \<in> set crs. credentialSupportsServer cr (Some s)}"
  using arg_cong [OF credentials_for_server [THEN conjunct1], of set_mset] by simp

lemma connect_offers:
  assumes "find_server data i = Some s" "cr \<in> set (bd_credentials data)" "cr_server_id cr = Some (sv_id s)"
    and "cr_type cr \<in> set (server_credential_types (sv_os s))"
  shows "cr \<in> set (connect_credentials lc data (serverProtocol s) i)"
  using assms
  by (auto simp: connect_credentials_def set_credentialsForServer credentialSupportsServer_def serverProtocol_def
      server_credential_types_def credentialProtocol_def opt_str_def split: if_splits)

text \<open>A body that starts with a request sends it, whatever happens later.\<close>

lemma awaited_sent_first:
  assumes "\<And>v. sends (\<lambda>_. True) (k v)"
  shows "\<exists>more. calls (snd (try_busy busy (awaited ev rq k) st l)) = calls l @ rq # more"
proof (cases rule: apiRequest_cases [of ev rq l])
  case (error e)
  then show ?thesis by (simp add: try_busy_def awaited_def)
next
  case (ok v)
  obtain r st' l' where run: "k v (busy True st, l @ [Call rq]) = (r, st', l')" by (cases "k v (busy True st, l @ [Call rq])") auto
  then obtain new where "calls l' = calls (l @ [Call rq]) @ new"
    using assms [unfolded sends_def, rule_format, of v "busy True st" "l @ [Call rq]"] by auto
  then show ?thesis using ok run by (cases r) (simp_all add: try_busy_def awaited_def)
qed

section \<open>Properties\<close>

text \<open>
  What the dialogs add can be used: a credential stored from either dialog, in any state the dialogs can reach, has a
  type that fits its server, so that once the server lists it, the connection dialog of that server offers it.
\<close>
theorem added_credential_offered:
  assumes "dialogs_reach data st" "added_for data st s"
    and "rq \<in> set (calls (snd (modal_submit ev vp lc data form st [])))" "rq_path rq = credentials_path"
    and "rq_body rq = Some (JObj b)" "obj_get b ''type'' = JStr (cr_type cr)"
    and "find_server later (sv_id s) = Some s" "cr \<in> set (bd_credentials later)" "cr_server_id cr = Some (sv_id s)"
  shows "\<exists>ids. modal_host lc later (mount later (ConnectModal (serverProtocol s) (sv_id s)) st) = ConnectForm ids \<and> cr_id cr \<in> set ids"
proof -
  have "cr_type cr = dg_credentialType st"
    using submit_stores_type [OF assms(3)] assms(4,5,6) by (simp add: stores_type_def)
  moreover have "dg_credentialType st \<in> set (server_credential_types (sv_os s))"
    using dialogs_ok_reach [OF assms(1)] assms(2)
    by (auto simp: dialogs_ok_def added_for_def credential_types_def server_credential_types_def split: option.splits modal.splits if_splits)
  ultimately have "cr \<in> set (connect_credentials lc later (serverProtocol s) (sv_id s))"
    using connect_offers assms(7-9) by simp
  then show ?thesis
    using assms(7) by (auto simp: modal_host_defs mount_def serverSupportsProtocol_def Let_def)
qed

text \<open>
  A server can be added twice: when the server was stored and its credential was not, the dialog stays open with its
  form, and pressing the button again stores the server again, with the same name and address.
\<close>
theorem server_added_twice:
  assumes "server_problem (dg_credentialType st) form = None" "has_credential form"
    and "apiRequest ev (server_request (dg_os st) form) l = (Inr (JObj ob), l1)"
    and "apiRequest ev (server_credential_request (dg_credentialType st) form (obj_get ob ''id'') (obj_get ob ''name'')) l1 = (Inl e, l2)"
    and "server_submit ev form st l = (st', l3)"
  shows "dg_modal st' = dg_modal st \<and>
    (\<exists>more. calls (snd (server_submit ev' form st' l3)) = calls l @
       [server_request (dg_os st) form,
        server_credential_request (dg_credentialType st) form (obj_get ob ''id'') (obj_get ob ''name''),
        server_request (dg_os st) form] @ more)"
proof -
  let ?first = "server_request (dg_os st) form"
  let ?second = "server_credential_request (dg_credentialType st) form (obj_get ob ''id'') (obj_get ob ''name'')"
  have l: "l1 = l @ [Call ?first]" "l2 = l1 @ [Call ?second]"
    using arg_cong [OF assms(3), of snd] arg_cong [OF assms(4), of snd] by simp_all
  have st': "st' = submitting False st" "l3 = report e l2"
    using assms by (auto simp: server_submit_def try_busy_def add_server_body_def awaited_run read_prop_def js_prop_def)
  have "\<exists>more. calls (snd (server_submit ev' form st' l3)) = calls l3 @ ?first # more"
    using assms(1) st'(1)
    by (auto simp: server_submit_def add_server_body_def intro!: awaited_sent_first sends_rules)
  then show ?thesis using st' l by simp
qed

section \<open>Witnesses\<close>

definition web_server :: managed_server where
  "web_server = \<lparr>sv_id = ''s1'', sv_name = ''web'', sv_host = ''10.0.0.1'', sv_ssh_port = None, sv_rdp_port = None,
     sv_os = ''linux'', sv_group = None, sv_description = None, sv_created_at = '''', sv_updated_at = ''''\<rparr>"

definition root_login :: credential where
  "root_login = \<lparr>cr_id = ''c1'', cr_server_id = Some ''s1'', cr_name = ''root'', cr_type = ''ssh_password'', cr_username = ''root'',
     cr_domain = None, cr_created_at = '''', cr_updated_at = ''''\<rparr>"

definition one_server :: bootstrap_data where
  "one_server = emptyBootstrap\<lparr>bd_servers := [web_server], bd_credentials := [root_login]\<rparr>"

definition filled_form :: form_data where
  "filled_form = [''name'' \<mapsto> ''web'', ''host'' \<mapsto> ''10.0.0.1'', ''username'' \<mapsto> ''root'', ''password'' \<mapsto> ''x'']"

definition refusing_env :: env where
  "refusing_env = \<lparr>ev_fetch = (\<lambda>l. if length l = 1
       then Inr \<lparr>rs_ok = True, rs_status = 200, rs_status_text = '''', rs_json = Some (JObj [(''id'', JStr ''s1''), (''name'', JStr ''web'')])\<rparr>
       else Inl ''offline''), ev_mfa = (\<lambda>_. ''''), ev_confirm = (\<lambda>_. False)\<rparr>"

lemma added_credential_offered_witness:
  "\<exists>ids. modal_host (\<lambda>_ _. 0) one_server (mount one_server (ConnectModal ''ssh'' ''s1'') (mount one_server (CredentialModal ''s1'') no_dialog))
     = ConnectForm ids \<and> ''c1'' \<in> set ids"
proof -
  let ?st = "mount one_server (CredentialModal ''s1'') no_dialog"
  have reach: "dialogs_reach one_server ?st"
    using dialogs_reach.event [OF dialogs_reach.closed, of one_server "OpenModal (CredentialModal ''s1'')"] by (simp add: dialog_can_def)
  have found: "find_server one_server ''s1'' = Some web_server" by (simp add: find_server_def one_server_def web_server_def)
  let ?rq = "credential_request ''ssh_password'' filled_form web_server"
  have form: "modal_host (\<lambda>_ _. 0) one_server ?st = CredentialForm (credential_inputs ?st)" "dg_submitting ?st = False"
      "modal_server one_server ?st = Some web_server" "dg_credentialType ?st = ''ssh_password''"
    using found by (simp_all add: modal_host_defs modal_server_def mount_def web_server_def)
  have "secret_problem ''ssh_password'' filled_form = None" by (simp add: secret_problem_def filled_form_def opt_str_def)
  then have "\<exists>more. calls (snd (credential_submit refusing_env one_server filled_form ?st [])) = calls [] @ ?rq # more"
    using form by (auto simp: credential_submit_def add_credential_body_def intro!: awaited_sent_first [where l = "[]", simplified] sends_rules)
  then have sent: "?rq \<in> set (calls (snd (modal_submit refusing_env \<lparr>vp_innerWidth = 0, vp_innerHeight = 0\<rparr> (\<lambda>_ _. 0) one_server filled_form ?st [])))"
    using form by (auto simp: modal_submit_def)
  have path: "rq_path ?rq = credentials_path" by (simp add: credential_request_def)
  then obtain b where b: "rq_body ?rq = Some (JObj b)" "obj_get b ''type'' = JStr (cr_type root_login)"
    using stores_type_simps(3) [of "''ssh_password''" filled_form web_server] unfolding stores_type_def by (auto simp: root_login_def)
  have "\<exists>ids. modal_host (\<lambda>_ _. 0) one_server (mount one_server (ConnectModal (serverProtocol web_server) (sv_id web_server)) ?st)
      = ConnectForm ids \<and> cr_id root_login \<in> set ids"
    using found
    by (intro added_credential_offered [OF reach _ sent path b])
      (simp_all add: added_for_def mount_def web_server_def root_login_def one_server_def)
  then show ?thesis by (simp add: web_server_def root_login_def serverProtocol_def)
qed

lemma server_added_twice_witness:
  "length (calls (snd (server_submit refusing_env filled_form (fst (server_submit refusing_env filled_form no_dialog []))
     (snd (server_submit refusing_env filled_form no_dialog []))))) \<ge> 3"
proof -
  let ?ob = "[(''id'', JStr ''s1''), (''name'', JStr ''web'')]"
  let ?first = "server_request ''linux'' filled_form"
  let ?second = "server_credential_request ''ssh_password'' filled_form (obj_get ?ob ''id'') (obj_get ?ob ''name'')"
  have start: "dg_os no_dialog = ''linux''" "dg_credentialType no_dialog = ''ssh_password''" by (simp_all add: no_dialog_def)
  have ok: "trim ''root'' = ''root''" by code_simp
  have form: "has_credential filled_form" "server_problem ''ssh_password'' filled_form = None"
    by (simp_all add: server_problem_def secret_problem_def has_credential_def filled_form_def opt_str_def ok)
  have answers: "apiRequest refusing_env ?first [] = (Inr (JObj ?ob), [Call ?first])"
    "apiRequest refusing_env ?second [Call ?first] = (Inl (OtherError ''offline''), [Call ?first, Call ?second])"
    by (simp_all add: apiRequest_def refusing_env_def api_result_def Let_def)
  obtain st' l3 where run: "server_submit refusing_env filled_form no_dialog [] = (st', l3)" by (cases "server_submit refusing_env filled_form no_dialog []") auto
  show ?thesis
    using server_added_twice [of no_dialog filled_form refusing_env "[]" ?ob, unfolded start, OF form(2,1) answers run, of refusing_env] run
    by auto
qed

end
