(* ===== verification/ConsolePages.thy ===== *)
theory ConsolePages
  imports Servers Transfers
begin

text \<open>
  The sessions table with the pages that show it (\<open>sessions-table.tsx\<close>, \<open>sessions-page.tsx\<close>, \<open>overview-page.tsx\<close>), the
  audit page (\<open>audit-page.tsx\<close>), the header with its menus (\<open>app-header.tsx\<close>, \<open>profile-menu.tsx\<close>) and the
  notifications (\<open>notification-button.tsx\<close>).
\<close>

section \<open>The sessions table\<close>

record sessions_table =
  st_busySessionID :: string

definition busy_with :: "string \<Rightarrow> bool \<Rightarrow> sessions_table \<Rightarrow> sessions_table" where
  "busy_with i b st = st\<lparr>st_busySessionID := (if b then i else '''')\<rparr>"

definition session_close_request :: "string \<Rightarrow> request" where
  "session_close_request i = post_request (''/api/connections/'' @ i @ ''/close'') (JObj [])"

definition closeSession :: "env \<Rightarrow> string \<Rightarrow> sessions_table \<Rightarrow> log \<Rightarrow> sessions_table \<times> log" where
  "closeSession ev i st l =
     (if st_busySessionID st \<noteq> '''' then (st, l)
      else try_busy (busy_with i) (awaited ev (session_close_request i) (\<lambda>_. act (refresh True))) st l)"

definition fetch_file :: "env \<Rightarrow> string \<Rightarrow> string \<Rightarrow> 's proc" where
  "fetch_file ev path filename = (\<lambda>(st, l).
     let l' = l @ [Call (get_request path)]
     in case ev_fetch ev l' of
          Inl msg \<Rightarrow> (Some (OtherError msg), st, l')
        | Inr resp \<Rightarrow> if rs_ok resp then (None, st, l' @ [Download filename]) else (Some (refusal resp), st, l'))"

definition downloadSessionRecording :: "env \<Rightarrow> conn_session \<Rightarrow> sessions_table \<Rightarrow> log \<Rightarrow> sessions_table \<times> log" where
  "downloadSessionRecording ev session st l =
     (if st_busySessionID st \<noteq> '''' then (st, l)
      else try_busy (busy_with (cs_id session))
        (fetch_file ev (''/api/connections/'' @ cs_id session @ ''/recording.zip'') (cs_id session @ ''-recording.zip'')) st l)"

definition table_server_name :: "bootstrap_data \<Rightarrow> string \<Rightarrow> string" where
  "table_server_name data i = or_str (case find_server data i of Some s \<Rightarrow> sv_name s | None \<Rightarrow> '''') i"

definition session_row ::
  "(string \<Rightarrow> string) \<Rightarrow> (string \<Rightarrow> string) \<Rightarrow> bootstrap_data \<Rightarrow> conn_session \<Rightarrow> (string \<times> string list) list" where
  "session_row formatDate statusLabel data s =
     [(''protocol'', [upper (cs_protocol s)]), (''server'', [table_server_name data (cs_server_id s), cs_id s]),
      (''status'', [statusLabel (cs_status s)]), (''source'', [or_str (cs_client_ip s) ''-'']),
      (''startedAt'', [formatDate (cs_started_at s)]),
      (''recording'', [if cs_recording_path s \<noteq> '''' then num_text (Fin (cs_recording_size s)) @ '' bytes'' else ''-''])]"

definition session_search_text :: "bootstrap_data \<Rightarrow> conn_session \<Rightarrow> string" where
  "session_search_text data s =
     nonempty_words [cs_id s, cs_protocol s, cs_status s, cs_client_ip s, table_server_name data (cs_server_id s)]"

datatype session_button = DownloadZip bool | CloseButton bool

definition session_buttons :: "sessions_table \<Rightarrow> conn_session \<Rightarrow> session_button list" where
  "session_buttons st s =
     (if cs_recording_path s \<noteq> '''' then [DownloadZip (st_busySessionID st = '''')] else [])
     @ [CloseButton (st_busySessionID st = '''' \<and> cs_status s \<in> set [''pending'', ''active''])]"

definition press_session :: "env \<Rightarrow> session_button \<Rightarrow> conn_session \<Rightarrow> sessions_table \<Rightarrow> log \<Rightarrow> sessions_table \<times> log" where
  "press_session ev b s st l =
     (case b of
        DownloadZip enabled \<Rightarrow> if enabled then downloadSessionRecording ev s st l else (st, l)
      | CloseButton enabled \<Rightarrow> if enabled then closeSession ev (cs_id s) st l else (st, l))"

definition sessions_page_rows :: "bootstrap_data \<Rightarrow> conn_session list" where
  "sessions_page_rows data = rev (bd_sessions data)"

definition overview_sessions :: "bootstrap_data \<Rightarrow> conn_session list" where
  "overview_sessions data = rev (drop (length (bd_sessions data) - 6) (bd_sessions data))"

section \<open>The audit page\<close>

definition audit_row :: "(string \<Rightarrow> string) \<Rightarrow> audit_log \<Rightarrow> (string \<times> string) list" where
  "audit_row formatDate a =
     [(''time'', formatDate (al_created_at a)), (''action'', al_action a), (''target'', or_str (al_target_id a) ''-''),
      (''protocol'', or_str (opt_str (al_protocol a)) ''-''), (''source'', or_str (opt_str (al_client_ip a)) ''-''),
      (''details'', opt_str (al_detail a))]"

definition audit_rows :: "bootstrap_data \<Rightarrow> audit_log list" where
  "audit_rows data = rev (bd_audit_logs data)"

definition audit_search_text :: "audit_log \<Rightarrow> string" where
  "audit_search_text a =
     nonempty_words [al_action a, al_target_id a, opt_str (al_protocol a), opt_str (al_client_ip a), opt_str (al_detail a), al_user_id a]"

section \<open>The overview\<close>

definition makeSparkline :: "nat \<Rightarrow> nat \<Rightarrow> nat list" where
  "makeSparkline v seed =
     (let base = max 1 v
      in map (\<lambda>index. let wave = ((index + seed) * (seed + 3)) mod 7 in base + wave + index mod 3) [0..<12])"

text \<open>The heights of the bars, in per cent.\<close>

definition bar_heights :: "nat list \<Rightarrow> rat list" where
  "bar_heights values =
     (let top = fold max values 1 in map (\<lambda>v. max 10 (rat_of_nat v / rat_of_nat top * 100)) values)"

definition home_stat_keys :: "string list" where
  "home_stat_keys = [''users'', ''assets'', ''asset_groups'', ''web_assets'', ''database_assets'', ''online_sessions'',
     ''offline_sessions'', ''operation_logs'', ''scheduled_tasks'']"

definition stat_count :: "platform_data \<Rightarrow> string \<Rightarrow> nat" where
  "stat_count platform k = (case map_of platform k of Some items \<Rightarrow> length items | None \<Rightarrow> 0)"

definition overview_cards :: "bootstrap_data \<Rightarrow> (string \<times> nat \<times> rat list) list" where
  "overview_cards data =
     map (\<lambda>(index, k). let v = stat_count (bd_platform data) k in (k, v, bar_heights (makeSparkline v (index + 3))))
       (enumerate 0 (take 8 home_stat_keys))"

definition session_count :: "(conn_session \<Rightarrow> bool) \<Rightarrow> bootstrap_data \<Rightarrow> nat" where
  "session_count p data = length (filter p (bd_sessions data))"

definition overview_counts :: "bootstrap_data \<Rightarrow> (string \<times> nat) list" where
  "overview_counts data =
     [(''active'', session_count (\<lambda>s. cs_status s = ''active'') data),
      (''recordings'', session_count (\<lambda>s. cs_recording_path s \<noteq> '''') data),
      (''ssh'', session_count (\<lambda>s. cs_protocol s = ''ssh'') data), (''rdp'', session_count (\<lambda>s. cs_protocol s = ''rdp'') data)]"

text \<open>May this user open the page of a route? Without such a page, only an administrator may.\<close>

definition can_open :: "session \<Rightarrow> string \<Rightarrow> bool" where
  "can_open s route =
     (case platformPageByRoute route of
        Some pg \<Rightarrow> canViewPlatformPage (session_role s) pg (session_menu s)
      | None \<Rightarrow> isAdminRole (session_role s))"

definition sessionsTarget :: "session \<Rightarrow> string" where
  "sessionsTarget s =
     (if isAdminRole (session_role s) then ''/app/sessions''
      else if can_open s ''/app/online-sessions'' then ''/app/online-sessions'' else '''')"

definition overview_links :: "session \<Rightarrow> string list" where
  "overview_links s =
     (if can_open s ''/app/assets'' then [''/app/assets''] else []) @ [''/access'']
     @ (if sessionsTarget s \<noteq> '''' then [sessionsTarget s] else [])
     @ [if can_open s ''/app/assets'' then ''/app/assets'' else ''/access'']"

definition overview_quick_servers :: "bootstrap_data \<Rightarrow> (string \<times> modal) list" where
  "overview_quick_servers data =
     map (\<lambda>s. (sv_name s, ConnectModal (serverProtocol s) (sv_id s))) (take 6 (bd_servers data))"

section \<open>The header\<close>

definition pageTitleKeys :: "(string \<times> string) list" where
  "pageTitleKeys =
     [(''/app'', ''overview''), (''/app/servers'', ''assets''), (''/app/credentials'', ''assets''), (''/app/sessions'', ''sessions''),
      (''/app/audit'', ''audit''), (''/app/settings'', ''settings''), (''/access'', ''accessPortal''), (''/app/access'', ''accessPortal'')]"

definition header_title :: "(page_config \<Rightarrow> string) \<Rightarrow> string \<Rightarrow> string" where
  "header_title platformLabel pathname =
     (case platformPageByRoute pathname of
        Some pg \<Rightarrow> platformLabel pg
      | None \<Rightarrow> (case map_of pageTitleKeys pathname of Some k \<Rightarrow> k | None \<Rightarrow> ''dashboard''))"

record header_state =
  hd_sidebarOpen :: bool
  hd_mobileOpen :: bool
  hd_modal :: "modal option"

definition handleSidebarButton :: "bool \<Rightarrow> header_state \<Rightarrow> header_state" where
  "handleSidebarButton wide st =
     (if wide then st\<lparr>hd_sidebarOpen := \<not> hd_sidebarOpen st\<rparr> else st\<lparr>hd_mobileOpen := True\<rparr>)"

text \<open>Signing out (\<open>app.logout\<close> never throws), then the home page.\<close>

definition header_logout :: "(log \<Rightarrow> log) \<Rightarrow> header_state \<Rightarrow> log \<Rightarrow> header_state \<times> log" where
  "header_logout app_logout st l = (st\<lparr>hd_mobileOpen := False\<rparr>, app_logout l @ [Navigate ''/''])"

definition header_links :: "session \<Rightarrow> string list" where
  "header_links s = (if can_open s ''/app/assets'' then [''/app/assets''] else []) @ [''/access'']"

text \<open>What can be pressed in the header and in the drawer that replaces the side bar on a narrow screen.\<close>

datatype header_button = RefreshButton | AddAsset | MenuRefresh | MenuSettings | MenuLogout | CloseDrawer

definition header_bar :: "session \<Rightarrow> header_button list" where
  "header_bar s = [RefreshButton] @ (if isAdminRole (session_role s) then [AddAsset] else []) @ [MenuRefresh, MenuSettings, MenuLogout]"

definition drawer_buttons :: "session \<Rightarrow> header_button list" where
  "drawer_buttons s = [CloseDrawer, RefreshButton] @ (if isAdminRole (session_role s) then [AddAsset] else []) @ [MenuLogout]"

definition drawer_links :: "session \<Rightarrow> string list" where
  "drawer_links s =
     filter (\<lambda>to. to \<noteq> ''/app/servers'' \<or> isAdminRole (session_role s)) consoleNavItems
     @ concat (map (\<lambda>(label, items). map pg_route items) (visiblePlatformGroups s))"

definition press_header :: "(log \<Rightarrow> log) \<Rightarrow> bool \<Rightarrow> header_button \<Rightarrow> header_state \<Rightarrow> log \<Rightarrow> header_state \<times> log" where
  "press_header app_logout drawer b st l =
     (case b of
        RefreshButton \<Rightarrow> (if drawer then st\<lparr>hd_mobileOpen := False\<rparr> else st, refresh False l)
      | AddAsset \<Rightarrow> ((if drawer then st\<lparr>hd_mobileOpen := False\<rparr> else st)\<lparr>hd_modal := Some ServerModal\<rparr>, l)
      | MenuRefresh \<Rightarrow> (st, refresh False l)
      | MenuSettings \<Rightarrow> (st, l @ [Navigate ''/app/settings''])
      | MenuLogout \<Rightarrow> header_logout app_logout st l
      | CloseDrawer \<Rightarrow> (st\<lparr>hd_mobileOpen := False\<rparr>, l))"

text \<open>The drawer listens to the keyboard while it is open.\<close>

definition drawer_key :: "string \<Rightarrow> header_state \<Rightarrow> header_state" where
  "drawer_key key st = (if hd_mobileOpen st \<and> key = ''Escape'' then st\<lparr>hd_mobileOpen := False\<rparr> else st)"

definition profile_name :: "session \<Rightarrow> string" where
  "profile_name s = or_str (case ss_auth s of Some u \<Rightarrow> au_username u | None \<Rightarrow> '''') ''admin''"

definition profile_role :: "session \<Rightarrow> string" where
  "profile_role s = or_str (case ss_auth s of Some u \<Rightarrow> au_role u | None \<Rightarrow> '''') ''admin''"

definition profile_initials :: "session \<Rightarrow> string" where
  "profile_initials s = upper (take 2 (profile_name s))"

section \<open>Notifications\<close>

record notification =
  nt_id :: string
  nt_type :: string
  nt_title_key :: string
  nt_title :: string
  nt_body_key :: string
  nt_body :: string

record notification_reply =
  nr_items :: "notification list"
  nr_read_keys :: "string list option"

text \<open>What the menu is made of: the keys the browser remembers, and the last answer of the server.\<close>

record notifications =
  no_readKeys :: "string list"
  no_reply :: "notification_reply option"
  no_tab :: string

definition canSeeRuntime :: "session \<Rightarrow> bool" where
  "canSeeRuntime s \<longleftrightarrow> ss_auth s \<noteq> None \<and> (isAdminRole (session_role s) \<or> isAuditorRole (session_role s))"

definition fallbackNotifications :: "session \<Rightarrow> string option \<Rightarrow> string \<Rightarrow> notification list" where
  "fallbackNotifications s guacd address =
     (let items = [\<lparr>nt_id = ''audit'', nt_type = ''info'', nt_title_key = ''sessionAuditEnabled'', nt_title = '''',
             nt_body_key = ''sessionAuditEnabledBody'', nt_body = ''''\<rparr>];
          ready = isGuacdReady guacd
      in if \<not> canSeeRuntime s then items
         else \<lparr>nt_id = ''gateway:'' @ (if ready then ''online'' else ''offline''), nt_type = (if ready then ''success'' else ''warning''),
                nt_title_key = (if ready then ''rdpGatewayOnline'' else ''rdpGatewayOffline''), nt_title = '''', nt_body_key = '''',
                nt_body = (if ready then address else ''rdpGatewayOfflineBody'')\<rparr> # items)"

definition shown_notifications :: "session \<Rightarrow> string option \<Rightarrow> string \<Rightarrow> notifications \<Rightarrow> notification list" where
  "shown_notifications s guacd address st =
     (case no_reply st of
        Some r \<Rightarrow> if ss_auth s \<noteq> None \<and> nr_items r \<noteq> [] then nr_items r else fallbackNotifications s guacd address
      | None \<Rightarrow> fallbackNotifications s guacd address)"

definition notificationKeys :: "notification list \<Rightarrow> string list" where
  "notificationKeys items = ''notice:connection-workspace'' # map (\<lambda>n. ''timeline:'' @ nt_id n) items"

definition effectiveReadKeys :: "notifications \<Rightarrow> string set" where
  "effectiveReadKeys st =
     set ((case no_reply st of Some r \<Rightarrow> (case nr_read_keys r of Some ks \<Rightarrow> ks | None \<Rightarrow> []) | None \<Rightarrow> []) @ no_readKeys st)"

definition unread_keys :: "session \<Rightarrow> string option \<Rightarrow> string \<Rightarrow> notifications \<Rightarrow> string list" where
  "unread_keys s guacd address st =
     filter (\<lambda>k. k \<notin> effectiveReadKeys st) (notificationKeys (shown_notifications s guacd address st))"

definition unreadCount :: "session \<Rightarrow> string option \<Rightarrow> string \<Rightarrow> notifications \<Rightarrow> nat" where
  "unreadCount s guacd address st = length (unread_keys s guacd address st)"

definition mark_read_request :: "string list \<Rightarrow> request" where
  "mark_read_request keys = post_request ''/api/notifications/read'' (JObj [(''keys'', JArr (map JStr keys))])"

definition handleOpenChange :: "session \<Rightarrow> string option \<Rightarrow> string \<Rightarrow> bool \<Rightarrow> notifications \<Rightarrow> log \<Rightarrow> notifications \<times> log" where
  "handleOpenChange s guacd address is_open st l =
     (if \<not> is_open then (st, l)
      else let keys = notificationKeys (shown_notifications s guacd address st)
           in (st\<lparr>no_readKeys := markRead keys (no_readKeys st)\<rparr>,
               if ss_auth s \<noteq> None \<and> keys \<noteq> [] then l @ [Call (mark_read_request keys)] else l))"

text \<open>\<open>onSuccess\<close> of the mutation: the server's list of read keys.\<close>

definition mark_read_answered :: "string list option \<Rightarrow> notifications \<Rightarrow> notifications" where
  "mark_read_answered read_keys st =
     (let serverKeys = (case read_keys of Some ks \<Rightarrow> ks | None \<Rightarrow> [])
      in st\<lparr>no_readKeys := markRead serverKeys (no_readKeys st),
            no_reply := map_option (\<lambda>r. r\<lparr>nr_read_keys := Some serverKeys\<rparr>) (no_reply st)\<rparr>)"

definition fetched :: "notification_reply \<Rightarrow> notifications \<Rightarrow> notifications" where
  "fetched r st = st\<lparr>no_reply := Some r\<rparr>"

text \<open>The menu over time: the list is fetched every half minute, answers come when they come.\<close>

inductive menu_step :: "notifications \<Rightarrow> notifications \<Rightarrow> bool" where
  "menu_step st (fetched r st)"
| "menu_step st (mark_read_answered ks st)"
| "menu_step st (fst (handleOpenChange s guacd address is_open st l))"
| "menu_step st (st\<lparr>no_tab := t\<rparr>)"

section \<open>Lemmas\<close>

lemma fold_max_ge: "fold max xs (a::nat) \<ge> a \<and> (\<forall>x \<in> set xs. x \<le> fold max xs a)"
proof (induction xs arbitrary: a)
  case (Cons x xs)
  have "max a x \<le> fold max xs (max a x)" "\<forall>y \<in> set xs. y \<le> fold max xs (max a x)" using Cons [of "max a x"] by auto
  then show ?case by (auto simp: max.commute)
qed simp

lemma read_keys_grow: "menu_step st st' \<Longrightarrow> set (no_readKeys st) \<subseteq> set (no_readKeys st')"
  by (induction rule: menu_step.induct)
    (auto simp: fetched_def mark_read_answered_def handleOpenChange_def markRead_def set_list_spec Let_def)

lemma read_keys_grow_star: "menu_step\<^sup>*\<^sup>* st st' \<Longrightarrow> set (no_readKeys st) \<subseteq> set (no_readKeys st')"
  by (induction rule: rtranclp_induct) (use read_keys_grow in blast)+

lemma open_link:
  assumes "ss_booted s" "ss_auth s \<noteq> None" "can_open s route" "platformPageByRoute route \<noteq> None"
  shows "\<exists>v. route_view q route s = Some (Show v)"
proof -
  obtain pg where pg: "platformPageByRoute route = Some pg" using assms(4) by auto
  then have "pg \<in> set platformPages" "pg_route pg = route" using platformPageByRoute_sound by auto
  moreover have "\<exists>v. platform_component pg s = Show v"
    using assms pg by (auto simp: can_open_def intro!: platform_component_open)
  ultimately show ?thesis using route_view_platform [of pg q s] by auto
qed

lemma linked_pages: "platformPageByRoute ''/app/assets'' \<noteq> None" "platformPageByRoute ''/app/online-sessions'' \<noteq> None"
  by code_simp+

lemma fetch_file_run: "\<exists>r new. fetch_file ev path filename (st, l) = (r, st, l @ Call (get_request path) # new) \<and> calls new = []"
  by (auto simp: fetch_file_def Let_def split: sum.splits)

section \<open>Properties\<close>

text \<open>C30 A notification that was on the screen when the menu was opened is never counted as unread again, whatever the server
  answers afterwards and however late: not by a list fetched before the answer, nor by an answer with an older list.
\<close>
theorem read_notifications_stay_read:
  assumes "menu_step\<^sup>*\<^sup>* (fst (handleOpenChange s guacd address True st l)) st'"
    and "k \<in> set (notificationKeys (shown_notifications s guacd address st))"
  shows "k \<notin> set (unread_keys s' guacd' address' st')"
proof -
  have "k \<in> set (no_readKeys (fst (handleOpenChange s guacd address True st l)))"
    using assms(2) by (simp add: handleOpenChange_def markRead_def set_list_spec Let_def)
  then have "k \<in> set (no_readKeys st')" using read_keys_grow_star [OF assms(1)] by blast
  then show ?thesis by (simp add: unread_keys_def effectiveReadKeys_def)
qed

text \<open>
  No dead links on the overview or in the header: whatever they offer a signed-in user opens for that user, and the
  drawer of a narrow screen offers exactly what the side bar does.
\<close>
theorem overview_links_open:
  assumes "ss_booted s" "ss_auth s \<noteq> None" "to \<in> set (overview_links s @ header_links s @ drawer_links s)"
  shows "(\<exists>v. route_view q to s = Some (Show v)) \<and> drawer_links s = sidebar_links s"
proof
  show same: "drawer_links s = sidebar_links s" by (simp add: drawer_links_def sidebar_links_def visibleConsoleNav_def)
  consider "to \<in> set (sidebar_links s)" | "to = ''/access''" | "to = ''/app/assets''" "can_open s ''/app/assets''"
    | "to = ''/app/online-sessions''" "can_open s ''/app/online-sessions''" | "to = ''/app/sessions''" "isAdminRole (session_role s)"
    using assms(3) same by (auto simp: overview_links_def header_links_def sessionsTarget_def split: if_splits)
  then show "\<exists>v. route_view q to s = Some (Show v)"
  proof cases
    case 1
    then show ?thesis using sidebar_links_open assms(1,2) by blast
  next
    case 2
    then show ?thesis
      using assms sidebar_links_open [of s to q] by (simp add: sidebar_links_def visibleConsoleNav_def consoleNavItems_def)
  next
    case 5
    then show ?thesis
      using assms route_view_static [of to "\<lambda>s. ConsoleGate s (RoleGate s True None (Show SessionsPage))" q s]
      by (simp add: static_routes_def ConsoleGate_def RoleGate_def)
  qed (use assms open_link linked_pages in blast)+
qed

text \<open>
  A row of the sessions table sends at most one request at a time, about its own session: nothing is sent while an
  operation is running, a session that is over cannot be closed, and afterwards the table is free again.
\<close>
theorem session_buttons_one_request:
  assumes "b \<in> set (session_buttons st s)" "press_session ev b s st l = (st', l')"
  shows "calls l' = calls l @
      (case b of
         DownloadZip enabled \<Rightarrow> if enabled then [get_request (''/api/connections/'' @ cs_id s @ ''/recording.zip'')] else []
       | CloseButton enabled \<Rightarrow> if enabled then [session_close_request (cs_id s)] else [])
    \<and> (st_busySessionID st \<noteq> '''' \<longrightarrow> (st', l') = (st, l)) \<and> st_busySessionID st' = st_busySessionID st"
proof (cases b)
  case (DownloadZip enabled)
  let ?path = "''/api/connections/'' @ cs_id s @ ''/recording.zip''" and ?name = "cs_id s @ ''-recording.zip''"
  obtain r new where "fetch_file ev ?path ?name (busy_with (cs_id s) True st, l) = (r, busy_with (cs_id s) True st, l @ Call (get_request ?path) # new)"
      "calls new = []"
    using fetch_file_run [of ev ?path ?name "busy_with (cs_id s) True st" l] by blast
  then show ?thesis
    using assms DownloadZip
    by (cases r) (auto simp: session_buttons_def press_session_def downloadSessionRecording_def try_busy_def busy_with_def split: if_splits)
next
  case (CloseButton enabled)
  show ?thesis
  proof (cases rule: apiRequest_cases [of ev "session_close_request (cs_id s)" l])
    case (error e)
    then show ?thesis
      using assms CloseButton
      by (auto simp: session_buttons_def press_session_def closeSession_def try_busy_def busy_with_def awaited_def split: if_splits)
  next
    case (ok v)
    then show ?thesis
      using assms CloseButton
      by (auto simp: session_buttons_def press_session_def closeSession_def try_busy_def busy_with_def awaited_def split: if_splits)
  qed
qed

text \<open>The bars of a card are between a tenth and the whole of its height, however large the count.\<close>
theorem bars_in_range: "h \<in> set (bar_heights values) \<Longrightarrow> 10 \<le> h \<and> h \<le> 100"
proof -
  assume "h \<in> set (bar_heights values)"
  then obtain v where v: "v \<in> set values" and h: "h = max 10 (rat_of_nat v / rat_of_nat (fold max values 1) * 100)"
    by (auto simp: bar_heights_def Let_def)
  have "v \<le> fold max values 1" "0 < fold max values 1"
    using fold_max_ge [of 1 "values"] v by auto
  then have "rat_of_nat v * 100 / rat_of_nat (fold max values 1) \<le> 100" by (simp add: divide_le_eq)
  then show ?thesis using h by simp
qed

section \<open>Witnesses\<close>

lemma read_notifications_stay_read_witness:
  "let s = \<lparr>ss_booted = True, ss_auth = None\<rparr>; st = \<lparr>no_readKeys = [], no_reply = None, no_tab = ''notice''\<rparr>;
       late = \<lparr>nr_items = [], nr_read_keys = Some []\<rparr>
   in ''timeline:audit'' \<notin> set (unread_keys s None '''' (fetched late (fst (handleOpenChange s None '''' True st []))))"
  unfolding Let_def
  by (rule read_notifications_stay_read [where s = "\<lparr>ss_booted = True, ss_auth = None\<rparr>" and guacd = None and address = "''''" and l = "[]"
        and st = "\<lparr>no_readKeys = [], no_reply = None, no_tab = ''notice''\<rparr>"])
    (auto intro: r_into_rtranclp menu_step.intros
      simp: notificationKeys_def shown_notifications_def fallbackNotifications_def canSeeRuntime_def)

lemma overview_links_open_witness:
  "\<exists>v. route_view \<lparr>lq_reauth = None, lq_next = None\<rparr> ''/app/sessions''
     \<lparr>ss_booted = True, ss_auth = Some \<lparr>au_id = ''u'', au_username = ''root'', au_role = ''admin'',
       au_expires_at = '''', au_api_permissions = None, au_menu_permissions = None\<rparr>\<rparr> = Some (Show v)"
  by (rule overview_links_open [THEN conjunct1])
    (simp_all add: overview_links_def sessionsTarget_def session_role_def isAdminRole_iff normalizeRole_samples)

end
