(* ===== verification/SettingsInputs.thy ===== *)
theory SettingsInputs
  imports SettingsPage Controls Session
begin

text \<open>
  What the settings page draws (the markup of \<open>SettingsPage\<close> in \<open>settings-page.tsx\<close>): the inputs of its sections, the
  messages next to them, the lists and badges, and which sections the role is shown. The sections with a secret are
  instances of the contract of \<open>Controls\<close>; the life of the screen is a relation over inputs, effects and buttons.
\<close>

section \<open>Identity providers\<close>

text \<open>
  The box of a secret unticks the order to clear the stored one; ticking that order, which is offered only for a stored
  secret (\<open>clearable\<close>), empties the box.
\<close>

definition oidc_auth_methods :: "string list" where
  "oidc_auth_methods = [''client_secret_basic'', ''client_secret_post'', ''none'']"

definition login_roles :: "string list" where
  "login_roles = [''user'', ''auditor'', ''admin'']"

definition oidc_inputs :: "bool \<Rightarrow> oidc_settings control list" where
  "oidc_inputs clearable =
     [TickBox ''oidcEnableLogin'' oi_enabled (\<lambda>b f. f\<lparr>oi_enabled := b\<rparr>),
      TextBox ''name'' oi_providerName (\<lambda>t f. f\<lparr>oi_providerName := t\<rparr>),
      TextBox ''oidcClientID'' oi_clientID (\<lambda>t f. f\<lparr>oi_clientID := t\<rparr>),
      TextBox ''oidcClientSecret'' oi_clientSecret (\<lambda>t f. f\<lparr>oi_clientSecret := t, oi_clientSecretClear := False\<rparr>),
      TextBox ''oidcScopes'' oi_scopes (\<lambda>t f. f\<lparr>oi_scopes := t\<rparr>),
      TextBox ''oidcIssuer'' oi_issuer (\<lambda>t f. f\<lparr>oi_issuer := t\<rparr>),
      TextBox ''oidcAuthorizationEndpoint'' oi_authorizationEndpoint (\<lambda>t f. f\<lparr>oi_authorizationEndpoint := t\<rparr>),
      TextBox ''oidcTokenEndpoint'' oi_tokenEndpoint (\<lambda>t f. f\<lparr>oi_tokenEndpoint := t\<rparr>),
      TextBox ''oidcUserInfoEndpoint'' oi_userInfoEndpoint (\<lambda>t f. f\<lparr>oi_userInfoEndpoint := t\<rparr>),
      TextBox ''oidcJWKSEndpoint'' oi_jwksEndpoint (\<lambda>t f. f\<lparr>oi_jwksEndpoint := t\<rparr>),
      SelectBox ''oidcAuthMethod'' oidc_auth_methods (\<lambda>f. token_auth_text (oi_tokenAuthMethod f))
        (\<lambda>t f. f\<lparr>oi_tokenAuthMethod := normalizeOIDCTokenAuthMethod t\<rparr>),
      SelectBox ''defaultRole'' login_roles oi_role (\<lambda>t f. f\<lparr>oi_role := t\<rparr>),
      TickBox ''oidcRequireIDToken'' oi_requireIDToken (\<lambda>b f. f\<lparr>oi_requireIDToken := b\<rparr>),
      TickBox ''oidcAutoCreate'' oi_autoCreate (\<lambda>b f. f\<lparr>oi_autoCreate := b\<rparr>)]
     @ (if clearable
        then [TickBox ''clearOIDCClientSecret'' oi_clientSecretClear
                (\<lambda>b f. f\<lparr>oi_clientSecretClear := b, oi_clientSecret := (if b then '''' else oi_clientSecret f)\<rparr>)]
        else [])"

definition ldap_inputs :: "bool \<Rightarrow> ldap_settings control list" where
  "ldap_inputs clearable =
     [TickBox ''ldapEnableLogin'' ld_enabled (\<lambda>b f. f\<lparr>ld_enabled := b\<rparr>),
      TextBox ''name'' ld_providerName (\<lambda>t f. f\<lparr>ld_providerName := t\<rparr>),
      TextBox ''ldapUrl'' ld_url (\<lambda>t f. f\<lparr>ld_url := t\<rparr>),
      TextBox ''ldapBindDN'' ld_bindDN (\<lambda>t f. f\<lparr>ld_bindDN := t\<rparr>),
      TextBox ''password'' ld_bindPassword (\<lambda>t f. f\<lparr>ld_bindPassword := t, ld_bindPasswordClear := False\<rparr>),
      TextBox ''ldapBaseDN'' ld_baseDN (\<lambda>t f. f\<lparr>ld_baseDN := t\<rparr>),
      TextBox ''ldapUserFilter'' ld_userFilter (\<lambda>t f. f\<lparr>ld_userFilter := t\<rparr>),
      TextBox ''ldapUserDNTemplate'' ld_userDNTemplate (\<lambda>t f. f\<lparr>ld_userDNTemplate := t\<rparr>),
      TextBox ''ldapUsernameAttribute'' ld_usernameAttribute (\<lambda>t f. f\<lparr>ld_usernameAttribute := t\<rparr>),
      TextBox ''ldapDisplayNameAttribute'' ld_displayNameAttribute (\<lambda>t f. f\<lparr>ld_displayNameAttribute := t\<rparr>),
      TextBox ''ldapEmailAttribute'' ld_emailAttribute (\<lambda>t f. f\<lparr>ld_emailAttribute := t\<rparr>),
      SelectBox ''defaultRole'' login_roles ld_role (\<lambda>t f. f\<lparr>ld_role := t\<rparr>),
      TextBox ''ldapTLSServerName'' ld_serverName (\<lambda>t f. f\<lparr>ld_serverName := t\<rparr>),
      TickBox ''ldapStartTLS'' ld_startTLS (\<lambda>b f. f\<lparr>ld_startTLS := b\<rparr>),
      TickBox ''ldapInsecureSkipVerify'' ld_insecureSkipVerify (\<lambda>b f. f\<lparr>ld_insecureSkipVerify := b\<rparr>),
      TickBox ''ldapAutoCreate'' ld_autoCreate (\<lambda>b f. f\<lparr>ld_autoCreate := b\<rparr>)]
     @ (if clearable
        then [TickBox ''clearLDAPBindPassword'' ld_bindPasswordClear
                (\<lambda>b f. f\<lparr>ld_bindPasswordClear := b, ld_bindPassword := (if b then '''' else ld_bindPassword f)\<rparr>)]
        else [])"

definition wecom_inputs :: "bool \<Rightarrow> wecom_settings control list" where
  "wecom_inputs clearable =
     [TickBox ''wecomEnableLogin'' wc_enabled (\<lambda>b f. f\<lparr>wc_enabled := b\<rparr>),
      TextBox ''name'' wc_providerName (\<lambda>t f. f\<lparr>wc_providerName := t\<rparr>),
      TextBox ''wecomCorpID'' wc_corpID (\<lambda>t f. f\<lparr>wc_corpID := t\<rparr>),
      TextBox ''wecomAgentID'' wc_agentID (\<lambda>t f. f\<lparr>wc_agentID := t\<rparr>),
      TextBox ''wecomAgentSecret'' wc_agentSecret (\<lambda>t f. f\<lparr>wc_agentSecret := t, wc_agentSecretClear := False\<rparr>),
      SelectBox ''defaultRole'' login_roles wc_role (\<lambda>t f. f\<lparr>wc_role := t\<rparr>),
      TickBox ''wecomAutoCreate'' wc_autoCreate (\<lambda>b f. f\<lparr>wc_autoCreate := b\<rparr>)]
     @ (if clearable
        then [TickBox ''clearWeComAgentSecret'' wc_agentSecretClear
                (\<lambda>b f. f\<lparr>wc_agentSecretClear := b, wc_agentSecret := (if b then '''' else wc_agentSecret f)\<rparr>)]
        else [])"

text \<open>The fields of a provider that are marked invalid, and what stands under them.\<close>

definition flag :: "bool \<Rightarrow> string \<Rightarrow> string list" where
  "flag b m = (if b then [m] else [])"

definition oidc_marks :: "address_parser \<Rightarrow> oidc_settings \<Rightarrow> string list" where
  "oidc_marks url f =
     (let on = oi_enabled f; endpoint = (\<lambda>get q. blank_or (\<lambda>s. isValidOIDCEndpoint url s q) (trim (get f)));
          blank = (\<lambda>get. trim (get f) = '''')
      in flag (\<not> oidcClientIDValid (trim (oi_clientID f)) \<or> (on \<and> blank oi_clientID)) ''oidcClientIDRequired''
         @ flag (on \<and> \<not> oidcClientSecretReady f) ''oidcClientSecretRequired''
         @ flag (\<not> oidcScopesValid (scope_words (oi_scopes f))) ''oidcOpenIDScopeRequired''
         @ flag (\<not> endpoint oi_issuer False \<or> (on \<and> oi_requireIDToken f \<and> blank oi_issuer)) ''oidcIssuerInvalid''
         @ flag (\<not> endpoint oi_authorizationEndpoint True \<or> (on \<and> blank oi_authorizationEndpoint)) ''oidcEndpointInvalid''
         @ flag (\<not> endpoint oi_tokenEndpoint False \<or> (on \<and> blank oi_tokenEndpoint)) ''oidcEndpointInvalid''
         @ flag (\<not> endpoint oi_userInfoEndpoint False \<or> (on \<and> \<not> oi_requireIDToken f \<and> blank oi_userInfoEndpoint)) ''oidcUserInfoRequired''
         @ flag (\<not> endpoint oi_jwksEndpoint False) ''oidcEndpointInvalid'')"

definition ldapSearchBaseReady :: "ldap_settings \<Rightarrow> bool" where
  "ldapSearchBaseReady f \<longleftrightarrow> trim (ld_baseDN f) \<noteq> '''' \<or> trim (ld_userDNTemplate f) \<noteq> ''''"

definition ldap_marks :: "address_parser \<Rightarrow> ldap_settings \<Rightarrow> string list" where
  "ldap_marks url f =
     flag (ld_enabled f \<and> (trim (ld_url f) = '''' \<or> \<not> (trim (ld_url f) = '''' \<or> isValidLDAPURL url (ld_url f)))) ''ldapUrlInvalid''
     @ flag (ld_enabled f \<and> \<not> ldapSearchBaseReady f) ''ldapSearchBaseRequired''
     @ flag (\<not> ldapTLSModeValid f) ''ldapTLSModeConflict''"

definition wecom_marks :: "wecom_settings \<Rightarrow> string list" where
  "wecom_marks f =
     flag (\<not> blank_or (\<lambda>s. list_all (\<lambda>c. \<not> is_ws c \<and> c \<notin> set ''/@?#'' \<and> c \<noteq> CHR 0x5C) s \<and> utf16_units s \<le> 256) (trim (wc_corpID f))
           \<or> (wc_enabled f \<and> trim (wc_corpID f) = '''')) ''wecomCorpIDInvalid''
     @ flag (\<not> blank_or (\<lambda>s. all_digits s \<and> length s \<le> 32) (trim (wc_agentID f))) ''wecomAgentIDInvalid''
     @ flag (wc_enabled f \<and> \<not> (trim (wc_agentSecret f) \<noteq> '''' \<or> (wc_agentSecretSet f \<and> \<not> wc_agentSecretClear f))) ''wecomAgentSecretRequired''"

section \<open>The other forms\<close>

definition password_inputs :: "password_form control list" where
  "password_inputs =
     [TextBox ''currentPassword'' pw_current (\<lambda>t f. f\<lparr>pw_current := t\<rparr>),
      TextBox ''newPassword'' pw_new (\<lambda>t f. f\<lparr>pw_new := t\<rparr>),
      TextBox ''confirmPassword'' pw_confirm (\<lambda>t f. f\<lparr>pw_confirm := t\<rparr>)]"

definition license_inputs :: "license_form control list" where
  "license_inputs =
     [TextBox ''licensee'' lf_licensee (\<lambda>t f. f\<lparr>lf_licensee := t\<rparr>),
      TextBox ''licenseContact'' lf_contact (\<lambda>t f. f\<lparr>lf_contact := t\<rparr>),
      TextBox ''licenseSerial'' lf_serial (\<lambda>t f. f\<lparr>lf_serial := t\<rparr>),
      TextBox ''licenseExpiresAt'' lf_expires_at (\<lambda>t f. f\<lparr>lf_expires_at := t\<rparr>),
      TextBox ''licenseIssuedAt'' lf_issued_at (\<lambda>t f. f\<lparr>lf_issued_at := t\<rparr>),
      TextBox ''licenseFeatures'' lf_features (\<lambda>t f. f\<lparr>lf_features := t\<rparr>),
      TextBox ''licenseNotes'' lf_notes (\<lambda>t f. f\<lparr>lf_notes := t\<rparr>)]"

definition policy_inputs :: "policy_form control list" where
  "policy_inputs =
     [TextBox ''loginPolicyName'' pf_name (\<lambda>t f. f\<lparr>pf_name := t\<rparr>),
      SelectBox ''loginPolicyAction'' [''deny'', ''allow''] policy_action (\<lambda>t f. f\<lparr>pf_allow := (t = ''allow'')\<rparr>),
      TextBox ''loginPolicyAccount'' pf_account (\<lambda>t f. f\<lparr>pf_account := t\<rparr>),
      TextBox ''loginPolicyCIDR'' pf_cidr (\<lambda>t f. f\<lparr>pf_cidr := t\<rparr>),
      TextBox ''loginPolicyExpiresAt'' pf_expiresAt (\<lambda>t f. f\<lparr>pf_expiresAt := t\<rparr>)]"

text \<open>
  Number boxes hold whole numbers: text that begins with none leaves the number of before, or 90 for the days of a log.
\<close>

definition enter_priority :: "string \<Rightarrow> policy_form \<Rightarrow> policy_form" where
  "enter_priority t f = f\<lparr>pf_priority := numberInputValue t (pf_priority f)\<rparr>"

datatype lockout_box = FailureThreshold | FailureWindow | LockDuration

definition enter_lockout :: "lockout_box \<Rightarrow> string \<Rightarrow> login_security \<Rightarrow> login_security" where
  "enter_lockout k t ls =
     (case k of
        FailureThreshold \<Rightarrow> ls\<lparr>ls_threshold := numberInputValue t (ls_threshold ls)\<rparr>
      | FailureWindow \<Rightarrow> ls\<lparr>ls_window := numberInputValue t (ls_window ls)\<rparr>
      | LockDuration \<Rightarrow> ls\<lparr>ls_lockMinutes := numberInputValue t (ls_lockMinutes ls)\<rparr>)"

definition retention_days :: "retention_key \<Rightarrow> retention \<Rightarrow> int" where
  "retention_days k rt =
     (case k of
        SessionDays \<Rightarrow> rt_session rt | LoginDays \<Rightarrow> rt_login rt | ScheduledTaskDays \<Rightarrow> rt_scheduledTask rt
      | OperationDays \<Rightarrow> rt_operation rt | FileDays \<Rightarrow> rt_file rt | AccessDays \<Rightarrow> rt_access rt
      | SqlDays \<Rightarrow> rt_sql rt | ExecCommandDays \<Rightarrow> rt_execCommand rt)"

definition retentionFieldOptions :: "(retention_key \<times> string) list" where
  "retentionFieldOptions =
     [(SessionDays, ''retentionSessions''), (LoginDays, ''retentionLoginLogs''), (ScheduledTaskDays, ''retentionScheduledTaskLogs''),
      (OperationDays, ''retentionOperationLogs''), (FileDays, ''retentionFileLogs''), (AccessDays, ''retentionAccessLogs''),
      (SqlDays, ''retentionSQLLogs''), (ExecCommandDays, ''retentionExecCommandLogs'')]"

definition retention_inputs :: "retention \<Rightarrow> (string \<times> int) list" where
  "retention_inputs rt = map (\<lambda>(k, label). (label, retention_days k rt)) retentionFieldOptions"

definition enter_days :: "retention_key \<Rightarrow> string \<Rightarrow> retention \<Rightarrow> retention" where
  "enter_days k t rt = patchRetentionSettings k (numberInputValue t 90) rt"

section \<open>The own account\<close>

definition key_inputs :: "settings_page control list" where
  "key_inputs =
     [TextBox ''sshPublicKeyName'' sp_sshKeyName (\<lambda>t st. st\<lparr>sp_sshKeyName := t\<rparr>),
      TextBox ''sshPublicKeyValue'' sp_sshKeyText (\<lambda>t st. st\<lparr>sp_sshKeyText := t\<rparr>)]"

definition key_status :: "settings_page \<Rightarrow> string" where
  "key_status st = (if sp_sshKeys st \<noteq> [] then show_nat (length (sp_sshKeys st)) @ '' registered'' else ''Not registered'')"

definition key_row :: "(string \<Rightarrow> string) \<Rightarrow> jsval \<Rightarrow> string list" where
  "key_row formatDate item =
     map (\<lambda>k. js_to_string (field_of item k)) [''name'', ''type'', ''fingerprint''] @ [formatDate (js_to_string (field_of item ''created_at''))]"

definition passkey_input :: "settings_page control" where
  "passkey_input = TextBox ''passkeyName'' sp_passkeyName (\<lambda>t st. st\<lparr>sp_passkeyName := t\<rparr>)"

definition passkey_badges :: "settings_cx \<Rightarrow> settings_page \<Rightarrow> string list" where
  "passkey_badges cx st =
     (if sp_passkeys st \<noteq> [] then show_nat (length (sp_passkeys st)) @ '' registered'' else ''Not registered'')
     # flag (\<not> cx_secureContext cx) ''passkeyHttpsRequired''
     @ flag (maxPasskeysPerUser \<le> length (sp_passkeys st)) ''passkeyLimitReached''"

definition passkey_row :: "(string \<Rightarrow> string) \<Rightarrow> jsval \<Rightarrow> string list" where
  "passkey_row formatDate item =
     [js_to_string (field_of item ''name''), formatDate (js_to_string (field_of item ''created_at'')),
      if truthy (field_of item ''last_used_at'') then formatDate (js_to_string (field_of item ''last_used_at'')) else ''none'',
      if truthy (field_of item ''sign_count'') then js_to_string (field_of item ''sign_count'') else ''0'']"

text \<open>The second factor: being set up, in use, or off.\<close>

datatype mfa_panel = SetupPanel string string | EnabledPanel bool | OffPanel

definition mfa_panel_of :: "settings_page \<Rightarrow> mfa_panel" where
  "mfa_panel_of st =
     (case sp_mfaSetup st of
        Some setup \<Rightarrow> SetupPanel (js_to_string (field_of setup ''secret'')) (js_to_string (field_of setup ''otpauth_url''))
      | None \<Rightarrow>
          if mfa_enabled st
          then EnabledPanel (case sp_mfaStatus st of Some v \<Rightarrow> truthy (field_of v ''password_required'') | None \<Rightarrow> False)
          else OffPanel)"

definition mfa_inputs :: "settings_page \<Rightarrow> settings_page control list" where
  "mfa_inputs drawn =
     (let code = TextBox ''mfaCurrentCode'' sp_mfaCode (\<lambda>t st. st\<lparr>sp_mfaCode := t\<rparr>);
          password = TextBox ''currentPassword'' sp_mfaPassword (\<lambda>t st. st\<lparr>sp_mfaPassword := t\<rparr>)
      in case mfa_panel_of drawn of
           SetupPanel _ _ \<Rightarrow> [code]
         | EnabledPanel needs \<Rightarrow> if needs then [password, code] else [code]
         | OffPanel \<Rightarrow> [])"

definition cancel_mfa_setup :: "settings_page \<Rightarrow> settings_page" where
  "cancel_mfa_setup st = (if sp_busy st MFABusy then st else st\<lparr>sp_mfaSetup := None\<rparr>)"

definition mfa_lines :: "settings_page \<Rightarrow> string list" where
  "mfa_lines st =
     (let status = (case sp_mfaStatus st of Some v \<Rightarrow> v | None \<Rightarrow> JUndefined); left = field_of status ''recovery_count''
      in (if mfa_enabled st then ''mfaEnabledStatus'' else ''mfaDisabledStatus'')
         # flag (truthy (field_of status ''forced'')) ''mfaRequiredStatus''
         @ [if SignIn.nullish left then ''0'' else js_to_string left]
         @ map js_to_string (sp_recoveryCodes st))"

definition ldap_test_inputs :: "settings_page control list" where
  "ldap_test_inputs =
     [TextBox ''ldapTestUsername'' sp_ldapTestUsername (\<lambda>t st. st\<lparr>sp_ldapTestUsername := t\<rparr>),
      TextBox ''ldapTestPassword'' sp_ldapTestPassword (\<lambda>t st. st\<lparr>sp_ldapTestPassword := t\<rparr>)]"

section \<open>Appearance\<close>

definition preset_options :: "string list" where
  "preset_options = [''default'', ''anthropic'', ''simple-large'', ''underground'', ''rose-garden'', ''lake-view'', ''sunset-glow'',
     ''forest-whisper'', ''ocean-breeze'', ''lavender-dream'']"

definition font_options :: "string list" where
  "font_options = [''default'', ''sans'', ''serif'']"

definition radius_options :: "string list" where
  "radius_options = [''default'', ''none'', ''sm'', ''md'', ''lg'', ''xl'']"

definition scale_options :: "string list" where
  "scale_options = [''sm'', ''default'', ''lg'', ''xl'']"

text \<open>The selects of the page; the language belongs to the translation library and is kept beside the preferences.\<close>

definition appearance_select :: "string \<Rightarrow> string list \<Rightarrow> (appearance \<Rightarrow> jsval) \<Rightarrow> string \<Rightarrow> (preferences \<times> string) control" where
  "appearance_select label options get key =
     SelectBox label options (\<lambda>(p, _). js_to_string (get (pf_appearance p))) (\<lambda>t (p, lang). (setAppearance [(key, JStr t)] p, lang))"

definition appearance_inputs :: "(preferences \<times> string) control list" where
  "appearance_inputs =
     [SelectBox ''theme'' [''system'', ''light'', ''dark''] (\<lambda>(p, _). js_to_string (pf_theme p)) (\<lambda>t (p, lang). (setTheme (JStr t) p, lang)),
      SelectBox ''language'' INTERFACE_LANGUAGE_OPTIONS snd (\<lambda>t (p, _). (p, t)),
      appearance_select ''colorPreset'' preset_options ap_preset ''preset'',
      appearance_select ''font'' font_options ap_font ''font'',
      appearance_select ''borderRadius'' radius_options ap_radius ''radius'',
      appearance_select ''density'' scale_options ap_scale ''scale'',
      appearance_select ''contentWidth'' [''full'', ''centered''] ap_contentLayout ''contentLayout'',
      appearance_select ''sidebarStyle'' [''default'', ''inset'', ''floating''] ap_sidebarStyle ''sidebarStyle'']"

text \<open>
  The drawer of the header (\<open>AppearanceDrawer\<close>): a group of radio buttons per setting, with a button beside the title
  while the value is not the default one.
\<close>

record drawer_group =
  dw_label :: string
  dw_options :: "string list"
  dw_value :: "preferences \<Rightarrow> jsval"
  dw_choose :: "string \<Rightarrow> preferences \<Rightarrow> preferences"
  dw_shows_reset :: "preferences \<Rightarrow> bool"
  dw_reset :: "preferences \<Rightarrow> preferences"

definition ThemeConfig :: drawer_group where
  "ThemeConfig =
     \<lparr>dw_label = ''theme'', dw_options = [''system'', ''light'', ''dark''], dw_value = pf_theme, dw_choose = (\<lambda>t. setTheme (JStr t)),
      dw_shows_reset = (\<lambda>p. pf_theme p \<noteq> JStr ''system''), dw_reset = setTheme (JStr ''system'')\<rparr>"

definition appearance_group :: "string \<Rightarrow> string list \<Rightarrow> (appearance \<Rightarrow> jsval) \<Rightarrow> string \<Rightarrow> drawer_group" where
  "appearance_group label options get key =
     \<lparr>dw_label = label, dw_options = options, dw_value = (\<lambda>p. get (pf_appearance p)),
      dw_choose = (\<lambda>t. setAppearance [(key, JStr t)]),
      dw_shows_reset = (\<lambda>p. get (pf_appearance p) \<noteq> get defaultAppearance),
      dw_reset = setAppearance [(key, get defaultAppearance)]\<rparr>"

definition PresetConfig :: drawer_group where
  "PresetConfig = appearance_group ''colorPreset'' preset_options ap_preset ''preset''"

definition FontConfig :: drawer_group where
  "FontConfig = appearance_group ''font'' font_options ap_font ''font''"

definition RadiusConfig :: drawer_group where
  "RadiusConfig = appearance_group ''borderRadius'' radius_options ap_radius ''radius''"

definition ScaleConfig :: drawer_group where
  "ScaleConfig = appearance_group ''density'' scale_options ap_scale ''scale''"

definition ContentLayoutConfig :: drawer_group where
  "ContentLayoutConfig = appearance_group ''contentWidth'' [''full'', ''centered''] ap_contentLayout ''contentLayout''"

definition SidebarConfig :: drawer_group where
  "SidebarConfig = appearance_group ''sidebarStyle'' [''default'', ''inset'', ''floating''] ap_sidebarStyle ''sidebarStyle''"

definition drawer_groups :: "drawer_group list" where
  "drawer_groups = [ThemeConfig, PresetConfig, FontConfig, RadiusConfig, ScaleConfig, ContentLayoutConfig, SidebarConfig]"

definition press_shown_resets :: "preferences \<Rightarrow> preferences" where
  "press_shown_resets p = fold (\<lambda>g p. if dw_shows_reset g p then dw_reset g p else p) drawer_groups p"

lemmas drawer_group_defs =
  ThemeConfig_def PresetConfig_def FontConfig_def RadiusConfig_def ScaleConfig_def ContentLayoutConfig_def SidebarConfig_def

section \<open>Sections\<close>

datatype settings_section =
    ProfileSection | KeySection | AccountSection | OIDCSection | PasskeySection | MFASection | SecuritySection | PolicySection
  | LDAPSection | WeComSection | RetentionSection | LicenseSection | AppearanceSection | AboutSection

definition canShowLoginAccessSection :: "settings_cx \<Rightarrow> bool" where
  "canShowLoginAccessSection cx \<longleftrightarrow>
     canReadSystemSettings cx \<or> cx_can cx ''GET'' policies_path \<or> cx_can cx ''GET'' locks_path \<or> cx_can cx ''GET'' license_path"

definition section_shown :: "settings_cx \<Rightarrow> settings_section \<Rightarrow> bool" where
  "section_shown cx s =
     (case s of
        OIDCSection \<Rightarrow> canReadSystemSettings cx
      | SecuritySection \<Rightarrow> canShowLoginAccessSection cx \<and> canReadSystemSettings cx
      | PolicySection \<Rightarrow> canShowLoginAccessSection cx \<and> (cx_can cx ''GET'' policies_path \<or> cx_can cx ''GET'' locks_path)
      | LDAPSection \<Rightarrow> canShowLoginAccessSection cx \<and> canReadSystemSettings cx
      | WeComSection \<Rightarrow> canShowLoginAccessSection cx \<and> canReadSystemSettings cx
      | RetentionSection \<Rightarrow> canShowLoginAccessSection cx \<and> canReadSystemSettings cx
      | LicenseSection \<Rightarrow> canShowLoginAccessSection cx \<and> cx_can cx ''GET'' license_path
      | _ \<Rightarrow> True)"

definition settings_sections :: "settings_cx \<Rightarrow> settings_section list" where
  "settings_sections cx =
     filter (section_shown cx)
       [ProfileSection, KeySection, AccountSection, OIDCSection, PasskeySection, MFASection, SecuritySection, PolicySection,
        LDAPSection, WeComSection, RetentionSection, LicenseSection, AppearanceSection, AboutSection]"

section \<open>What the sections show\<close>

record account_view =
  av_initials :: string
  av_role :: string
  av_tiles :: "(string \<times> string) list"

text \<open>The upper-case initials are the first two UTF-16 units of the name, here of an ASCII name.\<close>

definition account_view_of :: "(string \<Rightarrow> string) \<Rightarrow> auth_user option \<Rightarrow> bootstrap_data \<Rightarrow> string option \<Rightarrow> account_view" where
  "account_view_of formatDate auth data address =
     (let field = (\<lambda>get d. case auth of Some u \<Rightarrow> or_str (get u) d | None \<Rightarrow> d)
      in \<lparr>av_initials = upper (take 2 (field au_username ''admin'')), av_role = field au_role ''admin'',
          av_tiles =
            [(''userId'', field au_id ''-''),
             (''sessionExpires'', formatDate (case auth of Some u \<Rightarrow> au_expires_at u | None \<Rightarrow> '''')),
             (''servers'', show_nat (length (bd_servers data))), (''credentials'', show_nat (length (bd_credentials data))),
             (''activeSessions'', show_nat (length (filter (\<lambda>s. cs_status s = ''active'') (bd_sessions data)))),
             (''gateway'', or_str (opt_str address) ''guacdOffline'')]\<rparr>)"

definition provider_badges :: "bool \<Rightarrow> bool \<Rightarrow> string list" where
  "provider_badges enabled secretSet =
     [if enabled then ''enabled'' else ''disabled'', if secretSet then ''secretSaved'' else ''secretNotSet'']"

definition security_badges :: "login_security \<Rightarrow> string list" where
  "security_badges ls =
     [if ls_captchaEnabled ls then ''captchaEnabled'' else ''captchaDisabled'',
      if ls_passwordLoginDisabled ls then ''passwordLoginDisabled'' else ''passwordLoginEnabled'',
      if ls_forceMFARequired ls then ''forceMFAEnabled'' else ''forceMFADisabled'']
     @ flag (ls_passwordLoginDisabled ls) ''passwordLoginDisabledWarning''"

text \<open>The three switches: what the button says and the change it sends, the opposite of what is shown.\<close>

definition security_switches :: "login_security \<Rightarrow> (string \<times> login_change) list" where
  "security_switches ls =
     [(if ls_captchaEnabled ls then ''disableCaptcha'' else ''enableCaptcha'',
       no_change\<lparr>lc_captcha := Some (\<not> ls_captchaEnabled ls)\<rparr>),
      (if ls_passwordLoginDisabled ls then ''enablePasswordLogin'' else ''disablePasswordLogin'',
       no_change\<lparr>lc_passwordDisabled := Some (\<not> ls_passwordLoginDisabled ls)\<rparr>),
      (if ls_forceMFARequired ls then ''disableForceMFA'' else ''enableForceMFA'',
       no_change\<lparr>lc_forceMFA := Some (\<not> ls_forceMFARequired ls)\<rparr>)]"

record policy_row =
  pr_name :: string
  pr_action :: string
  pr_enabled :: bool
  pr_lines :: "string list"
  pr_buttons :: "settings_button list"

definition policy_row_of :: "(string \<Rightarrow> string) \<Rightarrow> settings_cx \<Rightarrow> platform_item \<Rightarrow> policy_row" where
  "policy_row_of formatDate cx policy =
     \<lparr>pr_name = it_name policy, pr_action = loginPolicyAction policy, pr_enabled = platformItemEnabled policy,
      pr_lines = [loginPolicyAccount policy, loginPolicyCIDR policy, loginPolicyPriority policy, loginPolicyExpiresAt formatDate policy],
      pr_buttons =
        (if cx_can cx ''PATCH'' (policy_item_path policy) then [TogglePolicy policy] else [])
        @ (if cx_can cx ''DELETE'' (policy_item_path policy) then [DeletePolicy policy] else [])\<rparr>"

definition policy_count :: "settings_page \<Rightarrow> nat" where
  "policy_count st = length (filter platformItemEnabled (sp_policies st))"

definition policy_rows :: "(string \<Rightarrow> string) \<Rightarrow> settings_cx \<Rightarrow> settings_page \<Rightarrow> policy_row list" where
  "policy_rows formatDate cx st = (if cx_can cx ''GET'' policies_path then map (policy_row_of formatDate cx) (sp_policies st) else [])"

definition lock_row :: "settings_cx \<Rightarrow> platform_item \<Rightarrow> string list \<times> settings_button list" where
  "lock_row cx lock =
     ([loginLockAccount lock, loginLockClientIP lock, loginLockUntil lock, loginLockFailureCount lock],
      if cx_can cx ''DELETE'' (lock_item_path lock) then [Unlock lock] else [])"

definition lock_rows :: "settings_cx \<Rightarrow> settings_page \<Rightarrow> (string list \<times> settings_button list) list" where
  "lock_rows cx st = (if cx_can cx ''GET'' locks_path then map (lock_row cx) (sp_locks st) else [])"

definition retention_badge :: "retention \<Rightarrow> string" where
  "retention_badge rt = (if rt_setting rt \<noteq> None then ''retentionConfigured'' else ''retentionDefault'')"

definition license_badges :: "js_object option \<Rightarrow> string list" where
  "license_badges info =
     (let get = (\<lambda>k. case info of Some ob \<Rightarrow> stringValue (obj_get ob k) | None \<Rightarrow> '''')
      in [or_str (get ''status'') ''loadingConsole'', or_str (get ''edition'') ''Community'', ''licenseNoEnforcement''])"

definition license_tiles :: "js_object option \<Rightarrow> string \<Rightarrow> (string \<times> string) list" where
  "license_tiles info version =
     (let get = (\<lambda>k. case info of Some ob \<Rightarrow> stringValue (obj_get ob k) | None \<Rightarrow> '''');
          runtime = (\<lambda>k. case info of Some ob \<Rightarrow> or_str (stringValue (obj_get (recordValue (obj_get ob ''runtime'')) k)) ''-'' | None \<Rightarrow> '''')
      in [(''version'', if get ''commit'' \<noteq> '''' then get ''version'' @ '' ('' @ get ''commit'' @ '')''
                        else or_str (get ''version'') (or_str version ''dev'')),
          (''licenseFingerprint'', or_str (get ''installation_fingerprint'') ''-''),
          (''licenseRuntime'', if info = None then ''-'' else runtime ''os'' @ '' / '' @ runtime ''arch''),
          (''licenseUsage'', licenseUsageSummary info)])"

definition license_modules :: "js_object option \<Rightarrow> (string \<times> bool) list" where
  "license_modules info =
     (case info of
        Some ob \<Rightarrow> map (\<lambda>m. (stringValue (obj_get m ''name''), truthy (obj_get m ''enabled''))) (objectArrayValue (obj_get ob ''modules''))
      | None \<Rightarrow> [])"

section \<open>Buttons\<close>

text \<open>The buttons of each section, with whether they are enabled.\<close>

type_synonym drawn_button = "settings_button \<times> bool"

definition key_buttons :: "settings_page \<Rightarrow> drawn_button list" where
  "key_buttons now =
     map (\<lambda>item. (DeleteKey item, \<not> sp_busy now SSHKeyBusy)) (sp_sshKeys now)
     @ [(RegisterKey, \<not> (sp_busy now SSHKeyBusy \<or> trim (sp_sshKeyText now) = ''''))]"

definition password_button :: "settings_page \<Rightarrow> drawn_button list" where
  "password_button now =
     (let f = sp_passwordForm now
      in [(ChangePassword, \<not> (sp_busy now PasswordBusy \<or> pw_current f = '''' \<or> pw_new f = '''' \<or> pw_confirm f = ''''))])"

definition oidc_buttons :: "settings_cx \<Rightarrow> settings_page \<Rightarrow> drawn_button list" where
  "oidc_buttons cx now =
     (if cx_can cx ''POST'' (test_path ''oidc'')
      then [(TestOIDC, \<not> (sp_busy now OIDCTestBusy \<or> setting_id (oi_setting (sp_oidc now)) = ''''))] else [])
     @ (if canSaveSystemSetting cx (setting_id (oi_setting (sp_oidc now)))
        then [(SaveOIDC, \<not> (sp_busy now OIDCBusy \<or> \<not> oidcFormValid (cx_url cx) (sp_oidc now)))] else [])"

definition passkey_buttons :: "settings_cx \<Rightarrow> settings_page \<Rightarrow> drawn_button list" where
  "passkey_buttons cx now =
     map (\<lambda>item. (DeletePasskey item, \<not> sp_busy now PasskeyBusy)) (sp_passkeys now)
     @ [(RegisterPasskey, \<not> (sp_busy now PasskeyBusy \<or> maxPasskeysPerUser \<le> length (sp_passkeys now)
           \<or> \<not> cx_passkeySupported cx \<or> \<not> cx_secureContext cx))]"

definition mfa_buttons :: "settings_page \<Rightarrow> drawn_button list" where
  "mfa_buttons now =
     (case mfa_panel_of now of
        SetupPanel _ _ \<Rightarrow> [(EnableMFA, \<not> (sp_busy now MFABusy \<or> trim (sp_mfaCode now) = ''''))]
      | EnabledPanel needs \<Rightarrow>
          (let off = sp_busy now MFABusy \<or> (needs \<and> trim (sp_mfaPassword now) = '''') \<or> trim (sp_mfaCode now) = ''''
           in [(NewRecoveryCodes, \<not> off), (DisableMFA, \<not> off)])
      | OffPanel \<Rightarrow> [(SetupMFA, \<not> sp_busy now MFABusy)])"

definition security_buttons :: "settings_cx \<Rightarrow> settings_page \<Rightarrow> drawn_button list" where
  "security_buttons cx now =
     (if canSaveSystemSetting cx (setting_id (ls_setting (sp_loginSecurity now)))
      then map (\<lambda>(_, change). (SwitchSecurity change, \<not> sp_busy now LoginSecurityBusy)) (security_switches (sp_loginSecurity now))
           @ [(SaveSecurity, \<not> sp_busy now LoginSecurityBusy)]
      else [])"

definition policy_buttons :: "settings_cx \<Rightarrow> settings_page \<Rightarrow> drawn_button list" where
  "policy_buttons cx now =
     (if cx_can cx ''POST'' policies_path
      then [(CreatePolicy, \<not> (sp_busy now LoginPolicyBusy \<or> trim (pf_cidr (sp_policyForm now)) = ''''))] else [])
     @ concat (map (\<lambda>row. map (\<lambda>b. (b, \<not> sp_busy now LoginPolicyBusy)) (pr_buttons row)) (policy_rows (\<lambda>s. s) cx now))
     @ concat (map (\<lambda>(_, bs). map (\<lambda>b. (b, \<not> sp_busy now LoginLockBusy)) bs) (lock_rows cx now))"

definition ldap_buttons :: "settings_cx \<Rightarrow> settings_page \<Rightarrow> drawn_button list" where
  "ldap_buttons cx now =
     (if cx_can cx ''POST'' (test_path ''ldap'')
      then [(TestLDAP, \<not> (sp_busy now LDAPTestBusy \<or> setting_id (ld_setting (sp_ldap now)) = ''''
              \<or> trim (sp_ldapTestUsername now) = '''' \<or> sp_ldapTestPassword now = ''''))] else [])
     @ (if canSaveSystemSetting cx (setting_id (ld_setting (sp_ldap now)))
        then [(SaveLDAP, \<not> (sp_busy now LDAPBusy \<or> \<not> ldapFormValid (cx_url cx) (sp_ldap now)))] else [])"

definition wecom_buttons :: "settings_cx \<Rightarrow> settings_page \<Rightarrow> drawn_button list" where
  "wecom_buttons cx now =
     (if cx_can cx ''POST'' (test_path ''wecom'')
      then [(TestWeCom, \<not> (sp_busy now WeComTestBusy \<or> setting_id (wc_setting (sp_wecom now)) = ''''))] else [])
     @ (if canSaveSystemSetting cx (setting_id (wc_setting (sp_wecom now)))
        then [(SaveWeCom, \<not> (sp_busy now WeComBusy \<or> \<not> wecomFormValid (sp_wecom now)))] else [])"

definition retention_button :: "settings_cx \<Rightarrow> settings_page \<Rightarrow> drawn_button list" where
  "retention_button cx now =
     (if canSaveSystemSetting cx (setting_id (rt_setting (sp_retention now))) then [(SaveRetention, \<not> sp_busy now RetentionBusy)] else [])"

definition license_button :: "settings_cx \<Rightarrow> settings_page \<Rightarrow> drawn_button list" where
  "license_button cx now = (if cx_can cx ''PUT'' license_path then [(SaveLicense, \<not> sp_busy now LicenseBusy)] else [])"

definition section_buttons :: "settings_cx \<Rightarrow> settings_page \<Rightarrow> settings_section \<Rightarrow> drawn_button list" where
  "section_buttons cx now s =
     (case s of
        KeySection \<Rightarrow> key_buttons now | AccountSection \<Rightarrow> password_button now | OIDCSection \<Rightarrow> oidc_buttons cx now
      | PasskeySection \<Rightarrow> passkey_buttons cx now | MFASection \<Rightarrow> mfa_buttons now | SecuritySection \<Rightarrow> security_buttons cx now
      | PolicySection \<Rightarrow> policy_buttons cx now | LDAPSection \<Rightarrow> ldap_buttons cx now | WeComSection \<Rightarrow> wecom_buttons cx now
      | RetentionSection \<Rightarrow> retention_button cx now | LicenseSection \<Rightarrow> license_button cx now | _ \<Rightarrow> [])"

definition screen_buttons :: "settings_cx \<Rightarrow> settings_page \<Rightarrow> drawn_button list" where
  "screen_buttons cx now = concat (map (section_buttons cx now) (settings_sections cx))"

section \<open>The life of the screen\<close>

text \<open>
  Everything that changes the page: its effects, its buttons, with what any earlier render had captured, and its inputs,
  which are drawn for the state of the moment.
\<close>

inductive settings_screen :: "settings_page \<Rightarrow> bool" where
  opened: "settings_screen (settings_start cx)"
| loaded: "settings_screen st \<Longrightarrow> settings_screen (fst (snd (settings_effect cx ev (st, l))))"
| flags: "settings_screen st \<Longrightarrow> settings_screen (flags_effect captcha passwordDisabled st)"
| pressed: "settings_screen st \<Longrightarrow> settings_screen (fst (press cx ev b now st l))"
| cancelled: "settings_screen st \<Longrightarrow> settings_screen (cancel_mfa_setup st)"
| oidc_entered: "settings_screen st \<Longrightarrow> section_accepts (oidc_inputs (oi_clientSecretSet (sp_oidc st))) i e \<Longrightarrow>
    settings_screen (st\<lparr>sp_oidc := section_enters (oidc_inputs (oi_clientSecretSet (sp_oidc st))) i e (sp_oidc st)\<rparr>)"
| ldap_entered: "settings_screen st \<Longrightarrow> section_accepts (ldap_inputs (ld_bindPasswordSet (sp_ldap st))) i e \<Longrightarrow>
    settings_screen (st\<lparr>sp_ldap := section_enters (ldap_inputs (ld_bindPasswordSet (sp_ldap st))) i e (sp_ldap st)\<rparr>)"
| wecom_entered: "settings_screen st \<Longrightarrow> section_accepts (wecom_inputs (wc_agentSecretSet (sp_wecom st))) i e \<Longrightarrow>
    settings_screen (st\<lparr>sp_wecom := section_enters (wecom_inputs (wc_agentSecretSet (sp_wecom st))) i e (sp_wecom st)\<rparr>)"
| password_entered: "settings_screen st \<Longrightarrow> section_accepts password_inputs i e \<Longrightarrow>
    settings_screen (st\<lparr>sp_passwordForm := section_enters password_inputs i e (sp_passwordForm st)\<rparr>)"
| license_entered: "settings_screen st \<Longrightarrow> section_accepts license_inputs i e \<Longrightarrow>
    settings_screen (st\<lparr>sp_licenseForm := section_enters license_inputs i e (sp_licenseForm st)\<rparr>)"
| policy_entered: "settings_screen st \<Longrightarrow> section_accepts policy_inputs i e \<Longrightarrow>
    settings_screen (st\<lparr>sp_policyForm := section_enters policy_inputs i e (sp_policyForm st)\<rparr>)"
| priority_entered: "settings_screen st \<Longrightarrow> settings_screen (st\<lparr>sp_policyForm := enter_priority t (sp_policyForm st)\<rparr>)"
| lockout_entered: "settings_screen st \<Longrightarrow> settings_screen (st\<lparr>sp_loginSecurity := enter_lockout k t (sp_loginSecurity st)\<rparr>)"
| days_entered: "settings_screen st \<Longrightarrow> settings_screen (st\<lparr>sp_retention := enter_days d t (sp_retention st)\<rparr>)"
| account_entered: "settings_screen st \<Longrightarrow> c \<in> set (passkey_input # key_inputs @ mfa_inputs st @ ldap_test_inputs) \<Longrightarrow>
    settings_screen (control_enters c e st)"

section \<open>Independent inputs\<close>

definition oidc_sound :: "bool \<Rightarrow> oidc_settings \<Rightarrow> bool" where
  "oidc_sound stored f \<longleftrightarrow> oi_clientSecretSet f = stored \<and> (oi_clientSecretClear f \<longrightarrow> stored \<and> oi_clientSecret f = '''')"

definition ldap_sound :: "bool \<Rightarrow> ldap_settings \<Rightarrow> bool" where
  "ldap_sound stored f \<longleftrightarrow> ld_bindPasswordSet f = stored \<and> (ld_bindPasswordClear f \<longrightarrow> stored \<and> ld_bindPassword f = '''')"

definition wecom_sound :: "bool \<Rightarrow> wecom_settings \<Rightarrow> bool" where
  "wecom_sound stored f \<longleftrightarrow> wc_agentSecretSet f = stored \<and> (wc_agentSecretClear f \<longrightarrow> stored \<and> wc_agentSecret f = '''')"

definition provider_links :: "(string \<times> string) list" where
  "provider_links =
     [(''oidcClientSecret'', ''clearOIDCClientSecret''), (''clearOIDCClientSecret'', ''oidcClientSecret''),
      (''password'', ''clearLDAPBindPassword''), (''clearLDAPBindPassword'', ''password''),
      (''wecomAgentSecret'', ''clearWeComAgentSecret''), (''clearWeComAgentSecret'', ''wecomAgentSecret'')]"

lemmas input_laws = lawful_def leaves_def all_entry_split

lemma oidc_lawful: "lawful (oidc_inputs stored) provider_links" "list_all (maintains (oidc_sound stored)) (oidc_inputs stored)"
  by (cases stored; simp add: input_laws oidc_inputs_def oidc_sound_def provider_links_def oidc_auth_methods_def login_roles_def
      token_auth_text_def normalizeOIDCTokenAuthMethod_def)+

lemma ldap_lawful: "lawful (ldap_inputs stored) provider_links" "list_all (maintains (ldap_sound stored)) (ldap_inputs stored)"
  by (cases stored; simp add: input_laws ldap_inputs_def ldap_sound_def provider_links_def login_roles_def)+

lemma wecom_lawful: "lawful (wecom_inputs stored) provider_links" "list_all (maintains (wecom_sound stored)) (wecom_inputs stored)"
  by (cases stored; simp add: input_laws wecom_inputs_def wecom_sound_def provider_links_def login_roles_def)+

interpretation oidc_sec: form_inputs "oidc_sound stored" "\<lambda>i e _. section_accepts (oidc_inputs stored) i e"
  "section_shows (oidc_inputs stored)" "section_enters (oidc_inputs stored)" "section_linked (oidc_inputs stored) provider_links" for stored
  by (rule lawful_section [OF oidc_lawful])

interpretation ldap_sec: form_inputs "ldap_sound stored" "\<lambda>i e _. section_accepts (ldap_inputs stored) i e"
  "section_shows (ldap_inputs stored)" "section_enters (ldap_inputs stored)" "section_linked (ldap_inputs stored) provider_links" for stored
  by (rule lawful_section [OF ldap_lawful])

interpretation wecom_sec: form_inputs "wecom_sound stored" "\<lambda>i e _. section_accepts (wecom_inputs stored) i e"
  "section_shows (wecom_inputs stored)" "section_enters (wecom_inputs stored)" "section_linked (wecom_inputs stored) provider_links" for stored
  by (rule lawful_section [OF wecom_lawful])

lemma plain_lawful:
  "lawful password_inputs []" "lawful license_inputs []" "lawful policy_inputs []" "lawful key_inputs []" "lawful ldap_test_inputs []"
  by (simp_all add: input_laws password_inputs_def license_inputs_def policy_inputs_def key_inputs_def ldap_test_inputs_def policy_action_def)

text \<open>The selects of the appearance.\<close>

lemma setAppearance_one:
  "setAppearance [(''preset'', v)] p = p\<lparr>pf_appearance := (pf_appearance p)\<lparr>ap_preset := v\<rparr>\<rparr>"
  "setAppearance [(''font'', v)] p = p\<lparr>pf_appearance := (pf_appearance p)\<lparr>ap_font := v\<rparr>\<rparr>"
  "setAppearance [(''radius'', v)] p = p\<lparr>pf_appearance := (pf_appearance p)\<lparr>ap_radius := v\<rparr>\<rparr>"
  "setAppearance [(''scale'', v)] p = p\<lparr>pf_appearance := (pf_appearance p)\<lparr>ap_scale := v\<rparr>\<rparr>"
  "setAppearance [(''contentLayout'', v)] p = p\<lparr>pf_appearance := (pf_appearance p)\<lparr>ap_contentLayout := v\<rparr>\<rparr>"
  "setAppearance [(''sidebarStyle'', v)] p = p\<lparr>pf_appearance := (pf_appearance p)\<lparr>ap_sidebarStyle := v\<rparr>\<rparr>"
  by (simp_all add: setAppearance_def appearance_object_def appearance_of_def obj_set_all_def obj_get_def)

lemma appearance_lawful: "lawful appearance_inputs []" "list_all (maintains (\<lambda>_. True)) appearance_inputs"
  by (simp_all add: input_laws appearance_inputs_def appearance_select_def setAppearance_one setTheme_def split_beta)

interpretation appearance_sec: form_inputs "\<lambda>_. True" "\<lambda>i e _. section_accepts appearance_inputs i e"
  "section_shows appearance_inputs" "section_enters appearance_inputs" "section_linked appearance_inputs []"
  by (rule lawful_section [OF appearance_lawful])

section \<open>Secrets and orders to clear them\<close>

definition providers_ok :: "settings_page \<Rightarrow> bool" where
  "providers_ok st \<longleftrightarrow>
     oidc_sound (oi_clientSecretSet (sp_oidc st)) (sp_oidc st) \<and> ldap_sound (ld_bindPasswordSet (sp_ldap st)) (sp_ldap st)
     \<and> wecom_sound (wc_agentSecretSet (sp_wecom st)) (sp_wecom st)"

lemmas sound_defs = oidc_sound_def ldap_sound_def wecom_sound_def

lemma read_providers_sound:
  "\<not> oi_clientSecretClear (oidcSettingsFromSettings items)" "\<not> ld_bindPasswordClear (ldapSettingsFromSettings items)"
  "\<not> wc_agentSecretClear (wecomSettingsFromSettings items)"
  by (simp_all add: oidcSettingsFromSettings_def oidc_of_def defaultOIDCSettings_def ldapSettingsFromSettings_def ldap_of_def
      defaultLDAPSettings_def wecomSettingsFromSettings_def wecom_of_def defaultWeComSettings_def Let_def split: option.splits)

interpretation providers: page_invariant providers_ok
  by unfold_locales
    (simp_all add: providers_ok_def sound_defs show_settings_def set_busy_def remember_oidc_def remember_ldap_def remember_wecom_def
      read_providers_sound)

lemma account_inputs_keep:
  "c \<in> set (passkey_input # key_inputs @ mfa_inputs drawn @ ldap_test_inputs) \<Longrightarrow>
     sp_oidc (control_enters c e st) = sp_oidc st \<and> sp_ldap (control_enters c e st) = sp_ldap st
     \<and> sp_wecom (control_enters c e st) = sp_wecom st \<and> sp_retention (control_enters c e st) = sp_retention st"
  by (cases e) (auto simp: passkey_input_def key_inputs_def mfa_inputs_def ldap_test_inputs_def Let_def split: mfa_panel.splits if_splits)

lemma entered_sound:
  "oidc_sound stored f \<Longrightarrow> section_accepts (oidc_inputs stored) i e \<Longrightarrow>
     oidc_sound (oi_clientSecretSet (section_enters (oidc_inputs stored) i e f)) (section_enters (oidc_inputs stored) i e f)"
  "ldap_sound stored g \<Longrightarrow> section_accepts (ldap_inputs stored) i e \<Longrightarrow>
     ldap_sound (ld_bindPasswordSet (section_enters (ldap_inputs stored) i e g)) (section_enters (ldap_inputs stored) i e g)"
  "wecom_sound stored h \<Longrightarrow> section_accepts (wecom_inputs stored) i e \<Longrightarrow>
     wecom_sound (wc_agentSecretSet (section_enters (wecom_inputs stored) i e h)) (section_enters (wecom_inputs stored) i e h)"
  using oidc_sec.keeps_sound [of stored f i e] ldap_sec.keeps_sound [of stored g i e] wecom_sec.keeps_sound [of stored h i e]
  by (auto simp: sound_defs)

lemma screen_providers_ok: "settings_screen st \<Longrightarrow> providers_ok st"
proof (induction rule: settings_screen.induct)
  case (opened cx)
  then show ?case
    by (simp add: providers_ok_def sound_defs settings_start_def defaultOIDCSettings_def defaultLDAPSettings_def defaultWeComSettings_def)
next
  case (loaded st cx ev l)
  then show ?case using providers.kept by blast
next
  case (pressed st cx ev b now l)
  then show ?case using providers.kept by blast
next
  case (oidc_entered st i e)
  then show ?case using entered_sound(1) by (simp add: providers_ok_def)
next
  case (ldap_entered st i e)
  then show ?case using entered_sound(2) by (simp add: providers_ok_def)
next
  case (wecom_entered st i e)
  then show ?case using entered_sound(3) by (simp add: providers_ok_def)
next
  case (account_entered st c e)
  then show ?case using account_inputs_keep [OF account_entered(2), of e st] by (simp add: providers_ok_def)
qed (auto simp: providers_ok_def flags_effect_def cancel_mfa_setup_def)

text \<open>The screen is an instance of the page's life, whose other inputs are arbitrary.\<close>

lemma screen_reaches: "settings_screen st \<Longrightarrow> settings_reach st"
proof (induction rule: settings_screen.induct)
  case (days_entered st d t)
  then show ?case using settings_reach.reach_days by (simp add: enter_days_def)
next
  case (account_entered st c e)
  then show ?case using account_inputs_keep [OF account_entered(2), of e st] settings_reach.reach_other by blast
next
  case (cancelled st)
  have "sp_retention (cancel_mfa_setup st) = sp_retention st" by (simp add: cancel_mfa_setup_def)
  then show ?case using settings_reach.reach_other [OF cancelled(2)] by blast
qed (assumption | rule settings_reach.reach_start settings_reach.reach_effect settings_reach.reach_flags settings_reach.reach_press
    | (rule settings_reach.reach_other, assumption, simp))+

section \<open>Marks\<close>

lemma flag_Nil [simp]: "flag b m = [] \<longleftrightarrow> \<not> b"
  by (simp add: flag_def)

lemma oidc_marks_iff: "oidc_marks url f = [] \<longleftrightarrow> oidcFormValid url f"
  by (auto simp: oidc_marks_def oidcFormValid_def blank_or_def Let_def)

lemma ldap_marks_valid: "ldap_marks url f = [] \<Longrightarrow> ldapFormValid url f"
  by (auto simp: ldap_marks_def ldapFormValid_def ldapSearchBaseReady_def)

lemma wecom_marks_iff: "wecom_marks f = [] \<longleftrightarrow> wecomFormValid f"
  by (simp only: wecom_marks_def append_is_Nil_conv flag_Nil wecomFormValid_def) blast

section \<open>What is lost on saving\<close>

text \<open>The forms are what the page would read from \<open>items\<close>, whatever was typed into them before.\<close>

definition forms_read :: "settings_cx \<Rightarrow> settings_page \<Rightarrow> platform_item list \<Rightarrow> bool" where
  "forms_read cx st items \<longleftrightarrow>
     sp_retention st = retentionSettingsFromSettings items \<and> sp_oidc st = oidcSettingsFromSettings items
     \<and> sp_ldap st = ldapSettingsFromSettings items \<and> sp_wecom st = wecomSettingsFromSettings items
     \<and> sp_loginSecurity st = loginSecurityFromSettings items (cx_captchaRequired cx) (cx_passwordLoginDisabled cx)"

text \<open>The forms are read from the answer to a request for the settings that has just arrived.\<close>

definition forms_answered :: "settings_cx \<Rightarrow> env \<Rightarrow> settings_page \<Rightarrow> log \<Rightarrow> bool" where
  "forms_answered cx ev st l \<longleftrightarrow>
     (\<exists>l1 v xs. l = l1 @ [Call (get_request settings_path)] \<and> fst (apiRequest ev (get_request settings_path) l1) = Inr v
        \<and> js_prop v ''items'' = Inr (JArr xs) \<and> forms_read cx st (cx_items cx (JArr xs)))"

lemma steps_done:
  "steps (p # ps) s = (None, s') \<Longrightarrow> \<exists>s1. p s = (None, s1) \<and> steps ps s1 = (None, s')"
  by (auto simp: steps.simps andthen_def split: prod.splits option.splits)

lemma loaded_forms:
  assumes "loadLoginSecurity cx ev (st, l) = (None, st', l')"
  shows "forms_answered cx ev st' l'"
proof -
  have run: "awaited ev (get_request settings_path) (\<lambda>v. with_items cx v (\<lambda>items. update (show_settings cx items))) (st, l) = (None, st', l')"
    using assms by (simp add: loadLoginSecurity_def)
  show ?thesis
  proof (cases rule: apiRequest_cases [of ev "get_request settings_path" l])
    case (ok v)
    with run have "with_items cx v (\<lambda>items. update (show_settings cx items)) (st, l @ [Call (get_request settings_path)]) = (None, st', l')"
      by (simp add: awaited_run)
    then obtain xs where "js_prop v ''items'' = Inr (JArr xs)" "st' = show_settings cx (cx_items cx (JArr xs)) st"
        "l' = l @ [Call (get_request settings_path)]"
      by (auto simp: with_items_def read_prop_def throw_def update_def split: sum.splits jsval.splits)
    with ok show ?thesis unfolding forms_answered_def by (intro exI [of _ l] exI [of _ v] exI [of _ xs])
      (simp add: forms_read_def show_settings_def)
  qed (use run in \<open>simp add: awaited_run\<close>)
qed

lemma forms_answered_busy [simp]: "forms_answered cx ev (set_busy b x st) l = forms_answered cx ev st l"
  by (simp add: forms_answered_def forms_read_def set_busy_def)

lemma loaded_then_toast:
  assumes "steps [loadLoginSecurity cx ev, act (toast m)] (st, l) = (None, st', l0 @ [Toast m])"
  shows "forms_answered cx ev st' l0"
proof -
  from steps_done [OF assms] obtain st1 l1 where s1: "loadLoginSecurity cx ev (st, l) = (None, st1, l1)"
    and "steps [act (toast m)] (st1, l1) = (None, st', l0 @ [Toast m])" by (metis prod.collapse)
  then have "st1 = st'" "l1 = l0" by (auto simp: steps.simps andthen_def act_def skip_def toast_def)
  with loaded_forms [OF s1] show ?thesis by simp
qed

lemma retention_saved_reads:
  assumes "saveRetentionSettings cx ev now st l = (st', l0 @ [Toast ''settingsPage.retentionSaved''])"
  shows "forms_answered cx ev st' l0"
proof -
  let ?body = "awaited ev (save_request (setting_id (rt_setting (sp_retention now)))
      (setting_payload (setting_name (rt_setting (sp_retention now)) ''Log retention'') ''retention'' (retention_metadata (sp_retention now))))
      (\<lambda>_. steps [loadLoginSecurity cx ev, act (toast ''settingsPage.retentionSaved'')])"
  have "try_busy (set_busy RetentionBusy) ?body st l = (st', l0 @ [Toast ''settingsPage.retentionSaved''])"
    using assms by (simp add: saveRetentionSettings_def Let_def permission_denied_def toast_def split: if_splits)
  from try_busy_saved [OF this] obtain st1 where
    "?body (set_busy RetentionBusy True st, l) = (None, st1, l0 @ [Toast ''settingsPage.retentionSaved''])"
    and st': "st' = set_busy RetentionBusy False st1" by blast
  from awaited_done [OF this(1)] loaded_then_toast st' show ?thesis by fastforce
qed

lemma provider_saved_reads:
  assumes "save_provider cx ev busy i valid complaint payload remember st l = (st', l0 @ [Toast ''saved''])" "complaint \<noteq> ''saved''"
  shows "forms_answered cx ev st' l0"
proof -
  let ?then = "\<lambda>saved. if SignIn.nullish saved then throw type_error
      else steps [update (remember saved), act (refresh True), loadLoginSecurity cx ev, act (toast ''saved'')]"
  let ?body = "awaited ev (save_request i payload) ?then"
  have "try_busy (set_busy busy) ?body st l = (st', l0 @ [Toast ''saved''])"
    using assms by (simp add: save_provider_def permission_denied_def toast_def split: if_splits)
  from try_busy_saved [OF this] obtain st1 where
    "?body (set_busy busy True st, l) = (None, st1, l0 @ [Toast ''saved''])" and st': "st' = set_busy busy False st1" by blast
  from awaited_done [OF this(1)] obtain v where run: "?then v (set_busy busy True st, l @ [Call (save_request i payload)]) = (None, st1, l0 @ [Toast ''saved''])"
    by blast
  then have some: "\<not> SignIn.nullish v" by (auto simp: throw_def)
  with run have "steps [update (remember v), act (refresh True), loadLoginSecurity cx ev, act (toast ''saved'')]
      (set_busy busy True st, l @ [Call (save_request i payload)]) = (None, st1, l0 @ [Toast ''saved''])" by simp
  from steps_done [OF this] obtain s1 where
    "steps [act (refresh True), loadLoginSecurity cx ev, act (toast ''saved'')] s1 = (None, st1, l0 @ [Toast ''saved''])" by blast
  from steps_done [OF this] obtain s2 where
    "steps [loadLoginSecurity cx ev, act (toast ''saved'')] s2 = (None, st1, l0 @ [Toast ''saved''])" by blast
  with loaded_then_toast st' show ?thesis by (metis forms_answered_busy prod.collapse)
qed

text \<open>What the sections draw is what the page's handlers expect: an enabled button is live.\<close>

lemmas button_lists =
  key_buttons_def password_button_def oidc_buttons_def passkey_buttons_def mfa_buttons_def security_buttons_def policy_buttons_def
  ldap_buttons_def wecom_buttons_def retention_button_def license_button_def

lemma section_buttons_live:
  assumes "section_shown cx s" "(b, True) \<in> set (section_buttons cx now s)"
  shows "button_live cx now b"
  using assms
  by (cases s)
    (auto simp: section_shown_def section_buttons_def button_lists button_live_def mfa_panel_of_def mfa_confirmable_def security_switches_def
      policy_rows_def policy_row_of_def lock_rows_def lock_row_def Let_def split: option.splits if_splits)

lemma drawn_buttons_live: "(b, True) \<in> set (screen_buttons cx now) \<Longrightarrow> button_live cx now b"
  unfolding screen_buttons_def settings_sections_def set_concat set_map set_filter using section_buttons_live by blast

lemma reset_group:
  "(if dw_shows_reset ThemeConfig p then dw_reset ThemeConfig p else p) = p\<lparr>pf_theme := JStr ''system''\<rparr>"
  "(if dw_shows_reset PresetConfig p then dw_reset PresetConfig p else p) =
     p\<lparr>pf_appearance := (pf_appearance p)\<lparr>ap_preset := JStr ''default''\<rparr>\<rparr>"
  "(if dw_shows_reset FontConfig p then dw_reset FontConfig p else p) = p\<lparr>pf_appearance := (pf_appearance p)\<lparr>ap_font := JStr ''default''\<rparr>\<rparr>"
  "(if dw_shows_reset RadiusConfig p then dw_reset RadiusConfig p else p) =
     p\<lparr>pf_appearance := (pf_appearance p)\<lparr>ap_radius := JStr ''default''\<rparr>\<rparr>"
  "(if dw_shows_reset ScaleConfig p then dw_reset ScaleConfig p else p) = p\<lparr>pf_appearance := (pf_appearance p)\<lparr>ap_scale := JStr ''default''\<rparr>\<rparr>"
  "(if dw_shows_reset ContentLayoutConfig p then dw_reset ContentLayoutConfig p else p) =
     p\<lparr>pf_appearance := (pf_appearance p)\<lparr>ap_contentLayout := JStr ''full''\<rparr>\<rparr>"
  "(if dw_shows_reset SidebarConfig p then dw_reset SidebarConfig p else p) =
     p\<lparr>pf_appearance := (pf_appearance p)\<lparr>ap_sidebarStyle := JStr ''default''\<rparr>\<rparr>"
  by (cases p; cases "pf_appearance p"; simp add: drawer_group_defs appearance_group_def setAppearance_one setTheme_def defaultAppearance_def)+

section \<open>Properties\<close>

text \<open>C31 In every state the settings page can reach, an order to clear a stored secret is only given for a stored secret, where
  its box is on the screen, and it is what saving sends: a secret typed before is gone, and typing one withdraws the order.
\<close>
theorem clear_boxes_honoured:
  assumes "settings_screen st"
  shows "secret_fields ''oidc_client_secret'' (oi_clientSecret (sp_oidc st)) (oi_clientSecretClear (sp_oidc st)) =
      (if oi_clientSecretSet (sp_oidc st) \<and> oi_clientSecretClear (sp_oidc st) then [(''oidc_client_secret_clear'', JBool True)]
       else if trim (oi_clientSecret (sp_oidc st)) = '''' then []
       else [(''oidc_client_secret'', JStr (trim (oi_clientSecret (sp_oidc st))))])
    \<and> secret_fields ''ldap_bind_password'' (ld_bindPassword (sp_ldap st)) (ld_bindPasswordClear (sp_ldap st)) =
      (if ld_bindPasswordSet (sp_ldap st) \<and> ld_bindPasswordClear (sp_ldap st) then [(''ldap_bind_password_clear'', JBool True)]
       else if trim (ld_bindPassword (sp_ldap st)) = '''' then []
       else [(''ldap_bind_password'', JStr (trim (ld_bindPassword (sp_ldap st))))])
    \<and> secret_fields ''wecom_agent_secret'' (wc_agentSecret (sp_wecom st)) (wc_agentSecretClear (sp_wecom st)) =
      (if wc_agentSecretSet (sp_wecom st) \<and> wc_agentSecretClear (sp_wecom st) then [(''wecom_agent_secret_clear'', JBool True)]
       else if trim (wc_agentSecret (sp_wecom st)) = '''' then []
       else [(''wecom_agent_secret'', JStr (trim (wc_agentSecret (sp_wecom st))))])"
  using screen_providers_ok [OF assms] by (auto simp: providers_ok_def sound_defs secret_fields_def)

text \<open>
  A save button of an identity provider that is disabled while nothing is being saved is explained: a message stands
  under some field. For OpenID Connect and Enterprise WeChat the messages are there exactly when the form is refused.
\<close>
theorem disabled_save_explained:
  assumes "canReadSystemSettings cx"
  shows "(canSaveSystemSetting cx (setting_id (oi_setting (sp_oidc now))) \<and> \<not> sp_busy now OIDCBusy \<longrightarrow>
            button_live cx now SaveOIDC = (oidc_marks (cx_url cx) (sp_oidc now) = []))
       \<and> (canSaveSystemSetting cx (setting_id (ld_setting (sp_ldap now))) \<and> \<not> sp_busy now LDAPBusy \<and> \<not> button_live cx now SaveLDAP \<longrightarrow>
            ldap_marks (cx_url cx) (sp_ldap now) \<noteq> [])
       \<and> (canSaveSystemSetting cx (setting_id (wc_setting (sp_wecom now))) \<and> \<not> sp_busy now WeComBusy \<longrightarrow>
            button_live cx now SaveWeCom = (wecom_marks (sp_wecom now) = []))"
  using assms ldap_marks_valid [of "cx_url cx" "sp_ldap now"]
  by (auto simp: button_live_def Let_def oidc_marks_iff wecom_marks_iff)

text \<open>C32 Saving one form discards what was typed into the others: whenever the page reports that the retention settings or an
  identity provider were saved, the last request before the message asked for the settings, the server answered it with a
  list, and every form of the page (login security, retention, OIDC, LDAP and WeCom) is what the page reads from that very list,
  whatever stood in it before.
\<close>
theorem saving_discards_other_edits:
  assumes "(b, m) \<in> {(SaveRetention, ''settingsPage.retentionSaved''), (SaveOIDC, ''saved''), (SaveLDAP, ''saved''), (SaveWeCom, ''saved'')}"
    and "press cx ev b now st l = (st', l0 @ [Toast m])"
  shows "\<exists>l1 v xs. l0 = l1 @ [Call (get_request settings_path)] \<and> fst (apiRequest ev (get_request settings_path) l1) = Inr v
      \<and> js_prop v ''items'' = Inr (JArr xs)
      \<and> (let items = cx_items cx (JArr xs) in
           sp_retention st' = retentionSettingsFromSettings items \<and> sp_oidc st' = oidcSettingsFromSettings items
           \<and> sp_ldap st' = ldapSettingsFromSettings items \<and> sp_wecom st' = wecomSettingsFromSettings items
           \<and> sp_loginSecurity st' = loginSecurityFromSettings items (cx_captchaRequired cx) (cx_passwordLoginDisabled cx))"
proof -
  have "forms_answered cx ev st' l0"
    using assms
    by (auto simp: press_def saveOIDCSettings_def saveLDAPSettings_def saveWeComSettings_def Let_def
        dest!: retention_saved_reads provider_saved_reads)
  then show ?thesis by (simp add: forms_answered_def forms_read_def Let_def)
qed

text \<open>
  The settings page and the drawer of the header set the same preferences: they offer the same choices, show the same
  values and store the same. Pressing every reset button the drawer shows gives the preferences of a new user.
\<close>
theorem appearance_places_agree:
  "list_all2 (\<lambda>g c. ct_label c = dw_label g
       \<and> (\<forall>t. control_accepts c (Typed t) = (t \<in> set (dw_options g)))
       \<and> (\<forall>p lang. control_shows c (p, lang) = Typed (js_to_string (dw_value g p)))
       \<and> (\<forall>t p lang. control_enters c (Typed t) (p, lang) = (dw_choose g t p, lang)))
     drawer_groups (filter (\<lambda>c. ct_label c \<noteq> ''language'') appearance_inputs)
   \<and> press_shown_resets p = setTheme (JStr ''system'') (resetAppearance p)"
proof
  show "list_all2 (\<lambda>g c. ct_label c = dw_label g
       \<and> (\<forall>t. control_accepts c (Typed t) = (t \<in> set (dw_options g)))
       \<and> (\<forall>p lang. control_shows c (p, lang) = Typed (js_to_string (dw_value g p)))
       \<and> (\<forall>t p lang. control_enters c (Typed t) (p, lang) = (dw_choose g t p, lang)))
     drawer_groups (filter (\<lambda>c. ct_label c \<noteq> ''language'') appearance_inputs)"
    by (simp add: drawer_groups_def drawer_group_defs appearance_inputs_def appearance_select_def appearance_group_def)
  show "press_shown_resets p = setTheme (JStr ''system'') (resetAppearance p)"
    by (simp add: press_shown_resets_def drawer_groups_def reset_group setTheme_def resetAppearance_def defaultAppearance_def)
qed

section \<open>Witnesses\<close>

lemma clear_boxes_honoured_witness:
  "secret_fields ''oidc_client_secret'' ''s3'' False = [(''oidc_client_secret'', JStr ''s3'')]"
proof -
  let ?st = "settings_start open_cx"
  let ?st' = "?st\<lparr>sp_oidc := section_enters (oidc_inputs (oi_clientSecretSet (sp_oidc ?st))) 3 (Typed ''s3'') (sp_oidc ?st)\<rparr>"
  have accepted: "section_accepts (oidc_inputs (oi_clientSecretSet (sp_oidc ?st))) 3 (Typed ''s3'')"
    by (simp add: section_accepts_def oidc_inputs_def)
  have typed: "oi_clientSecret (sp_oidc ?st') = ''s3''" "\<not> oi_clientSecretClear (sp_oidc ?st')"
    by (simp_all add: section_enters_def oidc_inputs_def)
  have "trim ''s3'' = ''s3''" by code_simp
  then show ?thesis
    using clear_boxes_honoured [OF settings_screen.oidc_entered [OF settings_screen.opened accepted], THEN conjunct1] typed by simp
qed

lemma disabled_save_explained_witness:
  "wecom_marks ((sp_wecom (settings_start open_cx))\<lparr>wc_enabled := True\<rparr>) \<noteq> []
   \<and> \<not> button_live open_cx ((settings_start open_cx)\<lparr>sp_wecom := (sp_wecom (settings_start open_cx))\<lparr>wc_enabled := True\<rparr>\<rparr>) SaveWeCom"
proof -
  let ?st = "(settings_start open_cx)\<lparr>sp_wecom := (sp_wecom (settings_start open_cx))\<lparr>wc_enabled := True\<rparr>\<rparr>"
  have rights: "canReadSystemSettings open_cx" "\<And>i. canSaveSystemSetting open_cx i"
    by (simp_all add: open_cx_def canReadSystemSettings_def canSaveSystemSetting_def)
  have "\<not> sp_busy ?st WeComBusy" by (simp add: settings_start_def)
  moreover have "wecom_marks (sp_wecom ?st) \<noteq> []"
    by (simp add: wecom_marks_def flag_def settings_start_def defaultWeComSettings_def)
  ultimately show ?thesis using disabled_save_explained [OF rights(1), of ?st] rights(2) by simp
qed

text \<open>An LDAP address typed and not saved is gone once the retention settings were.\<close>

lemma saving_discards_other_edits_witness:
  "sp_ldap (fst (press open_cx kind_server SaveRetention (settings_start open_cx)
     ((settings_start open_cx)\<lparr>sp_ldap := defaultLDAPSettings\<lparr>ld_url := ''ldap://typed''\<rparr>\<rparr>) [])) = ldapSettingsFromSettings []"
proof -
  let ?st = "(settings_start open_cx)\<lparr>sp_ldap := defaultLDAPSettings\<lparr>ld_url := ''ldap://typed''\<rparr>\<rparr>"
  let ?run = "press open_cx kind_server SaveRetention (settings_start open_cx) ?st []"
  have "\<And>i. canSaveSystemSetting open_cx i" by (simp add: open_cx_def canSaveSystemSetting_def)
  then have "\<exists>l0. snd ?run = l0 @ [Toast ''settingsPage.retentionSaved'']"
    by (simp add: press_def saveRetentionSettings_def try_busy_def awaited_def kind_answers with_items_def read_prop_def js_prop_def
        obj_get_def loadLoginSecurity_def toast_def Let_def)
  then obtain l0 where "?run = (fst ?run, l0 @ [Toast ''settingsPage.retentionSaved''])" by (metis prod.collapse)
  from saving_discards_other_edits [OF _ this] show ?thesis by (auto simp: open_cx_def Let_def)
qed

end
