(* ===== verification/WorkspaceScreens.thy ===== *)
theory WorkspaceScreens
  imports Desktop Controls "HOL-Library.Multiset"
begin

text \<open>
  What the session screen draws below its bar (\<open>SSHWorkspace\<close> and \<open>RDPWorkspace\<close> of \<open>workspace-view.tsx\<close>): the dialog of the
  SFTP file manager, the clipboard and the drive dialog of a desktop, the watermark, and the window events by which
  the buttons of the bar reach them. The dialogs drive the state of \<open>RemoteFiles\<close> and \<open>Desktop\<close>.
\<close>

section \<open>The file dialog\<close>

text \<open>The inputs, with the panels of the editor and of a copy or rename only while they are open.\<close>

definition files_inputs :: "remote_files \<Rightarrow> remote_files control list" where
  "files_inputs drawn =
     [TextBox ''folderName'' rf_folderName (\<lambda>t st. st\<lparr>rf_folderName := t\<rparr>),
      TextBox ''newFileName'' rf_newFileName (\<lambda>t st. st\<lparr>rf_newFileName := t\<rparr>)]
     @ (if rf_editingPath drawn \<noteq> ''''
        then [TextBox ''editingContent'' rf_editingContent (\<lambda>t st. st\<lparr>rf_editingContent := t\<rparr>)] else [])
     @ (if rf_mode drawn \<noteq> ''''
        then [TextBox ''sourcePath'' rf_source (\<lambda>t st. st\<lparr>rf_source := t\<rparr>),
              TextBox ''destinationPath'' rf_destination (\<lambda>t st. st\<lparr>rf_destination := t\<rparr>),
              TickBox ''overwriteDestination'' rf_overwrite (\<lambda>b st. st\<lparr>rf_overwrite := b\<rparr>)]
        else [])"

datatype files_button =
    UploadHere | ParentFolder | RefreshFiles | CreateFolder | CreateTextFile | CancelEdit | SaveFile | CancelAction | RunAction
  | OpenName file_entry | OpenFolder file_entry | DownloadFile file_entry | EditFile file_entry
  | CopyEntry file_entry | RenameEntry file_entry | DeleteFile file_entry

definition entry_buttons :: "file_entry \<Rightarrow> (files_button \<times> bool) list" where
  "entry_buttons entry =
     (OpenName entry, fe_is_dir entry)
     # (if fe_is_dir entry then [(OpenFolder entry, True)] else [(DownloadFile entry, True), (EditFile entry, True)])
     @ [(CopyEntry entry, True), (RenameEntry entry, True), (DeleteFile entry, True)]"

definition files_buttons :: "file_entry list \<Rightarrow> remote_files \<Rightarrow> (files_button \<times> bool) list" where
  "files_buttons entries st =
     [(UploadHere, \<not> rf_uploading st), (ParentFolder, \<not> (currentPath st = '''' \<or> currentPath st = ''/'')), (RefreshFiles, True),
      (CreateFolder, trim (rf_folderName st) \<noteq> ''''), (CreateTextFile, trim (rf_newFileName st) \<noteq> '''')]
     @ (if rf_editingPath st \<noteq> '''' then [(CancelEdit, True), (SaveFile, \<not> rf_savingFile st)] else [])
     @ (if rf_mode st \<noteq> ''''
        then [(CancelAction, True), (RunAction, \<not> (rf_running st \<or> trim (rf_source st) = '''' \<or> trim (rf_destination st) = ''''))] else [])
     @ concat (map entry_buttons entries)"

text \<open>What a button starts; \<open>picked\<close> is the file the picker of the browser returns.\<close>

definition press_files :: "(string \<Rightarrow> string) \<Rightarrow> string \<Rightarrow> jsval \<Rightarrow> files_button \<Rightarrow> remote_files \<Rightarrow> remote_files" where
  "press_files encode session picked b st =
     (case b of
        UploadHere \<Rightarrow> uploadFile session picked st
      | ParentFolder \<Rightarrow> goParent st
      | RefreshFiles \<Rightarrow> files_effects [refetch] st
      | CreateFolder \<Rightarrow> createFolder session st
      | CreateTextFile \<Rightarrow> beginNewTextFile st
      | CancelEdit \<Rightarrow> st\<lparr>rf_editingPath := '''', rf_editingContent := ''''\<rparr>
      | SaveFile \<Rightarrow> saveEditedFile session st
      | CancelAction \<Rightarrow> st\<lparr>rf_mode := ''''\<rparr>
      | RunAction \<Rightarrow> runFileAction session st
      | OpenName entry \<Rightarrow> openEntry entry st
      | OpenFolder entry \<Rightarrow> openEntry entry st
      | DownloadFile entry \<Rightarrow> downloadEntry encode session entry st
      | EditFile entry \<Rightarrow> editEntry encode session entry st
      | CopyEntry entry \<Rightarrow> beginFileAction ''copy'' entry st
      | RenameEntry entry \<Rightarrow> beginFileAction ''rename'' entry st
      | DeleteFile entry \<Rightarrow> deleteEntry entry st)"

text \<open>The Enter key in the two name boxes.\<close>

definition folder_key :: "string \<Rightarrow> string \<Rightarrow> remote_files \<Rightarrow> remote_files" where
  "folder_key session key st = (if key = ''Enter'' then createFolder session st else st)"

definition file_key :: "string \<Rightarrow> remote_files \<Rightarrow> remote_files" where
  "file_key key st = (if key = ''Enter'' then beginNewTextFile st else st)"

text \<open>What the listing query tells: a reload that fails keeps the entries of before.\<close>

record listing =
  lq_loading :: bool
  lq_error :: bool
  lq_entries :: "file_entry list option"

definition files_rows :: "(string \<Rightarrow> string) \<Rightarrow> (rat \<Rightarrow> string) \<Rightarrow> file_entry list \<Rightarrow> (string \<times> string \<times> string) list" where
  "files_rows formatDate bytes entries =
     map (\<lambda>e. (fe_name e, if fe_is_dir e then ''-'' else bytes (fe_size e), formatDate (fe_modified e))) entries"

definition files_body :: "(string \<Rightarrow> string) \<Rightarrow> (rat \<Rightarrow> string) \<Rightarrow> listing \<Rightarrow> string list \<times> (string \<times> string \<times> string) list" where
  "files_body formatDate bytes ls =
     (let failed = (if lq_error ls then [''fileListFailed''] else []);
          entries = (case lq_entries ls of Some es \<Rightarrow> es | None \<Rightarrow> [])
      in if lq_loading ls then (failed @ [''refreshFiles...''], [])
         else if entries = [] then (failed @ [''emptyFiles''], [])
         else (failed, files_rows formatDate bytes entries))"

definition shown_path :: "remote_files \<Rightarrow> string" where
  "shown_path st = or_str (currentPath st) ''/''"

section \<open>The events of the bar\<close>

text \<open>The window events the listeners of a workspace wait for; a desktop without the client library installs only one.\<close>

definition ssh_events :: "workspace \<Rightarrow> string list" where
  "ssh_events wk = ''ssh-snippet'' # (if sshFileTransferEnabled wk then [''ssh-files'', ''ssh-upload''] else [])"

definition desktop_events :: "bool \<Rightarrow> workspace \<Rightarrow> string list" where
  "desktop_events has_library wk =
     (if fileTransferEnabled wk then [''desktop-files''] else [])
     @ (if has_library
        then (if clipboard_enabled wk then [''desktop-clipboard''] else [])
             @ (if fileTransferEnabled wk then [''desktop-upload''] else [])
        else [])"

definition workspace_events :: "bool \<Rightarrow> workspace \<Rightarrow> string list" where
  "workspace_events has_library wk = (if wk_type wk = SSHKind then ssh_events wk else desktop_events has_library wk)"

text \<open>What a control of the bar dispatches.\<close>

fun control_event :: "shell_control \<Rightarrow> string option" where
  "control_event (InsertSnippet _) = Some ''ssh-snippet''"
| "control_event SSHFiles = Some ''ssh-files''"
| "control_event SSHUpload = Some ''ssh-upload''"
| "control_event DesktopClipboard = Some ''desktop-clipboard''"
| "control_event DesktopFiles = Some ''desktop-files''"
| "control_event DesktopUpload = Some ''desktop-upload''"
| "control_event _ = None"

text \<open>What the listeners do to the dialogs.\<close>

definition onFiles :: "remote_files \<Rightarrow> remote_files" where
  "onFiles st = st\<lparr>rf_open := True\<rparr>"

definition onDriveFiles :: "desktop \<Rightarrow> desktop" where
  "onDriveFiles st = st\<lparr>dk_driveOpen := True\<rparr>"

text \<open>The listeners of the desktop effect, as it installs and as it removes them.\<close>

definition desktop_listeners :: "bool \<Rightarrow> bool \<Rightarrow> (string \<times> string \<times> string) list" where
  "desktop_listeners clipboard transfer =
     [(''display'', ''mousedown'', ''releaseStaleModifiers''), (''display'', ''mousedown'', ''focusDisplay''),
      (''display'', ''blur'', ''releaseInputState''), (''display'', ''keydown'', ''preventBrowserKeyboardAction''),
      (''display'', ''keyup'', ''preventBrowserKeyboardAction''), (''display'', ''contextmenu'', ''preventBrowserPointerAction''),
      (''display'', ''dragstart'', ''preventBrowserPointerAction''), (''document'', ''pointerdown'', ''onDocumentPointerDown'')]
     @ (if clipboard then [(''window'', ''desktop-clipboard'', ''onClipboard'')] else [])
     @ (if transfer then [(''window'', ''desktop-upload'', ''onUpload'')] else [])
     @ [(''window'', ''resize'', ''onResize''), (''window'', ''keyup'', ''onWindowKeyUp''), (''window'', ''blur'', ''releaseInputState''),
        (''document'', ''visibilitychange'', ''releaseInputState''), (''window'', ''beforeunload'', ''onBeforeUnload'')]"

definition removed_listeners :: "bool \<Rightarrow> bool \<Rightarrow> (string \<times> string \<times> string) list" where
  "removed_listeners clipboard transfer =
     [(''display'', ''mousedown'', ''releaseStaleModifiers''), (''display'', ''mousedown'', ''focusDisplay''),
      (''display'', ''blur'', ''releaseInputState''), (''display'', ''keydown'', ''preventBrowserKeyboardAction''),
      (''display'', ''keyup'', ''preventBrowserKeyboardAction''), (''display'', ''contextmenu'', ''preventBrowserPointerAction''),
      (''display'', ''dragstart'', ''preventBrowserPointerAction''), (''document'', ''pointerdown'', ''onDocumentPointerDown'')]
     @ (if clipboard then [(''window'', ''desktop-clipboard'', ''onClipboard'')] else [])
     @ (if transfer then [(''window'', ''desktop-upload'', ''onUpload'')] else [])
     @ [(''window'', ''resize'', ''onResize''), (''window'', ''keyup'', ''onWindowKeyUp''), (''window'', ''blur'', ''releaseInputState''),
        (''document'', ''visibilitychange'', ''releaseInputState''), (''window'', ''beforeunload'', ''onBeforeUnload'')]"

text \<open>Leaving the desktop: the keys are released before the connection is closed.\<close>

datatype client_call = KeyUp nat | Disconnect_client

definition desktop_cleanup :: "nat list \<Rightarrow> keys \<Rightarrow> keys \<times> client_call list" where
  "desktop_cleanup released st =
     (let st' = releaseInputState released st
      in (st', map (\<lambda>(_, k). KeyUp k) (drop (length (ks_sent st)) (ks_sent st')) @ [Disconnect_client]))"

section \<open>The dialogs of a desktop\<close>

definition clipboard_input :: "desktop control" where
  "clipboard_input = TextBox ''clipboardPrompt'' dk_clipboardText (\<lambda>t st. st\<lparr>dk_clipboardText := t\<rparr>)"

datatype desktop_button =
    CopyRemote | CancelClipboard | SendClipboard | UploadToDrive | ParentDriveFolder | RefreshDrive
  | OpenDriveName file_entry | OpenDrive file_entry | DownloadDrive file_entry | DeleteDrive file_entry

definition clipboard_buttons :: "desktop \<Rightarrow> (desktop_button \<times> bool) list" where
  "clipboard_buttons st =
     (if dk_clipboardOpen st then [(CopyRemote, dk_remoteText st \<noteq> ''''), (CancelClipboard, True), (SendClipboard, True)] else [])"

definition remote_clipboard :: "(string \<Rightarrow> string) \<Rightarrow> string \<Rightarrow> desktop \<Rightarrow> string list" where
  "remote_clipboard formatDate updatedAt st =
     (if dk_remoteText st \<noteq> ''''
      then [dk_remoteText st,
            or_str (dk_remoteMime st) ''text/plain'' @ (if updatedAt \<noteq> '''' then '' - '' @ formatDate updatedAt else '''')]
      else [''remoteClipboardEmpty''])"

definition drive_entry_buttons :: "file_entry \<Rightarrow> (desktop_button \<times> bool) list" where
  "drive_entry_buttons entry =
     [(OpenDriveName entry, fe_is_dir entry), (if fe_is_dir entry then OpenDrive entry else DownloadDrive entry, True), (DeleteDrive entry, True)]"

definition drive_buttons :: "file_entry list \<Rightarrow> desktop \<Rightarrow> (desktop_button \<times> bool) list" where
  "drive_buttons entries st =
     (if dk_driveOpen st
      then [(UploadToDrive, \<not> dk_uploading st), (ParentDriveFolder, dk_drivePath st \<noteq> ''''), (RefreshDrive, True)]
           @ concat (map drive_entry_buttons entries)
      else [])"

definition drive_path_text :: "string option \<Rightarrow> string" where
  "drive_path_text listed = (let p = opt_str listed in if p \<noteq> '''' \<and> p \<noteq> ''.'' then p else ''/'')"

definition press_desktop ::
  "(string \<Rightarrow> string) \<Rightarrow> string \<Rightarrow> env \<Rightarrow> clipboard \<Rightarrow> bool \<Rightarrow> jsval \<Rightarrow> desktop_button \<Rightarrow> desktop \<Rightarrow> log \<Rightarrow> desktop \<times> log" where
  "press_desktop encode session ev cb has_client picked b st l =
     (case b of
        CopyRemote \<Rightarrow> (st, copyRemoteClipboard cb st l)
      | CancelClipboard \<Rightarrow> (st\<lparr>dk_clipboardOpen := False\<rparr>, l)
      | SendClipboard \<Rightarrow> sendClipboardText has_client st l
      | UploadToDrive \<Rightarrow> uploadDriveFile session ev picked st l
      | ParentDriveFolder \<Rightarrow> (goParentDriveFolder st, l)
      | RefreshDrive \<Rightarrow> (st, l @ [Emit ''refetch'' (JStr ''desktop-drive'')])
      | OpenDriveName entry \<Rightarrow> (openDriveEntry entry st, l)
      | OpenDrive entry \<Rightarrow> (openDriveEntry entry st, l)
      | DownloadDrive entry \<Rightarrow> (st, downloadDriveEntry encode session ev entry l)
      | DeleteDrive entry \<Rightarrow> (st, deleteDriveEntry encode session ev entry l))"

section \<open>The watermark\<close>

definition watermark_overlay :: "string \<Rightarrow> string \<Rightarrow> rat \<Rightarrow> (string \<times> string \<times> string) option" where
  "watermark_overlay text_shown color font_size =
     (if text_shown = '''' then None
      else Some (text_shown, or_str color ''rgba(255,255,255,0.18)'', num_text (Fin (or_num font_size 28)) @ ''px''))"

section \<open>The dialog drives the file manager\<close>

text \<open>
  The life of the SFTP dialog: its buttons, inputs and keys while it is open, the events of the bar, and what arrives. A
  button is pressed for the listing of the moment, whatever it is.
\<close>

inductive files_screen :: "(string \<Rightarrow> string) \<Rightarrow> string \<Rightarrow> remote_files \<Rightarrow> remote_files \<Rightarrow> bool"
  for encode session where
  pressed: "rf_open st \<Longrightarrow> (b, True) \<in> set (files_buttons entries st) \<Longrightarrow>
    files_screen encode session st (press_files encode session picked b st)"
| entered: "rf_open st \<Longrightarrow> c \<in> set (files_inputs st) \<Longrightarrow> control_accepts c e \<Longrightarrow> files_screen encode session st (control_enters c e st)"
| key_in_folder: "rf_open st \<Longrightarrow> files_screen encode session st (folder_key session key st)"
| key_in_file: "rf_open st \<Longrightarrow> files_screen encode session st (file_key key st)"
| bar_files: "files_screen encode session st (onFiles st)"
| bar_upload: "files_screen encode session st (uploadFile session picked st)"
| shown_or_hidden: "files_screen encode session st (st\<lparr>rf_open := b\<rparr>)"
| list_arrived: "files_screen encode session st (st\<lparr>rf_listing := p\<rparr>)"
| delete_answered: "AwaitConfirm e \<in> set (rf_tasks st) \<Longrightarrow>
    files_screen encode session st
      (answer_delete encode session yes e (files_effects [answer_mark yes e] (drop_task (AwaitConfirm e) st)))"
| task_answered: "t \<in> set (rf_tasks st) \<Longrightarrow> (\<And>e. t \<noteq> AwaitConfirm e) \<Longrightarrow>
    files_screen encode session st (resume t r (drop_task t st))"

lemma drawn_buttons:
  "(ParentFolder, True) \<in> set (files_buttons entries st) \<Longrightarrow> currentPath st \<noteq> '''' \<and> currentPath st \<noteq> ''/''"
  by (auto simp: files_buttons_def entry_buttons_def split: if_splits)

lemma press_is_step:
  assumes "(b, True) \<in> set (files_buttons entries st)"
  shows "files_step encode session st (press_files encode session picked b st)"
  using drawn_buttons [of entries st] assms by (cases b) (auto simp: press_files_def intro: files_step.intros)

lemma input_is_step:
  assumes "c \<in> set (files_inputs st)" "control_accepts c e"
  shows "files_step encode session st (control_enters c e st)"
  using assms by (cases e) (auto simp: files_inputs_def intro: files_step.intros split: if_splits)

lemma screen_is_step: "files_screen encode session st st' \<Longrightarrow> (files_step encode session)\<^sup>*\<^sup>* st st'"
proof (induction rule: files_screen.induct)
  case (key_in_folder st key)
  then show ?case by (auto simp: folder_key_def intro: files_step.mkdir)
next
  case (key_in_file st key)
  then show ?case by (auto simp: file_key_def intro: files_step.new_file)
next
  case (bar_files st)
  then show ?case by (auto simp: onFiles_def intro: files_step.show_dialog)
qed (auto intro: press_is_step input_is_step files_step.intros)

text \<open>The editor and the panel of a copy or rename are never open together.\<close>

definition one_panel :: "remote_files \<Rightarrow> bool" where
  "one_panel st \<longleftrightarrow> rf_editingPath st = '''' \<or> rf_mode st = ''''"

lemma one_panel_step: "files_step encode session st st' \<Longrightarrow> one_panel st \<Longrightarrow> one_panel st'"
  by (induction rule: files_step.induct)
    (auto simp: one_panel_def openEntry_def goParent_def downloadEntry_def deleteEntry_def answer_delete_def createFolder_def editEntry_def
      beginNewTextFile_def saveEditedFile_def beginFileAction_def runFileAction_def uploadFile_def awaiting_def files_effects_def
      drop_task_def resume_def Let_def split: file_task.splits sum.splits if_splits)

lemma one_panel_run: "(files_step encode session)\<^sup>*\<^sup>* initial_files st \<Longrightarrow> one_panel st"
  by (induction rule: rtranclp_induct) (use one_panel_step in \<open>auto simp: one_panel_def initial_files_def\<close>)

lemma screen_run_is_run: "(files_screen encode session)\<^sup>*\<^sup>* st st' \<Longrightarrow> (files_step encode session)\<^sup>*\<^sup>* st st'"
  by (induction rule: rtranclp_induct) (auto dest: screen_is_step)

section \<open>Leaving a desktop\<close>

lemma onkeyup_log: "ks_sent (foldl (\<lambda>s k. onkeyup k s) st ks) = ks_sent st @ map (Pair False) ks"
  by (induction ks arbitrary: st) (simp_all add: onkeyup_def sendKeyEvent_def)

lemma releaseKeysyms_log:
  "distinct ks \<Longrightarrow> set ks \<subseteq> set (ks_pressed st) \<Longrightarrow> distinct (ks_pressed st) \<Longrightarrow>
     ks_sent (releaseKeysyms ks st) = ks_sent st @ map (Pair False) ks"
proof (induction ks arbitrary: st)
  case (Cons k ks)
  let ?st = "sendKeyEvent False k (st\<lparr>ks_pressed := remove1 k (ks_pressed st)\<rparr>)"
  have "set ks \<subseteq> set (ks_pressed ?st)" "distinct (ks_pressed ?st)" using Cons.prems by (auto simp: sendKeyEvent_def)
  with Cons.prems Cons.IH [of ?st] show ?case by (simp add: sendKeyEvent_def)
qed simp

lemma foldl_onkeyup_pressed: "set (ks_pressed st) \<subseteq> set ks \<union> set (ks_pressed (foldl (\<lambda>s k. onkeyup k s) st ks))"
proof (induction ks arbitrary: st)
  case (Cons k ks)
  have "set (ks_pressed st) \<subseteq> {k} \<union> set (ks_pressed (onkeyup k st))" by (auto simp: onkeyup_def sendKeyEvent_def) (metis in_set_remove1)
  then show ?case using Cons [of "onkeyup k st"] by auto
qed simp

lemma releaseInputState_log:
  assumes "keys_ok st"
  shows "\<exists>ks. ks_sent (releaseInputState rs st) = ks_sent st @ map (Pair False) ks \<and> set (ks_pressed st) \<subseteq> set ks"
proof -
  let ?st1 = "foldl (\<lambda>s k. onkeyup k s) st rs"
  have "keys_ok ?st1" using assms by (rule keys_ok_reset)
  then have "ks_sent (releaseKeysyms (ks_pressed ?st1) ?st1) = ks_sent ?st1 @ map (Pair False) (ks_pressed ?st1)"
    by (intro releaseKeysyms_log) (auto simp: keys_ok_def)
  then have "ks_sent (releaseInputState rs st) = ks_sent st @ map (Pair False) (rs @ ks_pressed ?st1)"
    by (simp add: releaseInputState_def Let_def onkeyup_log)
  moreover have "set (ks_pressed st) \<subseteq> set (rs @ ks_pressed ?st1)" using foldl_onkeyup_pressed [of st rs] by auto
  ultimately show ?thesis by blast
qed

section \<open>Properties\<close>

text \<open>
  The SFTP dialog does only what the file manager allows: every run of its buttons, inputs, keys and answers is a run of
  the file manager, so that what is proved there of every run holds of the dialog.
\<close>

lemma screen_run_ok:
  assumes "(files_screen encode session)\<^sup>*\<^sup>* initial_files st"
  shows "files_ok encode session st" and "one_panel st"
  using screen_run_is_run [OF assms] files_reachable_ok one_panel_run by blast+

lemma save_drawn: "(SaveFile, b) \<in> set (files_buttons entries st) \<longleftrightarrow> rf_editingPath st \<noteq> '''' \<and> b = (\<not> rf_savingFile st)"
  by (auto simp: files_buttons_def entry_buttons_def split: if_splits)

lemma run_drawn:
  "(RunAction, b) \<in> set (files_buttons entries st) \<longleftrightarrow>
     rf_mode st \<noteq> '''' \<and> b = (\<not> (rf_running st \<or> trim (rf_source st) = '''' \<or> trim (rf_destination st) = ''''))"
  by (auto simp: files_buttons_def entry_buttons_def split: if_splits)

lemma no_task_iff:
  "files_ok encode session st \<Longrightarrow> (\<exists>t \<in> set (rf_tasks st). is_save t) \<longleftrightarrow> rf_savingFile st"
  "files_ok encode session st \<Longrightarrow> (\<exists>t \<in> set (rf_tasks st). is_action t) \<longleftrightarrow> rf_running st"
  by (auto simp: files_ok_def filter_empty_conv split: if_splits dest: arg_cong [of _ _ set])
    (metis One_nat_def length_0_conv filter_empty_conv zero_neq_one)+

text \<open>C33 The save button of the editor and the start button of a copy or rename are never drawn together; in every run of the
  SFTP dialog the save button can be pressed exactly when no save is under way, and a press sends one request, the text
  and the path the editor shows, after which the button cannot be pressed again. The start button
  can be pressed exactly when both paths are given and no copy or rename is under way, and works the same way.
\<close>
theorem file_panels_exclusive:
  assumes "(files_screen encode session)\<^sup>*\<^sup>* initial_files st"
  shows "((SaveFile, b) \<in> set (files_buttons entries st) \<longrightarrow>
      (\<forall>c. (RunAction, c) \<notin> set (files_buttons entries st))
      \<and> (b \<longleftrightarrow> \<not> (\<exists>t \<in> set (rf_tasks st). is_save t))
      \<and> (b \<longrightarrow> rf_log (press_files encode session picked SaveFile st) =
                rf_log st @ [Call (post_request (sftp session ''/write'')
                  (JObj [(''path'', JStr (rf_editingPath st)), (''content'', JStr (rf_editingContent st))]))]
              \<and> (SaveFile, True) \<notin> set (files_buttons entries (press_files encode session picked SaveFile st))))
    \<and> ((RunAction, c) \<in> set (files_buttons entries st) \<longrightarrow>
      (\<forall>b. (SaveFile, b) \<notin> set (files_buttons entries st))
      \<and> (c \<longleftrightarrow> trim (rf_source st) \<noteq> '''' \<and> trim (rf_destination st) \<noteq> '''' \<and> \<not> (\<exists>t \<in> set (rf_tasks st). is_action t))
      \<and> (c \<longrightarrow> rf_log (press_files encode session picked RunAction st) =
                rf_log st @ [Call (post_request (sftp session (CHR ''/'' # rf_mode st))
                  (JObj [(''path'', JStr (rf_source st)), (''destination'', JStr (rf_destination st)),
                         (''overwrite'', JBool (rf_overwrite st))]))]
              \<and> (RunAction, True) \<notin> set (files_buttons entries (press_files encode session picked RunAction st))))"
  unfolding no_task_iff [OF screen_run_ok(1) [OF assms]] save_drawn run_drawn
  using screen_run_ok(2) [OF assms]
  by (auto simp: one_panel_def press_files_def saveEditedFile_def save_file_request_def runFileAction_def awaiting_def)

text \<open>C34 No button of the bar is dead while the client library is loaded: whatever event it dispatches, the workspace under it
  listens. Without the library a desktop still draws the clipboard and upload buttons, and nobody listens to them.
\<close>
theorem bar_buttons_heard:
  assumes "sh_workspace st = Some wk" "c \<in> set (shell_controls snippets st)" "control_event c = Some event"
  shows "event \<in> set (workspace_events True wk)
    \<and> (event \<in> set (workspace_events False wk) \<longleftrightarrow> c \<noteq> DesktopClipboard \<and> c \<noteq> DesktopUpload)"
proof (cases "wk_type wk = SSHKind")
  case True
  with assms have "(c = SSHFiles \<or> c = SSHUpload) \<and> sshFileTransferEnabled wk \<or> (\<exists>b. c = InsertSnippet b)"
    by (cases c) (simp_all add: shell_controls_def is_desktop_def split: if_splits)
  with assms(3) True show ?thesis by (auto simp: workspace_events_def ssh_events_def)
next
  case False
  with assms have "c = DesktopClipboard \<and> clipboard_enabled wk \<or> (c = DesktopFiles \<or> c = DesktopUpload) \<and> fileTransferEnabled wk"
    by (cases c) (simp_all add: shell_controls_def split: if_splits)
  with assms(3) False show ?thesis by (auto simp: workspace_events_def desktop_events_def)
qed

text \<open>
  A desktop is left clean: every key the remote side holds is released, the connection is closed last, and every listener
  the screen has installed is removed.
\<close>
theorem desktop_left_clean:
  assumes "key_step\<^sup>*\<^sup>* no_keys st"
  shows "\<exists>ks. snd (desktop_cleanup released st) = map KeyUp ks @ [Disconnect_client] \<and> held (ks_sent st) \<subseteq> set ks
      \<and> held (ks_sent (fst (desktop_cleanup released st))) = {}
      \<and> mset (removed_listeners clipboard transfer) = mset (desktop_listeners clipboard transfer)"
proof -
  have ok: "keys_ok st" using key_reachable_ok [OF assms] .
  obtain ks where ks: "ks_sent (releaseInputState released st) = ks_sent st @ map (Pair False) ks" "set (ks_pressed st) \<subseteq> set ks"
    using releaseInputState_log [OF ok] by blast
  have "held (ks_sent (releaseInputState released st)) = {}"
    using releaseInputState_spec [OF ok, of released] by (simp add: keys_ok_def)
  moreover have "held (ks_sent st) \<subseteq> set ks" using ok ks(2) by (simp add: keys_ok_def)
  moreover have "map (\<lambda>(_, k). KeyUp k) (map (Pair False) ks) = map KeyUp ks" by simp
  ultimately show ?thesis
    using ks(1) by (intro exI [of _ ks]) (simp add: desktop_cleanup_def Let_def removed_listeners_def desktop_listeners_def)
qed

section \<open>Witnesses\<close>

text \<open>A copy of \<open>/a\<close>: opened from its row, it can be started, and is sent once.\<close>

definition copying_a :: remote_files where
  "copying_a = beginFileAction ''copy'' \<lparr>fe_name = ''a'', fe_path = ''/a'', fe_is_dir = False, fe_size = 0, fe_modified = ''''\<rparr>
     (onFiles initial_files)"

lemma file_panels_exclusive_witness:
  "(RunAction, True) \<in> set (files_buttons [] copying_a)
   \<and> (\<exists>rq. rf_log (press_files (\<lambda>s. s) ''s1'' JNull RunAction copying_a) = rf_log copying_a @ [Call rq])
   \<and> (RunAction, True) \<notin> set (files_buttons [] (press_files (\<lambda>s. s) ''s1'' JNull RunAction copying_a))
   \<and> (\<forall>b. (SaveFile, b) \<notin> set (files_buttons [] copying_a))"
proof -
  let ?e = "\<lparr>fe_name = ''a'', fe_path = ''/a'', fe_is_dir = False, fe_size = 0, fe_modified = ''''\<rparr> :: file_entry"
  have "files_screen (\<lambda>s. s) ''s1'' initial_files (onFiles initial_files)" by (rule files_screen.bar_files)
  moreover have "files_screen (\<lambda>s. s) ''s1'' (onFiles initial_files) copying_a"
    using files_screen.pressed [of "onFiles initial_files" "CopyEntry ?e" "[?e]" "\<lambda>s. s" "''s1''" JNull]
    by (simp add: onFiles_def files_buttons_def entry_buttons_def press_files_def copying_a_def)
  ultimately have run: "(files_screen (\<lambda>s. s) ''s1'')\<^sup>*\<^sup>* initial_files copying_a"
    by (meson rtranclp.rtrancl_into_rtrancl rtranclp.rtrancl_refl)
  have drawn: "(RunAction, True) \<in> set (files_buttons [] copying_a)" unfolding run_drawn by code_simp
  show ?thesis using file_panels_exclusive [OF run, of _ "[]" JNull True] drawn by blast
qed

definition plain_session :: conn_session where
  "plain_session = session_of_json (JObj [(''id'', JStr ''c1''), (''clipboard_enabled'', JBool True)])"

lemma bar_buttons_heard_witness:
  "''desktop-clipboard'' \<in> set (workspace_events True \<lparr>wk_type = RDPKind, wk_session = plain_session, wk_status = ''''\<rparr>)
   \<and> ''desktop-clipboard'' \<notin> set (workspace_events False \<lparr>wk_type = RDPKind, wk_session = plain_session, wk_status = ''''\<rparr>)"
proof -
  let ?wk = "\<lparr>wk_type = RDPKind, wk_session = plain_session, wk_status = ''''\<rparr>"
  have "cs_clipboard_enabled plain_session \<noteq> Some False"
    by (simp add: plain_session_def session_of_json_def opt_bool_def obj_get_def recordValue_def Let_def)
  then have "DesktopClipboard \<in> set (shell_controls [] (open_workspace ?wk))"
    by (simp add: shell_controls_def open_workspace_def is_desktop_def clipboard_enabled_def)
  then show ?thesis
    using bar_buttons_heard [of "open_workspace ?wk" ?wk DesktopClipboard "[]" "''desktop-clipboard''"] by (simp add: open_workspace_def)
qed

lemma desktop_left_clean_witness:
  "\<exists>ks. snd (desktop_cleanup [] (onkeydown 65 no_keys)) = map KeyUp ks @ [Disconnect_client] \<and> 65 \<in> set ks"
proof -
  have "key_step\<^sup>*\<^sup>* no_keys (onkeydown 65 no_keys)" by (rule r_into_rtranclp) (rule key_step.down)
  from desktop_left_clean [OF this, of "[]" True True] show ?thesis
    by (auto simp: onkeydown_def sendKeyEvent_def no_keys_def held_def)
qed

end
