(* ===== verification/ReportPages.thy ===== *)
theory ReportPages
  imports AccessPortal Backups Session Controls
begin

text \<open>
  The pages of \<open>platform-page.tsx\<close> that mostly show what the server counted: \<open>MonitoringPage\<close>, \<open>AccessStatsPage\<close>, the result of a
  diagnostic tool (\<open>ToolsPage\<close>), the cards of the access page and what \<open>BackupsPage\<close> draws. The monitoring and the statistics
  page load in the same way, when they are opened, when the permission to read appears and at the press of a button;
  the locale \<open>load_screen\<close> states that contract, and both pages interpret it. Texts are named by their keys.
\<close>

section \<open>Loading when opened and on demand\<close>

text \<open>
  A load is cut at its await: \<open>begins\<close> is what the page sets before the request, \<open>settles\<close> what it does with the answer.
  The page may lose and regain the permission while a request is under way, so several may be; \<open>lr_answers\<close> keeps the
  answers that arrived.
\<close>

record 'p load_run =
  lr_page :: 'p
  lr_can :: bool
  lr_pending :: nat
  lr_answers :: "(exn + jsval) list"
  lr_log :: log

definition load_begin :: "('p \<Rightarrow> 'p) \<Rightarrow> string \<Rightarrow> 'p load_run \<Rightarrow> 'p load_run" where
  "load_begin begins path r =
     (if \<not> lr_can r then r
      else r\<lparr>lr_page := begins (lr_page r), lr_pending := Suc (lr_pending r), lr_log := lr_log r @ [Call (get_request path)]\<rparr>)"

definition load_opened :: "('p \<Rightarrow> 'p) \<Rightarrow> string \<Rightarrow> 'p \<Rightarrow> bool \<Rightarrow> 'p load_run" where
  "load_opened begins path st can =
     load_begin begins path \<lparr>lr_page = st, lr_can = can, lr_pending = 0, lr_answers = [], lr_log = []\<rparr>"

definition load_settled :: "(exn + jsval \<Rightarrow> 'p \<Rightarrow> log \<Rightarrow> 'p \<times> log) \<Rightarrow> exn + jsval \<Rightarrow> 'p load_run \<Rightarrow> 'p load_run" where
  "load_settled settles a r =
     (let (st, l) = settles a (lr_page r) (lr_log r)
      in r\<lparr>lr_page := st, lr_pending := lr_pending r - 1, lr_answers := lr_answers r @ [a], lr_log := l\<rparr>)"

inductive load_reach ::
  "('p \<Rightarrow> 'p) \<Rightarrow> (exn + jsval \<Rightarrow> 'p \<Rightarrow> log \<Rightarrow> 'p \<times> log) \<Rightarrow> ('p \<Rightarrow> bool) \<Rightarrow> string \<Rightarrow> 'p \<Rightarrow> 'p load_run \<Rightarrow> bool"
  for begins settles is_loading path st0 where
  opened: "load_reach begins settles is_loading path st0 (load_opened begins path st0 can)"
| pressed: "load_reach begins settles is_loading path st0 r \<Longrightarrow> \<not> is_loading (lr_page r) \<Longrightarrow>
    load_reach begins settles is_loading path st0 (load_begin begins path r)"
| answered: "load_reach begins settles is_loading path st0 r \<Longrightarrow> 0 < lr_pending r \<Longrightarrow>
    load_reach begins settles is_loading path st0 (load_settled settles a r)"
| granted: "load_reach begins settles is_loading path st0 r \<Longrightarrow> \<not> lr_can r \<Longrightarrow>
    load_reach begins settles is_loading path st0 (load_begin begins path (r\<lparr>lr_can := True\<rparr>))"
| refused: "load_reach begins settles is_loading path st0 r \<Longrightarrow> load_reach begins settles is_loading path st0 (r\<lparr>lr_can := False\<rparr>)"

locale load_screen =
  fixes begins :: "'p \<Rightarrow> 'p" and settles :: "exn + jsval \<Rightarrow> 'p \<Rightarrow> log \<Rightarrow> 'p \<times> log" and is_loading :: "'p \<Rightarrow> bool"
    and path :: string and st0 :: 'p
  assumes begins_loading: "is_loading (begins st)"
    and settles_done: "\<not> is_loading (fst (settles a st l))"
    and settles_quiet: "calls (snd (settles a st l)) = calls l"
    and starts_idle: "\<not> is_loading st0"
begin

text \<open>A page that says it is loading waits for an answer, so the answer will end it.\<close>

lemma loading_waits: "load_reach begins settles is_loading path st0 r \<Longrightarrow> is_loading (lr_page r) \<Longrightarrow> 0 < lr_pending r"
proof (induction rule: load_reach.induct)
  case (answered r a)
  then show ?case by (simp add: load_settled_def split_beta Let_def settles_done)
qed (auto simp: load_opened_def load_begin_def starts_idle split: if_splits)

text \<open>Every load asks for the same address, one request for every load.\<close>

lemma only_own_path: "load_reach begins settles is_loading path st0 r \<Longrightarrow> calls (lr_log r) = replicate (lr_pending r + length (lr_answers r)) (get_request path)"
proof (induction rule: load_reach.induct)
  case (answered r a)
  then show ?case by (cases "lr_pending r") (simp_all add: load_settled_def split_beta Let_def settles_quiet)
qed (auto simp: load_opened_def load_begin_def replicate_append_same)

text \<open>Until the permission changes, at most one request is under way, and the page says so.\<close>

lemma nothing_before_answer:
  "load_reach begins settles is_loading path st0 r \<Longrightarrow> lr_can r \<Longrightarrow> lr_answers r = [] \<Longrightarrow> is_loading (lr_page r)"
  by (induction rule: load_reach.induct)
    (auto simp: load_opened_def load_begin_def load_settled_def split_beta Let_def begins_loading split: if_splits)

end

section \<open>Monitoring\<close>

record monitoring =
  mo_monitor :: "jsval option"
  mo_loading :: bool
  mo_error :: string

definition monitoring_start :: monitoring where
  "monitoring_start = \<lparr>mo_monitor = None, mo_loading = False, mo_error = ''''\<rparr>"

definition monitoring_begins :: "monitoring \<Rightarrow> monitoring" where
  "monitoring_begins st = st\<lparr>mo_loading := True, mo_error := ''''\<rparr>"

definition monitoring_settles :: "exn + jsval \<Rightarrow> monitoring \<Rightarrow> log \<Rightarrow> monitoring \<times> log" where
  "monitoring_settles answer st l =
     (case answer of
        Inr v \<Rightarrow> (st\<lparr>mo_monitor := Some v, mo_loading := False\<rparr>, l)
      | Inl e \<Rightarrow> (st\<lparr>mo_error := exn_message e, mo_loading := False\<rparr>, report e l))"

definition monitoring_path :: "page_config \<Rightarrow> string" where
  "monitoring_path config = or_str (api_path config) ''/api/system/monitoring''"

text \<open>The figures: the answer, or counts from the data of the session where there is none.\<close>

definition loaded_monitor :: "monitoring \<Rightarrow> jsval option" where
  "loaded_monitor st = (case mo_monitor st of Some v \<Rightarrow> (if truthy v then Some v else None) | None \<Rightarrow> None)"

definition count_of :: "platform_data \<Rightarrow> string \<Rightarrow> jsval" where
  "count_of platform k = JNum (Fin (of_nat (length (or_list (map_of platform k)))))"

definition fallback_stats :: "platform_data \<Rightarrow> js_object" where
  "fallback_stats platform =
     [(''users'', count_of platform ''users''), (''assets'', count_of platform ''assets''), (''web_assets'', count_of platform ''web_assets''),
      (''database_assets'', count_of platform ''database_assets''), (''active_sessions'', count_of platform ''online_sessions''),
      (''recordings'', count_of platform ''offline_sessions'')]"

definition monitoring_stats :: "platform_data \<Rightarrow> monitoring \<Rightarrow> js_object" where
  "monitoring_stats platform st = (case loaded_monitor st of Some v \<Rightarrow> recordValue v | None \<Rightarrow> fallback_stats platform)"

definition middle_dot :: string where
  "middle_dot = [CHR 0xC2, CHR 0xB7]"

definition monitoringStorageRow :: "formats \<Rightarrow> js_object \<Rightarrow> string \<Rightarrow> string \<Rightarrow> string \<Rightarrow> string" where
  "monitoringStorageRow fm info filesLabel incompleteLabel unavailableLabel =
     (if \<not> metadataBool (obj_get info ''available'') then unavailableLabel
      else let base = formatBytesValue (obj_get info ''bytes'') @ '' / '' @ formatNumberValue fm (obj_get info ''files'') @ '' '' @ filesLabel;
               last = metadataText (obj_get info ''last_error'')
           in if metadataBool (obj_get info ''scan_complete'') \<and> last = '''' then base
              else base @ '' '' @ middle_dot @ '' '' @ or_str last incompleteLabel)"

definition monitoring_status :: "js_object \<Rightarrow> string" where
  "monitoring_status stats = or_str (metadataText (obj_get stats ''status'')) ''unknown''"

definition status_tone :: "string \<Rightarrow> tone" where
  "status_tone status = (if status = ''normal'' then Success else if status = ''degraded'' then Warning else Danger)"

definition metricCards :: "formats \<Rightarrow> js_object \<Rightarrow> (string \<times> string \<times> tone) list" where
  "metricCards fm stats =
     (let num = (\<lambda>k. formatNumberValue fm (obj_get stats k)); status = monitoring_status stats;
          cpu = recordValue (obj_get (recordValue (obj_get stats ''runtime'')) ''cpu'')
      in [(''monitoringPage.status'', ''monitoringPage.statusValue.'' @ status, status_tone status),
          (''monitoringPage.users'', num ''users'', Neutral), (''monitoringPage.assets'', num ''assets'', Neutral),
          (''monitoringPage.activeSessions'', num ''active_sessions'', Success), (''monitoringPage.recordings'', num ''recordings'', Neutral),
          (''monitoringPage.gateways'', num ''gateways'', Neutral),
          (''monitoringPage.cpuUsage'', formatNumberValue fm (coalesce (coalesce (obj_get cpu ''average_utilization_percent'')
             (obj_get cpu ''utilization_percent'')) (obj_get stats ''cpu_percent'')) @ ''%'', Neutral),
          (''monitoringPage.goMemory'', formatBytesValue (obj_get stats ''memory_alloc''), Neutral)])"

definition runtimeRows :: "formats \<Rightarrow> js_object \<Rightarrow> (string \<times> string) list" where
  "runtimeRows fm stats =
     (let runtime = recordValue (obj_get stats ''runtime''); memory = recordValue (obj_get stats ''memory'');
          database = recordValue (obj_get stats ''database'');
          either = (\<lambda>ob k k'. ConfigForms.or_val (obj_get ob k) (obj_get stats k'))
      in [(''monitoringPage.uptime'', formatNumberValue fm (obj_get stats ''uptime_seconds'') @ '' s''),
          (''Go'', or_str (metadataText (either runtime ''go_version'' ''go_version'')) ''-''),
          (''monitoringPage.osArch'', or_str (metadataText (either runtime ''os'' ''os'')) ''-'' @ '' / '' @
             or_str (metadataText (either runtime ''arch'' ''arch'')) ''-''),
          (''monitoringPage.cpuCores'', formatNumberValue fm (ConfigForms.or_val (either runtime ''cpu_cores'' ''cpu_cores'') (obj_get stats ''cpu''))),
          (''monitoringPage.goroutines'', formatNumberValue fm (either runtime ''goroutines'' ''goroutines'')),
          (''monitoringPage.heapAlloc'', formatBytesValue (either memory ''heap_alloc'' ''memory_heap_alloc'')),
          (''monitoringPage.heapObjects'', formatNumberValue fm (obj_get memory ''heap_objects'')),
          (''monitoringPage.gcCount'', formatNumberValue fm (either memory ''gc_count'' ''gc_count'')),
          (''monitoringPage.dbPool'', or_str (metadataText (obj_get database ''connection_pool_state'')) ''-''),
          (''monitoringPage.dbConnections'', formatNumberValue fm (obj_get database ''in_use'') @ '' monitoringPage.inUse / '' @
             formatNumberValue fm (obj_get database ''idle'') @ '' monitoringPage.idle'')])"

definition gatewayRows :: "formats \<Rightarrow> js_object \<Rightarrow> (string \<times> string) list" where
  "gatewayRows fm stats =
     (let row = (\<lambda>k absent fs. let info = recordValue (obj_get stats k)
                 in trim (join '' '' (or_str (metadataText (obj_get info ''status'')) absent # map (\<lambda>f. metadataText (obj_get info f)) fs)));
          agents = recordValue (obj_get stats ''agent_gateways'')
      in [(''SSH Gateway'', row ''ssh_gateway'' ''disabled'' [''address'', ''last_error'']),
          (''guacd'', row ''guacd'' ''unavailable'' [''address'', ''last_error'']),
          (''monitoringPage.recordingTranscoder'', row ''recording_transcoder'' ''unavailable'' [''detail'']),
          (''monitoringPage.agentGateways'', formatNumberValue fm (obj_get agents ''online'') @ '' monitoringPage.online / '' @
             formatNumberValue fm (obj_get agents ''offline'') @ '' monitoringPage.offline'')])"

definition storageRows :: "formats \<Rightarrow> js_object \<Rightarrow> (string \<times> string) list" where
  "storageRows fm stats =
     (let storage = recordValue (obj_get stats ''storage'');
          row = (\<lambda>k. monitoringStorageRow fm (recordValue (obj_get storage k)) ''monitoringPage.files'' ''monitoringPage.scanIncomplete''
                  ''monitoringPage.unavailable'')
      in [(''monitoringPage.dataDir'', row ''data_dir''), (''monitoringPage.recordings'', row ''recordings''),
          (''monitoringPage.drives'', row ''drives''), (''monitoringPage.backups'', row ''backups'')])"

text \<open>\<open>MonitoringPanel\<close>\<close>

definition MonitoringPanel :: "string \<Rightarrow> (string \<times> string) list \<Rightarrow> string \<times> (string \<times> string) list" where
  "MonitoringPanel title rows = (title, map (\<lambda>(label, v). (label, or_str v ''-'')) rows)"

datatype monitoring_view =
    MonitoringDenied
  | MonitoringLoading
  | MonitoringFailed string
  | MonitoringFigures "string list" "(string \<times> string \<times> tone) list" "(string \<times> (string \<times> string) list) list"

definition monitoring_screen :: "formats \<Rightarrow> platform_data \<Rightarrow> bool \<Rightarrow> monitoring \<Rightarrow> monitoring_view" where
  "monitoring_screen fm platform can st =
     (let stats = monitoring_stats platform st
      in if \<not> can then MonitoringDenied
         else if mo_loading st \<and> loaded_monitor st = None then MonitoringLoading
         else if mo_error st \<noteq> '''' \<and> loaded_monitor st = None then MonitoringFailed (mo_error st)
         else MonitoringFigures (stringArrayValue (obj_get stats ''status_reasons'')) (metricCards fm stats)
                [MonitoringPanel ''monitoringPage.runtimeDatabase'' (runtimeRows fm stats),
                 MonitoringPanel ''monitoringPage.gateways'' (gatewayRows fm stats),
                 MonitoringPanel ''monitoringPage.storage'' (storageRows fm stats)])"

text \<open>The head: the time of the check and the button, which is disabled while the page loads.\<close>

definition monitoring_head :: "formats \<Rightarrow> platform_data \<Rightarrow> bool \<Rightarrow> monitoring \<Rightarrow> (string \<times> bool) option" where
  "monitoring_head fm platform can st =
     (if can then Some (let checked = metadataText (obj_get (monitoring_stats platform st) ''checked_at'')
                        in (if checked \<noteq> '''' then fmt_date fm checked else '''', \<not> mo_loading st))
      else None)"

interpretation monitor: load_screen monitoring_begins monitoring_settles mo_loading "monitoring_path config" monitoring_start for config
  by unfold_locales (auto simp: monitoring_begins_def monitoring_settles_def monitoring_start_def split: sum.splits)

section \<open>Access statistics\<close>

record access_stats =
  as_items :: "js_object list"
  as_loading :: bool

definition stats_start :: access_stats where
  "stats_start = \<lparr>as_items = [], as_loading = False\<rparr>"

definition stats_begins :: "access_stats \<Rightarrow> access_stats" where
  "stats_begins st = st\<lparr>as_loading := True\<rparr>"

definition stats_settles :: "exn + jsval \<Rightarrow> access_stats \<Rightarrow> log \<Rightarrow> access_stats \<times> log" where
  "stats_settles answer st l =
     (case answer of
        Inl e \<Rightarrow> (st\<lparr>as_loading := False\<rparr>, report e l)
      | Inr data \<Rightarrow>
          (case js_prop data ''items'' of
             Inl e \<Rightarrow> (st\<lparr>as_loading := False\<rparr>, report e l)
           | Inr v \<Rightarrow> (st\<lparr>as_items := objectArrayValue v, as_loading := False\<rparr>, l)))"

definition stats_path :: "page_config \<Rightarrow> string" where
  "stats_path config = or_str (api_path config) ''/api/admin/audit/access-stats''"

definition entry_of_type :: "string \<Rightarrow> js_object list \<Rightarrow> js_object option" where
  "entry_of_type k items = List.find (\<lambda>item. obj_get item ''type'' = JStr k) items"

definition summaryMetadata :: "js_object list \<Rightarrow> js_object" where
  "summaryMetadata items = (case entry_of_type ''summary'' items of Some item \<Rightarrow> recordValue (obj_get item ''metadata'') | None \<Rightarrow> [])"

definition stats_metrics :: "formats \<Rightarrow> js_object list \<Rightarrow> (string \<times> string) list" where
  "stats_metrics fm items =
     (let m = summaryMetadata items; num = (\<lambda>k. formatNumberValue fm (obj_get m k))
      in [(''PV'', num ''pv''), (''UV'', num ''uv''), (''accessStats.uniqueIPs'', num ''unique_ips''), (''accessStats.requestCount'', num ''request_count''),
          (''accessStats.traffic'', formatBytesValue (obj_get m ''traffic_bytes'')),
          (''accessStats.averageDuration'', num ''average_duration_ms'' @ '' ms''),
          (''accessStats.errorRate'', formatPercentValue (obj_get m ''error_rate'')), (''accessStats.errorCount'', num ''error_count'')])"

definition stats_sections :: "(string \<times> string) list" where
  "stats_sections =
     [(''top_pages'', ''accessStats.topPages''), (''referrers'', ''accessStats.referrers''), (''assets'', ''accessStats.assets''),
      (''status_codes'', ''accessStats.statusCodes''), (''methods'', ''accessStats.methods'')]"

text \<open>\<open>AccessStatsRank\<close>: the title, the number of entries, and a row for each or the notice that there are none.\<close>

definition AccessStatsRank :: "formats \<Rightarrow> string \<Rightarrow> js_object option \<Rightarrow> string \<times> nat \<times> (string \<times> string) list" where
  "AccessStatsRank fm title item =
     (let entries = (case item of Some i \<Rightarrow> objectArrayValue (obj_get (recordValue (obj_get i ''metadata'')) ''entries'') | None \<Rightarrow> [])
      in (title, length entries,
          if entries = [] then [(''accessStats.noData'', '''')]
          else map (\<lambda>e. (js_to_string (ConfigForms.or_val (obj_get e ''key'') (JStr ''-'')), formatNumberValue fm (obj_get e ''value''))) entries))"

datatype stats_view = StatsDenied | StatsShown "(string \<times> string) list" "(string \<times> nat \<times> (string \<times> string) list) list"

definition stats_screen :: "formats \<Rightarrow> bool \<Rightarrow> access_stats \<Rightarrow> stats_view" where
  "stats_screen fm can st =
     (if \<not> can then StatsDenied
      else StatsShown (stats_metrics fm (as_items st))
             (map (\<lambda>(k, title). AccessStatsRank fm title (entry_of_type k (as_items st))) stats_sections))"

interpretation stats: load_screen stats_begins stats_settles as_loading "stats_path config" stats_start for config
  by unfold_locales (auto simp: stats_begins_def stats_settles_def stats_start_def js_prop_def split: sum.splits jsval.splits)

section \<open>The tools page and the access cards\<close>

text \<open>The inputs of the tools form; the placeholder of the target follows the mode.\<close>

definition tools_inputs :: "tools_page control list" where
  "tools_inputs =
     [TextBox ''toolsPage.target'' tl_target (\<lambda>t st. st\<lparr>tl_target := t\<rparr>),
      SelectBox ''toolsPage.mode'' [''icmp'', ''tcp''] (\<lambda>st. mode_text (tl_mode st)) (\<lambda>t st. st\<lparr>tl_mode := (if t = ''tcp'' then Tcp else Icmp)\<rparr>),
      NumberBox ''toolsPage.count'' tl_count (\<lambda>t st. st\<lparr>tl_count := t\<rparr>)]"

definition tools_placeholder :: "tools_page \<Rightarrow> string" where
  "tools_placeholder st = (if tl_mode st = Tcp then ''toolsPage.tcpPlaceholder'' else ''toolsPage.icmpPlaceholder'')"

definition tools_button :: "tools_page \<Rightarrow> string \<times> bool" where
  "tools_button st = (if tl_loading st then ''toolsPage.running'' else ''toolsPage.run'', tools_enabled st)"

definition shown_number :: "jsval \<Rightarrow> string" where
  "shown_number v = num_text (Fin (numberValue v))"

definition tools_badges :: "jsval \<Rightarrow> (string \<times> tone) list" where
  "tools_badges result =
     (let ob = recordValue result; summary = recordValue (obj_get ob ''summary'')
      in [(metadataText (obj_get ob ''mode''), Neutral),
          (''toolsPage.succeeded '' @ shown_number (obj_get summary ''ok''), Success),
          (''toolsPage.failed '' @ shown_number (obj_get summary ''failed''), if numberValue (obj_get summary ''failed'') > 0 then Danger else Neutral),
          (''toolsPage.averageLatency '' @ shown_number (obj_get summary ''average_latency_ms'') @ '' ms'', Neutral),
          (''toolsPage.packetLoss '' @ shown_number (obj_get summary ''packet_loss_percent'') @ ''%'',
             if numberValue (obj_get summary ''packet_loss_percent'') > 0 then Warning else Neutral)])"

definition tools_row :: "js_object \<Rightarrow> string \<times> string \<times> tone \<times> string \<times> string \<times> string" where
  "tools_row row =
     (let status = metadataText (obj_get row ''status'')
      in (''#'' @ metadataText (obj_get row ''seq''), status, if status = ''ok'' then Success else Danger,
          shown_number (coalesce (obj_get row ''latency_ms'') (obj_get row ''latency'')) @ '' ms'',
          metadataText (ConfigForms.or_val (obj_get row ''address'') (obj_get row ''target'')),
          or_str (metadataText (obj_get row ''detail'')) ''-''))"

definition tools_rows :: "jsval \<Rightarrow> (string \<times> string \<times> tone \<times> string \<times> string \<times> string) list" where
  "tools_rows result = map tools_row (objectArrayValue (obj_get (recordValue result) ''results''))"

text \<open>A card of the access page: name, address, protocol with its tone, and the last line.\<close>

definition access_card :: "platform_item \<Rightarrow> string \<times> string \<times> (string \<times> tone) \<times> string" where
  "access_card item =
     (it_name item,
      it_host item @ (case it_port item of Some n \<Rightarrow> if n \<noteq> 0 then '':'' @ num_text (Fin n) else '''' | None \<Rightarrow> ''''),
      (or_str (it_protocol item) (or_str (it_type item) ''-''), statusTone (it_status item)),
      or_str (it_description item) (or_str (it_group item) (it_id item)))"

datatype card_button = ConnectCard | ExecCard

definition card_buttons :: "string \<Rightarrow> platform_item \<Rightarrow> card_button list" where
  "card_buttons protocol item = ConnectCard # (if exec_offered protocol item then [ExecCard] else [])"

text \<open>A card of a storage, and the link of the page's head.\<close>

definition storage_card :: "platform_item \<Rightarrow> string \<times> string \<times> (string \<times> tone) \<times> string" where
  "storage_card item =
     (it_name item, or_str (it_description item) (or_str (it_group item) (it_id item)),
      (if metadataBool (meta item ''shared'') then (''shared'', Success) else (''private'', Neutral)),
      formatBytesValue (meta item ''used_bytes'') @
        (if truthy (meta item ''limit_bytes'') then '' / '' @ formatBytesValue (meta item ''limit_bytes'') else ''''))"

definition portal_link :: "session \<Rightarrow> string option" where
  "portal_link s = (if canManageAssets s then Some ''/app/assets'' else None)"

section \<open>What the backups page draws\<close>

datatype backup_button =
    RefreshBackups | CreateBackup | ValidateUpload | RestoreUpload | DownloadBackup string | DeleteBackup string

definition backup_name :: "js_object \<Rightarrow> string" where
  "backup_name item = metadataText (obj_get item ''name'')"

definition backup_row_buttons :: "backup_rights \<Rightarrow> js_object \<Rightarrow> (backup_button \<times> bool) list" where
  "backup_row_buttons rights item =
     (let nm = backup_name item
      in (if br_download rights nm then [(DownloadBackup nm, True)] else []) @ (if br_delete rights nm then [(DeleteBackup nm, True)] else []))"

definition backup_buttons :: "backup_rights \<Rightarrow> backups_page \<Rightarrow> (backup_button \<times> bool) list" where
  "backup_buttons rights st =
     (if br_list rights then [(RefreshBackups, \<not> bk_loading st)] else [])
     @ (if br_create rights then [(CreateBackup, \<not> bk_creating st)] else [])
     @ (if br_restore rights
        then [(ValidateUpload, bk_uploadFile st \<noteq> None \<and> \<not> bk_restoring st), (RestoreUpload, uploadValidated st \<and> \<not> bk_restoring st)]
        else [])
     @ (if br_list rights then concat (map (backup_row_buttons rights) (bk_items st)) else [])"

text \<open>
  What a button sends: the buttons of the list run to their end, validating and restoring start a task. The download of an
  archive is not in a \<open>try\<close>: its failure goes nowhere.
\<close>

definition download_backup :: "string \<Rightarrow> (string \<Rightarrow> string) \<Rightarrow> env \<Rightarrow> string \<Rightarrow> log \<Rightarrow> log" where
  "download_backup path encode ev nm l = snd (downloadResponse ev (backup_item_path encode path nm @ ''/download'') nm l)"

definition press_backup ::
  "string \<Rightarrow> (string \<Rightarrow> string) \<Rightarrow> backup_rights \<Rightarrow> env \<Rightarrow> backup_button \<Rightarrow> backups_page \<Rightarrow> log \<Rightarrow> backups_page \<times> log" where
  "press_backup path encode rights ev b st l =
     (case b of
        RefreshBackups \<Rightarrow> load_backups path rights ev st l
      | CreateBackup \<Rightarrow> createBackup path rights ev st l
      | ValidateUpload \<Rightarrow> (case press_validate rights st of Some (st', _, rq) \<Rightarrow> (st', l @ [Call rq]) | None \<Rightarrow> (st, l))
      | RestoreUpload \<Rightarrow> (case press_restore rights st of Some _ \<Rightarrow> (st, l @ [Confirm ''backupsPage.restoreConfirmTitle'']) | None \<Rightarrow> (st, l))
      | DownloadBackup nm \<Rightarrow> (st, download_backup path encode ev nm l)
      | DeleteBackup nm \<Rightarrow> deleteBackup path encode rights ev nm st l)"

definition backup_row :: "formats \<Rightarrow> js_object \<Rightarrow> string \<times> string \<times> string" where
  "backup_row fm item =
     (backup_name item, formatBytesValue (obj_get item ''size''),
      fmt_date fm (metadataText (obj_get item ''modified_at'')) @ '' '' @ middle_dot @ '' '' @
        or_str (join '', '' (stringArrayValue (obj_get item ''files''))) ''backupsPage.manifestOnly'')"

definition backup_list :: "formats \<Rightarrow> backup_rights \<Rightarrow> backups_page \<Rightarrow> string + (string \<times> string \<times> string) list" where
  "backup_list fm rights st =
     (if \<not> br_list rights then Inl ''backupsPage.noPermission''
      else if bk_items st = [] then Inl ''backupsPage.empty''
      else Inr (map (backup_row fm) (bk_items st)))"

definition upload_panel :: "backups_page \<Rightarrow> (string \<times> string) option" where
  "upload_panel st =
     (case bk_validation st of
        Some v \<Rightarrow>
          if truthy v
          then Some ((case bk_uploadFile st of Some f \<Rightarrow> bf_name f | None \<Rightarrow> '''') @ '' '' @ middle_dot @ '' '' @
                 formatBytesValue (case bk_uploadFile st of Some f \<Rightarrow> JNum (Fin (of_nat (bf_size f))) | None \<Rightarrow> JUndefined), json_stringify v)
          else None
      | None \<Rightarrow> None)"

section \<open>Facts about the pages\<close>

text \<open>An answer after which the page has nothing to show: an error without a message, or an empty answer.\<close>

definition silent :: "exn + jsval \<Rightarrow> bool" where
  "silent a \<longleftrightarrow> (case a of Inl e \<Rightarrow> exn_message e = '''' | Inr v \<Rightarrow> \<not> truthy v)"

definition monitoring_ok :: "(exn + jsval) list \<Rightarrow> monitoring \<Rightarrow> bool" where
  "monitoring_ok answers st \<longleftrightarrow>
     (\<forall>v. loaded_monitor st = Some v \<longrightarrow> truthy v \<and> Inr v \<in> set answers) \<and>
     (answers \<noteq> [] \<and> \<not> mo_loading st \<and> mo_error st = '''' \<and> loaded_monitor st = None \<longrightarrow> silent (last answers))"

lemma loaded_monitor_after:
  "loaded_monitor (monitoring_begins st) = loaded_monitor st"
  "loaded_monitor (fst (monitoring_settles (Inl e) st l)) = loaded_monitor st"
  "loaded_monitor (fst (monitoring_settles (Inr v) st l)) = (if truthy v then Some v else None)"
  by (simp_all add: loaded_monitor_def monitoring_begins_def monitoring_settles_def)

lemma monitoring_ok_answer:
  assumes "monitoring_ok answers st"
  shows "monitoring_ok (answers @ [a]) (fst (monitoring_settles a st l))"
proof (cases a)
  case (Inl e)
  with assms show ?thesis
    by (simp add: monitoring_ok_def loaded_monitor_after) (simp add: monitoring_settles_def silent_def)
next
  case (Inr v)
  with assms show ?thesis by (simp add: monitoring_ok_def loaded_monitor_after silent_def)
qed

lemma monitoring_ok_begin: "monitoring_ok answers st \<Longrightarrow> monitoring_ok answers (monitoring_begins st)"
  by (simp add: monitoring_ok_def loaded_monitor_after) (simp add: monitoring_begins_def)

lemma monitoring_reach_ok:
  "load_reach monitoring_begins monitoring_settles mo_loading path monitoring_start r \<Longrightarrow> monitoring_ok (lr_answers r) (lr_page r)"
proof (induction rule: load_reach.induct)
  case (opened can)
  have "monitoring_ok [] monitoring_start" by (simp add: monitoring_ok_def loaded_monitor_def monitoring_start_def)
  then show ?case by (simp add: load_opened_def load_begin_def monitoring_ok_begin)
qed (simp_all add: load_begin_def load_settled_def split_beta Let_def monitoring_ok_begin monitoring_ok_answer)

text \<open>The requests of the buttons of the backups page.\<close>

lemma calls_load_backups:
  "calls (snd (load_backups path rights ev st l)) = calls l @ (if br_list rights then [get_request path] else [])"
  by (cases rule: apiRequest_cases [of ev "get_request path" l]) (simp_all add: load_backups_def split: sum.splits)

lemma backup_deleted_list:
  "\<exists>new. calls (snd (deleteBackup path encode rights ev nm st l)) = calls l @ new \<and>
     set new \<subseteq> {mk_request ''DELETE'' (backup_item_path encode path nm) None} \<union> (if br_list rights then {get_request path} else {})"
proof (cases "br_delete rights nm \<and> ev_confirm ev (l @ [Confirm ''backupsPage.deleteConfirmTitle''])")
  case True
  let ?rq = "mk_request ''DELETE'' (backup_item_path encode path nm) None" and ?l = "l @ [Confirm ''backupsPage.deleteConfirmTitle'']"
  show ?thesis
  proof (cases rule: apiRequest_cases [of ev ?rq ?l])
    case (error e)
    with True show ?thesis by (intro exI [of _ "[?rq]"]) (simp add: deleteBackup_def confirm_eq)
  next
    case (ok v)
    with True show ?thesis
      using calls_load_backups [of path rights ev st "?l @ [Call ?rq]"]
      by (intro exI [of _ "?rq # (if br_list rights then [get_request path] else [])"]) (simp add: deleteBackup_def confirm_eq split_beta)
  qed
next
  case False
  then show ?thesis by (intro exI [of _ "[]"]) (auto simp: deleteBackup_def confirm_eq)
qed

lemma backup_created_list:
  "\<exists>new. calls (snd (createBackup path rights ev st l)) = calls l @ new \<and>
     set new \<subseteq> (if br_create rights then {post_request path (JObj [])} else {}) \<union> (if br_list rights then {get_request path} else {})"
proof (cases "br_create rights")
  case True
  let ?rq = "post_request path (JObj [])"
  show ?thesis
  proof (cases rule: apiRequest_cases [of ev ?rq l])
    case (error e)
    with True show ?thesis by (intro exI [of _ "[?rq]"]) (simp add: createBackup_def)
  next
    case (ok v)
    with True show ?thesis
      using calls_load_backups [of path rights ev st "l @ [Call ?rq]"]
      by (intro exI [of _ "?rq # (if br_list rights then [get_request path] else [])"]) (simp add: createBackup_def split_beta)
  qed
qed (simp add: createBackup_def)

section \<open>Properties\<close>

text \<open>C35 The monitoring page shows figures only when there is something to show: either they are those of an answer of the server,
  or the last answer was silent, an error without a message (\<open>HTTP/2\<close> has no status text) or an empty one. In that
  case the page shows counts it had before under the status \<open>unknown\<close>, not the failure.
\<close>
theorem monitoring_figures_honest:
  assumes "load_reach monitoring_begins monitoring_settles mo_loading (monitoring_path config) monitoring_start r" "lr_can r"
    and "monitoring_screen fm platform True (lr_page r) = MonitoringFigures reasons cards panels"
  shows "(\<exists>v. truthy v \<and> Inr v \<in> set (lr_answers r) \<and> cards = metricCards fm (recordValue v))
    \<or> (lr_answers r \<noteq> [] \<and> silent (last (lr_answers r)) \<and> cards = metricCards fm (fallback_stats platform)
       \<and> hd cards = (''monitoringPage.status'', ''monitoringPage.statusValue.unknown'', Danger))"
proof (cases "loaded_monitor (lr_page r)")
  case (Some v)
  with monitoring_reach_ok [OF assms(1)] assms(3) show ?thesis
    by (intro disjI1 exI [of _ v]) (auto simp: monitoring_ok_def monitoring_screen_def monitoring_stats_def Let_def)
next
  case None
  with assms(3) have idle: "\<not> mo_loading (lr_page r)" "mo_error (lr_page r) = ''''" and cards: "cards = metricCards fm (fallback_stats platform)"
    by (auto simp: monitoring_screen_def monitoring_stats_def Let_def split: if_splits)
  have "lr_answers r \<noteq> []" using monitor.nothing_before_answer [OF assms(1,2)] idle by blast
  moreover have "silent (last (lr_answers r))" using monitoring_reach_ok [OF assms(1)] None idle calculation by (simp add: monitoring_ok_def)
  moreover have "hd cards = (''monitoringPage.status'', ''monitoringPage.statusValue.unknown'', Danger)"
    by (simp add: cards metricCards_def Let_def monitoring_status_def fallback_stats_def obj_get_def status_tone_def or_str_def)
  ultimately show ?thesis using cards by blast
qed

text \<open>
  Every enabled button of the backups page sends only requests the role may send; what a confirmed restore sends is permitted
  when its button is drawn.
\<close>
theorem backup_buttons_permitted:
  assumes path: "backups_path config = ''/api/admin/backups''"
    and drawn: "(b, True) \<in> set (backup_buttons (backup_can config encode can) st)"
  shows "(\<exists>new. calls (snd (press_backup (backups_path config) encode (backup_can config encode can) ev b st l)) = calls l @ new
        \<and> list_all (permitted can) new)
    \<and> (b = RestoreUpload \<longrightarrow> permitted can (backup_request f False))"
proof -
  let ?r = "backup_can config encode can" and ?p = "''/api/admin/backups''"
  have list: "br_list ?r \<Longrightarrow> permitted can (get_request ?p)" and create: "br_create ?r \<Longrightarrow> permitted can (post_request ?p (JObj []))"
    and restore: "\<And>f d. br_restore ?r \<Longrightarrow> permitted can (backup_request f d)"
    by (auto simp: backup_can_def Let_def path permitted_def backup_request_def without_query_def)
  consider (refresh) "b = RefreshBackups" "br_list ?r" | (create) "b = CreateBackup" "br_create ?r"
    | (validate) "b = ValidateUpload" "br_restore ?r" | (restore) "b = RestoreUpload" "br_restore ?r"
    | (download) nm where "b = DownloadBackup nm" "br_download ?r nm" | (delete) nm where "b = DeleteBackup nm" "br_delete ?r nm"
    using drawn by (auto simp: backup_buttons_def backup_row_buttons_def Let_def split: if_splits)
  then show ?thesis
  proof cases
    case refresh
    then show ?thesis using list by (simp add: press_backup_def calls_load_backups path)
  next
    case create
    then show ?thesis
      using backup_created_list [of ?p ?r ev st l] list \<open>br_create ?r \<Longrightarrow> permitted can (post_request ?p (JObj []))\<close>
      by (auto simp: press_backup_def path list_all_iff split: if_splits)
  next
    case validate
    then show ?thesis using restore by (auto simp: press_backup_def press_validate_def split: option.splits)
  next
    case restore
    then show ?thesis
      using \<open>\<And>f d. br_restore ?r \<Longrightarrow> permitted can (backup_request f d)\<close>
      by (auto simp: press_backup_def press_restore_def split: option.splits)
  next
    case download
    then have "permitted can (get_request (backup_item_path encode ?p nm @ ''/download''))"
      by (simp add: backup_can_def Let_def path permitted_def)
    moreover have "calls (snd (press_backup ?p encode ?r ev b st l)) = calls l @ [get_request (backup_item_path encode ?p nm @ ''/download'')]"
      by (cases rule: apiRequest_cases [of ev "get_request (backup_item_path encode ?p nm @ ''/download'')" l])
        (simp_all add: press_backup_def download(1) download_backup_def downloadResponse_def)
    ultimately show ?thesis using download(1) by (simp add: path)
  next
    case delete
    then have "permitted can (mk_request ''DELETE'' (backup_item_path encode ?p nm) None)"
      by (simp add: backup_can_def Let_def path permitted_def)
    then show ?thesis
      using backup_deleted_list [of ?p encode ?r ev nm st l] list delete(1)
      by (auto simp: press_backup_def path list_all_iff split: if_splits)
  qed
qed

text \<open>
  A download of an archive that the server refuses is silent: no message, no report of the error, only the request; every
  other button of the page reports.
\<close>
theorem backup_download_silent:
  assumes "fst (apiRequest ev (get_request (backup_item_path encode path nm @ ''/download'')) l) = Inl e"
  shows "press_backup path encode rights ev (DownloadBackup nm) st l
    = (st, l @ [Call (get_request (backup_item_path encode path nm @ ''/download''))])"
  using assms
  by (cases rule: apiRequest_cases [of ev "get_request (backup_item_path encode path nm @ ''/download'')" l])
    (simp_all add: press_backup_def download_backup_def downloadResponse_def)

section \<open>Witnesses\<close>

definition plain_formats :: formats where
  "plain_formats = \<lparr>fmt_date = (\<lambda>s. s), fmt_number = (\<lambda>r. num_text (Fin r))\<rparr>"

definition unnamed_error :: exn where
  "unnamed_error = ApiError \<lparr>ae_message = '''', ae_status = 502, ae_setup_required = False, ae_data = JObj []\<rparr>"

text \<open>A gateway answers 502 over \<open>HTTP/2\<close> with a page instead of JSON.\<close>

lemma monitoring_figures_honest_witness:
  "hd (metricCards plain_formats (fallback_stats [])) = (''monitoringPage.status'', ''monitoringPage.statusValue.unknown'', Danger)"
proof -
  let ?c = "page ''/app/monitoring'' ''monitoring'' ''Monitoring'' ''/api/system/monitoring''"
  let ?r = "load_settled monitoring_settles (Inl unnamed_error) (load_opened monitoring_begins (monitoring_path ?c) monitoring_start True)"
  have reach: "load_reach monitoring_begins monitoring_settles mo_loading (monitoring_path ?c) monitoring_start ?r"
    by (rule load_reach.answered [OF load_reach.opened]) (simp add: load_opened_def load_begin_def)
  have page: "lr_page ?r = monitoring_start" "lr_can ?r" "lr_answers ?r = [Inl unnamed_error]"
    by (simp_all add: load_settled_def load_opened_def load_begin_def monitoring_settles_def monitoring_begins_def monitoring_start_def
        exn_message_def unnamed_error_def Let_def)
  have figures: "monitoring_screen plain_formats [] True (lr_page ?r) = MonitoringFigures [] (metricCards plain_formats (fallback_stats []))
      [MonitoringPanel ''monitoringPage.runtimeDatabase'' (runtimeRows plain_formats (fallback_stats [])),
       MonitoringPanel ''monitoringPage.gateways'' (gatewayRows plain_formats (fallback_stats [])),
       MonitoringPanel ''monitoringPage.storage'' (storageRows plain_formats (fallback_stats []))]"
    by (simp only: page(1)) (simp add: monitoring_screen_def monitoring_start_def loaded_monitor_def monitoring_stats_def Let_def stringArrayValue_def
        fallback_stats_def obj_get_def)
  from monitoring_figures_honest [OF reach page(2) figures] show ?thesis by (simp add: page)
qed

lemma backup_buttons_permitted_witness:
  "permitted (\<lambda>_ _. True) (get_request ''/api/admin/backups'')"
proof -
  let ?c = "page ''/app/backups'' ''backups'' ''Backups'' ''/api/admin/backups''"
  have path: "backups_path ?c = ''/api/admin/backups''" by (simp add: backups_path_def page_def or_str_def api_path_def opt_str_def)
  have "(RefreshBackups, True) \<in> set (backup_buttons (backup_can ?c (\<lambda>s. s) (\<lambda>_ _. True)) backups_start)"
    by (simp add: backup_buttons_def backup_can_def backups_start_def Let_def)
  from backup_buttons_permitted [OF path this, of refusing_server "[]" sample_backup] show ?thesis
    by (auto simp: press_backup_def calls_load_backups backup_can_def Let_def path)
qed

lemma backup_download_silent_witness:
  "press_backup ''/api/admin/backups'' (\<lambda>s. s) restoring_rights refusing_server (DownloadBackup ''a.zip'') backups_start []
    = (backups_start, [Call (get_request ''/api/admin/backups/a.zip/download'')])"
proof -
  have "\<exists>e. fst (apiRequest refusing_server (get_request ''/api/admin/backups/a.zip/download'') []) = Inl e"
    by (simp add: apiRequest_def refusing_server_def Let_def)
  then obtain e where "fst (apiRequest refusing_server (get_request (backup_item_path (\<lambda>s. s) ''/api/admin/backups'' ''a.zip'' @ ''/download'')) []) = Inl e"
    by (auto simp: backup_item_path_def)
  from backup_download_silent [OF this, of restoring_rights backups_start] show ?thesis by (simp add: backup_item_path_def)
qed

end
