(* ===== verification/DialogScreens.thy ===== *)
theory DialogScreens
  imports Operations Controls
begin

text \<open>
  What the dialogs of the platform table draw (\<open>platform-page.tsx\<close>): the inputs of imports, bulk authorisations, decisions,
  executions, certificates, certificate authorities and DNS providers, their buttons, and the panels with results. The
  locale \<open>visible_form\<close> states that a dialog sends what it shows: what its request says depends on nothing but its drawn
  inputs. Every dialog with a form interprets it, apart from the ACME dialog, which sends leftovers of inputs it has
  taken away; \<open>acme_leftovers\<close> says which.
\<close>

section \<open>Dialogs that send what they show\<close>

definition dialog_view :: "('d \<Rightarrow> 'd control list) \<Rightarrow> 'd \<Rightarrow> (string \<times> entry) list" where
  "dialog_view inputs st = map (\<lambda>c. (ct_label c, control_shows c st)) (inputs st)"

locale visible_form =
  fixes inputs :: "'d \<Rightarrow> 'd control list" and request :: "'d \<Rightarrow> 'r"
  assumes by_view: "dialog_view inputs st = dialog_view inputs st' \<Longrightarrow> request st = request st'"
begin

text \<open>Entering something and entering the old value again sends what was to be sent before.\<close>

lemma entered_back:
  assumes "dialog_view inputs (control_enters c e' (control_enters c e st)) = dialog_view inputs st"
  shows "request (control_enters c e' (control_enters c e st)) = request st"
  using by_view [OF assms] .

text \<open>What is sent is a function of what is shown.\<close>

lemma request_of_view: "\<exists>f. \<forall>st. request st = f (dialog_view inputs st)"
proof (intro exI [of _ "\<lambda>v. request (SOME st. dialog_view inputs st = v)"] allI)
  fix st
  show "request st = request (SOME st'. dialog_view inputs st' = dialog_view inputs st)"
    by (rule by_view) (metis (mono_tags, lifting) someI)
qed

end

section \<open>Imports\<close>

definition import_inputs :: "import_kind \<Rightarrow> import_dialog \<Rightarrow> import_dialog control list" where
  "import_inputs kind drawn =
     [SelectBox ''format'' [''json'', ''csv''] im_format (changeFormat kind),
      TextBox ''content'' im_content (\<lambda>t st. st\<lparr>im_content := t, im_summary := None\<rparr>),
      TickBox ''updateExisting'' im_update (\<lambda>b st. st\<lparr>im_update := b, im_summary := None\<rparr>)]"

definition import_button :: "bool \<Rightarrow> import_dialog \<Rightarrow> string \<times> bool" where
  "import_button canSubmit st =
     (if im_saving st then ''importing'' else if im_summary st \<noteq> None then ''import again'' else ''import'', \<not> im_saving st \<and> canSubmit)"

definition import_notice :: "import_kind \<Rightarrow> import_dialog \<Rightarrow> string option" where
  "import_notice kind st =
     (case kind of AssetsImport \<Rightarrow> (if im_format st = ''csv'' then Some ''csv columns'' else None) | UsersImport \<Rightarrow> Some ''passwords and roles'')"

definition import_panel :: "import_dialog \<Rightarrow> (string \<times> jsval) list" where
  "import_panel st = (case im_summary st of Some s \<Rightarrow> ImportSummaryPanel s | None \<Rightarrow> [])"

interpretation import_form: visible_form "import_inputs kind" "\<lambda>st. import_payload (im_format st) (im_content st) (im_update st)" for kind
  by unfold_locales (simp add: dialog_view_def import_inputs_def)

section \<open>Bulk authorisation\<close>

definition bulk_inputs :: "platform_item list \<Rightarrow> bulk_dialog \<Rightarrow> bulk_dialog control list" where
  "bulk_inputs groups drawn =
     [TextBox ''subjects'' bk_subjects (\<lambda>t st. st\<lparr>bk_subjects := t\<rparr>)]
     @ (if groups \<noteq> [] then [SelectBox ''group'' ('''' # map it_id groups) bk_group (\<lambda>t st. st\<lparr>bk_group := t\<rparr>)] else [])
     @ [TextBox ''targets'' bk_targets (\<lambda>t st. st\<lparr>bk_targets := t\<rparr>), TextBox ''expires'' bk_expires (\<lambda>t st. st\<lparr>bk_expires := t\<rparr>)]"

definition authorizationTargetHelp :: "string \<Rightarrow> string" where
  "authorizationTargetHelp collection =
     (if collection = ''web_assets'' then ''web asset or group per line'' else if collection = ''database_assets''
      then ''database asset or group per line'' else ''asset or group per line'')"

definition group_option :: "platform_item \<Rightarrow> string \<times> string" where
  "group_option grp = (it_id grp, it_name grp @ '' '' @ or_str (it_protocol grp) (or_str (it_type grp) ''custom''))"

definition append_enabled :: "platform_item list \<Rightarrow> bulk_dialog \<Rightarrow> bool" where
  "append_enabled groups st \<longleftrightarrow> groups \<noteq> [] \<and> bk_group st \<noteq> ''''"

definition bulk_panel :: "bulk_dialog \<Rightarrow> (string \<times> jsval) list" where
  "bulk_panel st =
     (if truthy (bk_summary st)
      then map (\<lambda>k. (k, let v = obj_get (recordValue (bk_summary st)) k in if truthy v then v else JNum (Fin 0)))
             [''created'', ''updated'', ''skipped'', ''total'']
      else [])"

definition bulk_button :: "bool \<Rightarrow> bulk_dialog \<Rightarrow> string \<times> bool" where
  "bulk_button canSubmit st = (if bk_saving st then ''authorizing'' else ''authorize'', bulk_enabled canSubmit st)"

interpretation bulk_form: visible_form "bulk_inputs groups" "bulk_request collection" for groups collection
  by unfold_locales (auto simp: dialog_view_def bulk_inputs_def bulk_request_def split: if_splits)

section \<open>Decisions and executions\<close>

definition decision_inputs :: "decision_dialog \<Rightarrow> decision_dialog control list" where
  "decision_inputs drawn = [TextBox ''note'' dc_note (\<lambda>t st. st\<lparr>dc_note := t\<rparr>)]"

definition decision_button :: "decision \<Rightarrow> bool \<Rightarrow> decision_dialog \<Rightarrow> string \<times> bool" where
  "decision_button d canSubmit st = (if dc_saving st then ''submitting'' else decision_name d, \<not> dc_saving st \<and> canSubmit)"

definition order_summary :: "platform_item \<Rightarrow> string list" where
  "order_summary item =
     or_str (mtext item ''sql'') ''-'' # (if mtext item ''reason'' \<noteq> '''' then [''reason: '' @ mtext item ''reason''] else [])"

definition approval_summary :: "platform_item \<Rightarrow> string list" where
  "approval_summary item =
     [or_str (mtext item ''command'') ''-'',
      ''rule: '' @ or_str (mtext item ''rule_name'') ''-'' @ '' / risk: '' @ or_str (mtext item ''risk'') ''-'']"

definition ssh_exec_inputs :: "exec_dialog \<Rightarrow> exec_dialog control list" where
  "ssh_exec_inputs drawn =
     [TextBox ''command'' ex_command (\<lambda>t st. st\<lparr>ex_command := t\<rparr>), NumberBox ''timeoutSeconds'' ex_timeout (\<lambda>t st. st\<lparr>ex_timeout := t\<rparr>)]"

definition command_exec_inputs :: "exec_dialog \<Rightarrow> exec_dialog control list" where
  "command_exec_inputs drawn = [NumberBox ''timeoutSeconds'' ex_timeout (\<lambda>t st. st\<lparr>ex_timeout := t\<rparr>)]"

definition command_exec_button :: "bool \<Rightarrow> exec_dialog \<Rightarrow> string \<times> bool" where
  "command_exec_button canExecute st = (if ex_running st then ''running'' else ''execute'', \<not> ex_running st \<and> canExecute)"

text \<open>The panel of an SSH command: status, action, risk with their tones, the exit line, error and both outputs.\<close>

record exec_panel =
  ep_status :: string
  ep_action :: "string \<times> tone"
  ep_risk :: "string \<times> tone"
  ep_exit :: "string \<times> string"
  ep_error :: "string option"
  ep_stdout :: string
  ep_stderr :: string

definition ssh_exec_panel :: "js_object \<Rightarrow> exec_panel" where
  "ssh_exec_panel result =
     (let txt = (\<lambda>k. metadataText (obj_get result k))
      in \<lparr>ep_status = txt ''status'',
          ep_action = (or_str (txt ''action'') (txt ''status''), if truthy (obj_get result ''blocked'') then Danger else statusTone (txt ''status'')),
          ep_risk = (or_str (txt ''risk'') ''normal'', if txt ''risk'' = ''high'' then Danger else if txt ''risk'' = ''normal'' then Neutral else Warning),
          ep_exit = (txt ''exit_code'', txt ''duration_ms''),
          ep_error = (if txt ''error'' \<noteq> '''' then Some (txt ''error'') else None),
          ep_stdout = or_str (txt ''stdout'') ''sshExecDialog.stdoutEmpty'', ep_stderr = or_str (txt ''stderr'') ''sshExecDialog.stderrEmpty''\<rparr>)"

definition sql_inputs :: "string option \<Rightarrow> sql_dialog \<Rightarrow> sql_dialog control list" where
  "sql_inputs workOrderEndpoint drawn =
     TextBox ''sql'' sq_sql (\<lambda>t st. st\<lparr>sq_sql := t\<rparr>)
     # (if opt_str workOrderEndpoint \<noteq> '''' then [TextBox ''reason'' sq_reason (\<lambda>t st. st\<lparr>sq_reason := t\<rparr>)] else [])"

definition sql_buttons :: "string option \<Rightarrow> bool \<Rightarrow> sql_dialog \<Rightarrow> (string \<times> bool) list" where
  "sql_buttons workOrderEndpoint canExecute st =
     (if opt_str workOrderEndpoint \<noteq> ''''
      then [(if sq_submitting st then ''sqlDialog.submitting'' else ''sqlDialog.submitWorkOrder'', \<not> sq_submitting st \<and> trim (sq_sql st) \<noteq> '''')]
      else [])
     @ [(if sq_running st then ''sqlDialog.running'' else ''sqlDialog.execute'', \<not> sq_running st \<and> canExecute \<and> trim (sq_sql st) \<noteq> '''')]"

definition sql_result_head :: "platform_item \<Rightarrow> string \<times> string \<times> tone" where
  "sql_result_head result = (or_str (it_description result) (it_name result), it_status result, statusTone (it_status result))"

text \<open>A row of the logs of a task or a certificate.\<close>

definition log_row :: "platform_item \<Rightarrow> string \<times> string \<times> tone \<times> string \<times> string" where
  "log_row entry =
     (it_name entry, it_status entry, statusTone (it_status entry), or_str (it_description entry) (it_id entry),
      json_stringify (JObj (case it_metadata entry of Some ob \<Rightarrow> ob | None \<Rightarrow> [])))"

definition logs_body :: "bool \<Rightarrow> platform_item list \<Rightarrow> string + (string \<times> string \<times> tone \<times> string \<times> string) list" where
  "logs_body canRead logs =
     (if \<not> canRead then Inl ''permissionDenied'' else if logs = [] then Inl ''no logs'' else Inr (map log_row logs))"

interpretation decision_form: visible_form decision_inputs "\<lambda>st. post_request path (JObj [(''note'', JStr (dc_note st))])" for path
  by unfold_locales (simp add: dialog_view_def decision_inputs_def)

interpretation ssh_exec_form: visible_form ssh_exec_inputs "\<lambda>st. ssh_exec_request item st code" for item code
  by unfold_locales (simp add: dialog_view_def ssh_exec_inputs_def ssh_exec_request_def)

interpretation command_exec_form: visible_form command_exec_inputs "\<lambda>st. command_execute_request item st code" for item code
  by unfold_locales (simp add: dialog_view_def command_exec_inputs_def command_execute_request_def)

interpretation sql_form: visible_form "sql_inputs endpoint" "\<lambda>st. sql_execute_request path st code" for endpoint path code
  by unfold_locales (simp add: dialog_view_def sql_inputs_def sql_execute_request_def)

interpretation work_order_form: visible_form "sql_inputs (Some (CHR ''/'' # endpoint))" "\<lambda>st. work_order_request path st code" for endpoint path code
  by unfold_locales (simp add: dialog_view_def sql_inputs_def work_order_request_def opt_str_def)

section \<open>Certificates\<close>

definition certificate_inputs :: "certificate_form \<Rightarrow> certificate_form control list" where
  "certificate_inputs drawn =
     [TextBox ''name'' cf_name (\<lambda>t st. st\<lparr>cf_name := t\<rparr>), TextBox ''domain'' cf_domain (\<lambda>t st. st\<lparr>cf_domain := t\<rparr>),
      TextBox ''dns'' cf_dns (\<lambda>t st. st\<lparr>cf_dns := t\<rparr>), TextBox ''ip'' cf_ip (\<lambda>t st. st\<lparr>cf_ip := t\<rparr>),
      NumberBox ''days'' cf_days (\<lambda>t st. st\<lparr>cf_days := t\<rparr>)]"

definition certificate_button :: "bool \<Rightarrow> certificate_form \<Rightarrow> string \<times> bool" where
  "certificate_button canSubmit st =
     (if cf_saving st then ''creating'' else ''create'', \<not> cf_saving st \<and> canSubmit \<and> trim (cf_domain st) \<noteq> '''')"

text \<open>The upload: a name and three file pickers, each of which sets its file or clears it.\<close>

definition upload_inputs :: "certificate_upload \<Rightarrow> certificate_upload control list" where
  "upload_inputs drawn = [TextBox ''name'' cu_name (\<lambda>t st. st\<lparr>cu_name := t\<rparr>)]"

definition pick_certificate :: "string \<Rightarrow> jsval option \<Rightarrow> certificate_upload \<Rightarrow> certificate_upload" where
  "pick_certificate part f st =
     (if part = ''certificate'' then st\<lparr>cu_certificate := f\<rparr>
      else if part = ''private_key'' then st\<lparr>cu_private_key := f\<rparr>
      else if part = ''chain'' then st\<lparr>cu_chain := f\<rparr> else st)"

definition upload_button :: "bool \<Rightarrow> certificate_upload \<Rightarrow> string \<times> bool" where
  "upload_button canUpload st =
     (if cu_saving st then ''uploading'' else ''upload'', \<not> cu_saving st \<and> canUpload \<and> cu_certificate st \<noteq> None)"

definition acme_modes :: "string list" where
  "acme_modes = [''letsencrypt'', ''staging'', ''local-ca'', ''custom'']"

text \<open>\<open>ids\<close>: the ids of the loaded providers.\<close>

definition acme_inputs :: "string list \<Rightarrow> acme_dialog \<Rightarrow> acme_dialog control list" where
  "acme_inputs ids drawn =
     [TextBox ''name'' ac_name (\<lambda>t st. st\<lparr>ac_name := t\<rparr>), TextBox ''domain'' ac_domain (\<lambda>t st. st\<lparr>ac_domain := t\<rparr>),
      TextBox ''dns'' ac_dns (\<lambda>t st. st\<lparr>ac_dns := t\<rparr>), TextBox ''ip'' ac_ip (\<lambda>t st. st\<lparr>ac_ip := t\<rparr>),
      TextBox ''email'' ac_email (\<lambda>t st. st\<lparr>ac_email := t\<rparr>), SelectBox ''mode'' acme_modes ac_mode (\<lambda>t st. st\<lparr>ac_mode := t\<rparr>)]
     @ (if ac_mode drawn = ''custom'' then [TextBox ''directory'' ac_directory (\<lambda>t st. st\<lparr>ac_directory := t\<rparr>)] else [])
     @ (if ac_mode drawn = ''local-ca'' then [NumberBox ''days'' ac_days (\<lambda>t st. st\<lparr>ac_days := t\<rparr>)] else [])
     @ (if ac_mode drawn \<noteq> ''local-ca''
        then [SelectBox ''challenge'' [''http-01'', ''dns-01''] ac_challenge (\<lambda>t st. st\<lparr>ac_challenge := t\<rparr>)] else [])
     @ (if ac_mode drawn \<noteq> ''local-ca'' \<and> ac_challenge drawn = ''dns-01''
        then [SelectBox ''provider'' ('''' # ids) ac_provider_id (\<lambda>t st. st\<lparr>ac_provider_id := t\<rparr>)] else [])
     @ [TickBox ''default'' ac_default (\<lambda>b st. st\<lparr>ac_default := b\<rparr>), TickBox ''mtls'' ac_mtls (\<lambda>b st. st\<lparr>ac_mtls := b\<rparr>)]"

definition acme_button :: "can_use \<Rightarrow> acme_dialog \<Rightarrow> string \<times> bool" where
  "acme_button can st = (if ac_saving st then ''issuing'' else ''issue'', acme_enabled can st)"

definition acme_panel :: "(string \<Rightarrow> string) \<Rightarrow> acme_dialog \<Rightarrow> (string \<times> string \<times> tone \<times> string \<times> string) option" where
  "acme_panel formatDate st =
     (case ac_issued st of
        Some v \<Rightarrow>
          if truthy v
          then let ob = recordValue v; m = recordValue (obj_get ob ''metadata''); status = metadataText (obj_get ob ''status'')
               in Some (metadataText (obj_get ob ''name''), status, statusTone status, or_str (metadataText (obj_get m ''acme_mode'')) ''-'',
                    formatDate (metadataText (obj_get m ''expires_at'')))
          else None
      | None \<Rightarrow> None)"

section \<open>DNS providers and mTLS\<close>

definition dns_inputs :: "dns_dialog \<Rightarrow> dns_dialog control list" where
  "dns_inputs drawn =
     [TextBox ''name'' dn_name (\<lambda>t st. st\<lparr>dn_name := t\<rparr>),
      SelectBox ''provider'' [''cloudflare'', ''alidns'', ''dnspod''] dn_provider (\<lambda>t st. st\<lparr>dn_provider := t\<rparr>),
      TextBox ''zone'' dn_zone (\<lambda>t st. st\<lparr>dn_zone := t\<rparr>)]
     @ (if dn_provider drawn = ''alidns'' then [TextBox ''accessKeyID'' dn_accessKeyID (\<lambda>t st. st\<lparr>dn_accessKeyID := t\<rparr>)] else [])
     @ [TextBox ''token'' dn_token (\<lambda>t st. st\<lparr>dn_token := t\<rparr>), NumberBox ''timeout'' dn_timeout (\<lambda>t st. st\<lparr>dn_timeout := t\<rparr>)]"

definition token_placeholder :: "dns_dialog \<Rightarrow> string" where
  "token_placeholder st =
     (if dn_editing st \<noteq> None then ''leaveBlankToKeepSecret''
      else if dn_provider st = ''cloudflare'' then ''Cloudflare API Token''
      else if dn_provider st = ''dnspod'' then ''ID,Token'' else ''AccessKeySecret'')"

datatype dns_button = CancelDNSEdit | SaveDNS | EditDNS platform_item | RemoveDNS platform_item

definition dns_row_buttons :: "can_use \<Rightarrow> platform_item \<Rightarrow> (dns_button \<times> bool) list" where
  "dns_row_buttons can item =
     (if can ''PATCH'' (dns_path @ ''/'' @ it_id item) then [(EditDNS item, True)] else [])
     @ (if can ''DELETE'' (dns_path @ ''/'' @ it_id item) then [(RemoveDNS item, True)] else [])"

definition dns_buttons :: "can_use \<Rightarrow> dns_dialog \<Rightarrow> (dns_button \<times> bool) list" where
  "dns_buttons can st =
     (if dn_editing st \<noteq> None then [(CancelDNSEdit, True)] else []) @ [(SaveDNS, dns_enabled can st)]
     @ (if can ''GET'' dns_path then concat (map (dns_row_buttons can) (dn_providers st)) else [])"

definition dns_rows :: "can_use \<Rightarrow> dns_dialog \<Rightarrow> (string \<times> string \<times> string) list option" where
  "dns_rows can st =
     (if can ''GET'' dns_path then Some (map (\<lambda>i. (it_name i, mtext i ''provider'', mtext i ''zone'')) (dn_providers st)) else None)"

definition press_dns ::
  "(jsval \<Rightarrow> platform_item list) \<Rightarrow> can_use \<Rightarrow> env \<Rightarrow> dns_button \<Rightarrow> dns_dialog \<Rightarrow> log \<Rightarrow> dns_dialog \<times> log" where
  "press_dns items_of can ev b st l =
     (case b of
        CancelDNSEdit \<Rightarrow> (resetForm st, l)
      | SaveDNS \<Rightarrow> dns_submit items_of can ev st l
      | EditDNS item \<Rightarrow> (editProvider item st, l)
      | RemoveDNS item \<Rightarrow> deleteProvider items_of can ev item st l)"

definition mtls_inputs :: "mtls_dialog \<Rightarrow> mtls_dialog control list" where
  "mtls_inputs drawn =
     [TickBox ''enabled'' mt_enabled (\<lambda>b st. st\<lparr>mt_enabled := b\<rparr>), TextBox ''clientCA'' mt_clientCA (\<lambda>t st. st\<lparr>mt_clientCA := t\<rparr>)]"

definition mtls_button :: "bool \<Rightarrow> mtls_dialog \<Rightarrow> string \<times> bool" where
  "mtls_button canSave st = (if mt_saving st then ''saving'' else ''save'', \<not> mt_saving st \<and> canSave)"

interpretation certificate_form: visible_form certificate_inputs certificate_request
  by unfold_locales (simp add: dialog_view_def certificate_inputs_def certificate_request_def)

interpretation dns_form: visible_form dns_inputs dns_body
  by unfold_locales (auto simp: dialog_view_def dns_inputs_def dns_body_def split: if_splits)

interpretation mtls_form: visible_form mtls_inputs "mtls_request item" for item
  by unfold_locales (simp add: dialog_view_def mtls_inputs_def mtls_request_def)

section \<open>Playback, gateways and tokens\<close>

text \<open>The controls of the recording player; a transcoded recording plays in the browser's own player.\<close>

definition player_view :: "playback \<Rightarrow> (string + (string \<times> bool) list) \<times> string list" where
  "player_view p =
     (if videoURL p \<noteq> '''' then Inl (videoURL p)
      else Inr [(if pb_playing p then ''pauseRecording'' else ''playRecording'', playback_controls_enabled p),
                (''restartRecording'', playback_controls_enabled p), (''recordingPlaybackPosition'', playback_controls_enabled p)],
      (if pb_loading p then [''recordingLoading''] else []) @ (if pb_error p \<noteq> '''' then [pb_error p] else []))"

text \<open>The head and the notices of the status of a gateway.\<close>

definition gateway_head :: "platform_item \<Rightarrow> query_state \<Rightarrow> string \<times> string \<times> tone" where
  "gateway_head item q = (or_str (it_name item) (it_id item), or_str (status_badge item q) ''-'', statusTone (status_badge item q))"

definition GatewayDetailSection :: "string \<Rightarrow> (string \<times> string) list \<Rightarrow> string \<times> (string \<times> string) list" where
  "GatewayDetailSection title rows = (title, map (\<lambda>(label, v). (label, or_str v ''-'')) rows)"

definition GatewayMetric :: "string \<Rightarrow> string \<Rightarrow> string \<times> string" where
  "GatewayMetric label v = (label, or_str v ''-'')"

section \<open>Properties\<close>

text \<open>
  The dialogs send what they show: two states that show the same in every drawn input send the same, whatever else they
  hold, such as an access key of a provider that is no longer chosen, the group picked for the list of targets or the
  reason of a work order that is not asked for.
\<close>
theorem dialogs_send_what_they_show:
  "(dialog_view (import_inputs kind) im = dialog_view (import_inputs kind) im' \<longrightarrow>
      import_payload (im_format im) (im_content im) (im_update im) = import_payload (im_format im') (im_content im') (im_update im'))
   \<and> (dialog_view (bulk_inputs groups) bk = dialog_view (bulk_inputs groups) bk' \<longrightarrow> bulk_request collection bk = bulk_request collection bk')
   \<and> (dialog_view ssh_exec_inputs ex = dialog_view ssh_exec_inputs ex' \<longrightarrow> ssh_exec_request item ex code = ssh_exec_request item ex' code)
   \<and> (dialog_view (sql_inputs endpoint) sq = dialog_view (sql_inputs endpoint) sq' \<longrightarrow>
      sql_execute_request path sq code = sql_execute_request path sq' code)
   \<and> (dialog_view certificate_inputs cf = dialog_view certificate_inputs cf' \<longrightarrow> certificate_request cf = certificate_request cf')
   \<and> (dialog_view dns_inputs dn = dialog_view dns_inputs dn' \<longrightarrow> dns_body dn = dns_body dn')
   \<and> (dialog_view mtls_inputs mt = dialog_view mtls_inputs mt' \<longrightarrow> mtls_request item mt = mtls_request item mt')"
  by (intro conjI impI import_form.by_view bulk_form.by_view ssh_exec_form.by_view sql_form.by_view certificate_form.by_view
      dns_form.by_view mtls_form.by_view)

lemma acme_shown_sent:
  assumes "ac_mode st \<in> set acme_modes" and "dialog_view (acme_inputs ids) st = dialog_view (acme_inputs ids) st'"
  shows "(\<forall>k. k \<noteq> ''days'' \<and> k \<noteq> ''dns_provider_id'' \<longrightarrow> obj_get (acme_body st) k = obj_get (acme_body st') k)
    \<and> (ac_mode st = ''local-ca'' \<longrightarrow> obj_get (acme_body st) ''days'' = obj_get (acme_body st') ''days'')
    \<and> (ac_mode st \<noteq> ''local-ca'' \<longrightarrow> obj_get (acme_body st) ''dns_provider_id'' = obj_get (acme_body st') ''dns_provider_id'')"
proof -
  have same: "ac_name st = ac_name st'" "ac_domain st = ac_domain st'" "ac_dns st = ac_dns st'" "ac_ip st = ac_ip st'"
      "ac_email st = ac_email st'" "ac_mode st = ac_mode st'" "ac_default st = ac_default st'" "ac_mtls st = ac_mtls st'"
    using assms(2) by (auto simp: dialog_view_def acme_inputs_def split: if_splits)
  have directory: "directoryURL st = directoryURL st'"
    using assms same(6) by (auto simp: directoryURL_def dialog_view_def acme_inputs_def acme_modes_def split: if_splits)
  have days: "ac_mode st = ''local-ca'' \<Longrightarrow> ac_days st = ac_days st'"
    and challenge: "ac_mode st \<noteq> ''local-ca'' \<Longrightarrow> ac_challenge st = ac_challenge st'
      \<and> (ac_challenge st = ''dns-01'' \<longrightarrow> ac_provider_id st = ac_provider_id st')"
    using assms same(6) by (auto simp: dialog_view_def acme_inputs_def split: if_splits)
  have "ac_mode st = ''local-ca'' \<or> ac_challenge st = ac_challenge st'" using challenge by blast
  then show ?thesis
    using same directory days challenge by (auto simp: acme_body_def obj_get_def)
qed

text \<open>Entering something into the drawn input of a name; nothing happens when it is not drawn.\<close>

definition enter_drawn :: "('d \<Rightarrow> 'd control list) \<Rightarrow> string \<Rightarrow> entry \<Rightarrow> 'd \<Rightarrow> 'd" where
  "enter_drawn inputs name e st =
     (case find (\<lambda>c. ct_label c = name) (inputs st) of Some c \<Rightarrow> control_enters c e st | None \<Rightarrow> st)"

definition drawn_names :: "('d \<Rightarrow> 'd control list) \<Rightarrow> 'd \<Rightarrow> string set" where
  "drawn_names inputs st = ct_label ` set (inputs st)"

text \<open>C36 The ACME dialog sends two inputs that are no longer on the screen, and nothing else that is not shown. Whatever days were typed
  for the local authority and whatever other mode is chosen then, the request carries those days, and there is no input that
  shows them; whatever DNS provider was chosen for a challenge, once the local authority is chosen the request
  carries the provider, and no input shows it. Two states that show the same send the same but for these: the days outside
  the local authority, and the provider with it.
\<close>
theorem acme_leftovers:
  assumes "ac_mode st \<in> set acme_modes"
  shows "(let entered = enter_drawn (acme_inputs ids) ''mode'' (Typed m) (enter_drawn (acme_inputs ids) ''days'' (Typed t) st)
        in ac_mode st = ''local-ca'' \<and> m \<noteq> ''local-ca'' \<longrightarrow>
             obj_get (acme_body entered) ''days'' = days_or 90 t \<and> ''days'' \<notin> drawn_names (acme_inputs ids) entered)
    \<and> (let entered = enter_drawn (acme_inputs ids) ''mode'' (Typed ''local-ca'') (enter_drawn (acme_inputs ids) ''provider'' (Typed p) st)
        in ac_mode st \<noteq> ''local-ca'' \<and> ac_challenge st = ''dns-01'' \<longrightarrow>
             obj_get (acme_body entered) ''dns_provider_id'' = JStr p \<and> ''provider'' \<notin> drawn_names (acme_inputs ids) entered)
    \<and> (dialog_view (acme_inputs ids) st = dialog_view (acme_inputs ids) st' \<longrightarrow>
        (\<forall>k. k \<noteq> ''days'' \<and> k \<noteq> ''dns_provider_id'' \<longrightarrow> obj_get (acme_body st) k = obj_get (acme_body st') k)
        \<and> (ac_mode st = ''local-ca'' \<longrightarrow> obj_get (acme_body st) ''days'' = obj_get (acme_body st') ''days'')
        \<and> (ac_mode st \<noteq> ''local-ca'' \<longrightarrow> obj_get (acme_body st) ''dns_provider_id'' = obj_get (acme_body st') ''dns_provider_id''))"
    (is "?days \<and> ?provider \<and> (?same \<longrightarrow> ?bound)")
proof -
  have ?days by (auto simp: Let_def enter_drawn_def drawn_names_def acme_inputs_def acme_body_def obj_get_def)
  moreover have ?provider by (auto simp: Let_def enter_drawn_def drawn_names_def acme_inputs_def acme_body_def obj_get_def)
  moreover have "?same \<longrightarrow> ?bound" using acme_shown_sent [OF assms, of ids st'] by (rule impI)
  ultimately show ?thesis by (intro conjI)
qed

section \<open>Witnesses\<close>

lemma dialogs_send_what_they_show_witness:
  "dns_body (open_dns\<lparr>dn_accessKeyID := ''old''\<rparr>) = dns_body open_dns"
  using dialogs_send_what_they_show [of AssetsImport "open_import AssetsImport" "open_import AssetsImport" "[]" "open_bulk []" "open_bulk []"
      "''assets''" "open_ssh_exec blank_item" "open_ssh_exec blank_item" blank_item "''''" None "open_sql None blank_item" "open_sql None blank_item"
      "''''" open_certificate open_certificate "open_dns\<lparr>dn_accessKeyID := ''old''\<rparr>" open_dns "open_mtls blank_item" "open_mtls blank_item"]
  by (simp add: dialog_view_def dns_inputs_def open_dns_def)

text \<open>Both leftovers happen.\<close>

definition local_ca_dialog :: acme_dialog where
  "local_ca_dialog = open_acme\<lparr>ac_mode := ''local-ca''\<rparr>"

definition dns_challenge_dialog :: acme_dialog where
  "dns_challenge_dialog = open_acme\<lparr>ac_challenge := ''dns-01''\<rparr>"

lemma acme_leftovers_witness:
  "obj_get (acme_body (enter_drawn (acme_inputs []) ''mode'' (Typed ''staging'')
     (enter_drawn (acme_inputs []) ''days'' (Typed ''7'') local_ca_dialog))) ''days'' = days_or 90 ''7''
   \<and> obj_get (acme_body (enter_drawn (acme_inputs [''d1'']) ''mode'' (Typed ''local-ca'')
     (enter_drawn (acme_inputs [''d1'']) ''provider'' (Typed ''d1'') dns_challenge_dialog))) ''dns_provider_id'' = JStr ''d1''"
  using acme_leftovers [of local_ca_dialog "[]" "''staging''" "''7''" "''''" local_ca_dialog]
    acme_leftovers [of dns_challenge_dialog "[''d1'']" "''''" "''''" "''d1''" dns_challenge_dialog]
  by (simp add: Let_def local_ca_dialog_def dns_challenge_dialog_def open_acme_def acme_modes_def)

end
