(* ===== verification/Frame.thy ===== *)
theory Frame
  imports ConsolePages "HOL-Library.Sublist"
begin

text \<open>
  The frame of the console: the side bar as it is drawn (\<open>components/layout/app-sidebar.tsx\<close>), the command palette over time
  (\<open>components/layout/command-search.tsx\<close>), and the body of the generic table page between its header and its dialogs
  (\<open>PlatformTablePage\<close> of \<open>platform-page.tsx\<close>). Widths, icons and animation are left out.
\<close>

section \<open>The side bar\<close>

record nav_entry =
  ne_to :: string
  ne_label :: string
  ne_active :: bool

definition console_label :: "string \<Rightarrow> string" where
  "console_label to = (if to = ''/app'' then ''overview'' else if to = ''/access'' then ''accessPortal'' else ''connectionWorkspace'')"

definition nav_entry_of :: "string \<Rightarrow> string \<Rightarrow> string \<Rightarrow> nav_entry" where
  "nav_entry_of pathname to label = \<lparr>ne_to = to, ne_label = label, ne_active = link_active pathname to\<rparr>"

definition sidebar_console :: "session \<Rightarrow> string \<Rightarrow> nav_entry list" where
  "sidebar_console s pathname = map (\<lambda>to. nav_entry_of pathname to (console_label to)) (visibleConsoleNav s)"

definition sidebar_groups :: "(page_config \<Rightarrow> string) \<Rightarrow> session \<Rightarrow> string \<Rightarrow> (string \<times> nav_entry list) list" where
  "sidebar_groups platformLabel s pathname =
     map (\<lambda>(label, items). (label, map (\<lambda>it. nav_entry_of pathname (pg_route it) (platformLabel it)) items)) (visiblePlatformGroups s)"

definition sidebar_entries :: "(page_config \<Rightarrow> string) \<Rightarrow> session \<Rightarrow> string \<Rightarrow> nav_entry list" where
  "sidebar_entries platformLabel s pathname = sidebar_console s pathname @ concat (map snd (sidebar_groups platformLabel s pathname))"

text \<open>The key of the animation: it changes with the section, so that the navigation slides in anew.\<close>

definition animationKey :: "bool \<Rightarrow> session \<Rightarrow> string \<Rightarrow> string" where
  "animationKey collapsed s pathname = (if collapsed then ''collapsed'' else ''expanded'') @ '':'' @ activeSection s pathname"

definition sidebar_gateway :: "string option \<Rightarrow> string \<Rightarrow> (string \<times> tone) \<times> string" where
  "sidebar_gateway guacd address =
     (if isGuacdReady guacd then (''gatewayReady'', Success) else (''gatewayOffline'', Warning), or_str address ''guacdOffline'')"

section \<open>The command palette\<close>

record palette =
  cp_open :: bool
  cp_query :: string

definition palette_start :: palette where
  "palette_start = \<lparr>cp_open = False, cp_query = ''''\<rparr>"

text \<open>The keyboard: Ctrl+K or Cmd+K opens it, in either case of the letter.\<close>

definition palette_key :: "bool \<Rightarrow> bool \<Rightarrow> string \<Rightarrow> palette \<Rightarrow> palette" where
  "palette_key metaKey ctrlKey key st = (if (metaKey \<or> ctrlKey) \<and> lower key = ''k'' then st\<lparr>cp_open := True\<rparr> else st)"

definition palette_close :: "palette \<Rightarrow> palette" where
  "palette_close st = st\<lparr>cp_open := False, cp_query := ''''\<rparr>"

text \<open>A command: what is run, with its label and description.\<close>

record command_item =
  ci_id :: string
  ci_label :: string
  ci_description :: string
  ci_run :: command_run
  ci_protocol :: string

definition fixed_texts :: "(string \<times> string \<times> string) list" where
  "fixed_texts =
     [(''overview'', ''overview'', ''commandSearch.overviewDescription''), (''access'', ''accessPortal'', ''commandSearch.serversDescription''),
      (''servers'', ''assets'', ''commandSearch.serversDescription''), (''sessions'', ''sessions'', ''commandSearch.sessionsDescription''),
      (''new-server'', ''addAsset'', ''commandSearch.newServerDescription''), (''audit'', ''audit'', ''commandSearch.auditDescription'')]"

definition fixed_command :: "string \<Rightarrow> command_run \<Rightarrow> command_item" where
  "fixed_command i run =
     (case map_of fixed_texts i of
        Some (label, description) \<Rightarrow> \<lparr>ci_id = i, ci_label = label, ci_description = description, ci_run = run, ci_protocol = ''''\<rparr>
      | None \<Rightarrow> \<lparr>ci_id = i, ci_label = '''', ci_description = '''', ci_run = run, ci_protocol = ''''\<rparr>)"

definition page_command :: "(page_config \<Rightarrow> string) \<Rightarrow> (page_config \<Rightarrow> string) \<Rightarrow> page_config \<Rightarrow> command_item" where
  "page_command label description pg =
     \<lparr>ci_id = ''platform:'' @ pg_route pg, ci_label = label pg, ci_description = description pg, ci_run = GoTo (pg_route pg), ci_protocol = ''''\<rparr>"

definition server_command :: "managed_server \<Rightarrow> command_item" where
  "server_command sv =
     \<lparr>ci_id = ''server:'' @ sv_id sv, ci_label = sv_name sv, ci_description = sv_host sv @ '' / '' @ sv_os sv, ci_run = OpenConnect (sv_id sv),
      ci_protocol = serverProtocol sv\<rparr>"

definition commands ::
  "(page_config \<Rightarrow> string) \<Rightarrow> (page_config \<Rightarrow> string) \<Rightarrow> session \<Rightarrow> managed_server list \<Rightarrow> command_item list" where
  "commands label description s servers =
     (let admin = isAdminRole (session_role s); auditor = isAuditorRole (session_role s);
          visible = filter (\<lambda>pg. canViewPlatformPage (session_role s) pg (session_menu s)) platformPages
      in [fixed_command ''overview'' (GoTo ''/app''), fixed_command ''access'' (GoTo ''/access'')]
         @ map (page_command label description) visible
         @ (if admin
            then [fixed_command ''servers'' (GoTo ''/app/servers''), fixed_command ''sessions'' (GoTo ''/app/sessions''),
                  fixed_command ''new-server'' OpenServerDialog] @ map server_command servers
            else [])
         @ (if admin \<or> auditor then [fixed_command ''audit'' (GoTo ''/app/audit'')] else []))"

definition command_text :: "command_item \<Rightarrow> string" where
  "command_text c = ci_label c @ '' '' @ ci_description c"

definition palette_shown :: "command_item list \<Rightarrow> palette \<Rightarrow> command_item list" where
  "palette_shown cs st = visibleCommands command_text (cp_query st) cs"

text \<open>Running a command navigates or opens a dialog, then closes the palette.\<close>

definition runCommand :: "command_item \<Rightarrow> palette \<times> modal option \<Rightarrow> log \<Rightarrow> (palette \<times> modal option) \<times> log" where
  "runCommand c st l =
     (case ci_run c of
        GoTo to \<Rightarrow> ((palette_close (fst st), snd st), l @ [Navigate to])
      | OpenServerDialog \<Rightarrow> ((palette_close (fst st), Some ServerModal), l)
      | OpenConnect i \<Rightarrow> ((palette_close (fst st), Some (ConnectModal (ci_protocol c) i)), l))"

section \<open>Facts\<close>

definition all_links :: "string list" where
  "all_links = consoleNavItems @ concat (map (\<lambda>(label, items). map pg_route items) platformNavGroups)"

lemma links_apart: "list_all (\<lambda>a. list_all (\<lambda>b. link_active a b \<longrightarrow> a = b) all_links) all_links"
  by code_simp

lemma all_links_distinct: "distinct all_links"
  by code_simp

definition group_routes :: "(string \<times> page_config list) list \<Rightarrow> string list" where
  "group_routes gs = concat (map (\<lambda>(label, items). map pg_route items) gs)"

lemma group_routes_simps [simp]: "group_routes [] = []" "group_routes (g # gs) = map pg_route (snd g) @ group_routes gs"
  by (simp_all add: group_routes_def split_beta)

lemma visible_routes:
  "group_routes (filter (\<lambda>(label, items). items \<noteq> []) (map (\<lambda>(label, items). (label, filter can items)) gs))
    = group_routes (map (\<lambda>(label, items). (label, filter can items)) gs)"
  by (induction gs) auto

lemma subseq_routes: "subseq (group_routes (map (\<lambda>(label, items). (label, filter can items)) gs)) (group_routes gs)"
  by (induction gs) (auto intro!: list_emb_append_mono subseq_map)

lemma links_by_group: "sidebar_links s = visibleConsoleNav s @ group_routes (visiblePlatformGroups s)"
  by (simp add: sidebar_links_def group_routes_def)

lemma all_links_by_group: "all_links = consoleNavItems @ group_routes platformNavGroups"
  by (simp add: all_links_def group_routes_def)

lemma sidebar_links_sublist: "subseq (sidebar_links s) all_links"
  unfolding links_by_group all_links_by_group visibleConsoleNav_def visiblePlatformGroups_def visible_routes
  by (intro list_emb_append_mono subseq_filter_left subseq_routes)

lemma group_entries:
  "map ne_to (filter ne_active (concat (map snd (map (\<lambda>(label, items). (label, map (\<lambda>it. nav_entry_of pathname (pg_route it) (f it)) items)) gs))))
    = filter (link_active pathname) (group_routes gs)"
  by (induction gs) (auto simp: filter_map comp_def nav_entry_of_def)

lemma entries_of_links:
  "map ne_to (filter ne_active (sidebar_entries platformLabel s pathname)) = filter (link_active pathname) (sidebar_links s)"
  unfolding sidebar_entries_def sidebar_groups_def links_by_group
  by (simp only: map_append filter_append group_entries) (simp add: sidebar_console_def filter_map comp_def nav_entry_of_def)

lemma commands_runs: "map (\<lambda>c. (ci_id c, ci_run c)) (commands label description s servers) = palette_commands s (map sv_id servers)"
  by (simp add: commands_def palette_commands_def Let_def comp_def fixed_command_def fixed_texts_def page_command_def server_command_def)

section \<open>The body of the table page\<close>

text \<open>The two collections that can be shown as trees, and which view is chosen.\<close>

record table_views =
  tv_departments :: string
  tv_assetGroups :: string

definition initial_views :: table_views where
  "initial_views = \<lparr>tv_departments = ''table'', tv_assetGroups = ''table''\<rparr>"

datatype view_switch = DepartmentView string | AssetGroupView string

definition view_switches :: "page_config \<Rightarrow> table_views \<Rightarrow> (view_switch \<times> bool) list" where
  "view_switches config tv =
     (if pg_collection config = ''departments''
      then [(DepartmentView ''table'', tv_departments tv = ''table''), (DepartmentView ''tree'', tv_departments tv = ''tree'')]
      else if pg_collection config = ''asset_groups''
      then [(AssetGroupView ''table'', tv_assetGroups tv = ''table''), (AssetGroupView ''tree'', tv_assetGroups tv = ''tree'')]
      else [])"

fun switch_view :: "view_switch \<Rightarrow> table_views \<Rightarrow> table_views" where
  "switch_view (DepartmentView v) tv = tv\<lparr>tv_departments := v\<rparr>"
| "switch_view (AssetGroupView v) tv = tv\<lparr>tv_assetGroups := v\<rparr>"

datatype table_body =
    DepartmentTree "platform_item list"
  | AssetGroupTree "platform_item list" "platform_item list"
  | PlainTable "platform_item list" "string list option"

definition table_body_of :: "page_config \<Rightarrow> platform_data \<Rightarrow> bool \<Rightarrow> table_views \<Rightarrow> platform_item list \<Rightarrow> table_state \<Rightarrow> table_body" where
  "table_body_of config platform selectionEnabled tv rows st =
     (if pg_collection config = ''departments'' \<and> tv_departments tv = ''tree'' then DepartmentTree rows
      else if pg_collection config = ''asset_groups'' \<and> tv_assetGroups tv = ''tree''
        then AssetGroupTree rows (or_list (map_of platform ''assets''))
      else PlainTable rows (if selectionEnabled then Some (ts_selected st) else None))"

definition dialog_title :: "string \<Rightarrow> table_state \<Rightarrow> string" where
  "dialog_title label st = (case ts_editing st of Some _ \<Rightarrow> ''edit'' | None \<Rightarrow> ''new'') @ '' '' @ label"

section \<open>Properties\<close>

lemma filter_eq_single: "distinct xs \<Longrightarrow> x \<in> set xs \<Longrightarrow> filter ((=) x) xs = [x]"
  by (induction xs) (auto simp: filter_empty_conv)

lemma find_by_filter: "List.find P xs = (case filter P xs of [] \<Rightarrow> None | y # _ \<Rightarrow> Some y)"
  by (induction xs) auto

text \<open>C37 On every page the side bar leads to, exactly one of its entries is marked as the current one, and it is the entry of that
  page: no route of the registry begins with another one, for any role and any set of visible entries.
\<close>
theorem one_entry_active:
  assumes "to \<in> set (sidebar_links s)"
  shows "map ne_to (filter ne_active (sidebar_entries platformLabel s to)) = [to] \<and> activeSection s to = to"
proof -
  obtain N where N: "sidebar_links s = nths all_links N"
    using sidebar_links_sublist [of s] by (auto simp: subseq_conv_nths)
  have within: "set (sidebar_links s) \<subseteq> set all_links" and once: "distinct (sidebar_links s)"
    using all_links_distinct by (auto simp: N dest: in_set_nthsD)
  have "link_active to b \<longleftrightarrow> to = b" if "b \<in> set (sidebar_links s)" for b
  proof
    show "link_active to b \<Longrightarrow> to = b" using links_apart within assms that by (auto simp: list_all_iff)
  qed (simp add: link_active_def)
  then have same: "filter (link_active to) (sidebar_links s) = filter ((=) to) (sidebar_links s)" by (intro filter_cong refl)
  have "filter ((=) to) (sidebar_links s) = [to]"
    by (rule filter_eq_single [OF once assms])
  then have only: "filter (link_active to) (sidebar_links s) = [to]" using same by simp
  then have "List.find (link_active to) (sidebar_links s) = Some to"
    by (simp add: find_by_filter)
  with only show ?thesis by (simp add: entries_of_links activeSection_def)
qed

lemma trim_within: "\<exists>u v. s = u @ trim s @ v"
proof -
  obtain v where v: "strip_left is_ws s = trim s @ v" using strip_right_prefix [of "strip_left is_ws s" is_ws] by (auto simp: trim_def)
  have "s = takeWhile is_ws s @ strip_left is_ws s" by (simp add: strip_left_def)
  with v show ?thesis by metis
qed

lemma label_found: "str_includes (lower (command_text c)) (lower (trim (ci_label c)))"
proof -
  obtain u v where "ci_label c = u @ trim (ci_label c) @ v" using trim_within by blast
  then have "lower (command_text c) = lower u @ lower (trim (ci_label c)) @ lower (v @ '' '' @ ci_description c)"
    by (metis append.assoc command_text_def lower_append)
  then show ?thesis unfolding str_includes_iff by blast
qed

text \<open>C38 Every managed page the role may view is reached from the command palette: typing its name shows its command, and running it
  opens its screen and closes the palette.
\<close>
theorem palette_reaches_pages:
  assumes "ss_booted s" "ss_auth s \<noteq> None" "pg \<in> set platformPages"
    and "canViewPlatformPage (session_role s) pg (session_menu s)" and "trim (label pg) \<noteq> ''''"
  shows "\<exists>c \<in> set (palette_shown (commands label description s servers) (st\<lparr>cp_query := label pg\<rparr>)).
    fst (runCommand c (st, dialog) l) = (palette_close st, dialog)
    \<and> snd (runCommand c (st, dialog) l) = l @ [Navigate (pg_route pg)]
    \<and> (\<exists>v. route_view q (pg_route pg) s = Some (Show v))"
proof (rule bexI [of _ "page_command label description pg"])
  let ?c = "page_command label description pg"
  have "?c \<in> set (commands label description s servers)" using assms(3,4) by (simp add: commands_def Let_def)
  moreover have "str_includes (lower (command_text ?c)) (lower (trim (label pg)))"
    using label_found [of ?c] by (simp add: page_command_def)
  ultimately show "?c \<in> set (palette_shown (commands label description s servers) (st\<lparr>cp_query := label pg\<rparr>))"
    using assms(5) by (simp add: palette_shown_def visibleCommands_def Let_def)
  show "fst (runCommand ?c (st, dialog) l) = (palette_close st, dialog)
    \<and> snd (runCommand ?c (st, dialog) l) = l @ [Navigate (pg_route pg)]
    \<and> (\<exists>v. route_view q (pg_route pg) s = Some (Show v))"
    using platform_component_open [OF assms(1,2,4)] route_view_platform [OF assms(3), of q s]
    by (simp add: runCommand_def page_command_def)
qed

section \<open>Witnesses\<close>

definition root_session :: session where
  "root_session = \<lparr>ss_booted = True, ss_auth = Some \<lparr>au_id = ''u'', au_username = ''root'', au_role = ''admin'', au_expires_at = '''',
     au_api_permissions = None, au_menu_permissions = None\<rparr>\<rparr>"

lemma one_entry_active_witness: "activeSection root_session ''/access'' = ''/access''"
proof -
  have "''/access'' \<in> set (sidebar_links root_session)"
    by (simp add: sidebar_links_def visibleConsoleNav_def consoleNavItems_def)
  then show ?thesis using one_entry_active [of "''/access''" root_session pg_label_en] by blast
qed

lemma palette_reaches_pages_witness:
  "\<exists>c. snd (runCommand c (palette_start, None) []) = [Navigate (pg_route (hd platformPages))]"
proof -
  have pg: "hd platformPages \<in> set platformPages" "trim ((\<lambda>_. ''Assets'') (hd platformPages)) \<noteq> ''''"
    by (simp add: page_tables) code_simp
  have admin: "canViewPlatformPage (session_role root_session) (hd platformPages) (session_menu root_session)"
    by (simp add: canViewPlatformPage_def session_role_def root_session_def isAdminRole_iff normalizeRole_samples)
  show ?thesis
    using palette_reaches_pages [where s = root_session and label = "\<lambda>_. ''Assets''" and description = "\<lambda>_. ''''" and servers = "[]"
        and st = palette_start and dialog = None and l = "[]", OF _ _ pg(1) admin pg(2)]
    by (auto simp: root_session_def)
qed

end
