(* ===== verification/PublicSite.thy ===== *)
theory PublicSite
  imports Session
begin

text \<open>
  The pages anybody may open: the home page (\<open>features/home/home-page.tsx\<close>), the about page (\<open>features/about/about-page.tsx\<close>), the
  header over them (\<open>components/layout/public-header.tsx\<close>) and the menus of language and theme.

  Modelled are the links and texts, the menu of narrow screens, the demonstration that changes by a timer, the counters, and the
  elements that appear when they are scrolled into view. Timers run at their nominal times, one event of the model is a millisecond.
  Layout classes, icons and colours are left out; the texts come from the translations as a record.
\<close>

section \<open>The texts of the home page\<close>

record home_copy =
  hc_badge :: string
  hc_heroBody :: string
  hc_viewProduct :: string
  hc_highlights :: "string list"
  hc_productTitle :: string
  hc_productBody :: string
  hc_capabilities :: "(string \<times> string) list"
  hc_connectionsTitle :: string
  hc_connectionsBody :: string
  hc_openWorkspace :: string
  hc_connectionCards :: "(string \<times> string) list"
  hc_securityTitle :: string
  hc_securityBody :: string
  hc_securityItems :: "(string \<times> string) list"
  hc_workflowEyebrow :: string
  hc_workflowTitle :: string
  hc_workflowBody :: string
  hc_workflowSteps :: "(string \<times> string \<times> string) list"
  hc_deployTitle :: string
  hc_deployBody :: string
  hc_footerBody :: string
  hc_footerBuilt :: string
  hc_footerProduct :: string
  hc_footerLinks :: "string list"
  hc_terminalWelcome :: string
  hc_terminalStatus :: string

section \<open>Links and texts\<close>

definition entry_to :: "bool \<Rightarrow> string" where
  "entry_to authenticated = (if authenticated then ''/app'' else ''/login'')"

text \<open>The keys of the texts on the links to the console: on the pages, and in the header of wide screens.\<close>

definition entry_text :: "bool \<Rightarrow> bool \<Rightarrow> string" where
  "entry_text authenticated setup =
     (if authenticated then ''enterConsole'' else if setup then ''initializeAdmin'' else ''signInConsole'')"

definition entry_label :: "bool \<Rightarrow> bool \<Rightarrow> string" where
  "entry_label authenticated setup =
     (if authenticated then ''enterConsole'' else if setup then ''initialize'' else ''signIn'')"

record anchor =
  an_label :: string
  an_href :: string
  an_target :: "string option"
  an_rel :: "string option"

definition header_anchor :: "(string \<Rightarrow> string) \<Rightarrow> nav_link \<Rightarrow> anchor" where
  "header_anchor t link =
     (let external = (nl_external link = Some True)
      in \<lparr>an_label = t (nl_title link), an_href = (if external then nl_href link else resolvePublicHref (nl_href link)),
          an_target = (if external then Some ''_blank'' else None), an_rel = (if external then Some ''noreferrer'' else None)\<rparr>)"

definition header_anchors :: "(string \<Rightarrow> string) \<Rightarrow> public_config \<Rightarrow> anchor list" where
  "header_anchors t pc = map (header_anchor t) (pc_nav_links pc)"

text \<open>The header, and the menu that narrow screens have instead of its links.\<close>

record header_view =
  hw_links :: "anchor list"
  hw_entry :: "string \<times> string"
  hw_menu_entry :: "string \<times> string"

definition public_header :: "(string \<Rightarrow> string) \<Rightarrow> public_config \<Rightarrow> bool \<Rightarrow> bool \<Rightarrow> header_view" where
  "public_header t pc authenticated setup =
     \<lparr>hw_links = header_anchors t pc, hw_entry = (entry_to authenticated, t (entry_label authenticated setup)),
      hw_menu_entry = (entry_to authenticated, t (entry_text authenticated setup))\<rparr>"

text \<open>An index past the end of the labels is \<open>undefined\<close>, drawn as nothing.\<close>

definition footer_label :: "home_copy \<Rightarrow> nat \<Rightarrow> string" where
  "footer_label copy i = (if i < length (hc_footerLinks copy) then hc_footerLinks copy ! i else '''')"

definition footer_anchors :: "home_copy \<Rightarrow> string \<Rightarrow> anchor list" where
  "footer_anchors copy about =
     map (\<lambda>(label, href). \<lparr>an_label = label, an_href = resolvePublicHref href, an_target = None, an_rel = None\<rparr>)
       [(footer_label copy 0, ''#product''), (footer_label copy 1, ''#connections''), (footer_label copy 2, ''#security''),
        (footer_label copy 3, ''#deploy''), (about, ''/about'')]"

definition github_anchor :: "string \<Rightarrow> public_config \<Rightarrow> anchor" where
  "github_anchor label pc =
     \<lparr>an_label = label, an_href = or_str (pc_github_url pc) ''https://github.com/weige2008/openwebservermanager'',
      an_target = Some ''_blank'', an_rel = Some ''noreferrer''\<rparr>"

text \<open>The ids of the sections of the home page, the targets of the links with a fragment.\<close>

definition section_ids :: "string list" where
  "section_ids = [''product'', ''connections'', ''security'', ''deploy'']"

text \<open>What the bottom of the pages says.\<close>

record site_footer =
  sf_name :: string
  sf_logo :: "string option"
  sf_body :: string
  sf_copyright :: string
  sf_icp :: "string option"

definition shown_text :: "string \<Rightarrow> string option" where
  "shown_text v = (if v = '''' then None else Some v)"

definition copyright_text :: "public_config \<Rightarrow> string" where
  "copyright_text pc = or_str (pc_copyright pc) ''Copyright (c) 2026 weige2008. All rights reserved.''"

definition site_name :: "string \<Rightarrow> public_config \<Rightarrow> string" where
  "site_name productName pc = or_str (pc_site_name pc) productName"

definition home_footer :: "string \<Rightarrow> home_copy \<Rightarrow> public_config \<Rightarrow> site_footer" where
  "home_footer productName copy pc =
     \<lparr>sf_name = site_name productName pc, sf_logo = shown_text (pc_logo_url pc), sf_body = or_str (pc_footer_text pc) (hc_footerBody copy),
      sf_copyright = copyright_text pc, sf_icp = shown_text (pc_icp_number pc)\<rparr>"

section \<open>The about page\<close>

record about_view =
  av_title :: string
  av_description :: string
  av_version :: string
  av_body :: string
  av_cards :: "(string \<times> string) list"
  av_rows :: "(string \<times> string) list"

text \<open>The translations of the page, with the product name already in its place.\<close>

record about_copy =
  ac_title :: "string \<Rightarrow> string"
  ac_description :: "string \<Rightarrow> string"
  ac_body :: string

definition about_cards :: "(string \<times> string) list" where
  "about_cards =
     [(''aboutPage.assetsTitle'', ''aboutPage.assetsBody''), (''aboutPage.workspaceTitle'', ''aboutPage.workspaceBody''),
      (''aboutPage.securityTitle'', ''aboutPage.securityBody''), (''aboutPage.releaseTitle'', ''aboutPage.releaseBody'')]"

definition about_content :: "string \<Rightarrow> about_copy \<Rightarrow> public_config \<Rightarrow> about_view" where
  "about_content name copy pc =
     (let version = or_str (pc_version pc) ''dev''; productName = site_name name pc
      in \<lparr>av_title = or_str (pc_about_title pc) (ac_title copy productName),
          av_description = or_str (pc_about_description pc) (ac_description copy productName),
          av_version = version, av_body = or_str (pc_about_body pc) (ac_body copy), av_cards = about_cards,
          av_rows = [(''github'', or_str (pc_github_url pc) ''https://github.com/weige2008/openwebservermanager''), (''version'', version)]
            @ (case shown_text (pc_icp_number pc) of Some v \<Rightarrow> [(''ICP'', v)] | None \<Rightarrow> [])
            @ [(''copyright'', copyright_text pc)]\<rparr>)"

section \<open>The header\<close>

record public_header_state =
  hs_scrolled :: bool
  hs_mobileOpen :: bool
  hs_overflow :: string

datatype public_header_event = Scrolled rat | ToggleMenu | CloseMenu | FollowLink | FollowEntry | LeavePage

text \<open>The effect of \<open>mobileOpen\<close> writes the overflow of the body, its cleanup clears it.\<close>

definition lock_scroll :: "public_header_state \<Rightarrow> public_header_state" where
  "lock_scroll st = st\<lparr>hs_overflow := (if hs_mobileOpen st then ''hidden'' else '''')\<rparr>"

definition public_header_start :: "rat \<Rightarrow> public_header_state" where
  "public_header_start scrollY = lock_scroll \<lparr>hs_scrolled = (scrollY > 20), hs_mobileOpen = False, hs_overflow = ''''\<rparr>"

definition set_menu :: "bool \<Rightarrow> public_header_state \<Rightarrow> public_header_state" where
  "set_menu v st = (if hs_mobileOpen st = v then st else lock_scroll (st\<lparr>hs_mobileOpen := v, hs_overflow := ''''\<rparr>))"

fun public_header_step :: "public_header_event \<Rightarrow> public_header_state \<Rightarrow> public_header_state" where
  "public_header_step (Scrolled y) st = st\<lparr>hs_scrolled := (y > 20)\<rparr>"
| "public_header_step ToggleMenu st = set_menu (\<not> hs_mobileOpen st) st"
| "public_header_step CloseMenu st = set_menu False st"
| "public_header_step FollowLink st = set_menu False st"
| "public_header_step FollowEntry st = set_menu False st"
| "public_header_step LeavePage st = st\<lparr>hs_overflow := ''''\<rparr>"

section \<open>The menus of language and theme\<close>

definition language_menu :: "string option \<Rightarrow> (string \<times> bool) list" where
  "language_menu current = map (\<lambda>code. (code, normalizeInterfaceLanguage current = code)) INTERFACE_LANGUAGE_OPTIONS"

definition theme_options :: "(string \<times> string) list" where
  "theme_options = [(''system'', ''system''), (''light'', ''light''), (''dark'', ''dark'')]"

definition theme_menu :: "jsval \<Rightarrow> (string \<times> bool) list" where
  "theme_menu theme = map (\<lambda>(v, label). (label, theme = JStr v)) theme_options"

definition theme_current :: "jsval \<Rightarrow> bool \<Rightarrow> string" where
  "theme_current theme systemDark =
     (if (if theme = JStr ''system'' then JStr (if systemDark then ''dark'' else ''light'') else theme) = JStr ''dark''
      then ''dark'' else ''light'')"

section \<open>The demonstration of the home page\<close>

record demo_config =
  dc_id :: string
  dc_label :: string
  dc_method :: string
  dc_endpoint :: string
  dc_accent :: string
  dc_status :: string
  dc_latency :: nat
  dc_rows :: "(string \<times> string) list"
  dc_metrics :: "(string \<times> string) list"

definition demos :: "home_copy \<Rightarrow> demo_config list" where
  "demos copy =
     [\<lparr>dc_id = ''ssh'', dc_label = ''SSH'', dc_method = ''SSH'', dc_endpoint = ''wss://manager.local/connections/ssh/{session}/ws'',
       dc_accent = ''emerald'', dc_status = ''pty attached'', dc_latency = 28,
       dc_rows = [(''command'', ''$ ssh ubuntu@10.18.12.24''), (''muted'', hc_terminalWelcome copy),
         (''command'', ''$ systemctl status app''), (''success'', hc_terminalStatus copy), (''key'', ''resize: cols=142 rows=38'')],
       dc_metrics = [(''auth'', ''key''), (''shell'', ''bash''), (''stream'', ''ws'')]\<rparr>,
      \<lparr>dc_id = ''rdp'', dc_label = ''RDP'', dc_method = ''RDP'', dc_endpoint = ''wss://manager.local/connections/rdp/{session}/tunnel'',
       dc_accent = ''blue'', dc_status = ''guacamole tunnel'', dc_latency = 34,
       dc_rows = [(''command'', ''select protocol: rdp''), (''key'', ''hostname: windows-admin.internal''),
         (''key'', ''resolution: 1920x1080 adaptive''), (''success'', ''input: keyboard mouse clipboard''),
         (''muted'', ''credentials remain server-side'')],
       dc_metrics = [(''desktop'', ''1080p''), (''clipboard'', ''on''), (''files'', ''on'')]\<rparr>,
      \<lparr>dc_id = ''file'', dc_label = ''Files'', dc_method = ''FILE'', dc_endpoint = ''/api/connections/{session}/transfer'',
       dc_accent = ''amber'', dc_status = ''transfer tracked'', dc_latency = 51,
       dc_rows = [(''command'', ''upload ./release.zip -> /tmp/release.zip''), (''success'', ''24 MB received''),
         (''command'', ''download /var/log/app.log''), (''muted'', ''audit: file transfer event stored''),
         (''warning'', ''policy: authenticated session required'')],
       dc_metrics = [(''upload'', ''24 MB''), (''download'', ''log''), (''audit'', ''yes'')]\<rparr>,
      \<lparr>dc_id = ''audit'', dc_label = ''Audit'', dc_method = ''AUDIT'', dc_endpoint = ''data/recordings/{session_id}/'',
       dc_accent = ''violet'', dc_status = ''recording indexed'', dc_latency = 19,
       dc_rows = [(''command'', ''session started -> active''), (''key'', ''client_ip: 124.223.x.x''),
         (''success'', ''recording stream persisted''), (''muted'', ''metadata: size duration permission''),
         (''command'', ''session closed -> completed'')],
       dc_metrics = [(''state'', ''closed''), (''recording'', ''raw''), (''viewer'', ''admin'')]\<rparr>]"

definition demo_count :: nat where
  "demo_count = 4"

definition CYCLE_INTERVAL :: nat where
  "CYCLE_INTERVAL = 4600"

definition TRANSITION_MS :: nat where
  "TRANSITION_MS = 220"

text \<open>What a pending timeout will do, the milliseconds it still waits, and its handle.\<close>

datatype demo_act = Advance | SwitchTo nat

record demo_timer =
  tm_handle :: nat
  tm_left :: nat
  tm_act :: demo_act

record demo =
  dm_active :: nat
  dm_transitioning :: bool
  dm_interval :: "nat option"
  dm_timers :: "demo_timer list"
  dm_ref :: "nat option"
  dm_next :: nat

definition demo_start :: "bool \<Rightarrow> demo" where
  "demo_start reducedMotion =
     \<lparr>dm_active = 0, dm_transitioning = False, dm_interval = (if reducedMotion then None else Some CYCLE_INTERVAL),
      dm_timers = [], dm_ref = None, dm_next = 0\<rparr>"

text \<open>\<open>timeoutRef.current = setTimeout(...)\<close>: a further timeout beside those already pending.\<close>

definition set_timeout :: "demo_act \<Rightarrow> demo \<Rightarrow> demo" where
  "set_timeout act st =
     st\<lparr>dm_timers := dm_timers st @ [\<lparr>tm_handle = dm_next st, tm_left = TRANSITION_MS, tm_act = act\<rparr>],
        dm_ref := Some (dm_next st), dm_next := Suc (dm_next st)\<rparr>"

definition clear_timeout :: "demo \<Rightarrow> demo" where
  "clear_timeout st = (case dm_ref st of None \<Rightarrow> st | Some h \<Rightarrow> st\<lparr>dm_timers := filter (\<lambda>tm. tm_handle tm \<noteq> h) (dm_timers st)\<rparr>)"

definition run_timeout :: "demo_act \<Rightarrow> demo \<Rightarrow> demo" where
  "run_timeout act st =
     (case act of
        Advance \<Rightarrow> st\<lparr>dm_active := (dm_active st + 1) mod demo_count, dm_transitioning := False\<rparr>
      | SwitchTo i \<Rightarrow> st\<lparr>dm_active := i, dm_transitioning := False\<rparr>)"

definition demo_tick :: "demo \<Rightarrow> demo" where
  "demo_tick st = set_timeout Advance (st\<lparr>dm_transitioning := True\<rparr>)"

text \<open>A millisecond: the timeouts that are due run in their order, then the interval when it is due.\<close>

definition run_due :: "demo \<Rightarrow> demo" where
  "run_due st =
     (let waiting = map (\<lambda>tm. tm\<lparr>tm_left := tm_left tm - 1\<rparr>) (dm_timers st);
          due = filter (\<lambda>tm. tm_left tm = 0) waiting
      in foldl (\<lambda>st' tm. run_timeout (tm_act tm) st') (st\<lparr>dm_timers := filter (\<lambda>tm. tm_left tm \<noteq> 0) waiting\<rparr>) due)"

definition demo_ms :: "demo \<Rightarrow> demo" where
  "demo_ms st =
     (case dm_interval st of
        None \<Rightarrow> run_due st
      | Some k \<Rightarrow> if k \<le> 1 then demo_tick ((run_due st)\<lparr>dm_interval := Some CYCLE_INTERVAL\<rparr>)
                  else (run_due st)\<lparr>dm_interval := Some (k - 1)\<rparr>)"

definition handleSelectDemo :: "nat \<Rightarrow> demo \<Rightarrow> demo" where
  "handleSelectDemo i st =
     (if i = dm_active st then st
      else set_timeout (SwitchTo i) ((clear_timeout (st\<lparr>dm_interval := None\<rparr>))\<lparr>dm_transitioning := True\<rparr>))"

definition demo_leave :: "demo \<Rightarrow> demo" where
  "demo_leave st = clear_timeout (st\<lparr>dm_interval := None\<rparr>)"

datatype demo_event = Millisecond | DemoTab nat

text \<open>There is a tab for every demonstration, and no other.\<close>

fun demo_step :: "demo_event \<Rightarrow> demo \<Rightarrow> demo" where
  "demo_step Millisecond st = demo_ms st"
| "demo_step (DemoTab i) st = (if i < demo_count then handleSelectDemo i st else st)"

definition demo_run :: "demo_event list \<Rightarrow> demo \<Rightarrow> demo" where
  "demo_run es st = foldl (\<lambda>st' e. demo_step e st') st es"

text \<open>What is drawn: the demonstration shown, and whether it is blanked for the transition.\<close>

definition demo_shown :: "home_copy \<Rightarrow> demo \<Rightarrow> demo_config \<times> bool" where
  "demo_shown copy st = (demos copy ! dm_active st, dm_transitioning st)"

section \<open>The counters\<close>

definition js_round :: "rat \<Rightarrow> int" where
  "js_round x = \<lfloor>x + 1/2\<rfloor>"

definition count_eased :: "rat \<Rightarrow> rat" where
  "count_eased progress = 1 - (1 - progress) ^ 3"

definition count_progress :: "rat \<Rightarrow> rat \<Rightarrow> rat \<Rightarrow> rat" where
  "count_progress duration start now = min ((now - start) / duration) 1"

definition count_value :: "nat \<Rightarrow> rat \<Rightarrow> int" where
  "count_value goal progress = js_round (count_eased progress * of_nat goal)"

text \<open>The figures written in the frames of an animation, and whether it has ended; a frame asks for the next one until it has.\<close>

fun count_frames :: "rat \<Rightarrow> nat \<Rightarrow> rat \<Rightarrow> rat list \<Rightarrow> int list \<times> bool" where
  "count_frames duration goal start [] = ([], False)"
| "count_frames duration goal start (now # nows) =
     (let progress = count_progress duration start now; v = count_value goal progress
      in if progress < 1 then let (vs, ended) = count_frames duration goal start nows in (v # vs, ended) else ([v], True))"

record counter =
  ct_started :: bool
  ct_observing :: bool
  ct_text :: string

definition counter_text :: "(int \<Rightarrow> string) \<Rightarrow> string \<Rightarrow> string \<Rightarrow> int \<Rightarrow> string" where
  "counter_text toLocale pre suf v = pre @ toLocale v @ suf"

text \<open>Mounting: with reduced motion the figure is written at once, otherwise the element is observed.\<close>

definition counter_mount :: "(int \<Rightarrow> string) \<Rightarrow> bool \<Rightarrow> string \<Rightarrow> string \<Rightarrow> nat \<Rightarrow> counter" where
  "counter_mount toLocale reducedMotion pre suf goal =
     (if reducedMotion
      then \<lparr>ct_started = False, ct_observing = False, ct_text = counter_text toLocale pre suf (js_round (of_nat goal))\<rparr>
      else \<lparr>ct_started = False, ct_observing = True, ct_text = pre @ ''0'' @ suf\<rparr>)"

text \<open>A report of the observer, of which the first entry counts, and the frames that follow when the animation begins.\<close>

definition counter_report ::
  "(int \<Rightarrow> string) \<Rightarrow> string \<Rightarrow> string \<Rightarrow> nat \<Rightarrow> bool list \<Rightarrow> rat \<Rightarrow> rat list \<Rightarrow> counter \<Rightarrow> counter" where
  "counter_report toLocale pre suf goal entries start nows st =
     (if ct_observing st \<and> entries \<noteq> [] \<and> hd entries \<and> \<not> ct_started st
      then let vs = fst (count_frames 1600 goal start nows)
           in \<lparr>ct_started = True, ct_observing = False,
               ct_text = (if vs = [] then ct_text st else counter_text toLocale pre suf (last vs))\<rparr>
      else st)"

definition site_stats :: "home_copy \<Rightarrow> (nat \<times> string) list" where
  "site_stats copy =
     [(2, ''SSH / RDP''),
      (length (hc_highlights copy), if 1 < length (hc_highlights copy) then hc_highlights copy ! 1 else ''Browser access''),
      (length (hc_workflowSteps copy), hc_workflowEyebrow copy), (23876, hc_deployTitle copy)]"

section \<open>Elements that appear when they are scrolled into view\<close>

text \<open>
  An element is known by its place in the page, and in a list by its key: the title of a card or the number of a step. A render
  keeps the element of a place and key that was there before, with the classes it was given, and makes a fresh one for a new key;
  this is what React documents of keys.
\<close>

datatype reveal = Place string | Keyed string string

definition home_reveals :: "home_copy \<Rightarrow> reveal list" where
  "home_reveals copy =
     map Place [''badge'', ''title'', ''body'', ''entry'', ''highlights'', ''demo'', ''product'']
     @ map (\<lambda>c. Keyed ''capabilities'' (fst c)) (take 4 (hc_capabilities copy))
     @ map (\<lambda>c. Keyed ''connectionCards'' (fst c)) (hc_connectionCards copy)
     @ map Place [''connections'', ''gateway'', ''security'']
     @ map (\<lambda>c. Keyed ''securityItems'' (fst c)) (hc_securityItems copy)
     @ map Place [''workflow'']
     @ map (\<lambda>c. Keyed ''workflowSteps'' (fst c)) (hc_workflowSteps copy)
     @ map Place [''deploy'']"

record landing =
  ld_elements :: "reveal list"
  ld_in_view :: "reveal list"
  ld_watched :: "reveal list"

text \<open>The effect runs when the page is mounted; its dependency, the reference to the root, never changes.\<close>

definition landing_mount :: "bool \<Rightarrow> home_copy \<Rightarrow> landing" where
  "landing_mount at_once copy =
     (if at_once then \<lparr>ld_elements = home_reveals copy, ld_in_view = home_reveals copy, ld_watched = []\<rparr>
      else \<lparr>ld_elements = home_reveals copy, ld_in_view = [], ld_watched = home_reveals copy\<rparr>)"

text \<open>A report of the observer, of elements it watches; and a render with other texts.\<close>

datatype landing_event = Report "(reveal \<times> bool) list" | NewTexts home_copy

definition report_entry :: "landing \<Rightarrow> reveal \<times> bool \<Rightarrow> landing" where
  "report_entry st entry =
     (if snd entry \<and> fst entry \<in> set (ld_watched st)
      then st\<lparr>ld_in_view := ld_in_view st @ [fst entry], ld_watched := filter (\<lambda>e. e \<noteq> fst entry) (ld_watched st)\<rparr> else st)"

fun landing_step :: "landing_event \<Rightarrow> landing \<Rightarrow> landing" where
  "landing_step (Report entries) st = foldl report_entry st entries"
| "landing_step (NewTexts copy) st =
     (let es = home_reveals copy
      in st\<lparr>ld_elements := es, ld_in_view := filter (\<lambda>e. e \<in> set es) (ld_in_view st),
            ld_watched := filter (\<lambda>e. e \<in> set es) (ld_watched st)\<rparr>)"

definition landing_run :: "landing_event list \<Rightarrow> landing \<Rightarrow> landing" where
  "landing_run es st = foldl (\<lambda>st' e. landing_step e st') st es"

text \<open>The style sheet: an element without the class is transparent, unless reduced motion is preferred.\<close>

definition element_visible :: "bool \<Rightarrow> landing \<Rightarrow> reveal \<Rightarrow> bool" where
  "element_visible reducedMotion st e \<longleftrightarrow> e \<in> set (ld_elements st) \<and> (reducedMotion \<or> e \<in> set (ld_in_view st))"

section \<open>What the home page draws\<close>

record hero_view =
  hv_badge :: string
  hv_headline :: "string \<times> string"
  hv_body :: string
  hv_entry :: "string \<times> string"
  hv_scroll_button :: string
  hv_workspace :: string
  hv_highlights :: "(string \<times> string) list"

text \<open>The dot of a highlight is violet for the third, amber for the fourth and blue for the others.\<close>

definition highlight_dot :: "nat \<Rightarrow> string" where
  "highlight_dot i = (if i = 2 then ''violet'' else if i = 3 then ''amber'' else ''blue'')"

definition hero_section :: "home_copy \<Rightarrow> string \<Rightarrow> string \<Rightarrow> string \<Rightarrow> hero_view" where
  "hero_section copy entryText entryTo siteName =
     \<lparr>hv_badge = hc_badge copy, hv_headline = (siteName, hc_connectionsTitle copy), hv_body = hc_heroBody copy,
      hv_entry = (entryTo, entryText), hv_scroll_button = hc_viewProduct copy, hv_workspace = hc_connectionsBody copy,
      hv_highlights = map (\<lambda>(i, item). (highlight_dot i, item)) (enumerate 0 (hc_highlights copy))\<rparr>"

record feature =
  ft_num :: string
  ft_title :: string
  ft_desc :: string
  ft_wide :: bool
  ft_tone :: string
  ft_visual :: "string list"

definition feature_tone :: "nat \<Rightarrow> string" where
  "feature_tone i = (if i = 0 then ''blue'' else if i = 1 then ''emerald'' else if i = 2 then ''violet'' else ''amber'')"

definition feature_visual :: "nat \<Rightarrow> string list" where
  "feature_visual i =
     (if i = 0 then [''Linux'', ''Windows'', ''SSH'', ''RDP'', ''guacd'', ''WebSocket'']
      else if i = 1 then []
      else if i = 2 then [''create'', ''connect'', ''close'']
      else [''Go'', ''SPA'', ''DB'', ''TLS'', ''Cross-platform bundle''])"

definition features :: "home_copy \<Rightarrow> feature list" where
  "features copy =
     map (\<lambda>(i, title, desc). \<lparr>ft_num = ''0'' @ show_nat (i + 1), ft_title = title, ft_desc = desc, ft_wide = (i = 0 \<or> i = 3),
           ft_tone = feature_tone i, ft_visual = feature_visual i\<rparr>)
       (enumerate 0 (take 4 (hc_capabilities copy)))"

text \<open>The icons are in lists of three: a further card or item has none, and React cannot draw an undefined component.\<close>

definition drawable :: "home_copy \<Rightarrow> bool" where
  "drawable copy \<longleftrightarrow> length (hc_connectionCards copy) \<le> 3 \<and> length (hc_securityItems copy) \<le> 3"

definition gateway_tiles :: "(string \<times> string) list" where
  "gateway_tiles =
     map (\<lambda>(i, v). (if i mod 3 = 0 then ''blue'' else if i mod 3 = 1 then ''violet'' else ''amber'', v))
       (enumerate 0 [''SSH PTY'', ''RDP Tunnel'', ''Clipboard'', ''File Transfer'', ''Recording'', ''Audit Log'', ''Encrypted Keys'', ''Local Data''])"

record workspace_section =
  wv_title :: string
  wv_body :: string
  wv_entry :: "string \<times> string"
  wv_name :: string
  wv_tiles :: "(string \<times> string) list"

definition connection_workspace :: "home_copy \<Rightarrow> string \<Rightarrow> string \<Rightarrow> string \<Rightarrow> workspace_section" where
  "connection_workspace copy entryText entryTo siteName =
     \<lparr>wv_title = hc_connectionsTitle copy, wv_body = hc_connectionsBody copy, wv_entry = (entryTo, entryText), wv_name = siteName,
      wv_tiles = gateway_tiles\<rparr>"

text \<open>The animation of a list starts 90 milliseconds later with every entry.\<close>

definition security_rows :: "home_copy \<Rightarrow> (nat \<times> string \<times> string) list" where
  "security_rows copy = map (\<lambda>(i, title, body). (i * 90, title, body)) (enumerate 0 (hc_securityItems copy))"

definition workflow_rows :: "home_copy \<Rightarrow> (nat \<times> string \<times> string \<times> string) list" where
  "workflow_rows copy = map (\<lambda>(i, step, title, body). (i * 90, step, title, body)) (enumerate 0 (hc_workflowSteps copy))"

record cta_view =
  cv_title :: "string \<times> string"
  cv_body :: string
  cv_entry :: "string \<times> string"
  cv_scroll_button :: "string option"

definition cta_section :: "bool \<Rightarrow> home_copy \<Rightarrow> string \<Rightarrow> string \<Rightarrow> cta_view" where
  "cta_section authenticated copy entryText entryTo =
     \<lparr>cv_title = (hc_deployTitle copy, hc_openWorkspace copy), cv_body = hc_deployBody copy, cv_entry = (entryTo, entryText),
      cv_scroll_button = (if authenticated then None else Some (hc_viewProduct copy))\<rparr>"

text \<open>The page: the header, the sections with their ids, and the footer, over the settings of the site.\<close>

record home_view =
  hp_header :: header_view
  hp_hero :: hero_view
  hp_stats :: "(nat \<times> string) list"
  hp_features :: "feature list"
  hp_workspace :: workspace_section
  hp_security :: "(nat \<times> string \<times> string) list"
  hp_workflow :: "(nat \<times> string \<times> string \<times> string) list"
  hp_cta :: cta_view
  hp_footer :: site_footer
  hp_links :: "anchor list"

definition home_page :: "(string \<Rightarrow> string) \<Rightarrow> home_copy \<Rightarrow> public_config \<Rightarrow> bool \<Rightarrow> bool \<Rightarrow> home_view" where
  "home_page t copy pc authenticated setup =
     (let entryTo = entry_to authenticated; entryText = t (entry_text authenticated setup); siteName = site_name (t ''productName'') pc
      in \<lparr>hp_header = public_header t pc authenticated setup, hp_hero = hero_section copy entryText entryTo siteName, hp_stats = site_stats copy,
          hp_features = features copy, hp_workspace = connection_workspace copy entryText entryTo siteName,
          hp_security = security_rows copy, hp_workflow = workflow_rows copy, hp_cta = cta_section authenticated copy entryText entryTo,
          hp_footer = home_footer (t ''productName'') copy pc,
          hp_links = footer_anchors copy (t ''about'') @ [github_anchor (t ''github'') pc]\<rparr>)"

record about_page_view =
  ap_header :: header_view
  ap_content :: about_view
  ap_entry :: "string \<times> string"
  ap_github :: anchor
  ap_icp :: "string option"
  ap_copyright :: string

definition about_page :: "(string \<Rightarrow> string) \<Rightarrow> about_copy \<Rightarrow> public_config \<Rightarrow> bool \<Rightarrow> bool \<Rightarrow> about_page_view" where
  "about_page t copy pc authenticated setup =
     \<lparr>ap_header = public_header t pc authenticated setup, ap_content = about_content (t ''productName'') copy pc,
      ap_entry = (entry_to authenticated, t (entry_text authenticated setup)), ap_github = github_anchor (t ''github'') pc,
      ap_icp = shown_text (pc_icp_number pc), ap_copyright = copyright_text pc\<rparr>"

section \<open>The demonstration over time\<close>

definition demo_pending :: "nat option \<Rightarrow> demo_act \<Rightarrow> nat \<Rightarrow> bool" where
  "demo_pending interval act left \<longleftrightarrow> 0 < left \<and> left \<le> TRANSITION_MS \<and>
     (case act of
        Advance \<Rightarrow> (case interval of Some k \<Rightarrow> left < k | None \<Rightarrow> False)
      | SwitchTo i \<Rightarrow> i < demo_count \<and> interval = None)"

text \<open>One timeout at most is pending, the one the reference holds, and the tabs are blanked exactly while it is.\<close>

definition demo_ok :: "demo \<Rightarrow> bool" where
  "demo_ok st \<longleftrightarrow> dm_active st < demo_count \<and>
     (case dm_interval st of Some k \<Rightarrow> 0 < k \<and> k \<le> CYCLE_INTERVAL | None \<Rightarrow> True) \<and>
     (case dm_timers st of
        [] \<Rightarrow> \<not> dm_transitioning st
      | [tm] \<Rightarrow> dm_transitioning st \<and> dm_ref st = Some (tm_handle tm) \<and> demo_pending (dm_interval st) (tm_act tm) (tm_left tm)
      | _ \<Rightarrow> False)"

lemmas demo_steps = demo_ms_def run_due_def run_timeout_def demo_tick_def set_timeout_def clear_timeout_def handleSelectDemo_def

lemmas demo_numbers = demo_count_def CYCLE_INTERVAL_def TRANSITION_MS_def

lemma demo_ok_cases:
  assumes "demo_ok st"
  obtains (idle) "dm_timers st = []" "\<not> dm_transitioning st"
  | (pending) tm where "dm_timers st = [tm]" "dm_transitioning st" "dm_ref st = Some (tm_handle tm)"
      "demo_pending (dm_interval st) (tm_act tm) (tm_left tm)"
  using assms by (auto simp: demo_ok_def split: list.splits)

lemma run_due_idle: "dm_timers st = [] \<Longrightarrow> run_due st = st"
  by (simp add: run_due_def)

lemma run_due_waits: "dm_timers st = [tm] \<Longrightarrow> 1 < tm_left tm \<Longrightarrow> run_due st = st\<lparr>dm_timers := [tm\<lparr>tm_left := tm_left tm - 1\<rparr>]\<rparr>"
  by (simp add: run_due_def)

lemma run_due_now: "dm_timers st = [tm] \<Longrightarrow> tm_left tm = 1 \<Longrightarrow> run_due st = run_timeout (tm_act tm) (st\<lparr>dm_timers := []\<rparr>)"
  by (simp add: run_due_def)

lemma demo_ok_ms:
  assumes "demo_ok st"
  shows "demo_ok (demo_ms st)"
  using assms
proof (cases rule: demo_ok_cases)
  case idle
  then show ?thesis using assms
    by (auto simp: demo_ms_def run_due_idle demo_ok_def demo_tick_def set_timeout_def demo_pending_def demo_numbers split: option.splits)
next
  case (pending tm)
  then have "0 < tm_left tm" by (simp add: demo_pending_def)
  then consider (waits) "1 < tm_left tm" | (now) "tm_left tm = 1" by linarith
  then show ?thesis
  proof cases
    case waits
    with pending assms show ?thesis
      by (auto simp: demo_ms_def run_due_waits demo_ok_def demo_pending_def split: option.splits demo_act.splits)
  next
    case now
    with pending assms show ?thesis
      by (auto simp: demo_ms_def run_due_now run_timeout_def demo_ok_def demo_pending_def demo_count_def
          split: option.splits demo_act.splits)
  qed
qed

lemma demo_ok_select:
  assumes "demo_ok st" "i < demo_count"
  shows "demo_ok (handleSelectDemo i st)"
  using assms(1)
proof (cases rule: demo_ok_cases)
  case idle
  then show ?thesis using assms
    by (auto simp: demo_ok_def handleSelectDemo_def set_timeout_def clear_timeout_def demo_pending_def TRANSITION_MS_def split: option.splits)
next
  case (pending tm)
  then show ?thesis using assms
    by (auto simp: demo_ok_def handleSelectDemo_def set_timeout_def clear_timeout_def demo_pending_def TRANSITION_MS_def)
qed

lemma demo_ok_step: "demo_ok st \<Longrightarrow> demo_ok (demo_step e st)"
  by (cases e) (simp_all add: demo_ok_ms demo_ok_select)

lemma demo_ok_run: "demo_ok st \<Longrightarrow> demo_ok (demo_run es st)"
  by (induction es arbitrary: st) (simp_all add: demo_run_def demo_ok_step)

lemma demo_ok_start: "demo_ok (demo_start reducedMotion)"
  by (simp add: demo_ok_def demo_start_def demo_numbers)

lemma ms_pending:
  assumes "dm_timers st = [tm]" "demo_pending (dm_interval st) (tm_act tm) (tm_left tm)" "n < tm_left tm"
  shows "(demo_ms ^^ n) st = st\<lparr>dm_timers := [tm\<lparr>tm_left := tm_left tm - n\<rparr>],
    dm_interval := map_option (\<lambda>k. k - n) (dm_interval st)\<rparr>"
  using assms(3)
proof (induction n)
  case 0
  then show ?case using assms(1) by (cases "dm_interval st") simp_all
next
  case (Suc n)
  have "\<And>k. dm_interval st = Some k \<Longrightarrow> tm_left tm < k"
    using assms(2) by (auto simp: demo_pending_def split: demo_act.splits)
  with Suc show ?case
    by (cases "dm_interval st") (auto simp: demo_ms_def run_due_waits)
qed

lemma ms_switched:
  assumes "dm_timers st = [tm]" "demo_pending (dm_interval st) (tm_act tm) (tm_left tm)"
  shows "(demo_ms ^^ tm_left tm) st = (run_timeout (tm_act tm) st)\<lparr>dm_timers := [],
    dm_interval := map_option (\<lambda>k. k - tm_left tm) (dm_interval st)\<rparr>"
proof -
  obtain n where n: "tm_left tm = Suc n" using assms(2) by (cases "tm_left tm") (auto simp: demo_pending_def)
  have "\<And>k. dm_interval st = Some k \<Longrightarrow> Suc n < k"
    using assms(2) n by (auto simp: demo_pending_def split: demo_act.splits)
  then show ?thesis
    using ms_pending[OF assms, of n] n
    by (cases "dm_interval st")
      (auto simp: demo_ms_def run_due_now run_timeout_def split: demo_act.splits)
qed

lemma ms_still: "dm_timers st = [] \<Longrightarrow> dm_interval st = None \<Longrightarrow> (demo_ms ^^ n) st = st"
  by (induction n) (simp_all add: demo_ms_def run_due_idle)

lemma ms_until_tick: "dm_timers st = [] \<Longrightarrow> dm_interval st = Some k \<Longrightarrow> n < k \<Longrightarrow> (demo_ms ^^ n) st = st\<lparr>dm_interval := Some (k - n)\<rparr>"
  by (induction n) (simp_all add: demo_ms_def run_due_idle)

lemma demo_run_ms: "demo_run (replicate n Millisecond) st = (demo_ms ^^ n) st"
proof (induction n arbitrary: st)
  case (Suc n)
  have "demo_run (replicate (Suc n) Millisecond) st = (demo_ms ^^ n) (demo_ms st)" using Suc by (simp add: demo_run_def)
  then show ?case by (simp add: funpow_Suc_right del: funpow.simps)
qed (simp add: demo_run_def)

lemma demo_run_append: "demo_run (es @ es') st = demo_run es' (demo_run es st)"
  by (simp add: demo_run_def)

lemma ms_add: "(demo_ms ^^ (m + n)) st = (demo_ms ^^ n) ((demo_ms ^^ m) st)"
  by (metis add.commute comp_apply funpow_add)

lemma tick_now: "dm_timers st = [] \<Longrightarrow> dm_interval st = Some k \<Longrightarrow> 0 < k \<Longrightarrow>
    (demo_ms ^^ k) st = demo_tick (st\<lparr>dm_interval := Some CYCLE_INTERVAL\<rparr>)"
  using ms_until_tick[of st k "k - 1"] by (cases k) (simp_all add: demo_ms_def run_due_idle)

text \<open>At every tick of the interval: the blanked tabs, about to move on.\<close>

definition at_tick :: "nat \<Rightarrow> demo \<Rightarrow> bool" where
  "at_tick i st \<longleftrightarrow> dm_active st = i \<and> dm_interval st = Some CYCLE_INTERVAL \<and>
     (\<exists>tm. dm_timers st = [tm] \<and> tm_act tm = Advance \<and> tm_left tm = TRANSITION_MS)"

lemma at_tick_switched:
  assumes "at_tick i st"
  shows "\<exists>h. (demo_ms ^^ TRANSITION_MS) st = st\<lparr>dm_active := (i + 1) mod demo_count, dm_transitioning := False, dm_timers := [],
    dm_interval := Some (CYCLE_INTERVAL - TRANSITION_MS)\<rparr>"
proof -
  obtain tm where tm: "dm_timers st = [tm]" "tm_act tm = Advance" "tm_left tm = TRANSITION_MS"
    using assms by (auto simp: at_tick_def)
  then have "demo_pending (dm_interval st) (tm_act tm) (tm_left tm)" using assms by (simp add: at_tick_def demo_pending_def demo_numbers)
  from ms_switched[OF tm(1) this] tm show ?thesis using assms by (simp add: at_tick_def run_timeout_def)
qed

lemma at_tick_next:
  assumes "at_tick i st"
  shows "at_tick ((i + 1) mod demo_count) ((demo_ms ^^ CYCLE_INTERVAL) st)"
proof -
  have "(demo_ms ^^ CYCLE_INTERVAL) st = (demo_ms ^^ (CYCLE_INTERVAL - TRANSITION_MS)) ((demo_ms ^^ TRANSITION_MS) st)"
    by (simp add: ms_add[symmetric] demo_numbers)
  with at_tick_switched[OF assms] show ?thesis
    by (auto simp: tick_now at_tick_def demo_tick_def set_timeout_def demo_numbers)
qed

lemma at_tick_first: "at_tick 0 ((demo_ms ^^ CYCLE_INTERVAL) (demo_start False))"
  by (auto simp: tick_now demo_start_def CYCLE_INTERVAL_def at_tick_def demo_tick_def set_timeout_def)

lemma at_tick_all: "at_tick (m mod demo_count) ((demo_ms ^^ (Suc m * CYCLE_INTERVAL)) (demo_start False))"
proof (induction m)
  case 0
  then show ?case using at_tick_first by simp
next
  case (Suc m)
  have "(demo_ms ^^ (Suc (Suc m) * CYCLE_INTERVAL)) (demo_start False)
      = (demo_ms ^^ CYCLE_INTERVAL) ((demo_ms ^^ (Suc m * CYCLE_INTERVAL)) (demo_start False))"
    by (simp add: ms_add[symmetric] algebra_simps)
  with at_tick_next[OF Suc] show ?case by (simp add: mod_Suc_eq)
qed

text \<open>Without a click the demonstrations come in turn, one every 4.6 seconds.\<close>

lemma demo_cycles:
  "dm_active (demo_run (replicate (m * CYCLE_INTERVAL + TRANSITION_MS) Millisecond) (demo_start False)) = m mod demo_count"
proof (cases m)
  case 0
  then show ?thesis
    by (simp add: demo_run_ms ms_until_tick demo_start_def demo_numbers)
next
  case (Suc n)
  show ?thesis
    using at_tick_switched[OF at_tick_all[of n]] by (auto simp: Suc demo_run_ms ms_add mod_Suc_eq)
qed

lemma select_other:
  assumes "demo_ok st" "i < demo_count" "i \<noteq> dm_active st" "TRANSITION_MS \<le> n"
  shows "dm_active ((demo_ms ^^ n) (handleSelectDemo i st)) = i \<and> \<not> dm_transitioning ((demo_ms ^^ n) (handleSelectDemo i st))"
proof -
  let ?st = "handleSelectDemo i st"
  have "dm_timers (clear_timeout (st\<lparr>dm_interval := None\<rparr>)) = []"
    using assms(1) by (cases rule: demo_ok_cases) (auto simp: clear_timeout_def split: option.splits)
  then obtain tm where tm: "dm_timers ?st = [tm]" "tm_act tm = SwitchTo i" "tm_left tm = TRANSITION_MS"
    using assms(3) by (simp add: handleSelectDemo_def set_timeout_def)
  have interval: "dm_interval ?st = None"
    using assms(3) by (simp add: handleSelectDemo_def set_timeout_def clear_timeout_def split: option.splits)
  have "demo_pending (dm_interval ?st) (tm_act tm) (tm_left tm)"
    using assms(2) tm interval by (simp add: demo_pending_def TRANSITION_MS_def)
  note after = ms_switched[OF tm(1) this]
  have "(demo_ms ^^ n) ?st = (demo_ms ^^ (n - TRANSITION_MS)) ((demo_ms ^^ TRANSITION_MS) ?st)"
    using assms(4) by (simp add: ms_add[symmetric])
  with after tm show ?thesis by (simp add: interval run_timeout_def ms_still)
qed

section \<open>The counters over time\<close>

lemma eased_bounds: "0 \<le> p \<Longrightarrow> p \<le> 1 \<Longrightarrow> 0 \<le> count_eased p \<and> count_eased p \<le> 1"
  by (simp add: count_eased_def power_le_one)

lemma eased_mono: "p \<le> p' \<Longrightarrow> p' \<le> 1 \<Longrightarrow> count_eased p \<le> count_eased p'"
  by (simp add: count_eased_def power_mono)

lemma js_round_mono: "x \<le> y \<Longrightarrow> js_round x \<le> js_round y"
  by (simp add: js_round_def floor_mono)

lemma js_round_nat: "js_round (of_nat n) = int n"
  by (simp add: js_round_def floor_unique)

lemma count_value_mono: "p \<le> p' \<Longrightarrow> p' \<le> 1 \<Longrightarrow> count_value goal p \<le> count_value goal p'"
  unfolding count_value_def by (intro js_round_mono mult_right_mono eased_mono) simp_all

lemma count_value_zero: "count_value goal 0 = 0"
  by (simp add: count_value_def count_eased_def js_round_def floor_unique)

lemma count_value_one: "count_value goal 1 = int goal"
  by (simp add: count_value_def count_eased_def js_round_nat)

lemma progress_mono: "0 < d \<Longrightarrow> now \<le> now' \<Longrightarrow> count_progress d start now \<le> count_progress d start now'"
  by (auto simp: count_progress_def min_def divide_right_mono intro: order_trans)

lemma progress_le: "count_progress d start now \<le> 1"
  by (simp add: count_progress_def)

lemma frames_from:
  assumes "0 < d" "sorted (now # nows)"
  shows "\<forall>v \<in> set (fst (count_frames d goal start nows)). count_value goal (count_progress d start now) \<le> v \<and> v \<le> int goal"
  using assms(2)
proof (induction nows arbitrary: now)
  case (Cons now' nows)
  have "count_value goal (count_progress d start now) \<le> count_value goal (count_progress d start now')"
    using Cons.prems assms(1) by (intro count_value_mono progress_mono progress_le) simp_all
  moreover have "count_value goal (count_progress d start now') \<le> int goal"
    using count_value_mono[OF progress_le order_refl] count_value_one by (simp add: progress_le)
  moreover note Cons.IH[of now']
  ultimately show ?case using Cons.prems
    by (auto simp: Let_def split_beta intro: order_trans)
qed simp

lemma frames_sorted:
  assumes "0 < d" "sorted nows"
  shows "sorted (fst (count_frames d goal start nows))"
  using assms(2)
proof (induction nows)
  case (Cons now nows)
  with frames_from[OF assms(1), of now nows goal start] show ?case by (simp add: Let_def split_beta)
qed simp

lemma frames_end:
  assumes "0 < d"
  shows "snd (count_frames d goal start nows) \<longleftrightarrow> (\<exists>now \<in> set nows. start + d \<le> now)"
  and "snd (count_frames d goal start nows) \<Longrightarrow> fst (count_frames d goal start nows) \<noteq> [] \<and> last (fst (count_frames d goal start nows)) = int goal"
proof -
  have late: "count_progress d start now < 1 \<longleftrightarrow> \<not> start + d \<le> now" for now
    using assms by (auto simp: count_progress_def min_def field_simps)
  have is_one: "\<not> count_progress d start now < 1 \<Longrightarrow> count_progress d start now = 1" for now
    using progress_le[of d start now] by simp
  show "snd (count_frames d goal start nows) \<longleftrightarrow> (\<exists>now \<in> set nows. start + d \<le> now)"
    by (induction nows) (auto simp: Let_def split_beta late)
  show "snd (count_frames d goal start nows) \<Longrightarrow> fst (count_frames d goal start nows) \<noteq> [] \<and> last (fst (count_frames d goal start nows)) = int goal"
    by (induction nows) (auto simp: Let_def split_beta is_one count_value_one split: if_splits)
qed

section \<open>Elements scrolled into view over time\<close>

definition ld_known :: "landing \<Rightarrow> reveal set" where
  "ld_known st = set (ld_in_view st) \<union> set (ld_watched st)"

lemma report_known: "ld_known (report_entry st entry) = ld_known st"
  by (auto simp: ld_known_def report_entry_def)

lemma reports_frame:
  "ld_known (foldl report_entry st entries) = ld_known st \<and> ld_elements (foldl report_entry st entries) = ld_elements st \<and>
   set (ld_in_view st) \<subseteq> set (ld_in_view (foldl report_entry st entries))"
proof (induction entries arbitrary: st)
  case (Cons entry entries)
  have "ld_elements (report_entry st entry) = ld_elements st" "set (ld_in_view st) \<subseteq> set (ld_in_view (report_entry st entry))"
    by (auto simp: report_entry_def)
  with Cons[of "report_entry st entry"] show ?case by (auto simp: report_known)
qed simp

text \<open>What the page knows of only shrinks: nothing observes an element made by a later render.\<close>

lemma known_shrinks: "ld_known (landing_step ev st) \<subseteq> ld_known st"
proof (cases ev)
  case (Report entries)
  then show ?thesis by (simp add: reports_frame)
next
  case (NewTexts copy)
  then show ?thesis by (auto simp: ld_known_def Let_def)
qed

lemma known_shrinks_run: "ld_known (landing_run es st) \<subseteq> ld_known st"
proof (induction es arbitrary: st)
  case (Cons ev es)
  from Cons[of "landing_step ev st"] known_shrinks[of ev st] show ?case by (simp add: landing_run_def)
qed (simp add: landing_run_def)

lemma known_mount: "ld_known (landing_mount at_once copy) = set (home_reveals copy)"
  by (simp add: ld_known_def landing_mount_def)

lemma reported_shown: "(e, True) \<in> set entries \<Longrightarrow> e \<in> ld_known st \<Longrightarrow> e \<in> set (ld_in_view (foldl report_entry st entries))"
proof (induction entries arbitrary: st)
  case (Cons entry entries)
  show ?case
  proof (cases "entry = (e, True)")
    case True
    then have "e \<in> set (ld_in_view (report_entry st entry))" using Cons.prems(2) by (auto simp: report_entry_def ld_known_def)
    with reports_frame[where st = "report_entry st entry" and entries = entries] show ?thesis by auto
  next
    case False
    with Cons.prems Cons.IH[of "report_entry st entry"] show ?thesis by (auto simp: report_known)
  qed
qed simp

lemma landing_run_Cons: "landing_run (ev # es) st = landing_run es (landing_step ev st)"
  and landing_run_append: "landing_run (es @ es') st = landing_run es' (landing_run es st)"
  by (simp_all add: landing_run_def)

text \<open>An element every render draws stays known, stays on the page, and stays in view once it is.\<close>

lemma drawn_always_kept:
  assumes "\<And>c. NewTexts c \<in> set es \<Longrightarrow> e \<in> set (home_reveals c)"
  shows "(e \<in> ld_known st \<longrightarrow> e \<in> ld_known (landing_run es st)) \<and>
    (e \<in> set (ld_elements st) \<longrightarrow> e \<in> set (ld_elements (landing_run es st))) \<and>
    (e \<in> set (ld_in_view st) \<longrightarrow> e \<in> set (ld_in_view (landing_run es st)))"
  using assms
proof (induction es arbitrary: st)
  case (Cons ev es)
  have "(e \<in> ld_known st \<longrightarrow> e \<in> ld_known (landing_step ev st)) \<and>
    (e \<in> set (ld_elements st) \<longrightarrow> e \<in> set (ld_elements (landing_step ev st))) \<and>
    (e \<in> set (ld_in_view st) \<longrightarrow> e \<in> set (ld_in_view (landing_step ev st)))"
  proof (cases ev)
    case (Report entries)
    then show ?thesis using reports_frame[where st = st and entries = entries] by auto
  next
    case (NewTexts c)
    then show ?thesis using Cons.prems[of c] by (simp add: ld_known_def Let_def)
  qed
  then show ?case using Cons.IH[of "landing_step ev st"] Cons.prems unfolding landing_run_Cons by auto
qed (simp add: landing_run_def)

section \<open>Links\<close>

text \<open>An address in the site: the path, and the fragment after \<open>#\<close>.\<close>

definition href_path :: "string \<Rightarrow> string" where
  "href_path href = takeWhile (\<lambda>c. c \<noteq> CHR ''#'') href"

definition href_fragment :: "string \<Rightarrow> string" where
  "href_fragment href = drop 1 (dropWhile (\<lambda>c. c \<noteq> CHR ''#'') href)"

definition opens_for :: "login_query \<Rightarrow> session \<Rightarrow> string \<Rightarrow> bool" where
  "opens_for q s href \<longleftrightarrow>
     (\<exists>v. route_view q (href_path href) s = Some (Show v) \<and>
          (href_fragment href \<noteq> '''' \<longrightarrow> v = HomePage \<and> href_fragment href \<in> set section_ids))"

lemma public_routes:
  "route_view q ''/'' s = Some (Show HomePage)" "route_view q ''/about'' s = Some (Show PublicAbout)"
  "route_view q ''/login'' s = Some (LoginGate s q)" "route_view q ''/app'' s = Some (ConsoleGate s (Show Overview))"
  by (rule route_view_static, simp add: static_routes_def)+

lemma site_opens:
  "opens_for q s ''/#product''" "opens_for q s ''/#connections''" "opens_for q s ''/#security''" "opens_for q s ''/#deploy''"
  "opens_for q s ''/about''"
  by (simp_all add: opens_for_def href_path_def href_fragment_def section_ids_def public_routes)

lemma entry_opens: "ss_booted s \<Longrightarrow> opens_for q s (entry_to (ss_auth s \<noteq> None))"
  by (cases "ss_auth s")
    (simp_all add: opens_for_def href_path_def href_fragment_def entry_to_def public_routes LoginGate_def ConsoleGate_def Let_def)

lemma footer_hrefs: "map an_href (footer_anchors copy about) = [''/#product'', ''/#connections'', ''/#security'', ''/#deploy'', ''/about'']"
  by (simp add: footer_anchors_def resolvePublicHref_def)

lemma header_hrefs: "map an_href (header_anchors t defaultPublicConfig) = [''/#product'', ''/#connections'', ''/#security'', ''/#deploy'', ''/about'']"
  by (simp add: header_anchors_def header_anchor_def defaultPublicConfig_def resolvePublicHref_def Let_def)

section \<open>The menus\<close>

lemma language_known: "normalizeInterfaceLanguage v \<in> set INTERFACE_LANGUAGE_OPTIONS"
proof -
  have "find (\<lambda>code. lower code = w) INTERFACE_LANGUAGE_OPTIONS = Some code \<Longrightarrow> code \<in> set INTERFACE_LANGUAGE_OPTIONS" for w code
    by (auto simp: find_Some_iff)
  moreover have "''en'' \<in> set INTERFACE_LANGUAGE_OPTIONS" "''zh'' \<in> set INTERFACE_LANGUAGE_OPTIONS" "''zh-TW'' \<in> set INTERFACE_LANGUAGE_OPTIONS"
    by (simp_all add: INTERFACE_LANGUAGE_OPTIONS_def)
  ultimately show ?thesis
    unfolding normalizeInterfaceLanguage_def Let_def by (auto split: option.splits)
qed

text \<open>Exactly one language is ticked, whatever the stored name of it.\<close>

lemma one_language_ticked: "map fst (filter snd (language_menu current)) = [normalizeInterfaceLanguage current]"
  using language_known[of current] by (auto simp: language_menu_def INTERFACE_LANGUAGE_OPTIONS_def)

text \<open>The page behind the menu of narrow screens is locked exactly while the menu is open.\<close>

lemma menu_locks_scroll:
  assumes "LeavePage \<notin> set es"
  shows "let st = foldl (\<lambda>st e. public_header_step e st) (public_header_start y) es in hs_overflow st = (if hs_mobileOpen st then ''hidden'' else '''')"
  using assms
proof (induction es rule: rev_induct)
  case (snoc e es)
  then show ?case by (cases e) (auto simp: Let_def set_menu_def lock_scroll_def)
qed (simp add: public_header_start_def lock_scroll_def)

section \<open>What the page keeps\<close>

lemma known_on_page:
  assumes "ld_known st \<subseteq> set (ld_elements st)"
  shows "ld_known (landing_run es st) \<subseteq> set (ld_elements (landing_run es st))"
  using assms
proof (induction es arbitrary: st)
  case (Cons ev es)
  have "ld_known (landing_step ev st) \<subseteq> set (ld_elements (landing_step ev st))"
  proof (cases ev)
    case (Report entries)
    with Cons.prems show ?thesis by (simp add: reports_frame)
  next
    case (NewTexts copy)
    then show ?thesis by (auto simp: ld_known_def Let_def)
  qed
  from Cons.IH[OF this] show ?case by (simp add: landing_run_def)
qed (simp add: landing_run_def)

lemma reports_only:
  assumes "\<forall>ev \<in> set es. \<exists>r. ev = Report r"
  shows "ld_known (landing_run es st) = ld_known st \<and> ld_elements (landing_run es st) = ld_elements st"
  using assms
proof (induction es arbitrary: st)
  case (Cons ev es)
  then obtain r where "ev = Report r" by auto
  with Cons.prems Cons.IH[of "landing_step ev st"] show ?case by (simp add: landing_run_def reports_frame)
qed (simp add: landing_run_def)

section \<open>Properties\<close>

text \<open>Texts for the examples: only the titles of the first cards matter.\<close>

definition sample_copy :: "(string \<times> string) list \<Rightarrow> home_copy" where
  "sample_copy cards =
     \<lparr>hc_badge = '''', hc_heroBody = '''', hc_viewProduct = '''', hc_highlights = [], hc_productTitle = '''', hc_productBody = '''',
      hc_capabilities = cards, hc_connectionsTitle = '''', hc_connectionsBody = '''', hc_openWorkspace = '''', hc_connectionCards = [],
      hc_securityTitle = '''', hc_securityBody = '''', hc_securityItems = [], hc_workflowEyebrow = '''', hc_workflowTitle = '''',
      hc_workflowBody = '''', hc_workflowSteps = [], hc_deployTitle = '''', hc_deployBody = '''', hc_footerBody = '''', hc_footerBuilt = '''',
      hc_footerProduct = '''', hc_footerLinks = [], hc_terminalWelcome = '''', hc_terminalStatus = ''''\<rparr>"

text \<open>The links of the public pages lead somewhere.\<close>

theorem public_links_open:
  assumes "ss_booted s"
  shows "(let authenticated = (ss_auth s \<noteq> None); home = home_page t copy (public_config_view None) authenticated setup;
              about = about_page t acopy (public_config_view None) authenticated setup
          in list_all (opens_for q s)
               ([fst (hw_entry (hp_header home)), fst (hw_menu_entry (hp_header home)), fst (hv_entry (hp_hero home)), fst (wv_entry (hp_workspace home)), fst (cv_entry (hp_cta home)), fst (ap_entry about)]
                @ map an_href (hw_links (hp_header home) @ butlast (hp_links home) @ hw_links (ap_header about))))
    \<and> list_all (\<lambda>a. an_target a = None \<or> an_rel a = Some ''noreferrer'')
        (hw_links (hp_header (home_page t copy pc auth setup)) @ hp_links (home_page t copy pc auth setup))"
proof (intro conjI)
  show "let authenticated = (ss_auth s \<noteq> None); home = home_page t copy (public_config_view None) authenticated setup;
      about = about_page t acopy (public_config_view None) authenticated setup
    in list_all (opens_for q s)
         ([fst (hw_entry (hp_header home)), fst (hw_menu_entry (hp_header home)), fst (hv_entry (hp_hero home)), fst (wv_entry (hp_workspace home)), fst (cv_entry (hp_cta home)), fst (ap_entry about)]
          @ map an_href (hw_links (hp_header home) @ butlast (hp_links home) @ hw_links (ap_header about)))"
    by (simp add: home_page_def about_page_def public_header_def hero_section_def connection_workspace_def cta_section_def Let_def
        public_config_view_def footer_hrefs header_hrefs site_opens entry_opens[OF assms] del: not_None_eq)
  show "list_all (\<lambda>a. an_target a = None \<or> an_rel a = Some ''noreferrer'')
      (hw_links (hp_header (home_page t copy pc auth setup)) @ hp_links (home_page t copy pc auth setup))"
    by (auto simp: home_page_def public_header_def footer_anchors_def github_anchor_def header_anchors_def header_anchor_def list_all_iff Let_def)
qed

theorem public_links_open_witness:
  "opens_for \<lparr>lq_reauth = None, lq_next = None\<rparr> \<lparr>ss_booted = True, ss_auth = None\<rparr> ''/login''"
  using public_links_open[of "\<lparr>ss_booted = True, ss_auth = None\<rparr>" "\<lambda>k. k" _ False _ "\<lparr>lq_reauth = None, lq_next = None\<rparr>"]
  by (simp add: home_page_def hero_section_def entry_to_def Let_def)

text \<open>C39 The demonstration of the home page: a tab that is not the shown one stops the cycle for good, and its demonstration is shown
  from the end of the transition on, however long nothing else is chosen. A click on the shown tab is ignored: it
  neither stops the cycle nor a change that is on its way (\<open>shown_demo_not_kept\<close>). In every run the shown one is one of
  the four, and at most one change is on its way, exactly while the picture is blanked.
\<close>

theorem demo_choice_stays:
  assumes "i < demo_count"
  shows "let st = demo_run es (demo_start reducedMotion)
    in dm_active st < length (demos copy) \<and> length (dm_timers st) \<le> 1 \<and> (dm_transitioning st \<longleftrightarrow> dm_timers st \<noteq> []) \<and>
       (i = dm_active st \<longrightarrow> demo_run [DemoTab i] st = st) \<and>
       (i \<noteq> dm_active st \<and> TRANSITION_MS \<le> n \<longrightarrow> demo_shown copy (demo_run (DemoTab i # replicate n Millisecond) st) = (demos copy ! i, False))"
proof -
  let ?st = "demo_run es (demo_start reducedMotion)"
  have sound: "demo_ok ?st" by (intro demo_ok_run demo_ok_start)
  then have "dm_active ?st < length (demos copy)" by (simp add: demo_ok_def demos_def demo_count_def)
  moreover have "i = dm_active ?st \<longrightarrow> demo_run [DemoTab i] ?st = ?st" by (simp add: demo_run_def [of "[_]"] handleSelectDemo_def)
  moreover have "length (dm_timers ?st) \<le> 1 \<and> (dm_transitioning ?st \<longleftrightarrow> dm_timers ?st \<noteq> [])"
    using sound by (cases rule: demo_ok_cases) simp_all
  moreover have "demo_run (DemoTab i # replicate n Millisecond) ?st = (demo_ms ^^ n) (handleSelectDemo i ?st)"
    using assms demo_run_ms[of n "handleSelectDemo i ?st"] by (simp add: demo_run_def)
  ultimately show ?thesis using select_other[OF sound assms] by (simp add: Let_def demo_shown_def)
qed

theorem demo_choice_stays_witness:
  "demo_shown (sample_copy []) (demo_run (DemoTab 2 # replicate 5000 Millisecond) (demo_start False)) = (demos (sample_copy []) ! 2, False)"
  using demo_choice_stays[of 2 "[]" False "sample_copy []" 5000] by (simp add: demo_run_def demo_start_def demo_numbers Let_def)

text \<open>Choosing the demonstration that is shown, while the next one is about to come, does not keep it.\<close>

theorem shown_demo_not_kept:
  "dm_active (demo_run (replicate (m * CYCLE_INTERVAL + CYCLE_INTERVAL) Millisecond @ [DemoTab (m mod demo_count)] @ replicate TRANSITION_MS Millisecond)
    (demo_start False)) = (m + 1) mod demo_count"
proof -
  let ?st = "demo_run (replicate (m * CYCLE_INTERVAL + CYCLE_INTERVAL) Millisecond) (demo_start False)"
  have at: "at_tick (m mod demo_count) ?st" using at_tick_all[of m] by (simp add: demo_run_ms add.commute)
  then have "demo_run [DemoTab (m mod demo_count)] ?st = ?st" by (simp add: demo_run_def handleSelectDemo_def at_tick_def)
  then have "demo_run (replicate (m * CYCLE_INTERVAL + CYCLE_INTERVAL) Millisecond @ [DemoTab (m mod demo_count)] @ replicate TRANSITION_MS Millisecond)
      (demo_start False) = (demo_ms ^^ TRANSITION_MS) ?st"
    by (simp only: demo_run_append demo_run_ms)
  with at_tick_switched[OF at] show ?thesis by (auto simp: mod_Suc_eq)
qed

text \<open>A counter never goes back or past its figure, and shows the figure exactly when its animation ends.\<close>

theorem counter_counts_up:
  assumes "sorted (start # nows)"
  shows "let (vs, ended) = count_frames 1600 goal start nows
    in sorted vs \<and> set vs \<subseteq> {0..int goal} \<and> (ended \<longleftrightarrow> (\<exists>now \<in> set nows. start + 1600 \<le> now)) \<and> (ended \<longrightarrow> vs \<noteq> [] \<and> last vs = int goal)"
proof -
  have "count_progress 1600 start start = 0" by (simp add: count_progress_def)
  then have "set (fst (count_frames 1600 goal start nows)) \<subseteq> {0..int goal}"
    using frames_from[of 1600 start nows goal start] assms count_value_zero by auto
  moreover have "sorted (fst (count_frames 1600 goal start nows))" using assms by (intro frames_sorted) simp_all
  ultimately show ?thesis using frames_end[of 1600 goal start nows] by (simp add: split_beta)
qed

theorem counter_counts_up_witness:
  "let (vs, ended) = count_frames 1600 23876 0 [800, 1600] in sorted vs \<and> ended \<and> last vs = 23876"
  using counter_counts_up[of 0 "[800, 1600]" 23876] by (auto simp: split_beta)

text \<open>C40 An element of the home page that every render draws is shown for good once it was reported in view, whatever reports and changes of
  language come before and after. An element that some render did not draw, and that a later change of language makes
  anew, is not watched any more: it is shown only where reduced motion is preferred, for which the style sheet
  draws every element, and stays transparent otherwise, however often it is scrolled into view.
\<close>

theorem language_change_hides_cards:
  shows "(e \<in> set (home_reveals copy) \<and> (\<forall>c. NewTexts c \<in> set (es @ es') \<longrightarrow> e \<in> set (home_reveals c)) \<and> (e, True) \<in> set entries \<longrightarrow>
      element_visible reducedMotion (landing_run (es @ Report entries # es') (landing_mount at_once copy)) e)
    \<and> (let st = landing_run es (landing_mount at_once copy)
       in e \<notin> set (ld_elements st) \<longrightarrow>
          (element_visible reducedMotion (landing_run es' st) e \<longleftrightarrow> reducedMotion \<and> e \<in> set (ld_elements (landing_run es' st))))"
proof (intro conjI impI; (elim conjE)?)
  let ?st = "landing_run es (landing_mount at_once copy)"
  assume e: "e \<in> set (home_reveals copy)" "(e, True) \<in> set entries"
    and drawn: "\<forall>c. NewTexts c \<in> set (es @ es') \<longrightarrow> e \<in> set (home_reveals c)"
  have "e \<in> ld_known ?st" "e \<in> set (ld_elements ?st)"
    using drawn_always_kept[of es e "landing_mount at_once copy"] drawn e(1) by (auto simp: known_mount) (auto simp: landing_mount_def)
  then have "e \<in> set (ld_in_view (landing_step (Report entries) ?st))" "e \<in> set (ld_elements (landing_step (Report entries) ?st))"
    using reported_shown[OF e(2)] by (simp_all add: reports_frame)
  then show "element_visible reducedMotion (landing_run (es @ Report entries # es') (landing_mount at_once copy)) e"
    using drawn_always_kept[of es' e "landing_step (Report entries) ?st"] drawn
    unfolding landing_run_append landing_run_Cons by (simp add: element_visible_def)
next
  let ?st = "landing_run es (landing_mount at_once copy)"
  have "ld_known ?st \<subseteq> set (ld_elements ?st)" by (rule known_on_page) (simp add: landing_mount_def ld_known_def)
  then show "let st = ?st in e \<notin> set (ld_elements st) \<longrightarrow>
      (element_visible reducedMotion (landing_run es' st) e \<longleftrightarrow> reducedMotion \<and> e \<in> set (ld_elements (landing_run es' st)))"
    using known_shrinks_run[of es' ?st] by (auto simp: Let_def element_visible_def ld_known_def)
qed

text \<open>A card whose French title differs from its English one.\<close>

theorem language_change_hides_cards_witness:
  "let e = Keyed ''capabilities'' ''Actifs unifies''; en = sample_copy [(''Unified assets'', '''')]; fr = sample_copy [(''Actifs unifies'', '''')];
       st = landing_run [NewTexts fr, Report [(e, True)]] (landing_mount False en)
   in e \<in> set (ld_elements st) \<and> \<not> element_visible False st e"
  using language_change_hides_cards[of "Keyed ''capabilities'' ''Actifs unifies''" "sample_copy [(''Unified assets'', '''')]" "[]"
      "[NewTexts (sample_copy [(''Actifs unifies'', '''')]), Report [(Keyed ''capabilities'' ''Actifs unifies'', True)]]" "[]" False False]
  by (simp add: landing_run_def landing_mount_def home_reveals_def sample_copy_def Let_def report_entry_def)


end
