(* ===== verification/Spec2Isabelle.thy ===== *)
theory Spec2Isabelle
  imports Operations Navigation Platform Metadata ConfigForms Trees Paths Columns Table Prompts Codec Preferences Session SignIn Workspace RemoteFiles Desktop StorageFiles DataTable SettingsPage AccessPortal Backups SystemSettings ItemDialog ConsolePages SettingsInputs WorkspaceScreens ReportPages DialogScreens Frame PublicSite
begin

text \<open>
  The web console of Open Web Server Manager (\<open>src/frontend/src\<close>), a React single-page application. Paths below are
  relative to that directory.

  \<^bold>\<open>How the program is put together.\<close> \<open>app/app-provider.tsx\<close> keeps who is signed in and what the server sent at the start,
  in the caches of a query library; \<open>routes/router.tsx\<close> decides by path, signed-in user and role which screen is drawn;
  every screen asks \<open>lib/rbac.ts\<close> what the role may do, talks to the server through \<open>lib/api.ts\<close> and reports errors to
  the provider. Most screens are one generic component, \<open>PlatformPage\<close> of \<open>features/console/platform-page.tsx\<close>: the
  table, the editor and the dialogs of every collection of the registry \<open>lib/platform.ts\<close>. Beside it stand the settings
  page, the sign-in page, the session screen (terminal, file manager, remote desktop) and the access page of an ordinary user.

  \<^bold>\<open>How it is modelled.\<close> A component's React state is a record; a handler is a function from that state and the log of
  what happened so far to both; what a component draws is a list computed from the state. Texts are lists of UTF-8
  bytes, JavaScript values the datatype \<open>jsval\<close>, numbers rationals with the special values of JavaScript. A
  handler that awaits several answers in turn runs in one go where its answers cannot be overtaken by anything that
  matters, and is cut at the awaits into a step relation where they can (file manager, backups, prompts, notifications,
  agent tokens). Where a handler uses values captured by the render that drew its button, that state is an argument
  of its own (\<open>now\<close>), different from the state it changes.

  \<^bold>\<open>Parameters.\<close> Code that is not in the repository is an argument of the definitions that use it:
  \<^item> the server, the person asked to confirm and the second-factor prompt: \<open>env\<close>, a function of the log, so that every
    answer may depend on everything before it; no property about handlers restricts it (the token dialog, a step relation,
    is shown never to rest while the server issues tokens, and takes from \<open>internal/app/agent_gateways.go\<close> that issuing one changes
    the gateway's record);
  \<^item> the URL parser of the browser (\<open>url_parser\<close>, \<open>address_parser\<close>), \<open>encodeURIComponent\<close>, \<open>localeCompare\<close>,
    \<open>Date\<close> formatting and \<open>toISOString\<close>, the Web Authentication calls, the clipboard, popup windows;
  \<^item> the caches of the query library (\<open>query_client\<close>, with \<open>query_client_laws\<close>: a written entry is read back, a removed one
    is gone, one that could not be read is marked, other entries stay), instantiated by \<open>tuple_client\<close>;
  \<^item> the table library (\<open>DataTable\<close>), with the documented laws of its row models as named hypotheses and an instance;
  \<^item> the Guacamole client and the recording player, as the calls they receive.

  \<^bold>\<open>Theories.\<close>
  Foundations:
  \<^item> \<open>Prelude\<close>: JavaScript's string operations and the locale \<open>codec\<close> of round trips;
  \<^item> \<open>JsValue\<close>, \<open>Json\<close>: values, coercions, objects with ordered keys; \<open>JSON.parse\<close> and \<open>JSON.stringify(v, null, 2)\<close>. The parser carries
    fuel, two units per character and two more; \<open>parse_value_fuel\<close> shows that more never changes the result, and
    \<open>json_roundtrip\<close> that what was printed is read back;
  \<^item> \<open>Effects\<close>: the log, \<open>apiRequest\<close> with its errors (\<open>lib/api.ts\<close>) and the second-factor retry (\<open>features/access/access-mfa.tsx\<close>);
  \<^item> \<open>Transfers\<close>: file transfers sent by \<open>fetch\<close> itself, with the errors they build;
  \<^item> \<open>Handlers\<close>: \<open>try/catch/finally\<close> bodies as sequences of updates, actions and awaits, with two calculi of rules: what a
    body sends (\<open>sends_rules\<close>) and what it keeps (\<open>keeps_rules\<close>);
  \<^item> \<open>Controls\<close>: inputs as values, and the locale \<open>form_inputs\<close>: an input shows what was entered, and inputs that are not
    linked leave each other alone. The forms of \<open>SystemSettings\<close>, \<open>SettingsInputs\<close> and \<open>ItemDialog\<close> interpret it.

  Who may do what:
  \<^item> \<open>Pages\<close> (\<open>lib/platform.ts\<close>), \<open>Rbac\<close> (\<open>lib/rbac.ts\<close>: path patterns, permission strings, menus; \<open>pathMatches_meaning\<close> compares the
    matcher with the set of paths a pattern denotes; the case table of \<open>scripts/check-rbac-permissions.mjs\<close> is evaluated), \<open>Navigation\<close>
    (\<open>routes/router.tsx\<close>, side bar, command palette: gates as functions from session and path to a screen or redirect).

  The generic console page (\<open>features/console/platform-page.tsx\<close>):
  \<^item> \<open>Platform\<close>: records, the editor's form and both conversions; \<open>Metadata\<close>: edits of single keys of the JSON text;
    \<open>ConfigForms\<close>: the forms read from and written to metadata; \<open>ItemDialog\<close>: every input of the editor for every
    collection and the checks of OpenID clients;
  \<^item> \<open>Trees\<close>: department and asset-group trees, by the locale \<open>tree_builder\<close>. The recursion carries fuel, the number of records plus one,
    which suffices for cyclic parent links as well because each visit marks a record (\<open>department_tree_complete\<close>);
  \<^item> \<open>Columns\<close>, \<open>Paths\<close>: the texts of the columns, paths, quoting and sizes; \<open>Table\<close>: rights, handlers and buttons of the table;
  \<^item> \<open>Dialogs\<close>, \<open>Certificates\<close>, \<open>Gateways\<close>, \<open>AgentToken\<close>, \<open>Operations\<close>: the dialogs of the table and their dispatch; dialogs with one
    request are instances of the locale \<open>submit_dialog\<close>; \<open>DialogScreens\<close>: their inputs, buttons and panels, with the locale
    \<open>visible_form\<close> for dialogs that send what they show; \<open>Prompts\<close>: dialogs that hand out promises (\<open>promise_dialog\<close>);
  \<^item> \<open>StorageFiles\<close>, \<open>AccessPortal\<close>, \<open>Backups\<close>, \<open>SystemSettings\<close>: the file dialog of a storage, the access page with its tools, the
    backups page and the system settings page; \<open>ReportPages\<close>: monitoring and access statistics (one locale, \<open>load_screen\<close>, for
    their loading in any order of answers), tool results, access cards, and the list and buttons of the backups page.

  The other screens:
  \<^item> \<open>Session\<close> (\<open>app/app-provider.tsx\<close>), \<open>Preferences\<close> (stores, languages, small modules), \<open>SignIn\<close> (\<open>features/auth/auth-page.tsx\<close>), \<open>Codec\<close>
    (\<open>lib/codec.ts\<close>, \<open>lib/passkeys.ts\<close>: base64 and the streaming decoder);
  \<^item> \<open>Workspace\<close>, \<open>RemoteFiles\<close>, \<open>Desktop\<close> (\<open>features/workspace/workspace-view.tsx\<close>): the session screen and terminal, the SFTP file manager,
    the remote desktop; \<open>WorkspaceScreens\<close>: their dialogs and the window events between the bar and them (\<open>screen_is_step\<close>: the
    drawn file dialog is a simulation of the file manager's step relation, which gives \<open>file_panels_exclusive\<close>). The user's answer to the
    question of a deletion is an event of that relation, recorded before the handler goes on;
  \<^item> \<open>Settings\<close>, \<open>SettingsPage\<close>, \<open>SettingsInputs\<close> (\<open>features/console/settings-page.tsx\<close>, \<open>components/layout/appearance-drawer.tsx\<close>): forms and
    validators; loads, handlers and live buttons, with the locale \<open>page_invariant\<close> for conditions that every handler keeps; what every
    section draws and the life of the screen;
  \<^item> \<open>Servers\<close> (\<open>servers-page.tsx\<close>, \<open>modals/modal-host.tsx\<close>), \<open>ConsolePages\<close> (overview, sessions, audit, header, drawer, profile menu,
    notifications), \<open>Frame\<close> (side bar, command palette, the views of a table page), \<open>DataTable\<close>
    (\<open>components/data-table/data-table.tsx\<close>);
  \<^item> \<open>PublicSite\<close> (\<open>features/home/home-page.tsx\<close>, \<open>features/about/about-page.tsx\<close>, \<open>components/layout/public-header.tsx\<close>, the menus of
    language and theme): links, texts, and what changes by timers, frames and scrolling, one event a millisecond, a frame or a report.

  \<^bold>\<open>What is shown.\<close>
  \<^item> Permissions: every enabled button of the table's header and rows, of its dialogs, of the settings page and of the system settings sends only
    requests the role may send, whatever the server answers (\<open>buttons_send_permitted_requests\<close>, \<open>dialog_requests_permitted\<close>,
    \<open>settings_requests_permitted\<close>); the reload of the console's data is the provider's, and the deletion of all selected rows, which asks for
    a placeholder path, is not among them; no console screen without a signed-in user; menus and links lead only to screens that open.
  \<^item> Destructive steps: deletions of the SFTP file manager, restores of archives and windows opened for web assets follow their
    confirmations and checks in every interleaving of answers, by rule induction over the step relations. The drive of a desktop deletes unasked.
  \<^item> Data: saving an unchanged form sends what was read, but for an empty status and for blank tags and tags with commas; secrets are sent only
    when typed, and never together with the order to clear them.
  \<^item> State: no stuck keys, one save at a time, promises settled once, retention days in range, columns never all hidden; after signing out
    the next answer of the server decides who is signed in (\<open>logout_follows_server\<close>).
  \<^item> Faults: some theorems state what the code does where it does not do what it means to (an effect that reissues a token forever, a
    switch that comes back, edits discarded on saving, a server added twice, cards a change of language leaves transparent).

  \<^bold>\<open>Not modelled.\<close> Markup, styles and icons, and animations without a state of their own; the interface texts
  (\<open>i18n/resources.ts\<close>; a text is named by its key); the components of \<open>components/ui\<close> apart from the confirmation dialog; drawing
  and mouse of the remote desktop and the terminal emulator, which belong to their libraries; the Go server, another language, which is
  the parameter \<open>env\<close>; build files and vendored code. The number of UTF-16 units of a text is computed from its bytes; slices that
  would cut a surrogate pair in half are left out where they are noted.
\<close>

end
